(* ===== verification/Registry_Prelude.thy ===== *)
theory Registry_Prelude
  imports Main "HOL-Library.Word" "HOL-Library.Multiset" "HOL-Library.List_Lexorder"
begin

text \<open>
  What every component of the development shares: JavaScript strings as lists of UTF-16 code
  units, the few string and array operations of the standard library the sources use, and
  results that are either an error or a value.

  A JavaScript string is a sequence of 16-bit code units, so \<open>js_string\<close> is a list of 16-bit
  words; \<open>js\<close> turns an ASCII literal into one. The comparison operators of JavaScript on strings
  compare code units lexicographically, which is the order that List_Lexorder puts on lists.
\<close>

section \<open>Collections of facts\<close>

named_theorems guard_simps \<open>definitions of guards, unfolded together\<close>
named_theorems js_simps \<open>evaluation of the modelled JavaScript library functions\<close>

section \<open>JavaScript strings\<close>

type_synonym code_unit = "16 word"
type_synonym js_string = "code_unit list"

definition js :: "string \<Rightarrow> js_string" where
  "js s = map of_char s"

lemma of_char_nat_less: "(of_char c :: nat) < 256"
  by (subst of_char_mod_256 [symmetric]) (rule mod_less_divisor, simp)

lemma of_char_code_unit_inj: "(of_char c :: code_unit) = of_char d \<longleftrightarrow> c = d"
proof
  assume "(of_char c :: code_unit) = of_char d"
  then have "(word_of_nat (of_char c) :: code_unit) = word_of_nat (of_char d)"
    by (simp only: of_nat_of_char)
  then have "(of_char c :: nat) mod 2 ^ 16 = of_char d mod 2 ^ 16"
    by (simp add: word_of_nat_eq_iff take_bit_eq_mod)
  then have "(of_char c :: nat) = of_char d"
    using of_char_nat_less [of c] of_char_nat_less [of d] by simp
  then show "c = d"
    by simp
qed simp

lemma js_eq_iff [simp]: "js s = js t \<longleftrightarrow> s = t"
  unfolding js_def
  by (rule inj_map_eq_map) (simp add: inj_def of_char_code_unit_inj)

lemma js_append: "js (s @ t) = js s @ js t"
  by (simp add: js_def)

lemma js_eq_Nil_iff [simp]: "js s = [] \<longleftrightarrow> s = []" "[] = js s \<longleftrightarrow> s = []"
  by (auto simp: js_def)

text \<open>
  \<open>String.prototype.trim\<close> removes white space and line terminators at both ends: the code points
  of ECMAScript's \<open>WhiteSpace\<close> and \<open>LineTerminator\<close>, each of which is one code unit.
\<close>

definition js_whitespace :: "code_unit \<Rightarrow> bool" where
  "js_whitespace c \<longleftrightarrow>
     (9 \<le> c \<and> c \<le> 13) \<or> c = 0x20 \<or> c = 0xA0 \<or> c = 0x1680 \<or> (0x2000 \<le> c \<and> c \<le> 0x200A) \<or>
     c = 0x2028 \<or> c = 0x2029 \<or> c = 0x202F \<or> c = 0x205F \<or> c = 0x3000 \<or> c = 0xFEFF"

definition js_trim :: "js_string \<Rightarrow> js_string" where
  "js_trim s = rev (dropWhile js_whitespace (rev (dropWhile js_whitespace s)))"

lemma js_trim_eq_Nil_iff: "js_trim s = [] \<longleftrightarrow> (\<forall>c \<in> set s. js_whitespace c)"
proof -
  have "js_trim s = [] \<longleftrightarrow> (\<forall>c \<in> set (dropWhile js_whitespace s). js_whitespace c)"
    by (simp add: js_trim_def dropWhile_eq_Nil_conv)
  also have "\<dots> \<longleftrightarrow> (\<forall>c \<in> set s. js_whitespace c)"
  proof
    assume all: "\<forall>c \<in> set (dropWhile js_whitespace s). js_whitespace c"
    have "dropWhile js_whitespace s = []"
    proof (rule ccontr)
      assume ne: "dropWhile js_whitespace s \<noteq> []"
      then have "\<not> js_whitespace (hd (dropWhile js_whitespace s))" by (rule hd_dropWhile)
      with all ne show False by simp
    qed
    then show "\<forall>c \<in> set s. js_whitespace c" by (simp add: dropWhile_eq_Nil_conv)
  next
    assume "\<forall>c \<in> set s. js_whitespace c"
    then show "\<forall>c \<in> set (dropWhile js_whitespace s). js_whitespace c"
      by (auto dest: set_dropWhileD)
  qed
  finally show ?thesis .
qed

definition js_blank :: "js_string \<Rightarrow> bool" where
  "js_blank s \<longleftrightarrow> js_trim s = []"

lemma js_blank_Nil [simp]: "js_blank []"
  by (simp add: js_blank_def js_trim_eq_Nil_iff)

lemma js_blank_iff: "js_blank s \<longleftrightarrow> list_all js_whitespace s"
  by (simp add: js_blank_def js_trim_eq_Nil_iff list_all_iff)

definition js_starts_with :: "js_string \<Rightarrow> js_string \<Rightarrow> bool" where
  "js_starts_with s p \<longleftrightarrow> take (length p) s = p"

lemma js_starts_with_js [simp]: "js_starts_with (js s) (js p) \<longleftrightarrow> take (length p) s = p"
  by (simp add: js_starts_with_def js_def take_map inj_map_eq_map inj_def of_char_code_unit_inj)

text \<open>\<open>Array.prototype.join\<close> with a separator.\<close>

fun js_join :: "js_string \<Rightarrow> js_string list \<Rightarrow> js_string" where
  "js_join sep [] = []"
| "js_join sep [x] = x"
| "js_join sep (x # y # xs) = x @ sep @ js_join sep (y # xs)"

text \<open>
  \<open>String.prototype.toLowerCase\<close>, for ASCII letters. It is used here on hexadecimal digits and host
  names, and no other character becomes a hexadecimal digit by it.
\<close>

definition js_lower :: "js_string \<Rightarrow> js_string" where
  "js_lower s = map (\<lambda>c. if 0x41 \<le> c \<and> c \<le> 0x5A then c + 0x20 else c) s"

text \<open>The decimal digits of a number, as \<open>String(n)\<close> prints a small natural number.\<close>

fun js_decimal :: "nat \<Rightarrow> js_string" where
  "js_decimal n = (if n < 10 then [48 + of_nat n] else js_decimal (n div 10) @ [48 + of_nat (n mod 10)])"

declare js_decimal.simps [simp del]

definition js_digit :: "code_unit \<Rightarrow> bool" where
  "js_digit c \<longleftrightarrow> 48 \<le> c \<and> c \<le> 57"

definition decimal_value :: "js_string \<Rightarrow> nat" where
  "decimal_value s = foldl (\<lambda>n c. 10 * n + (unat c - 48)) 0 s"

lemma decimal_value_snoc: "decimal_value (s @ [c]) = 10 * decimal_value s + (unat c - 48)"
  by (simp add: decimal_value_def)

lemma decimal_positive: "p \<noteq> [] \<Longrightarrow> 49 \<le> hd p \<Longrightarrow> list_all js_digit p \<Longrightarrow> decimal_value p > 0"
proof (induction p rule: rev_induct)
  case (snoc c p)
  then show ?case by (cases "p = []") (auto simp: decimal_value_snoc decimal_value_def word_le_nat_alt)
qed simp

lemma unat_digit: "n < 10 \<Longrightarrow> unat (48 + word_of_nat n :: code_unit) = 48 + n"
  by (simp add: unat_word_ariths unat_of_nat)

lemma js_decimal_digits: "list_all js_digit (js_decimal n) \<and> js_decimal n \<noteq> []"
proof (induction n rule: js_decimal.induct)
  case (1 n)
  have digit: "m < 10 \<Longrightarrow> js_digit (48 + word_of_nat m)" for m
    by (simp add: js_digit_def word_le_nat_alt unat_digit)
  show ?case
    using 1 digit [of n] digit [of "n mod 10"] by (subst (1 2) js_decimal.simps) auto
qed

lemma decimal_value_js_decimal: "decimal_value (js_decimal n) = n"
proof (induction n rule: js_decimal.induct)
  case (1 n)
  show ?case
  proof (cases "n < 10")
    case True
    then show ?thesis by (subst js_decimal.simps) (simp add: decimal_value_def unat_digit)
  next
    case False
    then have "decimal_value (js_decimal n) = 10 * (n div 10) + n mod 10"
      using 1 by (subst js_decimal.simps) (simp add: decimal_value_snoc unat_digit)
    then show ?thesis by simp
  qed
qed

section \<open>Sets that keep insertion order\<close>

text \<open>\<open>[...new Set(xs)]\<close>: the first occurrence of each element, in order.\<close>

fun uniq_onto :: "'a list \<Rightarrow> 'a list \<Rightarrow> 'a list" where
  "uniq_onto acc [] = acc"
| "uniq_onto acc (x # xs) = uniq_onto (if x \<in> set acc then acc else acc @ [x]) xs"

definition js_uniq :: "'a list \<Rightarrow> 'a list" where
  "js_uniq xs = uniq_onto [] xs"

lemma set_uniq_onto: "set (uniq_onto acc xs) = set acc \<union> set xs"
  by (induction xs arbitrary: acc) auto

lemma distinct_uniq_onto: "distinct acc \<Longrightarrow> distinct (uniq_onto acc xs)"
  by (induction xs arbitrary: acc) auto

lemma set_js_uniq [simp]: "set (js_uniq xs) = set xs"
  by (simp add: js_uniq_def set_uniq_onto)

lemma distinct_js_uniq [simp]: "distinct (js_uniq xs)"
  by (simp add: js_uniq_def distinct_uniq_onto)

lemma js_uniq_eq_Nil_iff [simp]: "js_uniq xs = [] \<longleftrightarrow> xs = []"
  by (metis set_empty set_js_uniq)

lemma sort_Nil_iff [simp]: "sort (xs :: 'a :: linorder list) = [] \<longleftrightarrow> xs = []"
  by (metis set_empty set_sort)

lemma sort_js_uniq_cong:
  assumes "set xs = set ys"
  shows "sort (js_uniq xs) = sort (js_uniq ys)"
  by (rule sorted_distinct_set_unique) (use assms in auto)

section \<open>Results\<close>

text \<open>A call that may throw returns \<open>Inl\<close> of the error or \<open>Inr\<close> of the value.\<close>

fun and_then :: "'e + 'a \<Rightarrow> ('a \<Rightarrow> 'e + 'b) \<Rightarrow> 'e + 'b" where
  "and_then (Inl e) f = Inl e"
| "and_then (Inr x) f = f x"

lemma and_then_eq_Inr_iff: "and_then r f = Inr y \<longleftrightarrow> (\<exists>x. r = Inr x \<and> f x = Inr y)"
  by (cases r) auto

lemma guard_eq_Inr_iff: "(if P then Inl e else r) = Inr x \<longleftrightarrow> \<not> P \<and> r = Inr x"
  by simp

lemma and_then_eq_Inl_iff:
  "and_then r f = Inl e \<longleftrightarrow> r = Inl e \<or> (\<exists>x. r = Inr x \<and> f x = Inl e)"
  by (cases r) auto

text \<open>Mapping a throwing function over an array stops at the first error.\<close>

fun traverse :: "('a \<Rightarrow> 'e + 'b) \<Rightarrow> 'a list \<Rightarrow> 'e + 'b list" where
  "traverse f [] = Inr []"
| "traverse f (x # xs) = and_then (f x) (\<lambda>y. and_then (traverse f xs) (\<lambda>ys. Inr (y # ys)))"

lemma traverse_cong [fundef_cong]:
  "xs = ys \<Longrightarrow> (\<And>x. x \<in> set ys \<Longrightarrow> f x = g x) \<Longrightarrow> traverse f xs = traverse g ys"
  by (induction ys arbitrary: xs) auto

lemma traverse_eq_Inr_iff:
  "traverse f xs = Inr ys \<longleftrightarrow> list_all2 (\<lambda>x y. f x = Inr y) xs ys"
  by (induction xs arbitrary: ys) (auto simp: and_then_eq_Inr_iff list_all2_Cons1)

lemma list_all2_target: "list_all2 P xs ys \<Longrightarrow> y \<in> set ys \<Longrightarrow> \<exists>x \<in> set xs. P x y"
  by (induction rule: list_all2_induct) auto

lemma list_all2_choice: "\<forall>x \<in> set xs. \<exists>y. P x y \<Longrightarrow> \<exists>ys. list_all2 P xs ys"
proof (induction xs)
  case (Cons x xs)
  then obtain y ys where "P x y" "list_all2 P xs ys" by auto
  then have "list_all2 P (x # xs) (y # ys)" by simp
  then show ?case by blast
qed (auto intro: exI [of _ "[]"])

lemma traverse_Inr_map: "(\<And>x. x \<in> set xs \<Longrightarrow> f x = Inr (g x)) \<Longrightarrow> traverse f xs = Inr (map g xs)"
  by (induction xs) auto

section \<open>Lists\<close>

text \<open>The positions of the elements that satisfy a test, in increasing order.\<close>

fun indexes_from :: "nat \<Rightarrow> ('a \<Rightarrow> bool) \<Rightarrow> 'a list \<Rightarrow> nat list" where
  "indexes_from n p [] = []"
| "indexes_from n p (x # xs) = (if p x then n # indexes_from (Suc n) p xs else indexes_from (Suc n) p xs)"

lemma set_indexes_from: "set (indexes_from n p xs) = {n + i | i. i < length xs \<and> p (xs ! i)}"
proof (induction xs arbitrary: n)
  case Nil
  then show ?case by simp
next
  case (Cons x xs)
  have "{n + i | i. i < length (x # xs) \<and> p ((x # xs) ! i)} =
    (if p x then {n} else {}) \<union> {Suc n + i | i. i < length xs \<and> p (xs ! i)}" (is "?L = ?R")
  proof (rule set_eqI)
    fix k
    show "k \<in> ?L \<longleftrightarrow> k \<in> ?R"
    proof
      assume "k \<in> ?L"
      then obtain i where "k = n + i" "i < length (x # xs)" "p ((x # xs) ! i)" by blast
      then show "k \<in> ?R" by (cases i) auto
    next
      assume "k \<in> ?R"
      then consider "p x" "k = n" | i where "k = Suc n + i" "i < length xs" "p (xs ! i)"
        by (auto split: if_splits)
      then show "k \<in> ?L"
      proof cases
        case 1
        then have "k = n + 0 \<and> 0 < length (x # xs) \<and> p ((x # xs) ! 0)" by simp
        then show ?thesis by blast
      next
        case 2
        then have "k = n + Suc i \<and> Suc i < length (x # xs) \<and> p ((x # xs) ! Suc i)" by simp
        then show ?thesis by blast
      qed
    qed
  qed
  then show ?case by (simp add: Cons.IH)
qed

lemma indexes_from_eq_Nil_iff [simp]: "indexes_from n p xs = [] \<longleftrightarrow> (\<forall>x \<in> set xs. \<not> p x)"
  by (induction xs arbitrary: n) auto

text \<open>
  \<open>xs.reduce((worst, current) => rank(current) < rank(worst) ? current : worst)\<close> on a
  non-empty array: the first element of least rank.
\<close>

fun least_by :: "('a \<Rightarrow> int) \<Rightarrow> 'a \<Rightarrow> 'a list \<Rightarrow> 'a" where
  "least_by r w [] = w"
| "least_by r w (x # xs) = least_by r (if r x < r w then x else w) xs"

lemma least_by_mem: "least_by r w xs \<in> insert w (set xs)"
  by (induction xs arbitrary: w) (auto split: if_splits)

lemma least_by_le: "x \<in> insert w (set xs) \<Longrightarrow> r (least_by r w xs) \<le> r x"
proof (induction xs arbitrary: w x)
  case Nil
  then show ?case by simp
next
  case (Cons y ys)
  let ?w = "if r y < r w then y else w"
  show ?case
  proof (cases "x \<in> set ys")
    case True
    then show ?thesis by (simp add: Cons.IH)
  next
    case False
    with Cons.prems have "x = w \<or> x = y" by auto
    moreover have "r (least_by r ?w ys) \<le> r ?w"
      by (rule Cons.IH) simp
    ultimately show ?thesis by (auto split: if_splits)
  qed
qed

lemma find_eq_None_iff: "find p xs = None \<longleftrightarrow> (\<forall>x \<in> set xs. \<not> p x)"
  by (induction xs) auto

lemma find_Some_set: "find p xs = Some x \<Longrightarrow> x \<in> set xs \<and> p x"
  by (induction xs) (auto split: if_splits)

end
