(* ===== verification/State_Machine.thy ===== *)
theory State_Machine
  imports Registry_Prelude
begin

text \<open>
  Transition tables (\<open>packages/domain/src/state-machine.ts\<close>): the record of a machine, the
  transition check, the terminal test, the throwing assertion and the well-formedness check of a
  table. The interface of a well-formed table is the locale \<open>valid_table\<close>; every machine of
  the domain interprets it in Machines.
\<close>

section \<open>The table and its checks\<close>

text \<open>\<open>transitions\<close> is an object: an association list with its keys in insertion order.\<close>

record 's state_machine =
  machineName :: js_string
  initial :: 's
  states :: "'s list"
  transitions :: "('s \<times> 's list) list"

definition targets :: "'s state_machine \<Rightarrow> 's \<Rightarrow> 's list" where
  "targets m s = (case map_of (transitions m) s of None \<Rightarrow> [] | Some ts \<Rightarrow> ts)"

definition canTransition :: "'s state_machine \<Rightarrow> 's \<Rightarrow> 's \<Rightarrow> bool" where
  "canTransition m from to \<longleftrightarrow> to \<in> set (targets m from)"

definition isTerminal :: "'s state_machine \<Rightarrow> 's \<Rightarrow> bool" where
  "isTerminal m s \<longleftrightarrow> length (targets m s) = 0"

datatype 's invalid_transition = InvalidTransitionError js_string 's 's

definition assertTransition :: "'s state_machine \<Rightarrow> 's \<Rightarrow> 's \<Rightarrow> 's invalid_transition + unit" where
  "assertTransition m from to =
     (if \<not> canTransition m from to then Inl (InvalidTransitionError (machineName m) from to)
      else Inr ())"

datatype 's machine_error =
    InitialNotInStates js_string 's
  | NoTransitionDefinition js_string 's
  | EntryNotInStates js_string 's
  | TargetNotInStates js_string 's 's

fun check_entries :: "js_string \<Rightarrow> 's list \<Rightarrow> ('s \<times> 's list) list \<Rightarrow> 's machine_error + unit" where
  "check_entries nm declared [] = Inr ()"
| "check_entries nm declared ((from, tos) # es) =
     (if from \<notin> set declared then Inl (EntryNotInStates nm from)
      else case find (\<lambda>to. to \<notin> set declared) tos of
             Some to \<Rightarrow> Inl (TargetNotInStates nm from to)
           | None \<Rightarrow> check_entries nm declared es)"

definition validateMachine :: "'s state_machine \<Rightarrow> 's machine_error + unit" where
  "validateMachine m =
     (if initial m \<notin> set (states m) then Inl (InitialNotInStates (machineName m) (initial m))
      else case find (\<lambda>s. s \<notin> set (map fst (transitions m))) (states m) of
             Some s \<Rightarrow> Inl (NoTransitionDefinition (machineName m) s)
           | None \<Rightarrow> check_entries (machineName m) (states m) (transitions m))"

lemma check_entries_Inr_iff:
  "check_entries nm ds es = Inr () \<longleftrightarrow>
     (\<forall>(from, tos) \<in> set es. from \<in> set ds \<and> set tos \<subseteq> set ds)"
proof (induction es)
  case Nil
  then show ?case by simp
next
  case (Cons e es)
  obtain src tos where e: "e = (src, tos)" by (cases e)
  show ?case
  proof (cases "find (\<lambda>to. to \<notin> set ds) tos")
    case None
    then have "set tos \<subseteq> set ds" by (auto simp: find_eq_None_iff)
    with None Cons e show ?thesis by auto
  next
    case (Some t)
    with find_Some_set [OF Some] e show ?thesis by auto
  qed
qed

lemma validateMachine_Inr_iff:
  "validateMachine m = Inr () \<longleftrightarrow>
     initial m \<in> set (states m) \<and> set (states m) = fst ` set (transitions m) \<and>
     (\<forall>(from, tos) \<in> set (transitions m). set tos \<subseteq> set (states m))"
proof -
  have "set (states m) = fst ` set (transitions m) \<longleftrightarrow>
    set (states m) \<subseteq> fst ` set (transitions m) \<and> (\<forall>(from, tos) \<in> set (transitions m). from \<in> set (states m))"
    by (auto simp: image_iff) (metis fst_conv)+
  then show ?thesis
    unfolding validateMachine_def
    by (auto simp: find_eq_None_iff check_entries_Inr_iff subset_iff
        dest!: find_Some_set split: option.splits)
qed

lemma targets_not_entry: "s \<notin> fst ` set (transitions m) \<Longrightarrow> targets m s = []"
  by (simp add: targets_def map_of_eq_None_iff [THEN iffD2])

lemma isTerminal_iff: "isTerminal m s \<longleftrightarrow> (\<forall>t. \<not> canTransition m s t)"
  by (auto simp: isTerminal_def canTransition_def)

lemma assertTransition_Inr_iff: "assertTransition m s t = Inr () \<longleftrightarrow> canTransition m s t"
  by (simp add: assertTransition_def)

section \<open>Reachable states\<close>

inductive reach :: "'s state_machine \<Rightarrow> 's \<Rightarrow> 's \<Rightarrow> bool" for m where
  stay: "reach m s s"
| move: "reach m s t \<Longrightarrow> canTransition m t u \<Longrightarrow> reach m s u"

text \<open>
  A set of states closed under the table is checked by evaluation, and holds every state
  reachable from one of its members.
\<close>

definition closed_under :: "'s state_machine \<Rightarrow> 's list \<Rightarrow> bool" where
  "closed_under m ss \<longleftrightarrow> list_all (\<lambda>s. list_all (\<lambda>t. t \<in> set ss) (targets m s)) ss"

lemma reach_closed:
  assumes "reach m s t" and "s \<in> set ss" and "closed_under m ss"
  shows "t \<in> set ss"
  using assms
  by (induction rule: reach.induct) (auto simp: closed_under_def canTransition_def list_all_iff)

lemma reach_trans: "reach m t u \<Longrightarrow> reach m s t \<Longrightarrow> reach m s u"
  by (induction rule: reach.induct) (auto intro: reach.move)

lemma reach_step: "canTransition m s t \<Longrightarrow> reach m s t"
  by (rule reach.move [OF reach.stay])

text \<open>
  \<open>without m s\<close> is the table with the outgoing moves of one state removed: what it cannot reach,
  the machine reaches only by passing through that state.
\<close>

definition without :: "'s state_machine \<Rightarrow> 's \<Rightarrow> 's state_machine" where
  "without m v = m\<lparr>transitions := filter (\<lambda>e. fst e \<noteq> v) (transitions m)\<rparr>"

lemma targets_without: "targets (without m v) s = (if s = v then [] else targets m s)"
proof -
  have "map_of (filter (\<lambda>e. fst e \<noteq> v) es) s = (if s = v then None else map_of es s)"
    for es :: "('a \<times> 'a list) list"
    by (induction es) auto
  then show ?thesis by (simp add: targets_def without_def)
qed

lemma canTransition_without:
  "canTransition (without m v) s t \<longleftrightarrow> s \<noteq> v \<and> canTransition m s t"
  by (simp add: canTransition_def targets_without)

text \<open>Every run from \<open>s\<close> to \<open>t\<close> leaves through \<open>v\<close>, once \<open>t\<close> is unreachable without \<open>v\<close>.\<close>

fun run :: "'s state_machine \<Rightarrow> 's \<Rightarrow> 's list \<Rightarrow> bool" where
  "run m s [] = True"
| "run m s (t # ts) = (canTransition m s t \<and> run m t ts)"

lemma run_reach: "run m s ts \<Longrightarrow> t \<in> set ts \<Longrightarrow> reach m s t"
proof (induction ts arbitrary: s)
  case Nil
  then show ?case by simp
next
  case (Cons u us)
  then show ?case by (auto intro: reach_trans reach_step)
qed

lemma run_without: "run m s ts \<Longrightarrow> s \<noteq> v \<Longrightarrow> v \<notin> set ts \<Longrightarrow> run (without m v) s ts"
  by (induction ts arbitrary: s) (auto simp: canTransition_without)

lemma run_passes_through:
  assumes run: "run m s (ts @ [t])" and "s \<noteq> v"
    and closed: "closed_under (without m v) ss" "s \<in> set ss" "t \<notin> set ss"
  shows "v \<in> set ts"
proof (rule ccontr)
  assume v: "v \<notin> set ts"
  show False
  proof (cases "t = v")
    case True
    have last: "run m s ts \<Longrightarrow> s \<noteq> v \<Longrightarrow> v \<notin> set ts \<Longrightarrow> s \<in> set ss \<Longrightarrow>
      canTransition m (last (s # ts)) t \<Longrightarrow> t \<in> set ss" for s ts
    proof -
      assume r: "run m s ts" "s \<noteq> v" "v \<notin> set ts" "s \<in> set ss" and c: "canTransition m (last (s # ts)) t"
      have "reach (without m v) s (last (s # ts))"
        using run_reach [OF run_without [OF r(1-3)]] by (auto intro: reach.stay)
      then have mem: "last (s # ts) \<in> set ss" using r(4) closed(1) by (rule reach_closed)
      have "last (s # ts) \<noteq> v" using r by (auto split: if_splits)
      with c have "canTransition (without m v) (last (s # ts)) t"
        by (simp add: canTransition_without)
      with mem closed(1) show "t \<in> set ss"
        by (auto simp: closed_under_def canTransition_def list_all_iff)
    qed
    have "run m s ts \<and> canTransition m (last (s # ts)) t"
      using run by (induction ts arbitrary: s) auto
    with last assms v show False by blast
  next
    case False
    with run v have "run (without m v) s (ts @ [t])" by (intro run_without) (use assms in auto)
    then have "reach (without m v) s t" by (rule run_reach) simp
    with closed show False by (blast dest: reach_closed)
  qed
qed

section \<open>The interface of a well-formed table\<close>

locale valid_table =
  fixes m :: "'s state_machine"
  assumes valid: "validateMachine m = Inr ()"
begin

lemma initial_declared: "initial m \<in> set (states m)"
  using valid unfolding validateMachine_Inr_iff by blast

lemma target_declared: "canTransition m s t \<Longrightarrow> t \<in> set (states m)"
proof -
  assume "canTransition m s t"
  then obtain ts where "map_of (transitions m) s = Some ts" "t \<in> set ts"
    by (cases "map_of (transitions m) s") (auto simp: canTransition_def targets_def)
  then have "(s, ts) \<in> set (transitions m)" "t \<in> set ts" by (auto dest: map_of_SomeD)
  with valid show ?thesis unfolding validateMachine_Inr_iff by blast
qed

lemma source_declared: "canTransition m s t \<Longrightarrow> s \<in> set (states m)"
proof -
  assume c: "canTransition m s t"
  then have "s \<in> fst ` set (transitions m)"
    by (metis canTransition_def empty_iff list.set(1) targets_not_entry)
  with valid show ?thesis unfolding validateMachine_Inr_iff by blast
qed

lemma reach_declared: "reach m s t \<Longrightarrow> s \<in> set (states m) \<Longrightarrow> t \<in> set (states m)"
  by (induction rule: reach.induct) (auto intro: target_declared)

lemma reach_initial_declared: "reach m (initial m) t \<Longrightarrow> t \<in> set (states m)"
  using initial_declared by (blast intro: reach_declared)

end

lemma terminal_absorbing:
  assumes "reach m s t" and "isTerminal m s"
  shows "t = s"
  using assms by (induction rule: reach.induct) (auto simp: isTerminal_iff)

end
