(* ===== verification/Machines.thy ===== *)
theory Machines
  imports State_Machine
begin

text \<open>
  The state machines of \<open>packages/domain/src/machines.ts\<close>: one datatype per union of states, the
  list of states in declaration order, and the transition table. Every table is a well-formed
  one (an interpretation of \<open>valid_table\<close>), and the moves the tables rule out are stated over
  all runs, not over single steps.
\<close>

section \<open>The tables\<close>

datatype at_lifecycle_state =
    At_draft | At_registered | At_offering_open | At_offering_closed | At_active |
    At_branch_vote | At_continuing | At_divested | At_closure | At_retired | At_suspended

definition AT_LIFECYCLE_STATES :: "at_lifecycle_state list" where
  "AT_LIFECYCLE_STATES =
     [At_draft, At_registered, At_offering_open, At_offering_closed, At_active, At_branch_vote,
      At_continuing, At_divested, At_closure, At_retired, At_suspended]"

definition SUSPENDABLE_STATES :: "at_lifecycle_state list" where
  "SUSPENDABLE_STATES =
     [At_registered, At_offering_open, At_offering_closed, At_active, At_branch_vote,
      At_continuing, At_divested, At_closure]"

definition atLifecycleMachine :: "at_lifecycle_state state_machine" where
  "atLifecycleMachine =
     \<lparr>machineName = js ''at_lifecycle'', initial = At_draft, states = AT_LIFECYCLE_STATES,
      transitions =
       [(At_draft, [At_registered]),
        (At_registered, [At_offering_open, At_suspended]),
        (At_offering_open, [At_offering_closed, At_suspended]),
        (At_offering_closed, [At_active, At_suspended]),
        (At_active, [At_branch_vote, At_closure, At_suspended]),
        (At_branch_vote, [At_continuing, At_divested, At_suspended]),
        (At_continuing, [At_active, At_branch_vote, At_suspended]),
        (At_divested, [At_closure, At_suspended]),
        (At_closure, [At_retired, At_suspended]),
        (At_retired, []),
        (At_suspended, SUSPENDABLE_STATES @ [At_closure])]\<rparr>"

definition resumeFromSuspension :: "at_lifecycle_state \<Rightarrow> at_lifecycle_state \<Rightarrow> bool" where
  "resumeFromSuspension priorState target =
     (if target = At_closure then True
      else target = priorState \<and> priorState \<in> set SUSPENDABLE_STATES)"

datatype verification_case_state =
    Vc_draft | Vc_assigned | Vc_in_review | Vc_changes_requested | Vc_signed | Vc_registered |
    Vc_declined | Vc_cancelled | Vc_superseded | Vc_revoked

definition VERIFICATION_CASE_STATES :: "verification_case_state list" where
  "VERIFICATION_CASE_STATES =
     [Vc_draft, Vc_assigned, Vc_in_review, Vc_changes_requested, Vc_signed, Vc_registered,
      Vc_declined, Vc_cancelled, Vc_superseded, Vc_revoked]"

definition verificationCaseMachine :: "verification_case_state state_machine" where
  "verificationCaseMachine =
     \<lparr>machineName = js ''verification_case'', initial = Vc_draft, states = VERIFICATION_CASE_STATES,
      transitions =
       [(Vc_draft, [Vc_assigned, Vc_cancelled]),
        (Vc_assigned, [Vc_in_review, Vc_declined, Vc_cancelled]),
        (Vc_in_review, [Vc_changes_requested, Vc_signed, Vc_cancelled]),
        (Vc_changes_requested, [Vc_in_review, Vc_cancelled]),
        (Vc_signed, [Vc_registered, Vc_revoked, Vc_superseded]),
        (Vc_registered, [Vc_revoked, Vc_superseded]),
        (Vc_declined, []),
        (Vc_cancelled, []),
        (Vc_superseded, []),
        (Vc_revoked, [])]\<rparr>"

datatype proposal_state =
    Pr_draft | Pr_review | Pr_announced | Pr_voting | Pr_succeeded | Pr_defeated | Pr_no_quorum
    | Pr_timelocked | Pr_recorded | Pr_execution_pending | Pr_executed | Pr_failed | Pr_disputed
    | Pr_cancelled

definition PROPOSAL_STATES :: "proposal_state list" where
  "PROPOSAL_STATES =
     [Pr_draft, Pr_review, Pr_announced, Pr_voting, Pr_succeeded, Pr_defeated, Pr_no_quorum,
      Pr_timelocked, Pr_recorded, Pr_execution_pending, Pr_executed, Pr_failed, Pr_disputed,
      Pr_cancelled]"

definition proposalMachine :: "proposal_state state_machine" where
  "proposalMachine =
     \<lparr>machineName = js ''proposal'', initial = Pr_draft, states = PROPOSAL_STATES,
      transitions =
       [(Pr_draft, [Pr_review, Pr_cancelled]),
        (Pr_review, [Pr_announced, Pr_cancelled]),
        (Pr_announced, [Pr_voting, Pr_cancelled]),
        (Pr_voting, [Pr_succeeded, Pr_defeated, Pr_no_quorum]),
        (Pr_succeeded, [Pr_timelocked]),
        (Pr_defeated, []),
        (Pr_no_quorum, []),
        (Pr_timelocked, [Pr_recorded]),
        (Pr_recorded, [Pr_execution_pending]),
        (Pr_execution_pending, [Pr_executed, Pr_failed, Pr_disputed]),
        (Pr_executed, []),
        (Pr_failed, []),
        (Pr_disputed, [Pr_executed, Pr_failed]),
        (Pr_cancelled, [])]\<rparr>"

datatype authority_state =
    Au_proposed | Au_under_review | Au_accepted | Au_suspended | Au_expired | Au_revoked |
    Au_superseded

definition AUTHORITY_STATES :: "authority_state list" where
  "AUTHORITY_STATES =
     [Au_proposed, Au_under_review, Au_accepted, Au_suspended, Au_expired, Au_revoked,
      Au_superseded]"

definition authorityMachine :: "authority_state state_machine" where
  "authorityMachine =
     \<lparr>machineName = js ''authority'', initial = Au_proposed, states = AUTHORITY_STATES,
      transitions =
       [(Au_proposed, [Au_under_review, Au_revoked]),
        (Au_under_review, [Au_accepted, Au_revoked]),
        (Au_accepted, [Au_suspended, Au_expired, Au_revoked, Au_superseded]),
        (Au_suspended, [Au_accepted, Au_revoked, Au_expired]),
        (Au_expired, [Au_superseded]),
        (Au_revoked, []),
        (Au_superseded, [])]\<rparr>"

datatype source_connection_state =
    Sc_planned | Sc_feasibility_checked | Sc_access_confirmed | Sc_tested | Sc_active |
    Sc_degraded | Sc_disabled

definition SOURCE_CONNECTION_STATES :: "source_connection_state list" where
  "SOURCE_CONNECTION_STATES =
     [Sc_planned, Sc_feasibility_checked, Sc_access_confirmed, Sc_tested, Sc_active,
      Sc_degraded, Sc_disabled]"

definition sourceConnectionMachine :: "source_connection_state state_machine" where
  "sourceConnectionMachine =
     \<lparr>machineName = js ''source_connection'', initial = Sc_planned, states = SOURCE_CONNECTION_STATES,
      transitions =
       [(Sc_planned, [Sc_feasibility_checked, Sc_disabled]),
        (Sc_feasibility_checked, [Sc_access_confirmed, Sc_disabled]),
        (Sc_access_confirmed, [Sc_tested, Sc_disabled]),
        (Sc_tested, [Sc_active, Sc_disabled]),
        (Sc_active, [Sc_degraded, Sc_disabled]),
        (Sc_degraded, [Sc_active, Sc_disabled]),
        (Sc_disabled, [])]\<rparr>"

datatype receipt_processing_state =
    Rp_requested | Rp_received | Rp_authenticated | Rp_schema_validated | Rp_normalized |
    Rp_classified | Rp_reconciled | Rp_quarantined

definition RECEIPT_PROCESSING_STATES :: "receipt_processing_state list" where
  "RECEIPT_PROCESSING_STATES =
     [Rp_requested, Rp_received, Rp_authenticated, Rp_schema_validated, Rp_normalized,
      Rp_classified, Rp_reconciled, Rp_quarantined]"

definition receiptProcessingMachine :: "receipt_processing_state state_machine" where
  "receiptProcessingMachine =
     \<lparr>machineName = js ''source_receipt_processing'', initial = Rp_requested, states = RECEIPT_PROCESSING_STATES,
      transitions =
       [(Rp_requested, [Rp_received, Rp_quarantined]),
        (Rp_received, [Rp_authenticated, Rp_quarantined]),
        (Rp_authenticated, [Rp_schema_validated, Rp_quarantined]),
        (Rp_schema_validated, [Rp_normalized, Rp_quarantined]),
        (Rp_normalized, [Rp_classified, Rp_quarantined]),
        (Rp_classified, [Rp_reconciled, Rp_quarantined]),
        (Rp_reconciled, []),
        (Rp_quarantined, [])]\<rparr>"

datatype adapter_health_state =
    Ah_healthy | Ah_degraded | Ah_schema_changed | Ah_unavailable | Ah_reconciliation_required |
    Ah_disabled

definition ADAPTER_HEALTH_STATES :: "adapter_health_state list" where
  "ADAPTER_HEALTH_STATES =
     [Ah_healthy, Ah_degraded, Ah_schema_changed, Ah_unavailable, Ah_reconciliation_required,
      Ah_disabled]"

definition adapterHealthMachine :: "adapter_health_state state_machine" where
  "adapterHealthMachine =
     \<lparr>machineName = js ''adapter_health'', initial = Ah_healthy, states = ADAPTER_HEALTH_STATES,
      transitions =
       [(Ah_healthy, [Ah_degraded, Ah_schema_changed, Ah_unavailable, Ah_disabled]),
        (Ah_degraded, [Ah_healthy, Ah_reconciliation_required, Ah_disabled]),
        (Ah_schema_changed, [Ah_reconciliation_required, Ah_disabled]),
        (Ah_unavailable, [Ah_healthy, Ah_reconciliation_required, Ah_disabled]),
        (Ah_reconciliation_required, [Ah_healthy, Ah_disabled]),
        (Ah_disabled, [])]\<rparr>"

datatype attestation_schema_state =
    As_draft | As_approved | As_active | As_superseded | As_retired

definition ATTESTATION_SCHEMA_STATES :: "attestation_schema_state list" where
  "ATTESTATION_SCHEMA_STATES =
     [As_draft, As_approved, As_active, As_superseded, As_retired]"

definition attestationSchemaMachine :: "attestation_schema_state state_machine" where
  "attestationSchemaMachine =
     \<lparr>machineName = js ''attestation_schema'', initial = As_draft, states = ATTESTATION_SCHEMA_STATES,
      transitions =
       [(As_draft, [As_approved]),
        (As_approved, [As_active, As_retired]),
        (As_active, [As_superseded, As_retired]),
        (As_superseded, []),
        (As_retired, [])]\<rparr>"

datatype attestation_state =
    Va_draft | Va_signed | Va_active | Va_stale_candidate | Va_superseded | Va_revoked |
    Va_disputed

definition ATTESTATION_STATES :: "attestation_state list" where
  "ATTESTATION_STATES =
     [Va_draft, Va_signed, Va_active, Va_stale_candidate, Va_superseded, Va_revoked, Va_disputed]"

definition attestationMachine :: "attestation_state state_machine" where
  "attestationMachine =
     \<lparr>machineName = js ''verification_attestation'', initial = Va_draft, states = ATTESTATION_STATES,
      transitions =
       [(Va_draft, [Va_signed]),
        (Va_signed, [Va_active, Va_superseded, Va_revoked, Va_disputed]),
        (Va_active, [Va_stale_candidate, Va_superseded, Va_revoked, Va_disputed]),
        (Va_stale_candidate, [Va_active, Va_superseded, Va_revoked, Va_disputed]),
        (Va_superseded, []),
        (Va_revoked, []),
        (Va_disputed, [Va_active, Va_superseded, Va_revoked])]\<rparr>"

datatype policy_state =
    Cp_draft | Cp_approved | Cp_effective | Cp_superseded | Cp_retired

definition POLICY_STATES :: "policy_state list" where
  "POLICY_STATES =
     [Cp_draft, Cp_approved, Cp_effective, Cp_superseded, Cp_retired]"

definition compliancePolicyMachine :: "policy_state state_machine" where
  "compliancePolicyMachine =
     \<lparr>machineName = js ''compliance_policy'', initial = Cp_draft, states = POLICY_STATES,
      transitions =
       [(Cp_draft, [Cp_approved]),
        (Cp_approved, [Cp_effective, Cp_retired]),
        (Cp_effective, [Cp_superseded, Cp_retired]),
        (Cp_superseded, []),
        (Cp_retired, [])]\<rparr>"

datatype jurisdiction_profile_state =
    Jp_drafting | Jp_review_ready | Jp_approved | Jp_stale | Jp_suspended

definition JURISDICTION_PROFILE_STATES :: "jurisdiction_profile_state list" where
  "JURISDICTION_PROFILE_STATES =
     [Jp_drafting, Jp_review_ready, Jp_approved, Jp_stale, Jp_suspended]"

definition jurisdictionProfileMachine :: "jurisdiction_profile_state state_machine" where
  "jurisdictionProfileMachine =
     \<lparr>machineName = js ''jurisdiction_profile'', initial = Jp_drafting, states = JURISDICTION_PROFILE_STATES,
      transitions =
       [(Jp_drafting, [Jp_review_ready]),
        (Jp_review_ready, [Jp_approved, Jp_drafting]),
        (Jp_approved, [Jp_stale, Jp_suspended]),
        (Jp_stale, [Jp_approved, Jp_suspended]),
        (Jp_suspended, [Jp_approved])]\<rparr>"

datatype chain_tx_state =
    Tx_created | Tx_proposed | Tx_signed | Tx_submitted | Tx_included | Tx_confirmed |
    Tx_replaced | Tx_reverted | Tx_reorged | Tx_dropped | Tx_failed | Tx_reconciliation_required

definition CHAIN_TX_STATES :: "chain_tx_state list" where
  "CHAIN_TX_STATES =
     [Tx_created, Tx_proposed, Tx_signed, Tx_submitted, Tx_included, Tx_confirmed, Tx_replaced,
      Tx_reverted, Tx_reorged, Tx_dropped, Tx_failed, Tx_reconciliation_required]"

definition chainTransactionMachine :: "chain_tx_state state_machine" where
  "chainTransactionMachine =
     \<lparr>machineName = js ''chain_transaction'', initial = Tx_created, states = CHAIN_TX_STATES,
      transitions =
       [(Tx_created, [Tx_proposed, Tx_signed, Tx_submitted, Tx_failed, Tx_reconciliation_required]),
        (Tx_proposed, [Tx_submitted, Tx_failed]),
        (Tx_signed, [Tx_submitted, Tx_failed]),
        (Tx_submitted, [Tx_included, Tx_confirmed, Tx_reverted, Tx_replaced, Tx_dropped, Tx_failed,
          Tx_reconciliation_required]),
        (Tx_included, [Tx_confirmed, Tx_submitted, Tx_reverted, Tx_reorged, Tx_replaced, Tx_failed,
          Tx_reconciliation_required]),
        (Tx_confirmed, [Tx_included, Tx_submitted, Tx_reverted, Tx_reorged, Tx_failed,
          Tx_reconciliation_required]),
        (Tx_replaced, [Tx_submitted, Tx_failed]),
        (Tx_reverted, [Tx_created, Tx_reconciliation_required]),
        (Tx_reorged, [Tx_submitted, Tx_reconciliation_required]),
        (Tx_dropped, [Tx_created, Tx_submitted, Tx_failed]),
        (Tx_failed, [Tx_created, Tx_reconciliation_required]),
        (Tx_reconciliation_required, [Tx_created, Tx_failed])]\<rparr>"

datatype disclosure_restriction_state =
    Dr_draft | Dr_active | Dr_released | Dr_superseded

definition DISCLOSURE_RESTRICTION_STATES :: "disclosure_restriction_state list" where
  "DISCLOSURE_RESTRICTION_STATES =
     [Dr_draft, Dr_active, Dr_released, Dr_superseded]"

definition disclosureRestrictionMachine :: "disclosure_restriction_state state_machine" where
  "disclosureRestrictionMachine =
     \<lparr>machineName = js ''disclosure_restriction'', initial = Dr_draft, states = DISCLOSURE_RESTRICTION_STATES,
      transitions =
       [(Dr_draft, [Dr_active, Dr_superseded]),
        (Dr_active, [Dr_released, Dr_superseded]),
        (Dr_released, []),
        (Dr_superseded, [])]\<rparr>"

definition ALL_MACHINES where
  "ALL_MACHINES =
     (atLifecycleMachine, verificationCaseMachine, proposalMachine,
      authorityMachine, sourceConnectionMachine, receiptProcessingMachine,
      adapterHealthMachine, attestationSchemaMachine, attestationMachine,
      compliancePolicyMachine, jurisdictionProfileMachine, chainTransactionMachine, disclosureRestrictionMachine)"

section \<open>Every table is well formed\<close>

lemmas machine_defs =
  atLifecycleMachine_def verificationCaseMachine_def proposalMachine_def authorityMachine_def sourceConnectionMachine_def receiptProcessingMachine_def adapterHealthMachine_def
  attestationSchemaMachine_def attestationMachine_def compliancePolicyMachine_def jurisdictionProfileMachine_def chainTransactionMachine_def disclosureRestrictionMachine_def
  AT_LIFECYCLE_STATES_def SUSPENDABLE_STATES_def VERIFICATION_CASE_STATES_def PROPOSAL_STATES_def AUTHORITY_STATES_def SOURCE_CONNECTION_STATES_def RECEIPT_PROCESSING_STATES_def
  ADAPTER_HEALTH_STATES_def ATTESTATION_SCHEMA_STATES_def ATTESTATION_STATES_def POLICY_STATES_def JURISDICTION_PROFILE_STATES_def CHAIN_TX_STATES_def DISCLOSURE_RESTRICTION_STATES_def

interpretation at: valid_table atLifecycleMachine
  by unfold_locales (simp add: machine_defs validateMachine_def)

interpretation vc: valid_table verificationCaseMachine
  by unfold_locales (simp add: machine_defs validateMachine_def)

interpretation pr: valid_table proposalMachine
  by unfold_locales (simp add: machine_defs validateMachine_def)

interpretation au: valid_table authorityMachine
  by unfold_locales (simp add: machine_defs validateMachine_def)

interpretation sc: valid_table sourceConnectionMachine
  by unfold_locales (simp add: machine_defs validateMachine_def)

interpretation rp: valid_table receiptProcessingMachine
  by unfold_locales (simp add: machine_defs validateMachine_def)

interpretation ah: valid_table adapterHealthMachine
  by unfold_locales (simp add: machine_defs validateMachine_def)

interpretation asm: valid_table attestationSchemaMachine
  by unfold_locales (simp add: machine_defs validateMachine_def)

interpretation va: valid_table attestationMachine
  by unfold_locales (simp add: machine_defs validateMachine_def)

interpretation cp: valid_table compliancePolicyMachine
  by unfold_locales (simp add: machine_defs validateMachine_def)

interpretation jp: valid_table jurisdictionProfileMachine
  by unfold_locales (simp add: machine_defs validateMachine_def)

interpretation tx: valid_table chainTransactionMachine
  by unfold_locales (simp add: machine_defs validateMachine_def)

interpretation dr: valid_table disclosureRestrictionMachine
  by unfold_locales (simp add: machine_defs validateMachine_def)

lemmas table_eval =
  machine_defs closed_under_def targets_def canTransition_def isTerminal_def without_def

section \<open>What the tables rule out\<close>

text \<open>
  Every machine of \<open>ALL_MACHINES\<close> passes its own consistency check: the initial state is
  declared, every declared state has an entry, and no entry or target is undeclared.
\<close>

theorem all_machines_valid:
  "case ALL_MACHINES of (m1, m2, m3, m4, m5, m6, m7, m8, m9, m10, m11, m12, m13) \<Rightarrow>
     validateMachine m1 = Inr () \<and> validateMachine m2 = Inr () \<and> validateMachine m3 = Inr () \<and>
     validateMachine m4 = Inr () \<and> validateMachine m5 = Inr () \<and> validateMachine m6 = Inr () \<and>
     validateMachine m7 = Inr () \<and> validateMachine m8 = Inr () \<and> validateMachine m9 = Inr () \<and>
     validateMachine m10 = Inr () \<and> validateMachine m11 = Inr () \<and> validateMachine m12 = Inr () \<and>
     validateMachine m13 = Inr ()"
  by (simp add: ALL_MACHINES_def at.valid vc.valid pr.valid au.valid sc.valid rp.valid ah.valid
      asm.valid va.valid cp.valid jp.valid tx.valid dr.valid)

text \<open>
  A signed verification case is never edited again: from \<open>signed\<close> no sequence of allowed moves
  reaches \<open>draft\<close>, \<open>assigned\<close>, \<open>in_review\<close>, \<open>changes_requested\<close>, \<open>declined\<close> or \<open>cancelled\<close>; only
  registration, revocation and supersession remain.
\<close>

theorem signed_case_never_edited:
  assumes "reach verificationCaseMachine Vc_signed t"
  shows "t \<in> {Vc_signed, Vc_registered, Vc_revoked, Vc_superseded}"
proof -
  have "closed_under verificationCaseMachine [Vc_signed, Vc_registered, Vc_revoked, Vc_superseded]"
    by (simp add: table_eval)
  from reach_closed [OF assms _ this] show ?thesis by simp
qed

theorem signed_case_never_edited_witness:
  "reach verificationCaseMachine Vc_signed Vc_revoked \<and>
   Vc_revoked \<in> {Vc_signed, Vc_registered, Vc_revoked, Vc_superseded}"
proof -
  have h: "reach verificationCaseMachine Vc_signed Vc_revoked"
    by (rule reach_step) (simp add: table_eval)
  show ?thesis using h signed_case_never_edited [OF h] by blast
qed

lemma closed_after_voting:
  "closed_under proposalMachine
     [Pr_voting, Pr_succeeded, Pr_defeated, Pr_no_quorum, Pr_timelocked, Pr_recorded,
      Pr_execution_pending, Pr_executed, Pr_failed, Pr_disputed]"
  by (simp add: table_eval)

lemma closed_before_timelock:
  "closed_under (without proposalMachine Pr_timelocked)
     [Pr_draft, Pr_review, Pr_announced, Pr_voting, Pr_succeeded, Pr_defeated, Pr_no_quorum,
      Pr_timelocked, Pr_cancelled]"
  by (simp add: table_eval)

lemma closed_before_execution:
  "closed_under (without proposalMachine Pr_execution_pending)
     [Pr_draft, Pr_review, Pr_announced, Pr_voting, Pr_succeeded, Pr_defeated, Pr_no_quorum,
      Pr_timelocked, Pr_recorded, Pr_execution_pending, Pr_cancelled]"
  by (simp add: table_eval)

text \<open>
  A proposal that has entered voting is never cancelled, and every run from its draft to
  \<open>executed\<close> passes through \<open>timelocked\<close> and through \<open>execution_pending\<close>: no vote takes effect
  without the delay and without the gap between the on-chain result and off-chain execution.
\<close>

theorem proposal_cannot_skip_timelock:
  "(\<forall>t. reach proposalMachine Pr_voting t \<longrightarrow> t \<noteq> Pr_cancelled) \<and>
   (\<forall>ts. run proposalMachine Pr_draft (ts @ [Pr_executed]) \<longrightarrow>
      Pr_timelocked \<in> set ts \<and> Pr_execution_pending \<in> set ts)"
proof (intro conjI allI impI)
  show "t \<noteq> Pr_cancelled" if "reach proposalMachine Pr_voting t" for t
    using reach_closed [OF that _ closed_after_voting] by auto
next
  fix ts assume r: "run proposalMachine Pr_draft (ts @ [Pr_executed])"
  show "Pr_timelocked \<in> set ts"
    by (rule run_passes_through [OF r _ closed_before_timelock]) simp_all
  show "Pr_execution_pending \<in> set ts"
    by (rule run_passes_through [OF r _ closed_before_execution]) simp_all
qed

theorem proposal_cannot_skip_timelock_witness:
  "reach proposalMachine Pr_voting Pr_succeeded \<and> Pr_succeeded \<noteq> Pr_cancelled \<and>
   (let ts = [Pr_review, Pr_announced, Pr_voting, Pr_succeeded, Pr_timelocked, Pr_recorded, Pr_execution_pending]
    in run proposalMachine Pr_draft (ts @ [Pr_executed]) \<and>
       Pr_timelocked \<in> set ts \<and> Pr_execution_pending \<in> set ts)"
proof -
  let ?ts = "[Pr_review, Pr_announced, Pr_voting, Pr_succeeded, Pr_timelocked, Pr_recorded, Pr_execution_pending]"
  have v: "reach proposalMachine Pr_voting Pr_succeeded"
    by (rule reach_step) (simp add: table_eval)
  have r: "run proposalMachine Pr_draft (?ts @ [Pr_executed])"
    by (simp add: table_eval)
  have "Pr_succeeded \<noteq> Pr_cancelled"
    using proposal_cannot_skip_timelock v by blast
  moreover have "Pr_timelocked \<in> set ?ts \<and> Pr_execution_pending \<in> set ?ts"
    using proposal_cannot_skip_timelock r by blast
  ultimately show ?thesis
    unfolding Let_def using v r by blast
qed

text \<open>
  An adapter whose source changed its schema does not become healthy again without a
  reconciliation: every run from \<open>schema_changed\<close> to \<open>healthy\<close> passes through
  \<open>reconciliation_required\<close>.
\<close>

theorem schema_drift_needs_reconciliation:
  assumes "run adapterHealthMachine Ah_schema_changed (ts @ [Ah_healthy])"
  shows "Ah_reconciliation_required \<in> set ts"
proof -
  have "closed_under (without adapterHealthMachine Ah_reconciliation_required)
     [Ah_schema_changed, Ah_reconciliation_required, Ah_disabled]"
    by (simp add: table_eval)
  from run_passes_through [OF assms _ this] show ?thesis by simp
qed

theorem schema_drift_needs_reconciliation_witness:
  "run adapterHealthMachine Ah_schema_changed ([Ah_reconciliation_required] @ [Ah_healthy]) \<and>
   Ah_reconciliation_required \<in> set [Ah_reconciliation_required]"
proof -
  have h: "run adapterHealthMachine Ah_schema_changed ([Ah_reconciliation_required] @ [Ah_healthy])"
    by (simp add: table_eval)
  show ?thesis using h schema_drift_needs_reconciliation [OF h] by blast
qed

end
