(* ===== verification/Ranked_Aggregate.thy ===== *)
theory Ranked_Aggregate
  imports Registry_Prelude
begin

text \<open>
  The worst-value aggregation that grades (\<open>weakestGrade\<close>) and readiness statuses
  (\<open>aggregateReadiness\<close>) share: an empty array has a fixed answer, and a non-empty one is reduced
  to its first element of least rank. The locale states that contract; Provenance and Readiness
  interpret it.
\<close>

locale worst_of =
  fixes rank :: "'a \<Rightarrow> int"
    and dflt :: 'a
    and agg :: "'a list \<Rightarrow> 'a"
  assumes rank_inj: "rank x = rank y \<Longrightarrow> x = y"
    and agg_Nil: "agg [] = dflt"
    and agg_Cons: "agg (x # xs) = least_by rank x xs"
begin

lemma agg_mem:
  assumes "xs \<noteq> []" shows "agg xs \<in> set xs"
proof (cases xs)
  case (Cons y ys)
  then show ?thesis using least_by_mem [of rank y ys] by (simp add: agg_Cons)
qed (use assms in simp)

lemma agg_lower:
  assumes "x \<in> set xs" shows "rank (agg xs) \<le> rank x"
proof (cases xs)
  case (Cons y ys)
  with assms have "x \<in> insert y (set ys)" by simp
  from least_by_le [OF this] Cons show ?thesis by (simp add: agg_Cons)
qed (use assms in simp)

lemma agg_eqI:
  assumes "w \<in> set xs" and "\<And>x. x \<in> set xs \<Longrightarrow> rank w \<le> rank x"
  shows "agg xs = w"
proof (rule rank_inj, rule antisym)
  show "rank (agg xs) \<le> rank w" using assms(1) by (rule agg_lower)
  show "rank w \<le> rank (agg xs)" using assms(1) by (intro assms(2) agg_mem) auto
qed

lemma agg_set_cong:
  assumes "set xs = set ys" shows "agg xs = agg ys"
proof (cases "ys = []")
  case True
  with assms show ?thesis by simp
next
  case False
  then have "agg ys \<in> set xs" using agg_mem assms by simp
  then show ?thesis by (rule agg_eqI) (use assms agg_lower in auto)
qed

lemma agg_at_least: "xs \<noteq> [] \<Longrightarrow> k \<le> rank (agg xs) \<longleftrightarrow> (\<forall>x \<in> set xs. k \<le> rank x)"
  by (meson agg_lower agg_mem order_trans)

lemma agg_antimono: "set xs \<subseteq> set ys \<Longrightarrow> xs \<noteq> [] \<Longrightarrow> rank (agg ys) \<le> rank (agg xs)"
  by (meson agg_lower agg_mem subsetD)

end

end
