(* ===== verification/Provenance.thy ===== *)
theory Provenance
  imports Ranked_Aggregate State_Machine
begin

text \<open>
  The provenance axes of a claim (\<open>packages/domain/src/provenance.ts\<close>) and movement on them
  (\<open>provenance-axes.ts\<close>): the summary grade of a claim, the weakest grade of an asset, and the
  verification state that the standing attestations support.
\<close>

section \<open>The axes\<close>

datatype evidence_tier = P1 | P2 | P3 | P4 | P5

definition EVIDENCE_TIERS :: "evidence_tier list" where
  "EVIDENCE_TIERS = [P1, P2, P3, P4, P5]"

datatype artifact_kind =
    raw_source | extracted_artifact | normalized_observation | interpretation_artifact | public_projection

definition ARTIFACT_KINDS :: "artifact_kind list" where
  "ARTIFACT_KINDS =
     [raw_source, extracted_artifact, normalized_observation, interpretation_artifact, public_projection]"

datatype verification_state =
    Vs_unreviewed | Vs_machine_checked | Vs_analyst_checked | Vs_independently_assured | Vs_rejected

definition VERIFICATION_STATES :: "verification_state list" where
  "VERIFICATION_STATES =
     [Vs_unreviewed, Vs_machine_checked, Vs_analyst_checked, Vs_independently_assured, Vs_rejected]"

datatype attestation_type =
    professional_signoff | laboratory_accreditation | independent_assurance | legal_notarization |
    cryptographic_attestation

definition ATTESTATION_TYPES :: "attestation_type list" where
  "ATTESTATION_TYPES =
     [professional_signoff, laboratory_accreditation, independent_assurance, legal_notarization,
      cryptographic_attestation]"

datatype grade = Gr_rejected | Gr_unverified | Gr_self_reported | Gr_partially_verified | Gr_verified

definition GRADES :: "grade list" where
  "GRADES = [Gr_rejected, Gr_unverified, Gr_self_reported, Gr_partially_verified, Gr_verified]"

fun GRADE_RANK :: "grade \<Rightarrow> int" where
  "GRADE_RANK Gr_rejected = 0"
| "GRADE_RANK Gr_unverified = 1"
| "GRADE_RANK Gr_self_reported = 2"
| "GRADE_RANK Gr_partially_verified = 3"
| "GRADE_RANK Gr_verified = 4"

fun STATE_RANK :: "verification_state \<Rightarrow> int" where
  "STATE_RANK Vs_rejected = -1"
| "STATE_RANK Vs_unreviewed = 0"
| "STATE_RANK Vs_machine_checked = 1"
| "STATE_RANK Vs_analyst_checked = 2"
| "STATE_RANK Vs_independently_assured = 3"

section \<open>The grade of one claim\<close>

record claim_grade_input =
  verificationState :: verification_state
  evidenceTier :: "evidence_tier option"
  attestationTypes :: "attestation_type list"
  unresolvedConflictCount :: int
  excludedByRule :: bool

definition computeClaimGrade :: "claim_grade_input \<Rightarrow> grade" where
  "computeClaimGrade i =
     (if excludedByRule i \<or> verificationState i = Vs_rejected then Gr_rejected
      else case evidenceTier i of
        None \<Rightarrow> Gr_unverified
      | Some tier \<Rightarrow>
          (if verificationState i = Vs_unreviewed then Gr_unverified
           else
             (let stateRank = STATE_RANK (verificationState i);
                  attestations = set (attestationTypes i);
                  isIndependentlyAssured = (stateRank \<ge> STATE_RANK Vs_independently_assured);
                  hasProfessionalSignoff = (professional_signoff \<in> attestations);
                  hasIndependentAssurance = (independent_assurance \<in> attestations);
                  tierIsP1OrP2 = (tier = P1 \<or> tier = P2);
                  tierIsP1ToP3 = (tierIsP1OrP2 \<or> tier = P3)
              in
                if isIndependentlyAssured \<and> hasProfessionalSignoff \<and> hasIndependentAssurance \<and>
                   tierIsP1OrP2 \<and> unresolvedConflictCount i = 0
                then Gr_verified
                else if stateRank \<ge> STATE_RANK Vs_analyst_checked \<and> tierIsP1ToP3
                then Gr_partially_verified
                else if stateRank \<le> STATE_RANK Vs_machine_checked then Gr_self_reported
                else Gr_self_reported)))"

section \<open>Comparing and combining grades\<close>

definition weakestGrade :: "grade list \<Rightarrow> grade" where
  "weakestGrade grades =
     (case grades of [] \<Rightarrow> Gr_unverified | g # gs \<Rightarrow> least_by GRADE_RANK g gs)"

definition gradeAtLeast :: "grade \<Rightarrow> grade \<Rightarrow> bool" where
  "gradeAtLeast g minimum \<longleftrightarrow> GRADE_RANK g \<ge> GRADE_RANK minimum"

definition compareGrade :: "grade \<Rightarrow> grade \<Rightarrow> int" where
  "compareGrade a b = GRADE_RANK a - GRADE_RANK b"

lemma GRADE_RANK_inj: "GRADE_RANK g = GRADE_RANK h \<Longrightarrow> g = h"
  by (cases g; cases h) auto

interpretation grades: worst_of GRADE_RANK Gr_unverified weakestGrade
  by unfold_locales (auto simp: weakestGrade_def intro: GRADE_RANK_inj)

text \<open>Grades are a linear order, worst first; the source's comparisons are that order.\<close>

instantiation grade :: linorder
begin

definition less_eq_grade :: "grade \<Rightarrow> grade \<Rightarrow> bool" where
  "less_eq_grade g h \<longleftrightarrow> GRADE_RANK g \<le> GRADE_RANK h"

definition less_grade :: "grade \<Rightarrow> grade \<Rightarrow> bool" where
  "less_grade g h \<longleftrightarrow> GRADE_RANK g < GRADE_RANK h"

instance
  by standard (auto simp: less_eq_grade_def less_grade_def intro: GRADE_RANK_inj)

end

lemma gradeAtLeast_le: "gradeAtLeast g m \<longleftrightarrow> m \<le> g"
  by (simp add: gradeAtLeast_def less_eq_grade_def)

lemma compareGrade_sign: "compareGrade a b < 0 \<longleftrightarrow> a < b" "compareGrade a b = 0 \<longleftrightarrow> a = b"
  by (auto simp: compareGrade_def less_grade_def dest: GRADE_RANK_inj)

lemma weakestGrade_Min: "gs \<noteq> [] \<Longrightarrow> weakestGrade gs = Min (set gs)"
  by (rule grades.agg_eqI) (auto simp: less_eq_grade_def [symmetric])

section \<open>Movement on the verification axis\<close>

fun STATE_ESTABLISHED_BY :: "attestation_type \<Rightarrow> verification_state" where
  "STATE_ESTABLISHED_BY cryptographic_attestation = Vs_machine_checked"
| "STATE_ESTABLISHED_BY professional_signoff = Vs_analyst_checked"
| "STATE_ESTABLISHED_BY laboratory_accreditation = Vs_analyst_checked"
| "STATE_ESTABLISHED_BY legal_notarization = Vs_analyst_checked"
| "STATE_ESTABLISHED_BY independent_assurance = Vs_independently_assured"

text \<open>\<open>RANK\<close> of \<open>provenance-axes.ts\<close> omits \<open>rejected\<close>, which no caller passes.\<close>

fun AXIS_RANK :: "verification_state \<Rightarrow> int option" where
  "AXIS_RANK Vs_unreviewed = Some 0"
| "AXIS_RANK Vs_machine_checked = Some 1"
| "AXIS_RANK Vs_analyst_checked = Some 2"
| "AXIS_RANK Vs_independently_assured = Some 3"
| "AXIS_RANK Vs_rejected = None"

text \<open>JavaScript's \<open>>\<close> is false when an operand is \<open>undefined\<close>.\<close>

fun rank_greater :: "int option \<Rightarrow> int option \<Rightarrow> bool" where
  "rank_greater (Some a) (Some b) = (a > b)"
| "rank_greater _ _ = False"

fun best_established :: "verification_state \<Rightarrow> attestation_type list \<Rightarrow> verification_state" where
  "best_established best [] = best"
| "best_established best (t # ts) =
     (let established = STATE_ESTABLISHED_BY t
      in best_established (if rank_greater (AXIS_RANK established) (AXIS_RANK best) then established else best) ts)"

definition deriveVerificationState ::
    "verification_state \<Rightarrow> attestation_type list \<Rightarrow> verification_state" where
  "deriveVerificationState current standing =
     (if current = Vs_rejected then Vs_rejected else best_established Vs_unreviewed standing)"

datatype artifact_lifecycle_state =
    Al_created | Al_validated | Al_accepted | Al_rejected | Al_superseded | Al_revoked | Al_published

definition ARTIFACT_LIFECYCLE_STATES :: "artifact_lifecycle_state list" where
  "ARTIFACT_LIFECYCLE_STATES =
     [Al_created, Al_validated, Al_accepted, Al_rejected, Al_superseded, Al_revoked, Al_published]"

definition artifactLifecycleMachine :: "artifact_lifecycle_state state_machine" where
  "artifactLifecycleMachine =
     \<lparr>machineName = js ''artifact_lifecycle'', initial = Al_created, states = ARTIFACT_LIFECYCLE_STATES,
      transitions =
       [(Al_created, [Al_validated, Al_rejected, Al_superseded, Al_revoked]),
        (Al_validated, [Al_accepted, Al_rejected, Al_superseded, Al_revoked]),
        (Al_accepted, [Al_published, Al_superseded, Al_revoked]),
        (Al_published, [Al_superseded, Al_revoked]),
        (Al_rejected, []),
        (Al_superseded, []),
        (Al_revoked, [])]\<rparr>"

interpretation artifact: valid_table artifactLifecycleMachine
  by unfold_locales
    (simp add: artifactLifecycleMachine_def ARTIFACT_LIFECYCLE_STATES_def validateMachine_def)

section \<open>Properties\<close>

text \<open>How good an evidence tier is: no evidence at all is worst, P1 is best.\<close>

fun tier_quality :: "evidence_tier option \<Rightarrow> nat" where
  "tier_quality None = 0"
| "tier_quality (Some P5) = 1"
| "tier_quality (Some P4) = 2"
| "tier_quality (Some P3) = 3"
| "tier_quality (Some P2) = 4"
| "tier_quality (Some P1) = 5"

text \<open>
  \<open>stronger j i\<close>: claim \<open>j\<close> is at least as well supported as claim \<open>i\<close> on every axis the grade
  reads.
\<close>

definition stronger :: "claim_grade_input \<Rightarrow> claim_grade_input \<Rightarrow> bool" where
  "stronger j i \<longleftrightarrow>
     STATE_RANK (verificationState i) \<le> STATE_RANK (verificationState j) \<and>
     tier_quality (evidenceTier i) \<le> tier_quality (evidenceTier j) \<and>
     set (attestationTypes i) \<subseteq> set (attestationTypes j) \<and>
     (unresolvedConflictCount i = 0 \<longrightarrow> unresolvedConflictCount j = 0) \<and>
     (excludedByRule j \<longrightarrow> excludedByRule i)"

lemma STATE_RANK_simps [simp]:
  "STATE_RANK s \<ge> 3 \<longleftrightarrow> s = Vs_independently_assured"
  "STATE_RANK s \<ge> 2 \<longleftrightarrow> s = Vs_analyst_checked \<or> s = Vs_independently_assured"
  by (cases s; simp)+

lemma tier_quality_simps:
  "tier_quality t = 0 \<longleftrightarrow> t = None"
  "4 \<le> tier_quality t \<longleftrightarrow> t = Some P1 \<or> t = Some P2"
  "3 \<le> tier_quality t \<longleftrightarrow> t = Some P1 \<or> t = Some P2 \<or> t = Some P3"
  by (cases t rule: tier_quality.cases; simp)+

text \<open>The grade as a cascade of thresholds on the two ranks.\<close>

lemma computeClaimGrade_cases:
  "computeClaimGrade i =
     (if excludedByRule i \<or> STATE_RANK (verificationState i) < 0 then Gr_rejected
      else if tier_quality (evidenceTier i) = 0 \<or> STATE_RANK (verificationState i) = 0 then Gr_unverified
      else if STATE_RANK (verificationState i) \<ge> 3 \<and> tier_quality (evidenceTier i) \<ge> 4 \<and>
              {professional_signoff, independent_assurance} \<subseteq> set (attestationTypes i) \<and>
              unresolvedConflictCount i = 0 then Gr_verified
      else if STATE_RANK (verificationState i) \<ge> 2 \<and> tier_quality (evidenceTier i) \<ge> 3
      then Gr_partially_verified
      else Gr_self_reported)"
proof -
  have neg: "STATE_RANK s < 0 \<longleftrightarrow> s = Vs_rejected" and zero: "STATE_RANK s = 0 \<longleftrightarrow> s = Vs_unreviewed" for s
    by (cases s; simp)+
  show ?thesis
    unfolding computeClaimGrade_def neg zero tier_quality_simps
    by (cases "evidenceTier i") (auto simp: Let_def)
qed

text \<open>
  A claim is graded \<open>verified\<close> exactly when it is not excluded by a rule, was independently
  assured, rests on P1 or P2 evidence, carries both a professional sign-off and an independent
  assurance, and has no unresolved conflict.
\<close>

theorem claim_verified_iff:
  "computeClaimGrade i = Gr_verified \<longleftrightarrow>
     \<not> excludedByRule i \<and> verificationState i = Vs_independently_assured \<and>
     evidenceTier i \<in> {Some P1, Some P2} \<and>
     professional_signoff \<in> set (attestationTypes i) \<and>
     independent_assurance \<in> set (attestationTypes i) \<and> unresolvedConflictCount i = 0"
  by (auto simp: computeClaimGrade_cases tier_quality_simps)

text \<open>
  Grading is monotone: strengthening a claim on any axis (verification state, evidence tier,
  attestations, conflicts, exclusion) never lowers its grade.
\<close>

theorem claim_grade_mono:
  assumes "stronger j i"
  shows "gradeAtLeast (computeClaimGrade j) (computeClaimGrade i)"
  using assms
  unfolding stronger_def gradeAtLeast_def computeClaimGrade_cases
  by (auto split: if_splits)

theorem claim_grade_mono_witness:
  "let i = \<lparr>verificationState = Vs_analyst_checked, evidenceTier = Some P3,
            attestationTypes = [professional_signoff], unresolvedConflictCount = 1, excludedByRule = False\<rparr>;
       j = i\<lparr>verificationState := Vs_independently_assured, evidenceTier := Some P1,
             attestationTypes := [independent_assurance, professional_signoff], unresolvedConflictCount := 0\<rparr>
   in stronger j i \<and> gradeAtLeast (computeClaimGrade j) (computeClaimGrade i) \<and>
      computeClaimGrade j = Gr_verified \<and> computeClaimGrade i = Gr_partially_verified"
proof -
  let ?i = "\<lparr>verificationState = Vs_analyst_checked, evidenceTier = Some P3,
            attestationTypes = [professional_signoff], unresolvedConflictCount = 1, excludedByRule = False\<rparr>"
  let ?j = "?i\<lparr>verificationState := Vs_independently_assured, evidenceTier := Some P1,
             attestationTypes := [independent_assurance, professional_signoff], unresolvedConflictCount := 0\<rparr>"
  have h: "stronger ?j ?i" by (simp add: stronger_def)
  show ?thesis
    unfolding Let_def
    using h claim_grade_mono [OF h] by (simp add: computeClaimGrade_def)
qed

lemma best_established_upper:
  "best \<noteq> Vs_rejected \<Longrightarrow>
     best_established best ts \<noteq> Vs_rejected \<and>
     STATE_RANK (best_established best ts) =
       Max (insert (STATE_RANK best) ((STATE_RANK \<circ> STATE_ESTABLISHED_BY) ` set ts))"
proof (induction ts arbitrary: best)
  case Nil
  then show ?case by simp
next
  case (Cons t ts)
  define b where "b = (if rank_greater (AXIS_RANK (STATE_ESTABLISHED_BY t)) (AXIS_RANK best)
    then STATE_ESTABLISHED_BY t else best)"
  have b: "b \<noteq> Vs_rejected" "STATE_RANK b = max (STATE_RANK (STATE_ESTABLISHED_BY t)) (STATE_RANK best)"
    using Cons.prems unfolding b_def by (cases t; cases best; simp)+
  have "best_established best (t # ts) = best_established b ts"
    by (simp add: b_def Let_def)
  with Cons.IH [OF b(1)] b(2) show ?case
    by (simp add: Max_insert [symmetric] insert_commute max.assoc max.left_commute
        del: Max_insert) (cases "ts = []"; simp add: max.assoc max.left_commute)
qed

lemma deriveVerificationState_rank:
  "current \<noteq> Vs_rejected \<Longrightarrow> STATE_RANK (deriveVerificationState current ts) =
     Max (insert 0 ((STATE_RANK \<circ> STATE_ESTABLISHED_BY) ` set ts))"
  using best_established_upper [of Vs_unreviewed ts] by (simp add: deriveVerificationState_def)

lemma STATE_RANK_inj: "STATE_RANK s = STATE_RANK t \<Longrightarrow> s = t"
  by (cases s; cases t) auto

text \<open>
  The verification state follows the standing attestations and nothing else: \<open>rejected\<close> is
  kept; otherwise the state reached depends only on which attestation types stand (not on their
  order, their number or the state before), it is at least what each of them establishes, and it
  never rises when attestations are revoked.
\<close>

theorem derived_state_follows_standing:
  "deriveVerificationState Vs_rejected ts = Vs_rejected \<and>
   (current \<noteq> Vs_rejected \<longrightarrow>
      deriveVerificationState current ts \<noteq> Vs_rejected \<and>
      (\<forall>t \<in> set ts. STATE_RANK (STATE_ESTABLISHED_BY t) \<le> STATE_RANK (deriveVerificationState current ts)) \<and>
      (\<forall>current' ts'. current' \<noteq> Vs_rejected \<and> set ts' = set ts \<longrightarrow>
         deriveVerificationState current' ts' = deriveVerificationState current ts) \<and>
      (\<forall>ts'. set ts' \<subseteq> set ts \<longrightarrow>
         STATE_RANK (deriveVerificationState current ts') \<le> STATE_RANK (deriveVerificationState current ts)))"
proof (intro conjI impI ballI allI)
  show "deriveVerificationState Vs_rejected ts = Vs_rejected"
    by (simp add: deriveVerificationState_def)
  assume c: "current \<noteq> Vs_rejected"
  then show "deriveVerificationState current ts \<noteq> Vs_rejected"
    using best_established_upper [of Vs_unreviewed ts] by (simp add: deriveVerificationState_def)
  show "STATE_RANK (STATE_ESTABLISHED_BY t) \<le> STATE_RANK (deriveVerificationState current ts)"
    if "t \<in> set ts" for t
    using that by (subst deriveVerificationState_rank [OF c]) (auto intro!: Max_ge)
  show "deriveVerificationState current' ts' = deriveVerificationState current ts"
    if "current' \<noteq> Vs_rejected \<and> set ts' = set ts" for current' ts'
    using that c by (intro STATE_RANK_inj) (simp add: deriveVerificationState_rank)
  show "STATE_RANK (deriveVerificationState current ts') \<le> STATE_RANK (deriveVerificationState current ts)"
    if "set ts' \<subseteq> set ts" for ts'
    unfolding deriveVerificationState_rank [OF c] by (rule Max_mono) (use that in auto)
qed

theorem derived_state_follows_standing_witness:
  "Vs_machine_checked \<noteq> Vs_rejected \<and>
   deriveVerificationState Vs_machine_checked [professional_signoff, cryptographic_attestation] =
     Vs_analyst_checked \<and>
   STATE_RANK (deriveVerificationState Vs_machine_checked [cryptographic_attestation]) \<le>
   STATE_RANK (deriveVerificationState Vs_machine_checked [professional_signoff, cryptographic_attestation])"
proof -
  let ?ts = "[professional_signoff, cryptographic_attestation]"
  have h: "Vs_machine_checked \<noteq> Vs_rejected" by simp
  have "\<forall>ts'. set ts' \<subseteq> set ?ts \<longrightarrow> STATE_RANK (deriveVerificationState Vs_machine_checked ts') \<le>
     STATE_RANK (deriveVerificationState Vs_machine_checked ?ts)"
    using derived_state_follows_standing [of ?ts Vs_machine_checked] h by blast
  then have "set [cryptographic_attestation] \<subseteq> set ?ts \<longrightarrow>
     STATE_RANK (deriveVerificationState Vs_machine_checked [cryptographic_attestation]) \<le>
     STATE_RANK (deriveVerificationState Vs_machine_checked ?ts)"
    by (rule spec)
  then show ?thesis by (simp add: deriveVerificationState_def)
qed

end
