(* ===== verification/Readiness.thy ===== *)
theory Readiness
  imports Ranked_Aggregate
begin

text \<open>
  Readiness statuses and the check on a gate decision (\<open>packages/domain/src/readiness.ts\<close>).
\<close>

section \<open>Statuses and their aggregation\<close>

datatype readiness_status = Rs_ok | Rs_watch | Rs_gap | Rs_not_evaluable

definition READINESS_STATUSES :: "readiness_status list" where
  "READINESS_STATUSES = [Rs_ok, Rs_watch, Rs_gap, Rs_not_evaluable]"

datatype gate_decision_value = Gd_go | Gd_hold | Gd_rework | Gd_stop

definition GATE_DECISIONS :: "gate_decision_value list" where
  "GATE_DECISIONS = [Gd_go, Gd_hold, Gd_rework, Gd_stop]"

fun READINESS_RANK :: "readiness_status \<Rightarrow> int" where
  "READINESS_RANK Rs_not_evaluable = 0"
| "READINESS_RANK Rs_gap = 1"
| "READINESS_RANK Rs_watch = 2"
| "READINESS_RANK Rs_ok = 3"

definition GO_BLOCKING :: "readiness_status list" where
  "GO_BLOCKING = [Rs_gap, Rs_not_evaluable]"

definition isGoBlocking :: "readiness_status \<Rightarrow> bool" where
  "isGoBlocking s \<longleftrightarrow> s \<in> set GO_BLOCKING"

definition aggregateReadiness :: "readiness_status list \<Rightarrow> readiness_status" where
  "aggregateReadiness statuses =
     (case statuses of [] \<Rightarrow> Rs_not_evaluable | s # ss \<Rightarrow> least_by READINESS_RANK s ss)"

lemma READINESS_RANK_inj: "READINESS_RANK s = READINESS_RANK t \<Longrightarrow> s = t"
  by (cases s; cases t) auto

interpretation readiness: worst_of READINESS_RANK Rs_not_evaluable aggregateReadiness
  by unfold_locales (auto simp: aggregateReadiness_def intro: READINESS_RANK_inj)

lemma isGoBlocking_rank: "isGoBlocking s \<longleftrightarrow> READINESS_RANK s \<le> 1"
  by (cases s) (simp_all add: isGoBlocking_def GO_BLOCKING_def)

lemma isGoBlocking_cases: "isGoBlocking s \<longleftrightarrow> s = Rs_gap \<or> s = Rs_not_evaluable"
  by (simp add: isGoBlocking_def GO_BLOCKING_def)

lemma aggregate_not_blocking_iff:
  "statuses \<noteq> [] \<Longrightarrow> \<not> isGoBlocking (aggregateReadiness statuses) \<longleftrightarrow>
     (\<forall>s \<in> set statuses. \<not> isGoBlocking s)"
  using readiness.agg_at_least [of statuses 2] by (auto simp: isGoBlocking_rank not_le)

section \<open>The check on a decision\<close>

datatype gate_deny_reason =
    GATE_GAP_BLOCKS_GO | GATE_NOT_EVALUABLE_BLOCKS_GO | GATE_WATCH_REQUIRES_RATIONALE |
    GATE_WATCH_REQUIRES_CONDITIONS | GATE_MISSING_ASSESSMENT

text \<open>\<open>conditions\<close> is optional in the request: \<open>None\<close> is an absent field.\<close>

record gate_decision_request =
  decision :: gate_decision_value
  requirementStatuses :: "readiness_status list"
  hasAssessment :: bool
  rationale :: "js_string option"
  conditions :: "js_string list option"

datatype gate_decision_check =
    Gate_allowed
  | Gate_denied (gate_reason: gate_deny_reason) (blockingRequirementIndexes: "nat list")

definition indexesOf :: "readiness_status list \<Rightarrow> readiness_status \<Rightarrow> nat list" where
  "indexesOf statuses target = indexes_from 0 (\<lambda>s. s = target) statuses"

definition checkGateDecision :: "gate_decision_request \<Rightarrow> gate_decision_check" where
  "checkGateDecision r =
     (if \<not> hasAssessment r then Gate_denied GATE_MISSING_ASSESSMENT []
      else if decision r \<noteq> Gd_go then Gate_allowed
      else
        (let notEvaluable = indexesOf (requirementStatuses r) Rs_not_evaluable;
             gaps = indexesOf (requirementStatuses r) Rs_gap;
             watches = indexesOf (requirementStatuses r) Rs_watch;
             conds = filter (\<lambda>c. \<not> js_blank c) (case conditions r of None \<Rightarrow> [] | Some cs \<Rightarrow> cs)
         in
           if length notEvaluable > 0 then Gate_denied GATE_NOT_EVALUABLE_BLOCKS_GO notEvaluable
           else if length gaps > 0 then Gate_denied GATE_GAP_BLOCKS_GO gaps
           else if length watches > 0 \<and>
                   (case rationale r of None \<Rightarrow> True | Some t \<Rightarrow> js_blank t)
           then Gate_denied GATE_WATCH_REQUIRES_RATIONALE watches
           else if length watches > 0 \<and> length conds = 0
           then Gate_denied GATE_WATCH_REQUIRES_CONDITIONS watches
           else Gate_allowed))"

lemma indexesOf_eq_Nil_iff [simp]: "indexesOf ss t = [] \<longleftrightarrow> t \<notin> set ss"
  by (auto simp: indexesOf_def)

lemma set_indexesOf: "set (indexesOf ss t) = {i. i < length ss \<and> ss ! i = t}"
  by (simp add: indexesOf_def set_indexes_from)

text \<open>The worst status of several, read from the ones that occur.\<close>

lemma aggregate_ok_watch:
  assumes "statuses \<noteq> []"
  shows "aggregateReadiness statuses = Rs_ok \<longleftrightarrow> set statuses \<subseteq> {Rs_ok}"
    and "aggregateReadiness statuses = Rs_watch \<longleftrightarrow> set statuses \<subseteq> {Rs_ok, Rs_watch} \<and> Rs_watch \<in> set statuses"
proof -
  have rank: "READINESS_RANK s \<ge> 3 \<longleftrightarrow> s = Rs_ok" "READINESS_RANK s \<ge> 2 \<longleftrightarrow> s = Rs_ok \<or> s = Rs_watch" for s
    by (cases s; simp)+
  have ok: "aggregateReadiness statuses = Rs_ok \<longleftrightarrow> (\<forall>s \<in> set statuses. s = Rs_ok)"
    using readiness.agg_at_least [OF assms, of 3] by (simp add: rank)
  then show "aggregateReadiness statuses = Rs_ok \<longleftrightarrow> set statuses \<subseteq> {Rs_ok}" by auto
  show "aggregateReadiness statuses = Rs_watch \<longleftrightarrow> set statuses \<subseteq> {Rs_ok, Rs_watch} \<and> Rs_watch \<in> set statuses"
    using readiness.agg_at_least [OF assms, of 2] ok by (auto simp: rank)
qed

lemma gate_decision_go:
  "hasAssessment r \<Longrightarrow> decision r = Gd_go \<Longrightarrow> checkGateDecision r = Gate_allowed \<longleftrightarrow>
     (\<forall>s \<in> set (requirementStatuses r). \<not> isGoBlocking s) \<and>
     (Rs_watch \<notin> set (requirementStatuses r) \<or>
      (\<exists>t. rationale r = Some t \<and> \<not> js_blank t) \<and>
      (\<exists>cs. conditions r = Some cs \<and> (\<exists>c \<in> set cs. \<not> js_blank c)))"
  unfolding checkGateDecision_def isGoBlocking_cases
  by (cases "conditions r"; cases "rationale r") (auto simp: Let_def filter_empty_conv)

text \<open>
  C23. Over an assessment with at least one requirement, a \<open>go\<close> is recorded exactly when an assessment exists
  and its readiness, the worst status of the requirements, is ok, or is watch and comes with a rationale and
  a condition that are not blank; so never over a gap or what is not evaluable. Every other decision needs
  only an assessment, whatever the readiness. (A \<open>go\<close> over no requirement at all is left out: there the
  check and the readiness disagree, as the next lemma shows.)
\<close>

theorem gate_decision_allowed_iff:
  assumes "decision r = Gd_go \<Longrightarrow> requirementStatuses r \<noteq> []"
  shows "checkGateDecision r = Gate_allowed \<longleftrightarrow>
     hasAssessment r \<and>
     (decision r = Gd_go \<longrightarrow>
      aggregateReadiness (requirementStatuses r) = Rs_ok \<or>
      aggregateReadiness (requirementStatuses r) = Rs_watch \<and>
      (\<exists>t. rationale r = Some t \<and> \<not> js_blank t) \<and>
      (\<exists>cs. conditions r = Some cs \<and> (\<exists>c \<in> set cs. \<not> js_blank c)))"
proof (cases "hasAssessment r \<and> decision r = Gd_go")
  case True
  have plain: "(\<forall>s \<in> S. \<not> isGoBlocking s) \<longleftrightarrow> S \<subseteq> {Rs_ok, Rs_watch}" for S
    using readiness_status.exhaust by (auto simp: isGoBlocking_cases)
  have only_ok: "Rs_watch \<notin> S \<Longrightarrow> S \<subseteq> {Rs_ok, Rs_watch} \<longleftrightarrow> S \<subseteq> {Rs_ok}" for S by auto
  have no_watch: "S \<subseteq> {Rs_ok} \<Longrightarrow> Rs_watch \<notin> S" for S by auto
  show ?thesis
    using True assms gate_decision_go [of r] aggregate_ok_watch [of "requirementStatuses r"] plain only_ok no_watch
    by metis
next
  case False
  then show ?thesis by (auto simp: checkGateDecision_def)
qed

theorem gate_decision_allowed_iff_witness:
  "let r = \<lparr>decision = Gd_go, requirementStatuses = [Rs_ok, Rs_watch], hasAssessment = True,
            rationale = Some (js ''because''), conditions = Some [[], js ''report monthly'']\<rparr>
   in checkGateDecision r = Gate_allowed \<and> aggregateReadiness (requirementStatuses r) = Rs_watch"
  unfolding Let_def
  by (subst gate_decision_allowed_iff)
    (simp_all add: aggregate_ok_watch js_blank_iff js_def js_whitespace_def)

lemma go_over_nothing:
  "checkGateDecision \<lparr>decision = Gd_go, requirementStatuses = [], hasAssessment = True, rationale = None, conditions = None\<rparr> =
     Gate_allowed" "aggregateReadiness [] = Rs_not_evaluable" "isGoBlocking (aggregateReadiness [])"
  by (simp_all add: checkGateDecision_def indexesOf_def aggregateReadiness_def isGoBlocking_cases)

text \<open>
  A refused decision names requirements that really block it: every index listed is the
  position of a requirement whose status is the one the refusal is about, and all such positions
  are listed.
\<close>

theorem gate_denial_indexes_exact:
  assumes "checkGateDecision r = Gate_denied reason idx" and "reason \<noteq> GATE_MISSING_ASSESSMENT"
  shows "idx \<noteq> [] \<and>
    (\<exists>status \<in> {Rs_not_evaluable, Rs_gap, Rs_watch}.
       set idx = {i. i < length (requirementStatuses r) \<and> requirementStatuses r ! i = status} \<and>
       (status = Rs_not_evaluable \<longleftrightarrow> reason = GATE_NOT_EVALUABLE_BLOCKS_GO) \<and>
       (status = Rs_gap \<longleftrightarrow> reason = GATE_GAP_BLOCKS_GO))"
  using assms
  unfolding checkGateDecision_def Let_def
  by (auto simp: set_indexesOf [symmetric] split: if_splits)

theorem gate_denial_indexes_exact_witness:
  "let r = \<lparr>decision = Gd_go, requirementStatuses = [Rs_ok, Rs_gap, Rs_watch, Rs_gap],
            hasAssessment = True, rationale = Some (js ''because''), conditions = None\<rparr>
   in checkGateDecision r = Gate_denied GATE_GAP_BLOCKS_GO [1, 3] \<and> [1, 3] \<noteq> ([] :: nat list)"
proof -
  let ?r = "\<lparr>decision = Gd_go, requirementStatuses = [Rs_ok, Rs_gap, Rs_watch, Rs_gap],
            hasAssessment = True, rationale = Some (js ''because''), conditions = None\<rparr>"
  have h: "checkGateDecision ?r = Gate_denied GATE_GAP_BLOCKS_GO [1, 3]"
    by (simp add: checkGateDecision_def Let_def indexesOf_def)
  show ?thesis
    unfolding Let_def using h gate_denial_indexes_exact [OF h] by simp
qed

end
