(* ===== verification/Source_Result.thy ===== *)
theory Source_Result
  imports Registry_Prelude
begin

text \<open>
  The twelve source results and what each one allows (\<open>packages/domain/src/source-result.ts\<close>).
\<close>

datatype source_result =
    confirmed_from_source | source_returned_no_record | not_applicable | access_not_authorized |
    source_unavailable | authentication_failed | signature_invalid | schema_changed | stale |
    conflicting | manual_review_required | legal_interpretation_required

definition SOURCE_RESULTS :: "source_result list" where
  "SOURCE_RESULTS =
     [confirmed_from_source, source_returned_no_record, not_applicable, access_not_authorized,
      source_unavailable, authentication_failed, signature_invalid, schema_changed, stale,
      conflicting, manual_review_required, legal_interpretation_required]"

text \<open>The string a result is at run time.\<close>

fun source_result_string :: "source_result \<Rightarrow> js_string" where
  "source_result_string confirmed_from_source = js ''confirmed_from_source''"
| "source_result_string source_returned_no_record = js ''source_returned_no_record''"
| "source_result_string not_applicable = js ''not_applicable''"
| "source_result_string access_not_authorized = js ''access_not_authorized''"
| "source_result_string source_unavailable = js ''source_unavailable''"
| "source_result_string authentication_failed = js ''authentication_failed''"
| "source_result_string signature_invalid = js ''signature_invalid''"
| "source_result_string schema_changed = js ''schema_changed''"
| "source_result_string stale = js ''stale''"
| "source_result_string conflicting = js ''conflicting''"
| "source_result_string manual_review_required = js ''manual_review_required''"
| "source_result_string legal_interpretation_required = js ''legal_interpretation_required''"

datatype next_action =
    view_limitations | verify_query_or_manual_review | view_applicability_basis |
    check_authorization_process | view_retry_and_last_success | connection_admin_action |
    quarantine_security_review | await_reconciliation | request_refresh |
    compare_and_expert_review | submit_official_document | escalate_to_legal

record source_result_behaviour =
  retryable :: bool
  permitsCanonicalAcceptance :: bool
  degradesConnection :: bool
  nextAction :: next_action

fun SOURCE_RESULT_BEHAVIOUR :: "source_result \<Rightarrow> source_result_behaviour" where
  "SOURCE_RESULT_BEHAVIOUR confirmed_from_source =
     \<lparr>retryable = False, permitsCanonicalAcceptance = True, degradesConnection = False,
      nextAction = view_limitations\<rparr>"
| "SOURCE_RESULT_BEHAVIOUR source_returned_no_record =
     \<lparr>retryable = False, permitsCanonicalAcceptance = False, degradesConnection = False,
      nextAction = verify_query_or_manual_review\<rparr>"
| "SOURCE_RESULT_BEHAVIOUR not_applicable =
     \<lparr>retryable = False, permitsCanonicalAcceptance = False, degradesConnection = False,
      nextAction = view_applicability_basis\<rparr>"
| "SOURCE_RESULT_BEHAVIOUR access_not_authorized =
     \<lparr>retryable = False, permitsCanonicalAcceptance = False, degradesConnection = True,
      nextAction = check_authorization_process\<rparr>"
| "SOURCE_RESULT_BEHAVIOUR source_unavailable =
     \<lparr>retryable = True, permitsCanonicalAcceptance = False, degradesConnection = True,
      nextAction = view_retry_and_last_success\<rparr>"
| "SOURCE_RESULT_BEHAVIOUR authentication_failed =
     \<lparr>retryable = True, permitsCanonicalAcceptance = False, degradesConnection = True,
      nextAction = connection_admin_action\<rparr>"
| "SOURCE_RESULT_BEHAVIOUR signature_invalid =
     \<lparr>retryable = False, permitsCanonicalAcceptance = False, degradesConnection = True,
      nextAction = quarantine_security_review\<rparr>"
| "SOURCE_RESULT_BEHAVIOUR schema_changed =
     \<lparr>retryable = False, permitsCanonicalAcceptance = False, degradesConnection = True,
      nextAction = await_reconciliation\<rparr>"
| "SOURCE_RESULT_BEHAVIOUR stale =
     \<lparr>retryable = True, permitsCanonicalAcceptance = False, degradesConnection = False,
      nextAction = request_refresh\<rparr>"
| "SOURCE_RESULT_BEHAVIOUR conflicting =
     \<lparr>retryable = False, permitsCanonicalAcceptance = False, degradesConnection = False,
      nextAction = compare_and_expert_review\<rparr>"
| "SOURCE_RESULT_BEHAVIOUR manual_review_required =
     \<lparr>retryable = False, permitsCanonicalAcceptance = False, degradesConnection = False,
      nextAction = submit_official_document\<rparr>"
| "SOURCE_RESULT_BEHAVIOUR legal_interpretation_required =
     \<lparr>retryable = False, permitsCanonicalAcceptance = False, degradesConnection = False,
      nextAction = escalate_to_legal\<rparr>"

datatype receipt_outcome = Outcome_classified | Outcome_quarantined

definition receiptProcessingStateFor :: "source_result \<Rightarrow> receipt_outcome" where
  "receiptProcessingStateFor r =
     (if r = schema_changed \<or> r = signature_invalid then Outcome_quarantined else Outcome_classified)"

definition isSourceResult :: "js_string \<Rightarrow> bool" where
  "isSourceResult v \<longleftrightarrow> v \<in> set (map source_result_string SOURCE_RESULTS)"

datatype collection_method =
    authenticated_api | official_bulk_export | verifiable_signed_document |
    manual_official_registry_confirmation

definition COLLECTION_METHODS :: "collection_method list" where
  "COLLECTION_METHODS =
     [authenticated_api, official_bulk_export, verifiable_signed_document,
      manual_official_registry_confirmation]"

lemma source_results_complete: "r \<in> set SOURCE_RESULTS"
  by (cases r) (simp_all add: SOURCE_RESULTS_def)

lemma isSourceResult_iff: "isSourceResult v \<longleftrightarrow> (\<exists>r. v = source_result_string r)"
  using source_results_complete by (auto simp: isSourceResult_def)

lemma permitsCanonicalAcceptance_iff:
  "permitsCanonicalAcceptance (SOURCE_RESULT_BEHAVIOUR r) \<longleftrightarrow> r = confirmed_from_source"
  by (cases r) simp_all

lemma next_action_inj: "inj (\<lambda>r. nextAction (SOURCE_RESULT_BEHAVIOUR r))"
proof (rule injI)
  fix r s assume "nextAction (SOURCE_RESULT_BEHAVIOUR r) = nextAction (SOURCE_RESULT_BEHAVIOUR s)"
  then show "r = s" by (cases r; cases s; simp)
qed

lemma source_result_string_inj: "inj source_result_string"
proof (rule injI)
  fix r s assume "source_result_string r = source_result_string s"
  then show "r = s" by (cases r; cases s; simp)
qed

end
