(* ===== verification/Channels.thy ===== *)
theory Channels
  imports Source_Result
begin

text \<open>
  The evidence channels (\<open>packages/domain/src/channels.ts\<close>): schema drift of a bulk export, the
  result of a signed document, the second review of a manual confirmation, and the readiness
  check before a receipt is created.
\<close>

section \<open>Bulk export\<close>

record schema_drift =
  drifted :: bool
  added :: "js_string list"
  removed :: "js_string list"
  compared :: bool

definition detectSchemaDrift :: "js_string list \<Rightarrow> js_string list \<Rightarrow> schema_drift" where
  "detectSchemaDrift declared observed =
     (if length declared = 0
      then \<lparr>drifted = False, added = [], removed = [], compared = False\<rparr>
      else
        (let declaredSet = set declared; observedSet = set observed;
             add = filter (\<lambda>f. f \<notin> declaredSet) observed;
             rem = filter (\<lambda>f. f \<notin> observedSet) declared
         in \<lparr>drifted = (length rem > 0 \<or> length add > 0), added = add, removed = rem, compared = True\<rparr>))"

definition classifyBulkExport ::
    "js_string list \<Rightarrow> js_string list \<Rightarrow> bool \<Rightarrow> source_result \<times> schema_drift" where
  "classifyBulkExport declaredFields observedFields recordFound =
     (let drift = detectSchemaDrift declaredFields observedFields in
      if drifted drift then (schema_changed, drift)
      else if \<not> compared drift then (manual_review_required, drift)
      else if \<not> recordFound then (source_returned_no_record, drift)
      else (confirmed_from_source, drift))"

section \<open>Signed document\<close>

text \<open>\<open>signatureValid\<close> is \<open>None\<close> when verification could not be attempted.\<close>

definition classifySignedDocument :: "bool option \<Rightarrow> bool \<Rightarrow> bool \<Rightarrow> source_result" where
  "classifySignedDocument signatureValid signerRecognized recordFound =
     (if signatureValid = Some False then signature_invalid
      else if signatureValid = None then manual_review_required
      else if \<not> signerRecognized then signature_invalid
      else if \<not> recordFound then source_returned_no_record
      else confirmed_from_source)"

section \<open>Manual confirmation and channel readiness\<close>

definition requiresSecondReview :: "collection_method \<Rightarrow> bool" where
  "requiresSecondReview m \<longleftrightarrow> m = manual_official_registry_confirmation"

datatype second_review_check = Review_ok | Review_refused (refusal: js_string) (remedy: js_string)

text \<open>A checker is a string or null; \<open>!x\<close> is true of null and of the empty string.\<close>

definition checkSecondReview :: "js_string option \<Rightarrow> js_string option \<Rightarrow> second_review_check" where
  "checkSecondReview firstConfirmedBy secondConfirmedBy =
     (if secondConfirmedBy = None \<or> secondConfirmedBy = Some [] then
        Review_refused (js ''A manual check cannot be confirmed without a second review'')
          (js ''Another person looks up the same registry and confirms'')
      else if secondConfirmedBy = firstConfirmedBy then
        Review_refused (js ''The first checker cannot perform the second review'')
          (js ''Another person confirms'')
      else Review_ok)"

text \<open>
  The optional fields of the input: absent and null are one value, as the code never tells them
  apart.
\<close>

record channel_input =
  channelMethod :: collection_method
  channelResult :: source_result
  signatureValid :: "bool option"
  observedFields :: "js_string list option"
  secondConfirmedBy :: "js_string option"
  firstConfirmedBy :: "js_string option"

definition checkChannelReady :: "channel_input \<Rightarrow> second_review_check" where
  "checkChannelReady i =
     (if channelResult i \<noteq> confirmed_from_source then Review_ok
      else if channelMethod i = manual_official_registry_confirmation then
        checkSecondReview (firstConfirmedBy i) (secondConfirmedBy i)
      else if channelMethod i = verifiable_signed_document \<and> signatureValid i \<noteq> Some True then
        Review_refused (js ''A document whose signature is not verified cannot be confirmed'')
          (js ''Register the signer's public key and verify again'')
      else if channelMethod i = official_bulk_export \<and> observedFields i = None then
        Review_refused (js ''A bulk export cannot be confirmed without an observed schema'')
          (js ''Send the list of fields read from the file along with it'')
      else Review_ok)"

section \<open>Properties\<close>

lemma detectSchemaDrift_drifted_iff:
  "drifted (detectSchemaDrift declared observed) \<longleftrightarrow> declared \<noteq> [] \<and> set declared \<noteq> set observed"
  by (auto simp: detectSchemaDrift_def Let_def filter_empty_conv)

lemma detectSchemaDrift_compared_iff: "compared (detectSchemaDrift declared observed) \<longleftrightarrow> declared \<noteq> []"
  by (simp add: detectSchemaDrift_def Let_def)

lemma detectSchemaDrift_fields:
  "declared \<noteq> [] \<Longrightarrow> set (added (detectSchemaDrift declared observed)) = set observed - set declared"
  "declared \<noteq> [] \<Longrightarrow> set (removed (detectSchemaDrift declared observed)) = set declared - set observed"
  by (auto simp: detectSchemaDrift_def Let_def)

text \<open>
  No channel confirms what it did not check. A bulk export is confirmed exactly when a schema
  was declared, the observed fields are that schema and the record was found; a signed document
  exactly when its signature verified, its signer is recognized and the record was found.
\<close>

theorem channel_confirms_iff:
  "(fst (classifyBulkExport declared observed found) = confirmed_from_source \<longleftrightarrow>
      declared \<noteq> [] \<and> set observed = set declared \<and> found) \<and>
   (classifySignedDocument sig recognized found = confirmed_from_source \<longleftrightarrow>
      sig = Some True \<and> recognized \<and> found)"
proof
  show "fst (classifyBulkExport declared observed found) = confirmed_from_source \<longleftrightarrow>
      declared \<noteq> [] \<and> set observed = set declared \<and> found"
    by (auto simp: classifyBulkExport_def Let_def detectSchemaDrift_drifted_iff
        detectSchemaDrift_compared_iff)
  show "classifySignedDocument sig recognized found = confirmed_from_source \<longleftrightarrow>
      sig = Some True \<and> recognized \<and> found"
    by (cases sig) (auto simp: classifySignedDocument_def)
qed

text \<open>
  A receipt that claims a confirmation passes the readiness check only on its channel's own
  evidence: a manual confirmation only with a second checker who is not the first, a signed
  document only with a verified signature, a bulk export only with the observed fields. Results
  that are no confirmation always pass.
\<close>

theorem channel_ready_iff:
  "checkChannelReady i = Review_ok \<longleftrightarrow>
     (channelResult i = confirmed_from_source \<longrightarrow>
        (case channelMethod i of
           manual_official_registry_confirmation \<Rightarrow>
             (\<exists>second. secondConfirmedBy i = Some second \<and> second \<noteq> [] \<and> firstConfirmedBy i \<noteq> Some second)
         | verifiable_signed_document \<Rightarrow> signatureValid i = Some True
         | official_bulk_export \<Rightarrow> observedFields i \<noteq> None
         | authenticated_api \<Rightarrow> True))"
  by (cases "channelMethod i")
    (auto simp: checkChannelReady_def checkSecondReview_def)

theorem channel_ready_iff_witness:
  "let i = \<lparr>channelMethod = manual_official_registry_confirmation, channelResult = confirmed_from_source,
            signatureValid = None, observedFields = None,
            secondConfirmedBy = Some (js ''bob''), firstConfirmedBy = Some (js ''ann'')\<rparr>
   in checkChannelReady i = Review_ok"
proof -
  let ?i = "\<lparr>channelMethod = manual_official_registry_confirmation, channelResult = confirmed_from_source,
            signatureValid = None, observedFields = None,
            secondConfirmedBy = Some (js ''bob''), firstConfirmedBy = Some (js ''ann'')\<rparr>"
  show ?thesis unfolding Let_def using channel_ready_iff [of ?i] by simp
qed

end
