(* ===== verification/Adapter.thy ===== *)
theory Adapter
  imports Source_Result
begin

text \<open>
  The evidence adapter framework (\<open>packages/domain/src/adapter.ts\<close>): when an adapter may be called,
  how its outcome becomes the input of a source receipt, the validation of a jurisdiction profile
  and the reading of a connection state as an adapter state.
\<close>

section \<open>Adapters and their availability\<close>

datatype adapter_state = Ad_active | Ad_manual | Ad_pending_access | Ad_blocked

definition ADAPTER_STATES :: "adapter_state list" where
  "ADAPTER_STATES = [Ad_active, Ad_manual, Ad_pending_access, Ad_blocked]"

fun adapter_state_string :: "adapter_state \<Rightarrow> js_string" where
  "adapter_state_string Ad_active = js ''active''"
| "adapter_state_string Ad_manual = js ''manual''"
| "adapter_state_string Ad_pending_access = js ''pending_access''"
| "adapter_state_string Ad_blocked = js ''blocked''"

record adapter_descriptor =
  connectionKey :: js_string
  authorityName :: js_string
  jurisdiction :: js_string
  adapterState :: adapter_state
  proves :: "js_string list"
  doesNotProve :: "js_string list"
  stateReason :: js_string

datatype adapter_availability =
    Callable
  | Not_callable (unavailable_reason: js_string) (unavailable_action: js_string)

definition checkAdapterAvailable :: "adapter_descriptor \<Rightarrow> adapter_availability" where
  "checkAdapterAvailable d =
     (case adapterState d of
        Ad_active \<Rightarrow> Callable
      | Ad_manual \<Rightarrow> Not_callable (js ''MANUAL_COLLECTION_ONLY'')
          (js ''Look up the official channel, then record the result manually'')
      | Ad_pending_access \<Rightarrow> Not_callable (js ''ACCESS_NOT_GRANTED'')
          (js ''Negotiate access with the institution. Do not call it until access is confirmed'')
      | Ad_blocked \<Rightarrow> Not_callable (js ''LEGALLY_BLOCKED'')
          (js ''Check the outcome of the legal review''))"

section \<open>From an invocation to a receipt\<close>

text \<open>A \<open>Record<string, string>\<close> is an association list.\<close>

type_synonym query_basis = "(js_string \<times> js_string) list"

record adapter_outcome =
  outcomeResult :: source_result
  outcomeRawHash :: js_string
  outcomeQueryBasis :: query_basis
  outcomeLimitations :: "js_string list"
  outcomeEffectiveAt :: "js_string option"

datatype adapter_invocation = Outcome adapter_outcome | Failed source_result js_string

record receipt_input =
  receiptResult :: source_result
  limitations :: "js_string list"
  rawHash :: "js_string option"
  queryBasis :: query_basis
  effectiveAt :: "js_string option"

definition toReceiptInput :: "adapter_descriptor \<Rightarrow> adapter_invocation \<Rightarrow> receipt_input" where
  "toReceiptInput d invocation =
     (case invocation of
        Failed r detail \<Rightarrow>
          \<lparr>receiptResult = r, limitations = doesNotProve d @ [js ''Lookup failed: '' @ detail],
           rawHash = None, queryBasis = [], effectiveAt = None\<rparr>
      | Outcome out \<Rightarrow>
          (let merged = js_uniq (doesNotProve d @ outcomeLimitations out)
           in \<lparr>receiptResult = outcomeResult out, limitations = merged,
               rawHash = Some (outcomeRawHash out), queryBasis = outcomeQueryBasis out,
               effectiveAt = outcomeEffectiveAt out\<rparr>))"

section \<open>Jurisdiction profiles\<close>

record jurisdiction_profile =
  profileJurisdiction :: js_string
  adapters :: "adapter_descriptor list"

record profile_issue =
  issueKey :: js_string
  problem :: js_string

definition adapter_issues :: "js_string \<Rightarrow> js_string list \<Rightarrow> adapter_descriptor \<Rightarrow> profile_issue list" where
  "adapter_issues profile_jurisdiction seen a =
     (let issue = (\<lambda>p. \<lparr>issueKey = connectionKey a, problem = p\<rparr>) in
        (if connectionKey a \<in> set seen then [issue (js ''duplicate connectionKey'')] else []) @
        (if length (doesNotProve a) = 0
         then [issue (js ''doesNotProve is empty '' @ [0x2014] @
                 js '' what is not checked must always be stated'')] else []) @
        (if length (proves a) = 0 then [issue (js ''proves is empty'')] else []) @
        (if adapterState a \<noteq> Ad_active \<and> js_blank (stateReason a)
         then [issue (adapter_state_string (adapterState a) @ js '' state requires a reason'')] else []) @
        (if jurisdiction a \<noteq> profile_jurisdiction
         then [issue (js ''profile jurisdiction and adapter jurisdiction differ'')] else []))"

fun adapters_issues :: "js_string \<Rightarrow> js_string list \<Rightarrow> adapter_descriptor list \<Rightarrow> profile_issue list" where
  "adapters_issues j seen [] = []"
| "adapters_issues j seen (a # as) = adapter_issues j seen a @ adapters_issues j (connectionKey a # seen) as"

definition validateProfile :: "jurisdiction_profile \<Rightarrow> profile_issue list" where
  "validateProfile profile = adapters_issues (profileJurisdiction profile) [] (adapters profile)"

section \<open>Connection states\<close>

text \<open>The result type adds \<open>none\<close> to the adapter states; a null connection state is \<open>None\<close>.\<close>

definition connectionStateToAdapterState :: "js_string option \<Rightarrow> adapter_state option" where
  "connectionStateToAdapterState connectionState =
     (case connectionState of
        None \<Rightarrow> None
      | Some s \<Rightarrow>
          (if s = js ''active'' then Some Ad_active
           else if s = js ''access_confirmed'' \<or> s = js ''tested'' then Some Ad_manual
           else if s = js ''planned'' \<or> s = js ''feasibility_checked'' then Some Ad_pending_access
           else if s = js ''degraded'' \<or> s = js ''disabled'' then Some Ad_blocked
           else Some Ad_pending_access))"

text \<open>\<open>null\<close> in a template literal is the text \<open>null\<close>.\<close>

definition adapterStateReason :: "adapter_state option \<Rightarrow> js_string option \<Rightarrow> js_string" where
  "adapterStateReason state connectionState =
     (case state of
        Some Ad_active \<Rightarrow> []
      | Some Ad_manual \<Rightarrow>
          js ''No official API, or access is under negotiation. A person looks it up and records the result''
      | Some Ad_pending_access \<Rightarrow>
          js ''Access is not confirmed (connection state: '' @
          (case connectionState of None \<Rightarrow> js ''none'' | Some s \<Rightarrow> s) @ js '')''
      | Some Ad_blocked \<Rightarrow>
          js ''Integration is suspended or degraded (connection state: '' @
          (case connectionState of None \<Rightarrow> js ''null'' | Some s \<Rightarrow> s) @ js '')''
      | None \<Rightarrow> js ''No integration has been built for this institution'')"

section \<open>Properties\<close>

text \<open>
  A receipt always carries what its authority does not prove: whatever the adapter returned,
  every declared limitation of the descriptor is on the receipt, nothing is on it twice for an
  outcome, and a failed lookup has no raw hash, no query basis and one limitation that names the
  failure.
\<close>

theorem receipt_carries_limitations:
  "set (doesNotProve d) \<subseteq> set (limitations (toReceiptInput d invocation)) \<and>
   (case invocation of
      Outcome out \<Rightarrow>
        set (limitations (toReceiptInput d invocation)) = set (doesNotProve d) \<union> set (outcomeLimitations out) \<and>
        distinct (limitations (toReceiptInput d invocation)) \<and>
        rawHash (toReceiptInput d invocation) = Some (outcomeRawHash out)
    | Failed r detail \<Rightarrow>
        rawHash (toReceiptInput d invocation) = None \<and> queryBasis (toReceiptInput d invocation) = [] \<and>
        last (limitations (toReceiptInput d invocation)) = js ''Lookup failed: '' @ detail)"
  by (cases invocation) (auto simp: toReceiptInput_def Let_def)

lemma adapter_issues_Nil_iff:
  "adapter_issues j seen a = [] \<longleftrightarrow>
     connectionKey a \<notin> set seen \<and> doesNotProve a \<noteq> [] \<and> proves a \<noteq> [] \<and>
     (adapterState a \<noteq> Ad_active \<longrightarrow> \<not> js_blank (stateReason a)) \<and> jurisdiction a = j"
  by (auto simp: adapter_issues_def Let_def)

lemma adapters_issues_Nil_iff:
  "adapters_issues j seen as = [] \<longleftrightarrow>
     distinct (map connectionKey as) \<and> set (map connectionKey as) \<inter> set seen = {} \<and>
     (\<forall>a \<in> set as. doesNotProve a \<noteq> [] \<and> proves a \<noteq> [] \<and>
        (adapterState a \<noteq> Ad_active \<longrightarrow> \<not> js_blank (stateReason a)) \<and> jurisdiction a = j)"
  by (induction as arbitrary: seen) (auto simp: adapter_issues_Nil_iff)

text \<open>
  A jurisdiction profile is accepted exactly when its connection keys are distinct and every
  adapter states what it proves and what it does not, gives a reason for every inactive state and
  is of the profile's jurisdiction. A profile without an active adapter can be accepted.
\<close>

theorem profile_valid_iff:
  "validateProfile p = [] \<longleftrightarrow>
     distinct (map connectionKey (adapters p)) \<and>
     (\<forall>a \<in> set (adapters p). doesNotProve a \<noteq> [] \<and> proves a \<noteq> [] \<and>
        (adapterState a = Ad_active \<or> \<not> js_blank (stateReason a)) \<and>
        jurisdiction a = profileJurisdiction p)"
  by (auto simp: validateProfile_def adapters_issues_Nil_iff)

theorem profile_valid_iff_witness:
  "let p = \<lparr>profileJurisdiction = js ''MN'', adapters =
       [\<lparr>connectionKey = js ''k'', authorityName = js ''Registry'', jurisdiction = js ''MN'',
         adapterState = Ad_blocked, proves = [js ''title''], doesNotProve = [js ''value''],
         stateReason = js ''legal review''\<rparr>]\<rparr>
   in validateProfile p = []"
proof -
  have "\<not> js_blank (js ''legal review'')"
    by (simp add: js_blank_iff js_def js_whitespace_def)
  then show ?thesis
    unfolding Let_def by (subst profile_valid_iff) simp
qed

end
