(* ===== verification/Attestation.thy ===== *)
theory Attestation
  imports Machines Provenance
begin

text \<open>
  Attestations before and after signing (\<open>packages/domain/src/attestation.ts\<close>): the check before a
  signature, the standing of a credential after it, the authority facts a canonical acceptance
  rests on, and the moves of a credential's status. Dates are ISO strings compared by code units,
  as the source compares them.
\<close>

section \<open>Before signing\<close>

datatype conflict_status = Conflict_none | Conflict_disclosed_resolved | Conflict_unresolved

datatype attestation_deny_reason =
    ATTESTATION_LIMITATIONS_REQUIRED | ATTESTATION_UNRESOLVED_CONFLICT |
    ATTESTATION_NO_ACTIVE_ASSIGNMENT | ATTESTATION_CREDENTIAL_INVALID |
    ATTESTATION_SCOPE_MISMATCH | ATTESTATION_SCHEMA_NOT_ACTIVE |
    ATTESTATION_EMPTY_CLAIM_SCOPE | ATTESTATION_SELF_ASSURANCE |
    ATTESTATION_INDEPENDENCE_NOT_REVIEWED

text \<open>The schema states of the request are those of the attestation schema machine.\<close>

record attestation_sign_request =
  attestationType :: attestation_type
  claimScope :: "js_string list"
  reviewLimitations :: js_string
  conflictStatus :: conflict_status
  credentialValidAtSigningTime :: bool
  credentialScopeCovers :: bool
  hasActiveAssignment :: bool
  schemaState :: attestation_schema_state
  signerSubmittedEvidence :: bool
  independenceReviewed :: bool

datatype attestation_sign_check = Sign_allowed | Sign_refused attestation_deny_reason

definition checkAttestationSignable :: "attestation_sign_request \<Rightarrow> attestation_sign_check" where
  "checkAttestationSignable r =
     (if length (js_trim (reviewLimitations r)) = 0 then Sign_refused ATTESTATION_LIMITATIONS_REQUIRED
      else if length (claimScope r) = 0 then Sign_refused ATTESTATION_EMPTY_CLAIM_SCOPE
      else if schemaState r \<noteq> As_active then Sign_refused ATTESTATION_SCHEMA_NOT_ACTIVE
      else if \<not> hasActiveAssignment r then Sign_refused ATTESTATION_NO_ACTIVE_ASSIGNMENT
      else if \<not> credentialValidAtSigningTime r then Sign_refused ATTESTATION_CREDENTIAL_INVALID
      else if \<not> credentialScopeCovers r then Sign_refused ATTESTATION_SCOPE_MISMATCH
      else if conflictStatus r = Conflict_unresolved then Sign_refused ATTESTATION_UNRESOLVED_CONFLICT
      else if attestationType r = independent_assurance \<and> signerSubmittedEvidence r
      then Sign_refused ATTESTATION_SELF_ASSURANCE
      else if \<not> independenceReviewed r then Sign_refused ATTESTATION_INDEPENDENCE_NOT_REVIEWED
      else Sign_allowed)"

section \<open>A credential after signing\<close>

datatype credential_current_status =
    Cred_valid | Cred_expired | Cred_revoked | Cred_suspended | Cred_unknown

datatype ongoing_applicability = Applicable | Needs_review | Not_applicable

record credential_applicability =
  pastSignatureRemainsValid :: bool
  ongoingApplicability :: ongoing_applicability
  triggersDownstreamReassessment :: bool

definition evaluateCredentialApplicability ::
    "bool \<Rightarrow> credential_current_status \<Rightarrow> credential_applicability" where
  "evaluateCredentialApplicability validAtAttestationTime currentStatus =
     (if \<not> validAtAttestationTime
      then \<lparr>pastSignatureRemainsValid = False, ongoingApplicability = Not_applicable,
            triggersDownstreamReassessment = True\<rparr>
      else (case currentStatus of
        Cred_valid \<Rightarrow>
          \<lparr>pastSignatureRemainsValid = True, ongoingApplicability = Applicable,
           triggersDownstreamReassessment = False\<rparr>
      | Cred_revoked \<Rightarrow>
          \<lparr>pastSignatureRemainsValid = True, ongoingApplicability = Not_applicable,
           triggersDownstreamReassessment = True\<rparr>
      | _ \<Rightarrow>
          \<lparr>pastSignatureRemainsValid = True, ongoingApplicability = Needs_review,
           triggersDownstreamReassessment = True\<rparr>))"

fun CREDENTIAL_STATUS_TRANSITIONS :: "credential_current_status \<Rightarrow> credential_current_status list" where
  "CREDENTIAL_STATUS_TRANSITIONS Cred_valid = [Cred_expired, Cred_revoked, Cred_suspended]"
| "CREDENTIAL_STATUS_TRANSITIONS Cred_suspended = [Cred_valid, Cred_expired, Cred_revoked]"
| "CREDENTIAL_STATUS_TRANSITIONS Cred_expired = [Cred_revoked]"
| "CREDENTIAL_STATUS_TRANSITIONS Cred_unknown = [Cred_valid, Cred_expired, Cred_revoked, Cred_suspended]"
| "CREDENTIAL_STATUS_TRANSITIONS Cred_revoked = []"

definition canChangeCredentialStatus ::
    "credential_current_status \<Rightarrow> credential_current_status \<Rightarrow> bool" where
  "canChangeCredentialStatus s t \<longleftrightarrow> t \<in> set (CREDENTIAL_STATUS_TRANSITIONS s)"

section \<open>Acceptance\<close>

record acceptance_facts =
  signatureValid :: bool
  factAuthorityAccepted :: bool
  credentialValid :: bool
  assignedToThisCase :: bool
  factClaimWithinScope :: bool

datatype acceptance_blocker =
    SIGNATURE_INVALID | AUTHORITY_NOT_ACCEPTED | CREDENTIAL_INVALID | NOT_ASSIGNED |
    CLAIM_OUTSIDE_AUTHORITY_SCOPE

definition canonicalAcceptanceBlockers :: "acceptance_facts \<Rightarrow> acceptance_blocker list" where
  "canonicalAcceptanceBlockers facts =
     (if \<not> signatureValid facts then [SIGNATURE_INVALID] else []) @
     (if \<not> factAuthorityAccepted facts then [AUTHORITY_NOT_ACCEPTED] else []) @
     (if \<not> credentialValid facts then [CREDENTIAL_INVALID] else []) @
     (if \<not> assignedToThisCase facts then [NOT_ASSIGNED] else []) @
     (if \<not> factClaimWithinScope facts then [CLAIM_OUTSIDE_AUTHORITY_SCOPE] else [])"

record authority_facts =
  authorityState :: authority_state
  validFrom :: js_string
  validUntil :: "js_string option"
  recognizedScope :: "js_string list"

record authority_basis_input =
  issuer :: "authority_facts option"
  sourceAuthorities :: "authority_facts list"
  claimTypes :: "js_string list"
  credentialScope :: "js_string list"
  asOf :: js_string

record authority_basis =
  authorityAccepted :: bool
  claimWithinAuthorityScope :: bool
  credentialScopeCoversClaims :: bool
  outsideAuthorityScope :: "js_string list"
  outsideCredentialScope :: "js_string list"

definition isAuthorityInForce :: "authority_facts \<Rightarrow> js_string \<Rightarrow> bool" where
  "isAuthorityInForce authority date =
     (if authorityState authority \<noteq> Au_accepted then False
      else if validFrom authority > date then False
      else (case validUntil authority of None \<Rightarrow> True | Some until \<Rightarrow> until \<ge> date))"

definition evaluateAuthorityBasis :: "authority_basis_input \<Rightarrow> authority_basis" where
  "evaluateAuthorityBasis input =
     (let types = sort (js_uniq (claimTypes input));
          outsideCredential = filter (\<lambda>t. t \<notin> set (credentialScope input)) types;
          outsideAuthority =
            (case issuer input of
               Some i \<Rightarrow> filter (\<lambda>t. t \<notin> set (recognizedScope i)) types
             | None \<Rightarrow> types);
          issuerInForce =
            (case issuer input of Some i \<Rightarrow> isAuthorityInForce i (asOf input) | None \<Rightarrow> False);
          sourcesInForce = list_all (\<lambda>s. isAuthorityInForce s (asOf input)) (sourceAuthorities input)
      in \<lparr>authorityAccepted = issuerInForce \<and> sourcesInForce,
          claimWithinAuthorityScope = length types > 0 \<and> length outsideAuthority = 0,
          credentialScopeCoversClaims = length types > 0 \<and> length outsideCredential = 0,
          outsideAuthorityScope = outsideAuthority,
          outsideCredentialScope = outsideCredential\<rparr>)"

section \<open>What signing and acceptance rest on\<close>

text \<open>
  An attestation may be signed exactly when it states its limitations and a claim scope, its
  schema is active, the signer has an active assignment and a valid credential covering the claims,
  no conflict is unresolved, independence was reviewed, and an independent assurance does not come
  from the submitter of the evidence.
\<close>

theorem attestation_signable_iff:
  "checkAttestationSignable r = Sign_allowed \<longleftrightarrow>
     \<not> js_blank (reviewLimitations r) \<and> claimScope r \<noteq> [] \<and> schemaState r = As_active \<and>
     hasActiveAssignment r \<and> credentialValidAtSigningTime r \<and> credentialScopeCovers r \<and>
     conflictStatus r \<noteq> Conflict_unresolved \<and> independenceReviewed r \<and>
     \<not> (attestationType r = independent_assurance \<and> signerSubmittedEvidence r)"
  by (simp add: checkAttestationSignable_def js_blank_def)

lemma past_signature_kept:
  "pastSignatureRemainsValid (evaluateCredentialApplicability v s) = v"
  by (cases s) (simp_all add: evaluateCredentialApplicability_def)

lemma applicable_iff:
  "ongoingApplicability (evaluateCredentialApplicability v s) = Applicable \<longleftrightarrow> v \<and> s = Cred_valid"
  by (cases s) (simp_all add: evaluateCredentialApplicability_def)

lemma ended_credential_step:
  "canChangeCredentialStatus s t \<Longrightarrow> s \<in> {Cred_expired, Cred_revoked} \<Longrightarrow> s \<noteq> Cred_revoked \<and> t = Cred_revoked"
  by (cases s) (auto simp: canChangeCredentialStatus_def)

lemma ended_credential_stays:
  assumes "canChangeCredentialStatus\<^sup>*\<^sup>* s t" and "s \<in> {Cred_expired, Cred_revoked}"
  shows "t \<in> {Cred_expired, Cred_revoked} \<and> (s = Cred_revoked \<longrightarrow> t = Cred_revoked)"
  using assms by (induction rule: rtranclp_induct) (auto dest: ended_credential_step)

text \<open>
  Whatever happens to a credential after signing, the past signature keeps the standing it had
  at signing time; once the credential has expired or been revoked no sequence of allowed status
  changes makes the attestation applicable again without review, and a revocation is final.
\<close>

theorem credential_end_is_final:
  assumes "canChangeCredentialStatus\<^sup>*\<^sup>* s t" and "s = Cred_expired \<or> s = Cred_revoked"
  shows "pastSignatureRemainsValid (evaluateCredentialApplicability v t) = v \<and>
    ongoingApplicability (evaluateCredentialApplicability v t) \<noteq> Applicable \<and>
    triggersDownstreamReassessment (evaluateCredentialApplicability v t) \<and>
    (s = Cred_revoked \<longrightarrow>
      t = Cred_revoked \<and> ongoingApplicability (evaluateCredentialApplicability v t) = Not_applicable)"
proof -
  have t: "t = Cred_expired \<or> t = Cred_revoked" "s = Cred_revoked \<longrightarrow> t = Cred_revoked"
    using ended_credential_stays [OF assms(1)] assms(2) by auto
  then show ?thesis by (auto simp: evaluateCredentialApplicability_def)
qed

theorem credential_end_is_final_witness:
  "canChangeCredentialStatus Cred_expired Cred_revoked \<and>
   ongoingApplicability (evaluateCredentialApplicability True Cred_revoked) \<noteq> Applicable"
proof -
  have h: "canChangeCredentialStatus Cred_expired Cred_revoked"
    by (simp add: canChangeCredentialStatus_def)
  show ?thesis
    using h credential_end_is_final [OF r_into_rtranclp [of canChangeCredentialStatus, OF h], of True]
    by simp
qed

lemma in_force_iff:
  "isAuthorityInForce a date \<longleftrightarrow>
     authorityState a = Au_accepted \<and> validFrom a \<le> date \<and>
     (case validUntil a of None \<Rightarrow> True | Some until \<Rightarrow> date \<le> until)"
  by (auto simp: isAuthorityInForce_def split: option.splits)

lemma basis_accepted_iff:
  "authorityAccepted (evaluateAuthorityBasis b) \<longleftrightarrow>
     (\<exists>i. issuer b = Some i \<and> isAuthorityInForce i (asOf b)) \<and>
     (\<forall>s \<in> set (sourceAuthorities b). isAuthorityInForce s (asOf b))"
  by (cases "issuer b") (auto simp: evaluateAuthorityBasis_def Let_def list_all_iff)

lemma basis_scope_iff:
  "claimWithinAuthorityScope (evaluateAuthorityBasis b) \<longleftrightarrow>
     claimTypes b \<noteq> [] \<and> (\<exists>i. issuer b = Some i \<and> set (claimTypes b) \<subseteq> set (recognizedScope i))"
  by (cases "issuer b") (auto simp: evaluateAuthorityBasis_def Let_def filter_empty_conv)

lemma basis_credential_iff:
  "credentialScopeCoversClaims (evaluateAuthorityBasis b) \<longleftrightarrow>
     claimTypes b \<noteq> [] \<and> set (claimTypes b) \<subseteq> set (credentialScope b)"
  by (auto simp: evaluateAuthorityBasis_def Let_def filter_empty_conv)

lemma blockers_Nil_iff:
  "canonicalAcceptanceBlockers f = [] \<longleftrightarrow>
     signatureValid f \<and> factAuthorityAccepted f \<and> credentialValid f \<and> assignedToThisCase f \<and>
     factClaimWithinScope f"
  by (simp add: canonicalAcceptanceBlockers_def)

text \<open>
  C24. A valid signature alone accepts nothing: with the authority facts taken from the basis, no
  blocker remains exactly when the issuer is recorded and in force on the date for every claim type,
  every source authority is in force, and signature, credential and assignment hold. Order and
  repetition of the claim types do not matter.
\<close>

theorem acceptance_needs_authority:
  assumes "factAuthorityAccepted f = authorityAccepted (evaluateAuthorityBasis b)"
    and "factClaimWithinScope f = claimWithinAuthorityScope (evaluateAuthorityBasis b)"
  shows "(canonicalAcceptanceBlockers f = [] \<longleftrightarrow>
      signatureValid f \<and> credentialValid f \<and> assignedToThisCase f \<and> claimTypes b \<noteq> [] \<and>
      (\<exists>i. issuer b = Some i \<and> isAuthorityInForce i (asOf b) \<and>
           set (claimTypes b) \<subseteq> set (recognizedScope i)) \<and>
      (\<forall>s \<in> set (sourceAuthorities b). isAuthorityInForce s (asOf b))) \<and>
    (set types = set (claimTypes b) \<longrightarrow>
      evaluateAuthorityBasis (b\<lparr>claimTypes := types\<rparr>) = evaluateAuthorityBasis b)"
proof (intro conjI impI)
  show "canonicalAcceptanceBlockers f = [] \<longleftrightarrow>
      signatureValid f \<and> credentialValid f \<and> assignedToThisCase f \<and> claimTypes b \<noteq> [] \<and>
      (\<exists>i. issuer b = Some i \<and> isAuthorityInForce i (asOf b) \<and>
           set (claimTypes b) \<subseteq> set (recognizedScope i)) \<and>
      (\<forall>s \<in> set (sourceAuthorities b). isAuthorityInForce s (asOf b))"
    unfolding blockers_Nil_iff assms basis_accepted_iff basis_scope_iff by auto
next
  assume "set types = set (claimTypes b)"
  from sort_js_uniq_cong [OF this]
  show "evaluateAuthorityBasis (b\<lparr>claimTypes := types\<rparr>) = evaluateAuthorityBasis b"
    by (cases "issuer b") (simp_all add: evaluateAuthorityBasis_def Let_def)
qed

theorem acceptance_needs_authority_witness:
  "let b = \<lparr>issuer = None, sourceAuthorities = [], claimTypes = [js ''title''],
            credentialScope = [js ''title''], asOf = js ''2026-01-01''\<rparr>;
       f = \<lparr>signatureValid = True, factAuthorityAccepted = False, credentialValid = True,
            assignedToThisCase = True, factClaimWithinScope = False\<rparr>
   in canonicalAcceptanceBlockers f \<noteq> []"
proof -
  let ?b = "\<lparr>issuer = None, sourceAuthorities = [], claimTypes = [js ''title''],
            credentialScope = [js ''title''], asOf = js ''2026-01-01''\<rparr>"
  let ?f = "\<lparr>signatureValid = True, factAuthorityAccepted = False, credentialValid = True,
            assignedToThisCase = True, factClaimWithinScope = False\<rparr>"
  have h: "factAuthorityAccepted ?f = authorityAccepted (evaluateAuthorityBasis ?b)"
    "factClaimWithinScope ?f = claimWithinAuthorityScope (evaluateAuthorityBasis ?b)"
    by (simp_all add: basis_accepted_iff basis_scope_iff)
  show ?thesis
    unfolding Let_def using acceptance_needs_authority [OF h, of "[]"] by simp
qed

end
