(* ===== verification/Independence.thy ===== *)
theory Independence
  imports Registry_Prelude
begin

text \<open>
  Reviewer independence (\<open>packages/domain/src/independence.ts\<close>): what the recorded facts show to be
  broken (violations) is kept apart from what they do not let the server judge (gaps).
\<close>

datatype independence_violation =
    SELF_ASSIGNMENT | REVIEWER_SUBMITTED_EVIDENCE | REVIEWER_SHARES_OPERATOR_ORGANIZATION

datatype independence_gap =
    EVIDENCE_SUBMITTER_UNKNOWN | REVIEWER_ORGANIZATION_UNKNOWN | OPERATOR_ORGANIZATION_UNKNOWN

record independence_facts =
  reviewerSubjectId :: js_string
  assignerSubjectId :: "js_string option"
  evidenceSubmitterIds :: "js_string list"
  allSubmittersKnown :: bool
  reviewerOrganizationIds :: "js_string list"
  operatorOrganizationIds :: "js_string list"

record independence_review =
  reviewed :: bool
  violations :: "independence_violation list"
  gaps :: "independence_gap list"

definition reviewIndependence :: "independence_facts \<Rightarrow> independence_review" where
  "reviewIndependence f =
     (let sharesOrganization =
            list_ex (\<lambda>i. i \<in> set (operatorOrganizationIds f)) (reviewerOrganizationIds f);
          submitted = reviewerSubjectId f \<in> set (evidenceSubmitterIds f);
          vs = (if assignerSubjectId f = Some (reviewerSubjectId f) then [SELF_ASSIGNMENT] else []) @
               (if submitted then [REVIEWER_SUBMITTED_EVIDENCE] else []) @
               (if sharesOrganization then [REVIEWER_SHARES_OPERATOR_ORGANIZATION] else []);
          gs = (if \<not> submitted \<and> \<not> allSubmittersKnown f then [EVIDENCE_SUBMITTER_UNKNOWN] else []) @
               (if sharesOrganization then []
                else (if length (reviewerOrganizationIds f) = 0 then [REVIEWER_ORGANIZATION_UNKNOWN] else []) @
                     (if length (operatorOrganizationIds f) = 0 then [OPERATOR_ORGANIZATION_UNKNOWN] else []))
      in \<lparr>reviewed = (length vs = 0 \<and> length gs = 0), violations = vs, gaps = gs\<rparr>)"

text \<open>
  \<open>learned f g\<close>: the facts \<open>g\<close> record everything \<open>f\<close> does, and possibly more submitters and
  organizations; the people named in both are the same.
\<close>

definition learned :: "independence_facts \<Rightarrow> independence_facts \<Rightarrow> bool" where
  "learned f g \<longleftrightarrow>
     reviewerSubjectId g = reviewerSubjectId f \<and> assignerSubjectId g = assignerSubjectId f \<and>
     set (evidenceSubmitterIds f) \<subseteq> set (evidenceSubmitterIds g) \<and>
     set (reviewerOrganizationIds f) \<subseteq> set (reviewerOrganizationIds g) \<and>
     set (operatorOrganizationIds f) \<subseteq> set (operatorOrganizationIds g)"

lemma violations_iff:
  "SELF_ASSIGNMENT \<in> set (violations (reviewIndependence f)) \<longleftrightarrow>
     assignerSubjectId f = Some (reviewerSubjectId f)"
  "REVIEWER_SUBMITTED_EVIDENCE \<in> set (violations (reviewIndependence f)) \<longleftrightarrow>
     reviewerSubjectId f \<in> set (evidenceSubmitterIds f)"
  "REVIEWER_SHARES_OPERATOR_ORGANIZATION \<in> set (violations (reviewIndependence f)) \<longleftrightarrow>
     set (reviewerOrganizationIds f) \<inter> set (operatorOrganizationIds f) \<noteq> {}"
  by (auto simp: reviewIndependence_def Let_def list_ex_iff)

lemma violations_mono:
  assumes "learned f g"
  shows "set (violations (reviewIndependence f)) \<subseteq> set (violations (reviewIndependence g))"
proof
  fix v assume v: "v \<in> set (violations (reviewIndependence f))"
  show "v \<in> set (violations (reviewIndependence g))"
    by (rule independence_violation.exhaust [of v]; use v assms in \<open>auto simp: violations_iff learned_def\<close>)
qed

lemma reviewed_iff:
  "reviewed (reviewIndependence f) \<longleftrightarrow>
     violations (reviewIndependence f) = [] \<and> gaps (reviewIndependence f) = []"
  by (simp add: reviewIndependence_def Let_def)

lemma reviewed_conditions:
  "reviewed (reviewIndependence f) \<longleftrightarrow>
     assignerSubjectId f \<noteq> Some (reviewerSubjectId f) \<and>
     reviewerSubjectId f \<notin> set (evidenceSubmitterIds f) \<and> allSubmittersKnown f \<and>
     reviewerOrganizationIds f \<noteq> [] \<and> operatorOrganizationIds f \<noteq> [] \<and>
     set (reviewerOrganizationIds f) \<inter> set (operatorOrganizationIds f) = {}"
  by (auto simp: reviewIndependence_def Let_def list_ex_iff)

text \<open>
  An assignment is marked reviewed exactly when every rule could be judged and none is broken,
  and facts recorded later never lift a violation: what makes a reviewer dependent stays, so a
  reviewer found dependent is never marked reviewed on larger facts.
\<close>

theorem independence_sound:
  assumes "learned f g"
  shows "(reviewed (reviewIndependence g) \<longleftrightarrow>
      assignerSubjectId g \<noteq> Some (reviewerSubjectId g) \<and>
      reviewerSubjectId g \<notin> set (evidenceSubmitterIds g) \<and> allSubmittersKnown g \<and>
      reviewerOrganizationIds g \<noteq> [] \<and> operatorOrganizationIds g \<noteq> [] \<and>
      set (reviewerOrganizationIds g) \<inter> set (operatorOrganizationIds g) = {}) \<and>
    set (violations (reviewIndependence f)) \<subseteq> set (violations (reviewIndependence g)) \<and>
    (violations (reviewIndependence f) = [] \<or> \<not> reviewed (reviewIndependence g))"
proof (intro conjI)
  show mono: "set (violations (reviewIndependence f)) \<subseteq> set (violations (reviewIndependence g))"
    using assms by (rule violations_mono)
  then show "violations (reviewIndependence f) = [] \<or> \<not> reviewed (reviewIndependence g)"
    by (auto simp: reviewed_iff)
qed (rule reviewed_conditions)

theorem independence_sound_witness:
  "let f = \<lparr>reviewerSubjectId = js ''r'', assignerSubjectId = None,
            evidenceSubmitterIds = [js ''r''], allSubmittersKnown = False,
            reviewerOrganizationIds = [js ''o''], operatorOrganizationIds = [js ''p'']\<rparr>
   in \<not> reviewed (reviewIndependence (f\<lparr>evidenceSubmitterIds := [js ''s'', js ''r''], allSubmittersKnown := True\<rparr>))"
proof -
  let ?f = "\<lparr>reviewerSubjectId = js ''r'', assignerSubjectId = None,
            evidenceSubmitterIds = [js ''r''], allSubmittersKnown = False,
            reviewerOrganizationIds = [js ''o''], operatorOrganizationIds = [js ''p'']\<rparr>"
  let ?g = "?f\<lparr>evidenceSubmitterIds := [js ''s'', js ''r''], allSubmittersKnown := True\<rparr>"
  have h: "learned ?f ?g" by (simp add: learned_def)
  have "REVIEWER_SUBMITTED_EVIDENCE \<in> set (violations (reviewIndependence ?f))"
    by (simp add: violations_iff)
  then show ?thesis
    unfolding Let_def using independence_sound [OF h] by auto
qed

end
