(* ===== verification/Governance.thy ===== *)
theory Governance
  imports Registry_Prelude
begin

text \<open>
  The two governance spaces, who may vote where, and the tally of a vote
  (\<open>packages/domain/src/governance.ts\<close>). Weights are JavaScript bigints, so they are integers here.
\<close>

section \<open>Spaces and proposal types\<close>

datatype governance_space = Protocol_space | Project_space js_string

definition PROTOCOL_PROPOSAL_TYPES :: "js_string list" where
  "PROTOCOL_PROPOSAL_TYPES =
     [js ''project_onboarding_support'', js ''fee_schedule'', js ''listing_policy'',
      js ''minimum_dataset_standard'', js ''reviewer_pool_criteria'', js ''framework_revision'',
      js ''protocol_treasury'', js ''jurisdiction_priority'', js ''authority_policy'',
      js ''attestation_schema_approval'']"

definition PROJECT_PROPOSAL_TYPES :: "js_string list" where
  "PROJECT_PROPOSAL_TYPES =
     [js ''branch_continue_or_divest'', js ''independent_valuation_request'',
      js ''project_disposition'', js ''project_disclosure_acknowledgement'']"

datatype governance_deny_reason =
    GOVERNANCE_SPACE_MISMATCH | GOVERNANCE_UNKNOWN_PROPOSAL_TYPE | GOVERNANCE_PROJECT_SCOPE_MISMATCH

datatype space_check = Space_allowed | Space_denied governance_deny_reason

definition isProtocolType :: "js_string \<Rightarrow> bool" where
  "isProtocolType t \<longleftrightarrow> t \<in> set PROTOCOL_PROPOSAL_TYPES"

definition isProjectType :: "js_string \<Rightarrow> bool" where
  "isProjectType t \<longleftrightarrow> t \<in> set PROJECT_PROPOSAL_TYPES"

definition checkProposalSpace :: "governance_space \<Rightarrow> js_string \<Rightarrow> space_check" where
  "checkProposalSpace space t =
     (if \<not> isProtocolType t \<and> \<not> isProjectType t then Space_denied GOVERNANCE_UNKNOWN_PROPOSAL_TYPE
      else if space = Protocol_space
      then (if isProtocolType t then Space_allowed else Space_denied GOVERNANCE_SPACE_MISMATCH)
      else (if isProjectType t then Space_allowed else Space_denied GOVERNANCE_SPACE_MISMATCH))"

definition checkVoteEligibility :: "governance_space \<Rightarrow> governance_space \<Rightarrow> space_check" where
  "checkVoteEligibility voterSpace proposalSpace =
     (case (voterSpace, proposalSpace) of
        (Protocol_space, Protocol_space) \<Rightarrow> Space_allowed
      | (Project_space p, Project_space q) \<Rightarrow>
          (if p = q then Space_allowed else Space_denied GOVERNANCE_PROJECT_SCOPE_MISMATCH)
      | _ \<Rightarrow> Space_denied GOVERNANCE_SPACE_MISMATCH)"

definition voterSpaceOf :: "js_string \<Rightarrow> js_string option \<Rightarrow> governance_space option" where
  "voterSpaceOf role projectId =
     (if role = js ''protocol_voter'' then Some Protocol_space
      else if role = js ''project_voter''
      then (case projectId of Some p \<Rightarrow> Some (Project_space p) | None \<Rightarrow> None)
      else None)"

definition EXECUTION_MODES :: "js_string list" where
  "EXECUTION_MODES =
     [js ''record_only'', js ''onchain_bounded'', js ''offchain_required'']"

record governance_stage =
  stageName :: js_string
  stageDescription :: js_string
  delegates :: "js_string list"

definition GOVERNANCE_STAGES :: "governance_stage list" where
  "GOVERNANCE_STAGES =
     [
      \<lparr>stageName = js ''founder_operated'',
       stageDescription =
         js ''The founding team operates the protocol. Redlines cannot be changed and every admin is disclosed.'',
       delegates = []\<rparr>,
      \<lparr>stageName = js ''parameter_delegated'',
       stageDescription =
         js ''Bounded parameters such as fees move to governance.'',
       delegates = [js ''bounded_parameters'']\<rparr>,
      \<lparr>stageName = js ''policy_delegated'',
       stageDescription =
         js ''Listing and reviewer criteria move to governance.'',
       delegates = [js ''listing_and_reviewer_criteria'']\<rparr>,
      \<lparr>stageName = js ''treasury_delegated'',
       stageDescription =
         js ''The treasury moves to governance once its threshold and operating record are met.'',
       delegates = [js ''treasury'']\<rparr>]"

definition CURRENT_GOVERNANCE_STAGE :: js_string where
  "CURRENT_GOVERNANCE_STAGE = js ''founder_operated''"

definition STAGE_TRANSITION_CRITERIA_CANDIDATES :: "js_string list" where
  "STAGE_TRANSITION_CRITERIA_CANDIDATES =
     [js ''active_project_count'', js ''mpc_holder_distribution'', js ''turnout'',
      js ''incident_free_period'', js ''audit_maturity'']"

definition FORBIDDEN_GOVERNANCE_TARGETS :: "js_string list" where
  "FORBIDDEN_GOVERNANCE_TARGETS =
     [js ''readiness_override'', js ''legal_issuance_approval'',
      js ''other_project_rights_change'', js ''authority_acceptance_bypass'',
      js ''attestation_content_change'', js ''audit_log_mutation'']"

definition isForbiddenTarget :: "js_string \<Rightarrow> bool" where
  "isForbiddenTarget target \<longleftrightarrow> target \<in> set FORBIDDEN_GOVERNANCE_TARGETS"

section \<open>The tally\<close>

text \<open>
  The quorum and threshold fractions are numbers that \<open>BigInt\<close> accepts, which are integers.
\<close>

record tally_input =
  forWeight :: int
  againstWeight :: int
  abstainWeight :: int
  eligibleWeight :: int
  quorumNumerator :: int
  quorumDenominator :: int
  thresholdNumerator :: int
  thresholdDenominator :: int

datatype tally_outcome = Tally_succeeded | Tally_defeated | Tally_no_quorum

record tally_result =
  outcome :: tally_outcome
  participatedWeight :: int
  quorumMet :: bool
  thresholdMet :: bool
  tallyReason :: js_string

definition tallyVotes :: "tally_input \<Rightarrow> tally_result" where
  "tallyVotes input =
     (let participated = forWeight input + againstWeight input + abstainWeight input;
          quorum = participated * quorumDenominator input \<ge> eligibleWeight input * quorumNumerator input
      in if \<not> quorum
         then \<lparr>outcome = Tally_no_quorum, participatedWeight = participated, quorumMet = False,
               thresholdMet = False, tallyReason = js ''Participating weight is below quorum''\<rparr>
         else
           (let decided = forWeight input + againstWeight input;
                passed = decided > 0 \<and>
                  forWeight input * thresholdDenominator input \<ge> decided * thresholdNumerator input
            in \<lparr>outcome = (if passed then Tally_succeeded else Tally_defeated),
                participatedWeight = participated, quorumMet = True, thresholdMet = passed,
                tallyReason =
                  (if passed then js ''Both quorum and pass threshold are met''
                   else if decided = 0 then js ''Only abstentions; for/against cannot be decided''
                   else js ''Support is below the pass threshold'')\<rparr>))"

section \<open>Isolation of the spaces\<close>

lemma proposal_types_disjoint: "\<not> (isProtocolType t \<and> isProjectType t)"
  by (auto simp: isProtocolType_def isProjectType_def PROTOCOL_PROPOSAL_TYPES_def PROJECT_PROPOSAL_TYPES_def)

lemma proposal_space_allowed_iff:
  "checkProposalSpace space t = Space_allowed \<longleftrightarrow>
     (case space of Protocol_space \<Rightarrow> isProtocolType t | Project_space _ \<Rightarrow> isProjectType t)"
  by (cases space) (auto simp: checkProposalSpace_def)

lemma vote_eligible_iff: "checkVoteEligibility v p = Space_allowed \<longleftrightarrow> v = p"
  by (cases v; cases p) (auto simp: checkVoteEligibility_def)

lemma voterSpaceOf_iff:
  "voterSpaceOf role pid = Some space \<longleftrightarrow>
     (case space of
        Protocol_space \<Rightarrow> role = js ''protocol_voter''
      | Project_space p \<Rightarrow> role = js ''project_voter'' \<and> pid = Some p)"
  by (cases space; cases pid) (auto simp: voterSpaceOf_def)

text \<open>
  The two governance spaces never mix: a role binding votes on a proposal exactly when it is a
  protocol voter and the proposal is of the protocol, or a project voter bound to the very project
  of the proposal, and no proposal type can be created in both kinds of space.
\<close>

theorem governance_spaces_isolated:
  "((\<exists>v. voterSpaceOf role pid = Some v \<and> checkVoteEligibility v space = Space_allowed) \<longleftrightarrow>
      (case space of
         Protocol_space \<Rightarrow> role = js ''protocol_voter''
       | Project_space p \<Rightarrow> role = js ''project_voter'' \<and> pid = Some p)) \<and>
   \<not> (checkProposalSpace Protocol_space t = Space_allowed \<and>
      checkProposalSpace (Project_space q) t = Space_allowed)"
proof (intro conjI)
  show "(\<exists>v. voterSpaceOf role pid = Some v \<and> checkVoteEligibility v space = Space_allowed) \<longleftrightarrow>
      (case space of
         Protocol_space \<Rightarrow> role = js ''protocol_voter''
       | Project_space p \<Rightarrow> role = js ''project_voter'' \<and> pid = Some p)"
    by (simp add: vote_eligible_iff voterSpaceOf_iff)
qed (use proposal_types_disjoint in \<open>simp add: proposal_space_allowed_iff\<close>)

section \<open>The outcome of a tally\<close>

lemma tally_outcome_iff:
  "outcome (tallyVotes t) = Tally_succeeded \<longleftrightarrow>
     eligibleWeight t * quorumNumerator t
       \<le> (forWeight t + againstWeight t + abstainWeight t) * quorumDenominator t \<and>
     0 < forWeight t + againstWeight t \<and>
     (forWeight t + againstWeight t) * thresholdNumerator t \<le> forWeight t * thresholdDenominator t"
  by (simp add: tallyVotes_def Let_def)

lemma tally_flags:
  "quorumMet (tallyVotes t) \<longleftrightarrow> outcome (tallyVotes t) \<noteq> Tally_no_quorum"
  "thresholdMet (tallyVotes t) \<longleftrightarrow> outcome (tallyVotes t) = Tally_succeeded"
  by (simp_all add: tallyVotes_def Let_def)

lemma support_mono:
  fixes f :: int
  assumes "(f + a) * n \<le> f * d" and "0 \<le> n" and "n \<le> d" and "f \<le> f'" and "a' \<le> a"
  shows "(f' + a') * n \<le> f' * d"
proof -
  have "a' * n \<le> a * n" using assms by (simp add: mult_right_mono)
  also have "\<dots> \<le> f * (d - n)" using assms(1) by (simp add: algebra_simps)
  also have "\<dots> \<le> f' * (d - n)" using assms by (simp add: mult_right_mono)
  finally show ?thesis by (simp add: algebra_simps)
qed

text \<open>
  More support never defeats a proposal: when the fractions are well formed, a proposal that
  succeeded still succeeds after weight has moved from against to for or has been added to for, as
  long as neither the decided weight nor the abstentions fell.
\<close>

theorem tally_monotone:
  assumes "0 \<le> thresholdNumerator t" and "thresholdNumerator t \<le> thresholdDenominator t"
    and "0 \<le> quorumDenominator t" and "outcome (tallyVotes t) = Tally_succeeded"
    and "forWeight t \<le> f" and "a \<le> againstWeight t"
    and "forWeight t + againstWeight t \<le> f + a" and "abstainWeight t \<le> b"
  shows "outcome (tallyVotes (t\<lparr>forWeight := f, againstWeight := a, abstainWeight := b\<rparr>)) = Tally_succeeded"
proof -
  from assms(4) have old:
    "eligibleWeight t * quorumNumerator t
       \<le> (forWeight t + againstWeight t + abstainWeight t) * quorumDenominator t"
    "0 < forWeight t + againstWeight t"
    "(forWeight t + againstWeight t) * thresholdNumerator t \<le> forWeight t * thresholdDenominator t"
    unfolding tally_outcome_iff by blast+
  have "(forWeight t + againstWeight t + abstainWeight t) * quorumDenominator t \<le> (f + a + b) * quorumDenominator t"
    using assms(3,7,8) by (intro mult_right_mono) linarith+
  with old(1) have quorum: "eligibleWeight t * quorumNumerator t \<le> (f + a + b) * quorumDenominator t"
    by (rule order_trans)
  have decided: "0 < f + a" using old(2) assms(7) by linarith
  have support: "(f + a) * thresholdNumerator t \<le> f * thresholdDenominator t"
    using old(3) assms(1,2,5,6) by (rule support_mono)
  show ?thesis
    unfolding tally_outcome_iff using quorum decided support by simp
qed

theorem tally_monotone_witness:
  "let t = \<lparr>forWeight = 60, againstWeight = 40, abstainWeight = 5, eligibleWeight = 200,
            quorumNumerator = 1, quorumDenominator = 2, thresholdNumerator = 3, thresholdDenominator = 5\<rparr>
   in outcome (tallyVotes t) = Tally_succeeded \<and>
      outcome (tallyVotes (t\<lparr>forWeight := 75, againstWeight := 30, abstainWeight := 6\<rparr>)) = Tally_succeeded"
proof -
  let ?t = "\<lparr>forWeight = 60, againstWeight = 40, abstainWeight = 5, eligibleWeight = 200,
            quorumNumerator = 1, quorumDenominator = 2, thresholdNumerator = 3, thresholdDenominator = 5\<rparr>"
  have h: "outcome (tallyVotes ?t) = Tally_succeeded" by (simp add: tally_outcome_iff)
  show ?thesis
    unfolding Let_def using h tally_monotone [of ?t 75 30 6] by simp
qed

end
