(* ===== verification/Disclosure.thy ===== *)
theory Disclosure
  imports Registry_Prelude
begin

text \<open>
  The public projection and the material-information blackout
  (\<open>packages/domain/src/disclosure.ts\<close>), and the storage path a sensitivity level may take
  (\<open>packages/domain/src/storage-tier.ts\<close>).
\<close>

section \<open>Sensitivity and the allowlist\<close>

datatype sensitivity =
    Sens_public | Sens_restricted | Sens_confidential | Sens_pii | Sens_whistleblower

definition SENSITIVITY_LEVELS :: "sensitivity list" where
  "SENSITIVITY_LEVELS =
     [Sens_public, Sens_restricted, Sens_confidential, Sens_pii, Sens_whistleblower]"

fun sensitivity_string :: "sensitivity \<Rightarrow> js_string" where
  "sensitivity_string Sens_public = js ''public''"
| "sensitivity_string Sens_restricted = js ''restricted''"
| "sensitivity_string Sens_confidential = js ''confidential''"
| "sensitivity_string Sens_pii = js ''pii''"
| "sensitivity_string Sens_whistleblower = js ''whistleblower''"

definition PUBLIC_FIELD_ALLOWLIST :: "js_string list" where
  "PUBLIC_FIELD_ALLOWLIST =
     [js ''stableId'', js ''projectKey'', js ''projectName'', js ''hostCountry'', js ''mineral'',
      js ''status'', js ''version'', js ''asOf'', js ''sourceAge'', js ''staleStatus'',
      js ''claimSummary'', js ''evidenceLedger'', js ''grade'', js ''limitations'',
      js ''verificationScope'', js ''authorityType'', js ''authorityScope'',
      js ''authorityJurisdiction'', js ''collectionMethod'', js ''reviewerOrganization'',
      js ''reviewerCredentialType'', js ''reviewerCredentialScope'',
      js ''reviewerCredentialIssuer'', js ''reviewerCredentialValidity'',
      js ''reviewerPseudonymousHandle'', js ''decisionAuthority'', js ''decisionType'',
      js ''decisionDate'', js ''anchorTransaction'', js ''anchorRoot'', js ''inclusionProof'',
      js ''supersededBy'', js ''revokedAt'', js ''disputeStatus'', js ''legalEffect'',
      js ''disclaimerCodes'', js ''externalRegulatedServiceStatus'']"

definition NEVER_PUBLIC_FIELDS :: "js_string list" where
  "NEVER_PUBLIC_FIELDS =
     [js ''rawSourceResponse'', js ''contractBody'', js ''preciseGeologicalCoordinates'',
      js ''personalIdentifier'', js ''whistleblowerIdentity'', js ''kycData'',
      js ''naturalPersonBeneficialOwner'', js ''privateNegotiation'', js ''tradeSecret'',
      js ''internalNotes'', js ''apiCredential'', js ''secretReference'']"

definition isPublicField :: "js_string \<Rightarrow> bool" where
  "isPublicField field \<longleftrightarrow> field \<in> set PUBLIC_FIELD_ALLOWLIST"

section \<open>Publication\<close>

datatype publication_deny_reason =
    PUBLICATION_FIELD_NOT_ALLOWLISTED | PUBLICATION_SENSITIVITY_TOO_HIGH |
    PUBLICATION_PERSON_IDENTIFIER_GUARD | PUBLICATION_SOURCE_LICENSE_UNCONFIRMED |
    PUBLICATION_APPROVAL_MISSING

datatype commercial_reuse = Reuse_confirmed | Reuse_unconfirmed | Reuse_prohibited

record person_identifier_safeguards =
  lawfulBasisRecorded :: bool
  explicitPublicationApproval :: bool
  purposeRecorded :: bool
  retentionRecorded :: bool
  irreversibilityAcknowledged :: bool

record publication_guard_input =
  publicationFields :: "js_string list"
  publicationSensitivity :: sensitivity
  disclosureApproved :: bool
  containsPersonLevelIdentifier :: bool
  personIdentifierSafeguards :: person_identifier_safeguards
  commercialReuse :: commercial_reuse
  publishedAsCommercialBasis :: bool

datatype publication_check =
    Publishable
  | Not_publishable (publication_reason: publication_deny_reason) (offendingFields: "js_string list")

definition safeguards_complete :: "person_identifier_safeguards \<Rightarrow> bool" where
  "safeguards_complete s \<longleftrightarrow>
     lawfulBasisRecorded s \<and> explicitPublicationApproval s \<and> purposeRecorded s \<and>
     retentionRecorded s \<and> irreversibilityAcknowledged s"

definition checkPublishable :: "publication_guard_input \<Rightarrow> publication_check" where
  "checkPublishable input =
     (if \<not> disclosureApproved input then Not_publishable PUBLICATION_APPROVAL_MISSING []
      else if publicationSensitivity input \<noteq> Sens_public
      then Not_publishable PUBLICATION_SENSITIVITY_TOO_HIGH []
      else
        (let notAllowlisted = filter (\<lambda>field. \<not> isPublicField field) (publicationFields input)
         in if length notAllowlisted > 0
            then Not_publishable PUBLICATION_FIELD_NOT_ALLOWLISTED notAllowlisted
            else if containsPersonLevelIdentifier input \<and>
                    \<not> safeguards_complete (personIdentifierSafeguards input)
            then Not_publishable PUBLICATION_PERSON_IDENTIFIER_GUARD []
            else if publishedAsCommercialBasis input \<and> commercialReuse input \<noteq> Reuse_confirmed
            then Not_publishable PUBLICATION_SOURCE_LICENSE_UNCONFIRMED []
            else Publishable))"

section \<open>Restrictions\<close>

definition RESTRICTABLE_ACTION_TYPES :: "js_string list" where
  "RESTRICTABLE_ACTION_TYPES =
     [js ''registry.publish'', js ''project.lifecycle.offering_open'',
      js ''project.lifecycle.offering_closed'', js ''project.lifecycle.active'',
      js ''project.lifecycle.branch_vote'', js ''project.lifecycle.continuing'',
      js ''project.lifecycle.divested'', js ''project.lifecycle.closure'',
      js ''project.lifecycle.retired'']"

definition isRestrictableAction :: "js_string \<Rightarrow> bool" where
  "isRestrictableAction a \<longleftrightarrow> a \<in> set RESTRICTABLE_ACTION_TYPES"

datatype restriction_state =
    Restriction_draft | Restriction_active | Restriction_released | Restriction_superseded

record disclosure_restriction =
  restrictionId :: js_string
  subjectScope :: "js_string list"
  restrictedActionTypes :: "js_string list"
  restrictionState :: restriction_state

datatype restriction_check = Not_blocked | Blocked js_string

fun checkRestrictedAction ::
    "disclosure_restriction list \<Rightarrow> js_string \<Rightarrow> js_string \<Rightarrow> restriction_check" where
  "checkRestrictedAction [] subjectId actionType = Not_blocked"
| "checkRestrictedAction (r # rs) subjectId actionType =
     (if restrictionState r \<noteq> Restriction_active then checkRestrictedAction rs subjectId actionType
      else if subjectId \<notin> set (subjectScope r) then checkRestrictedAction rs subjectId actionType
      else if actionType \<notin> set (restrictedActionTypes r) then checkRestrictedAction rs subjectId actionType
      else Blocked (restrictionId r))"

section \<open>Storage tiers\<close>

definition DRAFT_TIER_ALLOWED :: "sensitivity list" where
  "DRAFT_TIER_ALLOWED = [Sens_public, Sens_restricted]"

datatype storage_tier = Tier_draft | Tier_secured

definition storageTierFor :: "sensitivity \<Rightarrow> storage_tier" where
  "storageTierFor s = (if s \<in> set DRAFT_TIER_ALLOWED then Tier_draft else Tier_secured)"

datatype storage_admission =
    Admitted
  | Storage_refused (requiredTier: storage_tier) (storage_reason: js_string) (storage_action: js_string)

definition admitToStorage :: "sensitivity \<Rightarrow> storage_admission" where
  "admitToStorage s =
     (if storageTierFor s = Tier_draft then Admitted
      else Storage_refused Tier_secured
        (sensitivity_string s @ js '' material is not accepted by the draft storage path. '' @
         js ''Current storage uses a provider-managed key, with no per-tenant key separation or destruction procedure'')
        (js ''Upload after the secured route opens. That route is built together with the OD-18 re-decision (key ownership, rotation, '' @
         js ''crypto-shredding)''))"

section \<open>Properties\<close>

lemma never_public_not_allowlisted: "f \<in> set NEVER_PUBLIC_FIELDS \<Longrightarrow> \<not> isPublicField f"
  unfolding NEVER_PUBLIC_FIELDS_def isPublicField_def PUBLIC_FIELD_ALLOWLIST_def by (elim set_ConsD [elim_format] disjE) simp_all

lemma publishable_iff:
  "checkPublishable i = Publishable \<longleftrightarrow>
     disclosureApproved i \<and> publicationSensitivity i = Sens_public \<and>
     (\<forall>f \<in> set (publicationFields i). isPublicField f) \<and>
     (containsPersonLevelIdentifier i \<longrightarrow> safeguards_complete (personIdentifierSafeguards i)) \<and>
     (publishedAsCommercialBasis i \<longrightarrow> commercialReuse i = Reuse_confirmed)"
  by (auto simp: checkPublishable_def Let_def filter_empty_conv)

text \<open>
  What is published is approved, public, inside the allowlist, and free of every field that no
  approval can publish; a person-level identifier needs every safeguard recorded, and a commercial
  basis a confirmed licence. Nothing that is publishable is refused by the draft storage path.
\<close>

theorem publication_boundary:
  assumes "checkPublishable i = Publishable"
  shows "disclosureApproved i \<and> publicationSensitivity i = Sens_public \<and>
    set (publicationFields i) \<subseteq> set PUBLIC_FIELD_ALLOWLIST \<and>
    set (publicationFields i) \<inter> set NEVER_PUBLIC_FIELDS = {} \<and>
    (\<not> containsPersonLevelIdentifier i \<or>
       lawfulBasisRecorded (personIdentifierSafeguards i) \<and>
       explicitPublicationApproval (personIdentifierSafeguards i) \<and>
       purposeRecorded (personIdentifierSafeguards i) \<and>
       retentionRecorded (personIdentifierSafeguards i) \<and>
       irreversibilityAcknowledged (personIdentifierSafeguards i)) \<and>
    (\<not> publishedAsCommercialBasis i \<or> commercialReuse i = Reuse_confirmed) \<and>
    admitToStorage (publicationSensitivity i) = Admitted"
  using assms never_public_not_allowlisted
  by (auto simp: publishable_iff safeguards_complete_def isPublicField_def admitToStorage_def
      storageTierFor_def DRAFT_TIER_ALLOWED_def)

theorem publication_boundary_witness:
  "let i = \<lparr>publicationFields = [js ''projectName'', js ''grade''], publicationSensitivity = Sens_public,
            disclosureApproved = True, containsPersonLevelIdentifier = False,
            personIdentifierSafeguards =
              \<lparr>lawfulBasisRecorded = False, explicitPublicationApproval = False,
               purposeRecorded = False, retentionRecorded = False,
               irreversibilityAcknowledged = False\<rparr>,
            commercialReuse = Reuse_confirmed, publishedAsCommercialBasis = True\<rparr>
   in checkPublishable i = Publishable \<and>
      set (publicationFields i) \<inter> set NEVER_PUBLIC_FIELDS = {}"
proof -
  let ?i = "\<lparr>publicationFields = [js ''projectName'', js ''grade''], publicationSensitivity = Sens_public,
            disclosureApproved = True, containsPersonLevelIdentifier = False,
            personIdentifierSafeguards =
              \<lparr>lawfulBasisRecorded = False, explicitPublicationApproval = False,
               purposeRecorded = False, retentionRecorded = False,
               irreversibilityAcknowledged = False\<rparr>,
            commercialReuse = Reuse_confirmed, publishedAsCommercialBasis = True\<rparr>"
  have h: "checkPublishable ?i = Publishable"
    by (simp add: publishable_iff isPublicField_def PUBLIC_FIELD_ALLOWLIST_def)
  show ?thesis
    unfolding Let_def using h publication_boundary [OF h] by blast
qed

definition restriction_applies :: "js_string \<Rightarrow> js_string \<Rightarrow> disclosure_restriction \<Rightarrow> bool" where
  "restriction_applies subject action r \<longleftrightarrow>
     restrictionState r = Restriction_active \<and> subject \<in> set (subjectScope r) \<and>
     action \<in> set (restrictedActionTypes r)"

lemma checkRestrictedAction_find:
  "checkRestrictedAction rs subject action =
     (case find (restriction_applies subject action) rs of
        None \<Rightarrow> Not_blocked | Some r \<Rightarrow> Blocked (restrictionId r))"
  by (induction rs) (auto simp: restriction_applies_def)

lemma not_blocked_iff:
  "checkRestrictedAction rs subject action = Not_blocked \<longleftrightarrow>
     (\<forall>r \<in> set rs. \<not> restriction_applies subject action r)"
  by (induction rs) (auto simp: restriction_applies_def)

text \<open>
  A blackout holds whatever else is recorded: an action is blocked exactly when some active
  restriction names both subject and action, the identifier reported belongs to such a restriction,
  and suspending a project is not an action a restriction may name.
\<close>

theorem blackout_exact:
  "(checkRestrictedAction rs subject action = Not_blocked \<longleftrightarrow>
      \<not> (\<exists>r \<in> set rs. restrictionState r = Restriction_active \<and> subject \<in> set (subjectScope r) \<and>
                     action \<in> set (restrictedActionTypes r))) \<and>
   (\<forall>rid. checkRestrictedAction rs subject action = Blocked rid \<longrightarrow>
      (\<exists>r \<in> set rs. restrictionId r = rid \<and> restrictionState r = Restriction_active \<and>
         subject \<in> set (subjectScope r) \<and> action \<in> set (restrictedActionTypes r))) \<and>
   \<not> isRestrictableAction (js ''project.lifecycle.suspended'')"
proof (intro conjI allI impI)
  show "checkRestrictedAction rs subject action = Not_blocked \<longleftrightarrow>
      \<not> (\<exists>r \<in> set rs. restrictionState r = Restriction_active \<and> subject \<in> set (subjectScope r) \<and>
                     action \<in> set (restrictedActionTypes r))"
    by (auto simp: not_blocked_iff restriction_applies_def)
next
  fix rid assume "checkRestrictedAction rs subject action = Blocked rid"
  then show "\<exists>r \<in> set rs. restrictionId r = rid \<and> restrictionState r = Restriction_active \<and>
         subject \<in> set (subjectScope r) \<and> action \<in> set (restrictedActionTypes r)"
    by (auto simp: checkRestrictedAction_find restriction_applies_def split: option.splits
        dest!: find_Some_set)
qed (simp add: isRestrictableAction_def RESTRICTABLE_ACTION_TYPES_def)

theorem blackout_exact_witness:
  "let r = \<lparr>restrictionId = js ''R1'', subjectScope = [js ''alice''],
            restrictedActionTypes = [js ''registry.publish''], restrictionState = Restriction_active\<rparr>
   in checkRestrictedAction [r\<lparr>restrictionState := Restriction_draft\<rparr>, r] (js ''alice'') (js ''registry.publish'')
        \<noteq> Not_blocked"
proof -
  let ?r = "\<lparr>restrictionId = js ''R1'', subjectScope = [js ''alice''],
            restrictedActionTypes = [js ''registry.publish''], restrictionState = Restriction_active\<rparr>"
  show ?thesis
    unfolding Let_def
    using blackout_exact [of "[?r\<lparr>restrictionState := Restriction_draft\<rparr>, ?r]" "js ''alice''" "js ''registry.publish''"]
    by (simp del: checkRestrictedAction.simps)
qed

end
