(* ===== verification/Chains.thy ===== *)
theory Chains
  imports Registry_Prelude
begin

text \<open>
  The chains a deployment may run on and the environment each belongs to
  (\<open>packages/domain/src/chains.ts\<close>). A chain identifier is a JavaScript number; the identifiers
  compared are integers.
\<close>

section \<open>The list of chains\<close>

definition BSC_MAINNET_CHAIN_ID :: int where "BSC_MAINNET_CHAIN_ID = 56"
definition OPBNB_TESTNET_CHAIN_ID :: int where "OPBNB_TESTNET_CHAIN_ID = 5611"
definition LOCAL_CHAIN_ID :: int where "LOCAL_CHAIN_ID = 31337"

definition SUPPORTED_CHAIN_IDS :: "int list" where
  "SUPPORTED_CHAIN_IDS = [BSC_MAINNET_CHAIN_ID, OPBNB_TESTNET_CHAIN_ID, LOCAL_CHAIN_ID]"

definition CHAIN_LABELS :: "int \<Rightarrow> js_string option" where
  "CHAIN_LABELS =
     map_of [(BSC_MAINNET_CHAIN_ID, js ''BSC mainnet''), (OPBNB_TESTNET_CHAIN_ID, js ''opBNB testnet''),
             (LOCAL_CHAIN_ID, js ''local chain'')]"

definition isSupportedChainId :: "int \<Rightarrow> bool" where
  "isSupportedChainId v \<longleftrightarrow> v \<in> set SUPPORTED_CHAIN_IDS"

section \<open>Environments\<close>

datatype chain_environment = Env_mainnet | Env_testnet

definition CHAIN_ENVIRONMENTS :: "int \<Rightarrow> chain_environment option" where
  "CHAIN_ENVIRONMENTS =
     map_of [(BSC_MAINNET_CHAIN_ID, Env_mainnet), (OPBNB_TESTNET_CHAIN_ID, Env_testnet),
             (LOCAL_CHAIN_ID, Env_testnet)]"

definition chainEnvironmentOf :: "int \<Rightarrow> chain_environment option" where
  "chainEnvironmentOf c = (if isSupportedChainId c then CHAIN_ENVIRONMENTS c else None)"

definition sameChainEnvironment :: "int \<Rightarrow> int \<Rightarrow> bool" where
  "sameChainEnvironment a b =
     (let environment = chainEnvironmentOf a
      in environment \<noteq> None \<and> environment = chainEnvironmentOf b)"

section \<open>Reading a chain identifier\<close>

text \<open>
  \<open>/^[0-9]+$/\<close> accepts a non-empty string of ASCII digits, and \<open>Number\<close> reads its value. The value
  of a string too long for a double is rounded, to a number far from the three identifiers, so the
  comparison with the list has the same result on the exact value.
\<close>

definition parseSupportedChainId :: "js_string \<Rightarrow> int option" where
  "parseSupportedChainId raw =
     (if raw \<noteq> [] \<and> list_all js_digit raw
      then (let v = int (decimal_value raw) in if isSupportedChainId v then Some v else None)
      else None)"

definition EOA_ANCHOR_ELIGIBLE_CHAIN_IDS :: "int list" where
  "EOA_ANCHOR_ELIGIBLE_CHAIN_IDS = [OPBNB_TESTNET_CHAIN_ID, LOCAL_CHAIN_ID]"

definition isEoaAnchorEligibleChainId :: "int \<Rightarrow> bool" where
  "isEoaAnchorEligibleChainId v \<longleftrightarrow> v \<in> set EOA_ANCHOR_ELIGIBLE_CHAIN_IDS"

text \<open>The identifiers described are supported ones, which have a label.\<close>

definition describeChains :: "int list \<Rightarrow> js_string" where
  "describeChains ids =
     js_join (js '', '')
       (map (\<lambda>i. js_decimal (nat i) @ js '' ('' @ (case CHAIN_LABELS i of Some l \<Rightarrow> l | None \<Rightarrow> js ''undefined'') @ js '')'') ids)"

section \<open>Properties\<close>

lemmas chain_ids =
  BSC_MAINNET_CHAIN_ID_def OPBNB_TESTNET_CHAIN_ID_def LOCAL_CHAIN_ID_def SUPPORTED_CHAIN_IDS_def

lemma supported_iff: "isSupportedChainId c \<longleftrightarrow> c = 56 \<or> c = 5611 \<or> c = 31337"
  by (simp add: isSupportedChainId_def chain_ids)

lemma environment_iff:
  "chainEnvironmentOf c = Some e \<longleftrightarrow>
     (e = Env_mainnet \<and> c = 56) \<or> (e = Env_testnet \<and> (c = 5611 \<or> c = 31337))"
  by (cases e) (auto simp: chainEnvironmentOf_def supported_iff CHAIN_ENVIRONMENTS_def chain_ids)

lemma sameChainEnvironment_iff:
  "sameChainEnvironment a b \<longleftrightarrow> (\<exists>e. chainEnvironmentOf a = Some e \<and> chainEnvironmentOf b = Some e)"
  by (cases "chainEnvironmentOf a") (auto simp: sameChainEnvironment_def Let_def)

text \<open>
  A batch moves only between supported chains of one standing: the relation is symmetric and
  transitive, reflexive exactly on supported chains, and never joins the main network to a test
  network; no chain of the main environment is eligible for a lone signer.
\<close>

theorem chain_environments_partition:
  "(sameChainEnvironment a b \<longleftrightarrow>
      isSupportedChainId a \<and> isSupportedChainId b \<and> (a = BSC_MAINNET_CHAIN_ID \<longleftrightarrow> b = BSC_MAINNET_CHAIN_ID)) \<and>
   (sameChainEnvironment a b = sameChainEnvironment b a) \<and>
   (sameChainEnvironment a a = isSupportedChainId a) \<and>
   \<not> (isEoaAnchorEligibleChainId a \<and> chainEnvironmentOf a = Some Env_mainnet)"
  by (auto simp: sameChainEnvironment_iff environment_iff supported_iff isEoaAnchorEligibleChainId_def
      EOA_ANCHOR_ELIGIBLE_CHAIN_IDS_def BSC_MAINNET_CHAIN_ID_def OPBNB_TESTNET_CHAIN_ID_def LOCAL_CHAIN_ID_def)

text \<open>
  Reading a chain identifier accepts only decimal digits whose value is a supported chain, and
  reads back the decimal form of every supported chain.
\<close>

theorem parse_chain_id:
  "(parseSupportedChainId raw = Some c \<longleftrightarrow>
      raw \<noteq> [] \<and> list_all js_digit raw \<and> int (decimal_value raw) = c \<and> isSupportedChainId c) \<and>
   (parseSupportedChainId (js_decimal (nat c)) = Some c \<longleftrightarrow> isSupportedChainId c)"
  using js_decimal_digits [of "nat c"]
  by (auto simp: parseSupportedChainId_def Let_def decimal_value_js_decimal supported_iff)

end
