(* ===== verification/Document_Requirements.thy ===== *)
theory Document_Requirements
  imports Registry_Prelude
begin

text \<open>
  Document requirements (\<open>packages/domain/src/document-requirements.ts\<close>): whether a declared type of
  document is covered, and the summary per tier.
\<close>

datatype document_requirement_tier = Tier_required | Tier_user_benefit | Tier_presentation | Tier_management

definition DOCUMENT_REQUIREMENT_TIERS :: "document_requirement_tier list" where
  "DOCUMENT_REQUIREMENT_TIERS = [Tier_required, Tier_user_benefit, Tier_presentation, Tier_management]"

datatype document_status = Doc_current | Doc_expired | Doc_superseded | Doc_pending | Doc_unusable

definition DOCUMENT_STATUSES :: "document_status list" where
  "DOCUMENT_STATUSES = [Doc_current, Doc_expired, Doc_superseded, Doc_pending, Doc_unusable]"

datatype requirement_status = Req_met | Req_expired | Req_pending | Req_missing

definition REQUIREMENT_STATUSES :: "requirement_status list" where
  "REQUIREMENT_STATUSES = [Req_met, Req_expired, Req_pending, Req_missing]"

text \<open>A count is a JavaScript number: an integer, or one that \<open>Number.isInteger\<close> refuses.\<close>

datatype js_number = Whole int | Not_whole js_string

record requirement_counts =
  current_count :: js_number
  expired_count :: js_number
  pending_count :: js_number

datatype count_error = RangeError js_number

definition bad_count :: "js_number \<Rightarrow> bool" where
  "bad_count v \<longleftrightarrow> (case v of Whole n \<Rightarrow> n < 0 | Not_whole _ \<Rightarrow> True)"

definition count_positive :: "js_number \<Rightarrow> bool" where
  "count_positive v \<longleftrightarrow> (case v of Whole n \<Rightarrow> n > 0 | Not_whole _ \<Rightarrow> False)"

definition requirementStatus :: "requirement_counts \<Rightarrow> count_error + requirement_status" where
  "requirementStatus counts =
     (case find bad_count [current_count counts, expired_count counts, pending_count counts] of
        Some v \<Rightarrow> Inl (RangeError v)
      | None \<Rightarrow>
          Inr (if count_positive (current_count counts) then Req_met
               else if count_positive (expired_count counts) then Req_expired
               else if count_positive (pending_count counts) then Req_pending
               else Req_missing))"

record requirement =
  requirementTier :: document_requirement_tier
  requirementState :: requirement_status

record tier_summary =
  summaryTier :: document_requirement_tier
  declared :: nat
  met :: nat
  expired :: nat
  pending :: nat
  missing_types :: nat
  incomplete :: bool

definition summarizeTier :: "requirement list \<Rightarrow> document_requirement_tier \<Rightarrow> tier_summary" where
  "summarizeTier requirements tier =
     (let statuses = map requirementState (filter (\<lambda>r. requirementTier r = tier) requirements);
          count = (\<lambda>status. length (filter (\<lambda>v. v = status) statuses))
      in \<lparr>summaryTier = tier, declared = length statuses, met = count Req_met,
          expired = count Req_expired, pending = count Req_pending, missing_types = count Req_missing,
          incomplete = (tier = Tier_required \<and> count Req_met < length statuses)\<rparr>)"

definition summarizeTiers :: "requirement list \<Rightarrow> tier_summary list" where
  "summarizeTiers requirements = map (summarizeTier requirements) DOCUMENT_REQUIREMENT_TIERS"

section \<open>Properties\<close>

lemma status_partition:
  "length xs =
     length (filter (\<lambda>v. v = Req_met) xs) + length (filter (\<lambda>v. v = Req_expired) xs) +
     length (filter (\<lambda>v. v = Req_pending) xs) + length (filter (\<lambda>v. v = Req_missing) xs)"
proof (induction xs)
  case (Cons x xs)
  then show ?case by (cases x) simp_all
qed simp

lemma met_all_iff: "length (filter (\<lambda>v. v = Req_met) xs) < length xs \<longleftrightarrow> (\<exists>v \<in> set xs. v \<noteq> Req_met)"
  by (induction xs) (auto simp: less_Suc_eq_le le_eq_less_or_eq length_filter_le)

text \<open>
  The summary lists every tier once, in the declared order; its counts add up to the declared
  types of the tier; and only the required tier can be incomplete, which it is exactly when a
  declared required type is not met.
\<close>

theorem tier_summary_exact:
  "map summaryTier (summarizeTiers rs) = DOCUMENT_REQUIREMENT_TIERS \<and>
   (\<forall>s \<in> set (summarizeTiers rs).
      declared s = length (filter (\<lambda>r. requirementTier r = summaryTier s) rs) \<and>
      declared s = met s + expired s + pending s + missing_types s \<and>
      (incomplete s \<longleftrightarrow> summaryTier s = Tier_required \<and>
         (\<exists>r \<in> set rs. requirementTier r = Tier_required \<and> requirementState r \<noteq> Req_met)))"
proof (intro conjI ballI)
  show "map summaryTier (summarizeTiers rs) = DOCUMENT_REQUIREMENT_TIERS"
    by (simp add: summarizeTiers_def summarizeTier_def Let_def comp_def)
next
  fix s assume "s \<in> set (summarizeTiers rs)"
  then obtain tier where s: "s = summarizeTier rs tier"
    by (auto simp: summarizeTiers_def)
  let ?statuses = "map requirementState (filter (\<lambda>r. requirementTier r = tier) rs)"
  show "declared s = length (filter (\<lambda>r. requirementTier r = summaryTier s) rs)"
    by (simp add: s summarizeTier_def Let_def)
  show "declared s = met s + expired s + pending s + missing_types s"
    using status_partition [of ?statuses] by (simp add: s summarizeTier_def Let_def)
  show "incomplete s \<longleftrightarrow> summaryTier s = Tier_required \<and>
         (\<exists>r \<in> set rs. requirementTier r = Tier_required \<and> requirementState r \<noteq> Req_met)"
    using met_all_iff [of ?statuses] by (auto simp: s summarizeTier_def Let_def)
qed

theorem tier_summary_exact_witness:
  "let rs = [\<lparr>requirementTier = Tier_required, requirementState = Req_expired\<rparr>]
   in \<forall>s \<in> set (summarizeTiers rs). declared s = met s + expired s + pending s + missing_types s"
  unfolding Let_def using tier_summary_exact by blast

end
