(* ===== verification/Offering_Gate.thy ===== *)
theory Offering_Gate
  imports Registry_Prelude
begin

text \<open>
  The offering gate (\<open>packages/domain/src/offering-gate.ts\<close>): the preconditions of an offering and
  the decision whether all of them are met with evidence.
\<close>

record offering_precondition =
  preconditionKey :: js_string
  preconditionLabel :: js_string
  preconditionWhy :: js_string
  preconditionOwner :: js_string

definition OFFERING_PRECONDITIONS :: "offering_precondition list" where
  "OFFERING_PRECONDITIONS =
     [
      \<lparr>preconditionKey = js ''issuer_identified'',
       preconditionLabel = js ''Per-project issuer confirmed'',
       preconditionWhy =
         js ''Without a settled issuer, no one can tell who is responsible for what'',
       preconditionOwner = js ''Issuer '' @ [0xB7] @ js '' Legal''\<rparr>,
      \<lparr>preconditionKey = js ''host_country_spv'',
       preconditionLabel = js ''Local SPV incorporation confirmed'',
       preconditionWhy =
         js ''Without an entity to hold the asset, where the rights reside is undefined'',
       preconditionOwner = js ''Issuer '' @ [0xB7] @ js '' Legal''\<rparr>,
      \<lparr>preconditionKey = js ''jurisdiction_determined'',
       preconditionLabel = js ''Applicable jurisdiction confirmed'',
       preconditionWhy =
         js ''Each jurisdiction requires different licenses and disclosure obligations'',
       preconditionOwner = js ''Legal''\<rparr>,
      \<lparr>preconditionKey = js ''ersp_engaged'',
       preconditionLabel = js ''Per-function ERSP contracts'',
       preconditionWhy =
         js ''Investor verification, custody, and transfer records are performed by licensed external entities (OD-25'' @ [0xB7] @ js ''OD-27)'',
       preconditionOwner = js ''Issuer '' @ [0xB7] @ js '' Legal''\<rparr>,
      \<lparr>preconditionKey = js ''legal_issuance_decision'',
       preconditionLabel = js ''Legal issuance decision'',
       preconditionWhy =
         js ''Data readiness or a governance pass does not substitute for issuance approval'',
       preconditionOwner = js ''Issuer '' @ [0xB7] @ js '' Legal''\<rparr>,
      \<lparr>preconditionKey = js ''security_audit'',
       preconditionLabel = js ''Security audit complete'',
       preconditionWhy =
         js ''Once a fund-movement path exists, the loss cap exceeds gas costs (O1)'',
       preconditionOwner = js ''Security''\<rparr>,
      \<lparr>preconditionKey = js ''separate_implementation_plan'',
       preconditionLabel = js ''Separate implementation plan approved'',
       preconditionWhy =
         js ''Designing only after confirming the real ERSP APIs and legal requirements avoids waste (OD-07)'',
       preconditionOwner = js ''Product owner '' @ [0xB7] @ js '' CTO''\<rparr>]"

text \<open>
  The keys of recorded facts come from the database without a check, so a status may carry any
  string. An evidence reference counts when it is neither null nor empty.
\<close>

record precondition_status =
  statusKey :: js_string
  satisfied :: bool
  evidenceRef :: "js_string option"

datatype offering_gate_decision =
    Activatable
  | Not_activatable (missing: "offering_precondition list") (unsupported: "js_string list")

definition has_evidence :: "precondition_status \<Rightarrow> bool" where
  "has_evidence s \<longleftrightarrow> (case evidenceRef s of None \<Rightarrow> False | Some e \<Rightarrow> e \<noteq> [])"

text \<open>\<open>new Map(...)\<close> keeps the last entry of a key.\<close>

definition byKey :: "precondition_status list \<Rightarrow> js_string \<Rightarrow> precondition_status option" where
  "byKey statuses = map_of (rev (map (\<lambda>s. (statusKey s, s)) statuses))"

definition checkOfferingGate :: "precondition_status list \<Rightarrow> offering_gate_decision" where
  "checkOfferingGate statuses =
     (let missing' = filter (\<lambda>p. map_option satisfied (byKey statuses (preconditionKey p)) \<noteq> Some True)
                       OFFERING_PRECONDITIONS;
          unsupported' = map statusKey (filter (\<lambda>s. satisfied s \<and> \<not> has_evidence s) statuses)
      in if length missing' = 0 \<and> length unsupported' = 0 then Activatable
         else Not_activatable missing' unsupported')"

definition OFFERING_ABSENCE_COPY :: js_string where
  "OFFERING_ABSENCE_COPY =
     js ''This project has no asset or offering functionality. It is not built and not hidden behind a flag.''"

definition OFFERING_NOT_MEANING :: js_string where
  "OFFERING_NOT_MEANING =
     js ''Data readiness, governance approval, and verification signatures are not issuance approval.''"

section \<open>Properties\<close>

lemma byKey_Some: "byKey statuses k = Some s \<Longrightarrow> s \<in> set statuses \<and> statusKey s = k"
  unfolding byKey_def by (drule map_of_SomeD) auto

text \<open>
  There is no partial activation: the gate opens exactly when, for every precondition, the
  status recorded last for its key is satisfied and no satisfied status, of any key, lacks evidence.
  So every precondition has a satisfied status with evidence.
\<close>

theorem offering_gate_iff:
  "(checkOfferingGate statuses = Activatable \<longleftrightarrow>
      (\<forall>p \<in> set OFFERING_PRECONDITIONS. \<exists>s. byKey statuses (preconditionKey p) = Some s \<and> satisfied s) \<and>
      (\<forall>s \<in> set statuses. satisfied s \<longrightarrow> has_evidence s)) \<and>
   (checkOfferingGate statuses = Activatable \<longrightarrow>
      (\<forall>p \<in> set OFFERING_PRECONDITIONS.
         \<exists>s \<in> set statuses. statusKey s = preconditionKey p \<and> satisfied s \<and>
           (\<exists>e. evidenceRef s = Some e \<and> e \<noteq> [])))"
proof (intro conjI)
  show iff: "checkOfferingGate statuses = Activatable \<longleftrightarrow>
      (\<forall>p \<in> set OFFERING_PRECONDITIONS. \<exists>s. byKey statuses (preconditionKey p) = Some s \<and> satisfied s) \<and>
      (\<forall>s \<in> set statuses. satisfied s \<longrightarrow> has_evidence s)"
    by (auto simp: checkOfferingGate_def Let_def filter_empty_conv)
  show "checkOfferingGate statuses = Activatable \<longrightarrow>
      (\<forall>p \<in> set OFFERING_PRECONDITIONS.
         \<exists>s \<in> set statuses. statusKey s = preconditionKey p \<and> satisfied s \<and>
           (\<exists>e. evidenceRef s = Some e \<and> e \<noteq> []))"
    unfolding iff by (fastforce dest: byKey_Some simp: has_evidence_def split: option.splits)
qed

theorem offering_gate_iff_witness:
  "let statuses = map (\<lambda>p. \<lparr>statusKey = preconditionKey p, satisfied = True, evidenceRef = Some (js ''doc'')\<rparr>)
                    OFFERING_PRECONDITIONS
   in checkOfferingGate statuses = Activatable \<and>
      checkOfferingGate (statuses @ [\<lparr>statusKey = js ''security_audit'', satisfied = True, evidenceRef = None\<rparr>])
        \<noteq> Activatable"
  unfolding Let_def
  by (simp add: offering_gate_iff [THEN conjunct1] OFFERING_PRECONDITIONS_def byKey_def has_evidence_def)

end
