(* ===== verification/Lifecycle_Guards.thy ===== *)
theory Lifecycle_Guards
  imports Machines Readiness Offering_Gate
begin

text \<open>
  What must be true before a lifecycle move is made
  (\<open>packages/domain/src/lifecycle-guards.ts\<close>). The conditions of rows that no table records are
  listed per pair of states; the source keys that record by the text of the pair.
\<close>

definition OFFERING_GATE_ID :: js_string where
  "OFFERING_GATE_ID = js ''offering_activation''"

definition OFFERING_FAMILY_STATES :: "at_lifecycle_state list" where
  "OFFERING_FAMILY_STATES =
     [At_offering_open, At_offering_closed, At_active, At_branch_vote, At_continuing, At_divested]"

datatype condition_status = Cond_unmet | Cond_not_evaluable

record lifecycle_condition =
  conditionKey :: js_string
  conditionLabel :: js_string
  conditionWhy :: js_string
  conditionStatus :: condition_status
  conditionOwner :: "js_string option"

record lifecycle_guard_facts =
  offeringGate :: offering_gate_decision
  latestOfferingDecision :: "gate_decision_value option"
  reviewedSinceSuspension :: "bool option"

datatype lifecycle_guard_code = LIFECYCLE_GUARD_UNMET | LIFECYCLE_REGISTER_VIA_PUBLICATION

datatype lifecycle_guard_result =
    Guard_allowed
  | Guard_refused (guard_code: lifecycle_guard_code) (guard_conditions: "lifecycle_condition list")
      (guard_unsupported: "js_string list")

definition notRecorded :: "js_string \<Rightarrow> js_string \<Rightarrow> js_string \<Rightarrow> lifecycle_condition" where
  "notRecorded key label why =
     \<lparr>conditionKey = key, conditionLabel = label, conditionWhy = why,
      conditionStatus = Cond_not_evaluable, conditionOwner = None\<rparr>"

definition CLOSURE_CONDITION :: lifecycle_condition where
  "CLOSURE_CONDITION =
      notRecorded (js ''offchain_execution_or_obligation_plan'')
         (js ''Off-chain execution complete, or an obligation plan'')
         (js ''Closing while obligations are open leaves holders with no counterpart'')"

definition BRANCH_CONDITIONS :: "lifecycle_condition list" where
  "BRANCH_CONDITIONS =
     [notRecorded (js ''contractual_branch_event'')
         (js ''Contractual branch event'')
         (js ''A branch vote starts only from an event the contract defines''),
      notRecorded (js ''independent_valuation_request'')
         (js ''Independent valuation requested'')
         (js ''Voters decide on a valuation that did not come from the proposer'')]"

definition VOTE_CONDITION :: lifecycle_condition where
  "VOTE_CONDITION =
      notRecorded (js ''valid_project_vote'')
         (js ''Valid project vote meeting the threshold'')
         (js ''Quorum and threshold values are not decided yet, so no vote can be judged valid'')"

definition UNRECORDED_ROW_CONDITIONS ::
    "((at_lifecycle_state \<times> at_lifecycle_state) \<times> lifecycle_condition list) list" where
  "UNRECORDED_ROW_CONDITIONS =
     [((At_offering_open, At_offering_closed),
       [notRecorded (js ''issuer_offering_status'')
         (js ''Issuer offering status and per-function ERSP status'')
         (js ''Only the issuer and the licensed service providers know whether the offering ended''),
        notRecorded (js ''deadline_or_cap_rule'')
         (js ''Offering deadline or cap rule reached'')
         (js ''Closing before the rule is met changes the terms investors relied on'')]),
      ((At_offering_closed, At_active),
       [notRecorded (js ''settlement_reconciliation'')
         (js ''Settlement and registry reconciliation'')
         (js ''An unreconciled offering can show holdings that settlement does not support'')]),
      ((At_active, At_branch_vote),
       BRANCH_CONDITIONS),
      ((At_continuing, At_branch_vote),
       BRANCH_CONDITIONS),
      ((At_branch_vote, At_continuing),
       [VOTE_CONDITION]),
      ((At_branch_vote, At_divested),
       [VOTE_CONDITION]),
      ((At_continuing, At_active),
       [notRecorded (js ''financing_condition_record'')
         (js ''Financing or contract condition recorded'')
         (js ''Continuing without a recorded condition leaves the next decision without a basis'')]),
      ((At_divested, At_closure),
       [CLOSURE_CONDITION]),
      ((At_active, At_closure),
       [CLOSURE_CONDITION]),
      ((At_closure, At_retired),
       [notRecorded (js ''obligations_resolved'')
         (js ''No unresolved obligations'')
         (js ''A retired project cannot be pursued for what it still owes''),
        notRecorded (js ''retirement_legal_approval'')
         (js ''Legal approval of retirement'')
         (js ''Retirement ends the legal vehicle, which only a legal decision can do'')])]"

text \<open>The text of a decision, as the template literal prints it.\<close>

fun gate_decision_string :: "gate_decision_value \<Rightarrow> js_string" where
  "gate_decision_string Gd_go = js ''go''"
| "gate_decision_string Gd_hold = js ''hold''"
| "gate_decision_string Gd_rework = js ''rework''"
| "gate_decision_string Gd_stop = js ''stop''"

definition missing_condition :: "offering_precondition \<Rightarrow> lifecycle_condition" where
  "missing_condition m =
     \<lparr>conditionKey = preconditionKey m, conditionLabel = preconditionLabel m,
      conditionWhy = preconditionWhy m, conditionStatus = Cond_unmet,
      conditionOwner = Some (preconditionOwner m)\<rparr>"

definition evidence_condition :: "js_string list \<Rightarrow> lifecycle_condition" where
  "evidence_condition keys =
     \<lparr>conditionKey = js ''offering_precondition_evidence'',
      conditionLabel = js ''Evidence for every confirmed offering precondition'',
      conditionWhy = js ''Confirmed without evidence: '' @ js_join (js '', '') keys,
      conditionStatus = Cond_unmet, conditionOwner = None\<rparr>"

definition decision_condition :: "gate_decision_value option \<Rightarrow> lifecycle_condition" where
  "decision_condition latest =
     \<lparr>conditionKey = js ''offering_gate_go_decision'',
      conditionLabel = js ''Human go decision on the offering gate'',
      conditionWhy =
        (case latest of
           None \<Rightarrow> js ''Conditions being met is not approval; a person must decide go (AC-03)''
         | Some d \<Rightarrow> js ''The latest offering gate decision is '' @ gate_decision_string d @ js '', not go''),
      conditionStatus = Cond_unmet, conditionOwner = Some (js ''Gate approver'')\<rparr>"

definition offeringConditions :: "lifecycle_guard_facts \<Rightarrow> lifecycle_condition list" where
  "offeringConditions facts =
     (case offeringGate facts of
        Activatable \<Rightarrow> []
      | Not_activatable ms us \<Rightarrow>
          map missing_condition ms @ (if length us > 0 then [evidence_condition us] else [])) @
     (if latestOfferingDecision facts \<noteq> Some Gd_go
      then [decision_condition (latestOfferingDecision facts)] else [])"

definition unsupportedOf :: "lifecycle_guard_facts \<Rightarrow> js_string list" where
  "unsupportedOf facts =
     (case offeringGate facts of Activatable \<Rightarrow> [] | Not_activatable ms us \<Rightarrow> us)"

definition registration_condition :: lifecycle_condition where
  "registration_condition =
     \<lparr>conditionKey = js ''project_registry_entry'',
      conditionLabel = js ''Published Project Registry entry'',
      conditionWhy =
        js ''A project becomes registered by publishing its Registry entry, which checks the minimum fields and the responsible party'',
      conditionStatus = Cond_unmet, conditionOwner = None\<rparr>"

definition review_condition :: "bool option \<Rightarrow> lifecycle_condition" where
  "review_condition reviewedSince =
     \<lparr>conditionKey = js ''review_since_suspension'',
      conditionLabel = js ''New evidence, review, readiness assessment, or decision since suspension'',
      conditionWhy =
        (case reviewedSince of
           None \<Rightarrow> js ''No suspension record exists, so nothing can be shown to be newer than it''
         | Some _ \<Rightarrow> js ''Reinstating on the same record that led to suspension undoes the control''),
      conditionStatus = Cond_unmet, conditionOwner = None\<rparr>"

definition checkLifecycleGuard ::
    "at_lifecycle_state \<Rightarrow> at_lifecycle_state \<Rightarrow> lifecycle_guard_facts \<Rightarrow> lifecycle_guard_result" where
  "checkLifecycleGuard source target facts =
     (if target = At_suspended then Guard_allowed
      else if source = At_draft \<and> target = At_registered
      then Guard_refused LIFECYCLE_REGISTER_VIA_PUBLICATION [registration_condition] []
      else if source = At_suspended \<and> target = At_closure then Guard_allowed
      else
        (let conds =
               (if source = At_suspended
                then (if reviewedSinceSuspension facts \<noteq> Some True
                      then [review_condition (reviewedSinceSuspension facts)] else [])
                else (case map_of UNRECORDED_ROW_CONDITIONS (source, target) of
                        Some cs \<Rightarrow> cs | None \<Rightarrow> [])) @
               (if target \<in> set OFFERING_FAMILY_STATES then offeringConditions facts else [])
         in if length conds = 0 then Guard_allowed
            else Guard_refused LIFECYCLE_GUARD_UNMET conds
                   (if target \<in> set OFFERING_FAMILY_STATES then unsupportedOf facts else [])))"

section \<open>Which moves the guard lets through\<close>

lemma offeringConditions_Nil_iff:
  "offeringConditions facts = [] \<longleftrightarrow>
     (case offeringGate facts of
        Activatable \<Rightarrow> True | Not_activatable ms us \<Rightarrow> ms = [] \<and> us = []) \<and>
     latestOfferingDecision facts = Some Gd_go"
  by (cases "offeringGate facts") (auto simp: offeringConditions_def)

text \<open>A decision the gate makes is never a refusal with nothing missing and nothing unsupported.\<close>

lemma offeringConditions_gate:
  assumes "offeringGate facts = checkOfferingGate statuses"
  shows "offeringConditions facts = [] \<longleftrightarrow>
     checkOfferingGate statuses = Activatable \<and> latestOfferingDecision facts = Some Gd_go"
  unfolding offeringConditions_Nil_iff assms
  by (auto simp: checkOfferingGate_def Let_def)

lemma row_conditions_nonempty:
  "map_of UNRECORDED_ROW_CONDITIONS (s, t) = Some cs \<Longrightarrow> cs \<noteq> []"
  by (drule map_of_SomeD)
    (auto simp: UNRECORDED_ROW_CONDITIONS_def BRANCH_CONDITIONS_def)

definition row_unrecorded :: "at_lifecycle_state \<Rightarrow> at_lifecycle_state \<Rightarrow> bool" where
  "row_unrecorded s t \<longleftrightarrow> map_of UNRECORDED_ROW_CONDITIONS (s, t) \<noteq> None"

lemma guard_allowed_iff:
  "checkLifecycleGuard s t facts = Guard_allowed \<longleftrightarrow>
     t = At_suspended \<or> s = At_suspended \<and> t = At_closure \<or>
     \<not> (s = At_draft \<and> t = At_registered) \<and>
     (if s = At_suspended then reviewedSinceSuspension facts = Some True else \<not> row_unrecorded s t) \<and>
     (t \<in> set OFFERING_FAMILY_STATES \<longrightarrow> offeringConditions facts = [])"
  unfolding checkLifecycleGuard_def row_unrecorded_def
  by (auto simp: Let_def dest: row_conditions_nonempty split: option.splits)

lemma row_unrecorded_iff:
  "row_unrecorded s t \<longleftrightarrow>
     (s, t) \<in> {(At_offering_open, At_offering_closed), (At_offering_closed, At_active),
       (At_active, At_branch_vote), (At_continuing, At_branch_vote), (At_branch_vote, At_continuing),
       (At_branch_vote, At_divested), (At_continuing, At_active), (At_divested, At_closure),
       (At_active, At_closure), (At_closure, At_retired)}"
  by (auto simp: row_unrecorded_def map_of_eq_None_iff UNRECORDED_ROW_CONDITIONS_def)

lemma lifecycle_rows:
  "canTransition atLifecycleMachine s t \<longleftrightarrow>
     (s, t) = (At_draft, At_registered) \<or> (s, t) = (At_registered, At_offering_open) \<or>
     row_unrecorded s t \<or> s \<in> set SUSPENDABLE_STATES \<and> t = At_suspended \<or>
     s = At_suspended \<and> t \<in> set SUSPENDABLE_STATES"
  by (cases s; cases t)
    (simp_all add: row_unrecorded_iff canTransition_def targets_def atLifecycleMachine_def SUSPENDABLE_STATES_def)

text \<open>
  C25. The moves the guard lets through, of those the lifecycle table has: suspension; winding down
  a suspended project; reinstatement after new review activity, which into an offering state also
  needs the offering gate open and a human go; and opening an offering from \<open>registered\<close> with the
  gate open and a human go. Every other move of the table is refused.
\<close>

theorem guarded_lifecycle_moves:
  assumes "canTransition atLifecycleMachine s t"
    and "offeringGate facts = checkOfferingGate statuses"
  shows "checkLifecycleGuard s t facts = Guard_allowed \<longleftrightarrow>
    t = At_suspended \<or>
    s = At_suspended \<and> t = At_closure \<or>
    s = At_suspended \<and> reviewedSinceSuspension facts = Some True \<and>
      (t = At_registered \<or>
       checkOfferingGate statuses = Activatable \<and> latestOfferingDecision facts = Some Gd_go) \<or>
    s = At_registered \<and> t = At_offering_open \<and>
      checkOfferingGate statuses = Activatable \<and> latestOfferingDecision facts = Some Gd_go"
  using assms(1) unfolding guard_allowed_iff offeringConditions_gate [OF assms(2)] lifecycle_rows
  by (elim disjE conjE) (auto simp: row_unrecorded_iff SUSPENDABLE_STATES_def OFFERING_FAMILY_STATES_def)

theorem guarded_lifecycle_moves_witness:
  "canTransition atLifecycleMachine At_active At_closure \<and>
   checkLifecycleGuard At_active At_closure
     \<lparr>offeringGate = checkOfferingGate [], latestOfferingDecision = Some Gd_go,
      reviewedSinceSuspension = Some True\<rparr> \<noteq> Guard_allowed"
proof -
  let ?facts = "\<lparr>offeringGate = checkOfferingGate [], latestOfferingDecision = Some Gd_go,
      reviewedSinceSuspension = Some True\<rparr>"
  have h: "canTransition atLifecycleMachine At_active At_closure"
    by (simp add: lifecycle_rows row_unrecorded_iff)
  have g: "offeringGate ?facts = checkOfferingGate []" by simp
  show ?thesis using h guarded_lifecycle_moves [OF h g] by simp
qed

end
