(* ===== verification/Js_Numbers.thy ===== *)
theory Js_Numbers
  imports Registry_Prelude
begin

text \<open>
  The reading of integers from strings by \<open>BigInt(value)\<close>: ECMAScript's \<open>StringToBigInt\<close>, which trims
  white space, reads an empty string as zero, a decimal literal with an optional sign, and an
  unsigned literal with a radix prefix, and refuses everything else with a \<open>SyntaxError\<close> (\<open>None\<close>).
\<close>

definition digit_value :: "code_unit \<Rightarrow> nat option" where
  "digit_value c =
     (if 48 \<le> c \<and> c \<le> 57 then Some (unat c - 48)
      else if 97 \<le> c \<and> c \<le> 122 then Some (unat c - 87)
      else if 65 \<le> c \<and> c \<le> 90 then Some (unat c - 55)
      else None)"

fun radix_onto :: "nat \<Rightarrow> nat \<Rightarrow> js_string \<Rightarrow> nat option" where
  "radix_onto r n [] = Some n"
| "radix_onto r n (c # cs) =
     (case digit_value c of
        Some d \<Rightarrow> if d < r then radix_onto r (r * n + d) cs else None
      | None \<Rightarrow> None)"

definition radix_literal :: "nat \<Rightarrow> js_string \<Rightarrow> nat option" where
  "radix_literal r s = (if s = [] then None else radix_onto r 0 s)"

definition radix_prefix :: "js_string \<Rightarrow> nat option" where
  "radix_prefix s =
     (case s of
        (z # x # _) \<Rightarrow>
          if z \<noteq> 48 then None
          else if x = 0x78 \<or> x = 0x58 then Some 16
          else if x = 0x6F \<or> x = 0x4F then Some 8
          else if x = 0x62 \<or> x = 0x42 then Some 2
          else None
      | _ \<Rightarrow> None)"

definition js_BigInt :: "js_string \<Rightarrow> int option" where
  "js_BigInt raw =
     (let s = js_trim raw in
        case s of
          [] \<Rightarrow> Some 0
        | c # cs \<Rightarrow>
            (case radix_prefix s of
               Some r \<Rightarrow> map_option int (radix_literal r (drop 2 s))
             | None \<Rightarrow>
                 if c = 0x2D then map_option (\<lambda>n. - int n) (radix_literal 10 cs)
                 else if c = 0x2B then map_option int (radix_literal 10 cs)
                 else map_option int (radix_literal 10 s)))"

section \<open>Decimal literals\<close>

lemma digit_value_js_digit: "js_digit c \<Longrightarrow> digit_value c = Some (unat c - 48) \<and> unat c - 48 < 10"
  by (auto simp: js_digit_def digit_value_def word_le_nat_alt)

lemma js_digit_not_space: "js_digit c \<Longrightarrow> \<not> js_whitespace c"
  by (auto simp: js_digit_def js_whitespace_def word_le_nat_alt word_unat_eq_iff)

lemma radix_onto_decimal:
  "list_all js_digit s \<Longrightarrow> radix_onto 10 n s = Some (foldl (\<lambda>n c. 10 * n + (unat c - 48)) n s)"
  by (induction s arbitrary: n) (auto dest: digit_value_js_digit)

lemma radix_literal_decimal:
  "list_all js_digit s \<Longrightarrow> s \<noteq> [] \<Longrightarrow> radix_literal 10 s = Some (decimal_value s)"
  by (simp add: radix_literal_def radix_onto_decimal decimal_value_def)

lemma js_trim_id:
  assumes "s \<noteq> []" and "\<not> js_whitespace (hd s)" and "\<not> js_whitespace (last s)"
  shows "js_trim s = s"
proof -
  have "dropWhile js_whitespace s = s" using assms(1,2) by (cases s) auto
  moreover have "dropWhile js_whitespace (rev s) = rev s"
    using assms(1,3) by (cases s rule: rev_cases) auto
  ultimately show ?thesis by (simp add: js_trim_def)
qed

lemma radix_prefix_decimal: "list_all js_digit s \<Longrightarrow> radix_prefix s = None"
  by (cases s rule: list.exhaust; cases "tl s" rule: list.exhaust)
    (auto simp: radix_prefix_def js_digit_def word_le_nat_alt)

lemma js_BigInt_decimal:
  assumes "list_all js_digit s" and "s \<noteq> []"
  shows "js_BigInt s = Some (int (decimal_value s))"
proof -
  obtain c cs where s: "s = c # cs" using assms(2) by (cases s) auto
  have "js_digit c" using assms(1) s by simp
  then have c: "c \<noteq> 0x2D" "c \<noteq> 0x2B" by (auto simp: js_digit_def word_le_nat_alt)
  have "js_digit (hd s)" "js_digit (last s)" using assms by (auto simp: list_all_iff)
  then have "js_trim s = s" using assms(2) by (intro js_trim_id) (auto dest: js_digit_not_space)
  with s c show ?thesis
    using radix_prefix_decimal [OF assms(1)] radix_literal_decimal [OF assms]
    by (simp add: js_BigInt_def Let_def)
qed

lemma js_BigInt_negative:
  assumes "list_all js_digit s" and "s \<noteq> []"
  shows "js_BigInt (0x2D # s) = Some (- int (decimal_value s))"
proof -
  have "js_digit (last s)" using assms by (auto simp: list_all_iff)
  then have "js_trim (0x2D # s) = 0x2D # s"
    using assms(2) by (intro js_trim_id) (auto dest: js_digit_not_space simp: js_whitespace_def)
  moreover have "radix_prefix (0x2D # s) = None"
    by (cases s) (simp_all add: radix_prefix_def)
  ultimately show ?thesis
    using radix_literal_decimal [OF assms] by (simp add: js_BigInt_def Let_def)
qed

text \<open>\<open>/^-?(0|[1-9][0-9]*)$/\<close>, the integers without leading zeros.\<close>

definition plain_integer :: "js_string \<Rightarrow> bool" where
  "plain_integer s \<longleftrightarrow>
     s = [48] \<or> (case s of c # cs \<Rightarrow> 49 \<le> c \<and> c \<le> 57 \<and> list_all js_digit cs | [] \<Rightarrow> False)"

definition integer_literal :: "js_string \<Rightarrow> bool" where
  "integer_literal s \<longleftrightarrow>
     plain_integer (case s of c # cs \<Rightarrow> if c = 0x2D then cs else s | [] \<Rightarrow> s)"

lemma plain_integer_digits: "plain_integer s \<Longrightarrow> list_all js_digit s \<and> s \<noteq> []"
  by (auto simp: plain_integer_def js_digit_def word_le_nat_alt split: list.splits)

lemma integer_literal_BigInt:
  assumes "integer_literal s"
  obtains v where "js_BigInt s = Some v"
proof -
  have "\<exists>v. js_BigInt s = Some v"
  proof (cases "\<exists>cs. s = 0x2D # cs")
    case True
    then obtain cs where s: "s = 0x2D # cs" by blast
    with assms have "plain_integer cs" by (simp add: integer_literal_def)
    from js_BigInt_negative [OF plain_integer_digits [OF this, THEN conjunct1] plain_integer_digits [OF this, THEN conjunct2]] s
    show ?thesis by simp
  next
    case False
    with assms have "plain_integer s" by (cases s) (auto simp: integer_literal_def)
    from js_BigInt_decimal [OF plain_integer_digits [OF this, THEN conjunct1] plain_integer_digits [OF this, THEN conjunct2]]
    show ?thesis by simp
  qed
  with that show thesis by blast
qed

end
