(* ===== verification/Predicate_AST.thy ===== *)
theory Predicate_AST
  imports Js_Numbers
begin

text \<open>
  The rule predicates of the policy engine (\<open>packages/policy/src/predicate.ts\<close>): the restricted syntax
  tree, its evaluation over recorded facts, which may throw, and the fact paths a predicate reads.
  A facts object is a partial function on names; an absent or \<open>undefined\<close> member is \<open>None\<close>, and the
  names are taken to differ from the members every JavaScript object inherits.
\<close>

datatype predicate =
    Always
  | Never
  | And "predicate list"
  | Or "predicate list"
  | Negated predicate
  | Equals js_string js_string
  | In_values js_string "js_string list"
  | Exists js_string
  | Gte js_string js_string
  | Lte js_string js_string

datatype fact_value = Scalar js_string | Array "js_string list"

type_synonym facts = "js_string \<Rightarrow> fact_value option"

datatype predicate_error = PredicateError js_string

section \<open>Evaluation\<close>

text \<open>
  \<open>BigInt\<close> never refuses what the test accepts (\<open>integer_literal_BigInt\<close>), so the last branch is dead.
\<close>

definition toBigInt :: "js_string \<Rightarrow> js_string \<Rightarrow> predicate_error + int" where
  "toBigInt value context =
     (if \<not> integer_literal value
      then Inl (PredicateError (context @ js '': numeric comparison accepts only integer decimal strings (got: '' @
                  value @ js '')''))
      else (case js_BigInt value of Some v \<Rightarrow> Inr v | None \<Rightarrow> Inl (PredicateError [])))"

definition readScalar :: "facts \<Rightarrow> js_string \<Rightarrow> predicate_error + js_string option" where
  "readScalar facts path =
     (case facts path of
        None \<Rightarrow> Inr None
      | Some (Array _) \<Rightarrow> Inl (PredicateError (path @ js '' is an array. It cannot be used in a scalar comparison''))
      | Some (Scalar s) \<Rightarrow> Inr (Some s))"

text \<open>\<open>every\<close> and \<open>some\<close> stop at the first element that decides, or throws.\<close>

fun js_every :: "('a \<Rightarrow> 'e + bool) \<Rightarrow> 'a list \<Rightarrow> 'e + bool" where
  "js_every f [] = Inr True"
| "js_every f (x # xs) = and_then (f x) (\<lambda>b. if b then js_every f xs else Inr False)"

fun js_some :: "('a \<Rightarrow> 'e + bool) \<Rightarrow> 'a list \<Rightarrow> 'e + bool" where
  "js_some f [] = Inr False"
| "js_some f (x # xs) = and_then (f x) (\<lambda>b. if b then Inr True else js_some f xs)"

lemma js_every_cong [fundef_cong]:
  "xs = ys \<Longrightarrow> (\<And>x. x \<in> set ys \<Longrightarrow> f x = g x) \<Longrightarrow> js_every f xs = js_every g ys"
proof (induction ys arbitrary: xs)
  case (Cons y ys)
  then have "js_every f ys = js_every g ys" "f y = g y" by auto
  with Cons.prems show ?case by (cases "g y") auto
qed auto

lemma js_some_cong [fundef_cong]:
  "xs = ys \<Longrightarrow> (\<And>x. x \<in> set ys \<Longrightarrow> f x = g x) \<Longrightarrow> js_some f xs = js_some g ys"
proof (induction ys arbitrary: xs)
  case (Cons y ys)
  then have "js_some f ys = js_some g ys" "f y = g y" by auto
  with Cons.prems show ?case by (cases "g y") auto
qed auto

definition compare_fact ::
    "(int \<Rightarrow> int \<Rightarrow> bool) \<Rightarrow> facts \<Rightarrow> js_string \<Rightarrow> js_string \<Rightarrow> predicate_error + bool" where
  "compare_fact cmp facts path value =
     and_then (readScalar facts path) (\<lambda>raw.
       case raw of
         None \<Rightarrow> Inr False
       | Some r \<Rightarrow>
           and_then (toBigInt r path) (\<lambda>a.
             and_then (toBigInt value (path @ js '' threshold'')) (\<lambda>b. Inr (cmp a b))))"

fun evaluatePredicate :: "predicate \<Rightarrow> facts \<Rightarrow> predicate_error + bool" where
  "evaluatePredicate Always facts = Inr True"
| "evaluatePredicate Never facts = Inr False"
| "evaluatePredicate (And ps) facts = js_every (\<lambda>p. evaluatePredicate p facts) ps"
| "evaluatePredicate (Or ps) facts = js_some (\<lambda>p. evaluatePredicate p facts) ps"
| "evaluatePredicate (Negated p) facts = and_then (evaluatePredicate p facts) (\<lambda>b. Inr (\<not> b))"
| "evaluatePredicate (Equals path value) facts =
     (case facts path of
        None \<Rightarrow> Inr False
      | Some (Array vs) \<Rightarrow> Inr (value \<in> set vs)
      | Some (Scalar s) \<Rightarrow> Inr (s = value))"
| "evaluatePredicate (In_values path values) facts =
     (case facts path of
        None \<Rightarrow> Inr False
      | Some (Array vs) \<Rightarrow> Inr (list_ex (\<lambda>v. v \<in> set values) vs)
      | Some (Scalar s) \<Rightarrow> Inr (s \<in> set values))"
| "evaluatePredicate (Exists path) facts =
     (case facts path of
        None \<Rightarrow> Inr False
      | Some (Array vs) \<Rightarrow> Inr (length vs > 0)
      | Some (Scalar s) \<Rightarrow> Inr True)"
| "evaluatePredicate (Gte path value) facts = compare_fact (\<ge>) facts path value"
| "evaluatePredicate (Lte path value) facts = compare_fact (\<le>) facts path value"

text \<open>The set of paths, in insertion order.\<close>

fun collectPredicatePaths :: "predicate \<Rightarrow> js_string list \<Rightarrow> js_string list" where
  "collectPredicatePaths Always out = out"
| "collectPredicatePaths Never out = out"
| "collectPredicatePaths (And ps) out = foldl (\<lambda>acc p. collectPredicatePaths p acc) out ps"
| "collectPredicatePaths (Or ps) out = foldl (\<lambda>acc p. collectPredicatePaths p acc) out ps"
| "collectPredicatePaths (Negated p) out = collectPredicatePaths p out"
| "collectPredicatePaths (Equals path value) out = uniq_onto out [path]"
| "collectPredicatePaths (In_values path values) out = uniq_onto out [path]"
| "collectPredicatePaths (Exists path) out = uniq_onto out [path]"
| "collectPredicatePaths (Gte path value) out = uniq_onto out [path]"
| "collectPredicatePaths (Lte path value) out = uniq_onto out [path]"

section \<open>What evaluation depends on\<close>

fun path_set :: "predicate \<Rightarrow> js_string set" where
  "path_set (And ps) = (\<Union>p \<in> set ps. path_set p)"
| "path_set (Or ps) = (\<Union>p \<in> set ps. path_set p)"
| "path_set (Negated p) = path_set p"
| "path_set (Equals path value) = {path}"
| "path_set (In_values path values) = {path}"
| "path_set (Exists path) = {path}"
| "path_set (Gte path value) = {path}"
| "path_set (Lte path value) = {path}"
| "path_set _ = {}"

lemma set_foldl_onto:
  "(\<And>p out. p \<in> set ps \<Longrightarrow> set (f out p) = set out \<union> g p) \<Longrightarrow>
     set (foldl f out ps) = set out \<union> (\<Union>p \<in> set ps. g p)"
  by (induction ps arbitrary: out) auto

lemma set_collectPredicatePaths: "set (collectPredicatePaths p out) = set out \<union> path_set p"
proof (induction p arbitrary: out)
  case (And ps)
  then show ?case by (simp add: set_foldl_onto [where g = path_set])
next
  case (Or ps)
  then show ?case by (simp add: set_foldl_onto [where g = path_set])
qed auto

lemma distinct_foldl_onto:
  "(\<And>p out. p \<in> set ps \<Longrightarrow> distinct out \<Longrightarrow> distinct (f out p)) \<Longrightarrow> distinct out \<Longrightarrow>
     distinct (foldl f out ps)"
  by (induction ps arbitrary: out) auto

lemma distinct_collectPredicatePaths:
  "distinct out \<Longrightarrow> distinct (collectPredicatePaths p out)"
  by (induction p arbitrary: out) (auto intro: distinct_foldl_onto)

lemma evaluate_path_set:
  "(\<And>path. path \<in> path_set p \<Longrightarrow> f path = g path) \<Longrightarrow> evaluatePredicate p f = evaluatePredicate p g"
proof (induction p)
  case (And ps)
  then show ?case by (auto intro!: js_every_cong)
next
  case (Or ps)
  then show ?case by (auto intro!: js_some_cong)
qed (simp_all add: compare_fact_def readScalar_def)

text \<open>
  A comparison can be evaluated when the fact it reads, if recorded, is an integer and so is its
  threshold; the rule schema enforces the second.
\<close>

definition integer_fact :: "facts \<Rightarrow> js_string \<Rightarrow> bool" where
  "integer_fact facts path \<longleftrightarrow>
     (case facts path of None \<Rightarrow> True | Some (Scalar s) \<Rightarrow> integer_literal s | Some (Array _) \<Rightarrow> False)"

fun compared_paths :: "predicate \<Rightarrow> js_string set" where
  "compared_paths (And ps) = (\<Union>p \<in> set ps. compared_paths p)"
| "compared_paths (Or ps) = (\<Union>p \<in> set ps. compared_paths p)"
| "compared_paths (Negated p) = compared_paths p"
| "compared_paths (Gte path value) = {path}"
| "compared_paths (Lte path value) = {path}"
| "compared_paths _ = {}"

fun integer_thresholds :: "predicate \<Rightarrow> bool" where
  "integer_thresholds (And ps) = list_all integer_thresholds ps"
| "integer_thresholds (Or ps) = list_all integer_thresholds ps"
| "integer_thresholds (Negated p) = integer_thresholds p"
| "integer_thresholds (Gte path value) = integer_literal value"
| "integer_thresholds (Lte path value) = integer_literal value"
| "integer_thresholds _ = True"

lemma toBigInt_integer: "integer_literal v \<Longrightarrow> \<exists>n. toBigInt v c = Inr n"
  by (rule integer_literal_BigInt [of v]) (simp_all add: toBigInt_def)

lemma compare_fact_total:
  assumes "integer_fact facts path" and "integer_literal value"
  shows "\<exists>b. compare_fact cmp facts path value = Inr b"
proof (cases "facts path")
  case None
  then have "compare_fact cmp facts path value = Inr False"
    by (simp add: compare_fact_def readScalar_def)
  then show ?thesis by (rule exI)
next
  case (Some v)
  with assms(1) obtain s where s: "facts path = Some (Scalar s)" "integer_literal s"
    by (cases v) (auto simp: integer_fact_def)
  with toBigInt_integer [OF s(2), of path] toBigInt_integer [OF assms(2), of "path @ js '' threshold''"]
  show ?thesis by (auto simp: compare_fact_def readScalar_def)
qed

lemma js_every_total: "(\<And>x. x \<in> set xs \<Longrightarrow> \<exists>b. f x = Inr b) \<Longrightarrow> \<exists>b. js_every f xs = Inr b"
proof (induction xs)
  case (Cons x xs)
  then obtain b c where "f x = Inr b" "js_every f xs = Inr c" by (metis list.set_intros)
  then show ?case by (cases b) auto
qed auto

lemma js_some_total: "(\<And>x. x \<in> set xs \<Longrightarrow> \<exists>b. f x = Inr b) \<Longrightarrow> \<exists>b. js_some f xs = Inr b"
proof (induction xs)
  case (Cons x xs)
  then obtain b c where "f x = Inr b" "js_some f xs = Inr c" by (metis list.set_intros)
  then show ?case by (cases b) auto
qed auto

lemma evaluate_total:
  "integer_thresholds p \<Longrightarrow> (\<And>path. path \<in> compared_paths p \<Longrightarrow> integer_fact facts path) \<Longrightarrow>
     \<exists>b. evaluatePredicate p facts = Inr b"
proof (induction p)
  case (And ps)
  have "\<exists>b. evaluatePredicate p facts = Inr b" if "p \<in> set ps" for p
    using And.prems that by (intro And.IH [OF that]) (auto simp: list_all_iff)
  then show ?case by (auto intro: js_every_total)
next
  case (Or ps)
  have "\<exists>b. evaluatePredicate p facts = Inr b" if "p \<in> set ps" for p
    using Or.prems that by (intro Or.IH [OF that]) (auto simp: list_all_iff)
  then show ?case by (auto intro: js_some_total)
next
  case (Negated p)
  then have "\<exists>b. evaluatePredicate p facts = Inr b" by (intro Negated.IH) auto
  then show ?case by auto
qed (auto intro: compare_fact_total split: option.split fact_value.split)

end
