(* ===== verification/Rule_Schema.thy ===== *)
theory Rule_Schema
  imports Predicate_AST Provenance
begin

text \<open>
  Rules as data (\<open>packages/policy/src/rule-schema.ts\<close>): the requirement and rule set records, and the
  checks the schema makes on values that already have these shapes.
\<close>

record requirement =
  requirementId :: js_string
  requirementLabel :: js_string
  appliesWhen :: predicate
  requiredClaimTypes :: "js_string list"
  minimumGrade :: grade
  freshnessThresholdDays :: "js_string option"
  requiredAttestations :: "attestation_type list"
  blockingConflictTypes :: "js_string list"
  notEvaluableWhen :: predicate
  watchWhen :: "predicate option"

record rule_set =
  ruleSetId :: js_string
  version :: js_string
  effectiveFrom :: js_string
  supersededBy :: "js_string option"
  jurisdictionProfile :: js_string
  ruleGateId :: js_string
  retroactive :: bool
  requirements :: "requirement list"

section \<open>The schema\<close>

fun predicate_valid :: "predicate \<Rightarrow> bool" where
  "predicate_valid Always = True"
| "predicate_valid Never = True"
| "predicate_valid (And ps) = (ps \<noteq> [] \<and> list_all predicate_valid ps)"
| "predicate_valid (Or ps) = (ps \<noteq> [] \<and> list_all predicate_valid ps)"
| "predicate_valid (Negated p) = predicate_valid p"
| "predicate_valid (Equals path value) = (path \<noteq> [])"
| "predicate_valid (In_values path values) = (path \<noteq> [] \<and> values \<noteq> [])"
| "predicate_valid (Exists path) = (path \<noteq> [])"
| "predicate_valid (Gte path value) = (path \<noteq> [] \<and> integer_literal value)"
| "predicate_valid (Lte path value) = (path \<noteq> [] \<and> integer_literal value)"

definition requirement_valid :: "requirement \<Rightarrow> bool" where
  "requirement_valid r \<longleftrightarrow>
     requirementId r \<noteq> [] \<and> requirementLabel r \<noteq> [] \<and> predicate_valid (appliesWhen r) \<and>
     list_all (\<lambda>t. t \<noteq> []) (requiredClaimTypes r) \<and>
     (case freshnessThresholdDays r of None \<Rightarrow> True | Some d \<Rightarrow> plain_integer d) \<and>
     list_all (\<lambda>t. t \<noteq> []) (blockingConflictTypes r) \<and> predicate_valid (notEvaluableWhen r) \<and>
     (case watchWhen r of None \<Rightarrow> True | Some p \<Rightarrow> predicate_valid p)"

text \<open>\<open>/^\d+\.\d+\.\d+$/\<close>: three runs of digits separated by two dots.\<close>

definition digit_run :: "js_string \<Rightarrow> bool" where
  "digit_run s \<longleftrightarrow> s \<noteq> [] \<and> list_all js_digit s"

definition after_dot :: "js_string \<Rightarrow> js_string option" where
  "after_dot s = (case dropWhile (\<lambda>c. c \<noteq> 0x2E) s of [] \<Rightarrow> None | _ # rest \<Rightarrow> Some rest)"

definition before_dot :: "js_string \<Rightarrow> js_string" where
  "before_dot s = takeWhile (\<lambda>c. c \<noteq> 0x2E) s"

definition semver :: "js_string \<Rightarrow> bool" where
  "semver s \<longleftrightarrow>
     (case after_dot s of
        None \<Rightarrow> False
      | Some t \<Rightarrow>
          (case after_dot t of
             None \<Rightarrow> False
           | Some u \<Rightarrow> digit_run (before_dot s) \<and> digit_run (before_dot t) \<and> digit_run u))"

text \<open>\<open>/^\d{4}-\d{2}-\d{2}T\d{2}:\d{2}:\d{2}Z$/\<close>: a fixed sequence of character classes.\<close>

definition iso_utc :: "js_string \<Rightarrow> bool" where
  "iso_utc s \<longleftrightarrow>
     (let d = js_digit; is = (\<lambda>c x. x = c)
      in list_all2 (\<lambda>p x. p x)
           [d, d, d, d, is 0x2D, d, d, is 0x2D, d, d, is 0x54, d, d, is 0x3A, d, d, is 0x3A, d, d, is 0x5A] s)"

fun duplicate_issues :: "nat \<Rightarrow> js_string list \<Rightarrow> requirement list \<Rightarrow> (nat \<times> js_string) list" where
  "duplicate_issues n seen [] = []"
| "duplicate_issues n seen (r # rs) =
     (if requirementId r \<in> set seen then [(n, js ''duplicate requirementId: '' @ requirementId r)] else []) @
     duplicate_issues (Suc n) (requirementId r # seen) rs"

definition ruleSet_valid :: "rule_set \<Rightarrow> bool" where
  "ruleSet_valid rs \<longleftrightarrow>
     ruleSetId rs \<noteq> [] \<and> semver (version rs) \<and> iso_utc (effectiveFrom rs) \<and>
     jurisdictionProfile rs \<noteq> [] \<and> ruleGateId rs \<noteq> [] \<and> requirements rs \<noteq> [] \<and>
     list_all requirement_valid (requirements rs) \<and> duplicate_issues 0 [] (requirements rs) = []"

lemma duplicate_issues_Nil_iff:
  "duplicate_issues n seen rs = [] \<longleftrightarrow>
     distinct (map requirementId rs) \<and> set (map requirementId rs) \<inter> set seen = {}"
  by (induction rs arbitrary: n seen) auto

lemma valid_thresholds: "predicate_valid p \<Longrightarrow> integer_thresholds p"
  by (induction p) (auto simp: list_all_iff)

lemma valid_distinct: "ruleSet_valid rs \<Longrightarrow> distinct (map requirementId (requirements rs))"
  by (simp add: ruleSet_valid_def duplicate_issues_Nil_iff)

end
