(* ===== verification/Policy_Engine.thy ===== *)
theory Policy_Engine
  imports Rule_Schema Readiness
begin

text \<open>
  The policy engine (\<open>packages/policy/src/engine.ts\<close>): the evaluation of one requirement, with its
  early returns in the order of the source, the assessment of a rule set, and the canonical form
  whose hash commits to it. Evaluation may throw, from a predicate or from \<open>BigInt\<close>.
\<close>

section \<open>Inputs and results\<close>

record requirement_facts =
  presentClaimTypes :: "js_string list"
  presentGrade :: "grade option"
  presentAttestations :: "attestation_type list"
  evidenceAgeDays :: "js_string option"
  unresolvedConflictTypes :: "js_string list"
  staleEvidence :: "js_string list"
  context_facts :: facts

record assessment_input =
  subjectId :: js_string
  gateId :: js_string
  inputSnapshotHash :: js_string
  evaluatedAsOf :: js_string
  requirementFacts :: "js_string \<Rightarrow> requirement_facts option"

datatype requirement_reason_code =
    REQUIREMENT_SATISFIED | REQUIREMENT_NOT_APPLICABLE | MISSING_REQUIRED_CLAIM_TYPE |
    GRADE_BELOW_MINIMUM | MISSING_REQUIRED_ATTESTATION | EVIDENCE_STALE | BLOCKING_CONFLICT |
    NO_EVALUATION_BASIS | FACTS_NOT_SUPPLIED | WATCH_CONDITION_MET

record requirement_result =
  resultId :: js_string
  status :: readiness_status
  applicable :: bool
  reasonCode :: requirement_reason_code
  missing :: "js_string list"

record assessment =
  assessedSubjectId :: js_string
  assessedGateId :: js_string
  assessedRuleSetId :: js_string
  assessedRuleSetVersion :: js_string
  assessedSnapshotHash :: js_string
  assessedAsOf :: js_string
  assessmentStatus :: readiness_status
  requirementResults :: "requirement_result list"

datatype engine_error = Predicate_failed predicate_error | SyntaxError js_string

fun grade_string :: "grade \<Rightarrow> js_string" where
  "grade_string Gr_rejected = js ''rejected''"
| "grade_string Gr_unverified = js ''unverified''"
| "grade_string Gr_self_reported = js ''self_reported''"
| "grade_string Gr_partially_verified = js ''partially_verified''"
| "grade_string Gr_verified = js ''verified''"

fun attestation_type_string :: "attestation_type \<Rightarrow> js_string" where
  "attestation_type_string professional_signoff = js ''professional_signoff''"
| "attestation_type_string laboratory_accreditation = js ''laboratory_accreditation''"
| "attestation_type_string independent_assurance = js ''independent_assurance''"
| "attestation_type_string legal_notarization = js ''legal_notarization''"
| "attestation_type_string cryptographic_attestation = js ''cryptographic_attestation''"

section \<open>One requirement\<close>

definition eval_pred :: "predicate \<Rightarrow> facts \<Rightarrow> engine_error + bool" where
  "eval_pred p facts =
     (case evaluatePredicate p facts of Inl e \<Rightarrow> Inl (Predicate_failed e) | Inr b \<Rightarrow> Inr b)"

definition big_int :: "js_string \<Rightarrow> engine_error + int" where
  "big_int s = (case js_BigInt s of None \<Rightarrow> Inl (SyntaxError s) | Some v \<Rightarrow> Inr v)"

definition absentFacts :: "predicate \<Rightarrow> facts \<Rightarrow> js_string list" where
  "absentFacts p context = sort (filter (\<lambda>path. context path = None) (collectPredicatePaths p []))"

definition result_of ::
    "requirement \<Rightarrow> readiness_status \<Rightarrow> bool \<Rightarrow> requirement_reason_code \<Rightarrow> js_string list \<Rightarrow> requirement_result" where
  "result_of r s a code ms = \<lparr>resultId = requirementId r, status = s, applicable = a, reasonCode = code, missing = ms\<rparr>"

definition notEvaluableFor :: "requirement \<Rightarrow> js_string list \<Rightarrow> requirement_result" where
  "notEvaluableFor r paths =
     result_of r Rs_not_evaluable True NO_EVALUATION_BASIS
       (map (\<lambda>path. js ''fact:'' @ path) (sort (js_uniq paths)))"

definition hasMinimumGrade :: "requirement_facts \<Rightarrow> requirement \<Rightarrow> bool" where
  "hasMinimumGrade f r \<longleftrightarrow> (case presentGrade f of None \<Rightarrow> False | Some g \<Rightarrow> gradeAtLeast g (minimumGrade r))"

definition evaluateFreshness ::
    "requirement \<Rightarrow> requirement_facts \<Rightarrow> engine_error + requirement_result option" where
  "evaluateFreshness r f =
     (case freshnessThresholdDays r of
        None \<Rightarrow> Inr None
      | Some threshold \<Rightarrow>
          (case evidenceAgeDays f of
             None \<Rightarrow> Inr (Some (result_of r Rs_not_evaluable True NO_EVALUATION_BASIS [js ''evidence_age'']))
           | Some age \<Rightarrow>
               and_then (big_int age) (\<lambda>a. and_then (big_int threshold) (\<lambda>t.
                 if a > t
                 then Inr (Some (result_of r Rs_gap True EVIDENCE_STALE [js ''max_age_days:'' @ threshold]))
                 else Inr None))))"

definition watch_condition :: "requirement \<Rightarrow> requirement_facts \<Rightarrow> engine_error + bool" where
  "watch_condition r f =
     (case watchWhen r of None \<Rightarrow> Inr False | Some p \<Rightarrow> eval_pred p (context_facts f))"

text \<open>The part after the evidence checks: attestations, freshness, conflicts and the watch.\<close>

definition evaluate_review ::
    "requirement \<Rightarrow> requirement_facts \<Rightarrow> engine_error + requirement_result" where
  "evaluate_review r f =
     (let missingAttestations = filter (\<lambda>a. a \<notin> set (presentAttestations f)) (requiredAttestations r)
      in if length missingAttestations > 0
         then Inr (result_of r Rs_gap True MISSING_REQUIRED_ATTESTATION
                     (map attestation_type_string missingAttestations))
         else and_then (evaluateFreshness r f) (\<lambda>freshness.
           case freshness of
             Some result \<Rightarrow> Inr result
           | None \<Rightarrow>
               (let blockingConflicts =
                      filter (\<lambda>c. c \<in> set (blockingConflictTypes r)) (unresolvedConflictTypes f)
                in if length blockingConflicts > 0
                   then Inr (result_of r Rs_gap True BLOCKING_CONFLICT blockingConflicts)
                   else and_then (watch_condition r f) (\<lambda>watch.
                     if watch then Inr (result_of r Rs_watch True WATCH_CONDITION_MET [])
                     else Inr (result_of r Rs_ok True REQUIREMENT_SATISFIED [])))))"

definition evaluate_evidence ::
    "requirement \<Rightarrow> requirement_facts \<Rightarrow> engine_error + requirement_result" where
  "evaluate_evidence r f =
     (let missingClaimTypes = filter (\<lambda>t. t \<notin> set (presentClaimTypes f)) (requiredClaimTypes r);
          staleClaimTypes = filter (\<lambda>t. t \<in> set (requiredClaimTypes r)) (staleEvidence f)
      in if length missingClaimTypes > 0
         then Inr (result_of r Rs_gap True MISSING_REQUIRED_CLAIM_TYPE missingClaimTypes)
         else if length staleClaimTypes > 0
         then Inr (result_of r Rs_gap True EVIDENCE_STALE
                     (map (\<lambda>t. js ''stale:'' @ t) (sort (js_uniq staleClaimTypes))))
         else if \<not> hasMinimumGrade f r
         then Inr (result_of r Rs_gap True GRADE_BELOW_MINIMUM [grade_string (minimumGrade r)])
         else evaluate_review r f)"

definition evaluateRequirement ::
    "requirement \<Rightarrow> requirement_facts option \<Rightarrow> engine_error + requirement_result" where
  "evaluateRequirement r facts =
     (case facts of
        None \<Rightarrow> Inr (result_of r Rs_not_evaluable True FACTS_NOT_SUPPLIED [js ''requirement_facts''])
      | Some f \<Rightarrow>
          (let context = context_facts f;
               unknownApplicability = absentFacts (appliesWhen r) context;
               unknownBasis = absentFacts (notEvaluableWhen r) context @
                 (case watchWhen r of None \<Rightarrow> [] | Some p \<Rightarrow> absentFacts p context)
           in if length unknownApplicability > 0 then Inr (notEvaluableFor r unknownApplicability)
              else and_then (eval_pred (appliesWhen r) context) (\<lambda>applies.
                if \<not> applies then Inr (result_of r Rs_ok False REQUIREMENT_NOT_APPLICABLE [])
                else if length unknownBasis > 0 then Inr (notEvaluableFor r unknownBasis)
                else and_then (eval_pred (notEvaluableWhen r) context) (\<lambda>noBasis.
                  if noBasis
                  then Inr (notEvaluableFor r (collectPredicatePaths (notEvaluableWhen r) []))
                  else evaluate_evidence r f))))"

section \<open>The assessment of a rule set\<close>

definition applicable_statuses :: "requirement_result list \<Rightarrow> readiness_status list" where
  "applicable_statuses results = map status (filter applicable results)"

definition evaluateAssessment :: "rule_set \<Rightarrow> assessment_input \<Rightarrow> engine_error + assessment" where
  "evaluateAssessment rs input =
     and_then (traverse (\<lambda>r. evaluateRequirement r (requirementFacts input (requirementId r))) (requirements rs))
       (\<lambda>results.
          Inr \<lparr>assessedSubjectId = subjectId input, assessedGateId = gateId input,
               assessedRuleSetId = ruleSetId rs, assessedRuleSetVersion = version rs,
               assessedSnapshotHash = inputSnapshotHash input, assessedAsOf = evaluatedAsOf input,
               assessmentStatus = aggregateReadiness (applicable_statuses results),
               requirementResults = results\<rparr>)"

text \<open>
  The comparator orders results by identifier and the sort is stable, which is \<open>sort_key\<close>; the
  object that is hashed has the members of the assessment, so the record serves for it.
\<close>

definition toCanonical :: "assessment \<Rightarrow> assessment" where
  "toCanonical a =
     a\<lparr>requirementResults :=
        map (\<lambda>r. r\<lparr>missing := sort (missing r)\<rparr>) (sort_key resultId (requirementResults a))\<rparr>"

end
