(* ===== verification/Policy_Laws.thy ===== *)
theory Policy_Laws
  imports Policy_Engine
begin

text \<open>
  What the policy engine guarantees: what a predicate can depend on and when it cannot throw, when a
  requirement passes, when an assessment allows a go, and that the canonical form does not depend on
  the order of the rules.
\<close>

section \<open>Predicates\<close>

text \<open>
  A predicate is a function of the facts it names: facts that agree on the collected paths give
  the same answer, and when the thresholds are those the schema accepts and every recorded fact that
  is compared is an integer, there is an answer and no error.
\<close>

theorem predicate_footprint:
  assumes "predicate_valid p"
    and "\<forall>path \<in> set (collectPredicatePaths p []). f path = g path"
    and "\<forall>path \<in> compared_paths p. integer_fact f path"
  shows "\<exists>b. evaluatePredicate p f = Inr b \<and> evaluatePredicate p g = Inr b"
proof -
  have "evaluatePredicate p f = evaluatePredicate p g"
    using assms(2) by (intro evaluate_path_set) (simp add: set_collectPredicatePaths)
  moreover have "\<exists>b. evaluatePredicate p f = Inr b"
    using assms(1,3) by (intro evaluate_total valid_thresholds) auto
  ultimately show ?thesis by auto
qed

theorem predicate_footprint_witness:
  "let p = And [Exists (js ''stage''), Negated (Gte (js ''age'') (js ''30''))];
       f = (\<lambda>path. if path = js ''stage'' then Some (Scalar (js ''mine''))
                   else if path = js ''age'' then Some (Scalar (js ''12'')) else None)
   in evaluatePredicate p f = evaluatePredicate p (f(js ''other'' := Some (Array [])))"
proof -
  let ?p = "And [Exists (js ''stage''), Negated (Gte (js ''age'') (js ''30''))]"
  let ?f = "\<lambda>path. if path = js ''stage'' then Some (Scalar (js ''mine''))
                   else if path = js ''age'' then Some (Scalar (js ''12'')) else None"
  let ?g = "?f(js ''other'' := Some (Array []))"
  have v: "predicate_valid ?p"
    by (simp add: integer_literal_def plain_integer_def js_def js_digit_def)
  have agree: "\<forall>path \<in> set (collectPredicatePaths ?p []). ?f path = ?g path"
    by (simp add: set_collectPredicatePaths)
  have int: "\<forall>path \<in> compared_paths ?p. integer_fact ?f path"
    by (simp add: integer_fact_def) (simp add: integer_literal_def plain_integer_def js_def js_digit_def)
  show ?thesis
    unfolding Let_def using predicate_footprint [OF v agree int] by (elim exE conjE) (simp only:)
qed

section \<open>When a requirement passes\<close>

lemma absentFacts_Nil_iff: "absentFacts p c = [] \<longleftrightarrow> (\<forall>path \<in> path_set p. c path \<noteq> None)"
  by (auto simp: absentFacts_def filter_empty_conv set_collectPredicatePaths)

definition recorded :: "predicate \<Rightarrow> facts \<Rightarrow> bool" where
  "recorded p c \<longleftrightarrow> list_all (\<lambda>path. c path \<noteq> None) (collectPredicatePaths p [])"

lemma absentFacts_recorded: "absentFacts p c = [] \<longleftrightarrow> recorded p c"
  by (simp add: absentFacts_Nil_iff recorded_def list_all_iff set_collectPredicatePaths)

lemma eval_pred_Inr_iff: "eval_pred p c = Inr b \<longleftrightarrow> evaluatePredicate p c = Inr b"
  by (auto simp: eval_pred_def split: sum.splits)

definition fresh_enough :: "requirement \<Rightarrow> requirement_facts \<Rightarrow> bool" where
  "fresh_enough r f \<longleftrightarrow>
     (case freshnessThresholdDays r of
        None \<Rightarrow> True
      | Some t \<Rightarrow>
          (case evidenceAgeDays f of
             None \<Rightarrow> False
           | Some a \<Rightarrow> (\<exists>x y. js_BigInt a = Some x \<and> js_BigInt t = Some y \<and> x \<le> y)))"

lemma evaluateFreshness_None_iff: "evaluateFreshness r f = Inr None \<longleftrightarrow> fresh_enough r f"
proof (cases "freshnessThresholdDays r")
  case None
  then show ?thesis by (simp add: evaluateFreshness_def fresh_enough_def)
next
  case (Some t)
  show ?thesis
  proof (cases "evidenceAgeDays f")
    case None
    with Some show ?thesis by (simp add: evaluateFreshness_def fresh_enough_def)
  next
    case (Some a)
    with \<open>freshnessThresholdDays r = Some t\<close> show ?thesis
      by (cases "js_BigInt a"; cases "js_BigInt t")
        (simp_all add: evaluateFreshness_def fresh_enough_def big_int_def not_less)
  qed
qed

lemma evaluateFreshness_Some:
  "evaluateFreshness r f = Inr (Some result) \<Longrightarrow> applicable result \<and> isGoBlocking (status result)"
  by (auto simp: evaluateFreshness_def and_then_eq_Inr_iff result_of_def isGoBlocking_cases
      split: option.splits if_splits)

definition no_watch :: "requirement \<Rightarrow> facts \<Rightarrow> bool" where
  "no_watch r c \<longleftrightarrow> (case watchWhen r of None \<Rightarrow> True | Some p \<Rightarrow> evaluatePredicate p c = Inr False)"

lemma watch_condition_False_iff:
  "watch_condition r f = Inr False \<longleftrightarrow> no_watch r (context_facts f)"
  by (auto simp: watch_condition_def no_watch_def eval_pred_Inr_iff split: option.splits)

text \<open>A result of status ok that applies is a passed requirement.\<close>

definition passed :: "requirement_result \<Rightarrow> bool" where
  "passed result \<longleftrightarrow> status result = Rs_ok \<and> applicable result"

lemma passed_result_of: "passed (result_of r s a code ms) \<longleftrightarrow> s = Rs_ok \<and> a"
  by (simp add: passed_def result_of_def)

lemma evaluate_review_passed:
  "(\<exists>result. evaluate_review r f = Inr result \<and> passed result) \<longleftrightarrow>
     set (requiredAttestations r) \<subseteq> set (presentAttestations f) \<and> fresh_enough r f \<and>
     set (unresolvedConflictTypes f) \<inter> set (blockingConflictTypes r) = {} \<and>
     no_watch r (context_facts f)"
proof -
  have fresh: "(\<exists>result. and_then (evaluateFreshness r f) k = Inr result \<and> passed result) \<longleftrightarrow>
      fresh_enough r f \<and> (\<exists>result. k None = Inr result \<and> passed result)"
    if "\<And>x. k (Some x) = Inr x" for k
    unfolding evaluateFreshness_None_iff [symmetric]
  proof (cases "evaluateFreshness r f")
    case (Inr o')
    then show "(\<exists>result. and_then (evaluateFreshness r f) k = Inr result \<and> passed result) \<longleftrightarrow>
      evaluateFreshness r f = Inr None \<and> (\<exists>result. k None = Inr result \<and> passed result)"
      using evaluateFreshness_Some [of r f] that
      by (cases o') (auto simp: passed_def isGoBlocking_cases)
  qed simp
  have watch: "(\<exists>result. and_then (watch_condition r f) (\<lambda>watch.
        if watch then Inr (result_of r Rs_watch True WATCH_CONDITION_MET [])
        else Inr (result_of r Rs_ok True REQUIREMENT_SATISFIED [])) = Inr result \<and> passed result) \<longleftrightarrow>
      no_watch r (context_facts f)"
    unfolding watch_condition_False_iff [symmetric]
    by (cases "watch_condition r f") (auto simp: passed_result_of)
  show ?thesis
    unfolding evaluate_review_def Let_def
    by (auto simp: fresh watch passed_result_of filter_empty_conv)
qed

lemma evaluate_evidence_passed:
  "(\<exists>result. evaluate_evidence r f = Inr result \<and> passed result) \<longleftrightarrow>
     set (requiredClaimTypes r) \<subseteq> set (presentClaimTypes f) \<and>
     set (staleEvidence f) \<inter> set (requiredClaimTypes r) = {} \<and> hasMinimumGrade f r \<and>
     (\<exists>result. evaluate_review r f = Inr result \<and> passed result)"
  by (auto simp: evaluate_evidence_def Let_def passed_result_of filter_empty_conv)

lemma evaluateRequirement_passed:
  "(\<exists>result. evaluateRequirement r facts = Inr result \<and> passed result) \<longleftrightarrow>
     (\<exists>f. facts = Some f \<and> recorded (appliesWhen r) (context_facts f) \<and>
        evaluatePredicate (appliesWhen r) (context_facts f) = Inr True \<and>
        recorded (notEvaluableWhen r) (context_facts f) \<and>
        (case watchWhen r of None \<Rightarrow> True | Some p \<Rightarrow> recorded p (context_facts f)) \<and>
        evaluatePredicate (notEvaluableWhen r) (context_facts f) = Inr False \<and>
        (\<exists>result. evaluate_evidence r f = Inr result \<and> passed result))"
  (is "?L \<longleftrightarrow> ?R")
proof (cases facts)
  case None
  then show ?thesis by (simp add: evaluateRequirement_def passed_result_of)
next
  case (Some f)
  show ?thesis
    unfolding Some evaluateRequirement_def notEvaluableFor_def eval_pred_Inr_iff [symmetric]
      absentFacts_recorded [symmetric]
    by (cases "eval_pred (appliesWhen r) (context_facts f)";
        cases "eval_pred (notEvaluableWhen r) (context_facts f)"; cases "watchWhen r")
      (auto simp: Let_def passed_result_of)
qed

text \<open>
  C26. A requirement passes exactly when facts were supplied for it, every fact its predicates read
  is recorded, it applies, it has a basis, every required claim is present and none of them stale,
  the weakest grade reaches the minimum, every required attestation is present, the evidence is
  young enough, no blocking conflict is unresolved and no watch condition holds.
\<close>

theorem requirement_passes_iff:
  "(\<exists>result. evaluateRequirement r facts = Inr result \<and> status result = Rs_ok \<and> applicable result) \<longleftrightarrow>
     (\<exists>f. facts = Some f \<and>
        recorded (appliesWhen r) (context_facts f) \<and> recorded (notEvaluableWhen r) (context_facts f) \<and>
        evaluatePredicate (appliesWhen r) (context_facts f) = Inr True \<and>
        evaluatePredicate (notEvaluableWhen r) (context_facts f) = Inr False \<and>
        set (requiredClaimTypes r) \<subseteq> set (presentClaimTypes f) \<and>
        set (staleEvidence f) \<inter> set (requiredClaimTypes r) = {} \<and>
        (\<exists>g. presentGrade f = Some g \<and> minimumGrade r \<le> g) \<and>
        set (requiredAttestations r) \<subseteq> set (presentAttestations f) \<and>
        fresh_enough r f \<and>
        set (unresolvedConflictTypes f) \<inter> set (blockingConflictTypes r) = {} \<and>
        (watchWhen r = None \<or>
         (\<exists>p. watchWhen r = Some p \<and> recorded p (context_facts f) \<and>
              evaluatePredicate p (context_facts f) = Inr False)))"
proof -
  have grade: "hasMinimumGrade f r \<longleftrightarrow> (\<exists>g. presentGrade f = Some g \<and> minimumGrade r \<le> g)" for f
    by (auto simp: hasMinimumGrade_def gradeAtLeast_le split: option.splits)
  show ?thesis
    unfolding passed_def [symmetric] evaluateRequirement_passed evaluate_evidence_passed
      evaluate_review_passed grade no_watch_def
    by (cases "watchWhen r") auto
qed

section \<open>Assessments\<close>

lemma result_of_id [simp]: "resultId (result_of r s a code ms) = requirementId r"
  by (simp add: result_of_def)

lemma notEvaluableFor_id [simp]: "resultId (notEvaluableFor r paths) = requirementId r"
  by (simp add: notEvaluableFor_def)

lemma evaluateFreshness_id: "evaluateFreshness r f = Inr (Some result) \<Longrightarrow> resultId result = requirementId r"
  by (auto simp: evaluateFreshness_def and_then_eq_Inr_iff split: option.splits if_splits)

lemma evaluate_review_id: "evaluate_review r f = Inr result \<Longrightarrow> resultId result = requirementId r"
  unfolding evaluate_review_def Let_def
  by (auto simp: and_then_eq_Inr_iff dest: evaluateFreshness_id split: if_splits option.splits)

lemma evaluate_evidence_id: "evaluate_evidence r f = Inr result \<Longrightarrow> resultId result = requirementId r"
  unfolding evaluate_evidence_def Let_def by (auto dest: evaluate_review_id split: if_splits)

lemma result_id: "evaluateRequirement r facts = Inr result \<Longrightarrow> resultId result = requirementId r"
proof (cases facts)
  case (Some f)
  assume "evaluateRequirement r facts = Inr result"
  then show ?thesis
    unfolding Some evaluateRequirement_def Let_def
    by (auto simp: and_then_eq_Inr_iff dest: evaluate_evidence_id split: if_splits)
qed (auto simp: evaluateRequirement_def)

definition results_of :: "rule_set \<Rightarrow> assessment_input \<Rightarrow> engine_error + requirement_result list" where
  "results_of rs input =
     traverse (\<lambda>r. evaluateRequirement r (requirementFacts input (requirementId r))) (requirements rs)"

lemma evaluateAssessment_results:
  assumes "evaluateAssessment rs input = Inr a"
  shows "results_of rs input = Inr (requirementResults a) \<and>
    assessmentStatus a = aggregateReadiness (applicable_statuses (requirementResults a)) \<and>
    assessedRuleSetVersion a = version rs \<and> assessedSnapshotHash a = inputSnapshotHash input"
  using assms by (auto simp: evaluateAssessment_def results_of_def and_then_eq_Inr_iff)

lemma results_of_each:
  assumes "results_of rs input = Inr results"
  shows "list_all2 (\<lambda>r result. evaluateRequirement r (requirementFacts input (requirementId r)) = Inr result)
    (requirements rs) results"
  using assms by (simp add: results_of_def traverse_eq_Inr_iff)

lemma results_ids:
  assumes "results_of rs input = Inr results"
  shows "map resultId results = map requirementId (requirements rs)"
proof -
  have "list_all2 (\<lambda>r result. requirementId r = resultId result) (requirements rs) results"
    using results_of_each [OF assms] by (rule list_all2_mono) (simp add: result_id)
  then show ?thesis by (induction rule: list_all2_induct) auto
qed

text \<open>
  C27. An assessment lets a go through exactly when at least one requirement applies and every one
  that applies was evaluated to something other than a gap and not evaluable; the gate check on the
  applicable statuses then refuses every go that the assessment blocks, as long as some requirement
  applies.
\<close>

theorem assessment_blocks_exactly:
  assumes "evaluateAssessment rs input = Inr a"
  shows "(\<not> isGoBlocking (assessmentStatus a) \<longleftrightarrow>
      (\<exists>result \<in> set (requirementResults a). applicable result) \<and>
      (\<forall>result \<in> set (requirementResults a). applicable result \<longrightarrow> \<not> isGoBlocking (status result))) \<and>
    map resultId (requirementResults a) = map requirementId (requirements rs) \<and>
    (isGoBlocking (assessmentStatus a) \<and> decision g = Gd_go \<and>
       requirementStatuses g = applicable_statuses (requirementResults a) \<and> requirementStatuses g \<noteq> [] \<longrightarrow>
     checkGateDecision g \<noteq> Gate_allowed)"
proof (intro conjI impI)
  note facts = evaluateAssessment_results [OF assms]
  let ?ss = "applicable_statuses (requirementResults a)"
  show block: "\<not> isGoBlocking (assessmentStatus a) \<longleftrightarrow>
      (\<exists>result \<in> set (requirementResults a). applicable result) \<and>
      (\<forall>result \<in> set (requirementResults a). applicable result \<longrightarrow> \<not> isGoBlocking (status result))"
  proof (cases "?ss = []")
    case True
    then show ?thesis
      using facts by (auto simp: applicable_statuses_def filter_empty_conv readiness.agg_Nil isGoBlocking_cases)
  next
    case False
    with aggregate_not_blocking_iff [OF False] facts show ?thesis
      by (auto simp: applicable_statuses_def filter_empty_conv)
  qed
  show "map resultId (requirementResults a) = map requirementId (requirements rs)"
    using facts by (intro results_ids [where input = input]) simp
  assume go: "isGoBlocking (assessmentStatus a) \<and> decision g = Gd_go \<and>
       requirementStatuses g = ?ss \<and> requirementStatuses g \<noteq> []"
  then obtain s where s: "s \<in> set (requirementStatuses g)" "isGoBlocking s"
    using aggregate_not_blocking_iff [of ?ss] facts by auto
  have "indexesOf (requirementStatuses g) s \<noteq> []" using s(1) by simp
  with s go show "checkGateDecision g \<noteq> Gate_allowed"
    unfolding checkGateDecision_def isGoBlocking_cases by (auto simp: Let_def)
qed

text \<open>A rule with one requirement, for concrete runs.\<close>

definition sample_requirement :: "predicate \<Rightarrow> requirement" where
  "sample_requirement applies =
     \<lparr>requirementId = js ''r1'', requirementLabel = js ''Title'', appliesWhen = applies,
      requiredClaimTypes = [], minimumGrade = Gr_unverified, freshnessThresholdDays = None,
      requiredAttestations = [], blockingConflictTypes = [], notEvaluableWhen = Never, watchWhen = None\<rparr>"

definition sample_rule_set :: "requirement list \<Rightarrow> rule_set" where
  "sample_rule_set requirements' =
     \<lparr>ruleSetId = js ''rs'', version = js ''1.0.0'', effectiveFrom = js ''2026-01-01T00:00:00Z'',
      supersededBy = None, jurisdictionProfile = js ''MN'', ruleGateId = js ''g'', retroactive = False,
      requirements = requirements'\<rparr>"

definition sample_facts :: requirement_facts where
  "sample_facts =
     \<lparr>presentClaimTypes = [], presentGrade = Some Gr_verified, presentAttestations = [],
      evidenceAgeDays = None, unresolvedConflictTypes = [], staleEvidence = [], context_facts = (\<lambda>_. None)\<rparr>"

definition sample_input :: "requirement_facts option \<Rightarrow> assessment_input" where
  "sample_input facts =
     \<lparr>subjectId = js ''p'', gateId = js ''g'', inputSnapshotHash = js ''h'', evaluatedAsOf = js ''t'',
      requirementFacts = (\<lambda>_. facts)\<rparr>"

lemmas sample_defs =
  sample_requirement_def sample_rule_set_def sample_facts_def sample_input_def

lemmas engine_eval =
  evaluateAssessment_def evaluateRequirement_def evaluate_evidence_def evaluate_review_def
  evaluateFreshness_def watch_condition_def hasMinimumGrade_def absentFacts_def eval_pred_def
  result_of_def notEvaluableFor_def applicable_statuses_def aggregateReadiness_def gradeAtLeast_def
  js_uniq_def

theorem assessment_blocks_exactly_witness:
  "\<exists>a. evaluateAssessment (sample_rule_set [sample_requirement Always]) (sample_input (Some sample_facts)) = Inr a \<and>
       \<not> isGoBlocking (assessmentStatus a)"
proof -
  let ?rs = "sample_rule_set [sample_requirement Always]"
  obtain a where a: "evaluateAssessment ?rs (sample_input (Some sample_facts)) = Inr a"
    "\<forall>result \<in> set (requirementResults a). applicable result \<and> status result = Rs_ok" "requirementResults a \<noteq> []"
    by (simp add: engine_eval sample_defs Let_def)
  then show ?thesis
    using assessment_blocks_exactly [OF a(1), THEN conjunct1] by (auto simp: isGoBlocking_cases)
qed

text \<open>
  What the gate check does when no requirement applies: the assessment is not evaluable, which
  blocks a go, and the check on its (empty) applicable statuses lets the go through.
\<close>

lemma go_without_applicable_requirement:
  "\<exists>a g. evaluateAssessment (sample_rule_set [sample_requirement Never]) (sample_input (Some sample_facts)) = Inr a \<and>
     isGoBlocking (assessmentStatus a) \<and>
     requirementStatuses g = applicable_statuses (requirementResults a) \<and> hasAssessment g \<and>
     decision g = Gd_go \<and> checkGateDecision g = Gate_allowed"
proof -
  let ?g = "\<lparr>decision = Gd_go, requirementStatuses = [], hasAssessment = True, rationale = None, conditions = None\<rparr>"
  obtain a where a: "evaluateAssessment (sample_rule_set [sample_requirement Never]) (sample_input (Some sample_facts)) = Inr a"
    "assessmentStatus a = Rs_not_evaluable" "applicable_statuses (requirementResults a) = []"
    by (simp add: engine_eval sample_defs Let_def)
  have "checkGateDecision ?g = Gate_allowed" by (simp add: checkGateDecision_def Let_def indexesOf_def)
  with a show ?thesis by (intro exI [of _ a] exI [of _ ?g]) (simp add: isGoBlocking_cases)
qed

section \<open>The canonical form\<close>

lemma traverse_permutation:
  assumes "traverse f xs = Inr ys" and "mset xs = mset xs'"
  obtains ys' where "traverse f xs' = Inr ys'" "mset ys' = mset ys"
proof -
  define h where "h = (\<lambda>x. projr (f x))"
  have f: "f x = Inr (h x)" if "x \<in> set xs" for x
    using assms(1) that unfolding traverse_eq_Inr_iff
    by (induction rule: list_all2_induct) (auto simp: h_def)
  then have "traverse f xs = Inr (map h xs)" by (intro traverse_Inr_map)
  moreover have "traverse f xs' = Inr (map h xs')"
    using assms(2) f by (intro traverse_Inr_map) (metis set_mset_mset)
  ultimately show thesis using assms that by auto
qed

definition assessment_of :: "rule_set \<Rightarrow> assessment_input \<Rightarrow> requirement_result list \<Rightarrow> assessment" where
  "assessment_of rs input results =
     \<lparr>assessedSubjectId = subjectId input, assessedGateId = gateId input,
      assessedRuleSetId = ruleSetId rs, assessedRuleSetVersion = version rs,
      assessedSnapshotHash = inputSnapshotHash input, assessedAsOf = evaluatedAsOf input,
      assessmentStatus = aggregateReadiness (applicable_statuses results),
      requirementResults = results\<rparr>"

definition sample_other :: requirement where
  "sample_other = (sample_requirement Always)\<lparr>requirementId := js ''r0''\<rparr>"

text \<open>
  The canonical form of an assessment does not depend on the order in which a rule set lists
  its requirements: the same input under a reordered rule set is assessed too, with the same status,
  and the object whose hash commits to it is the same.
\<close>

theorem canonical_form_order_independent:
  assumes "evaluateAssessment rs input = Inr a" and "ruleSet_valid rs"
    and "mset (requirements rs) = mset reordered"
  shows "\<exists>a'. evaluateAssessment (rs\<lparr>requirements := reordered\<rparr>) input = Inr a' \<and>
    assessmentStatus a' = assessmentStatus a \<and> toCanonical a' = toCanonical a"
proof -
  let ?f = "\<lambda>r. evaluateRequirement r (requirementFacts input (requirementId r))"
  obtain results where res: "traverse ?f (requirements rs) = Inr results"
    using assms(1) by (auto simp: evaluateAssessment_def and_then_eq_Inr_iff)
  then have a: "a = assessment_of rs input results"
    using assms(1) by (simp add: evaluateAssessment_def assessment_of_def)
  from traverse_permutation [OF res assms(3)]
  obtain ys where ys: "traverse ?f reordered = Inr ys" "mset ys = mset results" by blast
  have set: "set ys = set results" using ys(2) by (rule mset_eq_setD)
  have "map resultId results = map requirementId (requirements rs)"
    using res by (intro results_ids [where input = input]) (simp add: results_of_def)
  then have inj: "inj_on resultId (set results)"
    using valid_distinct [OF assms(2)] by (metis distinct_map)
  have "set (applicable_statuses ys) = set (applicable_statuses results)"
    by (simp add: applicable_statuses_def set)
  then have status: "aggregateReadiness (applicable_statuses ys) = aggregateReadiness (applicable_statuses results)"
    by (rule readiness.agg_set_cong)
  have sorted: "sort_key resultId ys = sort_key resultId results"
    by (rule sort_key_inj_key_eq) (use inj set ys(2) in simp_all)
  have "evaluateAssessment (rs\<lparr>requirements := reordered\<rparr>) input = Inr (assessment_of rs input ys)"
    using ys(1) by (simp add: evaluateAssessment_def assessment_of_def)
  then show ?thesis
    unfolding a by (intro exI [of _ "assessment_of rs input ys"])
      (simp add: assessment_of_def status toCanonical_def sorted)
qed

theorem canonical_form_order_independent_witness:
  "\<exists>a. evaluateAssessment (sample_rule_set [sample_requirement Never, sample_other]) (sample_input (Some sample_facts)) = Inr a \<and>
     (\<exists>a'. evaluateAssessment (sample_rule_set [sample_other, sample_requirement Never])
             (sample_input (Some sample_facts)) = Inr a' \<and> toCanonical a' = toCanonical a)"
proof -
  let ?rs = "sample_rule_set [sample_requirement Never, sample_other]"
  obtain a where a: "evaluateAssessment ?rs (sample_input (Some sample_facts)) = Inr a"
    by (simp add: engine_eval sample_defs sample_other_def Let_def)
  have v: "ruleSet_valid ?rs"
    by (simp add: ruleSet_valid_def requirement_valid_def sample_defs sample_other_def semver_def
        after_dot_def before_dot_def digit_run_def iso_utc_def Let_def js_def js_digit_def)
  have m: "mset (requirements ?rs) = mset [sample_other, sample_requirement Never]"
    by (simp add: sample_rule_set_def)
  have "?rs\<lparr>requirements := [sample_other, sample_requirement Never]\<rparr> =
      sample_rule_set [sample_other, sample_requirement Never]"
    by (simp add: sample_rule_set_def)
  with canonical_form_order_independent [OF a v m] a show ?thesis by auto
qed

end
