(* ===== verification/Explain.thy ===== *)
theory Explain
  imports Policy_Laws "HOL-Library.Sublist"
begin

text \<open>
  The explanation of a requirement's result (\<open>packages/policy/src/explain.ts\<close>): its cause, the
  evidence it needs and the next action, read off the reason code and the missing items. The em dash
  of one message is the code unit \<open>0x2014\<close>.
\<close>

record requirement_explanation =
  cause :: js_string
  neededEvidence :: "js_string list"
  nextAction :: "js_string option"

definition strip :: "js_string \<Rightarrow> js_string list \<Rightarrow> js_string list" where
  "strip pre values = map (drop (length pre)) (filter (prefix pre) values)"

definition joined :: "js_string list \<Rightarrow> js_string" where
  "joined items = js_join (js '', '') items"

definition explain_stale :: "js_string list \<Rightarrow> requirement_explanation" where
  "explain_stale ms =
     (let stale = strip (js ''stale:'') ms; maxAge = strip (js ''max_age_days:'') ms in
        if length stale > 0
        then \<lparr>cause = js ''Evidence under these claims has gone stale: '' @ joined stale,
              neededEvidence = map (\<lambda>t. js ''current evidence for '' @ t) stale,
              nextAction = Some (js ''Collect a new source receipt for these claims and have them reviewed again'')\<rparr>
        else \<lparr>cause = js ''Evidence is older than the rule allows ('' @ joined maxAge @ js '' days)'',
              neededEvidence = map (\<lambda>d. js ''evidence dated within '' @ d @ js '' days'') maxAge,
              nextAction = Some (js ''Collect a newer source receipt within the rule's age limit'')\<rparr>)"

definition explain_no_basis :: "js_string list \<Rightarrow> requirement_explanation" where
  "explain_no_basis ms =
     (let facts = strip (js ''fact:'') ms in
        if length facts > 0
        then \<lparr>cause = js ''No recorded basis to judge this requirement: '' @ joined facts,
              neededEvidence = facts,
              nextAction = Some (js ''Record these facts for the project or its jurisdiction profile, then recompute readiness '' @
                [0x2014] @ js '' no default is assumed'')\<rparr>
        else \<lparr>cause = js ''The age of the evidence is unknown, so freshness cannot be judged'',
              neededEvidence = [js ''as-of date on the claims this requirement uses''],
              nextAction = Some (js ''Record the as-of date of the evidence on each claim, then recompute readiness'')\<rparr>)"

definition explainRequirementResult :: "requirement_result \<Rightarrow> requirement_explanation" where
  "explainRequirementResult result =
     (let ms = missing result in
      case reasonCode result of
        REQUIREMENT_SATISFIED \<Rightarrow>
          \<lparr>cause = js ''The requirement is met'', neededEvidence = [], nextAction = None\<rparr>
      | REQUIREMENT_NOT_APPLICABLE \<Rightarrow>
          \<lparr>cause = js ''The requirement does not apply to this project'', neededEvidence = [], nextAction = None\<rparr>
      | MISSING_REQUIRED_CLAIM_TYPE \<Rightarrow>
          \<lparr>cause = js ''Required claims are missing: '' @ joined ms, neededEvidence = ms,
           nextAction = Some (js ''Record the missing claims against a source receipt, then recompute readiness'')\<rparr>
      | GRADE_BELOW_MINIMUM \<Rightarrow>
          \<lparr>cause = js ''The weakest claim this requirement uses is below grade '' @ joined ms,
           neededEvidence = map (\<lambda>g. js ''claims graded at least '' @ g) ms,
           nextAction = Some (js ''Raise the weakest claim through source confirmation or review, or resolve what lowered it'')\<rparr>
      | MISSING_REQUIRED_ATTESTATION \<Rightarrow>
          \<lparr>cause = js ''Required attestations are missing or no longer valid: '' @ joined ms,
           neededEvidence = ms,
           nextAction = Some (js ''Assign a qualified reviewer and have the attestation signed over these claims'')\<rparr>
      | EVIDENCE_STALE \<Rightarrow> explain_stale ms
      | BLOCKING_CONFLICT \<Rightarrow>
          \<lparr>cause = js ''Unresolved conflicts block this requirement: '' @ joined ms,
           neededEvidence = map (\<lambda>c. js ''resolution of '' @ c) ms,
           nextAction = Some (js ''Resolve the conflicting claims with evidence, then recompute readiness'')\<rparr>
      | NO_EVALUATION_BASIS \<Rightarrow> explain_no_basis ms
      | FACTS_NOT_SUPPLIED \<Rightarrow>
          \<lparr>cause = js ''The assessment received no facts for this requirement'',
           neededEvidence = [js ''requirement facts''],
           nextAction = Some (js ''Recompute readiness; if it repeats, the input collection needs fixing'')\<rparr>
      | WATCH_CONDITION_MET \<Rightarrow>
          \<lparr>cause = js ''The requirement is met but a watch condition holds'', neededEvidence = [],
           nextAction = Some (js ''Going ahead needs a rationale and at least one condition to monitor'')\<rparr>)"

section \<open>What an explanation says of a result of the engine\<close>

lemma strip_map_prefix: "strip p (map (\<lambda>x. p @ x) xs) = xs"
  by (induction xs) (simp_all add: strip_def)

lemma strip_Nil [simp]: "strip p [] = []"
  by (simp add: strip_def)

lemma strip_other [simp]: "\<not> prefix p x \<Longrightarrow> strip p [x] = []"
  by (simp add: strip_def)

text \<open>A result of the engine that blocks names something to be done for it.\<close>

definition explained :: "requirement_result \<Rightarrow> bool" where
  "explained result \<longleftrightarrow>
     (isGoBlocking (status result) \<longrightarrow>
        neededEvidence (explainRequirementResult result) \<noteq> [] \<and>
        nextAction (explainRequirementResult result) \<noteq> None)"

lemma not_prefix_stale [simp]: "\<not> prefix (js ''stale:'') (js ''max_age_days:'' @ t)"
  by (simp add: js_def)

lemma max_age_step: "strip (js ''max_age_days:'') [js ''max_age_days:'' @ t] = [t]"
  by (simp add: strip_def)

lemma explained_no_basis:
  "neededEvidence (explain_no_basis ms) \<noteq> [] \<and> nextAction (explain_no_basis ms) \<noteq> None"
  by (simp add: explain_no_basis_def Let_def)

lemmas explain_simps = explained_def explainRequirementResult_def result_of_def isGoBlocking_cases Let_def

lemma explained_gap [simp]:
  "ms \<noteq> [] \<Longrightarrow> explained (result_of r st a MISSING_REQUIRED_CLAIM_TYPE ms)"
  "ms \<noteq> [] \<Longrightarrow> explained (result_of r st a MISSING_REQUIRED_ATTESTATION ms)"
  "ms \<noteq> [] \<Longrightarrow> explained (result_of r st a BLOCKING_CONFLICT ms)"
  "ms \<noteq> [] \<Longrightarrow> explained (result_of r st a GRADE_BELOW_MINIMUM ms)"
  "explained (result_of r st a FACTS_NOT_SUPPLIED ms)"
  by (simp_all add: explain_simps)

lemma explained_not_blocking [simp]:
  "explained (result_of r Rs_ok a code ms)" "explained (result_of r Rs_watch a code ms)"
  by (simp_all add: explained_def result_of_def isGoBlocking_cases)

lemma explained_no_basis_result [simp]: "explained (result_of r st a NO_EVALUATION_BASIS ms)"
  using explained_no_basis by (simp add: explained_def explainRequirementResult_def result_of_def)

lemma explained_age [simp]: "explained (result_of r st a EVIDENCE_STALE [js ''max_age_days:'' @ t])"
  by (simp add: explain_simps explain_stale_def max_age_step)

lemma explained_stale [simp]:
  "ts \<noteq> [] \<Longrightarrow> explained (result_of r st a EVIDENCE_STALE (map (\<lambda>t. js ''stale:'' @ t) ts))"
  by (simp add: explain_simps explain_stale_def strip_map_prefix)

lemma explained_notEvaluable [simp]: "explained (notEvaluableFor r paths)"
  by (simp add: notEvaluableFor_def)

lemma explained_freshness: "evaluateFreshness r f = Inr (Some result) \<Longrightarrow> explained result"
  by (auto simp: evaluateFreshness_def and_then_eq_Inr_iff split: option.splits if_splits)

lemma explained_review: "evaluate_review r f = Inr result \<Longrightarrow> explained result"
  unfolding evaluate_review_def Let_def
  by (auto simp: and_then_eq_Inr_iff dest: explained_freshness split: option.splits if_splits)

lemma explained_evidence: "evaluate_evidence r f = Inr result \<Longrightarrow> explained result"
  unfolding evaluate_evidence_def Let_def by (auto dest: explained_review split: if_splits)

text \<open>
  C28. A blocked requirement is never left unexplained: every result the engine gives with a status
  that blocks a go comes with evidence that is needed and a next action, and a passed requirement
  asks for nothing.
\<close>

theorem blocking_results_explained:
  assumes "evaluateRequirement r facts = Inr result"
  shows "(\<not> isGoBlocking (status result) \<or>
      neededEvidence (explainRequirementResult result) \<noteq> [] \<and>
      nextAction (explainRequirementResult result) \<noteq> None) \<and>
    (reasonCode result \<noteq> REQUIREMENT_SATISFIED \<or>
      neededEvidence (explainRequirementResult result) = [] \<and>
      nextAction (explainRequirementResult result) = None)"
proof -
  have "explained result"
  proof (cases facts)
    case None
    with assms show ?thesis by (auto simp: evaluateRequirement_def)
  next
    case (Some f)
    from assms show ?thesis
      unfolding Some evaluateRequirement_def Let_def
      by (auto simp: and_then_eq_Inr_iff dest: explained_evidence split: if_splits)
  qed
  moreover have "reasonCode result = REQUIREMENT_SATISFIED \<Longrightarrow>
      neededEvidence (explainRequirementResult result) = [] \<and>
      nextAction (explainRequirementResult result) = None"
    by (simp add: explainRequirementResult_def)
  ultimately show ?thesis unfolding explained_def by blast
qed

theorem blocking_results_explained_witness:
  "\<exists>result. evaluateRequirement (sample_requirement Always) None = Inr result \<and> isGoBlocking (status result) \<and>
     nextAction (explainRequirementResult result) \<noteq> None"
proof -
  obtain result where result: "evaluateRequirement (sample_requirement Always) None = Inr result"
    "isGoBlocking (status result)"
    by (simp add: evaluateRequirement_def result_of_def isGoBlocking_cases)
  with blocking_results_explained [OF result(1)] show ?thesis by blast
qed

text \<open>
  A rule whose basis condition names no fact (\<open>notEvaluableWhen\<close> is \<open>always\<close>) is explained as an unknown
  age of the evidence, which played no part in the result.
\<close>

lemma no_basis_explained_as_age:
  "evaluateRequirement ((sample_requirement Always)\<lparr>notEvaluableWhen := Always\<rparr>) (Some sample_facts) =
     Inr (notEvaluableFor (sample_requirement Always) []) \<and>
   cause (explainRequirementResult (notEvaluableFor (sample_requirement Always) [])) =
     js ''The age of the evidence is unknown, so freshness cannot be judged''"
  by (simp add: engine_eval sample_defs explainRequirementResult_def explain_no_basis_def Let_def)

end
