(* ===== verification/Hash.thy ===== *)
theory Hash
  imports Registry_Prelude
begin

text \<open>
  Hexadecimal and hashes (\<open>packages/canonical/src/hash.ts\<close>). Bytes are 8-bit words. \<open>keccak_256\<close> is not
  in the repository: it is an argument \<open>k\<close> of every definition that hashes, and what is proved uses
  only that it returns 32 bytes. Reading hexadecimal follows \<open>Number.parseInt(s, 16)\<close>, which skips
  leading white space, reads a sign and a \<open>0x\<close> prefix and stops at the first character that is no
  digit.
\<close>

type_synonym byte = "8 word"
type_synonym bytes = "byte list"
type_synonym hex = js_string

section \<open>Bytes to hexadecimal\<close>

text \<open>\<open>HEX_CHARS\<close> indexed by a nibble.\<close>

definition HEX_CHARS :: js_string where
  "HEX_CHARS = js ''0123456789abcdef''"

definition hex_byte :: "byte \<Rightarrow> js_string" where
  "hex_byte b = [HEX_CHARS ! unat (drop_bit 4 b), HEX_CHARS ! unat (and b 0x0F)]"

definition bytesToHex :: "bytes \<Rightarrow> hex" where
  "bytesToHex bs = js ''0x'' @ concat (map hex_byte bs)"

section \<open>Hexadecimal to bytes\<close>

definition hex_value :: "code_unit \<Rightarrow> nat option" where
  "hex_value c =
     (if 48 \<le> c \<and> c \<le> 57 then Some (unat c - 48)
      else if 97 \<le> c \<and> c \<le> 102 then Some (unat c - 87)
      else if 65 \<le> c \<and> c \<le> 70 then Some (unat c - 55)
      else None)"

definition is_hex :: "code_unit \<Rightarrow> bool" where
  "is_hex c \<longleftrightarrow> hex_value c \<noteq> None"

definition hex_number :: "js_string \<Rightarrow> nat" where
  "hex_number s = foldl (\<lambda>n c. 16 * n + (case hex_value c of Some d \<Rightarrow> d | None \<Rightarrow> 0)) 0 s"

definition parse_hex_digits :: "js_string \<Rightarrow> nat option" where
  "parse_hex_digits s =
     (let body = (case s of z # x # rest \<Rightarrow> if z = 48 \<and> (x = 0x78 \<or> x = 0x58) then rest else s | _ \<Rightarrow> s);
          digits = takeWhile is_hex body
      in if digits = [] then None else Some (hex_number digits))"

definition js_parseInt16 :: "js_string \<Rightarrow> int option" where
  "js_parseInt16 s =
     (case dropWhile js_whitespace s of
        [] \<Rightarrow> None
      | c # cs \<Rightarrow>
          if c = 0x2D then map_option (\<lambda>n. - int n) (parse_hex_digits cs)
          else if c = 0x2B then map_option int (parse_hex_digits cs)
          else map_option int (parse_hex_digits (c # cs)))"

datatype hex_error = Odd_hex_length js_string | Not_hex js_string

text \<open>The loop over pairs; an assignment to a \<open>Uint8Array\<close> keeps the value modulo 256.\<close>

fun hex_pairs :: "js_string \<Rightarrow> js_string \<Rightarrow> hex_error + bytes" where
  "hex_pairs original (a # b # rest) =
     (case js_parseInt16 [a, b] of
        None \<Rightarrow> Inl (Not_hex original)
      | Some v \<Rightarrow> and_then (hex_pairs original rest) (\<lambda>bs. Inr (word_of_int v # bs)))"
| "hex_pairs original _ = Inr []"

definition hexToBytes :: "js_string \<Rightarrow> hex_error + bytes" where
  "hexToBytes s =
     (let body = (if take 2 s = js ''0x'' then drop 2 s else s)
      in if length body mod 2 \<noteq> 0 then Inl (Odd_hex_length s) else hex_pairs s body)"

section \<open>Hashes\<close>

definition keccak256 :: "(bytes \<Rightarrow> bytes) \<Rightarrow> bytes \<Rightarrow> hex" where
  "keccak256 k input = bytesToHex (k input)"

text \<open>\<open>/^0x[0-9a-f]{64}$/\<close>.\<close>

definition lower_hex :: "code_unit \<Rightarrow> bool" where
  "lower_hex c \<longleftrightarrow> (48 \<le> c \<and> c \<le> 57) \<or> (97 \<le> c \<and> c \<le> 102)"

definition isBytes32 :: "js_string \<Rightarrow> bool" where
  "isBytes32 s \<longleftrightarrow> take 2 s = js ''0x'' \<and> length s = 66 \<and> list_all lower_hex (drop 2 s)"

definition assertBytes32 :: "js_string \<Rightarrow> js_string \<Rightarrow> js_string + unit" where
  "assertBytes32 value label =
     (if isBytes32 value then Inr () else Inl (label @ js '' must be 32-byte lowercase hex: '' @ value))"

section \<open>Round trips\<close>

lemma hex_char_code: "n < 16 \<Longrightarrow> HEX_CHARS ! n = (if n < 10 then 48 + of_nat n else 87 + of_nat n)"
proof -
  assume "n < 16"
  then have "n \<in> {0, 1, 2, 3, 4, 5, 6, 7, 8, 9, 10, 11, 12, 13, 14, 15}" unfolding insert_iff empty_iff by presburger
  then show ?thesis by (auto simp: HEX_CHARS_def js_def)
qed

lemma unat_hex_char: "n < 16 \<Longrightarrow> unat (HEX_CHARS ! n) = (if n < 10 then 48 + n else 87 + n)"
  by (simp add: hex_char_code unat_word_ariths unat_of_nat)

lemma hex_value_char: "n < 16 \<Longrightarrow> hex_value (HEX_CHARS ! n) = Some n"
  by (auto simp: hex_value_def word_le_nat_alt unat_hex_char)

lemma lower_hex_char: "n < 16 \<Longrightarrow> lower_hex (HEX_CHARS ! n)"
  by (auto simp: lower_hex_def word_le_nat_alt unat_hex_char)

lemma lower_hex_ex:
  assumes "lower_hex c" obtains n where "n < 16" "c = HEX_CHARS ! n"
proof -
  let ?n = "if unat c < 58 then unat c - 48 else unat c - 87"
  have n: "?n < 16" using assms by (auto simp: lower_hex_def word_le_nat_alt)
  have "unat c = unat (HEX_CHARS ! ?n)"
    using assms n unat_hex_char [OF n] by (auto simp: lower_hex_def word_le_nat_alt split: if_splits)
  then have "c = HEX_CHARS ! ?n" by (simp add: word_unat_eq_iff)
  with n that show thesis by blast
qed

lemma nibble_bounds: "unat (drop_bit 4 (b :: byte)) < 16" "unat (and b 0x0F :: byte) < 16"
proof -
  have "unat b < 256" using unsigned_less [of b, where ?'a = nat] by simp
  then show "unat (drop_bit 4 b) < 16" by (simp add: drop_bit_eq_div unat_div)
  have "unat (and b 0x0F) \<le> unat (0x0F :: byte)"
    by (simp only: word_le_nat_alt [symmetric] word_and_le1)
  then show "unat (and b 0x0F :: byte) < 16" by simp
qed

lemma nibbles_value: "16 * unat (drop_bit 4 (b :: byte)) + unat (and b 0x0F :: byte) = unat b"
proof -
  have m: "(0x0F :: byte) = mask 4" by (simp add: mask_eq_exp_minus_1)
  have "and b 0x0F = take_bit 4 b" unfolding m by (simp add: take_bit_eq_mask)
  then have "unat (and b 0x0F :: byte) = unat b mod 16"
    by (simp add: take_bit_eq_mod unat_mod)
  then show ?thesis by (simp add: drop_bit_eq_div unat_div)
qed

lemma hex_char_plain: "n < 16 \<Longrightarrow> \<not> js_whitespace (HEX_CHARS ! n) \<and> HEX_CHARS ! n \<noteq> 0x2D \<and>
    HEX_CHARS ! n \<noteq> 0x2B \<and> HEX_CHARS ! n \<noteq> 0x78 \<and> HEX_CHARS ! n \<noteq> 0x58"
  by (auto simp: js_whitespace_def word_le_nat_alt word_unat_eq_iff unat_hex_char)

lemma parseInt_hex_byte: "js_parseInt16 (hex_byte b) = Some (uint b)"
proof -
  let ?h = "unat (drop_bit 4 b)" and ?l = "unat (and b 0x0F :: byte)"
  note h = nibble_bounds [of b] hex_char_plain [of ?h] hex_char_plain [of ?l]
    hex_value_char [of ?h] hex_value_char [of ?l]
  have "js_parseInt16 (hex_byte b) = Some (int (16 * ?h + ?l))"
    using h by (simp add: hex_byte_def js_parseInt16_def parse_hex_digits_def Let_def is_hex_def hex_number_def)
  then show ?thesis by (simp only: nibbles_value uint_nat)
qed

lemma length_hex_byte [simp]: "length (hex_byte b) = 2"
  by (simp add: hex_byte_def)

lemma length_hex_bytes [simp]: "length (concat (map hex_byte bs)) = 2 * length bs"
  by (induction bs) simp_all

lemma hex_pairs_bytes: "hex_pairs s (concat (map hex_byte bs)) = Inr bs"
proof (induction bs)
  case (Cons b bs)
  have "hex_byte b = [HEX_CHARS ! unat (drop_bit 4 b), HEX_CHARS ! unat (and b 0x0F)]"
    by (simp add: hex_byte_def)
  with Cons parseInt_hex_byte [of b] show ?case by simp
qed simp

lemma hexToBytes_bytesToHex [simp]: "hexToBytes (bytesToHex bs) = Inr bs"
  by (simp add: hexToBytes_def bytesToHex_def Let_def js_def hex_pairs_bytes)

lemma bytesToHex_inject [simp]: "bytesToHex xs = bytesToHex ys \<longleftrightarrow> xs = ys"
  by (metis hexToBytes_bytesToHex sum.inject(2))

lemma lower_hex_bytes: "list_all lower_hex (concat (map hex_byte bs))"
  by (induction bs) (simp_all add: hex_byte_def lower_hex_char nibble_bounds)

lemma lower_hex_pairs:
  "list_all lower_hex s \<Longrightarrow> length s = 2 * n \<Longrightarrow> \<exists>bs. length bs = n \<and> s = concat (map hex_byte bs)"
proof (induction n arbitrary: s)
  case (Suc n)
  then obtain a b t where s: "s = a # b # t"
    by (cases s; cases "tl s") auto
  with Suc obtain bs where bs: "length bs = n" "t = concat (map hex_byte bs)" by auto
  have "lower_hex a" "lower_hex b" using Suc.prems s by simp_all
  then obtain i j where ij: "i < 16" "a = HEX_CHARS ! i" "j < 16" "b = HEX_CHARS ! j"
    by (auto elim!: lower_hex_ex)
  let ?b = "of_nat (16 * i + j) :: byte"
  have u: "unat ?b = 16 * i + j" unfolding unat_of_nat using ij by simp
  have high: "unat (drop_bit 4 ?b) = i"
    using nibbles_value [of ?b] nibble_bounds [of ?b] u ij by linarith
  then have "unat (and ?b 0x0F :: byte) = j"
    using nibbles_value [of ?b] u by linarith
  with high have "hex_byte ?b = [a, b]" using ij by (simp add: hex_byte_def)
  with bs s have "s = concat (map hex_byte (?b # bs)) \<and> length (?b # bs) = Suc n" by simp
  then show ?case by blast
qed simp

lemma isBytes32_iff: "isBytes32 s \<longleftrightarrow> (\<exists>bs. length bs = 32 \<and> s = bytesToHex bs)"
proof
  assume s: "isBytes32 s"
  then have "\<exists>bs. length bs = 32 \<and> drop 2 s = concat (map hex_byte bs)"
    by (intro lower_hex_pairs) (simp_all add: isBytes32_def)
  moreover have "s = js ''0x'' @ drop 2 s"
    using s unfolding isBytes32_def by (metis append_take_drop_id)
  ultimately show "\<exists>bs. length bs = 32 \<and> s = bytesToHex bs" by (auto simp: bytesToHex_def)
next
  assume "\<exists>bs. length bs = 32 \<and> s = bytesToHex bs"
  then show "isBytes32 s"
    using lower_hex_bytes by (auto simp: isBytes32_def bytesToHex_def js_def)
qed

text \<open>
  Hexadecimal round trip: every byte sequence is read back from its hexadecimal form, the form
  is injective, and the strings accepted as 32-byte values are exactly the forms of 32 bytes.
\<close>

theorem hex_roundtrip:
  "hexToBytes (bytesToHex bs) = Inr bs \<and>
   (bytesToHex bs = bytesToHex cs \<longleftrightarrow> bs = cs) \<and>
   (isBytes32 s \<longleftrightarrow> (\<exists>ds. length ds = 32 \<and> bytesToHex ds = s))"
  by (auto simp: isBytes32_iff)

text \<open>
  The error branch for a string that is not hexadecimal is only taken when the first character of a
  pair is no digit: a pair such as \<open>1g\<close> is read as its first digit.
\<close>

lemma malformed_pair_accepted: "hexToBytes (js ''0x1g'') = Inr [1]"
  by (simp add: hexToBytes_def js_parseInt16_def parse_hex_digits_def Let_def js_def is_hex_def
      hex_value_def hex_number_def js_whitespace_def)

end
