(* ===== verification/Jcs.thy ===== *)
theory Jcs
  imports Hash
begin

text \<open>
  Canonical serialization (\<open>packages/canonical/src/jcs.ts\<close>): JSON without numbers, keys sorted by
  UTF-16 code units, every other value refused with its JSON pointer. Arrays and objects are
  references into a store, because the circularity check compares identities; an array element may
  be a hole, which \<open>map\<close> keeps and \<open>join\<close> prints as nothing.
\<close>

section \<open>Values\<close>

datatype js_value =
    JNull
  | JBool bool
  | JString js_string
  | JNumber
  | JBigint
  | JUndefined
  | JFunction
  | JSymbol
  | JRef nat

text \<open>
  A plain object is its own enumerable string keys with their values; every other object (a date, a
  map, a class instance) is exotic. A reference outside the store, which no program has, is too.
\<close>

datatype js_object =
    JArray "js_value option list"
  | JRecord "(js_string \<times> js_value) list"
  | JExotic

type_synonym store = "js_object list"

definition deref :: "store \<Rightarrow> nat \<Rightarrow> js_object" where
  "deref heap i = (if i < length heap then heap ! i else JExotic)"

datatype canonical_code =
    E_CANONICAL_NUMBER_FORBIDDEN | E_CANONICAL_UNSUPPORTED_TYPE | E_CANONICAL_CIRCULAR |
    E_CANONICAL_LONE_SURROGATE | E_CANONICAL_NON_PLAIN_OBJECT

datatype canonical_error = CanonicalError (error_code: canonical_code) (error_path: js_string)

section \<open>Strings\<close>

definition high_surrogate :: "code_unit \<Rightarrow> bool" where
  "high_surrogate c \<longleftrightarrow> 0xD800 \<le> c \<and> c \<le> 0xDBFF"

definition low_surrogate :: "code_unit \<Rightarrow> bool" where
  "low_surrogate c \<longleftrightarrow> 0xDC00 \<le> c \<and> c \<le> 0xDFFF"

definition escape_unit :: "code_unit \<Rightarrow> js_string" where
  "escape_unit c =
     (if c = 0x08 then [0x5C, 0x62]
      else if c = 0x09 then [0x5C, 0x74]
      else if c = 0x0A then [0x5C, 0x6E]
      else if c = 0x0C then [0x5C, 0x66]
      else if c = 0x0D then [0x5C, 0x72]
      else if c = 0x22 then [0x5C, 0x22]
      else if c = 0x5C then [0x5C, 0x5C]
      else if c < 0x20
      then [0x5C, 0x75, 0x30, 0x30, HEX_CHARS ! (unat c div 16), HEX_CHARS ! (unat c mod 16)]
      else [c])"

fun serialize_units :: "js_string \<Rightarrow> js_string \<Rightarrow> canonical_error + js_string" where
  "serialize_units path [] = Inr []"
| "serialize_units path (c # cs) =
     (if high_surrogate c
      then (case cs of
              d # ds \<Rightarrow>
                if low_surrogate d then and_then (serialize_units path ds) (\<lambda>out. Inr (c # d # out))
                else Inl (CanonicalError E_CANONICAL_LONE_SURROGATE path)
            | [] \<Rightarrow> Inl (CanonicalError E_CANONICAL_LONE_SURROGATE path))
      else if low_surrogate c then Inl (CanonicalError E_CANONICAL_LONE_SURROGATE path)
      else and_then (serialize_units path cs) (\<lambda>out. Inr (escape_unit c @ out)))"

definition serializeString :: "js_string \<Rightarrow> js_string \<Rightarrow> canonical_error + js_string" where
  "serializeString s path = and_then (serialize_units path s) (\<lambda>out. Inr ([0x22] @ out @ [0x22]))"

section \<open>Values with identity\<close>

definition pointer_key :: "js_string \<Rightarrow> js_string" where
  "pointer_key key =
     concat (map (\<lambda>c. if c = 0x7E then js ''~0'' else if c = 0x2F then js ''~1'' else [c]) key)"

definition sortKeys :: "js_string list \<Rightarrow> js_string list" where
  "sortKeys keys = sort keys"

definition member :: "(js_string \<times> js_value) list \<Rightarrow> js_string \<Rightarrow> js_value" where
  "member fields key = (case map_of fields key of Some v \<Rightarrow> v | None \<Rightarrow> JUndefined)"

text \<open>Every nested call has one more reference of the store on its path.\<close>

lemma unseen_decreases:
  assumes "i \<notin> set seen" and "deref heap i \<noteq> JExotic"
  shows "card ({..< length heap} - set (i # seen)) < card ({..< length heap} - set seen)"
proof -
  have "i < length heap" using assms(2) by (auto simp: deref_def split: if_splits)
  with assms(1) show ?thesis by (intro psubset_card_mono) auto
qed

function serializeValue ::
    "store \<Rightarrow> js_value \<Rightarrow> js_string \<Rightarrow> nat list \<Rightarrow> canonical_error + js_string" where
  "serializeValue heap v path seen =
     (case v of
        JNull \<Rightarrow> Inr (js ''null'')
      | JString s \<Rightarrow> serializeString s path
      | JBool b \<Rightarrow> Inr (if b then js ''true'' else js ''false'')
      | JNumber \<Rightarrow> Inl (CanonicalError E_CANONICAL_NUMBER_FORBIDDEN path)
      | JBigint \<Rightarrow> Inl (CanonicalError E_CANONICAL_NUMBER_FORBIDDEN path)
      | JUndefined \<Rightarrow> Inl (CanonicalError E_CANONICAL_UNSUPPORTED_TYPE path)
      | JFunction \<Rightarrow> Inl (CanonicalError E_CANONICAL_UNSUPPORTED_TYPE path)
      | JSymbol \<Rightarrow> Inl (CanonicalError E_CANONICAL_UNSUPPORTED_TYPE path)
      | JRef i \<Rightarrow>
          if i \<in> set seen then Inl (CanonicalError E_CANONICAL_CIRCULAR path)
          else (case deref heap i of
              JArray items \<Rightarrow>
                and_then
                  (traverse
                    (\<lambda>(n, item). case item of
                       None \<Rightarrow> Inr []
                     | Some x \<Rightarrow> serializeValue heap x (path @ js ''/'' @ js_decimal n) (i # seen))
                    (zip [0 ..< length items] items))
                  (\<lambda>parts. Inr (js ''['' @ js_join (js '','') parts @ js '']''))
            | JRecord fields \<Rightarrow>
                and_then
                  (traverse
                    (\<lambda>key. and_then (serializeString key path) (\<lambda>encodedKey.
                       and_then (serializeValue heap (member fields key) (path @ js ''/'' @ pointer_key key) (i # seen))
                         (\<lambda>encodedValue. Inr (encodedKey @ js '':'' @ encodedValue))))
                    (sortKeys (map fst fields)))
                  (\<lambda>entries. Inr (js ''{'' @ js_join (js '','') entries @ js ''}''))
            | JExotic \<Rightarrow> Inl (CanonicalError E_CANONICAL_NON_PLAIN_OBJECT path)))"
  by pat_completeness auto

termination
  by (relation "measure (\<lambda>(heap, v, path, seen). card ({..< length heap} - set seen))")
    (auto intro!: unseen_decreases [simplified])

declare serializeValue.simps [simp del]

definition canonicalize :: "store \<Rightarrow> js_value \<Rightarrow> canonical_error + js_string" where
  "canonicalize heap v = serializeValue heap v [] []"

section \<open>UTF-8\<close>

text \<open>
  \<open>TextEncoder\<close>: the UTF-8 form of the code points of a string; a surrogate without its partner
  becomes the replacement character.
\<close>

definition utf8_point :: "nat \<Rightarrow> bytes" where
  "utf8_point n =
     (if n < 0x80 then [of_nat n]
      else if n < 0x800 then [of_nat (0xC0 + n div 64), of_nat (0x80 + n mod 64)]
      else if n < 0x10000
      then [of_nat (0xE0 + n div 4096), of_nat (0x80 + n div 64 mod 64), of_nat (0x80 + n mod 64)]
      else [of_nat (0xF0 + n div 262144), of_nat (0x80 + n div 4096 mod 64),
            of_nat (0x80 + n div 64 mod 64), of_nat (0x80 + n mod 64)])"

fun code_points :: "js_string \<Rightarrow> nat list" where
  "code_points [] = []"
| "code_points [c] = [if high_surrogate c \<or> low_surrogate c then 0xFFFD else unat c]"
| "code_points (c # d # cs) =
     (if high_surrogate c \<and> low_surrogate d
      then (0x10000 + (unat c - 0xD800) * 0x400 + (unat d - 0xDC00)) # code_points cs
      else (if high_surrogate c \<or> low_surrogate c then 0xFFFD else unat c) # code_points (d # cs))"

definition utf8_encode :: "js_string \<Rightarrow> bytes" where
  "utf8_encode s = concat (map utf8_point (code_points s))"

definition canonicalBytes :: "store \<Rightarrow> js_value \<Rightarrow> canonical_error + bytes" where
  "canonicalBytes heap v = and_then (canonicalize heap v) (\<lambda>s. Inr (utf8_encode s))"

end
