(* ===== verification/Jcs_Laws.thy ===== *)
theory Jcs_Laws
  imports Jcs
begin

text \<open>
  What canonical serialization guarantees. A value that serializes denotes a tree of strings,
  booleans and nulls, without identities and with sorted keys; the text is the rendering of that tree,
  rendering is injective, and so are the UTF-8 bytes of the texts that occur.
\<close>

section \<open>Prefix codes\<close>

text \<open>\<open>decodes f x\<close>: what follows the code of \<open>x\<close> cannot change which element it is the code of.\<close>

definition decodes :: "('a \<Rightarrow> 'c list) \<Rightarrow> 'a \<Rightarrow> bool" where
  "decodes f x \<longleftrightarrow> (\<forall>y r r'. f x @ r = f y @ r' \<longrightarrow> x = y \<and> r = r')"

lemma decodesD: "decodes f x \<Longrightarrow> f x @ r = f y @ r' \<Longrightarrow> x = y \<and> r = r'"
  by (auto simp: decodes_def)

lemma decodes_concat:
  assumes "\<And>x. x \<in> set xs \<Longrightarrow> decodes f x" and "\<And>y. f y \<noteq> []" and "\<And>y. hd (f y) \<noteq> e"
  shows "concat (map f xs) @ e # r = concat (map f ys) @ e # r' \<Longrightarrow> xs = ys \<and> r = r'"
  using assms(1)
proof (induction xs arbitrary: ys)
  case Nil
  then show ?case using assms(2,3)
    by (cases ys) (auto, (metis append_is_Nil_conv hd_append2 list.sel(1))+)
next
  case (Cons x xs)
  show ?case
  proof (cases ys)
    case Nil
    then show ?thesis using Cons.prems assms(2,3) by (auto, (metis hd_append2 list.sel(1))+)
  next
    case (Cons y ys')
    with Cons.prems(1) have "f x @ (concat (map f xs) @ e # r) = f y @ (concat (map f ys') @ e # r')" by simp
    moreover have "decodes f x" using Cons.prems(2) by simp
    ultimately have "x = y \<and> concat (map f xs) @ e # r = concat (map f ys') @ e # r'"
      by (blast dest: decodesD)
    with Cons.IH [of ys'] Cons.prems(2) Cons show ?thesis by simp
  qed
qed

lemma decodes_join:
  assumes "\<And>x. x \<in> set xs \<Longrightarrow> decodes f x" and "\<And>y. f y \<noteq> []" and "\<And>y. hd (f y) \<noteq> e"
    and "sep \<noteq> e"
  shows "js_join [sep] (map f xs) @ e # r = js_join [sep] (map f ys) @ e # r' \<Longrightarrow> xs = ys \<and> r = r'"
  using assms(1)
proof (induction xs arbitrary: ys)
  case Nil
  then show ?case using assms(2,3)
    by (cases ys rule: remdups_adj.cases) (auto, (metis append_is_Nil_conv hd_append2 list.sel(1))+)
next
  case (Cons x xs)
  define tail where "tail = (\<lambda>zs r. case zs of [] \<Rightarrow> e # r | _ \<Rightarrow> sep # js_join [sep] (map f zs) @ e # r)"
  have join: "js_join [sep] (map f (z # zs)) @ e # q = f z @ tail zs q" for z zs q
    by (cases zs) (simp_all add: tail_def)
  show ?case
  proof (cases ys)
    case Nil
    then show ?thesis
      using Cons.prems assms(2,3) by (simp only: join) (simp, metis hd_append2 list.sel(1))
  next
    case (Cons y ys')
    with Cons.prems(1) have "f x @ tail xs r = f y @ tail ys' r'" by (simp only: join)
    moreover have "decodes f x" using Cons.prems(2) by simp
    ultimately have x: "x = y" and t: "tail xs r = tail ys' r'" by (blast dest: decodesD)+
    have "xs = ys' \<and> r = r'"
    proof (cases "xs = [] \<or> ys' = []")
      case True
      with t assms(4) show ?thesis by (auto simp: tail_def split: list.splits)
    next
      case False
      with t have "js_join [sep] (map f xs) @ e # r = js_join [sep] (map f ys') @ e # r'"
        by (auto simp: tail_def split: list.splits)
      with Cons.IH [of ys'] Cons.prems(2) show ?thesis by simp
    qed
    with x Cons show ?thesis by simp
  qed
qed

section \<open>Strings\<close>

definition quote :: "js_string \<Rightarrow> js_string" where
  "quote s = 0x22 # concat (map escape_unit s) @ [0x22]"

lemma escape_unit_nonempty [simp]: "escape_unit c \<noteq> []"
  by (simp add: escape_unit_def)

lemma escape_unit_hd: "hd (escape_unit c) \<noteq> 0x22"
  by (simp add: escape_unit_def)

lemma hex_char_inj: "i < 16 \<Longrightarrow> j < 16 \<Longrightarrow> HEX_CHARS ! i = HEX_CHARS ! j \<Longrightarrow> i = j"
  by (metis hex_value_char option.inject)

text \<open>The two-character escapes and the unit each stands for.\<close>

definition short_escapes :: "(code_unit \<times> code_unit) list" where
  "short_escapes =
     [(0x08, 0x62), (0x09, 0x74), (0x0A, 0x6E), (0x0C, 0x66), (0x0D, 0x72), (0x22, 0x22), (0x5C, 0x5C)]"

lemma escape_unit_cases:
  obtains l where "escape_unit c = [0x5C, l]" "(c, l) \<in> set short_escapes"
  | i j where "escape_unit c = [0x5C, 0x75, 0x30, 0x30, HEX_CHARS ! i, HEX_CHARS ! j]" "i < 16" "j < 16"
      "unat c = 16 * i + j"
  | "escape_unit c = [c]" "c \<noteq> 0x5C"
proof (cases "\<exists>l. (c, l) \<in> set short_escapes")
  case True
  then show thesis using that(1) by (auto simp: short_escapes_def escape_unit_def)
next
  case False
  then have no: "c \<notin> {0x08, 0x09, 0x0A, 0x0C, 0x0D, 0x22, 0x5C}" by (auto simp: short_escapes_def)
  show thesis
  proof (cases "c < 0x20")
    case True
    then have "unat c div 16 < 16" "unat c mod 16 < 16" by (auto simp: word_less_nat_alt)
    with no True that(2) [of "unat c div 16" "unat c mod 16"] show thesis
      by (auto simp: escape_unit_def)
  next
    case False
    with no that(3) show thesis by (auto simp: escape_unit_def)
  qed
qed

lemma short_escape_letter: "(c, l) \<in> set short_escapes \<Longrightarrow> l \<noteq> 0x75"
  by (auto simp: short_escapes_def)

lemma short_escape_inj: "(c, l) \<in> set short_escapes \<Longrightarrow> (d, l) \<in> set short_escapes \<Longrightarrow> c = d"
  by (auto simp: short_escapes_def)

lemma unat_eqI: "unat (c :: code_unit) = 16 * i + j \<Longrightarrow> unat d = 16 * i + j \<Longrightarrow> c = d"
  by (simp add: word_unat_eq_iff)

lemma decodes_escape_unit: "decodes escape_unit c"
  unfolding decodes_def
proof (intro allI impI)
  fix d r r' assume e: "escape_unit c @ r = escape_unit d @ r'"
  show "c = d \<and> r = r'"
    by (rule escape_unit_cases [of c]; rule escape_unit_cases [of d])
      (use e in \<open>auto dest: short_escape_letter short_escape_inj hex_char_inj unat_eqI\<close>)
qed

lemma decodes_quote: "decodes quote s"
  unfolding decodes_def quote_def
  using decodes_concat [of s escape_unit "0x22"] decodes_escape_unit escape_unit_hd by auto

fun well_formed :: "js_string \<Rightarrow> bool" where
  "well_formed [] = True"
| "well_formed (c # cs) =
     (if high_surrogate c then (case cs of d # ds \<Rightarrow> low_surrogate d \<and> well_formed ds | [] \<Rightarrow> False)
      else \<not> low_surrogate c \<and> well_formed cs)"

lemma escape_surrogate: "high_surrogate c \<or> low_surrogate c \<Longrightarrow> escape_unit c = [c]"
  by (auto simp: high_surrogate_def low_surrogate_def escape_unit_def word_le_nat_alt word_less_nat_alt)

lemma serialize_units_iff:
  "serialize_units path s =
     (if well_formed s then Inr (concat (map escape_unit s))
      else Inl (CanonicalError E_CANONICAL_LONE_SURROGATE path))"
  by (induction s rule: well_formed.induct) (auto simp: escape_surrogate split: list.splits)

lemma serializeString_iff:
  "serializeString s path =
     (if well_formed s then Inr (quote s) else Inl (CanonicalError E_CANONICAL_LONE_SURROGATE path))"
  by (simp add: serializeString_def serialize_units_iff quote_def)

section \<open>Trees and their rendering\<close>

datatype canonical_tree =
    CNull
  | CBool bool
  | CString js_string
  | CArray "canonical_tree list"
  | CObject "(js_string \<times> canonical_tree) list"

fun render :: "canonical_tree \<Rightarrow> js_string" where
  "render CNull = js ''null''"
| "render (CBool b) = (if b then js ''true'' else js ''false'')"
| "render (CString s) = quote s"
| "render (CArray ts) = js ''['' @ js_join (js '','') (map render ts) @ js '']''"
| "render (CObject fs) =
     js ''{'' @ js_join (js '','') (map (\<lambda>(key, t). quote key @ js '':'' @ render t) fs) @ js ''}''"

definition render_member :: "js_string \<times> canonical_tree \<Rightarrow> js_string" where
  "render_member m = quote (fst m) @ js '':'' @ render (snd m)"

lemma render_object: "render (CObject fs) = js ''{'' @ js_join (js '','') (map render_member fs) @ js ''}''"
  by (simp add: render_member_def [abs_def] case_prod_unfold)

lemma js_chars: "js '','' = [0x2C]" "js '']'' = [0x5D]" "js ''}'' = [0x7D]" "js ''['' = [0x5B]"
  "js ''{'' = [0x7B]" "js '':'' = [0x3A]"
  by (simp_all add: js_def)

lemma render_hd: "render t \<noteq> [] \<and> hd (render t) =
    (case t of CNull \<Rightarrow> 0x6E | CBool b \<Rightarrow> if b then 0x74 else 0x66 | CString _ \<Rightarrow> 0x22
     | CArray _ \<Rightarrow> 0x5B | CObject _ \<Rightarrow> 0x7B)"
  by (cases t) (simp_all add: quote_def js_def)

lemma render_not_bracket: "hd (render t) \<noteq> 0x5D"
  using render_hd [of t] by (simp split: canonical_tree.split)

lemma render_member_shape: "render_member m \<noteq> [] \<and> hd (render_member m) \<noteq> 0x7D"
  by (simp add: render_member_def quote_def)

lemma render_kind:
  assumes "render t @ r = render u @ r'"
  shows "(case t of CNull \<Rightarrow> u = CNull | CBool b \<Rightarrow> u = CBool b | CString _ \<Rightarrow> (\<exists>s. u = CString s)
     | CArray _ \<Rightarrow> (\<exists>us. u = CArray us) | CObject _ \<Rightarrow> (\<exists>gs. u = CObject gs))"
proof -
  have "hd (render t) = hd (render u)"
    using assms render_hd [of t] render_hd [of u] by (metis hd_append2)
  then show ?thesis
    using render_hd [of t] render_hd [of u]
    by (cases t; cases u) (auto split: if_splits)
qed

lemma decodes_member:
  assumes "decodes render (snd m)" shows "decodes render_member m"
  unfolding decodes_def
proof (intro allI impI)
  fix n r r' assume "render_member m @ r = render_member n @ r'"
  then have "quote (fst m) @ (0x3A # render (snd m) @ r) = quote (fst n) @ (0x3A # render (snd n) @ r')"
    by (simp add: render_member_def js_chars)
  from decodesD [OF decodes_quote this]
  have k: "fst m = fst n" and "render (snd m) @ r = render (snd n) @ r'" by simp_all
  from decodesD [OF assms this(2)] k show "m = n \<and> r = r'" by (simp add: prod_eq_iff)
qed

lemma decodes_render: "decodes render t"
proof (induction t)
  case (CString s)
  show ?case unfolding decodes_def
  proof (intro allI impI)
    fix u r r' assume e: "render (CString s) @ r = render u @ r'"
    then obtain s' where u: "u = CString s'" using render_kind [OF e] by auto
    with e have "quote s @ r = quote s' @ r'" by simp
    from decodesD [OF decodes_quote this] u show "CString s = u \<and> r = r'" by simp
  qed
next
  case (CArray ts)
  show ?case unfolding decodes_def
  proof (intro allI impI)
    fix u r r' assume e: "render (CArray ts) @ r = render u @ r'"
    then obtain us where u: "u = CArray us" using render_kind [OF e] by auto
    have "ts = us \<and> r = r'"
      by (rule decodes_join [where f = render and sep = "0x2C" and e = "0x5D"])
        (use e u CArray render_hd render_not_bracket in \<open>auto simp: js_chars\<close>)
    with u show "CArray ts = u \<and> r = r'" by simp
  qed
next
  case (CObject fs)
  show ?case unfolding decodes_def
  proof (intro allI impI)
    fix u r r' assume e: "render (CObject fs) @ r = render u @ r'"
    then obtain gs where u: "u = CObject gs" using render_kind [OF e] by auto
    have members: "decodes render_member m" if "m \<in> set fs" for m
      by (rule decodes_member) (use CObject that in \<open>auto simp: snds.simps\<close>)
    have "fs = gs \<and> r = r'"
      by (rule decodes_join [where f = render_member and sep = "0x2C" and e = "0x7D"])
        (use e u members render_member_shape in \<open>simp_all only: render_object js_chars append.simps append_assoc list.inject\<close>, auto)
    with u show "CObject fs = u \<and> r = r'" by simp
  qed
next
  case CNull
  show ?case unfolding decodes_def
  proof (intro allI impI)
    fix u r r' assume e: "render CNull @ r = render u @ r'"
    with render_kind [OF e] show "CNull = u \<and> r = r'" by simp
  qed
next
  case (CBool b)
  show ?case unfolding decodes_def
  proof (intro allI impI)
    fix u r r' assume e: "render (CBool b) @ r = render u @ r'"
    with render_kind [OF e] show "CBool b = u \<and> r = r'" by simp
  qed
qed

lemma render_inject: "render t = render u \<longleftrightarrow> t = u"
  using decodesD [OF decodes_render, of t "[]" u "[]"] by auto

end
