(* ===== verification/Canonical_Value.thy ===== *)
theory Canonical_Value
  imports Jcs_Laws
begin

text \<open>
  The tree a value in a store denotes, and the theorems on canonical serialization that follow: the
  text is exactly the rendering of the tree, so it does not depend on identities or on the order of
  keys, and two values have the same bytes only if they denote the same tree.
\<close>

section \<open>The tree a value denotes\<close>

inductive denotes :: "store \<Rightarrow> nat set \<Rightarrow> js_value \<Rightarrow> canonical_tree \<Rightarrow> bool" for heap where
  null: "denotes heap seen JNull CNull"
| bool: "denotes heap seen (JBool b) (CBool b)"
| string: "well_formed s \<Longrightarrow> denotes heap seen (JString s) (CString s)"
| array: "i \<notin> seen \<Longrightarrow> deref heap i = JArray (map Some xs) \<Longrightarrow>
    list_all2 (\<lambda>x t. denotes heap (insert i seen) x t) xs ts \<Longrightarrow>
    denotes heap seen (JRef i) (CArray ts)"
| object: "i \<notin> seen \<Longrightarrow> deref heap i = JRecord fields \<Longrightarrow> \<forall>key \<in> set keys. well_formed key \<Longrightarrow>
    keys = sort (map fst fields) \<Longrightarrow>
    list_all2 (\<lambda>key t. denotes heap (insert i seen) (member fields key) t) keys ts \<Longrightarrow>
    denotes heap seen (JRef i) (CObject (zip keys ts))"

inductive_simps denotes_simps:
  "denotes heap seen JNull t" "denotes heap seen (JBool b) t" "denotes heap seen (JString s) t"
  "denotes heap seen JNumber t" "denotes heap seen JBigint t" "denotes heap seen JUndefined t"
  "denotes heap seen JFunction t" "denotes heap seen JSymbol t"

inductive_cases denotes_RefE: "denotes heap seen (JRef i) t"

text \<open>No array has a hole.\<close>

definition hole_free :: "store \<Rightarrow> bool" where
  "hole_free heap \<longleftrightarrow>
     list_all (\<lambda>ob. case ob of JArray items \<Rightarrow> None \<notin> set items | _ \<Rightarrow> True) heap"

lemma hole_free_array:
  assumes "hole_free heap" and "deref heap i = JArray items"
  obtains xs where "items = map Some xs"
proof -
  have "i < length heap" "heap ! i = JArray items" using assms(2) by (auto simp: deref_def split: if_splits)
  then have "JArray items \<in> set heap" by (metis nth_mem)
  with assms(1) have "None \<notin> set items" by (auto simp: hole_free_def list_all_iff)
  then have "items = map Some (map the items)" by (induction items) auto
  with that show thesis by blast
qed

lemma traverse_tagged:
  assumes "\<And>n x y. (n, x) \<in> set (zip idx xs) \<Longrightarrow> g (n, x) = Inr y \<longleftrightarrow> (\<exists>t. P x t \<and> y = f x t)"
    and "length idx = length xs"
  shows "traverse g (zip idx xs) = Inr ys \<longleftrightarrow>
    (\<exists>ts. list_all2 P xs ts \<and> ys = map (\<lambda>(x, t). f x t) (zip xs ts))"
  using assms(2,1)
proof (induction idx xs arbitrary: ys rule: list_induct2)
  case (Cons n idx x xs)
  have IH: "traverse g (zip idx xs) = Inr zs \<longleftrightarrow>
      (\<exists>ts. list_all2 P xs ts \<and> zs = map (\<lambda>(x, t). f x t) (zip xs ts))" for zs
    using Cons.prems by (intro Cons.IH) simp
  have hd: "g (n, x) = Inr y \<longleftrightarrow> (\<exists>t. P x t \<and> y = f x t)" for y
    using Cons.prems by simp
  have "traverse g (zip (n # idx) (x # xs)) = Inr ys \<longleftrightarrow>
      (\<exists>t ts. P x t \<and> list_all2 P xs ts \<and> ys = f x t # map (\<lambda>(x, t). f x t) (zip xs ts))"
    by (auto simp: and_then_eq_Inr_iff hd IH)
  also have "\<dots> \<longleftrightarrow> (\<exists>ts. list_all2 P (x # xs) ts \<and> ys = map (\<lambda>(x, t). f x t) (zip (x # xs) ts))"
  proof
    assume "\<exists>t ts. P x t \<and> list_all2 P xs ts \<and> ys = f x t # map (\<lambda>(x, t). f x t) (zip xs ts)"
    then obtain t ts where "P x t" "list_all2 P xs ts" "ys = f x t # map (\<lambda>(x, t). f x t) (zip xs ts)"
      by blast
    then show "\<exists>ts. list_all2 P (x # xs) ts \<and> ys = map (\<lambda>(x, t). f x t) (zip (x # xs) ts)"
      by (intro exI [of _ "t # ts"]) simp
  qed (auto simp: list_all2_Cons1; blast)
  finally show ?case .
qed auto

lemma traverse_plain:
  assumes "\<And>x y. x \<in> set xs \<Longrightarrow> g x = Inr y \<longleftrightarrow> (\<exists>t. P x t \<and> y = f x t)"
  shows "traverse g xs = Inr ys \<longleftrightarrow>
    (\<exists>ts. list_all2 P xs ts \<and> ys = map (\<lambda>(x, t). f x t) (zip xs ts))"
proof -
  have "traverse g xs = traverse (\<lambda>(x, y). g y) (zip xs xs)"
    by (induction xs) simp_all
  also have "\<dots> = Inr ys \<longleftrightarrow> (\<exists>ts. list_all2 P xs ts \<and> ys = map (\<lambda>(x, t). f x t) (zip xs ts))"
    by (rule traverse_tagged) (use assms in \<open>auto dest: set_zip_rightD\<close>)
  finally show ?thesis .
qed

lemma map_zip_snd: "list_all2 P xs ts \<Longrightarrow> map (\<lambda>(x, t). f t) (zip xs ts) = map f ts"
  by (induction rule: list_all2_induct) simp_all

section \<open>Serialization renders the tree\<close>

text \<open>What one call returns, given what the calls inside it return.\<close>

definition serializes :: "store \<Rightarrow> js_value \<Rightarrow> js_string \<Rightarrow> nat list \<Rightarrow> bool" where
  "serializes heap v path seen \<longleftrightarrow>
     (\<forall>s. serializeValue heap v path seen = Inr s \<longleftrightarrow> (\<exists>t. denotes heap (set seen) v t \<and> s = render t))"

lemma serializes_array:
  assumes i: "i \<notin> set seen" and items: "deref heap i = JArray (map Some xs)"
    and IH: "\<And>n x. (n, x) \<in> set (zip [0 ..< length xs] xs) \<Longrightarrow>
      serializes heap x (path @ js ''/'' @ js_decimal n) (i # seen)"
  shows "serializes heap (JRef i) path seen"
proof -
  let ?g = "\<lambda>(n, item). case item of None \<Rightarrow> Inr []
    | Some x \<Rightarrow> serializeValue heap x (path @ js ''/'' @ js_decimal n) (i # seen)"
  have zip: "zip [0 ..< length (map Some xs)] (map Some xs) = map (\<lambda>(n, x). (n, Some x)) (zip [0 ..< length xs] xs)"
    by (simp add: zip_map2)
  have trav: "traverse ?g (map (\<lambda>(n, x). (n, Some x)) zs) =
      traverse (\<lambda>(n, x). serializeValue heap x (path @ js ''/'' @ js_decimal n) (i # seen)) zs" for zs
    by (induction zs) auto
  have parts: "traverse ?g (zip [0 ..< length (map Some xs)] (map Some xs)) = Inr parts \<longleftrightarrow>
      (\<exists>ts. list_all2 (\<lambda>x t. denotes heap (insert i (set seen)) x t) xs ts \<and>
        parts = map (\<lambda>(x, t). render t) (zip xs ts))" for parts
    unfolding zip trav
    by (rule traverse_tagged) (use IH in \<open>auto simp: serializes_def\<close>)
  show ?thesis unfolding serializes_def
  proof
    fix s
    have "serializeValue heap (JRef i) path seen = Inr s \<longleftrightarrow>
        (\<exists>parts. traverse ?g (zip [0 ..< length (map Some xs)] (map Some xs)) = Inr parts \<and>
          s = js ''['' @ js_join (js '','') parts @ js '']'')"
      using i items by (subst serializeValue.simps) (auto simp: and_then_eq_Inr_iff)
    also have "\<dots> \<longleftrightarrow> (\<exists>ts. list_all2 (\<lambda>x t. denotes heap (insert i (set seen)) x t) xs ts \<and> s = render (CArray ts))"
      unfolding parts by (auto simp: map_zip_snd)
    also have "\<dots> \<longleftrightarrow> (\<exists>t. denotes heap (set seen) (JRef i) t \<and> s = render t)"
    proof
      assume "\<exists>t. denotes heap (set seen) (JRef i) t \<and> s = render t"
      then show "\<exists>ts. list_all2 (\<lambda>x t. denotes heap (insert i (set seen)) x t) xs ts \<and> s = render (CArray ts)"
        using items by (auto elim!: denotes_RefE dest: inj_map_eq_map)
    qed (use i items in \<open>blast intro: denotes.array\<close>)
    finally show "serializeValue heap (JRef i) path seen = Inr s \<longleftrightarrow> (\<exists>t. denotes heap (set seen) (JRef i) t \<and> s = render t)" .
  qed
qed

lemma serializes_object:
  assumes i: "i \<notin> set seen" and fields: "deref heap i = JRecord fields"
    and IH: "\<And>key. key \<in> set (sortKeys (map fst fields)) \<Longrightarrow>
      serializes heap (member fields key) (path @ js ''/'' @ pointer_key key) (i # seen)"
  shows "serializes heap (JRef i) path seen"
proof -
  let ?g = "\<lambda>key. and_then (serializeString key path) (\<lambda>encodedKey.
    and_then (serializeValue heap (member fields key) (path @ js ''/'' @ pointer_key key) (i # seen))
      (\<lambda>encodedValue. Inr (encodedKey @ js '':'' @ encodedValue)))"
  let ?P = "\<lambda>key t. well_formed key \<and> denotes heap (insert i (set seen)) (member fields key) t"
  let ?keys = "sort (map fst fields)"
  have parts: "traverse ?g ?keys = Inr parts \<longleftrightarrow>
      (\<exists>ts. list_all2 ?P ?keys ts \<and> parts = map (\<lambda>(key, t). quote key @ js '':'' @ render t) (zip ?keys ts))"
    for parts
    by (rule traverse_plain)
      (use IH in \<open>auto simp: serializes_def sortKeys_def and_then_eq_Inr_iff serializeString_iff\<close>)
  have split: "list_all2 ?P keys ts \<longleftrightarrow> (\<forall>key \<in> set keys. well_formed key) \<and>
      list_all2 (\<lambda>key t. denotes heap (insert i (set seen)) (member fields key) t) keys ts" for keys ts
    by (induction keys arbitrary: ts) (auto simp: list_all2_Cons1)
  show ?thesis unfolding serializes_def
  proof
    fix s
    have "serializeValue heap (JRef i) path seen = Inr s \<longleftrightarrow>
        (\<exists>parts. traverse ?g ?keys = Inr parts \<and> s = js ''{'' @ js_join (js '','') parts @ js ''}'')"
      using i fields by (subst serializeValue.simps) (auto simp: and_then_eq_Inr_iff sortKeys_def)
    also have "\<dots> \<longleftrightarrow> (\<exists>ts. list_all2 ?P ?keys ts \<and> s = render (CObject (zip ?keys ts)))"
      unfolding parts by auto
    also have "\<dots> \<longleftrightarrow> (\<exists>t. denotes heap (set seen) (JRef i) t \<and> s = render t)"
      unfolding split
    proof
      assume "\<exists>t. denotes heap (set seen) (JRef i) t \<and> s = render t"
      then show "\<exists>ts. ((\<forall>key \<in> set ?keys. well_formed key) \<and>
          list_all2 (\<lambda>key t. denotes heap (insert i (set seen)) (member fields key) t) ?keys ts) \<and>
          s = render (CObject (zip ?keys ts))"
        using fields by (auto elim!: denotes_RefE simp del: render.simps)
    qed (use i fields in \<open>blast intro: denotes.object\<close>)
    finally show "serializeValue heap (JRef i) path seen = Inr s \<longleftrightarrow> (\<exists>t. denotes heap (set seen) (JRef i) t \<and> s = render t)" .
  qed
qed

lemma serializes_refused:
  assumes "i \<in> set seen \<or> deref heap i = JExotic"
  shows "serializes heap (JRef i) path seen"
  unfolding serializes_def
  by (subst serializeValue.simps) (use assms in \<open>auto elim!: denotes_RefE\<close>)

lemma serializes_scalar:
  assumes "\<And>i. v \<noteq> JRef i" shows "serializes heap v path seen"
  unfolding serializes_def
  by (subst serializeValue.simps)
    (use assms in \<open>cases v; auto simp: denotes_simps serializeString_iff\<close>)

lemma serialize_denotes: "hole_free heap \<Longrightarrow> serializes heap v path seen"
proof (induction heap v path seen rule: serializeValue.induct)
  case (1 heap v path seen)
  show ?case
  proof (cases "\<exists>i. v = JRef i")
    case True
    then obtain i where v: "v = JRef i" by blast
    show ?thesis
    proof (cases "i \<in> set seen \<or> deref heap i = JExotic")
      case True
      then show ?thesis unfolding v by (rule serializes_refused)
    next
      case False
      then have i: "i \<notin> set seen" by simp
      show ?thesis
      proof (cases "deref heap i")
        case (JArray items)
        with "1.prems" obtain xs where xs: "items = map Some xs" by (rule hole_free_array)
        show ?thesis unfolding v
        proof (rule serializes_array [OF i JArray [unfolded xs]])
          fix n x assume "(n, x) \<in> set (zip [0 ..< length xs] xs)"
          then have "(n, Some x) \<in> set (zip [0 ..< length items] items)"
            by (auto simp: xs zip_map2 intro!: image_eqI)
          from "1.IH"(1) [OF v i JArray this refl _ "1.prems"]
          show "serializes heap x (path @ js ''/'' @ js_decimal n) (i # seen)" by blast
        qed
      next
        case (JRecord fields)
        show ?thesis unfolding v
        proof (rule serializes_object [OF i JRecord])
          fix key assume "key \<in> set (sortKeys (map fst fields))"
          from "1.IH"(2) [OF v i JRecord this "1.prems"]
          show "serializes heap (member fields key) (path @ js ''/'' @ pointer_key key) (i # seen)"
            by blast
        qed
      next
        case JExotic
        with False show ?thesis by simp
      qed
    qed
  next
    case False
    then show ?thesis by (intro serializes_scalar) blast
  qed
qed

section \<open>UTF-8 loses nothing\<close>

definition utf8_decode_point :: "bytes \<Rightarrow> nat \<times> bytes" where
  "utf8_decode_point bs =
     (let u = (\<lambda>i. unat (bs ! i)) in
        if u 0 < 0x80 then (u 0, drop 1 bs)
        else if u 0 < 0xE0 then ((u 0 - 0xC0) * 64 + (u 1 - 0x80), drop 2 bs)
        else if u 0 < 0xF0 then ((u 0 - 0xE0) * 4096 + (u 1 - 0x80) * 64 + (u 2 - 0x80), drop 3 bs)
        else ((u 0 - 0xF0) * 262144 + (u 1 - 0x80) * 4096 + (u 2 - 0x80) * 64 + (u 3 - 0x80), drop 4 bs))"

lemma byte_of_nat: "m < 256 \<Longrightarrow> unat (of_nat m :: byte) = m"
  by (simp add: unat_of_nat)

lemma decode_one: "a < 0x80 \<Longrightarrow> utf8_decode_point (of_nat a # r) = (a, r)"
  using byte_of_nat [of a] by (simp add: utf8_decode_point_def Let_def)

lemma decode_two:
  "a < 0x20 \<Longrightarrow> b < 64 \<Longrightarrow> utf8_decode_point (of_nat (0xC0 + a) # of_nat (0x80 + b) # r) = (a * 64 + b, r)"
  using byte_of_nat [of "0xC0 + a"] byte_of_nat [of "0x80 + b"]
  by (simp add: utf8_decode_point_def Let_def del: of_nat_add of_nat_numeral)

lemma decode_three:
  "a < 0x10 \<Longrightarrow> b < 64 \<Longrightarrow> c < 64 \<Longrightarrow>
     utf8_decode_point (of_nat (0xE0 + a) # of_nat (0x80 + b) # of_nat (0x80 + c) # r) = (a * 4096 + b * 64 + c, r)"
  using byte_of_nat [of "0xE0 + a"] byte_of_nat [of "0x80 + b"] byte_of_nat [of "0x80 + c"]
  by (simp add: utf8_decode_point_def Let_def del: of_nat_add of_nat_numeral)

lemma decode_four:
  "a < 0x10 \<Longrightarrow> b < 64 \<Longrightarrow> c < 64 \<Longrightarrow> d < 64 \<Longrightarrow>
     utf8_decode_point (of_nat (0xF0 + a) # of_nat (0x80 + b) # of_nat (0x80 + c) # of_nat (0x80 + d) # r) =
       (a * 262144 + b * 4096 + c * 64 + d, r)"
  using byte_of_nat [of "0xF0 + a"] byte_of_nat [of "0x80 + b"] byte_of_nat [of "0x80 + c"]
    byte_of_nat [of "0x80 + d"]
  by (simp add: utf8_decode_point_def Let_def del: of_nat_add of_nat_numeral)

lemma utf8_decode_point_encode:
  assumes "n < 0x110000" shows "utf8_decode_point (utf8_point n @ r) = (n, r)"
proof -
  have q: "n div 64 * 64 + n mod 64 = n" by simp
  have q2: "n div 4096 * 64 + n div 64 mod 64 = n div 64"
    using div_mult_mod_eq [of "n div 64" 64] by (simp add: div_mult2_eq [symmetric, of n])
  have q3: "n div 262144 * 64 + n div 4096 mod 64 = n div 4096"
    using div_mult_mod_eq [of "n div 4096" 64] by (simp add: div_mult2_eq [symmetric, of n])
  have parts: "n div 64 * 64 + n mod 64 = n"
    "n div 4096 * 4096 + n div 64 mod 64 * 64 + n mod 64 = n"
    "n div 262144 * 262144 + n div 4096 mod 64 * 4096 + n div 64 mod 64 * 64 + n mod 64 = n"
    using q q2 q3 by linarith+
  consider "n < 0x80" | "0x80 \<le> n" "n < 0x800" | "0x800 \<le> n" "n < 0x10000" | "0x10000 \<le> n"
    by linarith
  then show ?thesis
  proof cases
    case 1
    then show ?thesis by (simp add: utf8_point_def decode_one)
  next
    case 2
    then have "utf8_point n = [of_nat (0xC0 + n div 64), of_nat (0x80 + n mod 64)]" by (simp add: utf8_point_def)
    moreover have "n div 64 < 0x20" using 2 by linarith
    ultimately show ?thesis using decode_two [of "n div 64" "n mod 64" r] parts(1) by simp
  next
    case 3
    then have "utf8_point n = [of_nat (0xE0 + n div 4096), of_nat (0x80 + n div 64 mod 64), of_nat (0x80 + n mod 64)]"
      by (simp add: utf8_point_def)
    moreover have "n div 4096 < 0x10" using 3 by linarith
    ultimately show ?thesis using decode_three [of "n div 4096" "n div 64 mod 64" "n mod 64" r] parts(2) by simp
  next
    case 4
    then have "utf8_point n = [of_nat (0xF0 + n div 262144), of_nat (0x80 + n div 4096 mod 64),
        of_nat (0x80 + n div 64 mod 64), of_nat (0x80 + n mod 64)]"
      by (simp add: utf8_point_def)
    moreover have "n div 262144 < 0x10" using assms by linarith
    ultimately show ?thesis
      using decode_four [of "n div 262144" "n div 4096 mod 64" "n div 64 mod 64" "n mod 64" r] parts(3) by simp
  qed
qed

lemma utf8_point_nonempty [simp]: "utf8_point n \<noteq> []"
  by (simp add: utf8_point_def)

lemma utf8_point_step:
  assumes "x < 0x110000" and "y < 0x110000" and "utf8_point x @ r = utf8_point y @ r'"
  shows "x = y \<and> r = r'"
proof -
  have "utf8_decode_point (utf8_point x @ r) = utf8_decode_point (utf8_point y @ r')"
    using assms(3) by (rule arg_cong)
  then have "(x, r) = (y, r')" using assms(1,2) by (simp only: utf8_decode_point_encode)
  then show ?thesis by simp
qed

lemma utf8_points_inject:
  "(\<forall>n \<in> set xs. n < 0x110000) \<Longrightarrow> (\<forall>n \<in> set ys. n < 0x110000) \<Longrightarrow>
     concat (map utf8_point xs) = concat (map utf8_point ys) \<Longrightarrow> xs = ys"
proof (induction xs arbitrary: ys)
  case Nil
  then show ?case by (cases ys) simp_all
next
  case (Cons x xs)
  from Cons.prems(3) obtain y ys' where ys: "ys = y # ys'" by (cases ys) simp_all
  have "x = y \<and> concat (map utf8_point xs) = concat (map utf8_point ys')"
    by (rule utf8_point_step) (use Cons.prems ys in simp_all)
  moreover have "\<forall>n \<in> set xs. n < 0x110000" "\<forall>n \<in> set ys'. n < 0x110000"
    using Cons.prems ys by simp_all
  ultimately show ?case using Cons.IH [of ys'] ys by blast
qed

definition point_units :: "nat \<Rightarrow> js_string" where
  "point_units n =
     (if n < 0x10000 then [of_nat n]
      else [of_nat (0xD800 + (n - 0x10000) div 0x400), of_nat (0xDC00 + (n - 0x10000) mod 0x400)])"

lemma unit_bound: "unat (c :: code_unit) < 0x10000"
  using unsigned_less [of c, where ?'a = nat] by simp

lemma surrogate_pair:
  assumes "high_surrogate c" and "low_surrogate d"
  obtains h l where "unat c = 0xD800 + h" "unat d = 0xDC00 + l" "h < 0x400" "l < 0x400"
proof -
  have "0xD800 \<le> unat c" "unat c \<le> 0xDBFF" "0xDC00 \<le> unat d" "unat d \<le> 0xDFFF"
    using assms by (auto simp: high_surrogate_def low_surrogate_def word_le_nat_alt)
  with that [of "unat c - 0xD800" "unat d - 0xDC00"] show thesis by simp
qed

lemma unit_point: "(if b then 0xFFFD else unat (c :: code_unit)) < 0x110000"
  using unit_bound [of c] by simp

lemma code_points_bound: "\<forall>n \<in> set (code_points s). n < 0x110000"
proof (induction s rule: code_points.induct)
  case (2 c)
  then show ?case using unit_point [of _ c] by simp
next
  case (3 c d cs)
  show ?case
  proof (cases "high_surrogate c \<and> low_surrogate d")
    case True
    then obtain h l where "unat c = 0xD800 + h" "unat d = 0xDC00 + l" "h < 0x400" "l < 0x400"
      by (auto elim: surrogate_pair)
    with True 3 show ?thesis by simp
  next
    case False
    then have "code_points (c # d # cs) =
        (if high_surrogate c \<or> low_surrogate c then 0xFFFD else unat c) # code_points (d # cs)"
      by (simp only: code_points.simps if_False)
    then show ?thesis
      using unit_point [of "high_surrogate c \<or> low_surrogate c" c] "3.IH"(2) [OF False]
      by (simp only: list.set ball_simps simp_thms)
  qed
qed simp

lemma pair_units:
  assumes "high_surrogate c" and "low_surrogate d"
  shows "point_units (0x10000 + (unat c - 0xD800) * 0x400 + (unat d - 0xDC00)) = [c, d]"
proof -
  obtain h l where hl: "unat c = 0xD800 + h" "unat d = 0xDC00 + l" "h < 0x400" "l < 0x400"
    using assms by (rule surrogate_pair)
  have "(h * 0x400 + l) div 0x400 = h" "(h * 0x400 + l) mod 0x400 = l" using hl(4) by simp_all
  then have "point_units (0x10000 + h * 0x400 + l) = [of_nat (0xD800 + h), of_nat (0xDC00 + l)]"
    by (simp add: point_units_def del: of_nat_add of_nat_numeral)
  also have "\<dots> = [of_nat (unat c), of_nat (unat d)]" by (simp only: hl(1,2))
  also have "\<dots> = [c, d]" by simp
  finally show ?thesis using hl by simp
qed

lemma single_unit: "point_units (unat c) = [c]"
  using unit_bound [of c] by (simp add: point_units_def)

lemma units_code_points: "well_formed s \<Longrightarrow> concat (map point_units (code_points s)) = s"
proof (induction s rule: code_points.induct)
  case (2 c)
  then show ?case by (simp add: single_unit split: if_splits)
next
  case (3 c d cs)
  show ?case
  proof (cases "high_surrogate c")
    case True
    with 3 have "low_surrogate d" "concat (map point_units (code_points cs)) = cs" by simp_all
    with True show ?thesis using pair_units [of c d] by simp
  next
    case False
    with 3 show ?thesis by (simp add: single_unit)
  qed
qed simp

lemma utf8_encode_inject:
  "well_formed s \<Longrightarrow> well_formed t \<Longrightarrow> utf8_encode s = utf8_encode t \<longleftrightarrow> s = t"
  by (metis utf8_encode_def utf8_points_inject code_points_bound units_code_points)

end
