(* ===== verification/Canonical_Laws.thy ===== *)
theory Canonical_Laws
  imports Canonical_Value
begin

text \<open>
  The theorems on canonical serialization: the bytes determine the value, and what must not be
  anchored (numbers, cycles, values without a JSON form) never serializes, however deep it lies.
\<close>

section \<open>The text of a tree is well-formed UTF-16\<close>

lemma well_formed_append: "well_formed s \<Longrightarrow> well_formed t \<Longrightarrow> well_formed (s @ t)"
  by (induction s rule: well_formed.induct) (auto split: list.splits)

lemma well_formed_ascii: "list_all (\<lambda>c. c < 0x80) s \<Longrightarrow> well_formed s"
proof (induction s)
  case (Cons c s)
  then have "\<not> high_surrogate c" "\<not> low_surrogate c"
    by (auto simp: high_surrogate_def low_surrogate_def word_le_nat_alt word_less_nat_alt)
  with Cons show ?case by simp
qed simp

lemma hex_char_ascii: "n < 16 \<Longrightarrow> HEX_CHARS ! n < 0x80"
  by (simp add: word_less_nat_alt unat_hex_char)

lemma well_formed_escape_unit:
  assumes "\<not> high_surrogate c" and "\<not> low_surrogate c" shows "well_formed (escape_unit c)"
proof (rule escape_unit_cases [of c])
  fix l assume "escape_unit c = [0x5C, l]" "(c, l) \<in> set short_escapes"
  then show ?thesis by (intro well_formed_ascii) (auto simp: short_escapes_def)
next
  fix i j assume "escape_unit c = [0x5C, 0x75, 0x30, 0x30, HEX_CHARS ! i, HEX_CHARS ! j]" "i < 16" "j < 16"
  then show ?thesis by (intro well_formed_ascii) (simp add: hex_char_ascii)
qed (use assms in simp)

lemma well_formed_escape: "well_formed s \<Longrightarrow> well_formed (concat (map escape_unit s))"
proof (induction s rule: well_formed.induct)
  case (2 c cs)
  show ?case
  proof (cases "high_surrogate c")
    case True
    with 2 obtain d ds where "cs = d # ds" "low_surrogate d" "well_formed (concat (map escape_unit ds))"
      by (auto split: list.splits)
    with True show ?thesis by (simp add: escape_surrogate)
  next
    case False
    with 2 show ?thesis by (auto intro: well_formed_append well_formed_escape_unit)
  qed
qed simp

lemma well_formed_quote: "well_formed s \<Longrightarrow> well_formed (quote s)"
proof -
  assume "well_formed s"
  then have "well_formed ([0x22] @ concat (map escape_unit s) @ [0x22])"
    by (intro well_formed_append well_formed_escape) (simp_all add: high_surrogate_def low_surrogate_def)
  then show ?thesis by (simp add: quote_def)
qed

fun wf_tree :: "canonical_tree \<Rightarrow> bool" where
  "wf_tree (CString s) = well_formed s"
| "wf_tree (CArray ts) = list_all wf_tree ts"
| "wf_tree (CObject fs) = list_all (\<lambda>(key, t). well_formed key \<and> wf_tree t) fs"
| "wf_tree _ = True"

lemma well_formed_join:
  "well_formed sep \<Longrightarrow> list_all well_formed xs \<Longrightarrow> well_formed (js_join sep xs)"
  by (induction sep xs rule: js_join.induct) (auto intro!: well_formed_append)

lemma well_formed_literals:
  "well_formed (js ''null'')" "well_formed (js ''true'')" "well_formed (js ''false'')"
  "well_formed (js ''['')" "well_formed (js '']'')" "well_formed (js ''{'')" "well_formed (js ''}'')"
  "well_formed (js '','')" "well_formed (js '':'')"
  by (rule well_formed_ascii; simp add: js_def)+

lemma well_formed_render: "wf_tree t \<Longrightarrow> well_formed (render t)"
proof (induction t)
  case (CArray ts)
  then show ?case
    by (auto simp: list_all_iff intro!: well_formed_append well_formed_join well_formed_literals)
next
  case (CObject fs)
  have "well_formed (render_member m)" if "m \<in> set fs" for m
  proof -
    have "well_formed (render (snd m))"
      using CObject.IH [of m "snd m"] CObject.prems that by (auto simp: list_all_iff snds.simps)
    with CObject.prems that show ?thesis
      unfolding render_member_def
      by (auto simp: list_all_iff intro!: well_formed_append well_formed_quote well_formed_literals)
  qed
  then show ?case unfolding render_object
    by (auto simp: list_all_iff intro!: well_formed_append well_formed_join well_formed_literals)
qed (auto intro: well_formed_literals well_formed_quote)

lemma denotes_wf: "denotes heap seen v t \<Longrightarrow> wf_tree t"
proof (induction rule: denotes.induct)
  case (array i seen xs ts)
  then show ?case by (auto simp: list_all_iff list_all2_conv_all_nth set_conv_nth)
next
  case (object i seen fields keys ts)
  have "\<forall>(key, t) \<in> set (zip keys ts). wf_tree t"
    using object.IH by (auto simp: list_all2_iff)
  with object.hyps(3) show ?case by (auto simp: list_all_iff dest: set_zip_leftD)
qed auto

section \<open>Denotations\<close>

lemma canonicalize_iff:
  assumes "hole_free heap"
  shows "canonicalize heap v = Inr s \<longleftrightarrow> (\<exists>t. denotes heap {} v t \<and> s = render t)"
  using serialize_denotes [OF assms, of v "[]" "[]"] by (simp add: canonicalize_def serializes_def)

lemma denotes_unique:
  assumes "hole_free heap" and "denotes heap {} v t" and "denotes heap {} v u" shows "t = u"
proof -
  have "canonicalize heap v = Inr (render t)" "canonicalize heap v = Inr (render u)"
    using assms by (auto simp: canonicalize_iff)
  then show ?thesis by (simp add: render_inject)
qed

lemma canonical_injective:
  assumes "hole_free heap" and "hole_free heap'"
    and "canonicalBytes heap v = Inr b" and "canonicalBytes heap' v' = Inr b'"
  shows "(\<exists>!t. denotes heap {} v t) \<and>
    (b = b' \<longleftrightarrow> (\<exists>t. denotes heap {} v t \<and> denotes heap' {} v' t))"
proof -
  from assms(3) obtain t where t: "denotes heap {} v t" "b = utf8_encode (render t)"
    by (auto simp: canonicalBytes_def and_then_eq_Inr_iff canonicalize_iff [OF assms(1)])
  from assms(4) obtain t' where t': "denotes heap' {} v' t'" "b' = utf8_encode (render t')"
    by (auto simp: canonicalBytes_def and_then_eq_Inr_iff canonicalize_iff [OF assms(2)])
  have "b = b' \<longleftrightarrow> t = t'"
    using t(2) t'(2) denotes_wf [OF t(1)] denotes_wf [OF t'(1)]
    by (simp add: utf8_encode_inject well_formed_render render_inject)
  then show ?thesis
    using t(1) t'(1) denotes_unique [OF assms(1) t(1)] denotes_unique [OF assms(2) t'(1)] by blast
qed

text \<open>
  C21. Canonical bytes commit to the value: two values serialize to the same bytes exactly when they
  denote the same tree, so neither identities nor the order of keys matter and nothing else is lost.
  The stores hold no array with a hole.
\<close>

theorem canonical_bytes_injective:
  assumes "hole_free heap" and "hole_free heap'"
    and "canonicalBytes heap v = Inr b" and "canonicalBytes heap' v' = Inr b'"
  shows "(\<exists>!t. denotes heap {} v t) \<and>
    (b = b' \<longleftrightarrow> (\<exists>t. denotes heap {} v t \<and> denotes heap' {} v' t))"
  using assms by (rule canonical_injective)

section \<open>Refusals\<close>

inductive inside :: "store \<Rightarrow> js_value \<Rightarrow> js_value \<Rightarrow> bool" for heap where
  element: "deref heap i = JArray items \<Longrightarrow> Some x \<in> set items \<Longrightarrow> inside heap (JRef i) x"
| field: "deref heap i = JRecord fields \<Longrightarrow> key \<in> fst ` set fields \<Longrightarrow> inside heap (JRef i) (member fields key)"

lemma denotes_mono: "denotes heap seen v t \<Longrightarrow> seen' \<subseteq> seen \<Longrightarrow> denotes heap seen' v t"
proof (induction arbitrary: seen' rule: denotes.induct)
  case (array i seen xs ts)
  have "list_all2 (\<lambda>x t. denotes heap (insert i seen') x t) xs ts"
    using array.IH by (rule list_all2_mono) (use array.prems in blast)
  with array show ?case by (blast intro: denotes.array)
next
  case (object i seen fields keys ts)
  have "list_all2 (\<lambda>key t. denotes heap (insert i seen') (member fields key) t) keys ts"
    using object.IH by (rule list_all2_mono) (use object.prems in blast)
  with object show ?case by (blast intro: denotes.object)
qed (auto intro: denotes.intros)

lemma size_in_array: "t \<in> set ts \<Longrightarrow> size t < size (CArray ts)"
  by (induction ts) auto

lemma size_in_object: "(key, t) \<in> set fs \<Longrightarrow> size t < size (CObject fs)"
  by (induction fs) auto

lemma list_all2_source: "list_all2 P xs ys \<Longrightarrow> x \<in> set xs \<Longrightarrow> \<exists>y. (x, y) \<in> set (zip xs ys) \<and> P x y"
  by (induction rule: list_all2_induct) auto

lemma denotes_inside:
  assumes "denotes heap {} v t" and "inside heap v w"
  shows "\<exists>u. denotes heap {} w u \<and> size u < size t"
  using assms(2,1)
proof cases
  case (element i items)
  with assms(1) obtain xs ts where ts: "items = map Some xs" "t = CArray ts"
    "list_all2 (\<lambda>x t. denotes heap (insert i {}) x t) xs ts" by (auto elim!: denotes_RefE)
  with element(3) have "w \<in> set xs" by auto
  from list_all2_source [OF ts(3) this] obtain u where "(w, u) \<in> set (zip xs ts)" "denotes heap {i} w u" by auto
  then have "denotes heap {} w u" "size u < size t"
    using ts(2) by (auto intro: denotes_mono size_in_array [simplified] dest: set_zip_rightD)
  then show ?thesis by blast
next
  case (field i fields key)
  with assms(1) obtain ts where ts: "t = CObject (zip (sort (map fst fields)) ts)"
    "list_all2 (\<lambda>key t. denotes heap (insert i {}) (member fields key) t) (sort (map fst fields)) ts"
    by (auto elim!: denotes_RefE)
  have "key \<in> set (sort (map fst fields))" using field(4) by simp
  from list_all2_source [OF ts(2) this] obtain u
    where u: "(key, u) \<in> set (zip (sort (map fst fields)) ts)" "denotes heap {i} (member fields key) u" by auto
  then have "denotes heap {} w u" using field(2) by (auto intro: denotes_mono)
  moreover have "size u < size t" unfolding ts(1) using u(1) by (rule size_in_object)
  ultimately show ?thesis by blast
qed

lemma denotes_inside_plus:
  "(inside heap)\<^sup>+\<^sup>+ v w \<Longrightarrow> denotes heap {} v t \<Longrightarrow> \<exists>u. denotes heap {} w u \<and> size u < size t"
proof (induction rule: tranclp_induct)
  case (base w)
  then show ?case by (rule denotes_inside [rotated])
next
  case (step w x)
  then obtain u where "denotes heap {} w u" "size u < size t" by blast
  with denotes_inside [of heap w u x] step.hyps(2) show ?case by (meson order.strict_trans)
qed

text \<open>
  What must not be anchored never serializes: if a value has a canonical form, nothing inside it,
  however deep, is a number, a bigint, \<open>undefined\<close>, a function or a symbol, and nothing inside it
  contains itself. So a cyclic value is refused, and serialization always returns.
\<close>

theorem canonical_form_contents:
  assumes "hole_free heap" and "canonicalize heap v = Inr s" and "(inside heap)\<^sup>*\<^sup>* v w"
  shows "w \<notin> {JNumber, JBigint, JUndefined, JFunction, JSymbol} \<and> \<not> (inside heap)\<^sup>+\<^sup>+ w w"
proof -
  from assms(1,2) obtain t where "denotes heap {} v t" by (auto simp: canonicalize_iff)
  with assms(3) obtain u where u: "denotes heap {} w u"
    using denotes_inside_plus [of heap v w t] by (auto dest: rtranclpD)
  have "\<not> (inside heap)\<^sup>+\<^sup>+ w w"
    using denotes_inside_plus [of heap w w u] u denotes_unique [OF assms(1)] by blast
  moreover have "w \<notin> {JNumber, JBigint, JUndefined, JFunction, JSymbol}"
    using u by (auto simp: denotes_simps)
  ultimately show ?thesis by blast
qed

section \<open>Concrete values\<close>

text \<open>A record with one array, and a record that contains itself.\<close>

definition sample_store :: store where
  "sample_store =
     [JRecord [(js ''b'', JRef 1), (js ''a'', JString (js ''x''))], JArray [Some (JBool True), Some JNull]]"

lemma sample_hole_free: "hole_free sample_store"
  by (simp add: hole_free_def sample_store_def)

lemma sample_canonical:
  "canonicalize sample_store (JRef 0) = Inr (render (CObject
     [(js ''a'', CString (js ''x'')), (js ''b'', CArray [CBool True, CNull])]))"
proof -
  have sorted: "sort [js ''b'', js ''a''] = [js ''a'', js ''b'']" by (simp add: js_def)
  have wf: "well_formed (js ''a'')" "well_formed (js ''b'')" "well_formed (js ''x'')"
    by (rule well_formed_ascii; simp add: js_def)+
  have arr: "denotes sample_store {0} (JRef 1) (CArray [CBool True, CNull])"
    by (rule denotes.array [of _ _ _ "[JBool True, JNull]"])
      (auto simp: deref_def sample_store_def intro: denotes.intros)
  have "denotes sample_store {} (JRef 0) (CObject (zip [js ''a'', js ''b''] [CString (js ''x''), CArray [CBool True, CNull]]))"
    by (rule denotes.object [of _ _ _ "[(js ''b'', JRef 1), (js ''a'', JString (js ''x''))]"])
      (use sorted wf arr in \<open>auto simp: deref_def sample_store_def member_def intro: denotes.intros\<close>)
  then show ?thesis
    unfolding canonicalize_iff [OF sample_hole_free]
    by (intro exI [of _ "CObject [(js ''a'', CString (js ''x'')), (js ''b'', CArray [CBool True, CNull])]"])
      (simp del: render.simps)
qed

theorem canonical_bytes_injective_witness:
  "\<exists>b. canonicalBytes sample_store (JRef 0) = Inr b \<and> (\<exists>!t. denotes sample_store {} (JRef 0) t)"
proof -
  obtain b where b: "canonicalBytes sample_store (JRef 0) = Inr b"
    by (simp add: canonicalBytes_def sample_canonical)
  with canonical_bytes_injective [OF sample_hole_free sample_hole_free b b] show ?thesis by blast
qed

theorem canonical_form_contents_witness:
  "(inside sample_store)\<^sup>*\<^sup>* (JRef 0) (JRef 1) \<and> \<not> (inside sample_store)\<^sup>+\<^sup>+ (JRef 1) (JRef 1)"
proof -
  have "inside sample_store (JRef 0) (member [(js ''b'', JRef 1), (js ''a'', JString (js ''x''))] (js ''b''))"
    by (rule inside.field) (simp_all add: deref_def sample_store_def)
  then have r: "(inside sample_store)\<^sup>*\<^sup>* (JRef 0) (JRef 1)" by (simp add: member_def r_into_rtranclp)
  show ?thesis
    using r canonical_form_contents [OF sample_hole_free sample_canonical r] by blast
qed

text \<open>A cyclic value is refused with the pointer of the place where it meets itself.\<close>

lemma cycle_refused:
  "canonicalize [JRecord [(js ''self'', JRef 0)]] (JRef 0) = Inl (CanonicalError E_CANONICAL_CIRCULAR (js ''/self''))"
proof -
  have "well_formed (js ''self'')" by (rule well_formed_ascii) (simp add: js_def)
  then show ?thesis
    by (simp add: canonicalize_def serializeValue.simps deref_def sortKeys_def serializeString_iff member_def
        pointer_key_def) (simp add: js_def)
qed

text \<open>
  A hole is not refused: an array of one hole has the canonical form of the empty array, so the
  assumption that stores are free of holes cannot be dropped.
\<close>

lemma hole_collides_with_empty_array:
  "canonicalize [JArray [None]] (JRef 0) = canonicalize [JArray []] (JRef 0)"
  by (simp add: canonicalize_def serializeValue.simps deref_def)

end
