(* ===== verification/Merkle.thy ===== *)
theory Merkle
  imports Hash
begin

text \<open>
  Merkle trees over registry leaves (\<open>packages/canonical/src/merkle.ts\<close>): sorted pairs, odd nodes
  promoted, duplicates and empty batches refused. Every failing call is an error value; the hash
  \<open>k\<close> is a parameter.
\<close>

datatype merkle_error =
    E_MERKLE_EMPTY_BATCH
  | E_MERKLE_DUPLICATE_LEAF hex
  | E_MERKLE_LEAF_NOT_FOUND hex
  | Not_bytes32 js_string
  | Hex_failed hex_error
  | Range_failed

record merkle_tree =
  root :: hex
  layers :: "hex list list"
  leafCount :: nat

section \<open>Operations\<close>

text \<open>\<open>bytes.set(source, offset)\<close> on a \<open>Uint8Array\<close> throws a \<open>RangeError\<close> when the source does not fit.\<close>

definition set_at :: "nat \<Rightarrow> bytes \<Rightarrow> bytes \<Rightarrow> merkle_error + bytes" where
  "set_at offset source buf =
     (if offset + length source > length buf then Inl Range_failed
      else Inr (take offset buf @ source @ drop (offset + length source) buf))"

definition to_bytes :: "hex \<Rightarrow> merkle_error + bytes" where
  "to_bytes s = (case hexToBytes s of Inl e \<Rightarrow> Inl (Hex_failed e) | Inr bs \<Rightarrow> Inr bs)"

definition hashPair :: "(bytes \<Rightarrow> bytes) \<Rightarrow> hex \<Rightarrow> hex \<Rightarrow> merkle_error + hex" where
  "hashPair k a b =
     (let (left, right) = (if a \<le> b then (a, b) else (b, a))
      in and_then (to_bytes left) (\<lambda>l. and_then (set_at 0 l (replicate 64 0)) (\<lambda>buf.
           and_then (to_bytes right) (\<lambda>r. and_then (set_at 32 r buf) (\<lambda>bytes.
             Inr (keccak256 k bytes))))))"

fun check_leaves :: "nat \<Rightarrow> hex list \<Rightarrow> merkle_error + unit" where
  "check_leaves n [] = Inr ()"
| "check_leaves n (leaf # leaves) =
     (case assertBytes32 leaf (js ''leafHashes['' @ js_decimal n @ js '']'') of
        Inl message \<Rightarrow> Inl (Not_bytes32 message)
      | Inr _ \<Rightarrow> check_leaves (Suc n) leaves)"

fun check_duplicates :: "hex list \<Rightarrow> merkle_error + unit" where
  "check_duplicates (x # y # ys) =
     (if x = y then Inl (E_MERKLE_DUPLICATE_LEAF y) else check_duplicates (y # ys))"
| "check_duplicates _ = Inr ()"

fun next_layer :: "(bytes \<Rightarrow> bytes) \<Rightarrow> hex list \<Rightarrow> merkle_error + hex list" where
  "next_layer k (left # right # rest) =
     and_then (hashPair k left right) (\<lambda>h. and_then (next_layer k rest) (\<lambda>hs. Inr (h # hs)))"
| "next_layer k [left] = Inr [left]"
| "next_layer k [] = Inr []"

lemma next_layer_length: "next_layer k xs = Inr ys \<Longrightarrow> length ys = (length xs + 1) div 2"
  by (induction k xs arbitrary: ys rule: next_layer.induct) (auto simp: and_then_eq_Inr_iff)

text \<open>The loop that pushes layers while the last one has more than one node.\<close>

function build_layers :: "(bytes \<Rightarrow> bytes) \<Rightarrow> hex list \<Rightarrow> merkle_error + hex list list" where
  "build_layers k current =
     (if length current > 1
      then (case next_layer k current of
              Inl e \<Rightarrow> Inl e
            | Inr layer \<Rightarrow> and_then (build_layers k layer) (\<lambda>ls. Inr (current # ls)))
      else Inr [current])"
  by pat_completeness auto

termination
  by (relation "measure (\<lambda>(k, current). length current)") (auto dest!: next_layer_length)

declare build_layers.simps [simp del]

definition buildMerkleTree :: "(bytes \<Rightarrow> bytes) \<Rightarrow> hex list \<Rightarrow> merkle_error + merkle_tree" where
  "buildMerkleTree k leafHashes =
     (if length leafHashes = 0 then Inl E_MERKLE_EMPTY_BATCH
      else and_then (check_leaves 0 leafHashes) (\<lambda>_.
        (let sorted' = sort leafHashes
         in and_then (check_duplicates sorted') (\<lambda>_.
              and_then (build_layers k sorted') (\<lambda>ls.
                Inr \<lparr>root = hd (last ls), layers = ls, leafCount = length sorted'\<rparr>)))))"

definition sibling_index :: "nat \<Rightarrow> nat" where
  "sibling_index i = (if i mod 2 = 0 then i + 1 else i - 1)"

fun proof_along :: "hex list list \<Rightarrow> nat \<Rightarrow> hex list" where
  "proof_along (layer # upper # ls) i =
     (if sibling_index i < length layer then [layer ! sibling_index i] else []) @
     proof_along (upper # ls) (i div 2)"
| "proof_along _ i = []"

fun index_of :: "hex list \<Rightarrow> hex \<Rightarrow> nat option" where
  "index_of [] x = None"
| "index_of (y # ys) x = (if y = x then Some 0 else map_option Suc (index_of ys x))"

definition getMerkleProof :: "merkle_tree \<Rightarrow> hex \<Rightarrow> merkle_error + hex list" where
  "getMerkleProof tree leafHash =
     (case index_of (hd (layers tree)) leafHash of
        None \<Rightarrow> Inl (E_MERKLE_LEAF_NOT_FOUND leafHash)
      | Some i \<Rightarrow> Inr (proof_along (layers tree) i))"

fun fold_proof :: "(bytes \<Rightarrow> bytes) \<Rightarrow> hex \<Rightarrow> hex list \<Rightarrow> merkle_error + hex" where
  "fold_proof k computed [] = Inr computed"
| "fold_proof k computed (node # nodes) =
     and_then (hashPair k computed node) (\<lambda>h. fold_proof k h nodes)"

definition verifyMerkleProof :: "(bytes \<Rightarrow> bytes) \<Rightarrow> hex \<Rightarrow> hex list \<Rightarrow> hex \<Rightarrow> merkle_error + bool" where
  "verifyMerkleProof k leafHash nodes expected =
     and_then (fold_proof k leafHash nodes) (\<lambda>computed. Inr (computed = expected))"

section \<open>Hashing pairs\<close>

definition raw :: "hex \<Rightarrow> bytes" where
  "raw s = (case hexToBytes s of Inr bs \<Rightarrow> bs | Inl _ \<Rightarrow> [])"

lemma raw_bytesToHex [simp]: "raw (bytesToHex bs) = bs"
  by (simp add: raw_def)

definition pair_bytes :: "hex \<Rightarrow> hex \<Rightarrow> bytes" where
  "pair_bytes a b = (if a \<le> b then raw a @ raw b else raw b @ raw a)"

lemma hashPair_bytes32:
  assumes "isBytes32 a" and "isBytes32 b"
  shows "hashPair k a b = Inr (bytesToHex (k (pair_bytes a b)))"
proof -
  obtain x y where xy: "length x = 32" "a = bytesToHex x" "length y = 32" "b = bytesToHex y"
    using assms by (auto simp: isBytes32_iff)
  have set: "set_at 0 u (replicate 64 0) = Inr (u @ replicate 32 0)"
    "set_at 32 v (u @ replicate 32 0) = Inr (u @ v)" if "length u = 32" "length v = 32" for u v
    using that by (simp_all add: set_at_def)
  show ?thesis
    using xy set [of x y] set [of y x]
    by (auto simp: hashPair_def to_bytes_def pair_bytes_def keccak256_def Let_def)
qed

lemma hashPair_commute: "hashPair k a b = hashPair k b a"
  by (cases "a = b") (auto simp: hashPair_def)

lemma pair_bytes_commute: "pair_bytes a b = pair_bytes b a"
  by (cases "a = b") (auto simp: pair_bytes_def)

lemma pair_bytes_length:
  assumes "isBytes32 a" and "isBytes32 b" shows "length (pair_bytes a b) = 64"
  using assms by (auto simp: isBytes32_iff pair_bytes_def)

lemma pair_bytes_inject:
  assumes "isBytes32 a" "isBytes32 b" "isBytes32 c" "isBytes32 d" and "pair_bytes a b = pair_bytes c d"
  shows "a = c \<and> b = d \<or> a = d \<and> b = c"
proof -
  obtain w x y z where "length w = 32" "a = bytesToHex w" "length x = 32" "b = bytesToHex x"
    "length y = 32" "c = bytesToHex y" "length z = 32" "d = bytesToHex z"
    using assms(1-4) by (auto simp: isBytes32_iff)
  then show ?thesis using assms(5) by (auto simp: pair_bytes_def split: if_splits)
qed

end
