(* ===== verification/Leaf.thy ===== *)
theory Leaf
  imports Canonical_Laws Merkle Js_Numbers
begin

text \<open>
  Leaves of an anchor batch (\<open>packages/canonical/src/leaf.ts\<close>): the checks on a leaf, its hash, which
  is hashed twice, and the commitment to a projection. A leaf is the plain object of its nine string
  members.
\<close>

record registry_leaf =
  registryType :: js_string
  entryVersionId :: js_string
  leafSubjectId :: js_string
  leafVersion :: js_string
  leafStatus :: js_string
  serializationVersion :: js_string
  policyVersion :: js_string
  schemaVersion :: js_string
  contentHash :: hex

datatype leaf_error =
    E_LEAF_INVALID_FIELD js_string js_string
  | Leaf_not_bytes32 js_string
  | Leaf_not_canonical canonical_error
  | Leaf_hex hex_error

definition REGISTRY_TYPES :: "js_string list" where
  "REGISTRY_TYPES = [js ''project'', js ''verification'', js ''asset'']"

definition LEAF_STATUSES :: "js_string list" where
  "LEAF_STATUSES = [js ''published'', js ''revoked'', js ''superseded'']"

definition requireNonEmpty :: "js_string \<Rightarrow> js_string \<Rightarrow> leaf_error + unit" where
  "requireNonEmpty value field =
     (if length value = 0
      then Inl (E_LEAF_INVALID_FIELD (js ''leaf.'' @ field @ js '' must not be empty'') (js ''/'' @ field))
      else Inr ())"

definition assertValidLeaf :: "registry_leaf \<Rightarrow> leaf_error + unit" where
  "assertValidLeaf leaf =
     (if registryType leaf \<notin> set REGISTRY_TYPES
      then Inl (E_LEAF_INVALID_FIELD (js ''Unknown registryType: '' @ registryType leaf) (js ''/registryType''))
      else if leafStatus leaf \<notin> set LEAF_STATUSES
      then Inl (E_LEAF_INVALID_FIELD (js ''Unknown status: '' @ leafStatus leaf) (js ''/status''))
      else if serializationVersion leaf \<noteq> js ''1''
      then Inl (E_LEAF_INVALID_FIELD (js ''Unsupported serializationVersion: '' @ serializationVersion leaf)
                  (js ''/serializationVersion''))
      else if \<not> plain_integer (leafVersion leaf)
      then Inl (E_LEAF_INVALID_FIELD (js ''leaf.version must be a decimal string without leading zeros: '' @ leafVersion leaf)
                  (js ''/version''))
      else and_then (requireNonEmpty (entryVersionId leaf) (js ''entryVersionId'')) (\<lambda>_.
           and_then (requireNonEmpty (leafSubjectId leaf) (js ''subjectId'')) (\<lambda>_.
           and_then (requireNonEmpty (policyVersion leaf) (js ''policyVersion'')) (\<lambda>_.
           and_then (requireNonEmpty (schemaVersion leaf) (js ''schemaVersion'')) (\<lambda>_.
             case assertBytes32 (contentHash leaf) (js ''leaf.contentHash'') of
               Inl message \<Rightarrow> Inl (Leaf_not_bytes32 message)
             | Inr _ \<Rightarrow> Inr ())))))"

definition leaf_fields :: "registry_leaf \<Rightarrow> (js_string \<times> js_value) list" where
  "leaf_fields leaf =
     [(js ''registryType'', JString (registryType leaf)), (js ''entryVersionId'', JString (entryVersionId leaf)),
      (js ''subjectId'', JString (leafSubjectId leaf)), (js ''version'', JString (leafVersion leaf)),
      (js ''status'', JString (leafStatus leaf)),
      (js ''serializationVersion'', JString (serializationVersion leaf)),
      (js ''policyVersion'', JString (policyVersion leaf)), (js ''schemaVersion'', JString (schemaVersion leaf)),
      (js ''contentHash'', JString (contentHash leaf))]"

definition leaf_bytes :: "registry_leaf \<Rightarrow> canonical_error + bytes" where
  "leaf_bytes leaf = canonicalBytes [JRecord (leaf_fields leaf)] (JRef 0)"

definition hashLeaf :: "(bytes \<Rightarrow> bytes) \<Rightarrow> registry_leaf \<Rightarrow> leaf_error + hex" where
  "hashLeaf k leaf =
     and_then (assertValidLeaf leaf) (\<lambda>_.
       case leaf_bytes leaf of
         Inl e \<Rightarrow> Inl (Leaf_not_canonical e)
       | Inr bs \<Rightarrow>
           (case hexToBytes (keccak256 k bs) of
              Inl e \<Rightarrow> Inl (Leaf_hex e)
            | Inr inner \<Rightarrow> Inr (keccak256 k inner)))"

definition hashProjection :: "(bytes \<Rightarrow> bytes) \<Rightarrow> store \<Rightarrow> js_value \<Rightarrow> canonical_error + hex" where
  "hashProjection k heap projection =
     and_then (canonicalBytes heap projection) (\<lambda>bs. Inr (keccak256 k bs))"

section \<open>What a leaf hash commits to\<close>

lemma assertValidLeaf_iff:
  "assertValidLeaf leaf = Inr () \<longleftrightarrow>
     registryType leaf \<in> set REGISTRY_TYPES \<and> leafStatus leaf \<in> set LEAF_STATUSES \<and>
     serializationVersion leaf = js ''1'' \<and> plain_integer (leafVersion leaf) \<and>
     entryVersionId leaf \<noteq> [] \<and> leafSubjectId leaf \<noteq> [] \<and> policyVersion leaf \<noteq> [] \<and>
     schemaVersion leaf \<noteq> [] \<and> isBytes32 (contentHash leaf)"
  by (auto simp: assertValidLeaf_def and_then_eq_Inr_iff requireNonEmpty_def assertBytes32_def
      simp del: js_eq_iff split: if_splits)

lemma hashLeaf_Inr:
  "hashLeaf k leaf = Inr h \<longleftrightarrow>
     assertValidLeaf leaf = Inr () \<and> (\<exists>bs. leaf_bytes leaf = Inr bs \<and> h = keccak256 k (k bs))"
  by (auto simp: hashLeaf_def and_then_eq_Inr_iff keccak256_def split: sum.splits)

definition leaf_keys :: "js_string list" where
  "leaf_keys = sort (map fst (leaf_fields undefined))"

lemma leaf_field_names: "map fst (leaf_fields leaf) = map fst (leaf_fields undefined)"
  by (simp add: leaf_fields_def)

lemma leaf_denotes:
  assumes "denotes [JRecord (leaf_fields leaf)] {} (JRef 0) t" and "(key, JString s) \<in> set (leaf_fields leaf)"
  shows "\<exists>ts. t = CObject (zip leaf_keys ts) \<and> (key, CString s) \<in> set (zip leaf_keys ts)"
proof -
  let ?heap = "[JRecord (leaf_fields leaf)]"
  from assms(1) obtain ts where ts: "t = CObject (zip (sort (map fst (leaf_fields leaf))) ts)"
    "list_all2 (\<lambda>key t. denotes ?heap (insert 0 {}) (member (leaf_fields leaf) key) t)
       (sort (map fst (leaf_fields leaf))) ts"
    by (auto simp: deref_def elim!: denotes_RefE)
  have keys: "sort (map fst (leaf_fields leaf)) = leaf_keys"
    unfolding leaf_keys_def leaf_field_names [of leaf] by (rule refl)
  have "distinct (map fst (leaf_fields leaf))" by (simp add: leaf_fields_def)
  then have member: "member (leaf_fields leaf) key = JString s"
    using assms(2) by (simp add: member_def)
  have "key \<in> set leaf_keys" using assms(2) unfolding keys [symmetric] by (force simp: image_iff)
  with list_all2_source [OF ts(2) [unfolded keys]] obtain u
    where "(key, u) \<in> set (zip leaf_keys ts)" "denotes ?heap {0} (member (leaf_fields leaf) key) u" by auto
  with ts(1) keys member show ?thesis by (auto simp: denotes_simps)
qed

lemma distinct_leaf_keys: "distinct leaf_keys"
  unfolding leaf_keys_def distinct_sort by (simp add: leaf_fields_def)

lemma zip_distinct_unique:
  "distinct keys \<Longrightarrow> (key, u) \<in> set (zip keys ts) \<Longrightarrow> (key, v) \<in> set (zip keys ts) \<Longrightarrow> u = v"
  by (induction keys ts rule: list_induct2') (auto dest: set_zip_leftD)

lemma leaf_bytes_inject:
  assumes "leaf_bytes l = Inr bs" and "leaf_bytes m = Inr bs"
  shows "l = m"
proof -
  have free: "hole_free [JRecord (leaf_fields x)]" for x by (simp add: hole_free_def)
  from assms obtain t where t: "denotes [JRecord (leaf_fields l)] {} (JRef 0) t"
    "denotes [JRecord (leaf_fields m)] {} (JRef 0) t"
    using canonical_injective [OF free free, of l "JRef 0" bs m "JRef 0" bs] by (auto simp: leaf_bytes_def)
  have same: "s = s'" if l: "(key, JString s) \<in> set (leaf_fields l)" and m: "(key, JString s') \<in> set (leaf_fields m)" for key s s'
  proof -
    obtain ts where ts: "t = CObject (zip leaf_keys ts)" "(key, CString s) \<in> set (zip leaf_keys ts)"
      using leaf_denotes [OF t(1) l] by blast
    obtain us where us: "t = CObject (zip leaf_keys us)" "(key, CString s') \<in> set (zip leaf_keys us)"
      using leaf_denotes [OF t(2) m] by blast
    from ts us have "(key, CString s) \<in> set (zip leaf_keys ts)" "(key, CString s') \<in> set (zip leaf_keys ts)" by simp_all
    from zip_distinct_unique [OF distinct_leaf_keys this] show "s = s'" by simp
  qed
  show ?thesis
    by (rule registry_leaf.equality) (auto intro: same simp: leaf_fields_def)
qed

end
