(* ===== verification/Merkle_Laws.thy ===== *)
theory Merkle_Laws
  imports Merkle
begin

text \<open>
  What the Merkle trees guarantee: when a batch builds, that the order of the leaves does not matter,
  that every leaf's proof verifies, and that a proof verifies for nothing else unless the hash
  collides on one of the inputs that were actually hashed. \<open>hash32 k\<close> is all that is asked of the
  hash where no collision matters.
\<close>

definition hash32 :: "(bytes \<Rightarrow> bytes) \<Rightarrow> bool" where
  "hash32 k \<longleftrightarrow> (\<forall>m. length (k m) = 32)"

lemma hash32_bytes32 [simp]: "hash32 k \<Longrightarrow> isBytes32 (bytesToHex (k m))"
  by (auto simp: hash32_def isBytes32_iff)

section \<open>Building\<close>

lemma check_leaves_iff: "check_leaves n xs = Inr () \<longleftrightarrow> (\<forall>x \<in> set xs. isBytes32 x)"
  by (induction xs arbitrary: n) (auto simp: assertBytes32_def)

lemma check_duplicates_iff: "sorted xs \<Longrightarrow> check_duplicates xs = Inr () \<longleftrightarrow> distinct xs"
  by (induction xs rule: check_duplicates.induct) auto

fun pair_up :: "(bytes \<Rightarrow> bytes) \<Rightarrow> hex list \<Rightarrow> hex list" where
  "pair_up k (a # b # rest) = bytesToHex (k (pair_bytes a b)) # pair_up k rest"
| "pair_up k [a] = [a]"
| "pair_up k [] = []"

lemma next_layer_pair_up:
  "\<forall>x \<in> set xs. isBytes32 x \<Longrightarrow> next_layer k xs = Inr (pair_up k xs)"
  by (induction k xs rule: next_layer.induct) (simp_all add: hashPair_bytes32)

lemma pair_up_bytes32:
  "hash32 k \<Longrightarrow> \<forall>x \<in> set xs. isBytes32 x \<Longrightarrow> \<forall>x \<in> set (pair_up k xs). isBytes32 x"
  by (induction k xs rule: pair_up.induct) auto

lemma pair_up_length: "length (pair_up k xs) = (length xs + 1) div 2"
  by (induction k xs rule: pair_up.induct) auto

text \<open>The layers a successful build returns: each is the previous one paired up, the last is a single node.\<close>

fun layered :: "(bytes \<Rightarrow> bytes) \<Rightarrow> hex list list \<Rightarrow> bool" where
  "layered k [] = False"
| "layered k [l] = (length l = 1)"
| "layered k (l # u # ls) = (1 < length l \<and> u = pair_up k l \<and> layered k (u # ls))"

lemma build_layers_layered:
  assumes "hash32 k"
  shows "\<forall>x \<in> set xs. isBytes32 x \<Longrightarrow> xs \<noteq> [] \<Longrightarrow>
    \<exists>ls. build_layers k xs = Inr (xs # ls) \<and> layered k (xs # ls)"
proof (induction xs rule: measure_induct_rule [of length])
  case (less xs)
  show ?case
  proof (cases "length xs > 1")
    case True
    let ?u = "pair_up k xs"
    have shorter: "length ?u < length xs" "?u \<noteq> []"
      using True by (auto simp: pair_up_length simp flip: length_greater_0_conv)
    have "\<forall>x \<in> set ?u. isBytes32 x" using less.prems assms by (simp add: pair_up_bytes32)
    with less.IH [OF shorter(1)] shorter(2)
    obtain ls where "build_layers k ?u = Inr (?u # ls)" "layered k (?u # ls)" by blast
    then have "build_layers k xs = Inr (xs # ?u # ls) \<and> layered k (xs # ?u # ls)"
      using True less.prems by (simp add: build_layers.simps [of k xs] next_layer_pair_up)
    then show ?thesis by blast
  next
    case False
    with less.prems have "length xs = 1" by (cases xs) auto
    then have "build_layers k xs = Inr [xs]" "layered k [xs]"
      by (simp_all add: build_layers.simps [of k xs])
    then show ?thesis by blast
  qed
qed

lemma build_Inr_iff:
  assumes "hash32 k"
  shows "buildMerkleTree k xs = Inr t \<longleftrightarrow>
    xs \<noteq> [] \<and> (\<forall>x \<in> set xs. isBytes32 x) \<and> distinct xs \<and>
    build_layers k (sort xs) = Inr (layers t) \<and> root t = hd (last (layers t)) \<and> leafCount t = length xs"
proof -
  have "check_duplicates (sort xs) = Inr () \<longleftrightarrow> distinct xs"
    by (simp add: check_duplicates_iff)
  then show ?thesis
    by (cases t) (auto simp: buildMerkleTree_def and_then_eq_Inr_iff check_leaves_iff Let_def)
qed

lemma built_tree:
  assumes "hash32 k" and "buildMerkleTree k xs = Inr t"
  shows "layered k (layers t) \<and> layers t \<noteq> [] \<and> hd (layers t) = sort xs \<and> root t = hd (last (layers t)) \<and>
    (\<forall>x \<in> set xs. isBytes32 x)"
  using assms build_layers_layered [OF assms(1), of "sort xs"]
  by (auto simp: build_Inr_iff)

text \<open>
  C29. A batch can be anchored exactly when it is not empty, every leaf is a 32-byte value and no
  leaf occurs twice; the tree then depends only on which leaves there are, not on their order.
\<close>

theorem batch_builds_iff:
  assumes "hash32 k"
  shows "((\<exists>t. buildMerkleTree k xs = Inr t) \<longleftrightarrow>
      xs \<noteq> [] \<and> (\<forall>x \<in> set xs. isBytes32 x) \<and> distinct xs) \<and>
    (mset ys = mset xs \<and> buildMerkleTree k xs = Inr t \<longrightarrow> buildMerkleTree k ys = Inr t)"
proof (intro conjI impI)
  show "(\<exists>t. buildMerkleTree k xs = Inr t) \<longleftrightarrow>
      xs \<noteq> [] \<and> (\<forall>x \<in> set xs. isBytes32 x) \<and> distinct xs" (is "_ \<longleftrightarrow> ?ok")
  proof
    assume ?ok
    with build_layers_layered [OF assms, of "sort xs"]
    obtain ls where "build_layers k (sort xs) = Inr ls" by auto
    with \<open>?ok\<close> have "buildMerkleTree k xs = Inr \<lparr>root = hd (last ls), layers = ls, leafCount = length xs\<rparr>"
      by (simp add: build_Inr_iff [OF assms])
    then show "\<exists>t. buildMerkleTree k xs = Inr t" by blast
  qed (auto simp: build_Inr_iff [OF assms])
next
  assume h: "mset ys = mset xs \<and> buildMerkleTree k xs = Inr t"
  then have "sort ys = sort xs" "set ys = set xs" "length ys = length xs" "distinct ys = distinct xs"
    by (metis properties_for_sort mset_sort sorted_sort, metis mset_eq_setD, metis mset_eq_length,
        metis mset_eq_imp_distinct_iff)
  with h show "buildMerkleTree k ys = Inr t"
    by (auto simp: build_Inr_iff [OF assms] simp flip: length_greater_0_conv)
qed

section \<open>Proofs of inclusion\<close>

lemma index_of_Some: "index_of xs x = Some i \<Longrightarrow> i < length xs \<and> xs ! i = x"
  by (induction xs arbitrary: i) (auto split: if_splits)

lemma index_of_None: "index_of xs x = None \<longleftrightarrow> x \<notin> set xs"
  by (induction xs) auto

lemma sibling_index_step: "sibling_index (Suc (Suc i)) = Suc (Suc (sibling_index i))"
  by (cases "i mod 2 = 0") (auto simp: sibling_index_def mod_Suc Suc_diff_le odd_pos)

lemma pair_up_nth:
  "i < length l \<Longrightarrow> pair_up k l ! (i div 2) =
     (if sibling_index i < length l then bytesToHex (k (pair_bytes (l ! i) (l ! sibling_index i))) else l ! i)"
proof (induction k l arbitrary: i rule: pair_up.induct)
  case (1 k a b rest)
  consider "i = 0" | "i = 1" | j where "i = Suc (Suc j)"
    by (metis One_nat_def not0_implies_Suc)
  then show ?case
  proof cases
    case 3
    then show ?thesis using 1 by (simp add: sibling_index_step)
  qed (simp_all add: sibling_index_def pair_bytes_commute)
qed (auto simp: sibling_index_def)

lemma proof_along_folds:
  "hash32 k \<Longrightarrow> layered k ls \<Longrightarrow> \<forall>x \<in> set (hd ls). isBytes32 x \<Longrightarrow> i < length (hd ls) \<Longrightarrow>
    fold_proof k (hd ls ! i) (proof_along ls i) = Inr (hd (last ls))"
proof (induction k ls arbitrary: i rule: layered.induct)
  case (2 k l)
  then show ?case by (cases l) auto
next
  case (3 k l u ls)
  from "3.prems"(2) have u: "u = pair_up k l" "layered k (u # ls)"
    unfolding layered.simps by blast+
  have "\<forall>x \<in> set u. isBytes32 x" using 3 u by (simp add: pair_up_bytes32)
  moreover have "i div 2 < length u" using 3 u by (simp add: pair_up_length)
  ultimately have IH: "fold_proof k (u ! (i div 2)) (proof_along (u # ls) (i div 2)) = Inr (hd (last (u # ls)))"
    using "3.IH" [of "i div 2"] "3.prems"(1) u(2) by simp
  have "i < length l" using 3 by simp
  show ?case
  proof (cases "sibling_index i < length l")
    case True
    then have "hashPair k (l ! i) (l ! sibling_index i) = Inr (u ! (i div 2))"
      using 3 u \<open>i < length l\<close> by (simp add: hashPair_bytes32 pair_up_nth)
    with IH True show ?thesis by simp
  next
    case False
    with IH u \<open>i < length l\<close> show ?thesis by (simp add: pair_up_nth)
  qed
qed simp

text \<open>
  C30. Every leaf of an anchored batch has a proof, and the proof verifies against the root; for a
  hash that is not a leaf no proof is given.
\<close>

theorem merkle_proof_roundtrip:
  assumes "hash32 k" and "buildMerkleTree k xs = Inr t"
  shows "(\<exists>nodes. getMerkleProof t leaf = Inr nodes) = (leaf \<in> set xs) \<and>
    (\<forall>nodes. getMerkleProof t leaf = Inr nodes \<longrightarrow> verifyMerkleProof k leaf nodes (root t) = Inr True)"
proof (intro conjI allI impI)
  have "set (hd (layers t)) = set (sort xs)" using built_tree [OF assms] by simp
  then have "set (hd (layers t)) = set xs" by simp
  then show "(\<exists>nodes. getMerkleProof t leaf = Inr nodes) = (leaf \<in> set xs)"
    using index_of_None [of "hd (layers t)" leaf]
    by (cases "index_of (hd (layers t)) leaf") (simp_all add: getMerkleProof_def)
next
  fix nodes assume p: "getMerkleProof t leaf = Inr nodes"
  note t = built_tree [OF assms]
  from p obtain i where i: "index_of (hd (layers t)) leaf = Some i" "nodes = proof_along (layers t) i"
    by (auto simp: getMerkleProof_def split: option.splits)
  have nodes: "\<forall>x \<in> set (hd (layers t)). isBytes32 x" using t by simp
  have "fold_proof k (hd (layers t) ! i) nodes = Inr (hd (last (layers t)))"
    unfolding i(2) using index_of_Some [OF i(1)] t
    by (intro proof_along_folds [OF assms(1) _ nodes]) simp_all
  with index_of_Some [OF i(1)] t show "verifyMerkleProof k leaf nodes (root t) = Inr True"
    by (simp add: verifyMerkleProof_def)
qed

section \<open>Soundness of inclusion\<close>

text \<open>
  The inputs the hash is applied to when the layers are built and when a proof is folded. A hash to
  32 bytes collides somewhere, so soundness asks that it does not collide on these.
\<close>

fun layer_inputs :: "hex list \<Rightarrow> bytes list" where
  "layer_inputs (a # b # rest) = pair_bytes a b # layer_inputs rest"
| "layer_inputs _ = []"

definition tree_inputs :: "hex list list \<Rightarrow> bytes list" where
  "tree_inputs ls = concat (map layer_inputs ls)"

fun proof_inputs :: "(bytes \<Rightarrow> bytes) \<Rightarrow> hex \<Rightarrow> hex list \<Rightarrow> bytes list" where
  "proof_inputs k c [] = []"
| "proof_inputs k c (n # ns) = pair_bytes c n # proof_inputs k (bytesToHex (k (pair_bytes c n))) ns"

definition hashed_nodes :: "hex list list \<Rightarrow> hex set" where
  "hashed_nodes ls = set (concat ls)"

lemma pair_up_mem:
  "v \<in> set (pair_up k l) \<Longrightarrow>
     v \<in> set l \<or> (\<exists>a b. v = bytesToHex (k (pair_bytes a b)) \<and> pair_bytes a b \<in> set (layer_inputs l) \<and>
       a \<in> set l \<and> b \<in> set l)"
  by (induction k l rule: pair_up.induct) auto

lemma node_origin:
  "layered k ls \<Longrightarrow> v \<in> hashed_nodes ls \<Longrightarrow>
     v \<in> set (hd ls) \<or> (\<exists>a b. v = bytesToHex (k (pair_bytes a b)) \<and> pair_bytes a b \<in> set (tree_inputs ls) \<and>
       a \<in> hashed_nodes ls \<and> b \<in> hashed_nodes ls)"
proof (induction k ls rule: layered.induct)
  case (3 k l u ls)
  from "3.prems"(1) have u: "u = pair_up k l" "layered k (u # ls)" unfolding layered.simps by blast+
  have sub: "hashed_nodes (l # u # ls) = set l \<union> hashed_nodes (u # ls)"
    "set (tree_inputs (l # u # ls)) = set (layer_inputs l) \<union> set (tree_inputs (u # ls))"
    by (auto simp: hashed_nodes_def tree_inputs_def)
  show ?case
  proof (cases "v \<in> set l")
    case False
    with "3.prems"(2) sub have "v \<in> hashed_nodes (u # ls)" by blast
    with "3.IH" [OF u(2)] have "v \<in> set u \<or> (\<exists>a b. v = bytesToHex (k (pair_bytes a b)) \<and>
        pair_bytes a b \<in> set (tree_inputs (u # ls)) \<and> a \<in> hashed_nodes (u # ls) \<and> b \<in> hashed_nodes (u # ls))"
      by simp
    then show ?thesis
    proof
      assume "v \<in> set u"
      with pair_up_mem [of v k l] u(1) False sub show ?thesis by blast
    qed (use sub in blast)
  qed simp
qed (auto simp: hashed_nodes_def)

lemma layered_bytes32:
  "hash32 k \<Longrightarrow> layered k ls \<Longrightarrow> \<forall>x \<in> set (hd ls). isBytes32 x \<Longrightarrow> \<forall>x \<in> hashed_nodes ls. isBytes32 x"
proof (induction k ls rule: layered.induct)
  case (3 k l u ls)
  from "3.prems"(2) have u: "u = pair_up k l" "layered k (u # ls)" unfolding layered.simps by blast+
  then have "\<forall>x \<in> set (hd (u # ls)). isBytes32 x" using "3.prems" by (simp add: pair_up_bytes32)
  from "3.IH" [OF "3.prems"(1) u(2) this] "3.prems"(3) show ?case by (auto simp: hashed_nodes_def)
qed (auto simp: hashed_nodes_def)

lemma layered_root: "layered k ls \<Longrightarrow> hd (last ls) \<in> hashed_nodes ls"
proof (induction k ls rule: layered.induct)
  case (2 k l)
  then show ?case by (cases l) (auto simp: hashed_nodes_def)
next
  case (3 k l u ls)
  from "3.prems" have "layered k (u # ls)" unfolding layered.simps by blast
  from "3.IH" [OF this] show ?case by (auto simp: hashed_nodes_def)
qed simp

lemma fold_proof_inside:
  assumes k: "hash32 k" and ls: "layered k ls" "\<forall>x \<in> set (hd ls). isBytes32 x"
    and leaves: "\<forall>x \<in> set (hd ls). \<exists>m \<in> P. length m = 32 \<and> x = bytesToHex (k m)"
  shows "fold_proof k c nodes = Inr r \<Longrightarrow> r \<in> hashed_nodes ls \<Longrightarrow> isBytes32 c \<Longrightarrow>
    \<forall>n \<in> set nodes. isBytes32 n \<Longrightarrow>
    inj_on k (P \<union> set (tree_inputs ls) \<union> set (proof_inputs k c nodes)) \<Longrightarrow> c \<in> hashed_nodes ls"
proof (induction nodes arbitrary: c)
  case (Cons n nodes)
  let ?p = "pair_bytes c n" and ?h = "bytesToHex (k (pair_bytes c n))"
  have bytes: "isBytes32 c" "isBytes32 n" using Cons.prems by simp_all
  have inj: "inj_on k (P \<union> set (tree_inputs ls) \<union> insert ?p (set (proof_inputs k ?h nodes)))"
    using Cons.prems(5) by simp
  have "?h \<in> hashed_nodes ls"
  proof (rule Cons.IH)
    show "fold_proof k ?h nodes = Inr r" using Cons.prems(1) bytes by (simp add: hashPair_bytes32)
    show "r \<in> hashed_nodes ls" by (rule Cons.prems(2))
    show "isBytes32 ?h" using k by simp
    show "\<forall>n \<in> set nodes. isBytes32 n" using Cons.prems(4) by simp
    show "inj_on k (P \<union> set (tree_inputs ls) \<union> set (proof_inputs k ?h nodes))"
      by (rule inj_on_subset [OF inj]) blast
  qed
  from node_origin [OF ls(1) this] show ?case
  proof
    assume "?h \<in> set (hd ls)"
    with leaves obtain m where m: "m \<in> P" "length m = 32" "k m = k ?p" by force
    have "m = ?p" by (rule inj_onD [OF inj m(3)]) (use m(1) in blast)+
    with m(2) pair_bytes_length [OF bytes] show ?thesis by simp
  next
    assume "\<exists>a b. ?h = bytesToHex (k (pair_bytes a b)) \<and> pair_bytes a b \<in> set (tree_inputs ls) \<and>
       a \<in> hashed_nodes ls \<and> b \<in> hashed_nodes ls"
    then obtain a b where ab: "k ?p = k (pair_bytes a b)" "pair_bytes a b \<in> set (tree_inputs ls)"
      "a \<in> hashed_nodes ls" "b \<in> hashed_nodes ls" by auto
    have "?p = pair_bytes a b" by (rule inj_onD [OF inj ab(1)]) (use ab(2) in blast)+
    moreover have "isBytes32 a" "isBytes32 b" using layered_bytes32 [OF k ls] ab by auto
    ultimately have "c = a \<or> c = b" using bytes pair_bytes_inject by blast
    with ab show ?thesis by blast
  qed
qed simp

lemma merkle_sound:
  assumes "hash32 k" and "buildMerkleTree k xs = Inr t"
    and "verifyMerkleProof k leaf nodes (root t) = Inr True"
    and "isBytes32 leaf" and "\<forall>n \<in> set nodes. isBytes32 n"
    and "\<forall>x \<in> insert leaf (set xs). \<exists>m \<in> set preimages. length m = 32 \<and> x = keccak256 k m"
    and "inj_on k (set preimages \<union> set (tree_inputs (layers t)) \<union> set (proof_inputs k leaf nodes))"
  shows "leaf \<in> set xs"
proof -
  note t = built_tree [OF assms(1,2)]
  then have hd: "set (hd (layers t)) = set xs" by simp
  have leaves: "\<forall>x \<in> set (hd (layers t)). \<exists>m \<in> set preimages. length m = 32 \<and> x = bytesToHex (k m)"
    using assms(6) hd by (simp add: keccak256_def)
  have bytes: "\<forall>x \<in> set (hd (layers t)). isBytes32 x" using t by simp
  have layered: "layered k (layers t)" using t by simp
  have "leaf \<in> hashed_nodes (layers t)"
    using fold_proof_inside [OF assms(1) layered bytes leaves, of leaf nodes "root t"] assms(3-5,7) t
      layered_root [OF layered]
    by (auto simp: verifyMerkleProof_def and_then_eq_Inr_iff)
  from node_origin [OF layered this] show ?thesis
  proof
    assume "\<exists>a b. leaf = bytesToHex (k (pair_bytes a b)) \<and> pair_bytes a b \<in> set (tree_inputs (layers t)) \<and>
       a \<in> hashed_nodes (layers t) \<and> b \<in> hashed_nodes (layers t)"
    then obtain a b where ab: "leaf = bytesToHex (k (pair_bytes a b))"
      "pair_bytes a b \<in> set (tree_inputs (layers t))" "isBytes32 a" "isBytes32 b"
      using layered_bytes32 [OF assms(1) layered bytes] by blast
    obtain m where m: "m \<in> set preimages" "length m = 32" "leaf = bytesToHex (k m)"
      using assms(6) by (auto simp: keccak256_def)
    have "k m = k (pair_bytes a b)" using m(3) ab(1) by simp
    then have "m = pair_bytes a b" by (rule inj_onD [OF assms(7)]) (use m(1) ab(2) in blast)+
    with m(2) pair_bytes_length [OF ab(3,4)] show ?thesis by simp
  qed (use hd in simp)
qed

text \<open>
  C20. A verified proof means inclusion: if a proof made of 32-byte values verifies for a leaf hash
  against the root of an anchored batch, the leaf is one of the batch. Leaves are hashes of 32 bytes
  (they are hashed twice), and the hash is assumed not to collide on the inputs hashed for the
  leaves, the tree and the proof.
\<close>

theorem merkle_proof_sound:
  assumes "hash32 k" and "buildMerkleTree k xs = Inr t"
    and "verifyMerkleProof k leaf nodes (root t) = Inr True"
    and "isBytes32 leaf" and "\<forall>n \<in> set nodes. isBytes32 n"
    and "\<forall>x \<in> insert leaf (set xs). \<exists>m \<in> set preimages. length m = 32 \<and> x = keccak256 k m"
    and "inj_on k (set preimages \<union> set (tree_inputs (layers t)) \<union> set (proof_inputs k leaf nodes))"
  shows "leaf \<in> set xs"
  using assms by (rule merkle_sound)

section \<open>A batch of two leaves\<close>

text \<open>A function that does not collide on the inputs of a batch of two leaves.\<close>

definition sample_hash :: "bytes \<Rightarrow> bytes" where
  "sample_hash m =
     (if m = replicate 32 1 then replicate 32 0x10 else if m = replicate 32 2 then replicate 32 0x20
      else replicate 32 0x30)"

definition leaf_a :: hex where "leaf_a = keccak256 sample_hash (replicate 32 1)"
definition leaf_b :: hex where "leaf_b = keccak256 sample_hash (replicate 32 2)"

definition sample_tree :: merkle_tree where
  "sample_tree =
     (let top = bytesToHex (sample_hash (pair_bytes leaf_a leaf_b))
      in \<lparr>root = top, layers = [[leaf_a, leaf_b], [top]], leafCount = 2\<rparr>)"

lemma hash32_sample: "hash32 sample_hash"
  by (simp add: hash32_def sample_hash_def)

lemma leaf_a_less: "leaf_a < leaf_b"
proof -
  have "(replicate 32 x :: bytes) = x # replicate 31 x" for x by (simp add: numeral_eq_Suc)
  then have "bytesToHex (replicate 32 0x10) < bytesToHex (replicate 32 0x20)"
    by (simp add: bytesToHex_def hex_byte_def HEX_CHARS_def js_def)
  moreover have "replicate 32 (2 :: byte) \<noteq> replicate 32 1" by (simp add: replicate_eq_replicate)
  ultimately show ?thesis by (simp add: leaf_a_def leaf_b_def keccak256_def sample_hash_def)
qed

lemma leaf_bytes32 [simp]: "isBytes32 leaf_a" "isBytes32 leaf_b"
  by (simp_all add: leaf_a_def leaf_b_def keccak256_def hash32_sample)

lemma sample_built: "buildMerkleTree sample_hash [leaf_b, leaf_a] = Inr sample_tree"
proof -
  have sort: "sort [leaf_b, leaf_a] = [leaf_a, leaf_b]"
    using leaf_a_less by (auto simp: not_le)
  have "build_layers sample_hash [leaf_a, leaf_b] = Inr (layers sample_tree)"
    by (simp add: build_layers.simps hashPair_bytes32 sample_tree_def Let_def)
  then show ?thesis
    using leaf_a_less sort by (simp add: build_Inr_iff hash32_sample) (simp add: sample_tree_def Let_def)
qed

lemma sample_pair: "length (pair_bytes leaf_a leaf_b) = 64" "pair_bytes leaf_a leaf_b = pair_bytes leaf_b leaf_a"
  by (simp_all add: pair_bytes_length pair_bytes_commute)

theorem batch_builds_iff_witness:
  "buildMerkleTree sample_hash [leaf_a, leaf_b] = Inr sample_tree"
  using batch_builds_iff [OF hash32_sample, of "[leaf_b, leaf_a]" "[leaf_a, leaf_b]" sample_tree] sample_built
  by (simp add: add_mset_commute)

theorem merkle_proof_roundtrip_witness:
  "\<exists>nodes. getMerkleProof sample_tree leaf_b = Inr nodes \<and>
     verifyMerkleProof sample_hash leaf_b nodes (root sample_tree) = Inr True"
  using merkle_proof_roundtrip [OF hash32_sample sample_built, of leaf_b] by auto

theorem merkle_proof_sound_witness:
  "verifyMerkleProof sample_hash leaf_a [leaf_b] (root sample_tree) = Inr True \<and> leaf_a \<in> set [leaf_b, leaf_a]"
proof -
  let ?pre = "[replicate 32 1, replicate 32 2] :: bytes list"
  have v: "verifyMerkleProof sample_hash leaf_a [leaf_b] (root sample_tree) = Inr True"
    by (simp add: verifyMerkleProof_def hashPair_bytes32 sample_tree_def Let_def)
  have b: "isBytes32 leaf_a" "\<forall>n \<in> set [leaf_b]. isBytes32 n" by simp_all
  have pre: "\<forall>x \<in> insert leaf_a (set [leaf_b, leaf_a]). \<exists>m \<in> set ?pre. length m = 32 \<and> x = keccak256 sample_hash m"
    by (auto simp: leaf_a_def leaf_b_def)
  let ?p = "pair_bytes leaf_a leaf_b"
  have ne: "?p \<noteq> replicate 32 1" "?p \<noteq> replicate 32 2" "replicate 32 (2 :: byte) \<noteq> replicate 32 1"
    using sample_pair(1) by (auto simp: replicate_eq_replicate dest!: arg_cong [of _ _ length])
  have "set ?pre \<union> set (tree_inputs (layers sample_tree)) \<union> set (proof_inputs sample_hash leaf_a [leaf_b]) =
      {replicate 32 1, replicate 32 2, ?p}"
    by (simp add: tree_inputs_def sample_tree_def Let_def insert_commute)
  moreover have "inj_on sample_hash {replicate 32 1, replicate 32 2, ?p}"
    using ne by (auto simp: inj_on_def sample_hash_def replicate_eq_replicate)
  ultimately have inj: "inj_on sample_hash (set ?pre \<union> set (tree_inputs (layers sample_tree)) \<union>
      set (proof_inputs sample_hash leaf_a [leaf_b]))" by simp
  show ?thesis
    using v merkle_proof_sound [OF hash32_sample sample_built v b pre inj] by blast
qed

end
