(* ===== verification/Authentication.thy ===== *)
theory Authentication
  imports Registry_Prelude
begin

text \<open>
  Factors, authentication levels and identity assurance: \<open>packages/api-contract/src/auth.ts\<close>.

  A role is a string of the database, so roles are \<open>js_string\<close> and the table of minimum assurance
  is an association list; a role that is not in the table needs \<open>high_assurance\<close>, as
  \<open>?? "high_assurance"\<close> writes at every use.
\<close>

datatype assurance_level = Wallet_only | Identity_bound | High_assurance
datatype first_factor = First_email_code | First_google | First_microsoft
datatype second_factor = Second_passkey | Second_totp | Second_recovery_code
datatype authentication_level = Aal1 | Aal2 | Aal3

primrec AAL_RANK :: "authentication_level \<Rightarrow> nat" where
  "AAL_RANK Aal1 = 1"
| "AAL_RANK Aal2 = 2"
| "AAL_RANK Aal3 = 3"

definition satisfiesAuthenticationLevel :: "authentication_level \<Rightarrow> authentication_level \<Rightarrow> bool" where
  "satisfiesAuthenticationLevel actual required \<longleftrightarrow> AAL_RANK actual \<ge> AAL_RANK required"

definition deriveAuthenticationLevel :: "first_factor \<Rightarrow> second_factor option \<Rightarrow> authentication_level" where
  "deriveAuthenticationLevel first second =
     (if second = Some Second_passkey then Aal3
      else if second = Some Second_totp \<or> second = Some Second_recovery_code then Aal2
      else Aal1)"

primrec ASSURANCE_RANK :: "assurance_level \<Rightarrow> nat" where
  "ASSURANCE_RANK Wallet_only = 0"
| "ASSURANCE_RANK Identity_bound = 1"
| "ASSURANCE_RANK High_assurance = 2"

definition satisfiesAssurance :: "assurance_level \<Rightarrow> assurance_level \<Rightarrow> bool" where
  "satisfiesAssurance actual required \<longleftrightarrow> ASSURANCE_RANK actual \<ge> ASSURANCE_RANK required"

definition SERVICE_ONLY_ROLES :: "js_string list" where
  "SERVICE_ONLY_ROLES = [js ''scan_service'', js ''cre_reporter'']"

definition ROLE_MINIMUM_ASSURANCE :: "(js_string \<times> assurance_level) list" where
  "ROLE_MINIMUM_ASSURANCE =
     [(js ''public_reader'', Wallet_only), (js ''protocol_voter'', Wallet_only),
      (js ''project_voter'', Wallet_only), (js ''protocol_proposer'', Identity_bound),
      (js ''project_proposer'', Identity_bound), (js ''data_steward'', Identity_bound),
      (js ''project_admin'', Identity_bound), (js ''project_sponsor_operator'', Identity_bound),
      (js ''spv_representative'', Identity_bound), (js ''execution_recorder'', Identity_bound),
      (js ''auditor'', Identity_bound), (js ''external_regulated_service_provider'', High_assurance),
      (js ''scan_service'', High_assurance), (js ''cre_reporter'', High_assurance),
      (js ''reviewer_cp_qp'', High_assurance), (js ''reviewer_lab'', High_assurance),
      (js ''reviewer_legal'', High_assurance), (js ''reviewer_assurance'', High_assurance),
      (js ''disclosure_approver'', High_assurance), (js ''issuer_officer'', High_assurance),
      (js ''gate_approver'', High_assurance), (js ''mpc_operator'', High_assurance),
      (js ''treasury_signer'', High_assurance), (js ''security_operator'', High_assurance)]"

definition minimum_assurance :: "js_string \<Rightarrow> assurance_level" where
  "minimum_assurance r =
     (case map_of ROLE_MINIMUM_ASSURANCE r of Some a \<Rightarrow> a | None \<Rightarrow> High_assurance)"

definition requiredAuthenticationLevel :: "js_string \<Rightarrow> authentication_level option" where
  "requiredAuthenticationLevel r =
     (if r \<in> set SERVICE_ONLY_ROLES then None
      else if r = js ''public_reader'' then Some Aal1
      else Some (if minimum_assurance r = High_assurance then Aal3 else Aal2))"

section \<open>Orders on the levels\<close>

lemma satisfiesAssurance_refl [simp]: "satisfiesAssurance a a"
  by (simp add: satisfiesAssurance_def)

lemma satisfiesAssurance_trans:
  "satisfiesAssurance a b \<Longrightarrow> satisfiesAssurance b c \<Longrightarrow> satisfiesAssurance a c"
  by (simp add: satisfiesAssurance_def)

lemma satisfiesAssurance_high [simp]: "satisfiesAssurance a High_assurance \<longleftrightarrow> a = High_assurance"
  by (cases a) (simp_all add: satisfiesAssurance_def)

lemma satisfies_level_trans:
  "satisfiesAuthenticationLevel a b \<Longrightarrow> satisfiesAuthenticationLevel b c \<Longrightarrow> satisfiesAuthenticationLevel a c"
  by (simp add: satisfiesAuthenticationLevel_def)

lemma aal3_iff_passkey: "deriveAuthenticationLevel f s = Aal3 \<longleftrightarrow> s = Some Second_passkey"
  by (auto simp: deriveAuthenticationLevel_def)

lemma level_up_second_factor: "deriveAuthenticationLevel f s = Aal1 \<longleftrightarrow> s = None"
  by (cases s) (auto simp: deriveAuthenticationLevel_def intro: second_factor.exhaust)

text \<open>A role whose identity minimum is high takes effect only in a session that proved a passkey.\<close>

lemma required_level_Some:
  "requiredAuthenticationLevel r = Some l \<longleftrightarrow>
     r \<notin> set SERVICE_ONLY_ROLES \<and>
     l = (if r = js ''public_reader'' then Aal1
          else if minimum_assurance r = High_assurance then Aal3 else Aal2)"
  by (auto simp: requiredAuthenticationLevel_def)

end
