(* ===== verification/Action_Policies.thy ===== *)
theory Action_Policies
  imports Authentication
begin

text \<open>
  The table of which role may perform which action: \<open>packages/api-contract/src/authorization.ts\<close>
  (\<open>ACTION_POLICIES\<close>) with the account actions of \<open>accounts.ts\<close>. The object literal of the source is
  the list of its entries in order, cut into the groups the source separates by comments; the keys
  are the \<open>action\<close> fields, which lemma \<open>action_keys_distinct\<close> shows to be distinct, so looking an
  action up by \<open>find\<close> is the property access of the source.
\<close>

datatype action_policy =
  ActionPolicy (policyAction: js_string) (allowedRoles: "js_string list") (secondPerson: "js_string option")

section \<open>Groups of roles\<close>

definition TENANT_WIDE_ROLES :: "js_string list" where
  "TENANT_WIDE_ROLES =
     [js ''public_reader'', js ''mpc_operator'', js ''security_operator'', js ''auditor'',
      js ''scan_service'', js ''cre_reporter'', js ''treasury_signer'', js ''gate_approver'',
      js ''protocol_proposer'', js ''protocol_voter'', js ''project_voter'',
      js ''external_regulated_service_provider'', js ''reviewer_cp_qp'', js ''reviewer_lab'',
      js ''reviewer_legal'', js ''reviewer_assurance'', js ''disclosure_approver'']"

definition WORKSPACE_READERS :: "js_string list" where
  "WORKSPACE_READERS =
     [js ''mpc_operator'', js ''security_operator'', js ''auditor'', js ''project_admin'',
      js ''project_sponsor_operator'', js ''spv_representative'', js ''data_steward'',
      js ''gate_approver'', js ''issuer_officer'', js ''execution_recorder'',
      js ''external_regulated_service_provider'', js ''reviewer_cp_qp'', js ''reviewer_lab'',
      js ''reviewer_legal'', js ''reviewer_assurance'', js ''disclosure_approver'']"

definition GOVERNANCE_READERS :: "js_string list" where
  "GOVERNANCE_READERS =
     WORKSPACE_READERS @
     [js ''protocol_voter'', js ''project_voter'', js ''protocol_proposer'', js ''project_proposer'']"

definition REGISTRY_APPROVER_ROLES :: "js_string list" where
  "REGISTRY_APPROVER_ROLES = [js ''reviewer_assurance'']"

definition DISCLOSURE_APPROVER_ROLES :: "js_string list" where
  "DISCLOSURE_APPROVER_ROLES = [js ''disclosure_approver'']"

definition BREAK_GLASS_ROLE :: js_string where
  "BREAK_GLASS_ROLE = js ''break_glass''"

definition BREAK_GLASS_ACTIONS :: "js_string list" where
  "BREAK_GLASS_ACTIONS = [js ''break_glass.quarantine'']"

definition BREAK_GLASS_INCIDENT_DUE_HOURS :: nat where
  "BREAK_GLASS_INCIDENT_DUE_HOURS = 24"

section \<open>Governance actions\<close>

datatype policy_space = Space_protocol | Space_project
datatype governance_verb = Verb_propose | Verb_vote | Verb_administer

primrec space_name :: "policy_space \<Rightarrow> js_string" where
  "space_name Space_protocol = js ''protocol''"
| "space_name Space_project = js ''project''"

primrec verb_name :: "governance_verb \<Rightarrow> js_string" where
  "verb_name Verb_propose = js ''propose''"
| "verb_name Verb_vote = js ''vote''"
| "verb_name Verb_administer = js ''administer''"

fun GOVERNANCE_SPACE_ROLES :: "policy_space \<Rightarrow> governance_verb \<Rightarrow> js_string list" where
  "GOVERNANCE_SPACE_ROLES Space_protocol Verb_propose = [js ''protocol_proposer'']"
| "GOVERNANCE_SPACE_ROLES Space_protocol Verb_vote = [js ''protocol_voter'']"
| "GOVERNANCE_SPACE_ROLES Space_protocol Verb_administer = [js ''protocol_proposer'', js ''mpc_operator'']"
| "GOVERNANCE_SPACE_ROLES Space_project Verb_propose = [js ''project_proposer'']"
| "GOVERNANCE_SPACE_ROLES Space_project Verb_vote = [js ''project_voter'']"
| "GOVERNANCE_SPACE_ROLES Space_project Verb_administer = [js ''project_proposer'', js ''mpc_operator'']"

definition governanceAction :: "policy_space \<Rightarrow> governance_verb \<Rightarrow> js_string" where
  "governanceAction space verb = js ''governance.'' @ space_name space @ js ''.'' @ verb_name verb"

definition governanceActions :: "action_policy list" where
  "governanceActions =
     concat (map (\<lambda>verb.
       map (\<lambda>space. ActionPolicy (governanceAction space verb) (GOVERNANCE_SPACE_ROLES space verb) None)
         [Space_protocol, Space_project] @
       [ActionPolicy (js ''governance.'' @ verb_name verb)
          (js_uniq (GOVERNANCE_SPACE_ROLES Space_protocol verb @ GOVERNANCE_SPACE_ROLES Space_project verb))
          None])
       [Verb_propose, Verb_vote, Verb_administer])"

section \<open>The table\<close>

definition read_policies :: "action_policy list" where
  "read_policies =
     [ActionPolicy (js ''project.read'') WORKSPACE_READERS None,
      ActionPolicy (js ''evidence.read'') (WORKSPACE_READERS @ [js ''scan_service'']) None,
      ActionPolicy (js ''verification.read'') WORKSPACE_READERS None,
      ActionPolicy (js ''readiness.read'') WORKSPACE_READERS None,
      ActionPolicy (js ''registry.read'') WORKSPACE_READERS None,
      ActionPolicy (js ''authority.read'') WORKSPACE_READERS None,
      ActionPolicy (js ''governance.read'') GOVERNANCE_READERS None]"

definition project_policies :: "action_policy list" where
  "project_policies =
     [ActionPolicy (js ''project.create'') [js ''mpc_operator'', js ''project_admin'',
        js ''project_sponsor_operator''] None,
      ActionPolicy (js ''project.update'') [js ''mpc_operator'', js ''project_admin''] None,
      ActionPolicy (js ''project.party.submit'') [js ''project_admin'',
        js ''project_sponsor_operator'', js ''spv_representative'', js ''issuer_officer'',
        js ''data_steward''] None,
      ActionPolicy (js ''project.fact.record'') [js ''data_steward''] None,
      ActionPolicy (js ''project.registration.request'') [js ''project_admin'',
        js ''project_sponsor_operator''] None,
      ActionPolicy (js ''project.stakeholder.record'') [js ''data_steward'',
        js ''project_sponsor_operator''] None,
      ActionPolicy (js ''source.upload'') [js ''data_steward'', js ''project_admin'',
        js ''project_sponsor_operator'', js ''spv_representative''] None,
      ActionPolicy (js ''upload.scan_result'') [js ''scan_service''] None]"

definition evidence_policies :: "action_policy list" where
  "evidence_policies =
     [ActionPolicy (js ''authority.register'') [js ''mpc_operator''] None,
      ActionPolicy (js ''authority.review'') [js ''reviewer_legal'', js ''reviewer_assurance'',
        js ''auditor'']
        (Some (js ''registrant '' @ [0x2260] @ js '' approver (route SEPARATION_OF_DUTIES)'')),
      ActionPolicy (js ''connection.configure'') [js ''mpc_operator'', js ''security_operator'']
        (Some (js ''reviewer '' @ [0x2260] @
          js '' activator (route CONNECTION_REVIEW_SAME_PERSON)'')),
      ActionPolicy (js ''source.collect'') [js ''data_steward'', js ''mpc_operator'']
        (Some (js ''first '' @ [0x2260] @
          js '' second confirmer (source_receipt_second_reviewer_differs, 0021)'')),
      ActionPolicy (js ''cre.report'') [js ''data_steward'', js ''mpc_operator'',
        js ''cre_reporter''] None,
      ActionPolicy (js ''claim.curate'') [js ''data_steward''] None,
      ActionPolicy (js ''document.rule.manage'') [js ''mpc_operator''] None,
      ActionPolicy (js ''attestation.dispute'') [js ''data_steward'', js ''reviewer_cp_qp'',
        js ''reviewer_lab'', js ''reviewer_legal'', js ''reviewer_assurance'', js ''auditor'',
        js ''mpc_operator'', js ''project_admin''] None,
      ActionPolicy (js ''attestation.sign'') [js ''reviewer_cp_qp'', js ''reviewer_lab'',
        js ''reviewer_legal'', js ''reviewer_assurance'']
        (Some (js ''claim submitter '' @ [0x2260] @ js '' reviewer (02 '' @ [0xA7] @
          js ''2.4, separation-sensitive resource)'')),
      ActionPolicy (js ''attestation.revoke'') [js ''reviewer_cp_qp'', js ''reviewer_lab'',
        js ''reviewer_legal'', js ''reviewer_assurance''] None]"

definition decision_policies :: "action_policy list" where
  "decision_policies =
     [ActionPolicy (js ''credential.status.change'') (REGISTRY_APPROVER_ROLES @
        [js ''security_operator''])
        (Some (js ''credential holder '' @ [0x2260] @
          js '' changer (route CREDENTIAL_SELF_STATUS_CHANGE)'')),
      ActionPolicy (js ''readiness.recompute'') [js ''mpc_operator'', js ''data_steward'',
        js ''gate_approver''] None,
      ActionPolicy (js ''gate.decide'') [js ''gate_approver'']
        (Some (js ''independent gate decision (02 '' @ [0xA7] @
          js ''2.4, separation-sensitive resource)'')),
      ActionPolicy (js ''registry.draft'') [js ''mpc_operator''] None,
      ActionPolicy (js ''registry.publish'') DISCLOSURE_APPROVER_ROLES
        (Some (js ''drafter '' @ [0x2260] @ js '' publisher (registry_draft_two_person, 0056)'')),
      ActionPolicy (js ''registry.revoke'') [js ''mpc_operator''] None,
      ActionPolicy (js ''anchor.submit'') [js ''mpc_operator''] None,
      ActionPolicy (js ''disclosure.restrict'') [js ''issuer_officer'', js ''mpc_operator''] None]"

definition governance_execution_policies :: "action_policy list" where
  "governance_execution_policies =
     [ActionPolicy (js ''governance.execution.record'') [js ''execution_recorder''] None,
      ActionPolicy (js ''audit.read'') [js ''auditor'', js ''security_operator'',
        js ''mpc_operator''] None,
      ActionPolicy (js ''audit.export'') [js ''auditor'', js ''security_operator''] None,
      ActionPolicy (js ''project.export'') WORKSPACE_READERS None]"

definition admin_policies :: "action_policy list" where
  "admin_policies =
     [ActionPolicy (js ''admin.read'') [js ''mpc_operator'', js ''security_operator'',
        js ''auditor''] None,
      ActionPolicy (js ''admin.subject.manage'') [js ''mpc_operator'', js ''security_operator'']
        None,
      ActionPolicy (js ''admin.wallet.manage'') [js ''mpc_operator'', js ''security_operator'']
        None,
      ActionPolicy (js ''admin.role.propose'') [js ''mpc_operator'', js ''security_operator'']
        None,
      ActionPolicy (js ''admin.role.approve'') [js ''mpc_operator'', js ''security_operator'']
        (Some (js ''proposer '' @ [0x2260] @
          js '' decider (role_grant_two_person 0028, role_revocation_two_person 0042, role_grant_not_self_target 0076)'')),
      ActionPolicy (js ''admin.mfa_reset.propose'') [js ''mpc_operator'',
        js ''security_operator''] None,
      ActionPolicy (js ''admin.mfa_reset.approve'') [js ''mpc_operator'',
        js ''security_operator'']
        (Some (js ''proposer '' @ [0x2260] @
          js '' decider, neither is the subject (mfa_reset_two_person, mfa_reset_not_self_target 0115)'')),
      ActionPolicy (js ''admin.subject_suspension.propose'') [js ''mpc_operator'',
        js ''security_operator'']
        (Some (js ''proposer '' @ [0x2260] @
          js '' the person (subject_suspensions_not_self 0127)'')),
      ActionPolicy (js ''admin.subject_suspension.approve'') [js ''mpc_operator'',
        js ''security_operator'']
        (Some (js ''proposer '' @ [0x2260] @
          js '' decider, neither is the person (subject_suspensions_two_person, subject_suspensions_not_self 0127)'')),
      ActionPolicy (js ''admin.notification.manage'') [js ''mpc_operator'',
        js ''security_operator''] None]"

definition review_and_lifecycle_policies :: "action_policy list" where
  "review_and_lifecycle_policies =
     [ActionPolicy (js ''review_registry.read'') ([js ''mpc_operator'', js ''security_operator'',
        js ''auditor''] @ REGISTRY_APPROVER_ROLES) None,
      ActionPolicy (js ''review_registry.propose'') [js ''mpc_operator''] None,
      ActionPolicy (js ''review_registry.approve'') REGISTRY_APPROVER_ROLES
        (Some (js ''proposer '' @ [0x2260] @
          js '' approver (registry_proposal_two_person, 0043)'')),
      ActionPolicy (js ''project.lifecycle.suspend'') [js ''mpc_operator'',
        js ''security_operator'', js ''issuer_officer''] None,
      ActionPolicy (js ''project.lifecycle.advance'') [js ''issuer_officer'',
        js ''gate_approver'']
        (Some (js ''suspender '' @ [0x2260] @ js '' reinstater (route LIFECYCLE_RESUME_SELF)''))]"

definition break_glass_policies :: "action_policy list" where
  "break_glass_policies =
     [ActionPolicy (js ''connection.security_review'') [js ''security_operator'']
        (Some (js ''reviewer '' @ [0x2260] @
          js '' activator (route CONNECTION_REVIEW_SAME_PERSON)'')),
      ActionPolicy (js ''break_glass.read'') [js ''security_operator'', js ''auditor''] None,
      ActionPolicy (js ''break_glass.request'') [js ''security_operator''] None,
      ActionPolicy (js ''break_glass.approve'') [js ''security_operator'']
        (Some (js ''elevated subject '' @ [0x2260] @
          js '' approver (break_glass_two_person, 0073)'')),
      ActionPolicy (js ''break_glass.incident'') [js ''security_operator''] None,
      ActionPolicy (js ''break_glass.release'') [js ''security_operator'']
        (Some (js ''elevated subject '' @ [0x2260] @
          js '' releaser (break_glass_release_two_person, 0073)'')),
      ActionPolicy (js ''break_glass.quarantine'') [BREAK_GLASS_ROLE] None]"

definition ACCOUNT_ACTION_POLICIES :: "action_policy list" where
  "ACCOUNT_ACTION_POLICIES =
     [ActionPolicy (js ''admin.invitation.manage'') [js ''mpc_operator'',
        js ''security_operator''] None,
      ActionPolicy (js ''admin.email_change.propose'') [js ''mpc_operator'',
        js ''security_operator''] None,
      ActionPolicy (js ''admin.email_change.approve'') [js ''mpc_operator'',
        js ''security_operator'']
        (Some (js ''proposer '' @ [0x2260] @ js '' decider '' @ [0x2260] @
          js '' subject (email_change_two_person, email_change_not_own_decision 0113)''))]"

definition ACTION_POLICIES :: "action_policy list" where
  "ACTION_POLICIES =
     read_policies @ project_policies @ evidence_policies @ decision_policies @ governanceActions @
     governance_execution_policies @ admin_policies @ ACCOUNT_ACTION_POLICIES @
     review_and_lifecycle_policies @ break_glass_policies"

definition policy_of :: "js_string \<Rightarrow> action_policy option" where
  "policy_of action = find (\<lambda>p. policyAction p = action) ACTION_POLICIES"

definition SECOND_PERSON_ROLES :: "js_string list" where
  "SECOND_PERSON_ROLES =
     sort (js_uniq (concat (map allowedRoles (filter (\<lambda>p. secondPerson p \<noteq> None) ACTION_POLICIES))))"

section \<open>Facts of the table\<close>

lemmas role_group_defs =
  TENANT_WIDE_ROLES_def WORKSPACE_READERS_def GOVERNANCE_READERS_def REGISTRY_APPROVER_ROLES_def
  DISCLOSURE_APPROVER_ROLES_def BREAK_GLASS_ROLE_def BREAK_GLASS_ACTIONS_def

lemma governanceActions_eq:
  "governanceActions =
     [ActionPolicy (js ''governance.protocol.propose'') [js ''protocol_proposer''] None,
      ActionPolicy (js ''governance.project.propose'') [js ''project_proposer''] None,
      ActionPolicy (js ''governance.propose'') [js ''protocol_proposer'', js ''project_proposer''] None,
      ActionPolicy (js ''governance.protocol.vote'') [js ''protocol_voter''] None,
      ActionPolicy (js ''governance.project.vote'') [js ''project_voter''] None,
      ActionPolicy (js ''governance.vote'') [js ''protocol_voter'', js ''project_voter''] None,
      ActionPolicy (js ''governance.protocol.administer'') [js ''protocol_proposer'', js ''mpc_operator''] None,
      ActionPolicy (js ''governance.project.administer'') [js ''project_proposer'', js ''mpc_operator''] None,
      ActionPolicy (js ''governance.administer'')
        [js ''protocol_proposer'', js ''mpc_operator'', js ''project_proposer''] None]"
  by (simp add: governanceActions_def governanceAction_def js_uniq_def js_append [symmetric])

lemmas policy_groups =
  read_policies_def project_policies_def evidence_policies_def decision_policies_def
  governanceActions_eq governance_execution_policies_def admin_policies_def
  ACCOUNT_ACTION_POLICIES_def review_and_lifecycle_policies_def break_glass_policies_def

lemma ball_policies:
  "(\<forall>p \<in> set ACTION_POLICIES. P p) \<longleftrightarrow>
     list_all P read_policies \<and> list_all P project_policies \<and> list_all P evidence_policies \<and>
     list_all P decision_policies \<and> list_all P governanceActions \<and>
     list_all P governance_execution_policies \<and> list_all P admin_policies \<and>
     list_all P ACCOUNT_ACTION_POLICIES \<and> list_all P review_and_lifecycle_policies \<and>
     list_all P break_glass_policies"
  by (auto simp: ACTION_POLICIES_def list_all_iff)

text \<open>The keys of the table, and that no two of its entries have the same.\<close>

lemma action_keys:
  "map policyAction ACTION_POLICIES =
     [js ''project.read'', js ''evidence.read'', js ''verification.read'', js ''readiness.read'',
      js ''registry.read'', js ''authority.read'', js ''governance.read'', js ''project.create'',
      js ''project.update'', js ''project.party.submit'', js ''project.fact.record'',
      js ''project.registration.request'', js ''project.stakeholder.record'',
      js ''source.upload'', js ''upload.scan_result'', js ''authority.register'',
      js ''authority.review'', js ''connection.configure'', js ''source.collect'',
      js ''cre.report'', js ''claim.curate'', js ''document.rule.manage'',
      js ''attestation.dispute'', js ''attestation.sign'', js ''attestation.revoke'',
      js ''credential.status.change'', js ''readiness.recompute'', js ''gate.decide'',
      js ''registry.draft'', js ''registry.publish'', js ''registry.revoke'',
      js ''anchor.submit'', js ''disclosure.restrict'', js ''governance.protocol.propose'',
      js ''governance.project.propose'', js ''governance.propose'',
      js ''governance.protocol.vote'', js ''governance.project.vote'', js ''governance.vote'',
      js ''governance.protocol.administer'', js ''governance.project.administer'',
      js ''governance.administer'', js ''governance.execution.record'', js ''audit.read'',
      js ''audit.export'', js ''project.export'', js ''admin.read'', js ''admin.subject.manage'',
      js ''admin.wallet.manage'', js ''admin.role.propose'', js ''admin.role.approve'',
      js ''admin.mfa_reset.propose'', js ''admin.mfa_reset.approve'',
      js ''admin.subject_suspension.propose'', js ''admin.subject_suspension.approve'',
      js ''admin.notification.manage'', js ''admin.invitation.manage'',
      js ''admin.email_change.propose'', js ''admin.email_change.approve'',
      js ''review_registry.read'', js ''review_registry.propose'',
      js ''review_registry.approve'', js ''project.lifecycle.suspend'',
      js ''project.lifecycle.advance'', js ''connection.security_review'',
      js ''break_glass.read'', js ''break_glass.request'', js ''break_glass.approve'',
      js ''break_glass.incident'', js ''break_glass.release'', js ''break_glass.quarantine'']"
  by (simp add: ACTION_POLICIES_def policy_groups)

lemma action_keys_distinct: "distinct (map policyAction ACTION_POLICIES)"
  by (simp add: action_keys)

lemma policy_of_Some: "policy_of a = Some p \<Longrightarrow> p \<in> set ACTION_POLICIES \<and> policyAction p = a"
  unfolding policy_of_def by (drule find_Some_set) simp

lemma policy_of_key: "p \<in> set ACTION_POLICIES \<Longrightarrow> policy_of (policyAction p) = Some p"
proof -
  assume p: "p \<in> set ACTION_POLICIES"
  then obtain p' where p': "policy_of (policyAction p) = Some p'"
    unfolding policy_of_def by (cases "find (\<lambda>x. policyAction x = policyAction p) ACTION_POLICIES") (auto simp: find_eq_None_iff)
  then have "p' \<in> set ACTION_POLICIES" "policyAction p' = policyAction p" using policy_of_Some by blast+
  then have "p' = p" using p action_keys_distinct by (metis distinct_map inj_onD)
  then show ?thesis using p' by simp
qed

text \<open>
  Without a role there is only \<open>public_reader\<close>, which holds no action; the elevated role of
  break-glass holds exactly the emergency actions; the scanner reports scans, and nobody else does.
\<close>

lemma public_reader_holds_nothing: "\<forall>p \<in> set ACTION_POLICIES. js ''public_reader'' \<notin> set (allowedRoles p)"
  unfolding ball_policies by (intro conjI; simp add: policy_groups role_group_defs)

lemma break_glass_holds:
  "\<forall>p \<in> set ACTION_POLICIES.
     BREAK_GLASS_ROLE \<in> set (allowedRoles p) \<longleftrightarrow> policyAction p \<in> set BREAK_GLASS_ACTIONS"
  unfolding ball_policies by (intro conjI; simp add: policy_groups role_group_defs)

lemma scan_service_holds:
  "\<forall>p \<in> set ACTION_POLICIES.
     js ''scan_service'' \<in> set (allowedRoles p) \<longleftrightarrow>
     policyAction p = js ''evidence.read'' \<or> policyAction p = js ''upload.scan_result''"
  unfolding ball_policies by (intro conjI; simp add: policy_groups role_group_defs)

lemma operator_never_decides:
  "\<forall>p \<in> set ACTION_POLICIES.
     js ''mpc_operator'' \<in> set (allowedRoles p) \<longrightarrow>
     policyAction p \<notin> {js ''governance.propose'', js ''governance.protocol.propose'',
       js ''governance.project.propose'', js ''governance.vote'', js ''governance.protocol.vote'',
       js ''governance.project.vote'', js ''authority.review'', js ''registry.publish'',
       js ''review_registry.approve'', js ''gate.decide'', js ''attestation.sign''}"
  unfolding ball_policies by (intro conjI; simp add: policy_groups role_group_defs)

end
