(* ===== verification/Authorization.thy ===== *)
theory Authorization
  imports Action_Policies Attestation
begin

text \<open>
  The access decision: \<open>authorize\<close> of \<open>packages/api-contract/src/authorization.ts\<close>. A missing
  optional attribute and \<open>null\<close> are told apart only where the code tells them apart: the host
  jurisdiction of a resource is an option of an option (\<open>None\<close> is absent, \<open>Some None\<close> is \<open>null\<close>), the
  jurisdictions of a binding are one option.
\<close>

datatype deny_reason =
    ROLE_ACTION_NOT_ALLOWED | ASSURANCE_LEVEL_INSUFFICIENT | TENANT_SCOPE_MISMATCH
  | PROJECT_SCOPE_MISMATCH | JURISDICTION_SCOPE_MISMATCH | SENSITIVITY_CLEARANCE_INSUFFICIENT
  | CREDENTIAL_OR_ASSIGNMENT_INVALID | RESOURCE_STATE_FORBIDS_ACTION | CONFLICT_OR_SEPARATION_VIOLATION

datatype project_scope = All_projects | Projects "js_string list"

definition role_request_path :: js_string where
  "role_request_path = js ''/w/access-requests''"

definition assurance_request_path :: js_string where
  "assurance_request_path = js ''/w/identity/upgrade''"

definition project_request_path :: "js_string \<Rightarrow> js_string" where
  "project_request_path pid = js ''/w/projects/'' @ pid @ js ''/access-requests''"

record authorization_context =
  role :: js_string
  assuranceLevel :: assurance_level
  actorTenantId :: js_string
  actorProjectIds :: project_scope
  sensitivityClearance :: "js_string list"
  hasRequiredCredential :: bool
  hasRequiredAssignment :: bool
  actorConflictStatus :: conflict_status
  jurisdictionScope :: "js_string list option"

record resource_context =
  resourceTenantId :: js_string
  resourceProjectId :: "js_string option"
  resourceSensitivity :: js_string
  resourceState :: js_string
  statesAllowingAction :: "js_string list"
  requiresCredential :: bool
  requiresAssignment :: bool
  separationSensitive :: bool
  resourceJurisdiction :: "js_string option option"
  filteredByProjectScope :: bool

record denial =
  denyReason :: deny_reason
  requiredRoles :: "js_string list option"
  requiredAssurance :: "assurance_level option"
  accessRequestPath :: "js_string option"

datatype authorization_decision = Allow | Deny denial

definition deny :: "deny_reason \<Rightarrow> authorization_decision" where
  "deny r = Deny \<lparr>denyReason = r, requiredRoles = None, requiredAssurance = None, accessRequestPath = None\<rparr>"

definition scope_includes :: "project_scope \<Rightarrow> js_string \<Rightarrow> bool" where
  "scope_includes s p = (case s of All_projects \<Rightarrow> True | Projects ps \<Rightarrow> p \<in> set ps)"

definition jurisdictionMatches :: "authorization_context \<Rightarrow> resource_context \<Rightarrow> bool" where
  "jurisdictionMatches actor resource =
     (case jurisdictionScope actor of
        None \<Rightarrow> True
      | Some scope \<Rightarrow>
          \<not> (\<not> (resourceProjectId resource = None \<and> filteredByProjectScope resource) \<and>
             (case resourceJurisdiction resource of
                None \<Rightarrow> True | Some None \<Rightarrow> True | Some (Some j) \<Rightarrow> j \<notin> set scope)))"

definition authorizeResourceConditions :: "authorization_context \<Rightarrow> resource_context \<Rightarrow> authorization_decision" where
  "authorizeResourceConditions actor resource =
     (if resourceSensitivity resource \<notin> set (sensitivityClearance actor)
      then deny SENSITIVITY_CLEARANCE_INSUFFICIENT
      else if requiresCredential resource \<and> \<not> hasRequiredCredential actor
      then deny CREDENTIAL_OR_ASSIGNMENT_INVALID
      else if requiresAssignment resource \<and> \<not> hasRequiredAssignment actor
      then deny CREDENTIAL_OR_ASSIGNMENT_INVALID
      else if resourceState resource \<notin> set (statesAllowingAction resource)
      then deny RESOURCE_STATE_FORBIDS_ACTION
      else if separationSensitive resource \<and> actorConflictStatus actor = Conflict_unresolved
      then deny CONFLICT_OR_SEPARATION_VIOLATION
      else Allow)"

definition authorize ::
    "action_policy \<Rightarrow> authorization_context \<Rightarrow> resource_context \<Rightarrow> authorization_decision" where
  "authorize p actor resource =
     (if role actor \<notin> set (allowedRoles p)
      then Deny \<lparr>denyReason = ROLE_ACTION_NOT_ALLOWED, requiredRoles = Some (allowedRoles p),
                 requiredAssurance = None,
                 accessRequestPath =
                   Some (case resourceProjectId resource of
                           None \<Rightarrow> role_request_path
                         | Some pid \<Rightarrow> if pid = [] then role_request_path else project_request_path pid)\<rparr>
      else if \<not> satisfiesAssurance (assuranceLevel actor) (minimum_assurance (role actor))
      then Deny \<lparr>denyReason = ASSURANCE_LEVEL_INSUFFICIENT, requiredRoles = None,
                 requiredAssurance = Some (minimum_assurance (role actor)),
                 accessRequestPath = Some assurance_request_path\<rparr>
      else if actorTenantId actor \<noteq> resourceTenantId resource then deny TENANT_SCOPE_MISMATCH
      else case resourceProjectId resource of
        Some pid \<Rightarrow>
          if \<not> scope_includes (actorProjectIds actor) pid
          then Deny \<lparr>denyReason = PROJECT_SCOPE_MISMATCH, requiredRoles = None, requiredAssurance = None,
                     accessRequestPath = Some (project_request_path pid)\<rparr>
          else if \<not> jurisdictionMatches actor resource then deny JURISDICTION_SCOPE_MISMATCH
          else authorizeResourceConditions actor resource
      | None \<Rightarrow>
          if \<not> jurisdictionMatches actor resource then deny JURISDICTION_SCOPE_MISMATCH
          else authorizeResourceConditions actor resource)"

section \<open>The decision formula\<close>

definition in_project_scope :: "authorization_context \<Rightarrow> resource_context \<Rightarrow> bool" where
  "in_project_scope actor resource =
     (case resourceProjectId resource of None \<Rightarrow> True | Some pid \<Rightarrow> scope_includes (actorProjectIds actor) pid)"

lemma deny_neq_Allow [simp]: "deny r \<noteq> Allow" "Allow \<noteq> deny r"
  by (simp_all add: deny_def)

text \<open>
  The decision formula: an action is allowed exactly when the role may perform it, the identity
  assurance meets the minimum of the role, actor and resource are of one tenant, the project is in
  the scope of the binding, the jurisdiction matches, the clearance covers the sensitivity, a
  required credential and a required assignment are held, the state of the resource allows the
  action, and no unresolved conflict meets a resource that is sensitive to separation.
\<close>

theorem authorize_allows_iff:
  "authorize p actor resource = Allow \<longleftrightarrow>
     role actor \<in> set (allowedRoles p) \<and>
     satisfiesAssurance (assuranceLevel actor) (minimum_assurance (role actor)) \<and>
     actorTenantId actor = resourceTenantId resource \<and>
     in_project_scope actor resource \<and> jurisdictionMatches actor resource \<and>
     resourceSensitivity resource \<in> set (sensitivityClearance actor) \<and>
     (hasRequiredCredential actor \<or> \<not> requiresCredential resource) \<and>
     (hasRequiredAssignment actor \<or> \<not> requiresAssignment resource) \<and>
     resourceState resource \<in> set (statesAllowingAction resource) \<and>
     \<not> (separationSensitive resource \<and> actorConflictStatus actor = Conflict_unresolved)"
  by (cases "resourceProjectId resource")
    (auto simp: authorize_def in_project_scope_def authorizeResourceConditions_def)

text \<open>
  A binding limited to some jurisdictions reaches a resource exactly when the host jurisdiction is
  known and listed; at tenant level only the lists that are filtered by project scope.
\<close>

lemma scoped_binding_fails_closed:
  assumes "jurisdictionScope actor = Some scope"
  shows "jurisdictionMatches actor resource \<longleftrightarrow>
    (resourceProjectId resource = None \<and> filteredByProjectScope resource) \<or>
    (\<exists>j \<in> set scope. resourceJurisdiction resource = Some (Some j))"
  using assms by (auto simp: jurisdictionMatches_def split: option.splits)

lemma unscoped_binding_matches [simp]: "jurisdictionScope actor = None \<Longrightarrow> jurisdictionMatches actor resource"
  by (simp add: jurisdictionMatches_def)

end
