(* ===== verification/Session.thy ===== *)
theory Session
  imports Authorization "HOL-Library.AList"
begin

text \<open>
  Who is calling: \<open>apps/api/src/plugins/session.ts\<close> and the reading of a session row in
  \<open>session-token.ts\<close>.

  The database is a parameter. \<open>authority_store\<close> holds what the queries of this file read: the
  answer of the SQL function \<open>core.resolve_role_bindings\<close>, the rows of \<open>break_glass_elevations\<close> and
  \<open>projects\<close> that a transaction of a tenant sees, and the clock of the database in milliseconds.
  The \<open>WHERE\<close> clauses are written out as filters. \<open>Map.set\<close> and building an object from entries are
  \<open>AList.update\<close>: a key keeps its first place and its last value.
\<close>

section \<open>The data\<close>

record held_binding =
  heldRole :: js_string
  heldOrganization :: "js_string option"
  heldProject :: "js_string option"
  heldJurisdiction :: "js_string list option"

record elevation_row =
  elevationRowId :: js_string
  elevatedSubject :: js_string
  elevationState :: js_string
  elevationExpires :: int
  incidentRecorded :: "int option"
  elevationDecided :: "int option"

record project_row =
  projectRowId :: js_string
  hostCountry :: js_string
  ownerOrganization :: js_string

record authority_store =
  resolve_role_bindings :: "js_string \<Rightarrow> held_binding list"
  elevation_rows :: "js_string \<Rightarrow> elevation_row list"
  project_rows :: "js_string \<Rightarrow> project_row list"
  database_now :: int

record role_binding =
  bindingRole :: js_string
  organizationId :: "js_string option"
  projectId :: "js_string option"
  bindingJurisdiction :: "js_string list option"
  elevationId :: "js_string option"

datatype principal = Person | Service
datatype service_scope = Scope_scan_result | Scope_cre_report

record session =
  principal :: principal
  sessionId :: js_string
  sessionSubjectId :: "js_string option"
  sessionTenantId :: "js_string option"
  sessionAssurance :: assurance_level
  firstFactor :: "first_factor option"
  secondFactor :: "second_factor option"
  recoveryLimited :: bool
  aal :: "authentication_level option"
  serviceScopes :: "service_scope list option"
  roleBindings :: "role_binding list"
  narrowedRoles :: "(js_string \<times> authentication_level option) list"
  projectIds :: "js_string list"
  organizationProjectIds :: "(js_string \<times> js_string list) list option"
  projectJurisdictions :: "(js_string \<times> js_string) list option"

section \<open>Narrowing the roles\<close>

datatype role_verdict = Effective | Needs "authentication_level option"

definition hours :: "nat \<Rightarrow> int" where
  "hours n = int n * 60 * 60 * 1000"

definition elevation_in_force :: "int \<Rightarrow> js_string \<Rightarrow> elevation_row \<Rightarrow> bool" where
  "elevation_in_force now subject row \<longleftrightarrow>
     elevatedSubject row = subject \<and> elevationState row = js ''active'' \<and> elevationExpires row > now \<and>
     (incidentRecorded row \<noteq> None \<or>
      (case elevationDecided row of
         None \<Rightarrow> False
       | Some decided \<Rightarrow> decided + hours BREAK_GLASS_INCIDENT_DUE_HOURS > now))"

definition resolveBreakGlassElevation :: "authority_store \<Rightarrow> js_string \<Rightarrow> js_string \<Rightarrow> js_string option" where
  "resolveBreakGlassElevation st tenant subject =
     map_option elevationRowId
       (find (elevation_in_force (database_now st) subject) (elevation_rows st tenant))"

definition resolveProjectJurisdictions ::
    "authority_store \<Rightarrow> js_string \<Rightarrow> js_string list \<Rightarrow> (js_string \<times> js_string) list" where
  "resolveProjectJurisdictions st tenant jurisdictions =
     fold (\<lambda>row. AList.update (projectRowId row) (hostCountry row))
       (filter (\<lambda>row. hostCountry row \<in> set jurisdictions) (project_rows st tenant)) []"

definition resolveOrganizationProjects ::
    "authority_store \<Rightarrow> js_string \<Rightarrow> held_binding list \<Rightarrow> (js_string \<times> js_string list) list" where
  "resolveOrganizationProjects st tenant bindings =
     (let organizations =
            js_uniq (List.map_filter
              (\<lambda>row. if heldProject row = None \<and> heldRole row \<notin> set TENANT_WIDE_ROLES
                     then heldOrganization row else None) bindings)
      in if organizations = [] then []
         else
           (let rows = filter (\<lambda>row. ownerOrganization row \<in> set organizations) (project_rows st tenant)
            in map (\<lambda>org. (org, map projectRowId (filter (\<lambda>row. ownerOrganization row = org) rows)))
                 organizations))"

definition note_verdict ::
    "js_string \<Rightarrow> role_verdict \<Rightarrow> (js_string \<times> authentication_level option) list \<Rightarrow>
     (js_string \<times> authentication_level option) list" where
  "note_verdict r v narrowed = (case v of Effective \<Rightarrow> narrowed | Needs l \<Rightarrow> AList.update r l narrowed)"

definition to_binding :: "held_binding \<Rightarrow> role_binding" where
  "to_binding row =
     \<lparr>bindingRole = heldRole row, organizationId = heldOrganization row, projectId = heldProject row,
      bindingJurisdiction = heldJurisdiction row, elevationId = None\<rparr>"

definition elevated_binding :: "js_string \<Rightarrow> role_binding" where
  "elevated_binding e =
     \<lparr>bindingRole = BREAK_GLASS_ROLE, organizationId = None, projectId = None,
      bindingJurisdiction = None, elevationId = Some e\<rparr>"

text \<open>
  The part of a session that \<open>resolveAuthority\<close> fills. An elevation with an empty identifier is as
  good as none, as the conditional spread of the source tests its truth.
\<close>

record authority =
  authorityBindings :: "role_binding list"
  authorityNarrowed :: "(js_string \<times> authentication_level option) list"
  authorityProjects :: "js_string list"
  authorityOrganizations :: "(js_string \<times> js_string list) list"
  authorityJurisdictions :: "(js_string \<times> js_string) list option"

definition resolveAuthority ::
    "authority_store \<Rightarrow> js_string \<Rightarrow> js_string \<Rightarrow> (js_string \<Rightarrow> role_verdict) \<Rightarrow> authority" where
  "resolveAuthority st tenant subject meets =
     (let held = resolve_role_bindings st subject;
          bindings = filter (\<lambda>row. meets (heldRole row) = Effective) held;
          narrowed = fold (\<lambda>row. note_verdict (heldRole row) (meets (heldRole row))) held [];
          candidate =
            (if list_ex (\<lambda>row. heldRole row = js ''security_operator'') bindings
             then resolveBreakGlassElevation st tenant subject else None);
          elevation = (if meets BREAK_GLASS_ROLE = Effective then candidate else None);
          narrowed' =
            (if candidate = None then narrowed
             else note_verdict BREAK_GLASS_ROLE (meets BREAK_GLASS_ROLE) narrowed);
          scoped = list_ex (\<lambda>row. heldJurisdiction row \<noteq> None) bindings
      in \<lparr>authorityBindings =
            map to_binding bindings @
            (case elevation of None \<Rightarrow> [] | Some e \<Rightarrow> if e = [] then [] else [elevated_binding e]),
          authorityNarrowed = narrowed',
          authorityProjects = List.map_filter heldProject bindings,
          authorityOrganizations = resolveOrganizationProjects st tenant bindings,
          authorityJurisdictions =
            (if scoped
             then Some (resolveProjectJurisdictions st tenant
               (js_uniq (concat (map (\<lambda>row. case heldJurisdiction row of None \<Rightarrow> [] | Some places \<Rightarrow> places) bindings))))
             else None)\<rparr>)"

section \<open>Sessions of persons and of services\<close>

record session_row =
  rowSessionId :: js_string
  rowSubjectId :: js_string
  rowTenantId :: js_string
  rowFirstFactor :: first_factor
  rowSecondFactor :: "second_factor option"
  rowRecoveryLimited :: bool
  rowAssurance :: assurance_level

record service_token =
  tokenId :: js_string
  tokenSubjectId :: js_string
  tokenTenantId :: js_string
  tokenScopes :: "service_scope list"
  tokenAssurance :: assurance_level

definition person_verdict :: "session_row \<Rightarrow> js_string \<Rightarrow> role_verdict" where
  "person_verdict row r =
     (let level = deriveAuthenticationLevel (rowFirstFactor row) (rowSecondFactor row);
          required = requiredAuthenticationLevel r
      in if rowRecoveryLimited row then Needs required
         else case required of
           None \<Rightarrow> Needs None
         | Some l \<Rightarrow> if satisfiesAuthenticationLevel level l then Effective else Needs (Some l))"

definition service_verdict :: "js_string \<Rightarrow> role_verdict" where
  "service_verdict r = (if r \<in> set SERVICE_ONLY_ROLES then Effective else Needs None)"

definition resolveSession :: "authority_store \<Rightarrow> session_row \<Rightarrow> session" where
  "resolveSession st row =
     (let a = resolveAuthority st (rowTenantId row) (rowSubjectId row) (person_verdict row)
      in \<lparr>principal = Person, sessionId = rowSessionId row, sessionSubjectId = Some (rowSubjectId row),
          sessionTenantId = Some (rowTenantId row), sessionAssurance = rowAssurance row,
          firstFactor = Some (rowFirstFactor row), secondFactor = rowSecondFactor row,
          recoveryLimited = rowRecoveryLimited row,
          aal = Some (deriveAuthenticationLevel (rowFirstFactor row) (rowSecondFactor row)),
          serviceScopes = None, roleBindings = authorityBindings a, narrowedRoles = authorityNarrowed a,
          projectIds = authorityProjects a, organizationProjectIds = Some (authorityOrganizations a),
          projectJurisdictions = authorityJurisdictions a\<rparr>)"

definition resolveServiceSession :: "authority_store \<Rightarrow> service_token \<Rightarrow> session" where
  "resolveServiceSession st token =
     (let a = resolveAuthority st (tokenTenantId token) (tokenSubjectId token) service_verdict
      in \<lparr>principal = Service, sessionId = tokenId token, sessionSubjectId = Some (tokenSubjectId token),
          sessionTenantId = Some (tokenTenantId token), sessionAssurance = tokenAssurance token,
          firstFactor = None, secondFactor = None, recoveryLimited = False, aal = None,
          serviceScopes = Some (tokenScopes token), roleBindings = authorityBindings a,
          narrowedRoles = authorityNarrowed a, projectIds = authorityProjects a,
          organizationProjectIds = Some (authorityOrganizations a),
          projectJurisdictions = authorityJurisdictions a\<rparr>)"

text \<open>
  The row of \<open>core.resolve_session\<close>, columns nullable and the factor an arbitrary value of the
  database type: anything that is not an account session gives no session.
\<close>

record raw_session_row =
  rawSessionId :: js_string
  rawSubjectId :: "js_string option"
  rawTenantId :: "js_string option"
  rawFirstFactor :: js_string
  rawSecondFactor :: "second_factor option"
  rawRecoveryLimited :: bool
  rawAssurance :: "assurance_level option"

definition parse_first_factor :: "js_string \<Rightarrow> first_factor option" where
  "parse_first_factor s =
     map_of [(js ''email_code'', First_email_code), (js ''google'', First_google),
             (js ''microsoft'', First_microsoft)] s"

definition resolveSessionToken :: "raw_session_row option \<Rightarrow> session_row option" where
  "resolveSessionToken found =
     (case found of
        None \<Rightarrow> None
      | Some row \<Rightarrow>
          (case (parse_first_factor (rawFirstFactor row), rawSubjectId row, rawTenantId row, rawAssurance row) of
             (Some f, Some subject, Some tenant, Some level) \<Rightarrow>
               Some \<lparr>rowSessionId = rawSessionId row, rowSubjectId = subject, rowTenantId = tenant,
                     rowFirstFactor = f, rowSecondFactor = rawSecondFactor row,
                     rowRecoveryLimited = rawRecoveryLimited row, rowAssurance = level\<rparr>
           | _ \<Rightarrow> None))"

section \<open>What takes effect\<close>

lemma authority_bindings_mem:
  "b \<in> set (authorityBindings (resolveAuthority st tenant subject meets)) \<Longrightarrow>
     (meets (bindingRole b) = Effective) \<and>
     (elevationId b = None \<and> (\<exists>row \<in> set (resolve_role_bindings st subject). b = to_binding row) \<or>
      (\<exists>e. b = elevated_binding e \<and> resolveBreakGlassElevation st tenant subject = Some e \<and>
         meets (js ''security_operator'') = Effective))"
  by (auto simp: resolveAuthority_def Let_def to_binding_def elevated_binding_def list_ex_iff
      split: option.splits if_splits)

lemma in_force_elevation:
  "resolveBreakGlassElevation st tenant subject = Some e \<Longrightarrow>
     \<exists>row \<in> set (elevation_rows st tenant).
       elevationRowId row = e \<and> elevation_in_force (database_now st) subject row"
  by (auto simp: resolveBreakGlassElevation_def dest: find_Some_set)

lemma person_verdict_Effective:
  "person_verdict row r = Effective \<longleftrightarrow>
     \<not> rowRecoveryLimited row \<and>
     (\<exists>l. requiredAuthenticationLevel r = Some l \<and>
        satisfiesAuthenticationLevel (deriveAuthenticationLevel (rowFirstFactor row) (rowSecondFactor row)) l)"
  by (auto simp: person_verdict_def Let_def split: option.splits)

lemma level_Aal3: "satisfiesAuthenticationLevel l Aal3 \<longleftrightarrow> l = Aal3"
  by (cases l) (simp_all add: satisfiesAuthenticationLevel_def)

lemma level_Aal2: "satisfiesAuthenticationLevel l Aal2 \<longleftrightarrow> l \<noteq> Aal1"
  by (cases l) (simp_all add: satisfiesAuthenticationLevel_def)

lemma minimum_break_glass: "minimum_assurance BREAK_GLASS_ROLE = High_assurance"
  by (simp add: minimum_assurance_def BREAK_GLASS_ROLE_def ROLE_MINIMUM_ASSURANCE_def)

lemma minimum_public_reader: "minimum_assurance (js ''public_reader'') = Wallet_only"
  by (simp add: minimum_assurance_def ROLE_MINIMUM_ASSURANCE_def)

lemma person_verdict_passkey:
  "person_verdict row r = Effective \<Longrightarrow>
     minimum_assurance r = High_assurance \<longrightarrow> rowSecondFactor row = Some Second_passkey"
  by (cases "r = js ''public_reader''")
    (auto simp: person_verdict_Effective required_level_Some level_Aal3 aal3_iff_passkey minimum_public_reader)

lemma person_verdict_second_factor:
  "person_verdict row r = Effective \<Longrightarrow> r \<noteq> js ''public_reader'' \<longrightarrow> rowSecondFactor row \<noteq> None"
  by (auto simp: person_verdict_Effective required_level_Some level_Aal3 level_Aal2
      level_up_second_factor aal3_iff_passkey split: if_splits)

text \<open>
  C31. The roles in effect are the roles proved: whatever bindings the database answers with, a
  session of a person that was restored by a recovery code has no role in effect; no role of a
  service ever takes effect; a role whose identity minimum is high takes effect only after a passkey
  and any other role (the public reader apart) only after a second factor; the elevated role takes
  effect only under an elevation of that subject that is active, not expired and not overdue. A
  service token makes nothing but the roles of services effective.
\<close>

theorem roles_in_effect_are_proved:
  "(\<forall>b \<in> set (roleBindings (resolveSession st row)).
      \<not> rowRecoveryLimited row \<and> bindingRole b \<notin> set SERVICE_ONLY_ROLES \<and>
      (minimum_assurance (bindingRole b) = High_assurance \<longrightarrow> rowSecondFactor row = Some Second_passkey) \<and>
      (bindingRole b \<noteq> js ''public_reader'' \<longrightarrow> rowSecondFactor row \<noteq> None) \<and>
      (elevationId b \<noteq> None \<longrightarrow>
        (\<exists>e \<in> set (elevation_rows st (rowTenantId row)).
           elevationId b = Some (elevationRowId e) \<and>
           elevation_in_force (database_now st) (rowSubjectId row) e))) \<and>
   (\<forall>b \<in> set (roleBindings (resolveServiceSession st token)). bindingRole b \<in> set SERVICE_ONLY_ROLES)"
proof (intro conjI ballI)
  fix b assume "b \<in> set (roleBindings (resolveSession st row))"
  then have "b \<in> set (authorityBindings
      (resolveAuthority st (rowTenantId row) (rowSubjectId row) (person_verdict row)))"
    by (simp add: resolveSession_def Let_def)
  note fact = authority_bindings_mem [OF this]
  then have verdict: "person_verdict row (bindingRole b) = Effective" by simp
  show "\<not> rowRecoveryLimited row" "bindingRole b \<notin> set SERVICE_ONLY_ROLES"
    using verdict by (auto simp: person_verdict_Effective required_level_Some)
  show "minimum_assurance (bindingRole b) = High_assurance \<longrightarrow> rowSecondFactor row = Some Second_passkey"
    using verdict by (rule person_verdict_passkey)
  show "bindingRole b \<noteq> js ''public_reader'' \<longrightarrow> rowSecondFactor row \<noteq> None"
    using verdict by (rule person_verdict_second_factor)
  show "elevationId b \<noteq> None \<longrightarrow>
      (\<exists>e \<in> set (elevation_rows st (rowTenantId row)).
         elevationId b = Some (elevationRowId e) \<and> elevation_in_force (database_now st) (rowSubjectId row) e)"
    using fact by (auto simp: elevated_binding_def dest!: in_force_elevation)
next
  fix b assume "b \<in> set (roleBindings (resolveServiceSession st token))"
  then have "service_verdict (bindingRole b) = Effective"
    by (auto simp: resolveServiceSession_def Let_def dest: authority_bindings_mem)
  then show "bindingRole b \<in> set SERVICE_ONLY_ROLES"
    by (simp add: service_verdict_def split: if_splits)
qed

text \<open>A reviewer with a passkey, and the scanner with its token.\<close>

definition sample_store :: authority_store where
  "sample_store =
     \<lparr>resolve_role_bindings = (\<lambda>s. if s = js ''scanner''
          then [\<lparr>heldRole = js ''scan_service'', heldOrganization = None, heldProject = None, heldJurisdiction = None\<rparr>]
          else [\<lparr>heldRole = js ''reviewer_lab'', heldOrganization = None, heldProject = Some (js ''p1''), heldJurisdiction = None\<rparr>,
                \<lparr>heldRole = js ''scan_service'', heldOrganization = None, heldProject = None, heldJurisdiction = None\<rparr>]),
      elevation_rows = (\<lambda>_. []), project_rows = (\<lambda>_. []), database_now = 0\<rparr>"

definition sample_row :: session_row where
  "sample_row =
     \<lparr>rowSessionId = js ''s'', rowSubjectId = js ''ann'', rowTenantId = js ''t'', rowFirstFactor = First_google,
      rowSecondFactor = Some Second_passkey, rowRecoveryLimited = False, rowAssurance = High_assurance\<rparr>"

definition sample_token :: service_token where
  "sample_token =
     \<lparr>tokenId = js ''k'', tokenSubjectId = js ''scanner'', tokenTenantId = js ''t'',
      tokenScopes = [Scope_scan_result], tokenAssurance = High_assurance\<rparr>"

lemma sample_bindings:
  "map bindingRole (roleBindings (resolveSession sample_store sample_row)) = [js ''reviewer_lab'']"
  "map bindingRole (roleBindings (resolveServiceSession sample_store sample_token)) = [js ''scan_service'']"
  by (simp_all add: resolveSession_def resolveServiceSession_def resolveAuthority_def sample_store_def
      sample_row_def sample_token_def person_verdict_def service_verdict_def Let_def to_binding_def
      requiredAuthenticationLevel_def SERVICE_ONLY_ROLES_def minimum_assurance_def
      ROLE_MINIMUM_ASSURANCE_def deriveAuthenticationLevel_def satisfiesAuthenticationLevel_def)

theorem roles_in_effect_are_proved_witness:
  "map bindingRole (roleBindings (resolveSession sample_store sample_row)) = [js ''reviewer_lab''] \<and>
   list_all (\<lambda>b. bindingRole b \<notin> set SERVICE_ONLY_ROLES) (roleBindings (resolveSession sample_store sample_row)) \<and>
   map bindingRole (roleBindings (resolveServiceSession sample_store sample_token)) = [js ''scan_service''] \<and>
   list_all (\<lambda>b. bindingRole b \<in> set SERVICE_ONLY_ROLES) (roleBindings (resolveServiceSession sample_store sample_token))"
  unfolding list_all_iff
  using roles_in_effect_are_proved [of sample_store sample_row sample_token] sample_bindings by blast

end
