(* ===== verification/App_Error.thy ===== *)
theory App_Error
  imports Registry_Prelude
begin

text \<open>
  The errors the API answers with: \<open>apps/api/src/errors.ts\<close>. A handler that throws returns \<open>Inl\<close>
  of an \<open>app_error\<close>; the details are kept as an association list in the order they are written.
  \<open>Detail_number\<close> is a number printed by \<open>String\<close>, \<open>None\<close> being infinity, and \<open>Detail_time\<close> a point
  of time in milliseconds printed by \<open>toISOString\<close>.
\<close>

datatype error_detail =
    Detail_string js_string
  | Detail_strings "js_string list"
  | Detail_null
  | Detail_number "nat option"
  | Detail_time int
  | Detail_list "error_detail list"
  | Detail_object "(js_string \<times> error_detail) list"

record app_error =
  errorCode :: js_string
  errorMessage :: js_string
  errorStatus :: nat
  errorRetryable :: bool
  errorDetails :: "(js_string \<times> error_detail) list option"

definition badRequest :: "js_string \<Rightarrow> js_string \<Rightarrow> app_error" where
  "badRequest c m =
     \<lparr>errorCode = c, errorMessage = m, errorStatus = 400, errorRetryable = False, errorDetails = None\<rparr>"

definition unauthorized :: "js_string \<Rightarrow> js_string \<Rightarrow> app_error" where
  "unauthorized c m =
     \<lparr>errorCode = c, errorMessage = m, errorStatus = 401, errorRetryable = False, errorDetails = None\<rparr>"

definition forbidden ::
    "js_string \<Rightarrow> js_string \<Rightarrow> (js_string \<times> error_detail) list option \<Rightarrow> app_error" where
  "forbidden c m d =
     \<lparr>errorCode = c, errorMessage = m, errorStatus = 403, errorRetryable = False, errorDetails = d\<rparr>"

definition notFound :: "js_string \<Rightarrow> app_error" where
  "notFound m =
     \<lparr>errorCode = js ''NOT_FOUND'', errorMessage = m, errorStatus = 404, errorRetryable = False,
      errorDetails = None\<rparr>"

definition conflict ::
    "js_string \<Rightarrow> js_string \<Rightarrow> (js_string \<times> error_detail) list option \<Rightarrow> app_error" where
  "conflict c m d =
     \<lparr>errorCode = c, errorMessage = m, errorStatus = 409, errorRetryable = False, errorDetails = d\<rparr>"

definition preconditionFailed ::
    "js_string \<Rightarrow> js_string \<Rightarrow> (js_string \<times> error_detail) list option \<Rightarrow> app_error" where
  "preconditionFailed c m d =
     \<lparr>errorCode = c, errorMessage = m, errorStatus = 412, errorRetryable = False, errorDetails = d\<rparr>"

definition preconditionRequired ::
    "js_string \<Rightarrow> js_string \<Rightarrow> (js_string \<times> error_detail) list option \<Rightarrow> app_error" where
  "preconditionRequired c m d =
     \<lparr>errorCode = c, errorMessage = m, errorStatus = 428, errorRetryable = False, errorDetails = d\<rparr>"

definition unprocessable ::
    "js_string \<Rightarrow> js_string \<Rightarrow> (js_string \<times> error_detail) list option \<Rightarrow> app_error" where
  "unprocessable c m d =
     \<lparr>errorCode = c, errorMessage = m, errorStatus = 422, errorRetryable = False, errorDetails = d\<rparr>"

definition tooManyRequests ::
    "js_string \<Rightarrow> js_string \<Rightarrow> (js_string \<times> error_detail) list option \<Rightarrow> app_error" where
  "tooManyRequests c m d =
     \<lparr>errorCode = c, errorMessage = m, errorStatus = 429, errorRetryable = True, errorDetails = d\<rparr>"

definition unavailable :: "js_string \<Rightarrow> js_string \<Rightarrow> app_error" where
  "unavailable c m =
     \<lparr>errorCode = c, errorMessage = m, errorStatus = 503, errorRetryable = True, errorDetails = None\<rparr>"

text \<open>An exception that is no error of the application: the client sees \<open>INTERNAL_ERROR\<close>.\<close>

definition unexpected_error :: app_error where
  "unexpected_error =
     \<lparr>errorCode = js ''INTERNAL_ERROR'', errorMessage = js ''The request could not be processed'',
      errorStatus = 500, errorRetryable = True, errorDetails = None\<rparr>"

lemma error_code_simps [simp]:
  "errorCode (badRequest c m) = c" "errorCode (unauthorized c m) = c"
  "errorCode (forbidden c m d) = c" "errorCode (conflict c m d) = c"
  "errorCode (preconditionFailed c m d) = c" "errorCode (preconditionRequired c m d) = c"
  "errorCode (unprocessable c m d) = c" "errorCode (tooManyRequests c m d) = c"
  "errorCode (unavailable c m) = c" "errorCode (notFound m) = js ''NOT_FOUND''"
  by (simp_all add: badRequest_def unauthorized_def forbidden_def conflict_def preconditionFailed_def
      preconditionRequired_def unprocessable_def tooManyRequests_def unavailable_def notFound_def)

section \<open>The envelope of a response\<close>

text \<open>
  \<open>toErrorEnvelope\<close> tells the errors of the application from everything else that can be thrown;
  \<open>Unknown_thrown\<close> stands for the latter, of which nothing reaches the client.
\<close>

datatype thrown = App_thrown app_error | Unknown_thrown

record error_envelope =
  envelopeCode :: js_string
  envelopeMessage :: js_string
  envelopeDetails :: "(js_string \<times> error_detail) list option"
  envelopeRetryable :: bool
  envelopeCorrelationId :: js_string

definition toErrorEnvelope :: "thrown \<Rightarrow> js_string \<Rightarrow> error_envelope" where
  "toErrorEnvelope t correlationId =
     (case t of
        App_thrown e \<Rightarrow>
          \<lparr>envelopeCode = errorCode e, envelopeMessage = errorMessage e, envelopeDetails = errorDetails e,
           envelopeRetryable = errorRetryable e, envelopeCorrelationId = correlationId\<rparr>
      | Unknown_thrown \<Rightarrow>
          \<lparr>envelopeCode = js ''INTERNAL_ERROR'',
           envelopeMessage = js ''The request could not be processed'', envelopeDetails = None,
           envelopeRetryable = True, envelopeCorrelationId = correlationId\<rparr>)"

end
