(* ===== verification/Authorize.thy ===== *)
theory Authorize
  imports Session App_Error
begin

text \<open>
  The decision of the server: \<open>apps/api/src/plugins/authorize.ts\<close>. A route asks \<open>assertAuthorized\<close>
  for one resource and \<open>visibleProjectScope\<close> for a list; both rest on the bindings of the session.
  Lookups in the records of the session are lookups in association lists, an absent record being
  \<open>None\<close>. An optional attribute of \<open>overrides\<close> that is not given is \<open>None\<close>.
\<close>

section \<open>Facts of the session\<close>

record actor_facts =
  factClearance :: "js_string list"
  factCredential :: bool
  factAssignment :: bool
  factConflict :: conflict_status

record actor_overrides =
  overClearance :: "js_string list option"
  overCredential :: "bool option"
  overAssignment :: "bool option"
  overConflict :: "conflict_status option"

primrec CLEARANCE_BY_ASSURANCE :: "assurance_level \<Rightarrow> js_string list" where
  "CLEARANCE_BY_ASSURANCE Wallet_only = [js ''public'']"
| "CLEARANCE_BY_ASSURANCE Identity_bound = [js ''public'', js ''restricted'']"
| "CLEARANCE_BY_ASSURANCE High_assurance = [js ''public'', js ''restricted'']"

definition given :: "'a \<Rightarrow> 'a option \<Rightarrow> 'a" where
  "given d x = (case x of None \<Rightarrow> d | Some v \<Rightarrow> v)"

lemma given_simps [simp]: "given d None = d" "given d (Some v) = v"
  by (simp_all add: given_def)

definition sessionFacts :: "session \<Rightarrow> actor_overrides \<Rightarrow> actor_facts" where
  "sessionFacts s over =
     \<lparr>factClearance = given (CLEARANCE_BY_ASSURANCE (sessionAssurance s)) (overClearance over),
      factCredential = given False (overCredential over),
      factAssignment = given False (overAssignment over),
      factConflict = given Conflict_none (overConflict over)\<rparr>"

definition no_actor_overrides :: actor_overrides where
  "no_actor_overrides =
     \<lparr>overClearance = None, overCredential = None, overAssignment = None, overConflict = None\<rparr>"

section \<open>What a binding reaches\<close>

definition baseScopeOf :: "session \<Rightarrow> role_binding \<Rightarrow> project_scope" where
  "baseScopeOf s b =
     (case projectId b of
        Some p \<Rightarrow> Projects [p]
      | None \<Rightarrow>
          if bindingRole b \<in> set TENANT_WIDE_ROLES then All_projects
          else (case organizationId b of
            None \<Rightarrow> Projects []
          | Some org \<Rightarrow>
              (case organizationProjectIds s of
                 None \<Rightarrow> Projects []
               | Some owned \<Rightarrow> Projects (given [] (map_of owned org)))))"

definition withinJurisdiction :: "session \<Rightarrow> role_binding \<Rightarrow> project_scope \<Rightarrow> project_scope" where
  "withinJurisdiction s b scope =
     (case bindingJurisdiction b of
        None \<Rightarrow> scope
      | Some jurisdiction \<Rightarrow>
          (let hosts = given [] (projectJurisdictions s);
               inScope = (\<lambda>p. case map_of hosts p of None \<Rightarrow> False | Some host \<Rightarrow> host \<in> set jurisdiction)
           in Projects (filter inScope
                (case scope of All_projects \<Rightarrow> map fst hosts | Projects ps \<Rightarrow> ps))))"

definition scopeOf :: "session \<Rightarrow> role_binding \<Rightarrow> project_scope" where
  "scopeOf s b = withinJurisdiction s b (baseScopeOf s b)"

definition usableBindings :: "session \<Rightarrow> js_string \<Rightarrow> role_binding list" where
  "usableBindings s action =
     (case policy_of action of
        None \<Rightarrow> []
      | Some p \<Rightarrow>
          filter (\<lambda>b. bindingRole b \<in> set (allowedRoles p) \<and>
                      satisfiesAssurance (sessionAssurance s) (minimum_assurance (bindingRole b)))
            (roleBindings s))"

definition holdsActionRole :: "session \<Rightarrow> js_string \<Rightarrow> bool" where
  "holdsActionRole s action \<longleftrightarrow> length (usableBindings s action) > 0"

datatype organization_scope = All_organizations | Organizations "js_string list"

definition actableOrganizations :: "session \<Rightarrow> js_string \<Rightarrow> organization_scope" where
  "actableOrganizations s action =
     (let bindings = usableBindings s action
      in if list_ex (\<lambda>b. bindingRole b \<in> set TENANT_WIDE_ROLES) bindings then All_organizations
         else Organizations (js_uniq (List.map_filter organizationId bindings)))"

definition canActForOrganization :: "session \<Rightarrow> js_string \<Rightarrow> js_string \<Rightarrow> bool" where
  "canActForOrganization s action org =
     (case actableOrganizations s action of
        All_organizations \<Rightarrow> True
      | Organizations orgs \<Rightarrow> org \<in> set orgs)"

definition bindingToAuthorizationContext ::
    "session \<Rightarrow> role_binding \<Rightarrow> actor_facts \<Rightarrow> authorization_context" where
  "bindingToAuthorizationContext s b facts =
     \<lparr>role = bindingRole b, assuranceLevel = sessionAssurance s,
      actorTenantId = given [] (sessionTenantId s), actorProjectIds = baseScopeOf s b,
      sensitivityClearance = factClearance facts, hasRequiredCredential = factCredential facts,
      hasRequiredAssignment = factAssignment facts, actorConflictStatus = factConflict facts,
      jurisdictionScope = bindingJurisdiction b\<rparr>"

definition visibleProjectScope :: "session \<Rightarrow> js_string \<Rightarrow> project_scope" where
  "visibleProjectScope s action =
     (let scopes = map (scopeOf s) (usableBindings s action)
      in if list_ex (\<lambda>scope. scope = All_projects) scopes then All_projects
         else Projects (js_uniq (concat
           (map (\<lambda>scope. case scope of All_projects \<Rightarrow> [] | Projects ps \<Rightarrow> ps) scopes))))"

section \<open>Resources\<close>

record resource_overrides =
  overSensitivity :: "js_string option"
  overState :: "js_string option"
  overStatesAllowing :: "js_string list option"
  overRequiresCredential :: "bool option"
  overRequiresAssignment :: "bool option"
  overSeparation :: "bool option"
  overJurisdiction :: "js_string option option"
  overFiltered :: "bool option"

definition no_resource_overrides :: resource_overrides where
  "no_resource_overrides =
     \<lparr>overSensitivity = None, overState = None, overStatesAllowing = None, overRequiresCredential = None,
      overRequiresAssignment = None, overSeparation = None, overJurisdiction = None, overFiltered = None\<rparr>"

definition resource_of :: "js_string \<Rightarrow> js_string option \<Rightarrow> resource_overrides \<Rightarrow> resource_context" where
  "resource_of tenant project over =
     \<lparr>resourceTenantId = tenant, resourceProjectId = project,
      resourceSensitivity = given (js ''restricted'') (overSensitivity over),
      resourceState = given (js ''active'') (overState over),
      statesAllowingAction = given [js ''active''] (overStatesAllowing over),
      requiresCredential = given False (overRequiresCredential over),
      requiresAssignment = given False (overRequiresAssignment over),
      separationSensitive = given False (overSeparation over),
      resourceJurisdiction = overJurisdiction over,
      filteredByProjectScope = given False (overFiltered over)\<rparr>"

definition tenantResource :: "js_string \<Rightarrow> resource_overrides \<Rightarrow> resource_context" where
  "tenantResource tenant over = resource_of tenant None over"

definition projectResource :: "js_string \<Rightarrow> js_string \<Rightarrow> resource_overrides \<Rightarrow> resource_context" where
  "projectResource tenant project over = resource_of tenant (Some project) over"

definition withResourceJurisdiction :: "session \<Rightarrow> resource_context \<Rightarrow> resource_context" where
  "withResourceJurisdiction s resource =
     (case (resourceJurisdiction resource, resourceProjectId resource, projectJurisdictions s) of
        (None, Some p, Some hosts) \<Rightarrow> resource\<lparr>resourceJurisdiction := Some (map_of hosts p)\<rparr>
      | _ \<Rightarrow> resource)"

section \<open>The decision of the server\<close>

definition PUBLIC_READER :: role_binding where
  "PUBLIC_READER =
     \<lparr>bindingRole = js ''public_reader'', organizationId = None, projectId = None,
      bindingJurisdiction = None, elevationId = None\<rparr>"

text \<open>
  The loop over the candidates: the role of the first binding that passes, or the denial of the
  last one tried.
\<close>

fun first_allowed ::
    "action_policy \<Rightarrow> session \<Rightarrow> resource_context \<Rightarrow> actor_facts \<Rightarrow> role_binding list \<Rightarrow> denial option \<Rightarrow>
     denial option + js_string" where
  "first_allowed p s resource facts [] lastDenial = Inl lastDenial"
| "first_allowed p s resource facts (b # bs) lastDenial =
     (case authorize p (bindingToAuthorizationContext s b facts) resource of
        Allow \<Rightarrow> Inr (bindingRole b)
      | Deny d \<Rightarrow> first_allowed p s resource facts bs (Some d))"

primrec deny_reason_name :: "deny_reason \<Rightarrow> js_string" where
  "deny_reason_name ROLE_ACTION_NOT_ALLOWED = js ''ROLE_ACTION_NOT_ALLOWED''"
| "deny_reason_name ASSURANCE_LEVEL_INSUFFICIENT = js ''ASSURANCE_LEVEL_INSUFFICIENT''"
| "deny_reason_name TENANT_SCOPE_MISMATCH = js ''TENANT_SCOPE_MISMATCH''"
| "deny_reason_name PROJECT_SCOPE_MISMATCH = js ''PROJECT_SCOPE_MISMATCH''"
| "deny_reason_name JURISDICTION_SCOPE_MISMATCH = js ''JURISDICTION_SCOPE_MISMATCH''"
| "deny_reason_name SENSITIVITY_CLEARANCE_INSUFFICIENT = js ''SENSITIVITY_CLEARANCE_INSUFFICIENT''"
| "deny_reason_name CREDENTIAL_OR_ASSIGNMENT_INVALID = js ''CREDENTIAL_OR_ASSIGNMENT_INVALID''"
| "deny_reason_name RESOURCE_STATE_FORBIDS_ACTION = js ''RESOURCE_STATE_FORBIDS_ACTION''"
| "deny_reason_name CONFLICT_OR_SEPARATION_VIOLATION = js ''CONFLICT_OR_SEPARATION_VIOLATION''"

primrec assurance_name :: "assurance_level \<Rightarrow> js_string" where
  "assurance_name Wallet_only = js ''wallet_only''"
| "assurance_name Identity_bound = js ''identity_bound''"
| "assurance_name High_assurance = js ''high_assurance''"

primrec level_name :: "authentication_level \<Rightarrow> js_string" where
  "level_name Aal1 = js ''aal1''"
| "level_name Aal2 = js ''aal2''"
| "level_name Aal3 = js ''aal3''"

definition denial_details :: "denial \<Rightarrow> (js_string \<times> error_detail) list" where
  "denial_details d =
     [(js ''reason'', Detail_string (deny_reason_name (denyReason d)))] @
     (case requiredRoles d of None \<Rightarrow> [] | Some rs \<Rightarrow> [(js ''requiredRoles'', Detail_strings rs)]) @
     (case requiredAssurance d of
        None \<Rightarrow> [] | Some a \<Rightarrow> [(js ''requiredAssurance'', Detail_string (assurance_name a))]) @
     (case accessRequestPath d of
        None \<Rightarrow> []
      | Some path \<Rightarrow> if path = [] then [] else [(js ''accessRequestPath'', Detail_string path)])"

definition assertAuthorized ::
    "session \<Rightarrow> js_string \<Rightarrow> resource_context \<Rightarrow> actor_facts \<Rightarrow> app_error + js_string" where
  "assertAuthorized s action resource facts =
     (case policy_of action of
        None \<Rightarrow> Inl (badRequest (js ''ACTION_UNKNOWN'') (js ''Unknown action: '' @ action))
      | Some p \<Rightarrow>
          (let candidates = (if length (roleBindings s) > 0 then roleBindings s else [PUBLIC_READER]);
               located = withResourceJurisdiction s resource
           in case first_allowed p s located facts candidates None of
                Inr r \<Rightarrow> Inr r
              | Inl lastDenial \<Rightarrow>
                  (case find (\<lambda>(r, _). r \<in> set (allowedRoles p)) (narrowedRoles s) of
                     Some (r, level) \<Rightarrow>
                       Inl (forbidden (js ''AUTHORIZATION_DENIED'')
                         (js ''This session'' @ [0x27] @ js ''s sign-in level does not allow this role'')
                         (Some [(js ''reason'', Detail_string (js ''AUTHENTICATION_LEVEL_INSUFFICIENT'')),
                                (js ''role'', Detail_string r),
                                (js ''requiredAal'', case level of None \<Rightarrow> Detail_null
                                   | Some l \<Rightarrow> Detail_string (level_name l))]))
                   | None \<Rightarrow>
                       (case lastDenial of
                          Some d \<Rightarrow>
                            Inl (forbidden (js ''AUTHORIZATION_DENIED'')
                              (js ''You do not have permission to perform this action'') (Some (denial_details d)))
                        | None \<Rightarrow>
                            Inl (forbidden (js ''AUTHORIZATION_DENIED'')
                              (js ''You do not have permission to perform this action'') None)))))"

end
