(* ===== verification/Authorize_Laws.thy ===== *)
theory Authorize_Laws
  imports Authorize
begin

text \<open>
  What the decision of the server promises: who passes, that lists and single decisions agree, and
  that nothing passes before a second factor was proved.
\<close>

section \<open>The loop over the bindings\<close>

lemma first_allowed_Inr:
  "first_allowed p s resource facts bs d = Inr r \<Longrightarrow>
     \<exists>b \<in> set bs. bindingRole b = r \<and>
       authorize p (bindingToAuthorizationContext s b facts) resource = Allow"
  by (induction bs arbitrary: d) (auto split: authorization_decision.splits)

lemma first_allowed_passes:
  "(\<exists>r. first_allowed p s resource facts bs d = Inr r) \<longleftrightarrow>
     (\<exists>b \<in> set bs. authorize p (bindingToAuthorizationContext s b facts) resource = Allow)"
  by (induction bs arbitrary: d) (auto split: authorization_decision.splits)

lemma authorize_role:
  "authorize p actor resource = Allow \<Longrightarrow> role actor \<in> set (allowedRoles p)"
  by (simp add: authorize_allows_iff)

lemma public_reader_refused:
  "policy_of a = Some p \<Longrightarrow>
     authorize p (bindingToAuthorizationContext s PUBLIC_READER facts) resource \<noteq> Allow"
  using public_reader_holds_nothing policy_of_Some [of a p]
  by (auto simp: bindingToAuthorizationContext_def PUBLIC_READER_def dest: authorize_role)

definition candidates :: "session \<Rightarrow> role_binding list" where
  "candidates s = (if length (roleBindings s) > 0 then roleBindings s else [PUBLIC_READER])"

lemma candidate_passes:
  assumes "policy_of a = Some p" and "b \<in> set (candidates s)"
    and "authorize p (bindingToAuthorizationContext s b facts) resource = Allow"
  shows "b \<in> set (roleBindings s)"
proof (cases "roleBindings s = []")
  case True
  with assms(2) have "b = PUBLIC_READER" by (simp add: candidates_def)
  with assms(1,3) show ?thesis using public_reader_refused by blast
next
  case False
  with assms(2) show ?thesis by (simp add: candidates_def)
qed

lemma assertAuthorized_Inr:
  assumes "assertAuthorized s a resource facts = Inr r"
  shows "\<exists>p. policy_of a = Some p \<and>
    (\<exists>b \<in> set (roleBindings s). bindingRole b = r \<and>
       authorize p (bindingToAuthorizationContext s b facts) (withResourceJurisdiction s resource) = Allow)"
proof -
  obtain p where p: "policy_of a = Some p"
    and first: "first_allowed p s (withResourceJurisdiction s resource) facts (candidates s) None = Inr r"
    using assms by (auto simp: assertAuthorized_def candidates_def Let_def
        split: option.splits sum.splits if_splits)
  from first_allowed_Inr [OF first] p candidate_passes [OF p] show ?thesis by blast
qed

lemma assertAuthorized_passes:
  "(\<exists>r. assertAuthorized s a resource facts = Inr r) \<longleftrightarrow>
     (\<exists>p. policy_of a = Some p \<and>
       (\<exists>b \<in> set (roleBindings s).
          authorize p (bindingToAuthorizationContext s b facts) (withResourceJurisdiction s resource) = Allow))"
    (is "?L \<longleftrightarrow> ?R")
proof
  assume ?L
  then show ?R using assertAuthorized_Inr by blast
next
  assume ?R
  then obtain p b where p: "policy_of a = Some p" and b: "b \<in> set (roleBindings s)"
    "authorize p (bindingToAuthorizationContext s b facts) (withResourceJurisdiction s resource) = Allow"
    by blast
  have "b \<in> set (candidates s)" using b(1) by (auto simp: candidates_def)
  then obtain r where "first_allowed p s (withResourceJurisdiction s resource) facts (candidates s) None = Inr r"
    using first_allowed_passes b(2) by blast
  then have "assertAuthorized s a resource facts = Inr r"
    using p by (simp add: assertAuthorized_def candidates_def Let_def)
  then show ?L by blast
qed

section \<open>Lists and single decisions\<close>

definition jurisdiction_admits :: "session \<Rightarrow> role_binding \<Rightarrow> js_string \<Rightarrow> bool" where
  "jurisdiction_admits s b pid =
     (case bindingJurisdiction b of
        None \<Rightarrow> True
      | Some places \<Rightarrow> \<exists>host \<in> set places. map_of (given [] (projectJurisdictions s)) pid = Some host)"

lemma scopeOf_includes:
  "scope_includes (scopeOf s b) pid \<longleftrightarrow> scope_includes (baseScopeOf s b) pid \<and> jurisdiction_admits s b pid"
proof -
  have key: "map_of hosts pid = Some host \<Longrightarrow> pid \<in> fst ` set hosts" for hosts :: "(js_string \<times> js_string) list" and host
    by (force dest: map_of_SomeD)
  show ?thesis
    by (auto simp: scopeOf_def withinJurisdiction_def jurisdiction_admits_def scope_includes_def Let_def key
        split: option.splits project_scope.splits)
qed

lemma visible_includes:
  "scope_includes (visibleProjectScope s a) pid \<longleftrightarrow>
     (\<exists>b \<in> set (usableBindings s a). scope_includes (scopeOf s b) pid)"
proof (cases "list_ex (\<lambda>scope. scope = All_projects) (map (scopeOf s) (usableBindings s a))")
  case True
  then obtain b where "b \<in> set (usableBindings s a)" "scopeOf s b = All_projects"
    by (auto simp: list_ex_iff)
  moreover have "visibleProjectScope s a = All_projects"
    using True by (simp add: visibleProjectScope_def)
  ultimately show ?thesis by (force simp: scope_includes_def)
next
  case False
  have listed: "scope_includes (scopeOf s b) pid \<longleftrightarrow>
      pid \<in> set (case scopeOf s b of All_projects \<Rightarrow> [] | Projects ps \<Rightarrow> ps)"
    if "b \<in> set (usableBindings s a)" for b
    using that False
    by (cases "scopeOf s b") (auto simp: scope_includes_def list_ex_iff image_iff dest: sym)
  have "scope_includes (visibleProjectScope s a) pid \<longleftrightarrow>
      (\<exists>b \<in> set (usableBindings s a). pid \<in> set (case scopeOf s b of All_projects \<Rightarrow> [] | Projects ps \<Rightarrow> ps))"
    using False by (simp add: visibleProjectScope_def Let_def scope_includes_def)
  then show ?thesis using listed by blast
qed

lemma located_jurisdiction:
  "jurisdictionMatches (bindingToAuthorizationContext s b facts)
     (withResourceJurisdiction s (projectResource t pid no_resource_overrides)) \<longleftrightarrow>
   jurisdiction_admits s b pid"
proof (cases "bindingJurisdiction b")
  case None
  then show ?thesis
    by (simp add: jurisdictionMatches_def bindingToAuthorizationContext_def jurisdiction_admits_def)
next
  case (Some places)
  show ?thesis
    by (cases "projectJurisdictions s"; cases "map_of (given [] (projectJurisdictions s)) pid")
      (simp_all add: Some jurisdictionMatches_def bindingToAuthorizationContext_def
        withResourceJurisdiction_def projectResource_def resource_of_def no_resource_overrides_def
        jurisdiction_admits_def)
qed

lemma located_fields:
  "resourceProjectId (withResourceJurisdiction s r) = resourceProjectId r"
  "resourceTenantId (withResourceJurisdiction s r) = resourceTenantId r"
  "resourceSensitivity (withResourceJurisdiction s r) = resourceSensitivity r"
  "resourceState (withResourceJurisdiction s r) = resourceState r"
  "statesAllowingAction (withResourceJurisdiction s r) = statesAllowingAction r"
  "requiresCredential (withResourceJurisdiction s r) = requiresCredential r"
  "requiresAssignment (withResourceJurisdiction s r) = requiresAssignment r"
  "separationSensitive (withResourceJurisdiction s r) = separationSensitive r"
  by (simp_all add: withResourceJurisdiction_def split: option.splits)

lemma restricted_clearance: "js ''restricted'' \<in> set (CLEARANCE_BY_ASSURANCE l) \<longleftrightarrow> l \<noteq> Wallet_only"
  by (cases l) simp_all

lemma default_decision:
  "authorize p (bindingToAuthorizationContext s b (sessionFacts s no_actor_overrides))
     (withResourceJurisdiction s (projectResource t pid no_resource_overrides)) = Allow \<longleftrightarrow>
   bindingRole b \<in> set (allowedRoles p) \<and>
   satisfiesAssurance (sessionAssurance s) (minimum_assurance (bindingRole b)) \<and>
   given [] (sessionTenantId s) = t \<and> scope_includes (scopeOf s b) pid \<and> sessionAssurance s \<noteq> Wallet_only"
  unfolding authorize_allows_iff located_jurisdiction in_project_scope_def located_fields scopeOf_includes
  by (simp add: bindingToAuthorizationContext_def projectResource_def resource_of_def
      no_resource_overrides_def sessionFacts_def no_actor_overrides_def restricted_clearance conj_ac)

text \<open>
  C32. Lists and decisions agree: a project is in the scope by which a list of an action is filtered
  exactly when the same session, asked for that one project of its tenant with the default resource,
  is allowed the action (identity assurance above a bare wallet being the clearance that the default
  sensitivity needs). So a list never shows a project on which the person is then refused, and never
  hides one on which the person would be allowed.
\<close>

theorem list_scope_agrees_with_decision:
  "(\<exists>r. assertAuthorized s a (projectResource t pid no_resource_overrides)
          (sessionFacts s no_actor_overrides) = Inr r) \<longleftrightarrow>
   given [] (sessionTenantId s) = t \<and> sessionAssurance s \<noteq> Wallet_only \<and>
   scope_includes (visibleProjectScope s a) pid"
  unfolding assertAuthorized_passes default_decision visible_includes
  by (cases "policy_of a") (auto simp: usableBindings_def)

section \<open>Who passes\<close>

text \<open>
  Nothing passes without proof: a session of a person that has not proved a second factor, or
  that a recovery code restored, is refused every action on every resource, whatever bindings the
  database holds for the person and whatever facts a route looked up.
\<close>

theorem unproved_session_refused:
  assumes "rowSecondFactor row = None \<or> rowRecoveryLimited row"
  shows "\<exists>e. assertAuthorized (resolveSession st row) a resource facts = Inl e"
proof (cases "assertAuthorized (resolveSession st row) a resource facts")
  case (Inr r)
  let ?s = "resolveSession st row"
  obtain p b where p: "policy_of a = Some p" and b: "b \<in> set (roleBindings ?s)"
    and ok: "authorize p (bindingToAuthorizationContext ?s b facts) (withResourceJurisdiction ?s resource) = Allow"
    using assertAuthorized_Inr [OF Inr] by blast
  have verdict: "person_verdict row (bindingRole b) = Effective"
    using b by (auto simp: resolveSession_def Let_def dest: authority_bindings_mem)
  then have "rowSecondFactor row = None" using assms by (auto simp: person_verdict_Effective)
  then have "bindingRole b = js ''public_reader''"
    using person_verdict_second_factor [OF verdict] by blast
  moreover have "bindingRole b \<in> set (allowedRoles p)"
    using authorize_role [OF ok] by (simp add: bindingToAuthorizationContext_def)
  ultimately show ?thesis using public_reader_holds_nothing policy_of_Some [OF p] by auto
qed simp

theorem unproved_session_refused_witness:
  "\<exists>e. assertAuthorized (resolveSession sample_store (sample_row\<lparr>rowSecondFactor := None\<rparr>))
     (js ''attestation.sign'') (tenantResource (js ''t'') no_resource_overrides)
     (sessionFacts (resolveSession sample_store sample_row) no_actor_overrides) = Inl e"
  by (rule unproved_session_refused) simp

text \<open>The role that a decision returns for the audit record is one that the session holds and that
  the table allows the action.\<close>

lemma effective_role_held:
  assumes "assertAuthorized s a resource facts = Inr r"
  shows "r \<in> bindingRole ` set (roleBindings s) \<and> (\<exists>p. policy_of a = Some p \<and> r \<in> set (allowedRoles p)) \<and>
    given [] (sessionTenantId s) = resourceTenantId resource"
  using assertAuthorized_Inr [OF assms]
  by (auto simp: authorize_allows_iff bindingToAuthorizationContext_def located_fields)

text \<open>Every refusal carries details: the plain refusal at the end of the source is never reached.\<close>

lemma first_allowed_denial: "first_allowed p s resource facts bs (Some d) \<noteq> Inl None"
  by (induction bs arbitrary: d) (auto split: authorization_decision.splits)

lemma refusal_has_details:
  assumes "assertAuthorized s a resource facts = Inl e" and "errorCode e = js ''AUTHORIZATION_DENIED''"
  shows "errorDetails e \<noteq> None"
proof -
  have "first_allowed p s res facts (candidates s) None \<noteq> Inl None" for p res
  proof -
    have "candidates s \<noteq> []" by (simp add: candidates_def)
    then obtain b bs where "candidates s = b # bs" by (cases "candidates s") auto
    then show ?thesis using first_allowed_denial by (auto split: authorization_decision.splits)
  qed
  then show ?thesis
    using assms by (auto simp: assertAuthorized_def candidates_def [simplified, symmetric] Let_def forbidden_def
        split: option.splits sum.splits)
qed

end
