(* ===== verification/Routes.thy ===== *)
theory Routes
  imports Session Action_Policies
begin

text \<open>
  The route contract: \<open>packages/api-contract/src/routes.ts\<close> and the route lists it spreads. A route
  carries what the server reads of it: method, path, operation, whether it is public, a mutation or
  guarded by \<open>If-Match\<close>, its action, whether it is implemented, the service scope that reaches it and
  whether a session of the first factor alone, or one restored by a recovery code, may reach it.
  The summaries and the schemas are left out. \<open>route\<close> makes a person route without an action; a
  record update states what differs from that.
\<close>

datatype http_method = Get | Post | Patch | Delete

record route_definition =
  routeMethod :: http_method
  routePath :: js_string
  operationId :: js_string
  routePublic :: bool
  routeMutation :: bool
  requiresIfMatch :: bool
  routeAction :: "js_string option"
  routeImplemented :: bool
  serviceScope :: "service_scope option"
  allowsFirstFactorOnly :: bool
  allowsRecoveryLimited :: bool

definition route :: "http_method \<Rightarrow> js_string \<Rightarrow> js_string \<Rightarrow> route_definition" where
  "route m p operation =
     \<lparr>routeMethod = m, routePath = p, operationId = operation, routePublic = False, routeMutation = False,
      requiresIfMatch = False, routeAction = None, routeImplemented = True, serviceScope = None,
      allowsFirstFactorOnly = False, allowsRecoveryLimited = False\<rparr>"

section \<open>The lists of the contexts\<close>

definition ACCOUNT_ROUTES :: "route_definition list" where
  "ACCOUNT_ROUTES =
     [(route Get (js ''/api/v1/auth/methods'') (js ''getAuthMethods''))
        \<lparr>routePublic := True\<rparr>,
      (route Post (js ''/api/v1/auth/email/start'') (js ''startEmailSignIn''))
        \<lparr>routePublic := True\<rparr>,
      (route Post (js ''/api/v1/auth/email/verify'') (js ''verifyEmailSignIn''))
        \<lparr>routePublic := True\<rparr>,
      (route Post (js ''/api/v1/auth/invitations/accept/start'')
         (js ''startInvitationAcceptance''))
        \<lparr>routePublic := True\<rparr>,
      (route Post (js ''/api/v1/auth/invitations/accept/verify'')
         (js ''verifyInvitationAcceptance''))
        \<lparr>routePublic := True\<rparr>,
      (route Post (js ''/api/v1/auth/email-change/start'')
         (js ''startEmailChangeVerification''))
        \<lparr>routePublic := True\<rparr>,
      (route Post (js ''/api/v1/auth/email-change/verify'') (js ''verifyEmailChange''))
        \<lparr>routePublic := True\<rparr>,
      (route Get (js ''/api/v1/admin/invitations'') (js ''listInvitations''))
        \<lparr>routeAction := Some (js ''admin.read'')\<rparr>,
      (route Post (js ''/api/v1/admin/invitations'') (js ''createInvitation''))
        \<lparr>routeMutation := True, routeAction := Some (js ''admin.invitation.manage'')\<rparr>,
      (route Post (js ''/api/v1/admin/invitations/{invitationId}/revoke'')
         (js ''revokeInvitation''))
        \<lparr>routeMutation := True,
          requiresIfMatch := True, routeAction := Some (js ''admin.invitation.manage'')\<rparr>,
      (route Get (js ''/api/v1/admin/email-changes'') (js ''listEmailChangeRequests''))
        \<lparr>routeAction := Some (js ''admin.read'')\<rparr>,
      (route Post (js ''/api/v1/admin/email-changes'') (js ''createEmailChangeRequest''))
        \<lparr>routeMutation := True, routeAction := Some (js ''admin.email_change.propose'')\<rparr>,
      (route Post (js ''/api/v1/admin/email-changes/{changeId}/decision'')
         (js ''decideEmailChangeRequest''))
        \<lparr>routeMutation := True,
          requiresIfMatch := True, routeAction := Some (js ''admin.email_change.approve'')\<rparr>]"

definition MFA_ROUTES_1 :: "route_definition list" where
  "MFA_ROUTES_1 =
     [(route Get (js ''/api/v1/auth/mfa'') (js ''getMfaStatus''))
        \<lparr>allowsFirstFactorOnly := True, allowsRecoveryLimited := True\<rparr>,
      (route Post (js ''/api/v1/auth/mfa/passkeys/registration/options'')
         (js ''createPasskeyRegistrationOptions''))
        \<lparr>allowsFirstFactorOnly := True, allowsRecoveryLimited := True\<rparr>,
      (route Post (js ''/api/v1/auth/mfa/passkeys/registration/verify'')
         (js ''verifyPasskeyRegistration''))
        \<lparr>allowsFirstFactorOnly := True, allowsRecoveryLimited := True\<rparr>,
      (route Post (js ''/api/v1/auth/mfa/passkeys/authentication/options'')
         (js ''createPasskeyAuthenticationOptions''))
        \<lparr>allowsFirstFactorOnly := True, allowsRecoveryLimited := True\<rparr>,
      (route Post (js ''/api/v1/auth/mfa/passkeys/authentication/verify'')
         (js ''verifyPasskeyAuthentication''))
        \<lparr>allowsFirstFactorOnly := True, allowsRecoveryLimited := True\<rparr>,
      route Patch (js ''/api/v1/auth/mfa/passkeys/{passkeyId}'') (js ''renamePasskey''),
      route Post (js ''/api/v1/auth/mfa/passkeys/{passkeyId}/removal'') (js ''removePasskey''),
      (route Post (js ''/api/v1/auth/mfa/totp/setup'') (js ''setupTotp''))
        \<lparr>allowsFirstFactorOnly := True, allowsRecoveryLimited := True\<rparr>,
      (route Post (js ''/api/v1/auth/mfa/totp/confirm'') (js ''confirmTotp''))
        \<lparr>allowsFirstFactorOnly := True, allowsRecoveryLimited := True\<rparr>,
      (route Post (js ''/api/v1/auth/mfa/totp/verify'') (js ''verifyTotp''))
        \<lparr>allowsFirstFactorOnly := True, allowsRecoveryLimited := True\<rparr>,
      route Post (js ''/api/v1/auth/mfa/totp/removal'') (js ''removeTotp''),
      (route Post (js ''/api/v1/auth/mfa/recovery-codes/verify'') (js ''useRecoveryCode''))
        \<lparr>allowsFirstFactorOnly := True\<rparr>,
      route Post (js ''/api/v1/auth/mfa/recovery-codes'') (js ''regenerateRecoveryCodes''),
      (route Get (js ''/api/v1/admin/mfa-resets'') (js ''listMfaResets''))
        \<lparr>routeAction := Some (js ''admin.read'')\<rparr>]"

definition MFA_ROUTES_2 :: "route_definition list" where
  "MFA_ROUTES_2 =
     [(route Post (js ''/api/v1/admin/mfa-resets'') (js ''createMfaReset''))
        \<lparr>routeMutation := True, routeAction := Some (js ''admin.mfa_reset.propose'')\<rparr>,
      (route Post (js ''/api/v1/admin/mfa-resets/{resetId}/decision'') (js ''decideMfaReset''))
        \<lparr>routeMutation := True,
          requiresIfMatch := True, routeAction := Some (js ''admin.mfa_reset.approve'')\<rparr>]"

definition MFA_ROUTES :: "route_definition list" where
  "MFA_ROUTES = MFA_ROUTES_1 @ MFA_ROUTES_2"

definition SUSPENSION_ROUTES :: "route_definition list" where
  "SUSPENSION_ROUTES =
     [(route Get (js ''/api/v1/admin/subject-suspensions'') (js ''listSubjectSuspensions''))
        \<lparr>routeAction := Some (js ''admin.read'')\<rparr>,
      (route Post (js ''/api/v1/admin/subject-suspensions'') (js ''createSubjectSuspension''))
        \<lparr>routeMutation := True, routeAction := Some (js ''admin.subject_suspension.propose'')\<rparr>,
      (route Post (js ''/api/v1/admin/subject-suspensions/{suspensionId}/decision'')
         (js ''decideSubjectSuspension''))
        \<lparr>routeMutation := True,
          requiresIfMatch := True, routeAction := Some (js ''admin.subject_suspension.approve'')\<rparr>]"

definition OIDC_ROUTES :: "route_definition list" where
  "OIDC_ROUTES =
     [(route Post (js ''/api/v1/auth/oidc/{provider}/start'') (js ''startOidcSignIn''))
        \<lparr>routePublic := True\<rparr>,
      (route Post (js ''/api/v1/auth/oidc/{provider}/callback'') (js ''completeOidcSignIn''))
        \<lparr>routePublic := True\<rparr>,
      route Post (js ''/api/v1/auth/oidc/{provider}/link/start'') (js ''startOidcLink''),
      route Post (js ''/api/v1/auth/oidc/{provider}/link/callback'') (js ''completeOidcLink''),
      route Get (js ''/api/v1/auth/identities'') (js ''listExternalIdentities''),
      route Post (js ''/api/v1/auth/identities/{identityId}/unlink'')
         (js ''unlinkExternalIdentity'')]"

definition WALLET_ROUTES :: "route_definition list" where
  "WALLET_ROUTES =
     [route Get (js ''/api/v1/auth/wallets'') (js ''listAccountWallets''),
      route Post (js ''/api/v1/auth/wallets/binding-challenges'')
         (js ''createWalletBindingChallenge''),
      route Post (js ''/api/v1/auth/wallets'') (js ''bindAccountWallet''),
      route Post (js ''/api/v1/auth/wallets/{walletId}/disable'')
         (js ''disableAccountWallet'')]"

definition PROJECT_REGISTRY_ROUTES_1 :: "route_definition list" where
  "PROJECT_REGISTRY_ROUTES_1 =
     [(route Patch (js ''/api/v1/projects/{projectId}'') (js ''updateProject''))
        \<lparr>routeMutation := True,
          requiresIfMatch := True, routeAction := Some (js ''project.update'')\<rparr>,
      (route Get (js ''/api/v1/projects/{projectId}/overview'') (js ''getProjectOverview''))
        \<lparr>routeAction := Some (js ''project.read'')\<rparr>,
      (route Get (js ''/api/v1/projects/{projectId}/facts'') (js ''listProjectFacts''))
        \<lparr>routeAction := Some (js ''project.read'')\<rparr>,
      (route Post (js ''/api/v1/projects/{projectId}/facts/{factKey}/confirmations'')
         (js ''recordProjectFact''))
        \<lparr>routeMutation := True,
          requiresIfMatch := True, routeAction := Some (js ''project.fact.record'')\<rparr>,
      (route Get (js ''/api/v1/projects/{projectId}/parties'') (js ''listProjectParties''))
        \<lparr>routeAction := Some (js ''project.read'')\<rparr>,
      (route Post (js ''/api/v1/projects/{projectId}/parties'') (js ''createProjectParty''))
        \<lparr>routeMutation := True, routeAction := Some (js ''project.party.submit'')\<rparr>,
      (route Post (js ''/api/v1/projects/{projectId}/parties/{partyId}/confirmations'')
         (js ''recordProjectPartyConfirmation''))
        \<lparr>routeMutation := True,
          requiresIfMatch := True, routeAction := Some (js ''project.fact.record'')\<rparr>,
      (route Get (js ''/api/v1/projects/{projectId}/registration-requests'')
         (js ''listRegistrationRequests''))
        \<lparr>routeAction := Some (js ''project.read'')\<rparr>,
      (route Post (js ''/api/v1/projects/{projectId}/registration-requests'')
         (js ''createRegistrationRequest''))
        \<lparr>routeMutation := True, routeAction := Some (js ''project.registration.request'')\<rparr>,
      (route Get (js ''/api/v1/projects/{projectId}/stakeholder-events'')
         (js ''listStakeholderEvents''))
        \<lparr>routeAction := Some (js ''project.read'')\<rparr>,
      (route Post (js ''/api/v1/projects/{projectId}/stakeholder-events'')
         (js ''createStakeholderEvent''))
        \<lparr>routeMutation := True, routeAction := Some (js ''project.stakeholder.record'')\<rparr>,
      (route Get (js ''/api/v1/claims/{claimId}'') (js ''getClaimDetail''))
        \<lparr>routeAction := Some (js ''evidence.read'')\<rparr>]"

definition PROJECT_REGISTRY_ROUTES_2 :: "route_definition list" where
  "PROJECT_REGISTRY_ROUTES_2 =
     [(route Post (js ''/api/v1/claims/{claimId}/derivations'') (js ''createClaimDerivation''))
        \<lparr>routeMutation := True, routeAction := Some (js ''claim.curate'')\<rparr>]"

definition PROJECT_REGISTRY_ROUTES :: "route_definition list" where
  "PROJECT_REGISTRY_ROUTES = PROJECT_REGISTRY_ROUTES_1 @ PROJECT_REGISTRY_ROUTES_2"

definition RESTRICTION_ROUTES :: "route_definition list" where
  "RESTRICTION_ROUTES =
     [(route Post (js ''/api/v1/projects/{projectId}/disclosure-restrictions'')
         (js ''createDisclosureRestriction''))
        \<lparr>routeMutation := True, routeAction := Some (js ''disclosure.restrict'')\<rparr>,
      route Get (js ''/api/v1/projects/{projectId}/disclosure-restrictions'')
         (js ''listDisclosureRestrictions''),
      route Get (js ''/api/v1/projects/{projectId}/disclosure-restrictions/active'')
         (js ''listActiveDisclosureRestrictions''),
      (route Post (js ''/api/v1/disclosure-restrictions/{restrictionId}/activate'')
         (js ''activateDisclosureRestriction''))
        \<lparr>routeMutation := True,
          requiresIfMatch := True, routeAction := Some (js ''disclosure.restrict'')\<rparr>,
      (route Post (js ''/api/v1/disclosure-restrictions/{restrictionId}/release'')
         (js ''releaseDisclosureRestriction''))
        \<lparr>routeMutation := True,
          requiresIfMatch := True, routeAction := Some (js ''disclosure.restrict'')\<rparr>,
      (route Post (js ''/api/v1/disclosure-restrictions/{restrictionId}/supersede'')
         (js ''supersedeDisclosureRestriction''))
        \<lparr>routeMutation := True,
          requiresIfMatch := True, routeAction := Some (js ''disclosure.restrict'')\<rparr>,
      route Get (js ''/api/v1/source-connections/{connectionId}/reconciliation-tasks'')
         (js ''listSourceReconciliationTasks''),
      (route Post (js ''/api/v1/source-reconciliation-tasks/{taskId}/resolve'')
         (js ''resolveSourceReconciliationTask''))
        \<lparr>routeMutation := True,
          requiresIfMatch := True, routeAction := Some (js ''connection.configure'')\<rparr>,
      route Get (js ''/api/v1/source-connections/{connectionId}/transitions'')
         (js ''listSourceConnectionTransitions'')]"

section \<open>The contract\<close>

definition ADMIN_ASSURANCE_ROUTE :: route_definition where
  "ADMIN_ASSURANCE_ROUTE =
     (route Post (js ''/api/v1/admin/subjects/{subjectId}/assurance'') (js ''setAdminSubjectAssurance''))
       \<lparr>routeMutation := True, routeAction := Some (js ''admin.subject.manage'')\<rparr>"

definition reviewRegistryRoutes :: "js_string \<Rightarrow> js_string \<Rightarrow> route_definition list" where
  "reviewRegistryRoutes segment noun =
     (let base = js ''/api/v1/review-registry/'' @ segment @ js ''/proposals''
      in [(route Get base (js ''list'' @ noun @ js ''Proposals''))
            \<lparr>routeAction := Some (js ''review_registry.read'')\<rparr>,
          (route Post base (js ''propose'' @ noun))
            \<lparr>routeMutation := True, routeAction := Some (js ''review_registry.propose'')\<rparr>,
          (route Get (base @ js ''/{proposalId}'') (js ''get'' @ noun @ js ''Proposal''))
            \<lparr>routeAction := Some (js ''review_registry.read'')\<rparr>,
          (route Post (base @ js ''/{proposalId}/decision'') (js ''decide'' @ noun @ js ''Proposal''))
            \<lparr>routeMutation := True, requiresIfMatch := True,
             routeAction := Some (js ''review_registry.approve'')\<rparr>])"

definition auth_routes :: "route_definition list" where
  "auth_routes =
     [(route Post (js ''/api/v1/auth/logout'') (js ''logout''))
        \<lparr>allowsFirstFactorOnly := True, allowsRecoveryLimited := True\<rparr>,
      (route Get (js ''/api/v1/auth/session'') (js ''getSession''))
        \<lparr>allowsFirstFactorOnly := True, allowsRecoveryLimited := True\<rparr>,
      route Get (js ''/api/v1/auth/sessions'') (js ''listAccountSessions''),
      route Post (js ''/api/v1/auth/sessions/{sessionId}/revocation'')
         (js ''revokeAccountSession'')]"

definition project_routes :: "route_definition list" where
  "project_routes =
     [(route Post (js ''/api/v1/projects'') (js ''createProject''))
        \<lparr>routeMutation := True, routeAction := Some (js ''project.create'')\<rparr>,
      route Get (js ''/api/v1/projects'') (js ''listProjects''),
      route Get (js ''/api/v1/projects/{projectId}'') (js ''getProject''),
      (route Get (js ''/api/v1/organizations'') (js ''listOrganizations''))
        \<lparr>routeAction := Some (js ''project.create'')\<rparr>]"

definition evidence_routes :: "route_definition list" where
  "evidence_routes =
     [route Get (js ''/api/v1/projects/{projectId}/source-receipts'')
         (js ''listSourceReceipts''),
      route Get (js ''/api/v1/projects/{projectId}/claims'') (js ''listClaims''),
      (route Post (js ''/api/v1/projects/{projectId}/source-receipts'')
         (js ''createSourceReceipt''))
        \<lparr>routeMutation := True, routeAction := Some (js ''source.upload'')\<rparr>,
      (route Post (js ''/api/v1/projects/{projectId}/claims'') (js ''createClaim''))
        \<lparr>routeMutation := True, routeAction := Some (js ''claim.curate'')\<rparr>,
      (route Post (js ''/api/v1/claims/{claimId}/conflicts'') (js ''createClaimConflict''))
        \<lparr>routeMutation := True,
          requiresIfMatch := True, routeAction := Some (js ''claim.curate'')\<rparr>,
      (route Post (js ''/api/v1/claims/{claimId}/versions'') (js ''correctClaim''))
        \<lparr>routeMutation := True,
          requiresIfMatch := True, routeAction := Some (js ''claim.curate'')\<rparr>]"

definition upload_routes :: "route_definition list" where
  "upload_routes =
     [route Get (js ''/api/v1/projects/{projectId}/uploads'') (js ''listUploads''),
      (route Post (js ''/api/v1/projects/{projectId}/uploads'') (js ''createUpload''))
        \<lparr>routeMutation := True, routeAction := Some (js ''source.upload'')\<rparr>,
      (route Post (js ''/api/v1/projects/{projectId}/uploads/stream'')
         (js ''createUploadStream''))
        \<lparr>routeMutation := True, routeAction := Some (js ''source.upload'')\<rparr>,
      (route Post (js ''/api/v1/uploads/{uploadId}/scan-result'') (js ''recordScanResult''))
        \<lparr>routeMutation := True, requiresIfMatch := True,
          routeAction := Some (js ''upload.scan_result''), serviceScope := Some Scope_scan_result\<rparr>,
      (route Post (js ''/api/v1/uploads/{uploadId}/promote'') (js ''promoteUpload''))
        \<lparr>routeMutation := True,
          requiresIfMatch := True, routeAction := Some (js ''source.upload'')\<rparr>,
      (route Post (js ''/api/v1/uploads/{uploadId}/download-link'')
         (js ''createUploadDownloadLink''))
        \<lparr>routeMutation := True, routeAction := Some (js ''source.upload'')\<rparr>]"

definition verification_routes_1 :: "route_definition list" where
  "verification_routes_1 =
     [route Get (js ''/api/v1/projects/{projectId}/verification-cases'')
         (js ''listVerificationCases''),
      (route Get (js ''/api/v1/projects/{projectId}/review-assignment-options'')
         (js ''getReviewAssignmentOptions''))
        \<lparr>routeAction := Some (js ''claim.curate'')\<rparr>,
      (route Post (js ''/api/v1/verification-cases/{caseId}/transitions'')
         (js ''transitionVerificationCase''))
        \<lparr>routeMutation := True,
          requiresIfMatch := True, routeAction := Some (js ''claim.curate'')\<rparr>,
      (route Post (js ''/api/v1/attestations/{attestationId}/disputes'')
         (js ''disputeAttestation''))
        \<lparr>routeMutation := True, routeAction := Some (js ''attestation.dispute'')\<rparr>,
      route Get (js ''/api/v1/attestations/{attestationId}/disputes'') (js ''listDisputes''),
      (route Post (js ''/api/v1/disputes/{disputeId}/resolution'') (js ''resolveDispute''))
        \<lparr>routeMutation := True, routeAction := Some (js ''attestation.dispute'')\<rparr>,
      (route Post (js ''/api/v1/verification-cases/{caseId}/attestations'')
         (js ''createAttestation''))
        \<lparr>routeMutation := True, routeAction := Some (js ''attestation.sign'')\<rparr>]"

definition verification_routes_2 :: "route_definition list" where
  "verification_routes_2 =
     [(route Post (js ''/api/v1/attestations/{attestationId}/signature-requests'')
         (js ''createSignatureRequest''))
        \<lparr>routeMutation := True, routeAction := Some (js ''attestation.sign'')\<rparr>,
      (route Post (js ''/api/v1/attestations/{attestationId}/signatures'')
         (js ''submitAttestationSignature''))
        \<lparr>routeMutation := True, routeAction := Some (js ''attestation.sign'')\<rparr>,
      (route Post (js ''/api/v1/attestations/{attestationId}/revoke'')
         (js ''revokeAttestation''))
        \<lparr>routeMutation := True, routeAction := Some (js ''attestation.revoke'')\<rparr>,
      (route Post (js ''/api/v1/assignments/{assignmentId}/revoke'') (js ''revokeAssignment''))
        \<lparr>routeMutation := True, routeAction := Some (js ''claim.curate'')\<rparr>,
      (route Post (js ''/api/v1/assignments/{assignmentId}/reassignments'')
         (js ''reassignReviewer''))
        \<lparr>routeMutation := True, routeAction := Some (js ''claim.curate'')\<rparr>,
      (route Post (js ''/api/v1/credentials/{credentialId}/status'')
         (js ''changeCredentialStatus''))
        \<lparr>routeMutation := True,
          requiresIfMatch := True, routeAction := Some (js ''credential.status.change'')\<rparr>,
      (route Post (js ''/api/v1/verification-cases'') (js ''createVerificationCase''))
        \<lparr>routeMutation := True, routeAction := Some (js ''claim.curate'')\<rparr>]"

definition readiness_routes :: "route_definition list" where
  "readiness_routes =
     [(route Post (js ''/api/v1/projects/{projectId}/readiness-assessments'')
         (js ''createReadinessAssessment''))
        \<lparr>routeMutation := True, routeAction := Some (js ''readiness.recompute'')\<rparr>,
      route Get (js ''/api/v1/readiness-assessments/{assessmentId}'')
         (js ''getReadinessAssessment''),
      (route Post (js ''/api/v1/projects/{projectId}/gate-decisions/signature-requests'')
         (js ''createGateDecisionSignatureRequest''))
        \<lparr>routeMutation := True, routeAction := Some (js ''gate.decide'')\<rparr>,
      (route Post (js ''/api/v1/projects/{projectId}/gate-decisions'')
         (js ''createGateDecision''))
        \<lparr>routeMutation := True, routeAction := Some (js ''gate.decide'')\<rparr>]"

definition registry_routes :: "route_definition list" where
  "registry_routes =
     [(route Post (js ''/api/v1/registry-entries'') (js ''draftRegistryVersion''))
        \<lparr>routeMutation := True, routeAction := Some (js ''registry.draft'')\<rparr>,
      (route Get (js ''/api/v1/registry-entries/drafts'') (js ''listRegistryDrafts''))
        \<lparr>routeAction := Some (js ''registry.read'')\<rparr>,
      (route Post (js ''/api/v1/registry-entries/drafts/{draftId}/publish'')
         (js ''publishRegistryVersion''))
        \<lparr>routeMutation := True,
          requiresIfMatch := True, routeAction := Some (js ''registry.publish'')\<rparr>,
      (route Post (js ''/api/v1/registry-entries/drafts/{draftId}/reject'')
         (js ''rejectRegistryDraft''))
        \<lparr>routeMutation := True,
          requiresIfMatch := True, routeAction := Some (js ''registry.publish'')\<rparr>,
      (route Post (js ''/api/v1/registry-entries/{entryId}/revoke'')
         (js ''revokeRegistryVersion''))
        \<lparr>routeMutation := True,
          requiresIfMatch := True, routeAction := Some (js ''registry.revoke'')\<rparr>,
      route Get (js ''/api/v1/anchor-batches'') (js ''listAnchorBatches''),
      (route Post (js ''/api/v1/anchor-batches'') (js ''createAnchorBatch''))
        \<lparr>routeMutation := True, routeAction := Some (js ''anchor.submit'')\<rparr>,
      (route Post (js ''/api/v1/anchor-batches/{batchId}/resubmit'')
         (js ''resubmitAnchorBatch''))
        \<lparr>routeMutation := True, routeAction := Some (js ''anchor.submit'')\<rparr>,
      (route Post (js ''/api/v1/source-receipts/{receiptId}/second-review'')
         (js ''recordSecondReview''))
        \<lparr>routeMutation := True, routeAction := Some (js ''source.collect'')\<rparr>,
      route Get (js ''/api/v1/projects/{projectId}/stale-signals'') (js ''listStaleSignals''),
      (route Post (js ''/api/v1/stale-signals/{signalId}/resolve'') (js ''resolveStaleSignal''))
        \<lparr>routeMutation := True, routeAction := Some (js ''registry.revoke'')\<rparr>]"

definition document_relation_routes_1 :: "route_definition list" where
  "document_relation_routes_1 =
     [(route Patch (js ''/api/v1/uploads/{uploadId}/document-profile'')
         (js ''updateDocumentProfile''))
        \<lparr>routeMutation := True,
          requiresIfMatch := True, routeAction := Some (js ''source.upload'')\<rparr>,
      (route Post (js ''/api/v1/uploads/{uploadId}/revoke'') (js ''revokeDocument''))
        \<lparr>routeMutation := True,
          requiresIfMatch := True, routeAction := Some (js ''source.upload'')\<rparr>,
      route Get (js ''/api/v1/projects/{projectId}/document-graph'') (js ''getDocumentGraph''),
      (route Post (js ''/api/v1/projects/{projectId}/document-links'')
         (js ''createDocumentLink''))
        \<lparr>routeMutation := True, routeAction := Some (js ''source.upload'')\<rparr>,
      (route Post (js ''/api/v1/document-links/{linkId}/removal'') (js ''removeDocumentLink''))
        \<lparr>routeMutation := True, routeAction := Some (js ''source.upload'')\<rparr>,
      route Get (js ''/api/v1/uploads/{uploadId}/impact-preview'')
         (js ''getDocumentImpactPreview'')]"

definition document_relation_routes_2 :: "route_definition list" where
  "document_relation_routes_2 =
     [route Get (js ''/api/v1/projects/{projectId}/document-impacts'')
         (js ''listDocumentImpacts''),
      (route Post (js ''/api/v1/projects/{projectId}/document-impacts/resolutions'')
         (js ''resolveDocumentImpacts''))
        \<lparr>routeMutation := True, routeAction := Some (js ''source.upload'')\<rparr>,
      route Get (js ''/api/v1/document-link-rules'') (js ''listDocumentLinkRules''),
      (route Post (js ''/api/v1/document-link-rules'') (js ''createDocumentLinkRule''))
        \<lparr>routeMutation := True, routeAction := Some (js ''document.rule.manage'')\<rparr>,
      (route Post (js ''/api/v1/document-link-rules/{ruleId}/retirement'')
         (js ''retireDocumentLinkRule''))
        \<lparr>routeMutation := True, routeAction := Some (js ''document.rule.manage'')\<rparr>]"

definition document_status_routes :: "route_definition list" where
  "document_status_routes =
     [route Get (js ''/api/v1/projects/{projectId}/document-requirements'')
         (js ''listDocumentRequirements''),
      (route Post (js ''/api/v1/projects/{projectId}/document-requirements'')
         (js ''createDocumentRequirement''))
        \<lparr>routeMutation := True, routeAction := Some (js ''source.upload'')\<rparr>,
      (route Post (js ''/api/v1/document-requirements/{requirementId}/retirement'')
         (js ''retireDocumentRequirement''))
        \<lparr>routeMutation := True, routeAction := Some (js ''source.upload'')\<rparr>,
      route Get (js ''/api/v1/projects/{projectId}/document-status'')
         (js ''getDocumentStatusSummary''),
      route Get (js ''/api/v1/projects/{projectId}/documents'') (js ''listProjectDocuments'')]"

definition offering_gate_routes :: "route_definition list" where
  "offering_gate_routes =
     [(route Get (js ''/api/v1/projects/{projectId}/lifecycle'') (js ''getProjectLifecycle''))
        \<lparr>routeAction := Some (js ''project.read'')\<rparr>,
      (route Post (js ''/api/v1/projects/{projectId}/lifecycle-transitions'')
         (js ''transitionProjectLifecycle''))
        \<lparr>routeMutation := True,
          requiresIfMatch := True, routeAction := Some (js ''project.lifecycle.advance'')\<rparr>,
      route Get (js ''/api/v1/projects/{projectId}/offering-gate'') (js ''getOfferingGate'')]"

definition authority_routes_1 :: "route_definition list" where
  "authority_routes_1 =
     [route Get (js ''/api/v1/authorities'') (js ''listAuthorities''),
      (route Post (js ''/api/v1/authorities'') (js ''registerAuthority''))
        \<lparr>routeMutation := True, routeAction := Some (js ''authority.register'')\<rparr>,
      (route Patch (js ''/api/v1/authorities/{authorityId}'') (js ''updateAuthority''))
        \<lparr>routeMutation := True,
          requiresIfMatch := True, routeAction := Some (js ''authority.register'')\<rparr>,
      (route Post (js ''/api/v1/authorities/{authorityId}/state'')
         (js ''decideAuthorityState''))
        \<lparr>routeMutation := True,
          requiresIfMatch := True, routeAction := Some (js ''authority.review'')\<rparr>,
      route Get (js ''/api/v1/authorities/{authorityId}/versions'')
         (js ''listAuthorityVersions''),
      route Get (js ''/api/v1/authorities/{authorityId}/connections'')
         (js ''listSourceConnections''),
      (route Post (js ''/api/v1/authorities/{authorityId}/connections'')
         (js ''createSourceConnection''))
        \<lparr>routeMutation := True, routeAction := Some (js ''connection.configure'')\<rparr>]"

definition authority_routes_2 :: "route_definition list" where
  "authority_routes_2 =
     [(route Patch (js ''/api/v1/source-connections/{connectionId}'')
         (js ''updateSourceConnection''))
        \<lparr>routeMutation := True,
          requiresIfMatch := True, routeAction := Some (js ''connection.configure'')\<rparr>,
      (route Post (js ''/api/v1/source-connections/{connectionId}/security-reviews'')
         (js ''reviewSourceConnectionSecurity''))
        \<lparr>routeMutation := True,
          requiresIfMatch := True, routeAction := Some (js ''connection.security_review'')\<rparr>,
      route Get (js ''/api/v1/jurisdictions/{jurisdiction}/profile'')
         (js ''getJurisdictionProfile''),
      (route Post (js ''/api/v1/source-connections/{connectionId}/collect'')
         (js ''collectFromSource''))
        \<lparr>routeMutation := True, routeAction := Some (js ''source.collect'')\<rparr>,
      (route Post (js ''/api/v1/projects/{projectId}/cre-reports'') (js ''createCreReport''))
        \<lparr>routeMutation := True,
          routeAction := Some (js ''cre.report''), serviceScope := Some Scope_cre_report\<rparr>,
      (route Get (js ''/api/v1/projects/{projectId}/cre-reports'') (js ''getCreWorkspace''))
        \<lparr>routeAction := Some (js ''cre.report''), serviceScope := Some Scope_cre_report\<rparr>,
      (route Get (js ''/api/v1/projects/{projectId}/cre-reports/{reportId}/delivery'')
         (js ''getCreDelivery''))
        \<lparr>routeAction := Some (js ''cre.report''), serviceScope := Some Scope_cre_report\<rparr>]"

definition governance_routes :: "route_definition list" where
  "governance_routes =
     [route Get (js ''/api/v1/governance/proposals'') (js ''listProposals''),
      route Get (js ''/api/v1/governance/proposals/{proposalId}'') (js ''getProposal''),
      (route Post (js ''/api/v1/governance/proposals'') (js ''createProposal''))
        \<lparr>routeMutation := True, routeAction := Some (js ''governance.propose'')\<rparr>,
      (route Post (js ''/api/v1/governance/proposals/{proposalId}/transitions'')
         (js ''transitionProposal''))
        \<lparr>routeMutation := True,
          requiresIfMatch := True, routeAction := Some (js ''governance.administer'')\<rparr>,
      (route Post (js ''/api/v1/governance/proposals/{proposalId}/votes'') (js ''castVote''))
        \<lparr>routeMutation := True, routeAction := Some (js ''governance.vote'')\<rparr>,
      (route Post (js ''/api/v1/governance/proposals/{proposalId}/execution-records'')
         (js ''recordProposalExecution''))
        \<lparr>routeMutation := True,
          requiresIfMatch := True, routeAction := Some (js ''governance.execution.record'')\<rparr>]"

definition workspace_routes :: "route_definition list" where
  "workspace_routes =
     [(route Get (js ''/api/v1/my-work'') (js ''getMyWork''))
        \<lparr>routeAction := Some (js ''project.read'')\<rparr>,
      route Get (js ''/api/v1/me/activity'') (js ''getMyActivity''),
      (route Get (js ''/api/v1/registry-entries'') (js ''listRegistryEntries''))
        \<lparr>routeAction := Some (js ''registry.read'')\<rparr>,
      (route Get (js ''/api/v1/notifications'') (js ''listNotifications''))
        \<lparr>routeAction := Some (js ''project.read'')\<rparr>,
      (route Post (js ''/api/v1/notifications/{notificationId}/read'')
         (js ''markNotificationRead''))
        \<lparr>routeMutation := True, routeAction := Some (js ''project.read'')\<rparr>]"

definition administration_routes_1 :: "route_definition list" where
  "administration_routes_1 =
     [(route Get (js ''/api/v1/admin/subjects'') (js ''listAdminSubjects''))
        \<lparr>routeAction := Some (js ''admin.read'')\<rparr>,
      (route Post (js ''/api/v1/admin/subjects'') (js ''createAdminSubject''))
        \<lparr>routeMutation := True, routeAction := Some (js ''admin.subject.manage'')\<rparr>]"

definition administration_routes_2 :: "route_definition list" where
  "administration_routes_2 =
     [(route Post (js ''/api/v1/admin/wallets/{walletId}/disable'') (js ''disableAdminWallet''))
        \<lparr>routeMutation := True,
          requiresIfMatch := True, routeAction := Some (js ''admin.wallet.manage'')\<rparr>,
      (route Get (js ''/api/v1/admin/notification-sinks'') (js ''listNotificationSinks''))
        \<lparr>routeAction := Some (js ''admin.notification.manage'')\<rparr>,
      (route Post (js ''/api/v1/admin/notification-sinks'') (js ''createNotificationSink''))
        \<lparr>routeMutation := True, routeAction := Some (js ''admin.notification.manage'')\<rparr>,
      (route Post (js ''/api/v1/admin/notification-sinks/{sinkId}/state'')
         (js ''updateNotificationSinkState''))
        \<lparr>routeMutation := True,
          requiresIfMatch := True, routeAction := Some (js ''admin.notification.manage'')\<rparr>,
      (route Get (js ''/api/v1/admin/role-grants'') (js ''listRoleGrants''))
        \<lparr>routeAction := Some (js ''admin.read'')\<rparr>,
      (route Post (js ''/api/v1/admin/role-grants'') (js ''createRoleGrant''))
        \<lparr>routeMutation := True, routeAction := Some (js ''admin.role.propose'')\<rparr>,
      (route Post (js ''/api/v1/admin/role-grants/{grantId}/decision'')
         (js ''decideRoleGrant''))
        \<lparr>routeMutation := True,
          requiresIfMatch := True, routeAction := Some (js ''admin.role.approve'')\<rparr>,
      (route Get (js ''/api/v1/admin/role-revocations'') (js ''listRoleRevocations''))
        \<lparr>routeAction := Some (js ''admin.read'')\<rparr>,
      (route Post (js ''/api/v1/admin/role-revocations'') (js ''createRoleRevocation''))
        \<lparr>routeMutation := True, routeAction := Some (js ''admin.role.propose'')\<rparr>,
      (route Post (js ''/api/v1/admin/role-revocations/{revocationId}/decision'')
         (js ''decideRoleRevocation''))
        \<lparr>routeMutation := True,
          requiresIfMatch := True, routeAction := Some (js ''admin.role.approve'')\<rparr>]"

definition break_glass_routes :: "route_definition list" where
  "break_glass_routes =
     [(route Get (js ''/api/v1/admin/break-glass'') (js ''listBreakGlassElevations''))
        \<lparr>routeAction := Some (js ''break_glass.read'')\<rparr>,
      (route Post (js ''/api/v1/admin/break-glass'') (js ''requestBreakGlass''))
        \<lparr>routeMutation := True, routeAction := Some (js ''break_glass.request'')\<rparr>,
      (route Post (js ''/api/v1/admin/break-glass/{elevationId}/decision'')
         (js ''decideBreakGlass''))
        \<lparr>routeMutation := True,
          requiresIfMatch := True, routeAction := Some (js ''break_glass.approve'')\<rparr>,
      (route Post (js ''/api/v1/admin/break-glass/{elevationId}/incident'')
         (js ''recordBreakGlassIncident''))
        \<lparr>routeMutation := True,
          requiresIfMatch := True, routeAction := Some (js ''break_glass.incident'')\<rparr>,
      (route Post (js ''/api/v1/admin/break-glass/{elevationId}/release'')
         (js ''releaseBreakGlass''))
        \<lparr>routeMutation := True,
          requiresIfMatch := True, routeAction := Some (js ''break_glass.release'')\<rparr>,
      (route Post (js ''/api/v1/admin/break-glass/quarantine'') (js ''quarantineAccess''))
        \<lparr>routeMutation := True, routeAction := Some (js ''break_glass.quarantine'')\<rparr>]"

definition evidence_ledger_routes :: "route_definition list" where
  "evidence_ledger_routes =
     [(route Get (js ''/api/v1/projects/{projectId}/evidence-ledger'')
         (js ''getEvidenceLedger''))
        \<lparr>routeAction := Some (js ''readiness.read'')\<rparr>,
      (route Post (js ''/api/v1/projects/{projectId}/evidence-ledger'')
         (js ''recordEvidenceLedger''))
        \<lparr>routeMutation := True, routeAction := Some (js ''readiness.recompute'')\<rparr>]"

definition claim_type_catalog_routes :: "route_definition list" where
  "claim_type_catalog_routes =
     [(route Get (js ''/api/v1/claim-types'') (js ''listClaimTypes''))
        \<lparr>routeAction := Some (js ''registry.read'')\<rparr>,
      (route Get (js ''/api/v1/claim-types/{claimType}/versions/{catalogVersion}'')
         (js ''getClaimTypeVersion''))
        \<lparr>routeAction := Some (js ''registry.read'')\<rparr>]"

definition observability_routes :: "route_definition list" where
  "observability_routes =
     [(route Get (js ''/api/v1/audit-events'') (js ''listAuditEvents''))
        \<lparr>routeAction := Some (js ''audit.read'')\<rparr>,
      (route Get (js ''/api/v1/outbox-backlog'') (js ''getOutboxBacklog''))
        \<lparr>routeAction := Some (js ''audit.read'')\<rparr>,
      (route Get (js ''/api/v1/audit-events/export'') (js ''exportAuditEvents''))
        \<lparr>routeAction := Some (js ''audit.export'')\<rparr>,
      (route Post (js ''/api/v1/projects/{projectId}/exports'') (js ''createProjectExport''))
        \<lparr>routeMutation := True, routeAction := Some (js ''project.export'')\<rparr>,
      (route Get (js ''/api/v1/projects/{projectId}/exports/{exportId}'')
         (js ''getProjectExport''))
        \<lparr>routeAction := Some (js ''project.export'')\<rparr>]"

definition public_routes :: "route_definition list" where
  "public_routes =
     [(route Get (js ''/api/v1/public/registries/{registryType}'')
         (js ''listPublicRegistryEntries''))
        \<lparr>routePublic := True\<rparr>,
      (route Get (js ''/api/v1/public/registries/{registryType}/{publicKey}'')
         (js ''getPublicRegistryEntry''))
        \<lparr>routePublic := True\<rparr>,
      (route Get (js ''/api/v1/public/projection-fields'') (js ''getPublicProjectionFields''))
        \<lparr>routePublic := True\<rparr>,
      (route Get (js ''/api/v1/public/search'') (js ''searchPublicRecords''))
        \<lparr>routePublic := True\<rparr>,
      (route Get (js ''/api/v1/public/proofs/{entryVersionId}'') (js ''getInclusionProof''))
        \<lparr>routePublic := True\<rparr>,
      (route Get (js ''/api/v1/public/governance/proposals'') (js ''listPublicProposals''))
        \<lparr>routePublic := True\<rparr>,
      (route Get (js ''/api/v1/public/governance/proposals/{proposalId}'')
         (js ''getPublicProposal''))
        \<lparr>routePublic := True\<rparr>,
      (route Get (js ''/api/v1/public/governance/centralization'')
         (js ''getGovernanceCentralization''))
        \<lparr>routePublic := True\<rparr>,
      (route Get (js ''/api/v1/public/disclosures'') (js ''listPublicDisclosures''))
        \<lparr>routePublic := True\<rparr>]"

definition review_registry_routes :: "route_definition list" where
  "review_registry_routes =
     evidence_ledger_routes @ reviewRegistryRoutes (js ''claim-types'') (js ''ClaimType'') @
     claim_type_catalog_routes @ reviewRegistryRoutes (js ''credentials'') (js ''Credential'') @
     reviewRegistryRoutes (js ''attestation-schemas'') (js ''AttestationSchema'') @
     reviewRegistryRoutes (js ''policy-sets'') (js ''PolicySet'') @
     reviewRegistryRoutes (js ''jurisdiction-profiles'') (js ''JurisdictionProfile'')"

definition ROUTES :: "route_definition list" where
  "ROUTES =
     auth_routes @ ACCOUNT_ROUTES @ MFA_ROUTES @ SUSPENSION_ROUTES @ OIDC_ROUTES @ WALLET_ROUTES @
     project_routes @ PROJECT_REGISTRY_ROUTES @ evidence_routes @ upload_routes @
     verification_routes_1 @ verification_routes_2 @ readiness_routes @ registry_routes @
     document_relation_routes_1 @ document_relation_routes_2 @ document_status_routes @
     offering_gate_routes @ authority_routes_1 @ authority_routes_2 @ RESTRICTION_ROUTES @
     governance_routes @ workspace_routes @ administration_routes_1 @ [ADMIN_ASSURANCE_ROUTE] @
     administration_routes_2 @ break_glass_routes @ review_registry_routes @ observability_routes @
     public_routes"

definition findRoutesWithoutAction :: "route_definition list" where
  "findRoutesWithoutAction = filter (\<lambda>r. routeMutation r \<and> routeAction r = None) ROUTES"

definition implementedRoutes :: "route_definition list" where
  "implementedRoutes = filter routeImplemented ROUTES"

definition plannedRoutes :: "route_definition list" where
  "plannedRoutes = filter (\<lambda>r. \<not> routeImplemented r) ROUTES"

section \<open>Walking over the table\<close>

lemmas route_groups =
  auth_routes_def ACCOUNT_ROUTES_def MFA_ROUTES_def MFA_ROUTES_1_def MFA_ROUTES_2_def
  SUSPENSION_ROUTES_def OIDC_ROUTES_def WALLET_ROUTES_def project_routes_def PROJECT_REGISTRY_ROUTES_def
  evidence_routes_def upload_routes_def verification_routes_1_def verification_routes_2_def
  readiness_routes_def registry_routes_def document_relation_routes_1_def document_relation_routes_2_def
  document_status_routes_def offering_gate_routes_def authority_routes_1_def authority_routes_2_def
  RESTRICTION_ROUTES_def governance_routes_def workspace_routes_def administration_routes_1_def
  ADMIN_ASSURANCE_ROUTE_def administration_routes_2_def break_glass_routes_def
  review_registry_routes_def evidence_ledger_routes_def claim_type_catalog_routes_def
  observability_routes_def public_routes_def

end
