(* ===== verification/Route_Laws.thy ===== *)
theory Route_Laws
  imports Routes
begin

text \<open>
  What holds of every route of the contract. Each fact is checked group by group and then holds of
  the whole table.
\<close>

lemma ball_routes:
  "(\<forall>r \<in> set ROUTES. P r) \<longleftrightarrow>
     list_all P auth_routes \<and> list_all P ACCOUNT_ROUTES \<and> list_all P MFA_ROUTES \<and>
     list_all P SUSPENSION_ROUTES \<and> list_all P OIDC_ROUTES \<and> list_all P WALLET_ROUTES \<and>
     list_all P project_routes \<and> list_all P PROJECT_REGISTRY_ROUTES_1 \<and>
     list_all P PROJECT_REGISTRY_ROUTES_2 \<and> list_all P evidence_routes \<and>
     list_all P upload_routes \<and> list_all P verification_routes_1 \<and> list_all P verification_routes_2 \<and>
     list_all P readiness_routes \<and> list_all P registry_routes \<and>
     list_all P document_relation_routes_1 \<and> list_all P document_relation_routes_2 \<and>
     list_all P document_status_routes \<and> list_all P offering_gate_routes \<and>
     list_all P authority_routes_1 \<and> list_all P authority_routes_2 \<and> list_all P RESTRICTION_ROUTES \<and>
     list_all P governance_routes \<and> list_all P workspace_routes \<and>
     list_all P administration_routes_1 \<and> list_all P [ADMIN_ASSURANCE_ROUTE] \<and>
     list_all P administration_routes_2 \<and> list_all P break_glass_routes \<and>
     list_all P review_registry_routes \<and> list_all P observability_routes \<and> list_all P public_routes"
  by (auto simp: ROUTES_def PROJECT_REGISTRY_ROUTES_def list_all_iff)

lemmas route_fields = route_groups reviewRegistryRoutes_def route_def Let_def

text \<open>The flags of every route.\<close>

definition flags_sound :: "route_definition \<Rightarrow> bool" where
  "flags_sound r \<longleftrightarrow>
     (routeMutation r \<longrightarrow> routeAction r \<noteq> None \<and> \<not> routePublic r) \<and>
     (requiresIfMatch r \<longrightarrow> routeMutation r) \<and>
     (routePublic r \<longrightarrow> routeAction r = None \<and> serviceScope r = None) \<and>
     (allowsFirstFactorOnly r \<or> allowsRecoveryLimited r \<longrightarrow>
        routeAction r = None \<and> \<not> routeMutation r \<and> \<not> routePublic r \<and> serviceScope r = None) \<and>
     routeMethod r \<noteq> Delete"

lemma all_flags_sound: "\<forall>r \<in> set ROUTES. flags_sound r"
  unfolding ball_routes
  by (intro conjI; simp add: route_fields PROJECT_REGISTRY_ROUTES_1_def PROJECT_REGISTRY_ROUTES_2_def flags_sound_def)

text \<open>Every action a route names is in the table of actions.\<close>

definition action_known :: "js_string \<Rightarrow> bool" where
  "action_known a \<longleftrightarrow> a \<in> set (map policyAction ACTION_POLICIES)"

lemma known_actions:
  "list_all action_known
     [js ''project.read'', js ''evidence.read'', js ''readiness.read'', js ''registry.read'',
      js ''project.create'', js ''project.update'', js ''project.party.submit'',
      js ''project.fact.record'', js ''project.registration.request'',
      js ''project.stakeholder.record'', js ''source.upload'', js ''upload.scan_result'',
      js ''authority.register'', js ''authority.review'', js ''connection.configure'',
      js ''source.collect'', js ''cre.report'', js ''claim.curate'', js ''document.rule.manage'',
      js ''attestation.dispute'', js ''attestation.sign'', js ''attestation.revoke'',
      js ''credential.status.change'', js ''readiness.recompute'', js ''gate.decide'',
      js ''registry.draft'', js ''registry.publish'', js ''registry.revoke'',
      js ''anchor.submit'', js ''disclosure.restrict'', js ''governance.propose'',
      js ''governance.vote'', js ''governance.administer'', js ''governance.execution.record'',
      js ''audit.read'', js ''audit.export'', js ''project.export'', js ''admin.read'',
      js ''admin.subject.manage'', js ''admin.wallet.manage'', js ''admin.role.propose'',
      js ''admin.role.approve'', js ''admin.mfa_reset.propose'', js ''admin.mfa_reset.approve'',
      js ''admin.subject_suspension.propose'', js ''admin.subject_suspension.approve'',
      js ''admin.notification.manage'', js ''admin.invitation.manage'',
      js ''admin.email_change.propose'', js ''admin.email_change.approve'',
      js ''review_registry.read'', js ''review_registry.propose'',
      js ''review_registry.approve'', js ''project.lifecycle.advance'',
      js ''connection.security_review'', js ''break_glass.read'', js ''break_glass.request'',
      js ''break_glass.approve'', js ''break_glass.incident'', js ''break_glass.release'',
      js ''break_glass.quarantine'']"
  by (simp add: action_known_def action_keys del: list.map set_map)

definition action_of_table :: "route_definition \<Rightarrow> bool" where
  "action_of_table r \<longleftrightarrow> (case routeAction r of None \<Rightarrow> True | Some a \<Rightarrow> action_known a)"

lemma all_actions_known: "\<forall>r \<in> set ROUTES. action_of_table r"
  unfolding ball_routes
  by (intro conjI; simp add: route_fields PROJECT_REGISTRY_ROUTES_1_def PROJECT_REGISTRY_ROUTES_2_def
      action_of_table_def known_actions [simplified])

lemma every_mutation_names_an_action: "findRoutesWithoutAction = []"
proof -
  have "\<forall>r \<in> set ROUTES. \<not> (routeMutation r \<and> routeAction r = None)"
    using all_flags_sound unfolding flags_sound_def by blast
  then show ?thesis unfolding findRoutesWithoutAction_def filter_empty_conv .
qed

end
