(* ===== verification/Request_Gate.thy ===== *)
theory Request_Gate
  imports Route_Laws Authorize_Laws Jcs
begin

text \<open>
  Resolving the caller of a request: the \<open>preParsing\<close> hook of \<open>apps/api/src/server.ts\<close> with the token
  functions of \<open>plugins/session-token.ts\<close> and the normal form of paths of \<open>routes.ts\<close>.

  A request has a method, the matched route in the notation of the router (none when nothing
  matched) and an authorization header. The two SQL functions that look a token up by its hash are
  parameters, and so is keccak; the gate leaves the request without a session, refuses it, or gives
  it a session.
\<close>

section \<open>Tokens\<close>

definition SERVICE_TOKEN_PREFIX :: js_string where
  "SERVICE_TOKEN_PREFIX = js ''mpcsvc_''"

definition hashToken :: "(bytes \<Rightarrow> bytes) \<Rightarrow> js_string \<Rightarrow> hex" where
  "hashToken k token = keccak256 k (utf8_encode token)"

definition isServiceToken :: "js_string \<Rightarrow> bool" where
  "isServiceToken token = js_starts_with token SERVICE_TOKEN_PREFIX"

definition extractBearerToken :: "js_string option \<Rightarrow> js_string option" where
  "extractBearerToken header =
     (case header of
        None \<Rightarrow> None
      | Some h \<Rightarrow>
          if \<not> js_starts_with h (js ''Bearer '') then None
          else (let token = js_trim (drop (length (js ''Bearer '')) h)
                in if length token > 0 then Some token else None))"

section \<open>Routes as the router names them\<close>

text \<open>
  \<open>toFastifyPath\<close> replaces every \<open>{name}\<close>, the name being one or more characters other than braces,
  by \<open>:name\<close>; a brace that opens no such parameter stays.
\<close>

definition not_brace :: "code_unit \<Rightarrow> bool" where
  "not_brace c \<longleftrightarrow> c \<noteq> 0x7B \<and> c \<noteq> 0x7D"

function toFastifyPath :: "js_string \<Rightarrow> js_string" where
  "toFastifyPath s =
     (case s of
        [] \<Rightarrow> []
      | c # cs \<Rightarrow>
          let name = takeWhile not_brace cs; rest = dropWhile not_brace cs
          in if c = 0x7B \<and> name \<noteq> [] \<and> rest \<noteq> [] \<and> hd rest = 0x7D
             then (0x3A # name) @ toFastifyPath (tl rest)
             else c # toFastifyPath cs)"
  by pat_completeness auto

termination
  by (relation "measure length")
    (auto simp: less_Suc_eq_le intro: le_trans [OF diff_le_self length_dropWhile_le])

declare toFastifyPath.simps [simp del]

primrec method_name :: "http_method \<Rightarrow> js_string" where
  "method_name Get = js ''GET''"
| "method_name Post = js ''POST''"
| "method_name Patch = js ''PATCH''"
| "method_name Delete = js ''DELETE''"

definition route_key :: "route_definition \<Rightarrow> js_string" where
  "route_key r = method_name (routeMethod r) @ js '' '' @ toFastifyPath (routePath r)"

definition SERVICE_SCOPE_BY_ROUTE :: "(js_string \<times> service_scope) list" where
  "SERVICE_SCOPE_BY_ROUTE =
     List.map_filter (\<lambda>r. map_option (Pair (route_key r)) (serviceScope r)) ROUTES"

definition SESSIONLESS_ROUTES :: "js_string list" where
  "SESSIONLESS_ROUTES = map route_key (filter routePublic ROUTES)"

definition RECOVERY_LIMITED_ROUTES :: "js_string list" where
  "RECOVERY_LIMITED_ROUTES = map route_key (filter allowsRecoveryLimited ROUTES)"

definition FIRST_FACTOR_ROUTES :: "js_string list" where
  "FIRST_FACTOR_ROUTES = map route_key (filter allowsFirstFactorOnly ROUTES)"

section \<open>The hook\<close>

record token_store =
  lookup_session :: "hex \<Rightarrow> raw_session_row option"
  lookup_service_token :: "hex \<Rightarrow> service_token option"
  authority_of :: authority_store

record request =
  requestMethod :: js_string
  matchedRoute :: "js_string option"
  authorizationHeader :: "js_string option"

datatype gate = Anonymous | Refused app_error | Admitted session

definition request_key :: "request \<Rightarrow> js_string option" where
  "request_key q = map_option (\<lambda>r. requestMethod q @ js '' '' @ r) (matchedRoute q)"

definition key_in :: "js_string option \<Rightarrow> js_string list \<Rightarrow> bool" where
  "key_in key keys = (case key of None \<Rightarrow> False | Some k \<Rightarrow> k \<in> set keys)"

primrec scope_name :: "service_scope \<Rightarrow> js_string" where
  "scope_name Scope_scan_result = js ''scan_result''"
| "scope_name Scope_cre_report = js ''cre_report''"

definition service_gate :: "authority_store \<Rightarrow> js_string option \<Rightarrow> service_token \<Rightarrow> gate" where
  "service_gate st key service =
     (case (case key of None \<Rightarrow> None | Some k \<Rightarrow> map_of (rev SERVICE_SCOPE_BY_ROUTE) k) of
        None \<Rightarrow>
          Refused (forbidden (js ''SERVICE_TOKEN_ROUTE_DENIED'')
            (js ''A service token cannot call this route'') None)
      | Some scope \<Rightarrow>
          if scope \<notin> set (tokenScopes service)
          then Refused (forbidden (js ''SERVICE_TOKEN_SCOPE_DENIED'')
            (js ''This service token is not scoped for this route'')
            (Some [(js ''requiredScope'', Detail_string (scope_name scope))]))
          else Admitted (resolveServiceSession st service))"

definition person_gate :: "js_string option \<Rightarrow> session \<Rightarrow> gate" where
  "person_gate key s =
     (if aal s = Some Aal1 \<and> \<not> key_in key FIRST_FACTOR_ROUTES
      then Refused (forbidden (js ''MFA_REQUIRED'')
        (js ''Complete a second factor before using this session'')
        (Some [(js ''reason'', Detail_string (js ''AUTHENTICATION_LEVEL_INSUFFICIENT'')),
               (js ''requiredAal'', Detail_string (js ''aal2''))]))
      else if recoveryLimited s \<and> \<not> key_in key RECOVERY_LIMITED_ROUTES
      then Refused (forbidden (js ''MFA_RECOVERY_REENROLMENT_REQUIRED'')
        (js ''Enrol a new passkey or authenticator app before using this session'')
        (Some [(js ''reason'', Detail_string (js ''RECOVERY_CODE_SESSION''))]))
      else Admitted s)"

definition resolve_caller :: "(bytes \<Rightarrow> bytes) \<Rightarrow> token_store \<Rightarrow> request \<Rightarrow> gate" where
  "resolve_caller k store q =
     (let key = request_key q
      in if (case matchedRoute q of None \<Rightarrow> False | Some r \<Rightarrow> js_starts_with r (js ''/api/v1/public/'')) \<or>
            key_in key SESSIONLESS_ROUTES
         then Anonymous
         else (case extractBearerToken (authorizationHeader q) of
           None \<Rightarrow> Anonymous
         | Some token \<Rightarrow>
             if isServiceToken token
             then (case lookup_service_token store (hashToken k token) of
                     None \<Rightarrow> Anonymous
                   | Some service \<Rightarrow> service_gate (authority_of store) key service)
             else (case resolveSessionToken (lookup_session store (hashToken k token)) of
                     None \<Rightarrow> Anonymous
                   | Some row \<Rightarrow> person_gate key (resolveSession (authority_of store) row))))"

end
