(* ===== verification/Gate_Laws.thy ===== *)
theory Gate_Laws
  imports Request_Gate
begin

text \<open>
  What a session that the gate lets through may reach. The route is named by the key that the hook
  computes, so the conclusions speak of an entry of the contract with that key.
\<close>

section \<open>Facts of the tables\<close>

definition service_action :: "service_scope \<Rightarrow> js_string" where
  "service_action scope =
     (case scope of Scope_scan_result \<Rightarrow> js ''upload.scan_result'' | Scope_cre_report \<Rightarrow> js ''cre.report'')"

lemma service_routes_act:
  "\<forall>r \<in> set ROUTES. \<forall>scope. serviceScope r = Some scope \<longrightarrow> routeAction r = Some (service_action scope)"
  unfolding ball_routes
  by (intro conjI; simp add: route_fields PROJECT_REGISTRY_ROUTES_1_def PROJECT_REGISTRY_ROUTES_2_def
      service_action_def)

text \<open>Public routes live under a prefix of their own, or are sign-in routes.\<close>

lemma public_prefixes:
  "\<forall>r \<in> set ROUTES. routePublic r \<longrightarrow>
     js_starts_with (routePath r) (js ''/api/v1/public/'') \<or> js_starts_with (routePath r) (js ''/api/v1/auth/'')"
  unfolding ball_routes
  by (intro conjI; simp add: route_fields PROJECT_REGISTRY_ROUTES_1_def PROJECT_REGISTRY_ROUTES_2_def)

lemma scope_of_key:
  assumes "map_of (rev SERVICE_SCOPE_BY_ROUTE) key = Some scope"
  shows "\<exists>r \<in> set ROUTES. key = route_key r \<and> serviceScope r = Some scope"
proof -
  have "(key, scope) \<in> set SERVICE_SCOPE_BY_ROUTE"
    using map_of_SomeD [OF assms] by simp
  then show ?thesis by (auto simp: SERVICE_SCOPE_BY_ROUTE_def List.map_filter_def)
qed

lemma key_in_map: "key_in key (map f xs) \<longleftrightarrow> (\<exists>x \<in> set xs. key = Some (f x))"
  by (cases key) (auto simp: key_in_def)

section \<open>What gets through\<close>

lemma resolve_caller_Admitted:
  assumes "resolve_caller k store q = Admitted s"
  shows "(\<exists>service. service_gate (authority_of store) (request_key q) service = Admitted s) \<or>
    (\<exists>row. s = resolveSession (authority_of store) row \<and> person_gate (request_key q) s = Admitted s)"
  using assms
  by (auto simp: resolve_caller_def Let_def person_gate_def split: if_splits option.splits)

lemma service_gate_Admitted:
  assumes "service_gate st key service = Admitted s"
  shows "s = resolveServiceSession st service \<and>
    (\<exists>r \<in> set ROUTES. \<exists>scope \<in> set (tokenScopes service).
       key = Some (route_key r) \<and> routeAction r = Some (service_action scope))"
proof -
  obtain key' scope where "key = Some key'" "map_of (rev SERVICE_SCOPE_BY_ROUTE) key' = Some scope"
    "scope \<in> set (tokenScopes service)" "s = resolveServiceSession st service"
    using assms by (auto simp: service_gate_def split: option.splits if_splits)
  with scope_of_key [OF this(2)] service_routes_act show ?thesis by blast
qed

lemma resolved_sessions:
  "principal (resolveSession st row) = Person" "principal (resolveServiceSession st token) = Service"
  "aal (resolveServiceSession st token) = None" "\<not> recoveryLimited (resolveServiceSession st token)"
  "serviceScopes (resolveServiceSession st token) = Some (tokenScopes token)"
  by (simp_all add: resolveSession_def resolveServiceSession_def Let_def)

lemma flagged_routes_plain:
  "r \<in> set ROUTES \<Longrightarrow> allowsFirstFactorOnly r \<or> allowsRecoveryLimited r \<Longrightarrow>
     routeAction r = None \<and> \<not> routeMutation r"
  using all_flags_sound unfolding flags_sound_def by blast

lemma person_gate_first_factor:
  assumes "person_gate key s = Admitted s" and "aal s = Some Aal1"
  shows "\<exists>r \<in> set ROUTES. key = Some (route_key r) \<and> allowsFirstFactorOnly r \<and>
    routeAction r = None \<and> \<not> routeMutation r"
proof -
  have "key_in key FIRST_FACTOR_ROUTES"
    using assms by (simp add: person_gate_def split: if_splits)
  then obtain r where r: "r \<in> set ROUTES" "allowsFirstFactorOnly r" "key = Some (route_key r)"
    unfolding FIRST_FACTOR_ROUTES_def key_in_map by auto
  then show ?thesis using flagged_routes_plain [OF r(1)] by blast
qed

lemma person_gate_recovery:
  assumes "person_gate key s = Admitted s" and "recoveryLimited s"
  shows "\<exists>r \<in> set ROUTES. key = Some (route_key r) \<and> allowsRecoveryLimited r \<and>
    routeAction r = None \<and> \<not> routeMutation r"
proof -
  have "key_in key RECOVERY_LIMITED_ROUTES"
    using assms by (simp add: person_gate_def split: if_splits)
  then obtain r where r: "r \<in> set ROUTES" "allowsRecoveryLimited r" "key = Some (route_key r)"
    unfolding RECOVERY_LIMITED_ROUTES_def key_in_map by auto
  then show ?thesis using flagged_routes_plain [OF r(1)] by blast
qed

text \<open>
  C33. What reaches a route: when the gate admits a service, the request is for a route of the
  contract whose scope the token has, and that route is one of the two service actions; when it
  admits a person past the first factor only, or one restored by a recovery code, the request is for
  a route that is marked for it, which takes no action of the table and is no mutation.
\<close>

theorem gate_confines_sessions:
  assumes "resolve_caller k store q = Admitted s"
  shows "(principal s = Service \<longrightarrow>
      (\<exists>r \<in> set ROUTES. \<exists>scopes. \<exists>scope \<in> set scopes. request_key q = Some (route_key r) \<and>
         serviceScopes s = Some scopes \<and> routeAction r = Some (service_action scope))) \<and>
    (aal s = Some Aal1 \<longrightarrow>
      (\<exists>r \<in> set ROUTES. request_key q = Some (route_key r) \<and> allowsFirstFactorOnly r \<and>
         routeAction r = None \<and> \<not> routeMutation r)) \<and>
    (recoveryLimited s \<longrightarrow>
      (\<exists>r \<in> set ROUTES. request_key q = Some (route_key r) \<and> allowsRecoveryLimited r \<and>
         routeAction r = None \<and> \<not> routeMutation r))"
proof -
  consider (service) service where "service_gate (authority_of store) (request_key q) service = Admitted s"
    | (person) row where "s = resolveSession (authority_of store) row"
        "person_gate (request_key q) s = Admitted s"
    using resolve_caller_Admitted [OF assms] by blast
  then show ?thesis
  proof cases
    case service
    note fact = service_gate_Admitted [OF service]
    then have s: "s = resolveServiceSession (authority_of store) service" by (rule conjunct1)
    have "\<exists>r \<in> set ROUTES. \<exists>scopes. \<exists>scope \<in> set scopes. request_key q = Some (route_key r) \<and>
        serviceScopes s = Some scopes \<and> routeAction r = Some (service_action scope)"
      using fact unfolding s resolved_sessions by blast
    then show ?thesis by (simp add: s resolved_sessions)
  next
    case person
    have "principal s \<noteq> Service" unfolding person(1) resolved_sessions by simp
    moreover have "aal s = Some Aal1 \<longrightarrow>
        (\<exists>r \<in> set ROUTES. request_key q = Some (route_key r) \<and> allowsFirstFactorOnly r \<and>
           routeAction r = None \<and> \<not> routeMutation r)"
      using person_gate_first_factor [OF person(2)] by blast
    moreover have "recoveryLimited s \<longrightarrow>
        (\<exists>r \<in> set ROUTES. request_key q = Some (route_key r) \<and> allowsRecoveryLimited r \<and>
           routeAction r = None \<and> \<not> routeMutation r)"
      using person_gate_recovery [OF person(2)] by blast
    ultimately show ?thesis by blast
  qed
qed

section \<open>A concrete request\<close>

lemma toFastifyPath_plain:
  "0x7B \<notin> set a \<Longrightarrow> toFastifyPath (a @ b) = a @ toFastifyPath b"
  by (induction a) (simp, subst toFastifyPath.simps, simp)

lemma toFastifyPath_Nil [simp]: "toFastifyPath [] = []"
  by (subst toFastifyPath.simps) simp

lemma toFastifyPath_id: "0x7B \<notin> set a \<Longrightarrow> toFastifyPath a = a"
  using toFastifyPath_plain [of a "[]"] by simp

text \<open>The keys of the public routes start with their two prefixes, whatever their parameters are called.\<close>

lemma key_after_prefix:
  assumes "js_starts_with (routePath r) (js p)" and "0x7B \<notin> set (js p)"
  shows "\<exists>t. route_key r = method_name (routeMethod r) @ js ('' '' @ p) @ t"
proof -
  have "routePath r = js p @ drop (length p) (routePath r)"
    using assms(1) by (metis append_take_drop_id js_starts_with_def js_def length_map)
  then have "toFastifyPath (routePath r) = js p @ toFastifyPath (drop (length p) (routePath r))"
    using toFastifyPath_plain [OF assms(2)] by metis
  then show ?thesis by (simp add: route_key_def js_def)
qed

lemma plain_prefixes:
  "0x7B \<notin> set (js ''/api/v1/public/'')" "0x7B \<notin> set (js ''/api/v1/auth/'')"
  "0x7B \<notin> set (js ''/api/v1/projects/'')"
  by (simp_all add: js_def)

lemma public_key:
  assumes "r \<in> set ROUTES" and "routePublic r"
  shows "\<exists>m t. route_key r = method_name m @ js '' /api/v1/public/'' @ t \<or>
    route_key r = method_name m @ js '' /api/v1/auth/'' @ t"
  using assms public_prefixes key_after_prefix [OF _ plain_prefixes(1), of r]
    key_after_prefix [OF _ plain_prefixes(2), of r]
  by auto

definition scan_key :: js_string where
  "scan_key = js ''POST /api/v1/uploads/:uploadId/scan-result''"

lemma scan_key_not_public: "\<not> key_in (Some scan_key) SESSIONLESS_ROUTES"
proof
  assume "key_in (Some scan_key) SESSIONLESS_ROUTES"
  then obtain r where "r \<in> set ROUTES" "routePublic r" "scan_key = route_key r"
    unfolding SESSIONLESS_ROUTES_def key_in_map by auto
  with public_key [of r] obtain m t where
      "scan_key = method_name m @ js '' /api/v1/public/'' @ t \<or> scan_key = method_name m @ js '' /api/v1/auth/'' @ t"
    by metis
  then show False by (cases m) (auto simp: scan_key_def js_def)
qed

text \<open>The routes that a service token can reach at all.\<close>

lemma toFastifyPath_param:
  assumes "list_all not_brace name" and "name \<noteq> []"
  shows "toFastifyPath (0x7B # name @ 0x7D # rest) = 0x3A # name @ toFastifyPath rest"
proof -
  have "takeWhile not_brace (name @ 0x7D # rest) = name" "dropWhile not_brace (name @ 0x7D # rest) = 0x7D # rest"
    using assms(1) by (simp_all add: takeWhile_append dropWhile_append list_all_iff not_brace_def)
  with assms(2) show ?thesis
    by (subst toFastifyPath.simps) (simp only: list.simps Let_def simp_thms list.sel if_True append.simps)
qed

lemma scan_path_parts:
  "js ''/api/v1/uploads/{uploadId}/scan-result'' =
     js ''/api/v1/uploads/'' @ 0x7B # js ''uploadId'' @ 0x7D # js ''/scan-result''"
  "js ''/api/v1/uploads/'' @ 0x3A # js ''uploadId'' @ js ''/scan-result'' =
     js ''/api/v1/uploads/:uploadId/scan-result''"
  by (simp_all add: js_def)

lemma scan_path:
  "toFastifyPath (js ''/api/v1/uploads/{uploadId}/scan-result'') = js ''/api/v1/uploads/:uploadId/scan-result''"
proof -
  have name: "list_all not_brace (js ''uploadId'')" "js ''uploadId'' \<noteq> []"
    and plain: "0x7B \<notin> set (js ''/api/v1/uploads/'')" "0x7B \<notin> set (js ''/scan-result'')"
    by (simp_all add: js_def not_brace_def)
  show ?thesis
    unfolding scan_path_parts(1) toFastifyPath_plain [OF plain(1)] toFastifyPath_param [OF name]
      toFastifyPath_id [OF plain(2)] by (rule scan_path_parts(2))
qed

lemma cre_prefix:
  "\<forall>r \<in> set ROUTES. serviceScope r = Some Scope_cre_report \<longrightarrow>
     js_starts_with (routePath r) (js ''/api/v1/projects/'')"
  unfolding ball_routes
  by (intro conjI; simp add: route_fields PROJECT_REGISTRY_ROUTES_1_def PROJECT_REGISTRY_ROUTES_2_def)

lemma scan_route:
  "\<exists>r \<in> set ROUTES. route_key r = scan_key \<and> serviceScope r = Some Scope_scan_result"
proof -
  let ?r = "(route Post (js ''/api/v1/uploads/{uploadId}/scan-result'') (js ''recordScanResult''))
        \<lparr>routeMutation := True, requiresIfMatch := True,
         routeAction := Some (js ''upload.scan_result''), serviceScope := Some Scope_scan_result\<rparr>"
  have "?r \<in> set upload_routes" by (simp add: upload_routes_def)
  then have "?r \<in> set ROUTES" by (simp add: ROUTES_def)
  moreover have "route_key ?r = scan_key"
  proof -
    have "route_key ?r =
        js ''POST'' @ js '' '' @ toFastifyPath (js ''/api/v1/uploads/{uploadId}/scan-result'')"
      by (simp add: route_key_def route_def)
    then show ?thesis unfolding scan_path by (simp add: scan_key_def js_def)
  qed
  moreover have "serviceScope ?r = Some Scope_scan_result" by simp
  ultimately show ?thesis by blast
qed

lemma scan_scope: "map_of (rev SERVICE_SCOPE_BY_ROUTE) scan_key = Some Scope_scan_result"
proof -
  have "(scan_key, Scope_scan_result) \<in> set (rev SERVICE_SCOPE_BY_ROUTE)"
    using scan_route by (force simp: SERVICE_SCOPE_BY_ROUTE_def List.map_filter_def)
  then obtain scope where found: "map_of (rev SERVICE_SCOPE_BY_ROUTE) scan_key = Some scope"
    using weak_map_of_SomeI by fast
  from scope_of_key [OF this] obtain r where r: "r \<in> set ROUTES" "scan_key = route_key r"
    "serviceScope r = Some scope" by blast
  have "scope \<noteq> Scope_cre_report"
  proof
    assume "scope = Scope_cre_report"
    with r cre_prefix have "js_starts_with (routePath r) (js ''/api/v1/projects/'')" by blast
    from key_after_prefix [OF this plain_prefixes(3)] r(2) show False
      by (cases "routeMethod r") (auto simp: scan_key_def js_def)
  qed
  then have "scope = Scope_scan_result" by (cases scope) simp_all
  with found show ?thesis by simp
qed

definition sample_tokens :: token_store where
  "sample_tokens =
     \<lparr>lookup_session = (\<lambda>_. None), lookup_service_token = (\<lambda>_. Some sample_token),
      authority_of = sample_store\<rparr>"

definition sample_request :: request where
  "sample_request =
     \<lparr>requestMethod = js ''POST'', matchedRoute = Some (js ''/api/v1/uploads/:uploadId/scan-result''),
      authorizationHeader = Some (js ''Bearer mpcsvc_x'')\<rparr>"

lemma sample_bearer: "extractBearerToken (Some (js ''Bearer mpcsvc_x'')) = Some (js ''mpcsvc_x'')"
  by (simp add: extractBearerToken_def js_starts_with_def js_trim_def js_whitespace_def js_def)

lemma sample_admitted:
  "resolve_caller k sample_tokens sample_request = Admitted (resolveServiceSession sample_store sample_token)"
proof -
  have key: "request_key sample_request = Some scan_key"
    by (simp add: request_key_def sample_request_def scan_key_def js_def)
  have "service_gate sample_store (Some scan_key) sample_token =
      Admitted (resolveServiceSession sample_store sample_token)"
    by (simp add: service_gate_def scan_scope) (simp add: sample_token_def)
  moreover have "isServiceToken (js ''mpcsvc_x'')"
    by (simp add: isServiceToken_def SERVICE_TOKEN_PREFIX_def)
  ultimately show ?thesis
    unfolding resolve_caller_def key Let_def
    by (simp add: scan_key_not_public sample_request_def sample_bearer sample_tokens_def)
qed

theorem gate_confines_sessions_witness:
  "\<exists>r \<in> set ROUTES. \<exists>scopes. \<exists>scope \<in> set scopes. request_key sample_request = Some (route_key r) \<and>
     serviceScopes (resolveServiceSession sample_store sample_token) = Some scopes \<and>
     routeAction r = Some (service_action scope)"
  using conjunct1 [OF gate_confines_sessions [OF sample_admitted]] resolved_sessions by blast

end
