(* ===== verification/Idempotency.thy ===== *)
theory Idempotency
  imports App_Error
begin

text \<open>
  Mutation idempotency: \<open>apps/api/src/plugins/idempotency.ts\<close>.

  The table \<open>core.idempotency_keys\<close> is a map from tenant and key to the hash of the request and the
  response stored with it, if any. \<open>withIdempotency\<close> runs inside one transaction: the work changes
  the rest of the database, of type \<open>'w\<close>, and throws or returns a response; a transaction that throws
  leaves no trace, so the whole call returns \<open>Inl\<close> of the error and the state stays as it was. The
  digest of a request is a parameter, as JSON printing and sha256 are.
\<close>

section \<open>The request that a key stands for\<close>

record 'p request_scope =
  scopeMethod :: js_string
  scopePath :: js_string
  scopeSubject :: "js_string option"
  scopePayload :: "'p option"

text \<open>\<open>url.split("?")[0]\<close>: everything before the first question mark.\<close>

definition before_query :: "js_string \<Rightarrow> js_string" where
  "before_query url = takeWhile (\<lambda>c. c \<noteq> 0x3F) url"

definition hashRequest ::
    "('p request_scope \<Rightarrow> js_string) \<Rightarrow> js_string \<Rightarrow> js_string \<Rightarrow> js_string option \<Rightarrow> 'p option \<Rightarrow> js_string" where
  "hashRequest digest m url subject payload =
     digest \<lparr>scopeMethod = m, scopePath = before_query url, scopeSubject = subject, scopePayload = payload\<rparr>"

section \<open>The operations\<close>

record ('w, 'r) idempotent_db =
  keys :: "js_string \<times> js_string \<rightharpoonup> js_string \<times> 'r option"
  world :: 'w

definition key_reuse :: app_error where
  "key_reuse = conflict (js ''IDEMPOTENCY_KEY_REUSE'') (js ''A different request arrived with the same key'') None"

definition in_flight :: app_error where
  "in_flight = conflict (js ''IDEMPOTENCY_IN_FLIGHT'') (js ''The same request is in progress'') None"

text \<open>
  Reserving inserts the row unless one exists. A row that exists answers with its response, or
  refuses: another request under the same key, or one that has not settled.
\<close>

definition reserveIdempotency ::
    "js_string \<Rightarrow> js_string \<Rightarrow> js_string \<Rightarrow> ('w, 'r) idempotent_db \<Rightarrow>
     app_error + ('r option \<times> ('w, 'r) idempotent_db)" where
  "reserveIdempotency tenant key hash db =
     (case keys db (tenant, key) of
        None \<Rightarrow> Inr (None, db\<lparr>keys := (keys db)((tenant, key) \<mapsto> (hash, None))\<rparr>)
      | Some (previous, response) \<Rightarrow>
          if previous \<noteq> hash then Inl key_reuse
          else (case response of None \<Rightarrow> Inl in_flight | Some r \<Rightarrow> Inr (Some r, db)))"

definition releaseIdempotency ::
    "js_string \<Rightarrow> js_string \<Rightarrow> ('w, 'r) idempotent_db \<Rightarrow> ('w, 'r) idempotent_db" where
  "releaseIdempotency tenant key db =
     (case keys db (tenant, key) of
        Some (_, None) \<Rightarrow> db\<lparr>keys := (keys db)((tenant, key) := None)\<rparr>
      | _ \<Rightarrow> db)"

definition completeIdempotency ::
    "js_string \<Rightarrow> js_string \<Rightarrow> 'r \<Rightarrow> ('w, 'r) idempotent_db \<Rightarrow> ('w, 'r) idempotent_db" where
  "completeIdempotency tenant key r db =
     (case keys db (tenant, key) of
        Some (hash, _) \<Rightarrow> db\<lparr>keys := (keys db)((tenant, key) \<mapsto> (hash, Some r))\<rparr>
      | None \<Rightarrow> db)"

definition withIdempotency ::
    "js_string \<Rightarrow> js_string \<Rightarrow> js_string \<Rightarrow> ('w \<Rightarrow> app_error + ('r \<times> 'w)) \<Rightarrow> ('w, 'r) idempotent_db \<Rightarrow>
     app_error + ('r \<times> ('w, 'r) idempotent_db)" where
  "withIdempotency tenant key hash work db =
     (case keys db (tenant, key) of
        Some (previous, response) \<Rightarrow>
          if previous \<noteq> hash then Inl key_reuse
          else (case response of Some r \<Rightarrow> Inr (r, db) | None \<Rightarrow> Inl in_flight)
      | None \<Rightarrow>
          and_then (work (world db)) (\<lambda>(r, w).
            Inr (r, completeIdempotency tenant key r
                   (db\<lparr>keys := (keys db)((tenant, key) \<mapsto> (hash, None)), world := w\<rparr>))))"

text \<open>An answer is that of the work, done on the state before, or one that was stored.\<close>

lemma with_work:
  "withIdempotency t k hash work db = Inr (r, db') \<Longrightarrow>
     world db' = world db \<or> (\<exists>w. work (world db) = Inr (r, w) \<and> world db' = w)"
  by (auto simp: withIdempotency_def completeIdempotency_def and_then_eq_Inr_iff split: option.splits if_splits)

section \<open>Histories\<close>

text \<open>
  What clients see and what runs: \<open>Worked\<close> is an answer for which the work was done, \<open>Replayed\<close> one
  that was read back. A handler that reserved a key is pending until it completes or releases it;
  between its steps any other handler may run.
\<close>

datatype 'r answer =
    Worked (answered: "js_string \<times> js_string") (answer_hash: js_string) (response_of: 'r)
  | Replayed (answered: "js_string \<times> js_string") (answer_hash: js_string) (response_of: 'r)

fun is_worked :: "js_string \<times> js_string \<Rightarrow> 'r answer \<Rightarrow> bool" where
  "is_worked tk (Worked tk' hash r) \<longleftrightarrow> tk' = tk"
| "is_worked tk (Replayed tk' hash r) \<longleftrightarrow> False"

type_synonym pending = "((js_string \<times> js_string) \<times> js_string) set"

inductive idem_reach :: "('w, 'r) idempotent_db \<Rightarrow> pending \<Rightarrow> 'r answer list \<Rightarrow> bool" where
  start: "keys db = Map.empty \<Longrightarrow> idem_reach db {} []"
| work: "idem_reach db pend h \<Longrightarrow> keys db (tenant, key) = None \<Longrightarrow>
    withIdempotency tenant key hash work db = Inr (r, db') \<Longrightarrow>
    idem_reach db' pend (Worked (tenant, key) hash r # h)"
| replay: "idem_reach db pend h \<Longrightarrow> keys db (tenant, key) \<noteq> None \<Longrightarrow>
    withIdempotency tenant key hash work db = Inr (r, db') \<Longrightarrow>
    idem_reach db' pend (Replayed (tenant, key) hash r # h)"
| reserve: "idem_reach db pend h \<Longrightarrow> reserveIdempotency tenant key hash db = Inr (None, db') \<Longrightarrow>
    idem_reach db' (insert ((tenant, key), hash) pend) h"
| reserve_replay: "idem_reach db pend h \<Longrightarrow> reserveIdempotency tenant key hash db = Inr (Some r, db') \<Longrightarrow>
    idem_reach db' pend (Replayed (tenant, key) hash r # h)"
| complete: "idem_reach db pend h \<Longrightarrow> ((tenant, key), hash) \<in> pend \<Longrightarrow>
    idem_reach ((completeIdempotency tenant key r db)\<lparr>world := w\<rparr>) (pend - {((tenant, key), hash)})
      (Worked (tenant, key) hash r # h)"
| release: "idem_reach db pend h \<Longrightarrow> ((tenant, key), hash) \<in> pend \<Longrightarrow>
    idem_reach (releaseIdempotency tenant key db) (pend - {((tenant, key), hash)}) h"
| other: "idem_reach db pend h \<Longrightarrow> idem_reach (db\<lparr>world := w\<rparr>) pend h"

text \<open>
  The row of a key and the history agree: a settled row is the one answer of its key, an open row is
  pending, a key without a row has no answer.
\<close>

definition row_agrees ::
    "(js_string \<times> 'r option) option \<Rightarrow> pending \<Rightarrow> 'r answer list \<Rightarrow> js_string \<times> js_string \<Rightarrow> bool" where
  "row_agrees row pend h tk =
     (case row of
        None \<Rightarrow> (\<forall>a \<in> set h. answered a \<noteq> tk) \<and> (\<forall>hash. (tk, hash) \<notin> pend)
      | Some (hash, None) \<Rightarrow>
          (\<forall>a \<in> set h. answered a \<noteq> tk) \<and> (\<forall>hash'. (tk, hash') \<in> pend \<longleftrightarrow> hash' = hash)
      | Some (hash, Some r) \<Rightarrow>
          (\<forall>a \<in> set h. answered a = tk \<longrightarrow> answer_hash a = hash \<and> response_of a = r) \<and>
          length (filter (is_worked tk) h) = 1 \<and> (\<forall>hash'. (tk, hash') \<notin> pend))"

definition idem_inv :: "('w, 'r) idempotent_db \<Rightarrow> pending \<Rightarrow> 'r answer list \<Rightarrow> bool" where
  "idem_inv db pend h \<longleftrightarrow> (\<forall>tk. row_agrees (keys db tk) pend h tk)"

lemma is_worked_other: "answered a \<noteq> tk \<Longrightarrow> \<not> is_worked tk a"
  by (cases a) auto

lemma unanswered_unworked: "\<forall>a \<in> set h. answered a \<noteq> tk \<Longrightarrow> filter (is_worked tk) h = []"
  by (simp add: filter_empty_conv is_worked_other)

lemma row_agrees_other_answer:
  "answered a \<noteq> tk \<Longrightarrow> row_agrees row pend (a # h) tk \<longleftrightarrow> row_agrees row pend h tk"
  by (auto simp: row_agrees_def is_worked_other split: option.splits)

lemma row_agrees_other_pending:
  assumes "tk' \<noteq> tk"
  shows "row_agrees row (insert (tk', hash) pend) h tk \<longleftrightarrow> row_agrees row pend h tk"
    and "row_agrees row (pend - {(tk', hash)}) h tk \<longleftrightarrow> row_agrees row pend h tk"
  using assms by (auto simp: row_agrees_def split: option.splits)

lemma row_settles:
  assumes "row_agrees row pend h tk" and "row = None \<or> row = Some (hash, None)"
  shows "row_agrees (Some (hash, Some r)) (pend - {(tk, hash)}) (Worked tk hash r # h) tk"
  using assms unanswered_unworked [of h tk] by (auto simp: row_agrees_def)

lemma pending_open:
  assumes "row_agrees row pend h tk" and "(tk, hash) \<in> pend"
  shows "row = Some (hash, None)"
  using assms by (auto simp: row_agrees_def split: option.splits)

lemma settled_replay:
  "row_agrees (Some (hash, Some r)) pend h tk \<Longrightarrow> row_agrees (Some (hash, Some r)) pend (Replayed tk hash r # h) tk"
  by (simp add: row_agrees_def)

lemma with_fresh:
  "keys db (t, k) = None \<Longrightarrow> withIdempotency t k hash work db = Inr (r, db') \<Longrightarrow>
     keys db' = (keys db)((t, k) \<mapsto> (hash, Some r))"
  by (auto simp: withIdempotency_def completeIdempotency_def and_then_eq_Inr_iff)

lemma with_known:
  "keys db (t, k) \<noteq> None \<Longrightarrow> withIdempotency t k hash work db = Inr (r, db') \<Longrightarrow>
     db' = db \<and> keys db (t, k) = Some (hash, Some r)"
  by (auto simp: withIdempotency_def split: option.splits if_splits)

lemma reserve_fresh:
  "reserveIdempotency t k hash db = Inr (None, db') \<Longrightarrow>
     keys db (t, k) = None \<and> keys db' = (keys db)((t, k) \<mapsto> (hash, None))"
  by (auto simp: reserveIdempotency_def split: option.splits if_splits)

lemma reserve_known:
  "reserveIdempotency t k hash db = Inr (Some r, db') \<Longrightarrow> db' = db \<and> keys db (t, k) = Some (hash, Some r)"
  by (auto simp: reserveIdempotency_def split: option.splits if_splits)

lemma idem_invI:
  assumes "\<And>tk. tk \<noteq> tk0 \<Longrightarrow> row_agrees (keys db tk) pend h tk" and "row_agrees (keys db tk0) pend h tk0"
  shows "idem_inv db pend h"
  unfolding idem_inv_def using assms by metis

lemma idem_inv_at: "idem_inv db pend h \<Longrightarrow> row_agrees (keys db tk) pend h tk"
  unfolding idem_inv_def by blast

lemma idem_reach_inv: "idem_reach db pend h \<Longrightarrow> idem_inv db pend h"
proof (induction rule: idem_reach.induct)
  case (start db)
  then show ?case by (simp add: idem_inv_def row_agrees_def)
next
  case (work db pend h t k hash work r db')
  note keys = with_fresh [OF work.hyps(2,3)]
  have at: "row_agrees (keys db tk) pend h tk" for tk using work.IH by (rule idem_inv_at)
  have unpending: "pend - {((t, k), hash)} = pend"
    using at [of "(t, k)"] work.hyps(2) by (auto simp: row_agrees_def)
  show ?case
    by (rule idem_invI [of "(t, k)"])
      (use at row_settles [OF at, of "(t, k)" hash r] work.hyps(2) in
        \<open>simp_all add: keys row_agrees_other_answer unpending\<close>)
next
  case (replay db pend h t k hash work r db')
  note known = with_known [OF replay.hyps(2,3)]
  have at: "row_agrees (keys db tk) pend h tk" for tk using replay.IH by (rule idem_inv_at)
  show ?case
    by (rule idem_invI [of "(t, k)"])
      (use at at [of "(t, k)"] known settled_replay in \<open>simp_all add: row_agrees_other_answer\<close>)
next
  case (reserve db pend h t k hash db')
  note fresh = reserve_fresh [OF reserve.hyps(2)]
  have at: "row_agrees (keys db tk) pend h tk" for tk using reserve.IH by (rule idem_inv_at)
  have "row_agrees (Some (hash, None)) (insert ((t, k), hash) pend) h (t, k)"
    using at [of "(t, k)"] fresh by (simp add: row_agrees_def)
  then show ?case
    by (intro idem_invI [of "(t, k)"]) (use at fresh in \<open>simp_all add: row_agrees_other_pending\<close>)
next
  case (reserve_replay db pend h t k hash r db')
  note known = reserve_known [OF reserve_replay.hyps(2)]
  have at: "row_agrees (keys db tk) pend h tk" for tk using reserve_replay.IH by (rule idem_inv_at)
  show ?case
    by (rule idem_invI [of "(t, k)"])
      (use at at [of "(t, k)"] known settled_replay in \<open>simp_all add: row_agrees_other_answer\<close>)
next
  case (complete db pend h t k hash w r)
  have at: "row_agrees (keys db tk) pend h tk" for tk using complete.IH by (rule idem_inv_at)
  have "keys db (t, k) = Some (hash, None)" using pending_open [OF at complete.hyps(2)] .
  with row_settles [OF at, of "(t, k)" hash r] at show ?case
    by (intro idem_invI [of "(t, k)"])
      (simp_all add: completeIdempotency_def row_agrees_other_answer row_agrees_other_pending)
next
  case (release db pend h t k hash)
  have at: "row_agrees (keys db tk) pend h tk" for tk using release.IH by (rule idem_inv_at)
  have row: "keys db (t, k) = Some (hash, None)" using pending_open [OF at release.hyps(2)] .
  have "row_agrees None (pend - {((t, k), hash)}) h (t, k)"
    using at [of "(t, k)"] row by (auto simp: row_agrees_def)
  with row at show ?case
    by (intro idem_invI [of "(t, k)"]) (simp_all add: releaseIdempotency_def row_agrees_other_pending)
next
  case (other db pend h w)
  then show ?case by (simp add: idem_inv_def)
qed

text \<open>
  C14. At most once: in every history of mutations, reservations, completions and releases from an
  empty table, however the handlers interleave, the work of a key is done at most once, and every
  answer given under that key is for the same request and carries the same response.
\<close>

theorem mutation_at_most_once:
  assumes "idem_reach db pend h"
  shows "length (filter (is_worked tk) h) \<le> 1 \<and>
    (\<forall>a \<in> set h. \<forall>b \<in> set h. answered a = tk \<and> answered b = tk \<longrightarrow>
       answer_hash a = answer_hash b \<and> response_of a = response_of b)"
proof -
  have "row_agrees (keys db tk) pend h tk" using idem_reach_inv [OF assms] by (rule idem_inv_at)
  then show ?thesis
    using unanswered_unworked [of h tk] by (auto simp: row_agrees_def split: option.splits)
qed

text \<open>A mutation that is sent twice.\<close>

definition count_up :: "nat \<Rightarrow> app_error + (nat \<times> nat)" where
  "count_up n = Inr (Suc n, Suc n)"

theorem mutation_at_most_once_witness:
  "\<exists>(db :: (nat, nat) idempotent_db) pend h. idem_reach db pend h \<and> world db = 1 \<and> length h = 2 \<and>
     length (filter (is_worked (js ''t'', js ''k'')) h) \<le> 1"
proof -
  let ?e = "\<lparr>keys = Map.empty, world = 0\<rparr> :: (nat, nat) idempotent_db"
  let ?d = "\<lparr>keys = [(js ''t'', js ''k'') \<mapsto> (js ''h'', Some 1)], world = 1\<rparr> :: (nat, nat) idempotent_db"
  have 1: "idem_reach ?d {} [Worked (js ''t'', js ''k'') (js ''h'') 1]"
    by (rule idem_reach.work [OF idem_reach.start [of ?e], of _ _ _ count_up])
      (simp_all add: withIdempotency_def completeIdempotency_def count_up_def)
  have 2: "idem_reach ?d {} [Replayed (js ''t'', js ''k'') (js ''h'') 1, Worked (js ''t'', js ''k'') (js ''h'') 1]"
    by (rule idem_reach.replay [OF 1, of _ _ _ count_up]) (simp_all add: withIdempotency_def)
  show ?thesis
    using conjunct1 [OF mutation_at_most_once [OF 2, of "(js ''t'', js ''k'')"]] 2
    by (intro exI [of _ ?d] exI [of _ "{}"] exI) auto
qed

end
