(* ===== verification/Request_Guards.thy ===== *)
theory Request_Guards
  imports Authorize Idempotency
begin

text \<open>
  What every route asks of a request before it does anything: \<open>apps/api/src/routes/shared.ts\<close>. A
  missing header is \<open>None\<close>. The version of an \<open>If-Match\<close> header becomes a number of JavaScript, so a
  long numeral is rounded to a double: \<open>js_double\<close> is the value, \<open>None\<close> being infinity.
\<close>

section \<open>Numerals as doubles\<close>

type_synonym js_double = "nat option"

fun bit_size :: "nat \<Rightarrow> nat" where
  "bit_size n = (if n = 0 then 0 else Suc (bit_size (n div 2)))"

declare bit_size.simps [simp del]

definition round_to_double :: "nat \<Rightarrow> js_double" where
  "round_to_double n =
     (if n < 2 ^ 53 then Some n
      else (let e = bit_size n - 53; q = n div 2 ^ e; r = n mod 2 ^ e;
                up = 2 * r > 2 ^ e \<or> 2 * r = 2 ^ e \<and> odd q;
                m = (if up then Suc q else q) * 2 ^ e
            in if m \<ge> 2 ^ 1024 then None else Some m))"

lemma round_to_double_exact [simp]: "n < 2 ^ 53 \<Longrightarrow> round_to_double n = Some n"
  by (simp add: round_to_double_def)

section \<open>Sessions and keys\<close>

record incoming =
  callerSession :: "session option"
  idempotencyHeader :: "js_string option"
  ifMatchHeader :: "js_string option"

definition requireEnrolledSession :: "incoming \<Rightarrow> app_error + (session \<times> js_string)" where
  "requireEnrolledSession q =
     (case callerSession q of
        None \<Rightarrow> Inl (unauthorized (js ''UNAUTHENTICATED'') (js ''Authentication required''))
      | Some s \<Rightarrow>
          (case sessionTenantId s of
             None \<Rightarrow> Inl (unauthorized (js ''UNAUTHENTICATED'') (js ''Authentication required''))
           | Some tenant \<Rightarrow> Inr (s, tenant)))"

definition requireReadContext :: "incoming \<Rightarrow> app_error + (session \<times> js_string)" where
  "requireReadContext q = requireEnrolledSession q"

definition requireMutationContext :: "incoming \<Rightarrow> app_error + (session \<times> js_string \<times> js_string)" where
  "requireMutationContext q =
     and_then (requireEnrolledSession q) (\<lambda>(s, tenant).
       (case idempotencyHeader q of
          None \<Rightarrow> Inl (badRequest (js ''IDEMPOTENCY_KEY_REQUIRED'')
            (js ''Mutations require an Idempotency-Key of at least 16 characters''))
        | Some key \<Rightarrow>
            if length key < 16
            then Inl (badRequest (js ''IDEMPOTENCY_KEY_REQUIRED'')
              (js ''Mutations require an Idempotency-Key of at least 16 characters''))
            else Inr (s, tenant, key)))"

lemma requireMutationContext_Inr:
  "requireMutationContext q = Inr (s, tenant, key) \<Longrightarrow>
     callerSession q = Some s \<and> sessionTenantId s = Some tenant"
  by (auto simp: requireMutationContext_def requireEnrolledSession_def and_then_eq_Inr_iff
      split: option.splits if_splits)

section \<open>Versions\<close>

text \<open>
  The regular expression of \<open>requireIfMatch\<close>: an optional weak prefix, an optional quotation mark,
  at least one digit, an optional quotation mark and nothing after it.
\<close>

definition if_match_digits :: "js_string \<Rightarrow> js_string option" where
  "if_match_digits s =
     (let unweak = (if js_starts_with s (js ''W/'') then drop 2 s else s);
          body = (if unweak \<noteq> [] \<and> hd unweak = 0x22 then tl unweak else unweak);
          digits = takeWhile js_digit body; rest = dropWhile js_digit body
      in if digits \<noteq> [] \<and> (rest = [] \<or> rest = [0x22]) then Some digits else None)"

definition requireIfMatch :: "incoming \<Rightarrow> app_error + js_double" where
  "requireIfMatch q =
     (case ifMatchHeader q of
        None \<Rightarrow> Inl (preconditionRequired (js ''IF_MATCH_REQUIRED'')
          (js ''Changing a versioned resource requires If-Match'')
          (Some [(js ''hint'', Detail_string
            (js ''Pass the current version as is. Example: If-Match: '' @ [0x22] @ js ''3'' @ [0x22]))]))
      | Some header \<Rightarrow>
          if js_blank header
          then Inl (preconditionRequired (js ''IF_MATCH_REQUIRED'')
            (js ''Changing a versioned resource requires If-Match'')
            (Some [(js ''hint'', Detail_string
              (js ''Pass the current version as is. Example: If-Match: '' @ [0x22] @ js ''3'' @ [0x22]))]))
          else (case if_match_digits (js_trim header) of
            None \<Rightarrow> Inl ((badRequest (js ''IF_MATCH_INVALID'')
              (js ''If-Match must be the resource'' @ [0x27] @ js ''s integer version''))
                \<lparr>errorDetails := Some [(js ''received'', Detail_string header)]\<rparr>)
          | Some digits \<Rightarrow> Inr (round_to_double (decimal_value digits))))"

definition assertVersionMatches :: "js_double \<Rightarrow> nat \<Rightarrow> js_string \<Rightarrow> app_error + unit" where
  "assertVersionMatches expected current resourceType =
     (if expected = Some current then Inr ()
      else Inl (preconditionFailed (js ''RESOURCE_VERSION_MISMATCH'')
        (js ''This resource changed after it was read. Reread and decide again.'')
        (Some [(js ''resourceType'', Detail_string resourceType),
               (js ''expectedVersion'', Detail_number expected),
               (js ''currentVersion'', Detail_number (Some current))])))"

definition etagOf :: "nat \<Rightarrow> js_string" where
  "etagOf version = [0x22] @ js_decimal version @ [0x22]"

section \<open>The version in a response is the version that comes back\<close>

lemma js_digits_all: "list_all js_digit (js_decimal n)" "js_decimal n \<noteq> []"
  using js_decimal_digits by auto

lemma digits_not_white: "js_digit c \<Longrightarrow> \<not> js_whitespace c \<and> c \<noteq> 0x22"
  by (auto simp: js_digit_def js_whitespace_def word_le_nat_alt)

lemma trim_quoted: "js_trim ([0x22] @ s @ [0x22]) = [0x22] @ s @ [0x22]"
  by (simp add: js_trim_def js_whitespace_def)

lemma if_match_etag: "if_match_digits (etagOf n) = Some (js_decimal n)"
proof -
  have "takeWhile js_digit (js_decimal n @ [0x22]) = js_decimal n"
    "dropWhile js_digit (js_decimal n @ [0x22]) = [0x22]"
    using js_digits_all(1) [of n] by (simp_all add: takeWhile_append dropWhile_append list_all_iff js_digit_def)
  then show ?thesis
    using js_digits_all(2) [of n]
    by (simp add: if_match_digits_def etagOf_def js_starts_with_def js_def Let_def)
qed

lemma etag_accepted:
  assumes "v < 2 ^ 53" and "ifMatchHeader q = Some (etagOf v)"
  shows "requireIfMatch q = Inr (Some v)"
proof -
  have "\<not> js_blank (etagOf v)"
    by (simp add: js_blank_iff etagOf_def js_whitespace_def)
  moreover have "js_trim (etagOf v) = etagOf v" unfolding etagOf_def by (rule trim_quoted)
  ultimately show ?thesis
    using assms by (simp add: requireIfMatch_def if_match_etag decimal_value_js_decimal)
qed

text \<open>
  A version survives the round trip through the header: sending back the entity tag of a
  response is accepted exactly for the resource still at that version, for every version a double
  holds exactly, and any other version is refused as changed.
\<close>

theorem etag_roundtrip:
  assumes "v < 2 ^ 53" and "ifMatchHeader q = Some (etagOf v)"
  shows "requireIfMatch q = Inr (Some v) \<and>
    (and_then (requireIfMatch q) (\<lambda>expected. assertVersionMatches expected current t) = Inr () \<longleftrightarrow> v = current)"
  using etag_accepted [OF assms] by (simp add: assertVersionMatches_def)

theorem etag_roundtrip_witness:
  "requireIfMatch \<lparr>callerSession = None, idempotencyHeader = None, ifMatchHeader = Some (etagOf 7)\<rparr> = Inr (Some 7)"
  using etag_roundtrip [of 7 "\<lparr>callerSession = None, idempotencyHeader = None, ifMatchHeader = Some (etagOf 7)\<rparr>"]
  by simp

end
