(* ===== verification/Event_Log.thy ===== *)
theory Event_Log
  imports App_Error
begin

text \<open>
  What every mutation leaves behind in its own transaction: the audit record
  (\<open>apps/api/src/audit.ts\<close>) and the domain event (\<open>apps/api/src/outbox.ts\<close>). Both tables only grow.
  The random identifier of an event, the address and device columns and the free-form detail of an
  audit record are left out.
\<close>

section \<open>Audit records\<close>

definition ROLE_ASSIGNMENT_BOUND :: js_string where
  "ROLE_ASSIGNMENT_BOUND = js ''assignment_bound''"

definition ROLE_DEPLOY_BOUND :: js_string where
  "ROLE_DEPLOY_BOUND = js ''deploy_bound''"

definition ROLE_SELF_BOUND :: js_string where
  "ROLE_SELF_BOUND = js ''self_bound''"

record audit_row =
  auditTenant :: js_string
  auditProject :: "js_string option"
  auditActor :: "js_string option"
  auditWallet :: "js_string option"
  effectiveRole :: js_string
  auditCommand :: js_string
  auditResourceType :: js_string
  auditResource :: "js_string option"
  auditBefore :: "nat option"
  auditAfter :: "nat option"
  auditReason :: "js_string option"
  auditCorrelation :: js_string

definition recordAudit :: "audit_row \<Rightarrow> audit_row list \<Rightarrow> audit_row list" where
  "recordAudit entry table = table @ [entry]"

section \<open>Events\<close>

record domain_event =
  eventTenant :: js_string
  eventType :: js_string
  aggregateId :: js_string
  aggregateVersion :: nat
  eventProject :: "js_string option"
  eventPayload :: "(js_string \<times> error_detail) list"
  eventCorrelation :: js_string
  eventCausation :: "js_string option"

definition enqueueEvent :: "domain_event \<Rightarrow> domain_event list \<Rightarrow> domain_event list" where
  "enqueueEvent event table = table @ [event]"

end
