(* ===== verification/Restriction_Guard.thy ===== *)
theory Restriction_Guard
  imports Disclosure Event_Log
begin

text \<open>
  Enforcing a material-information blackout: \<open>apps/api/src/restrictions.ts\<close>. The rows of
  \<open>core.disclosure_restrictions\<close> are a list in any order; the query selects the active ones of a
  project and orders them by the time they took effect and by identifier. Times are milliseconds. The
  advisory lock of a project serializes transactions and has no place in a sequential model.
\<close>

record restriction_row =
  restrictionTenant :: js_string
  restrictionProject :: js_string
  restrictionRowId :: js_string
  rowSubjectScope :: "js_string list"
  rowActionTypes :: "js_string list"
  restrictionReason :: "js_string option"
  restrictionAuthority :: js_string
  effectiveAt :: "int option"
  expectedNextUpdateAt :: "int option"
  restrictionRowState :: restriction_state

definition DISCLOSURE_RESTRICTED :: js_string where
  "DISCLOSURE_RESTRICTED = js ''DISCLOSURE_RESTRICTED''"

definition given_time :: "int option \<Rightarrow> int" where
  "given_time t = (case t of None \<Rightarrow> 0 | Some v \<Rightarrow> v)"

definition active_rows :: "restriction_row list \<Rightarrow> js_string \<Rightarrow> js_string \<Rightarrow> restriction_row list" where
  "active_rows rows tenant project =
     sort_key (\<lambda>r. effectiveAt r = None)
       (sort_key (\<lambda>r. given_time (effectiveAt r))
         (sort_key restrictionRowId
           (filter (\<lambda>r. restrictionTenant r = tenant \<and> restrictionProject r = project \<and>
                        restrictionRowState r = Restriction_active) rows)))"

definition to_restriction :: "restriction_row \<Rightarrow> disclosure_restriction" where
  "to_restriction r =
     \<lparr>restrictionId = restrictionRowId r, subjectScope = rowSubjectScope r,
      restrictedActionTypes = rowActionTypes r, restrictionState = Restriction_active\<rparr>"

definition restricted_error :: "restriction_row \<Rightarrow> js_string \<Rightarrow> js_string \<Rightarrow> app_error" where
  "restricted_error row project action =
     \<lparr>errorCode = DISCLOSURE_RESTRICTED,
      errorMessage = js ''This action is restricted by an active material-information blackout'',
      errorStatus = 409, errorRetryable = False,
      errorDetails =
        Some [(js ''restrictionId'', Detail_string (restrictionRowId row)),
              (js ''projectId'', Detail_string project), (js ''actionType'', Detail_string action),
              (js ''reason'', case restrictionReason row of None \<Rightarrow> Detail_null | Some t \<Rightarrow> Detail_string t),
              (js ''authority'', Detail_string (restrictionAuthority row)),
              (js ''effectiveAt'', case effectiveAt row of None \<Rightarrow> Detail_null | Some t \<Rightarrow> Detail_time t),
              (js ''expectedNextUpdateAt'',
                case expectedNextUpdateAt row of None \<Rightarrow> Detail_null | Some t \<Rightarrow> Detail_time t),
              (js ''nextAction'',
                Detail_string (js ''Wait for the restriction to be released by its authority''))]\<rparr>"

text \<open>The loop over the subjects: the project first, then the acting subject.\<close>

fun check_subjects ::
    "restriction_row list \<Rightarrow> js_string \<Rightarrow> js_string \<Rightarrow> js_string list \<Rightarrow> app_error + unit" where
  "check_subjects rows project action [] = Inr ()"
| "check_subjects rows project action (subject # subjects) =
     (case checkRestrictedAction (map to_restriction rows) subject action of
        Not_blocked \<Rightarrow> check_subjects rows project action subjects
      | Blocked rid \<Rightarrow>
          (case find (\<lambda>r. restrictionRowId r = rid) rows of
             Some row \<Rightarrow> Inl (restricted_error row project action)
           | None \<Rightarrow> Inr ()))"

definition assertActionNotRestricted ::
    "restriction_row list \<Rightarrow> js_string \<Rightarrow> js_string \<Rightarrow> js_string \<Rightarrow> js_string option \<Rightarrow> app_error + unit" where
  "assertActionNotRestricted table tenant project action actor =
     (let rows = active_rows table tenant project
      in if length rows = 0 then Inr ()
         else check_subjects rows project action
           (case actor of
              Some subject \<Rightarrow> if subject = [] then [project] else [project, subject]
            | None \<Rightarrow> [project]))"

section \<open>Keeping the attempts\<close>

text \<open>
  The hook that runs after a refusal: a refusal for a blackout, in a session with a tenant, leaves
  one row in the history of the restriction and one event, in a transaction of their own.
\<close>

record blocked_attempt =
  attemptTenant :: js_string
  attemptRestriction :: js_string
  attemptProject :: js_string
  attemptAction :: js_string
  attemptActor :: "js_string option"
  attemptCorrelation :: js_string

record attempt_log =
  attempt_rows :: "blocked_attempt list"
  attempt_events :: "domain_event list"

definition detail_string :: "(js_string \<times> error_detail) list \<Rightarrow> js_string \<Rightarrow> js_string" where
  "detail_string details key =
     (case map_of details key of Some (Detail_string s) \<Rightarrow> s | _ \<Rightarrow> js ''undefined'')"

definition recordBlockedAttempt ::
    "thrown \<Rightarrow> js_string option \<Rightarrow> js_string option \<Rightarrow> js_string option \<Rightarrow> attempt_log \<Rightarrow> attempt_log" where
  "recordBlockedAttempt t tenant actor correlation log =
     (case (t, tenant) of
        (App_thrown e, Some ten) \<Rightarrow>
          if errorCode e \<noteq> DISCLOSURE_RESTRICTED \<or> ten = [] then log
          else (let details = (case errorDetails e of None \<Rightarrow> [] | Some d \<Rightarrow> d);
                    rid = detail_string details (js ''restrictionId'');
                    pid = detail_string details (js ''projectId'');
                    action = detail_string details (js ''actionType'');
                    corr = (case correlation of None \<Rightarrow> js ''unknown'' | Some c \<Rightarrow> c)
                in \<lparr>attempt_rows = attempt_rows log @
                      [\<lparr>attemptTenant = ten, attemptRestriction = rid, attemptProject = pid,
                        attemptAction = action, attemptActor = actor, attemptCorrelation = corr\<rparr>],
                    attempt_events = enqueueEvent
                      \<lparr>eventTenant = ten, eventType = js ''disclosure.blackout.blocked_action'',
                       aggregateId = rid, aggregateVersion = 1, eventProject = Some pid,
                       eventPayload = [(js ''actionType'', Detail_string action)],
                       eventCorrelation = corr, eventCausation = None\<rparr> (attempt_events log)\<rparr>)
      | _ \<Rightarrow> log)"

section \<open>What is refused\<close>

lemma set_active_rows:
  "set (active_rows table tenant project) =
     {r \<in> set table. restrictionTenant r = tenant \<and> restrictionProject r = project \<and>
        restrictionRowState r = Restriction_active}"
  by (auto simp: active_rows_def)

lemma blocked_row:
  assumes "checkRestrictedAction (map to_restriction rows) subject action = Blocked rid"
  shows "\<exists>row \<in> set rows. restrictionRowId row = rid"
proof -
  obtain r where "find (restriction_applies subject action) (map to_restriction rows) = Some r" "restrictionId r = rid"
    using assms by (auto simp: checkRestrictedAction_find split: option.splits)
  then have "r \<in> to_restriction ` set rows" "restrictionId r = rid" by (auto dest!: find_Some_set)
  then show ?thesis by (force simp: to_restriction_def)
qed

lemma check_subjects_passes:
  "check_subjects rows project action subjects = Inr () \<longleftrightarrow>
     (\<forall>subject \<in> set subjects.
        \<not> (\<exists>r \<in> set rows. subject \<in> set (rowSubjectScope r) \<and> action \<in> set (rowActionTypes r)))"
proof (induction subjects)
  case (Cons subject subjects)
  show ?case
  proof (cases "checkRestrictedAction (map to_restriction rows) subject action")
    case Not_blocked
    then have "\<not> (\<exists>r \<in> set rows. subject \<in> set (rowSubjectScope r) \<and> action \<in> set (rowActionTypes r))"
      by (auto simp: not_blocked_iff restriction_applies_def to_restriction_def)
    with Not_blocked Cons show ?thesis by auto
  next
    case (Blocked rid)
    have "find (\<lambda>r. restrictionRowId r = rid) rows \<noteq> None"
      using blocked_row [OF Blocked] by (auto simp: find_eq_None_iff)
    then obtain row where "find (\<lambda>r. restrictionRowId r = rid) rows = Some row" by blast
    moreover have "\<not> checkRestrictedAction (map to_restriction rows) subject action = Not_blocked"
      using Blocked by simp
    then have "\<exists>r \<in> set rows. subject \<in> set (rowSubjectScope r) \<and> action \<in> set (rowActionTypes r)"
      by (auto simp: not_blocked_iff restriction_applies_def to_restriction_def)
    ultimately show ?thesis using Blocked by auto
  qed
qed simp

lemma check_subjects_refuses:
  "check_subjects rows project action subjects = Inl e \<Longrightarrow>
     \<exists>row \<in> set rows. e = restricted_error row project action"
  by (induction subjects) (auto split: restriction_check.splits option.splits dest!: find_Some_set)

lemma unrestricted_iff:
  "assertActionNotRestricted table tenant project action actor = Inr () \<longleftrightarrow>
     \<not> (\<exists>r \<in> set table. restrictionTenant r = tenant \<and> restrictionProject r = project \<and>
          restrictionRowState r = Restriction_active \<and> action \<in> set (rowActionTypes r) \<and>
          (project \<in> set (rowSubjectScope r) \<or>
           (\<exists>subject. actor = Some subject \<and> subject \<noteq> [] \<and> subject \<in> set (rowSubjectScope r))))"
proof -
  have "active_rows table tenant project = [] \<longleftrightarrow> set (active_rows table tenant project) = {}" by simp
  then show ?thesis
    unfolding assertActionNotRestricted_def Let_def
    by (auto simp: check_subjects_passes set_active_rows split: option.splits)
qed

text \<open>
  C34. A blackout is enforced and remembered: an action on a project passes exactly when no active
  restriction of that project covers it for the project or for the acting subject; and when it is
  refused, the log gains one attempt and one event, which name an active restriction of the project
  and the action.
\<close>

theorem blackout_enforced_and_recorded:
  "(assertActionNotRestricted table tenant project action actor = Inr () \<longleftrightarrow>
      \<not> (\<exists>r \<in> set table. restrictionTenant r = tenant \<and> restrictionProject r = project \<and>
           restrictionRowState r = Restriction_active \<and> action \<in> set (rowActionTypes r) \<and>
           (project \<in> set (rowSubjectScope r) \<or>
            (\<exists>subject. actor = Some subject \<and> subject \<noteq> [] \<and> subject \<in> set (rowSubjectScope r))))) \<and>
   (\<forall>e. assertActionNotRestricted table tenant project action actor = Inl e \<and> tenant \<noteq> [] \<longrightarrow>
      (\<exists>a ev r. recordBlockedAttempt (App_thrown e) (Some tenant) actor corr log =
           \<lparr>attempt_rows = attempt_rows log @ [a], attempt_events = attempt_events log @ [ev]\<rparr> \<and>
         r \<in> set table \<and> restrictionRowState r = Restriction_active \<and> restrictionProject r = project \<and>
         attemptRestriction a = restrictionRowId r \<and> attemptProject a = project \<and>
         attemptAction a = action \<and> attemptActor a = actor \<and> aggregateId ev = restrictionRowId r))"
proof (intro conjI allI impI)
  show "assertActionNotRestricted table tenant project action actor = Inr () \<longleftrightarrow>
      \<not> (\<exists>r \<in> set table. restrictionTenant r = tenant \<and> restrictionProject r = project \<and>
           restrictionRowState r = Restriction_active \<and> action \<in> set (rowActionTypes r) \<and>
           (project \<in> set (rowSubjectScope r) \<or>
            (\<exists>subject. actor = Some subject \<and> subject \<noteq> [] \<and> subject \<in> set (rowSubjectScope r))))"
    by (rule unrestricted_iff)
next
  fix e assume "assertActionNotRestricted table tenant project action actor = Inl e \<and> tenant \<noteq> []"
  then have ne: "tenant \<noteq> []" and refused: "assertActionNotRestricted table tenant project action actor = Inl e"
    by simp_all
  from refused obtain row where row: "row \<in> set (active_rows table tenant project)"
    "e = restricted_error row project action"
    unfolding assertActionNotRestricted_def Let_def
    by (auto split: if_splits dest!: check_subjects_refuses)
  then show "\<exists>a ev r. recordBlockedAttempt (App_thrown e) (Some tenant) actor corr log =
           \<lparr>attempt_rows = attempt_rows log @ [a], attempt_events = attempt_events log @ [ev]\<rparr> \<and>
         r \<in> set table \<and> restrictionRowState r = Restriction_active \<and> restrictionProject r = project \<and>
         attemptRestriction a = restrictionRowId r \<and> attemptProject a = project \<and>
         attemptAction a = action \<and> attemptActor a = actor \<and> aggregateId ev = restrictionRowId r"
    using ne by (auto simp: recordBlockedAttempt_def restricted_error_def detail_string_def Let_def
        set_active_rows enqueueEvent_def)
qed

definition sample_restriction :: restriction_row where
  "sample_restriction =
     \<lparr>restrictionTenant = js ''t'', restrictionProject = js ''p'', restrictionRowId = js ''r1'',
      rowSubjectScope = [js ''p''], rowActionTypes = [js ''registry.publish''], restrictionReason = None,
      restrictionAuthority = js ''issuer'', effectiveAt = Some 5, expectedNextUpdateAt = None,
      restrictionRowState = Restriction_active\<rparr>"

theorem blackout_enforced_and_recorded_witness:
  "\<exists>e a ev. assertActionNotRestricted [sample_restriction] (js ''t'') (js ''p'') (js ''registry.publish'') None = Inl e \<and>
     recordBlockedAttempt (App_thrown e) (Some (js ''t'')) None None \<lparr>attempt_rows = [], attempt_events = []\<rparr> =
       \<lparr>attempt_rows = [a], attempt_events = [ev]\<rparr> \<and>
     attemptAction a = js ''registry.publish''"
proof -
  note fact = blackout_enforced_and_recorded [of "[sample_restriction]" "js ''t''" "js ''p''" "js ''registry.publish''"
      None None "\<lparr>attempt_rows = [], attempt_events = []\<rparr>"]
  have "assertActionNotRestricted [sample_restriction] (js ''t'') (js ''p'') (js ''registry.publish'') None \<noteq> Inr ()"
    using fact by (simp add: sample_restriction_def)
  then obtain e where e: "assertActionNotRestricted [sample_restriction] (js ''t'') (js ''p'')
      (js ''registry.publish'') None = Inl e"
    by (cases "assertActionNotRestricted [sample_restriction] (js ''t'') (js ''p'') (js ''registry.publish'') None") auto
  with conjunct2 [OF fact] show ?thesis by fastforce
qed

end
