(* ===== verification/Project_Lifecycle.thy ===== *)
theory Project_Lifecycle
  imports Lifecycle_Guards Restriction_Guard Request_Guards Authorize_Laws
begin

text \<open>
  The lifecycle of a project as the API moves it: \<open>apps/api/src/routes/lifecycle.ts\<close>. The tables that
  the handler reads and writes are the fields of \<open>lifecycle_db\<close>, each row with its tenant and project;
  a query is a filter over the rows, in the order the query asks for. Times are milliseconds, and the
  clock of the transaction is an argument. The constraints of the tables and the database triggers
  are not part of the model.
\<close>

section \<open>The tables\<close>

type_synonym project_key = "js_string \<times> js_string"

record lifecycle_row =
  lifecycleState :: at_lifecycle_state
  priorLifecycleState :: "at_lifecycle_state option"
  suspendedBy :: "js_string option"
  projectVersion :: nat

record transition_row =
  transitionProject :: project_key
  fromState :: at_lifecycle_state
  toState :: at_lifecycle_state
  transitionReason :: js_string
  transitionActor :: "js_string option"
  occurredAt :: int

record fact_row =
  factProject :: project_key
  factKey :: js_string
  factStatus :: js_string
  factEvidence :: "js_string option"

record decision_row =
  decisionProject :: project_key
  decisionGate :: js_string
  decisionValue :: gate_decision_value
  signedAt :: int
  decisionCreated :: int

record lifecycle_db =
  projects_table :: "project_key \<rightharpoonup> lifecycle_row"
  transition_rows :: "transition_row list"
  fact_rows :: "fact_row list"
  decision_rows :: "decision_row list"
  claim_times :: "(project_key \<times> int) list"
  case_step_times :: "(project_key \<times> int) list"
  assessment_times :: "(project_key \<times> int) list"
  restriction_table :: "restriction_row list"
  audit_table :: "audit_row list"
  outbox_table :: "domain_event list"

section \<open>What the guards read\<close>

definition precondition_of :: "fact_row \<Rightarrow> precondition_status" where
  "precondition_of f =
     \<lparr>statusKey = factKey f, satisfied = (factStatus f = js ''confirmed''), evidenceRef = factEvidence f\<rparr>"

definition project_statuses :: "lifecycle_db \<Rightarrow> project_key \<Rightarrow> precondition_status list" where
  "project_statuses db pk = map precondition_of (filter (\<lambda>f. factProject f = pk) (fact_rows db))"

text \<open>\<open>ORDER BY signed_at DESC, created_at DESC LIMIT 1\<close>.\<close>

definition latest_decision :: "lifecycle_db \<Rightarrow> project_key \<Rightarrow> gate_decision_value option" where
  "latest_decision db pk =
     (case rev (sort_key signedAt (sort_key decisionCreated
             (filter (\<lambda>d. decisionProject d = pk \<and> decisionGate d = OFFERING_GATE_ID) (decision_rows db)))) of
        [] \<Rightarrow> None
      | d # _ \<Rightarrow> Some (decisionValue d))"

definition last_suspension :: "lifecycle_db \<Rightarrow> project_key \<Rightarrow> int option" where
  "last_suspension db pk =
     (case map occurredAt (filter (\<lambda>t. transitionProject t = pk \<and> toState t = At_suspended) (transition_rows db)) of
        [] \<Rightarrow> None
      | t # ts \<Rightarrow> Some (foldl max t ts))"

definition happened_since :: "project_key \<Rightarrow> int \<Rightarrow> (project_key \<times> int) list \<Rightarrow> bool" where
  "happened_since pk since = list_ex (\<lambda>(k, t). k = pk \<and> t > since)"

definition reviewed_after :: "lifecycle_db \<Rightarrow> project_key \<Rightarrow> int \<Rightarrow> bool" where
  "reviewed_after db pk since \<longleftrightarrow>
     happened_since pk since (claim_times db) \<or> happened_since pk since (case_step_times db) \<or>
     happened_since pk since (assessment_times db) \<or>
     happened_since pk since (map (\<lambda>d. (decisionProject d, decisionCreated d)) (decision_rows db))"

definition readGuardFacts :: "lifecycle_db \<Rightarrow> project_key \<Rightarrow> at_lifecycle_state \<Rightarrow> lifecycle_guard_facts" where
  "readGuardFacts db pk source =
     \<lparr>offeringGate = checkOfferingGate (project_statuses db pk),
      latestOfferingDecision = latest_decision db pk,
      reviewedSinceSuspension =
        (if source = At_suspended
         then (case last_suspension db pk of None \<Rightarrow> None | Some since \<Rightarrow> Some (reviewed_after db pk since))
         else Some False)\<rparr>"

section \<open>The request\<close>

primrec state_name :: "at_lifecycle_state \<Rightarrow> js_string" where
  "state_name At_draft = js ''draft''"
| "state_name At_registered = js ''registered''"
| "state_name At_offering_open = js ''offering_open''"
| "state_name At_offering_closed = js ''offering_closed''"
| "state_name At_active = js ''active''"
| "state_name At_branch_vote = js ''branch_vote''"
| "state_name At_continuing = js ''continuing''"
| "state_name At_divested = js ''divested''"
| "state_name At_closure = js ''closure''"
| "state_name At_retired = js ''retired''"
| "state_name At_suspended = js ''suspended''"

text \<open>The states a request may name: every state but \<open>draft\<close>.\<close>

definition REQUESTABLE_STATES :: "at_lifecycle_state list" where
  "REQUESTABLE_STATES =
     [At_registered, At_offering_open, At_offering_closed, At_active, At_branch_vote, At_continuing,
      At_divested, At_closure, At_retired, At_suspended]"

definition parse_transition :: "(js_string \<times> js_string) option \<Rightarrow> (at_lifecycle_state \<times> js_string) option" where
  "parse_transition body =
     (case body of
        None \<Rightarrow> None
      | Some (target, reason) \<Rightarrow>
          if length reason < 1 \<or> length reason > 1000 then None
          else map_option (\<lambda>s. (s, reason)) (find (\<lambda>s. state_name s = target) REQUESTABLE_STATES))"

record lifecycle_view =
  viewProject :: js_string
  viewState :: at_lifecycle_state
  viewPrior :: "at_lifecycle_state option"
  viewVersion :: nat
  viewTransitions :: "transition_row list"
  viewRequestId :: js_string
  viewAsOf :: js_string

record lifecycle_request =
  requestHead :: incoming
  requestProject :: js_string
  requestBody :: "(js_string \<times> js_string) option"
  requestDigest :: js_string
  requestId :: js_string
  requestAsOf :: js_string
  correlationId :: js_string

definition readLifecycle ::
    "lifecycle_db \<Rightarrow> js_string \<Rightarrow> js_string \<Rightarrow> js_string \<Rightarrow> js_string \<Rightarrow> app_error + lifecycle_view" where
  "readLifecycle db tenant project rid at_time =
     (case projects_table db (tenant, project) of
        None \<Rightarrow> Inl (notFound (js ''Project not found''))
      | Some row \<Rightarrow>
          Inr \<lparr>viewProject = project, viewState = lifecycleState row, viewPrior = priorLifecycleState row,
               viewVersion = projectVersion row,
               viewTransitions =
                 sort_key occurredAt (filter (\<lambda>t. transitionProject t = (tenant, project)) (transition_rows db)),
               viewRequestId = rid, viewAsOf = at_time\<rparr>)"

section \<open>The transition\<close>

definition check_resume :: "lifecycle_row \<Rightarrow> session \<Rightarrow> at_lifecycle_state \<Rightarrow> app_error + unit" where
  "check_resume row s target =
     (if lifecycleState row \<noteq> At_suspended then Inr ()
      else if \<not> resumeFromSuspension (case priorLifecycleState row of None \<Rightarrow> At_draft | Some p \<Rightarrow> p) target
      then Inl (unprocessable (js ''LIFECYCLE_RESUME_TARGET_INVALID'')
        (js ''Reinstatement goes only to the pre-suspension state or closure'')
        (Some [(js ''priorState'', case priorLifecycleState row of None \<Rightarrow> Detail_null
                  | Some p \<Rightarrow> Detail_string (state_name p)),
               (js ''requested'', Detail_string (state_name target))]))
      else if suspendedBy row \<noteq> None \<and> suspendedBy row = sessionSubjectId s
      then Inl (forbidden (js ''LIFECYCLE_RESUME_SELF'')
        (js ''Whoever suspended the project cannot reinstate it'')
        (Some [(js ''requiredAction'',
                Detail_string (js ''Another permission holder decides the reinstatement''))]))
      else Inr ())"

definition condition_detail :: "lifecycle_condition \<Rightarrow> error_detail" where
  "condition_detail c =
     Detail_object
       [(js ''key'', Detail_string (conditionKey c)), (js ''label'', Detail_string (conditionLabel c)),
        (js ''why'', Detail_string (conditionWhy c)),
        (js ''status'', Detail_string (case conditionStatus c of
           Cond_unmet \<Rightarrow> js ''unmet'' | Cond_not_evaluable \<Rightarrow> js ''not_evaluable'')),
        (js ''owner'', case conditionOwner c of None \<Rightarrow> Detail_null | Some w \<Rightarrow> Detail_string w)]"

definition guard_error ::
    "at_lifecycle_state \<Rightarrow> at_lifecycle_state \<Rightarrow> lifecycle_guard_code \<Rightarrow> lifecycle_condition list \<Rightarrow> js_string list \<Rightarrow> app_error" where
  "guard_error source target code conds us =
     unprocessable
       (case code of LIFECYCLE_REGISTER_VIA_PUBLICATION \<Rightarrow> js ''LIFECYCLE_REGISTER_VIA_PUBLICATION''
          | LIFECYCLE_GUARD_UNMET \<Rightarrow> js ''LIFECYCLE_GUARD_UNMET'')
       (case code of
          LIFECYCLE_REGISTER_VIA_PUBLICATION \<Rightarrow> js ''A project becomes registered by publishing its Registry entry''
        | LIFECYCLE_GUARD_UNMET \<Rightarrow> js ''Transition conditions are not met'')
       (Some [(js ''from'', Detail_string (state_name source)), (js ''to'', Detail_string (state_name target)),
              (js ''conditions'', Detail_list (map condition_detail conds)),
              (js ''unsupported'', Detail_strings us)])"

definition moved_row :: "lifecycle_row \<Rightarrow> at_lifecycle_state \<Rightarrow> js_string option \<Rightarrow> lifecycle_row" where
  "moved_row row target subject =
     \<lparr>lifecycleState = target,
      priorLifecycleState = (if target = At_suspended then Some (lifecycleState row) else None),
      suspendedBy = (if target = At_suspended then subject else None),
      projectVersion = projectVersion row + 1\<rparr>"

definition apply_transition ::
    "int \<Rightarrow> session \<Rightarrow> js_string \<Rightarrow> js_string \<Rightarrow> lifecycle_row \<Rightarrow> at_lifecycle_state \<Rightarrow> js_string \<Rightarrow> js_string \<Rightarrow>
     js_string \<Rightarrow> lifecycle_db \<Rightarrow> lifecycle_db" where
  "apply_transition now s tenant project row target reason erole corr db =
     (let new = moved_row row target (sessionSubjectId s)
      in db\<lparr>projects_table := (projects_table db)((tenant, project) \<mapsto> new),
            transition_rows := transition_rows db @
              [\<lparr>transitionProject = (tenant, project), fromState = lifecycleState row, toState = target,
                transitionReason = reason, transitionActor = sessionSubjectId s, occurredAt = now\<rparr>],
            audit_table := recordAudit
              \<lparr>auditTenant = tenant, auditProject = Some project, auditActor = sessionSubjectId s,
               auditWallet = None, effectiveRole = erole,
               auditCommand = js ''project.lifecycle.'' @ state_name target,
               auditResourceType = js ''project'', auditResource = Some project,
               auditBefore = Some (projectVersion row), auditAfter = Some (projectVersion new),
               auditReason = Some reason, auditCorrelation = corr\<rparr> (audit_table db),
            outbox_table := enqueueEvent
              \<lparr>eventTenant = tenant, eventType = js ''project.lifecycle.transitioned'', aggregateId = project,
               aggregateVersion = projectVersion new, eventProject = Some project,
               eventPayload = [(js ''fromState'', Detail_string (state_name (lifecycleState row))),
                               (js ''toState'', Detail_string (state_name target))],
               eventCorrelation = corr, eventCausation = None\<rparr> (outbox_table db)\<rparr>)"

definition transition_work ::
    "int \<Rightarrow> session \<Rightarrow> js_string \<Rightarrow> js_double \<Rightarrow> js_string \<Rightarrow> lifecycle_request \<Rightarrow> at_lifecycle_state \<Rightarrow> js_string \<Rightarrow>
     lifecycle_db \<Rightarrow> app_error + (lifecycle_view \<times> lifecycle_db)" where
  "transition_work now s tenant expected erole q target reason db =
     (let project = requestProject q in
      case projects_table db (tenant, project) of
        None \<Rightarrow> Inl (notFound (js ''Project not found''))
      | Some row \<Rightarrow>
          and_then (assertVersionMatches expected (projectVersion row) (js ''project'')) (\<lambda>_.
          (let source = lifecycleState row; allowed = targets atLifecycleMachine source in
           if target \<notin> set allowed
           then Inl (unprocessable (js ''LIFECYCLE_TRANSITION_NOT_ALLOWED'') (js ''Transition not allowed'')
             (Some [(js ''from'', Detail_string (state_name source)), (js ''to'', Detail_string (state_name target)),
                    (js ''allowed'', Detail_strings (map state_name allowed))]))
           else
             and_then (assertActionNotRestricted (restriction_table db) tenant project
                         (js ''project.lifecycle.'' @ state_name target) (sessionSubjectId s)) (\<lambda>_.
             and_then (check_resume row s target) (\<lambda>_.
             (case checkLifecycleGuard source target (readGuardFacts db (tenant, project) source) of
                Guard_refused code conds us \<Rightarrow> Inl (guard_error source target code conds us)
              | Guard_allowed \<Rightarrow>
                  (let db' = apply_transition now s tenant project row target reason erole (correlationId q) db
                   in and_then (readLifecycle db' tenant project (requestId q) (requestAsOf q)) (\<lambda>view.
                        Inr (view, db')))))))))"

definition postTransition ::
    "int \<Rightarrow> lifecycle_request \<Rightarrow> (lifecycle_db, lifecycle_view) idempotent_db \<Rightarrow>
     app_error + (lifecycle_view \<times> (lifecycle_db, lifecycle_view) idempotent_db)" where
  "postTransition now q idb =
     and_then (requireMutationContext (requestHead q)) (\<lambda>(s, tenant, key).
     and_then (requireIfMatch (requestHead q)) (\<lambda>expected.
     (case parse_transition (requestBody q) of
        None \<Rightarrow> Inl (badRequest (js ''REQUEST_INVALID'') (js ''Request format is invalid''))
      | Some (target, reason) \<Rightarrow>
          and_then (assertAuthorized s
                      (if target = At_suspended then js ''project.lifecycle.suspend''
                       else js ''project.lifecycle.advance'')
                      (projectResource tenant (requestProject q) no_resource_overrides)
                      (sessionFacts s no_actor_overrides)) (\<lambda>erole.
          withIdempotency tenant key (requestDigest q)
            (transition_work now s tenant expected erole q target reason) idb))))"

definition getLifecycle :: "lifecycle_request \<Rightarrow> lifecycle_db \<Rightarrow> app_error + lifecycle_view" where
  "getLifecycle q db =
     and_then (requireReadContext (requestHead q)) (\<lambda>(s, tenant).
     and_then (assertAuthorized s (js ''project.read'')
                 (projectResource tenant (requestProject q) no_resource_overrides)
                 (sessionFacts s no_actor_overrides)) (\<lambda>_.
     readLifecycle db tenant (requestProject q) (requestId q) (requestAsOf q)))"

section \<open>Registration by publication\<close>

text \<open>
  Publishing the Registry entry of a project (\<open>routes/registry.ts\<close>) moves it from \<open>draft\<close> to
  \<open>registered\<close>, and leaves a project in any other state as it is.
\<close>

definition register_on_publication ::
    "int \<Rightarrow> session \<Rightarrow> js_string \<Rightarrow> js_string \<Rightarrow> js_string \<Rightarrow> js_string \<Rightarrow> lifecycle_db \<Rightarrow> lifecycle_db" where
  "register_on_publication now s tenant project erole corr db =
     (case projects_table db (tenant, project) of
        None \<Rightarrow> db
      | Some row \<Rightarrow>
          if lifecycleState row \<noteq> At_draft then db
          else (let new = row\<lparr>lifecycleState := At_registered, projectVersion := projectVersion row + 1\<rparr>
                in db\<lparr>projects_table := (projects_table db)((tenant, project) \<mapsto> new),
                      transition_rows := transition_rows db @
                        [\<lparr>transitionProject = (tenant, project), fromState = At_draft, toState = At_registered,
                          transitionReason = js ''Project Registry publication satisfied the 04 '' @ [0xA7] @
                            js ''4.3 guard'',
                          transitionActor = sessionSubjectId s, occurredAt = now\<rparr>],
                      audit_table := recordAudit
                        \<lparr>auditTenant = tenant, auditProject = None, auditActor = sessionSubjectId s,
                         auditWallet = None, effectiveRole = erole,
                         auditCommand = js ''project.lifecycle.transitioned'',
                         auditResourceType = js ''project'', auditResource = Some project,
                         auditBefore = None, auditAfter = Some (projectVersion new),
                         auditReason = None, auditCorrelation = corr\<rparr> (audit_table db)\<rparr>))"

end
