(* ===== verification/Lifecycle_Laws.thy ===== *)
theory Lifecycle_Laws
  imports Project_Lifecycle
begin

text \<open>
  What the lifecycle route guarantees: each accepted request is one guarded move of one project, the
  states a project can be in, and who opens an offering or lifts a suspension.
\<close>

section \<open>One accepted request\<close>

text \<open>
  The move in terms of the table and the guards alone, without the handler: the state machine of the
  domain, a target of reinstatement, a second person, the guard.
\<close>

definition allowed_move :: "lifecycle_db \<Rightarrow> project_key \<Rightarrow> lifecycle_row \<Rightarrow> js_string option \<Rightarrow> at_lifecycle_state \<Rightarrow> bool" where
  "allowed_move db pk row subject target \<longleftrightarrow>
     canTransition atLifecycleMachine (lifecycleState row) target \<and>
     (lifecycleState row = At_suspended \<longrightarrow>
        (target = At_closure \<or> priorLifecycleState row = Some target) \<and>
        (suspendedBy row = None \<or> suspendedBy row \<noteq> subject)) \<and>
     checkLifecycleGuard (lifecycleState row) target (readGuardFacts db pk (lifecycleState row)) = Guard_allowed"

lemma check_resume_Inr:
  "check_resume row s target = Inr () \<Longrightarrow> canTransition atLifecycleMachine (lifecycleState row) target \<Longrightarrow>
     lifecycleState row = At_suspended \<Longrightarrow>
     (target = At_closure \<or> priorLifecycleState row = Some target) \<and>
     (suspendedBy row = None \<or> suspendedBy row \<noteq> sessionSubjectId s)"
  by (auto simp: check_resume_def resumeFromSuspension_def SUSPENDABLE_STATES_def
      split: if_splits option.splits)

lemma transition_work_Inr:
  assumes "transition_work now s tenant expected erole q target reason db = Inr (view, db')"
  shows "\<exists>row. projects_table db (tenant, requestProject q) = Some row \<and> expected = Some (projectVersion row) \<and>
    allowed_move db (tenant, requestProject q) row (sessionSubjectId s) target \<and>
    assertActionNotRestricted (restriction_table db) tenant (requestProject q)
      (js ''project.lifecycle.'' @ state_name target) (sessionSubjectId s) = Inr () \<and>
    db' = apply_transition now s tenant (requestProject q) row target reason erole (correlationId q) db"
proof -
  obtain row where row: "projects_table db (tenant, requestProject q) = Some row"
    using assms by (auto simp: transition_work_def Let_def split: option.splits)
  note w = assms [unfolded transition_work_def Let_def row option.case]
  have v: "expected = Some (projectVersion row)"
    using w by (auto simp: and_then_eq_Inr_iff assertVersionMatches_def split: if_splits)
  have t: "canTransition atLifecycleMachine (lifecycleState row) target"
    using w by (auto simp: and_then_eq_Inr_iff canTransition_def split: if_splits)
  have r: "assertActionNotRestricted (restriction_table db) tenant (requestProject q)
      (js ''project.lifecycle.'' @ state_name target) (sessionSubjectId s) = Inr ()"
    using w by (auto simp: and_then_eq_Inr_iff split: if_splits)
  have c: "check_resume row s target = Inr ()"
    using w by (auto simp: and_then_eq_Inr_iff split: if_splits)
  have g: "checkLifecycleGuard (lifecycleState row) target
      (readGuardFacts db (tenant, requestProject q) (lifecycleState row)) = Guard_allowed"
    using w by (auto simp: and_then_eq_Inr_iff split: if_splits lifecycle_guard_result.splits)
  have d: "db' = apply_transition now s tenant (requestProject q) row target reason erole (correlationId q) db"
    using w by (auto simp: and_then_eq_Inr_iff split: if_splits lifecycle_guard_result.splits)
  show ?thesis
    using row v r d g t check_resume_Inr [OF c t] unfolding allowed_move_def by blast
qed

lemma postTransition_Inr:
  assumes "postTransition now q idb = Inr (view, idb')"
  obtains s tenant key expected target reason erole where
    "callerSession (requestHead q) = Some s" and "sessionTenantId s = Some tenant"
    and "parse_transition (requestBody q) = Some (target, reason)"
    and "assertAuthorized s (if target = At_suspended then js ''project.lifecycle.suspend''
        else js ''project.lifecycle.advance'') (projectResource tenant (requestProject q) no_resource_overrides)
        (sessionFacts s no_actor_overrides) = Inr erole"
    and "requireIfMatch (requestHead q) = Inr expected"
    and "withIdempotency tenant key (requestDigest q)
        (transition_work now s tenant expected erole q target reason) idb = Inr (view, idb')"
proof -
  obtain s tenant key where ctx: "requireMutationContext (requestHead q) = Inr (s, tenant, key)"
    using assms by (auto simp: postTransition_def and_then_eq_Inr_iff)
  then have "callerSession (requestHead q) = Some s" "sessionTenantId s = Some tenant"
    by (simp_all add: requireMutationContext_Inr)
  with assms ctx that show ?thesis
    by (fastforce simp: postTransition_def and_then_eq_Inr_iff split: option.splits prod.splits)
qed

lemma accepted_transition:
  assumes "postTransition now q idb = Inr (view, idb')" and "world idb' \<noteq> world idb"
  obtains s tenant row target reason erole where
    "callerSession (requestHead q) = Some s" and "sessionTenantId s = Some tenant"
    and "parse_transition (requestBody q) = Some (target, reason)"
    and "projects_table (world idb) (tenant, requestProject q) = Some row"
    and "requireIfMatch (requestHead q) = Inr (Some (projectVersion row))"
    and "assertAuthorized s (if target = At_suspended then js ''project.lifecycle.suspend''
        else js ''project.lifecycle.advance'') (projectResource tenant (requestProject q) no_resource_overrides)
        (sessionFacts s no_actor_overrides) = Inr erole"
    and "assertActionNotRestricted (restriction_table (world idb)) tenant (requestProject q)
        (js ''project.lifecycle.'' @ state_name target) (sessionSubjectId s) = Inr ()"
    and "allowed_move (world idb) (tenant, requestProject q) row (sessionSubjectId s) target"
    and "world idb' = apply_transition now s tenant (requestProject q) row target reason erole
        (correlationId q) (world idb)"
proof -
  obtain s tenant key expected target reason erole where post:
    "callerSession (requestHead q) = Some s" "sessionTenantId s = Some tenant"
    "parse_transition (requestBody q) = Some (target, reason)"
    "assertAuthorized s (if target = At_suspended then js ''project.lifecycle.suspend''
        else js ''project.lifecycle.advance'') (projectResource tenant (requestProject q) no_resource_overrides)
        (sessionFacts s no_actor_overrides) = Inr erole"
    "requireIfMatch (requestHead q) = Inr expected"
    "withIdempotency tenant key (requestDigest q)
        (transition_work now s tenant expected erole q target reason) idb = Inr (view, idb')"
    using postTransition_Inr [OF assms(1)] .
  from with_work [OF post(6)] assms(2)
  have "transition_work now s tenant expected erole q target reason (world idb) = Inr (view, world idb')"
    by auto
  from transition_work_Inr [OF this] post(1-5) that show ?thesis by fastforce
qed

lemma apply_transition_fields:
  "projects_table (apply_transition now s tenant project row target reason erole corr db) =
     (projects_table db)((tenant, project) \<mapsto> moved_row row target (sessionSubjectId s))"
  "\<exists>t. transition_rows (apply_transition now s tenant project row target reason erole corr db) =
         transition_rows db @ [t] \<and> transitionProject t = (tenant, project) \<and>
         fromState t = lifecycleState row \<and> toState t = target"
  by (simp_all add: apply_transition_def Let_def)

text \<open>
  C13. Every accepted request is one move of one project, or nothing. An answer that is read back
  under its key changes nothing; any other answer moves exactly the named project, from the version
  the client read to the next one, along a move that the table and its guard allow, and adds exactly one
  row to the history, one to the audit log and one event, which agree on the move and on the version.
\<close>

theorem accepted_request_is_one_move:
  assumes "postTransition now q idb = Inr (view, idb')"
  shows "world idb' = world idb \<or>
    (\<exists>tenant row target subject t a e. let pk = (tenant, requestProject q); db = world idb; db' = world idb' in
       projects_table db pk = Some row \<and>
       requireIfMatch (requestHead q) = Inr (Some (projectVersion row)) \<and>
       allowed_move db pk row subject target \<and>
       projects_table db' = (projects_table db)(pk \<mapsto> moved_row row target subject) \<and>
       transition_rows db' = transition_rows db @ [t] \<and> transitionProject t = pk \<and>
       fromState t = lifecycleState row \<and> toState t = target \<and> transitionActor t = subject \<and>
       audit_table db' = audit_table db @ [a] \<and> auditActor a = subject \<and>
       auditBefore a = Some (projectVersion row) \<and> auditAfter a = Some (projectVersion row + 1) \<and>
       outbox_table db' = outbox_table db @ [e] \<and> aggregateVersion e = projectVersion row + 1 \<and>
       eventPayload e = [(js ''fromState'', Detail_string (state_name (lifecycleState row))),
                         (js ''toState'', Detail_string (state_name target))])"
proof (cases "world idb' = world idb")
  case False
  from accepted_transition [OF assms this] obtain s tenant row target reason erole where m:
    "projects_table (world idb) (tenant, requestProject q) = Some row"
    "requireIfMatch (requestHead q) = Inr (Some (projectVersion row))"
    "allowed_move (world idb) (tenant, requestProject q) row (sessionSubjectId s) target"
    "world idb' = apply_transition now s tenant (requestProject q) row target reason erole
        (correlationId q) (world idb)" by metis
  show ?thesis
    unfolding Let_def
    by (intro disjI2 exI [of _ tenant] exI [of _ row] exI [of _ target] exI [of _ "sessionSubjectId s"])
      (simp add: m apply_transition_def moved_row_def recordAudit_def enqueueEvent_def Let_def)
qed simp

section \<open>The states a project can be in\<close>

lemma guarded_cases:
  assumes "canTransition atLifecycleMachine s t" and "checkLifecycleGuard s t facts = Guard_allowed"
  shows "t = At_suspended \<and> s \<in> set SUSPENDABLE_STATES \<or>
    s = At_suspended \<and> t \<in> set SUSPENDABLE_STATES \<and>
      (t = At_closure \<or> reviewedSinceSuspension facts = Some True \<and>
         (t \<in> set OFFERING_FAMILY_STATES \<longrightarrow> offeringConditions facts = [])) \<or>
    s = At_registered \<and> t = At_offering_open \<and> offeringConditions facts = []"
  using assms unfolding guard_allowed_iff lifecycle_rows row_unrecorded_iff
  by (cases s; cases t) (simp_all add: SUSPENDABLE_STATES_def OFFERING_FAMILY_STATES_def)

definition offering_ready :: "lifecycle_db \<Rightarrow> project_key \<Rightarrow> bool" where
  "offering_ready db pk \<longleftrightarrow>
     checkOfferingGate (project_statuses db pk) = Activatable \<and> latest_decision db pk = Some Gd_go"

lemma offeringConditions_ready:
  "offeringConditions (readGuardFacts db pk source) = [] \<longleftrightarrow> offering_ready db pk"
  by (subst offeringConditions_gate [of _ "project_statuses db pk"])
    (simp_all add: readGuardFacts_def offering_ready_def)

lemma allowed_move_cases:
  assumes "allowed_move db pk row subject target"
  shows "target = At_suspended \<and> lifecycleState row \<in> set SUSPENDABLE_STATES \<or>
    lifecycleState row = At_suspended \<and> target \<in> set SUSPENDABLE_STATES \<and>
      (suspendedBy row = None \<or> suspendedBy row \<noteq> subject) \<and>
      (target = At_closure \<or> priorLifecycleState row = Some target \<and>
         reviewedSinceSuspension (readGuardFacts db pk At_suspended) = Some True \<and>
         (target \<in> set OFFERING_FAMILY_STATES \<longrightarrow> offering_ready db pk)) \<or>
    lifecycleState row = At_registered \<and> target = At_offering_open \<and> offering_ready db pk"
proof -
  from assms have move: "canTransition atLifecycleMachine (lifecycleState row) target"
    and resume: "lifecycleState row = At_suspended \<longrightarrow>
      (target = At_closure \<or> priorLifecycleState row = Some target) \<and>
      (suspendedBy row = None \<or> suspendedBy row \<noteq> subject)"
    and guard: "checkLifecycleGuard (lifecycleState row) target
      (readGuardFacts db pk (lifecycleState row)) = Guard_allowed"
    by (simp_all add: allowed_move_def)
  from guarded_cases [OF move guard] resume show ?thesis
    unfolding offeringConditions_ready by auto
qed

text \<open>
  The row of a project and its history: outside suspension nothing of a suspension is kept, under
  suspension the earlier state is, and the history leads from \<open>draft\<close> to the state of the row.
\<close>

fun walks :: "at_lifecycle_state \<Rightarrow> transition_row list \<Rightarrow> at_lifecycle_state option" where
  "walks s [] = Some s"
| "walks s (t # ts) =
     (if fromState t = s \<and> canTransition atLifecycleMachine s (toState t) then walks (toState t) ts else None)"

lemma walks_snoc: "walks s (ts @ [t]) = (case walks s ts of None \<Rightarrow> None | Some u \<Rightarrow> walks u [t])"
  by (induction ts arbitrary: s) (auto split: option.splits)

definition history_of :: "lifecycle_db \<Rightarrow> project_key \<Rightarrow> transition_row list" where
  "history_of db pk = filter (\<lambda>t. transitionProject t = pk) (transition_rows db)"

definition reachable_states :: "at_lifecycle_state list" where
  "reachable_states = [At_draft, At_registered, At_offering_open, At_closure, At_suspended]"

definition row_sound :: "lifecycle_row \<Rightarrow> bool" where
  "row_sound row \<longleftrightarrow>
     lifecycleState row \<in> set reachable_states \<and>
     (if lifecycleState row = At_suspended
      then priorLifecycleState row \<in> {Some At_registered, Some At_offering_open, Some At_closure}
      else priorLifecycleState row = None \<and> suspendedBy row = None)"

definition project_sound :: "lifecycle_db \<Rightarrow> project_key \<Rightarrow> bool" where
  "project_sound db pk =
     (case projects_table db pk of
        None \<Rightarrow> history_of db pk = []
      | Some row \<Rightarrow> row_sound row \<and> walks At_draft (history_of db pk) = Some (lifecycleState row) \<and>
          length (history_of db pk) < projectVersion row)"

lemma project_sound_cong:
  "projects_table db' pk = projects_table db pk \<Longrightarrow> history_of db' pk = history_of db pk \<Longrightarrow>
     project_sound db' pk = project_sound db pk"
  unfolding project_sound_def by (simp split: option.split)

lemma project_sound_other:
  "pk' \<noteq> pk \<Longrightarrow> project_sound (db\<lparr>projects_table := (projects_table db)(pk \<mapsto> row)\<rparr>) pk' = project_sound db pk'"
  by (rule project_sound_cong) (simp_all add: history_of_def)

lemma history_projects [simp]: "history_of (projects_table_update f db) pk = history_of db pk"
  by (simp add: history_of_def)

text \<open>
  Every history of the tables: creating a project, editing it, publishing its Registry entry, the
  lifecycle route, and any change of the other tables.
\<close>

definition new_row :: lifecycle_row where
  "new_row = \<lparr>lifecycleState = At_draft, priorLifecycleState = None, suspendedBy = None, projectVersion = 1\<rparr>"

inductive lifecycle_reach :: "lifecycle_db \<Rightarrow> bool" where
  empty: "projects_table db = Map.empty \<Longrightarrow> transition_rows db = [] \<Longrightarrow> lifecycle_reach db"
| create: "lifecycle_reach db \<Longrightarrow> projects_table db pk = None \<Longrightarrow>
    lifecycle_reach (db\<lparr>projects_table := (projects_table db)(pk \<mapsto> new_row)\<rparr>)"
| edit: "lifecycle_reach db \<Longrightarrow> projects_table db pk = Some row \<Longrightarrow>
    lifecycle_reach
      (db\<lparr>projects_table := (projects_table db)(pk \<mapsto> row\<lparr>projectVersion := projectVersion row + 1\<rparr>)\<rparr>)"
| publish: "lifecycle_reach db \<Longrightarrow>
    lifecycle_reach (register_on_publication now s tenant project erole corr db)"
| request: "lifecycle_reach (world idb) \<Longrightarrow> postTransition now q idb = Inr (view, idb') \<Longrightarrow>
    lifecycle_reach (world idb')"
| elsewhere: "lifecycle_reach db \<Longrightarrow> projects_table db' = projects_table db \<Longrightarrow>
    transition_rows db' = transition_rows db \<Longrightarrow> lifecycle_reach db'"

lemma moved_row_sound:
  assumes "row_sound row" and "allowed_move db pk row subject target"
  shows "row_sound (moved_row row target subject')"
proof (cases "target = At_suspended")
  case True
  with allowed_move_cases [OF assms(2)] assms(1) show ?thesis
    by (auto simp: row_sound_def moved_row_def reachable_states_def SUSPENDABLE_STATES_def OFFERING_FAMILY_STATES_def)
next
  case False
  with allowed_move_cases [OF assms(2)] assms(1) have "target \<in> set reachable_states"
    by (auto simp: row_sound_def reachable_states_def)
  with False show ?thesis by (simp add: row_sound_def moved_row_def)
qed

lemma history_snoc:
  "transition_rows db' = transition_rows db @ [t] \<Longrightarrow>
     history_of db' pk = history_of db pk @ (if transitionProject t = pk then [t] else [])"
  by (simp add: history_of_def)

lemma sound_move:
  assumes "\<And>k. project_sound db k" and "projects_table db pk = Some row" and "row_sound new"
    and "canTransition atLifecycleMachine (lifecycleState row) (lifecycleState new)"
    and "projectVersion new = projectVersion row + 1"
    and "projects_table db' = (projects_table db)(pk \<mapsto> new)"
    and "transition_rows db' = transition_rows db @ [t]" and "transitionProject t = pk"
    and "fromState t = lifecycleState row" and "toState t = lifecycleState new"
  shows "project_sound db' k"
proof (cases "k = pk")
  case True
  have "walks At_draft (history_of db pk) = Some (lifecycleState row)"
    and "length (history_of db pk) < projectVersion row"
    using assms(1) [of pk] assms(2) by (simp_all add: project_sound_def)
  then show ?thesis
    by (simp add: True project_sound_def history_snoc [OF assms(7)] walks_snoc assms(3-6,8-10))
next
  case False
  then have "project_sound db' k = project_sound db k"
    by (intro project_sound_cong) (simp_all add: assms(6,8) history_snoc [OF assms(7)])
  with assms(1) show ?thesis by simp
qed

lemma lifecycle_reach_sound: "lifecycle_reach db \<Longrightarrow> project_sound db pk"
proof (induction arbitrary: pk rule: lifecycle_reach.induct)
  case (empty db)
  then show ?case by (simp add: project_sound_def history_of_def)
next
  case (create db pk' pk)
  have "history_of db pk' = []"
    using create.IH [of pk'] create.hyps(2) by (simp add: project_sound_def)
  then show ?case
    using create.IH [of pk] project_sound_other [of pk pk' db new_row]
    by (cases "pk = pk'") (simp_all add: project_sound_def new_row_def row_sound_def reachable_states_def)
next
  case (edit db pk' row pk)
  let ?row = "row\<lparr>projectVersion := projectVersion row + 1\<rparr>"
  have "row_sound ?row \<and> walks At_draft (history_of db pk') = Some (lifecycleState row) \<and>
      length (history_of db pk') < projectVersion ?row"
    using edit.IH [of pk'] edit.hyps(2) by (auto simp: project_sound_def row_sound_def)
  then show ?case
    using edit.IH [of pk] project_sound_other [of pk pk' db ?row]
    by (cases "pk = pk'") (simp_all add: project_sound_def)
next
  case (publish db now s tenant project erole corr)
  let ?db' = "register_on_publication now s tenant project erole corr db"
  show ?case
  proof (cases "\<exists>row. projects_table db (tenant, project) = Some row \<and> lifecycleState row = At_draft")
    case True
    then obtain row where row: "projects_table db (tenant, project) = Some row" "lifecycleState row = At_draft"
      by blast
    have "row_sound row" using publish.IH [of "(tenant, project)"] row(1) by (simp add: project_sound_def)
    then have new: "row_sound (row\<lparr>lifecycleState := At_registered, projectVersion := projectVersion row + 1\<rparr>)"
      using row(2) by (simp add: row_sound_def reachable_states_def)
    have move: "canTransition atLifecycleMachine At_draft At_registered" by (simp add: lifecycle_rows)
    show ?thesis
      by (rule sound_move [OF publish.IH row(1) new])
        (simp_all add: register_on_publication_def row Let_def move)+
  next
    case False
    then have "?db' = db" by (auto simp: register_on_publication_def split: option.splits)
    with publish.IH show ?thesis by simp
  qed
next
  case (request idb now q view idb')
  show ?case
  proof (cases "world idb' = world idb")
    case False
    from accepted_transition [OF request.hyps(2) this] obtain s tenant row target reason erole where m:
      "projects_table (world idb) (tenant, requestProject q) = Some row"
      "allowed_move (world idb) (tenant, requestProject q) row (sessionSubjectId s) target"
      "world idb' = apply_transition now s tenant (requestProject q) row target reason erole
        (correlationId q) (world idb)" by metis
    have "row_sound row" using request.IH [of "(tenant, requestProject q)"] m(1) by (simp add: project_sound_def)
    note new = moved_row_sound [OF this m(2), of "sessionSubjectId s"]
    have "canTransition atLifecycleMachine (lifecycleState row) target" using m(2) by (simp add: allowed_move_def)
    then show ?thesis
      by (intro sound_move [OF request.IH m(1) new])
        (simp_all add: m(3) apply_transition_def Let_def moved_row_def)+
  qed (use request.IH in simp)
next
  case (elsewhere db db' pk)
  then have "project_sound db' pk = project_sound db pk"
    by (intro project_sound_cong) (simp_all add: history_of_def)
  with elsewhere.IH [of pk] show ?case by simp
qed

text \<open>
  C3. In every history of the tables - projects created and edited, Registry entries published,
  lifecycle requests, anything else happening elsewhere - a project is in one of five states, since no
  move beyond an open offering passes its guard; the state before a suspension is kept exactly while the
  suspension lasts, and is one to which the project may return; and the history rows lead, move by move
  of the table, from \<open>draft\<close> to the state of the row, with fewer moves than versions.
\<close>

theorem reachable_lifecycle:
  assumes "lifecycle_reach db" and "projects_table db pk = Some row"
  shows "lifecycleState row \<in> {At_draft, At_registered, At_offering_open, At_closure, At_suspended} \<and>
    (if lifecycleState row = At_suspended
     then priorLifecycleState row \<in> {Some At_registered, Some At_offering_open, Some At_closure}
     else priorLifecycleState row = None \<and> suspendedBy row = None) \<and>
    walks At_draft (history_of db pk) = Some (lifecycleState row) \<and>
    length (history_of db pk) < projectVersion row"
  using lifecycle_reach_sound [OF assms(1), of pk] assms(2)
  by (auto simp: project_sound_def row_sound_def reachable_states_def)

section \<open>Opening an offering, lifting a suspension\<close>

lemma advance_roles:
  "\<forall>p \<in> set ACTION_POLICIES. policyAction p = js ''project.lifecycle.advance'' \<longrightarrow>
     allowedRoles p = [js ''issuer_officer'', js ''gate_approver'']"
  unfolding ball_policies by (intro conjI; simp add: policy_groups role_group_defs)

lemma advance_role:
  assumes "assertAuthorized s (js ''project.lifecycle.advance'') resource facts = Inr r"
  shows "r \<in> {js ''issuer_officer'', js ''gate_approver''} \<and> r \<in> bindingRole ` set (roleBindings s)"
  using effective_role_held [OF assms] advance_roles by (auto dest!: policy_of_Some)

text \<open>
  C12. An offering opens, and a suspension is lifted, only under control. The request comes from a
  session that holds \<open>issuer_officer\<close> or \<open>gate_approver\<close> in the tenant of the project, no active
  blackout covers the move, and: into \<open>offering_open\<close>, every precondition is confirmed with evidence and
  the latest decision on the offering gate is go; out of \<open>suspended\<close>, the project goes back to where
  it was, after a review since the suspension, or to \<open>closure\<close>, and never by the subject who suspended it.
\<close>

theorem advance_under_control:
  assumes "postTransition now q idb = Inr (view, idb')"
    and "projects_table (world idb) (tenant, requestProject q) = Some row"
    and "projects_table (world idb') (tenant, requestProject q) = Some row'"
    and "lifecycleState row' \<noteq> lifecycleState row" and "lifecycleState row' \<noteq> At_suspended"
  shows "\<exists>s. callerSession (requestHead q) = Some s \<and> sessionTenantId s = Some tenant \<and>
    (js ''issuer_officer'' \<in> bindingRole ` set (roleBindings s) \<or>
     js ''gate_approver'' \<in> bindingRole ` set (roleBindings s)) \<and>
    assertActionNotRestricted (restriction_table (world idb)) tenant (requestProject q)
      (js ''project.lifecycle.'' @ state_name (lifecycleState row')) (sessionSubjectId s) = Inr () \<and>
    (lifecycleState row' = At_offering_open \<longrightarrow>
       checkOfferingGate (project_statuses (world idb) (tenant, requestProject q)) = Activatable \<and>
       latest_decision (world idb) (tenant, requestProject q) = Some Gd_go) \<and>
    (lifecycleState row = At_suspended \<longrightarrow>
       (suspendedBy row = None \<or> suspendedBy row \<noteq> sessionSubjectId s) \<and>
       (lifecycleState row' = At_closure \<or>
        priorLifecycleState row = Some (lifecycleState row') \<and>
        (\<exists>since. last_suspension (world idb) (tenant, requestProject q) = Some since \<and>
           reviewed_after (world idb) (tenant, requestProject q) since)))"
proof -
  have "world idb' \<noteq> world idb" using assms(2-4) by auto
  from accepted_transition [OF assms(1) this] obtain s ten r target reason erole where m:
    "callerSession (requestHead q) = Some s" "sessionTenantId s = Some ten"
    "projects_table (world idb) (ten, requestProject q) = Some r"
    "assertAuthorized s (if target = At_suspended then js ''project.lifecycle.suspend''
        else js ''project.lifecycle.advance'') (projectResource ten (requestProject q) no_resource_overrides)
        (sessionFacts s no_actor_overrides) = Inr erole"
    "assertActionNotRestricted (restriction_table (world idb)) ten (requestProject q)
        (js ''project.lifecycle.'' @ state_name target) (sessionSubjectId s) = Inr ()"
    "allowed_move (world idb) (ten, requestProject q) r (sessionSubjectId s) target"
    "world idb' = apply_transition now s ten (requestProject q) r target reason erole
        (correlationId q) (world idb)" by metis
  have ten: "ten = tenant"
    using assms(2-4) by (auto simp: m(7) apply_transition_fields split: if_splits)
  then have r: "r = row" "lifecycleState row' = target"
    using assms(2,3) m(3) by (auto simp: m(7) apply_transition_fields moved_row_def)
  have "erole \<in> {js ''issuer_officer'', js ''gate_approver''} \<and> erole \<in> bindingRole ` set (roleBindings s)"
    using m(4) assms(5) r(2) by (intro advance_role) simp
  moreover have "reviewedSinceSuspension (readGuardFacts (world idb) (tenant, requestProject q) At_suspended) = Some True
      \<longleftrightarrow> (\<exists>since. last_suspension (world idb) (tenant, requestProject q) = Some since \<and>
           reviewed_after (world idb) (tenant, requestProject q) since)"
    by (simp add: readGuardFacts_def split: option.splits)
  moreover from allowed_move_cases [OF m(6)] assms(4,5)
  have "(target = At_offering_open \<longrightarrow> offering_ready (world idb) (tenant, requestProject q)) \<and>
    (lifecycleState row = At_suspended \<longrightarrow>
       (suspendedBy row = None \<or> suspendedBy row \<noteq> sessionSubjectId s) \<and>
       (target = At_closure \<or> priorLifecycleState row = Some target \<and>
        reviewedSinceSuspension (readGuardFacts (world idb) (tenant, requestProject q) At_suspended) = Some True))"
    unfolding ten r by (elim disjE conjE) (simp_all add: OFFERING_FAMILY_STATES_def)
  ultimately show ?thesis
    using m(1,2,5) unfolding ten r offering_ready_def
    by (intro exI [of _ s]) (simp, blast)
qed

section \<open>A project whose offering opens\<close>

definition issuer_session :: session where
  "issuer_session =
     \<lparr>principal = Person, sessionId = js ''s1'', sessionSubjectId = Some (js ''ann''), sessionTenantId = Some (js ''t''),
      sessionAssurance = High_assurance, firstFactor = Some First_google, secondFactor = Some Second_passkey,
      recoveryLimited = False, aal = Some Aal3, serviceScopes = None,
      roleBindings = [\<lparr>bindingRole = js ''issuer_officer'', organizationId = None, projectId = Some (js ''p''),
        bindingJurisdiction = None, elevationId = None\<rparr>],
      narrowedRoles = [], projectIds = [js ''p''], organizationProjectIds = None, projectJurisdictions = None\<rparr>"

definition sample_facts :: "fact_row list" where
  "sample_facts =
     map (\<lambda>c. \<lparr>factProject = (js ''t'', js ''p''), factKey = preconditionKey c, factStatus = js ''confirmed'',
               factEvidence = Some (js ''doc'')\<rparr>) OFFERING_PRECONDITIONS"

definition draft_db :: lifecycle_db where
  "draft_db =
     \<lparr>projects_table = Map.empty, transition_rows = [], fact_rows = sample_facts,
      decision_rows = [\<lparr>decisionProject = (js ''t'', js ''p''), decisionGate = OFFERING_GATE_ID,
        decisionValue = Gd_go, signedAt = 5, decisionCreated = 5\<rparr>],
      claim_times = [], case_step_times = [], assessment_times = [], restriction_table = [],
      audit_table = [], outbox_table = []\<rparr>"

definition registered_row :: lifecycle_row where
  "registered_row =
     \<lparr>lifecycleState = At_registered, priorLifecycleState = None, suspendedBy = None, projectVersion = 2\<rparr>"

definition registered_db :: lifecycle_db where
  "registered_db =
     register_on_publication 1 issuer_session (js ''t'') (js ''p'') (js ''issuer_officer'') (js ''c'')
       (draft_db\<lparr>projects_table := [(js ''t'', js ''p'') \<mapsto> new_row]\<rparr>)"

definition registered_idb :: "(lifecycle_db, lifecycle_view) idempotent_db" where
  "registered_idb = \<lparr>keys = Map.empty, world = registered_db\<rparr>"

definition open_request :: lifecycle_request where
  "open_request =
     \<lparr>requestHead = \<lparr>callerSession = Some issuer_session, idempotencyHeader = Some (js ''0123456789abcdef''),
        ifMatchHeader = Some (etagOf 2)\<rparr>,
      requestProject = js ''p'', requestBody = Some (js ''offering_open'', js ''ready''), requestDigest = js ''h'',
      requestId = js ''r'', requestAsOf = js ''d'', correlationId = js ''c''\<rparr>"

lemma registered_reach: "lifecycle_reach registered_db"
proof -
  have "lifecycle_reach draft_db" by (rule lifecycle_reach.empty) (simp_all add: draft_db_def)
  then have "lifecycle_reach (draft_db\<lparr>projects_table := (projects_table draft_db)((js ''t'', js ''p'') \<mapsto> new_row)\<rparr>)"
    by (rule lifecycle_reach.create) (simp add: draft_db_def)
  then show ?thesis unfolding registered_db_def
    using lifecycle_reach.publish by (simp add: draft_db_def)
qed

lemma registered_fields:
  "projects_table registered_db = [(js ''t'', js ''p'') \<mapsto> registered_row]"
  "fact_rows registered_db = sample_facts"
  "decision_rows registered_db = decision_rows draft_db"
  "restriction_table registered_db = []"
  by (simp_all add: registered_db_def register_on_publication_def draft_db_def new_row_def registered_row_def
      Let_def numeral_2_eq_2)

lemma sample_ready: "offering_ready registered_db (js ''t'', js ''p'')"
  unfolding offering_ready_def
  by (simp add: project_statuses_def registered_fields sample_facts_def OFFERING_PRECONDITIONS_def precondition_of_def
      checkOfferingGate_def byKey_def has_evidence_def latest_decision_def draft_db_def Let_def)

lemma opening_authorized:
  "\<exists>r. assertAuthorized issuer_session (js ''project.lifecycle.advance'')
     (projectResource (js ''t'') (js ''p'') no_resource_overrides) (sessionFacts issuer_session no_actor_overrides) = Inr r"
proof -
  have "\<exists>p \<in> set ACTION_POLICIES. policyAction p = js ''project.lifecycle.advance''"
    by (simp add: ACTION_POLICIES_def review_and_lifecycle_policies_def)
  then obtain p where p: "policy_of (js ''project.lifecycle.advance'') = Some p"
    unfolding policy_of_def by (cases "find (\<lambda>p. policyAction p = js ''project.lifecycle.advance'') ACTION_POLICIES")
      (auto simp: find_eq_None_iff)
  then have "allowedRoles p = [js ''issuer_officer'', js ''gate_approver'']"
    using advance_roles policy_of_Some by blast
  then show ?thesis
    unfolding assertAuthorized_passes using p
    by (simp add: issuer_session_def authorize_def bindingToAuthorizationContext_def withResourceJurisdiction_def
        projectResource_def resource_of_def no_resource_overrides_def baseScopeOf_def scope_includes_def
        sessionFacts_def no_actor_overrides_def jurisdictionMatches_def authorizeResourceConditions_def
        minimum_assurance_def ROLE_MINIMUM_ASSURANCE_def satisfiesAssurance_def CLEARANCE_BY_ASSURANCE_def)
qed

lemma opening_work:
  "\<exists>view. transition_work 9 issuer_session (js ''t'') (Some 2) erole open_request At_offering_open (js ''ready'') registered_db =
     Inr (view, apply_transition 9 issuer_session (js ''t'') (js ''p'') registered_row At_offering_open (js ''ready'')
       erole (js ''c'') registered_db)"
proof -
  have "checkLifecycleGuard At_registered At_offering_open
      (readGuardFacts registered_db (js ''t'', js ''p'') At_registered) = Guard_allowed"
    using sample_ready by (simp add: guard_allowed_iff offeringConditions_ready row_unrecorded_iff)
  then show ?thesis
    by (simp add: transition_work_def open_request_def registered_fields registered_row_def assertVersionMatches_def Let_def
        targets_def atLifecycleMachine_def assertActionNotRestricted_def active_rows_def check_resume_def
        readLifecycle_def apply_transition_def)
qed

lemma opening_accepted:
  "\<exists>view idb'. postTransition 9 open_request registered_idb = Inr (view, idb') \<and>
     projects_table (world idb') (js ''t'', js ''p'') =
       Some \<lparr>lifecycleState = At_offering_open, priorLifecycleState = None, suspendedBy = None, projectVersion = 3\<rparr>"
proof -
  obtain erole where role: "assertAuthorized issuer_session (js ''project.lifecycle.advance'')
     (projectResource (js ''t'') (js ''p'') no_resource_overrides) (sessionFacts issuer_session no_actor_overrides) = Inr erole"
    using opening_authorized by blast
  obtain view where work: "transition_work 9 issuer_session (js ''t'') (Some 2) erole open_request At_offering_open
      (js ''ready'') registered_db =
     Inr (view, apply_transition 9 issuer_session (js ''t'') (js ''p'') registered_row At_offering_open (js ''ready'')
       erole (js ''c'') registered_db)"
    using opening_work by blast
  have head: "requireMutationContext (requestHead open_request) = Inr (issuer_session, js ''t'', js ''0123456789abcdef'')"
    by (simp add: requireMutationContext_def requireEnrolledSession_def open_request_def issuer_session_def js_def)
  have etag_ok: "requireIfMatch (requestHead open_request) = Inr (Some 2)"
    by (rule etag_accepted) (simp_all add: open_request_def)
  have body: "parse_transition (requestBody open_request) = Some (At_offering_open, js ''ready'')"
    by (simp add: parse_transition_def open_request_def REQUESTABLE_STATES_def js_def)
  have "postTransition 9 open_request registered_idb =
      withIdempotency (js ''t'') (js ''0123456789abcdef'') (js ''h'')
        (transition_work 9 issuer_session (js ''t'') (Some 2) erole open_request At_offering_open (js ''ready'')) registered_idb"
    using role by (simp add: postTransition_def head etag_ok body) (simp add: open_request_def)
  then show ?thesis
    by (simp add: withIdempotency_def registered_idb_def work completeIdempotency_def apply_transition_fields
        moved_row_def registered_row_def)
qed

theorem accepted_request_is_one_move_witness:
  "\<exists>view idb' e. postTransition 9 open_request registered_idb = Inr (view, idb') \<and>
     outbox_table (world idb') = outbox_table registered_db @ [e] \<and> aggregateVersion e = 3"
proof -
  obtain view idb' where post: "postTransition 9 open_request registered_idb = Inr (view, idb')"
    and row: "projects_table (world idb') (js ''t'', js ''p'') =
       Some \<lparr>lifecycleState = At_offering_open, priorLifecycleState = None, suspendedBy = None, projectVersion = 3\<rparr>"
    using opening_accepted by blast
  have "world idb' \<noteq> world registered_idb"
    using row by (auto simp: registered_idb_def registered_fields registered_row_def)
  with accepted_request_is_one_move [OF post] post row show ?thesis
    by (auto simp: registered_idb_def registered_fields registered_row_def moved_row_def open_request_def Let_def
        split: if_splits)
qed

theorem reachable_lifecycle_witness:
  "lifecycle_reach registered_db \<and>
   walks At_draft (history_of registered_db (js ''t'', js ''p'')) = Some At_registered"
  using registered_reach reachable_lifecycle [OF registered_reach, of "(js ''t'', js ''p'')" registered_row]
  by (simp add: registered_fields registered_row_def)

theorem advance_under_control_witness:
  "\<exists>view idb'. postTransition 9 open_request registered_idb = Inr (view, idb') \<and>
     latest_decision registered_db (js ''t'', js ''p'') = Some Gd_go \<and>
     (\<exists>s. callerSession (requestHead open_request) = Some s \<and> sessionTenantId s = Some (js ''t''))"
proof -
  obtain view idb' where post: "postTransition 9 open_request registered_idb = Inr (view, idb')"
    and row: "projects_table (world idb') (js ''t'', js ''p'') =
       Some \<lparr>lifecycleState = At_offering_open, priorLifecycleState = None, suspendedBy = None, projectVersion = 3\<rparr>"
    using opening_accepted by blast
  have "latest_decision registered_db (js ''t'', js ''p'') = Some Gd_go \<and>
    (\<exists>s. callerSession (requestHead open_request) = Some s \<and> sessionTenantId s = Some (js ''t''))"
    using advance_under_control [OF post, of "js ''t''" registered_row] row
    by (simp add: registered_idb_def registered_fields registered_row_def open_request_def)
  with post show ?thesis by blast
qed

end
