(* ===== verification/Ip_Address.thy ===== *)
theory Ip_Address
  imports Hash
begin

text \<open>
  Addresses and ranges (\<open>packages/config/src/ip.ts\<close>), and the class of an address in an audit record
  (\<open>apps/api/src/device.ts\<close>). Bytes are 8-bit words. \<open>isIP\<close> of \<open>node:net\<close> is an argument that
  returns 4, 6 or 0; nothing is assumed of it. \<open>toLowerCase\<close> is written for ASCII letters: outside
  ASCII no letter becomes one that the parser accepts.
\<close>

section \<open>Splitting\<close>

fun js_split :: "code_unit \<Rightarrow> js_string \<Rightarrow> js_string list" where
  "js_split sep [] = [[]]"
| "js_split sep (c # s) =
     (if c = sep then [] # js_split sep s
      else (case js_split sep s of [] \<Rightarrow> [[c]] | p # ps \<Rightarrow> (c # p) # ps))"

text \<open>\<open>value.split("::")\<close>.\<close>

fun split_colons :: "js_string \<Rightarrow> js_string list" where
  "split_colons [] = [[]]"
| "split_colons [c] = [[c]]"
| "split_colons (c # d # s) =
     (if c = 0x3A \<and> d = 0x3A then [] # split_colons s
      else (case split_colons (d # s) of [] \<Rightarrow> [[c]] | p # ps \<Rightarrow> (c # p) # ps))"

section \<open>Addresses\<close>

text \<open>\<open>/^(0|[1-9][0-9]{0,2})$/\<close>.\<close>

definition octet_text :: "js_string \<Rightarrow> bool" where
  "octet_text p \<longleftrightarrow>
     p = [48] \<or> p \<noteq> [] \<and> 49 \<le> hd p \<and> hd p \<le> 57 \<and> length p \<le> 3 \<and> list_all js_digit (tl p)"

fun octets :: "js_string list \<Rightarrow> bytes option" where
  "octets [] = Some []"
| "octets (p # ps) =
     (if \<not> octet_text p then None
      else if decimal_value p > 255 then None
      else map_option (\<lambda>bs. word_of_nat (decimal_value p) # bs) (octets ps))"

definition ipv4ToBytes :: "js_string \<Rightarrow> bytes option" where
  "ipv4ToBytes address =
     (let parts = js_split 0x2E address in if length parts \<noteq> 4 then None else octets parts)"

text \<open>The loop over the groups of a half: a dotted address only in the last position.\<close>

fun group_bytes :: "js_string list \<Rightarrow> bytes option" where
  "group_bytes [] = Some []"
| "group_bytes (item # items) =
     (if 0x2E \<in> set item
      then (if items \<noteq> [] then None else ipv4ToBytes item)
      else if item = [] \<or> length item > 4 \<or> \<not> list_all lower_hex item then None
      else (let w = hex_number item
            in map_option (\<lambda>bs. word_of_nat (w div 256) # word_of_nat (w mod 256) # bs) (group_bytes items)))"

definition segment_bytes :: "js_string \<Rightarrow> bytes option" where
  "segment_bytes segment = (if segment = [] then Some [] else group_bytes (js_split 0x3A segment))"

definition ipv6ToBytes :: "js_string \<Rightarrow> bytes option" where
  "ipv6ToBytes address =
     (let lower = js_lower address; halves = split_colons lower
      in if 0x25 \<in> set lower then None
         else case halves of
           [only] \<Rightarrow>
             (case segment_bytes only of
                Some head \<Rightarrow> if length head \<noteq> 16 then None else Some head
              | None \<Rightarrow> None)
         | [before, behind] \<Rightarrow>
             (case (segment_bytes before, segment_bytes behind) of
                (Some head, Some tail) \<Rightarrow>
                  if length head + length tail \<ge> 16 then None
                  else Some (head @ replicate (16 - length head - length tail) 0 @ tail)
              | _ \<Rightarrow> None)
         | _ \<Rightarrow> None)"

definition ipToBytes :: "(js_string \<Rightarrow> nat) \<Rightarrow> js_string \<Rightarrow> bytes option" where
  "ipToBytes isIP address =
     (if isIP address = 4
      then map_option (\<lambda>quad. replicate 10 0 @ [0xFF, 0xFF] @ quad) (ipv4ToBytes address)
      else if isIP address = 6 then ipv6ToBytes address
      else None)"

section \<open>Ranges\<close>

record cidr_range =
  rangeBytes :: bytes
  prefixBits :: nat

definition parseCidr :: "(js_string \<Rightarrow> nat) \<Rightarrow> js_string \<Rightarrow> cidr_range option" where
  "parseCidr isIP text =
     (let trimmed = js_trim text; parts = js_split 0x2F trimmed; address = hd parts
      in if trimmed = [] then None
         else case ipToBytes isIP address of
           None \<Rightarrow> None
         | Some bs \<Rightarrow>
             (case tl parts of
                [] \<Rightarrow> Some \<lparr>rangeBytes = bs, prefixBits = 128\<rparr>
              | prefix # _ \<Rightarrow>
                  if prefix = [] \<or> length prefix > 3 \<or> \<not> list_all js_digit prefix then None
                  else (let declared = decimal_value prefix; v4 = isIP address = 4
                        in if declared > (if v4 then 32 else 128) then None
                           else Some \<lparr>rangeBytes = bs, prefixBits = (if v4 then declared + 96 else declared)\<rparr>)))"

definition matchesCidr :: "(js_string \<Rightarrow> nat) \<Rightarrow> js_string \<Rightarrow> cidr_range \<Rightarrow> bool" where
  "matchesCidr isIP address block =
     (case ipToBytes isIP address of
        None \<Rightarrow> False
      | Some bs \<Rightarrow>
          (let fullBytes = prefixBits block div 8; remainingBits = prefixBits block mod 8;
               mask = push_bit (8 - remainingBits) 0xFF :: nat
           in list_all (\<lambda>i. bs ! i = rangeBytes block ! i) [0..<fullBytes] \<and>
              (remainingBits = 0 \<or>
               and (unat (bs ! fullBytes)) mask = and (unat (rangeBytes block ! fullBytes)) mask)))"

section \<open>The class of an address\<close>

datatype ip_class = Ip_loopback | Ip_private | Ip_link_local | Ip_public | Ip_unknown

definition LOOPBACK :: "js_string list" where
  "LOOPBACK = [js ''127.0.0.0/8'', js ''::1/128'']"

definition PRIVATE :: "js_string list" where
  "PRIVATE = [js ''10.0.0.0/8'', js ''172.16.0.0/12'', js ''192.168.0.0/16'', js ''100.64.0.0/10'', js ''fc00::/7'']"

definition LINK_LOCAL :: "js_string list" where
  "LINK_LOCAL = [js ''169.254.0.0/16'', js ''fe80::/10'']"

text \<open>A constant that does not parse stops the program when the module is loaded (\<open>None\<close>).\<close>

fun ranges :: "(js_string \<Rightarrow> nat) \<Rightarrow> js_string list \<Rightarrow> cidr_range list option" where
  "ranges isIP [] = Some []"
| "ranges isIP (v # vs) =
     (case parseCidr isIP v of
        None \<Rightarrow> None
      | Some r \<Rightarrow> map_option (\<lambda>rs. r # rs) (ranges isIP vs))"

definition within :: "(js_string \<Rightarrow> nat) \<Rightarrow> js_string \<Rightarrow> js_string list \<Rightarrow> bool" where
  "within isIP address constants =
     (case ranges isIP constants of None \<Rightarrow> False | Some rs \<Rightarrow> list_ex (matchesCidr isIP address) rs)"

definition classifyIp :: "(js_string \<Rightarrow> nat) \<Rightarrow> js_string option \<Rightarrow> ip_class option" where
  "classifyIp isIP address =
     (case address of
        None \<Rightarrow> None
      | Some a \<Rightarrow>
          if a = [] then None
          else if parseCidr isIP a = None then Some Ip_unknown
          else if within isIP a LOOPBACK then Some Ip_loopback
          else if within isIP a PRIVATE then Some Ip_private
          else if within isIP a LINK_LOCAL then Some Ip_link_local
          else Some Ip_public)"

section \<open>One text per IPv4 address\<close>

lemma octets_length: "octets ps = Some bs \<Longrightarrow> length bs = length ps"
  by (induction ps arbitrary: bs) (auto split: if_splits)

lemma ipv4_length: "ipv4ToBytes s = Some bs \<Longrightarrow> length bs = 4"
  by (auto simp: ipv4ToBytes_def Let_def dest: octets_length split: if_splits)

lemma ipv6_length: "ipv6ToBytes s = Some bs \<Longrightarrow> length bs = 16"
  by (auto simp: ipv6ToBytes_def Let_def split: if_splits list.splits option.splits)

lemma ip_length: "ipToBytes isIP s = Some bs \<Longrightarrow> length bs = 16"
  by (auto simp: ipToBytes_def dest: ipv4_length ipv6_length split: if_splits)

lemma parseCidr_bounds: "parseCidr isIP s = Some r \<Longrightarrow> length (rangeBytes r) = 16 \<and> prefixBits r \<le> 128"
  by (auto simp: parseCidr_def Let_def dest: ip_length split: if_splits option.splits list.splits)

lemma js_split_ne [simp]: "js_split sep s \<noteq> []"
  by (induction s) (auto split: list.splits)

lemma js_split_word: "sep \<notin> set p \<Longrightarrow> js_split sep p = [p]"
  by (induction p) auto

lemma js_split_append: "sep \<notin> set p \<Longrightarrow> js_split sep (p @ sep # s) = p # js_split sep s"
  by (induction p) auto

lemma js_join_split: "js_join [sep] (js_split sep s) = s"
proof (induction s)
  case (Cons c s)
  then show ?case by (cases "js_split sep s" rule: list.exhaust; cases "tl (js_split sep s)") auto
qed simp

lemma js_split_join:
  "ps \<noteq> [] \<Longrightarrow> (\<And>p. p \<in> set ps \<Longrightarrow> sep \<notin> set p) \<Longrightarrow> js_split sep (js_join [sep] ps) = ps"
  by (induction "[sep]" ps rule: js_join.induct) (auto simp: js_split_word js_split_append)

lemma decimal_value_append_digit:
  "decimal_value (p @ [c]) div 10 = decimal_value p \<and> decimal_value (p @ [c]) mod 10 = unat c - 48"
  if "js_digit c"
proof -
  define d where "d = unat c - 48"
  have "d < 10" using that by (auto simp: d_def js_digit_def word_le_nat_alt)
  then show ?thesis unfolding decimal_value_snoc d_def [symmetric] by simp
qed

lemma js_digit_of_nat: "js_digit c \<Longrightarrow> 48 + word_of_nat (unat c - 48) = c"
  by (simp add: js_digit_def word_le_nat_alt word_unat_eq_iff unat_word_ariths unat_of_nat)

lemma js_decimal_canonical:
  "p \<noteq> [] \<Longrightarrow> list_all js_digit p \<Longrightarrow> p = [48] \<or> 49 \<le> hd p \<Longrightarrow> js_decimal (decimal_value p) = p"
proof (induction p rule: rev_induct)
  case (snoc c p)
  show ?case
  proof (cases "p = []")
    case True
    with snoc.prems show ?thesis
      by (subst js_decimal.simps)
        (auto simp: decimal_value_def js_digit_def word_le_nat_alt word_unat_eq_iff unat_word_ariths unat_of_nat)
  next
    case False
    then have lead: "49 \<le> hd p" and digits: "list_all js_digit p" "js_digit c"
      using snoc.prems by auto
    have IH: "js_decimal (decimal_value p) = p" using snoc.IH False lead digits by simp
    have "decimal_value p > 0" by (rule decimal_positive [OF False lead digits(1)])
    then have "\<not> decimal_value (p @ [c]) < 10" by (simp add: decimal_value_snoc)
    then show ?thesis
      using decimal_value_append_digit [OF digits(2), of p] IH js_digit_of_nat [OF digits(2)]
      by (subst js_decimal.simps) simp
  qed
qed simp

lemma byte_less: "unat (b :: byte) < 256"
  using unsigned_less [of b, where ?'a = nat] by simp

definition dotted :: "bytes \<Rightarrow> js_string" where
  "dotted bs = js_join [0x2E] (map (\<lambda>b. js_decimal (unat b)) bs)"

lemma octet_text_decimal: "n < 256 \<Longrightarrow> octet_text (js_decimal n)"
proof -
  assume n: "n < 256"
  have digit: "m < 10 \<Longrightarrow> js_digit (48 + word_of_nat m)" for m
    by (simp add: js_digit_def word_le_nat_alt unat_digit)
  have lead: "0 < m \<Longrightarrow> m < 10 \<Longrightarrow> 49 \<le> (48 + word_of_nat m :: code_unit) \<and> 48 + word_of_nat m \<le> (57 :: code_unit)" for m
    by (simp add: word_le_nat_alt unat_digit)
  consider "n = 0" | "0 < n" "n < 10" | "10 \<le> n" "n < 100" | "100 \<le> n" by linarith
  then show ?thesis
  proof cases
    case 1
    then show ?thesis by (subst js_decimal.simps) (simp add: octet_text_def)
  next
    case 2
    then show ?thesis using lead [of n] by (subst js_decimal.simps) (simp add: octet_text_def)
  next
    case 3
    then have "n div 10 < 10" "0 < n div 10" by auto
    then show ?thesis using 3 digit [of "n mod 10"] lead [of "n div 10"]
      by (subst js_decimal.simps, subst js_decimal.simps) (simp add: octet_text_def)
  next
    case 4
    then have "\<not> n div 10 < 10" "n div 10 div 10 < 10" "0 < n div 10 div 10" using n by auto
    then show ?thesis
      using 4 digit [of "n mod 10"] digit [of "n div 10 mod 10"] lead [of "n div 10 div 10"]
      by (subst js_decimal.simps, subst js_decimal.simps, subst js_decimal.simps) (simp add: octet_text_def)
  qed
qed

lemma octet_iff:
  "octet_text p \<and> decimal_value p \<le> 255 \<longleftrightarrow> (\<exists>b :: byte. p = js_decimal (unat b))"
proof
  assume p: "octet_text p \<and> decimal_value p \<le> 255"
  then have "p \<noteq> []" "list_all js_digit p" "p = [48] \<or> 49 \<le> hd p"
    by (auto simp: octet_text_def js_digit_def neq_Nil_conv word_le_nat_alt)
  then have "js_decimal (decimal_value p) = p" by (rule js_decimal_canonical)
  moreover have "unat (word_of_nat (decimal_value p) :: byte) = decimal_value p"
    using p by (simp add: unat_of_nat)
  ultimately show "\<exists>b :: byte. p = js_decimal (unat b)" by metis
next
  assume "\<exists>b :: byte. p = js_decimal (unat b)"
  then obtain b :: byte where p: "p = js_decimal (unat b)" by blast
  show "octet_text p \<and> decimal_value p \<le> 255"
    using octet_text_decimal [OF byte_less [of b]] byte_less [of b] by (simp add: p decimal_value_js_decimal)
qed

lemma js_decimal_byte: "js_decimal (unat b) = js_decimal (unat c) \<longleftrightarrow> b = (c :: byte)"
  by (metis decimal_value_js_decimal word_unat_eq_iff)

lemma octets_Cons: "octets (js_decimal (unat b) # ps) = map_option ((#) b) (octets ps)"
  using octet_text_decimal [OF byte_less [of b]] byte_less [of b]
  by (simp add: decimal_value_js_decimal)

lemma octets_iff: "octets ps = Some bs \<longleftrightarrow> ps = map (\<lambda>b. js_decimal (unat b)) bs"
proof (induction ps arbitrary: bs)
  case (Cons p ps)
  show ?case
  proof (cases "octet_text p \<and> decimal_value p \<le> 255")
    case True
    then obtain b :: byte where b: "p = js_decimal (unat b)" using octet_iff by blast
    show ?thesis
      unfolding b octets_Cons using Cons.IH by (cases bs) (auto simp: js_decimal_byte)
  next
    case False
    then have "octets (p # ps) = None" by auto
    moreover have "p \<noteq> js_decimal (unat b)" for b :: byte using False octet_iff by blast
    ultimately show ?thesis by (cases bs) auto
  qed
qed auto

lemma no_dot: "0x2E \<notin> set (js_decimal n)"
  using js_decimal_digits [of n] by (auto simp: list_all_iff js_digit_def word_le_nat_alt)

lemma ipv4_text_iff: "ipv4ToBytes s = Some bs \<longleftrightarrow> length bs = 4 \<and> s = dotted bs"
proof -
  have split: "bs \<noteq> [] \<Longrightarrow> js_split 0x2E (dotted bs) = map (\<lambda>b. js_decimal (unat b)) bs"
    unfolding dotted_def by (rule js_split_join) (auto simp: no_dot)
  show ?thesis
  proof
    assume "ipv4ToBytes s = Some bs"
    then have "length (js_split 0x2E s) = 4" "js_split 0x2E s = map (\<lambda>b. js_decimal (unat b)) bs"
      by (auto simp: ipv4ToBytes_def Let_def octets_iff split: if_splits)
    then show "length bs = 4 \<and> s = dotted bs"
      using js_join_split [of "0x2E" s] by (simp add: dotted_def)
  next
    assume "length bs = 4 \<and> s = dotted bs"
    then show "ipv4ToBytes s = Some bs"
      using split by (cases "bs = []") (auto simp: ipv4ToBytes_def Let_def octets_iff)
  qed
qed

section \<open>A range is a prefix\<close>

text \<open>The number that a list of bytes writes, most significant byte first.\<close>

definition bytes_value :: "bytes \<Rightarrow> nat" where
  "bytes_value bs = foldl (\<lambda>v b. v * 256 + unat b) 0 bs"

lemma foldl_bytes: "foldl (\<lambda>v b. v * 256 + unat b) n bs = n * 256 ^ length bs + bytes_value bs"
proof (induction bs rule: rev_induct)
  case (snoc b bs)
  then show ?case by (simp add: bytes_value_def algebra_simps)
qed (simp add: bytes_value_def)

lemma bytes_value_append: "bytes_value (xs @ ys) = bytes_value xs * 256 ^ length ys + bytes_value ys"
  using foldl_bytes [of "bytes_value xs" ys] by (simp add: bytes_value_def)

lemma bytes_value_single [simp]: "bytes_value [b] = unat b"
  by (simp add: bytes_value_def)

lemma bytes_value_less: "bytes_value bs < 256 ^ length bs"
proof (induction bs rule: rev_induct)
  case (snoc b bs)
  have "unat b < 256" by (rule byte_less)
  then have "bytes_value (bs @ [b]) < (bytes_value bs + 1) * 256" by (simp add: bytes_value_append)
  also have "\<dots> \<le> 256 ^ length bs * 256" using snoc by (intro mult_right_mono) auto
  finally show ?case by (simp add: mult.commute)
qed (simp add: bytes_value_def)

lemma digit_inject: "x < 256 \<Longrightarrow> y < 256 \<Longrightarrow> a * 256 + x = b * 256 + y \<longleftrightarrow> a = b \<and> x = (y :: nat)"
proof -
  assume "x < 256" "y < 256"
  then have "(a * 256 + x) div 256 = a" "(b * 256 + y) div 256 = b" by simp_all
  then show ?thesis by (metis add_left_cancel)
qed

lemma bytes_value_inject: "length xs = length ys \<Longrightarrow> bytes_value xs = bytes_value ys \<longleftrightarrow> xs = ys"
proof (induction xs ys rule: rev_induct2)
  case (4 x xs y ys)
  then show ?case
    by (simp add: bytes_value_append digit_inject [OF byte_less byte_less] word_unat_eq_iff)
qed auto

lemma mask_nat:
  assumes "x < 256" and "k \<le> 8"
  shows "and x (push_bit k 0xFF) = push_bit k (drop_bit k x :: nat)"
proof (rule bit_eqI)
  fix n
  have m: "(0xFF :: nat) = mask 8" by (simp add: mask_eq_exp_minus_1)
  have "take_bit 8 x = x" using assms(1) by (simp add: take_bit_eq_mod)
  then have high: "bit x n \<Longrightarrow> n < 8" by (metis bit_take_bit_iff)
  show "bit (and x (push_bit k 0xFF)) n \<longleftrightarrow> bit (push_bit k (drop_bit k x)) n"
    unfolding m bit_and_iff bit_push_bit_iff bit_mask_iff bit_drop_bit_eq comp_apply
    using high assms(2) by auto
qed

lemma mask_agree:
  assumes "x < 256" and "y < 256" and "k \<le> 8"
  shows "and x (push_bit k 0xFF) = and y (push_bit k (0xFF :: nat)) \<longleftrightarrow> x div 2 ^ k = y div 2 ^ k"
  unfolding mask_nat [OF assms(1,3)] mask_nat [OF assms(2,3)]
  by (simp add: push_bit_eq_mult drop_bit_eq_div)

lemma bytes_value_split:
  "length xs = 16 \<Longrightarrow> f \<le> 16 \<Longrightarrow>
     bytes_value xs = bytes_value (take f xs) * 256 ^ (16 - f) + bytes_value (drop f xs)"
  by (metis append_take_drop_id bytes_value_append length_drop)

lemma bytes_value_top:
  assumes "length xs = 16" and "f \<le> 16"
  shows "bytes_value xs div 256 ^ (16 - f) = bytes_value (take f xs)"
proof -
  have "bytes_value (drop f xs) < 256 ^ (16 - f)" using bytes_value_less [of "drop f xs"] assms(1) by simp
  then show ?thesis unfolding bytes_value_split [OF assms] by simp
qed

lemma take_agree:
  "length xs = 16 \<Longrightarrow> length ys = 16 \<Longrightarrow> f \<le> 16 \<Longrightarrow>
     take f xs = take f ys \<longleftrightarrow> (\<forall>i < f. xs ! i = ys ! i)"
  by (auto simp: list_eq_iff_nth_eq)

lemma prefix_agrees:
  assumes len: "length xs = 16" "length ys = 16" and p: "p \<le> 128"
  shows "(\<forall>i < p div 8. xs ! i = ys ! i) \<and>
     (p mod 8 = 0 \<or> and (unat (xs ! (p div 8))) (push_bit (8 - p mod 8) 0xFF) =
                     and (unat (ys ! (p div 8))) (push_bit (8 - p mod 8) (0xFF :: nat))) \<longleftrightarrow>
     bytes_value xs div 2 ^ (128 - p) = bytes_value ys div 2 ^ (128 - p)"
proof -
  let ?f = "p div 8" and ?k = "8 - p mod 8"
  have f: "?f \<le> 16" using p by simp
  have pow: "(256 :: nat) ^ n = 2 ^ (8 * n)" for n by (simp add: power_mult)
  show ?thesis
  proof (cases "p mod 8 = 0")
    case True
    then have "8 * (16 - ?f) = 128 - p" by (auto simp: right_diff_distrib')
    then have "(2 :: nat) ^ (128 - p) = 256 ^ (16 - ?f)" by (simp add: pow)
    moreover have "bytes_value (take ?f xs) = bytes_value (take ?f ys) \<longleftrightarrow> take ?f xs = take ?f ys"
      by (rule bytes_value_inject) (simp add: len)
    ultimately show ?thesis
      using True bytes_value_top [OF len(1) f] bytes_value_top [OF len(2) f] take_agree [OF len f] by simp
  next
    case False
    then have g: "Suc ?f \<le> 16" using p by presburger
    have e: "128 - p = 8 * (16 - Suc ?f) + ?k" using False g p by presburger
    have top: "bytes_value zs div 2 ^ (128 - p) = (bytes_value (take ?f zs) * 256 + unat (zs ! ?f)) div 2 ^ ?k"
      if "length zs = 16" for zs
      using bytes_value_top [OF that g] that g
      unfolding e power_add pow [symmetric] div_mult2_eq
      by (simp add: take_Suc_conv_app_nth bytes_value_append)
    have "(a * 256 + x) div 2 ^ ?k = a * 2 ^ (p mod 8) + x div 2 ^ ?k" for a x :: nat
    proof -
      have "(2 :: nat) ^ ?k * 2 ^ (p mod 8) = 256" unfolding power_add [symmetric] using False by simp
      then have "a * 256 + x = x + (a * 2 ^ (p mod 8)) * 2 ^ ?k" by (metis add.commute mult.assoc mult.commute)
      then show ?thesis by (simp only: div_mult_self1 add.commute) simp
    qed
    then have "bytes_value zs div 2 ^ (128 - p) = bytes_value (take ?f zs) * 2 ^ (p mod 8) + unat (zs ! ?f) div 2 ^ ?k"
      if "length zs = 16" for zs
      using top [OF that] by simp
    note top = this [OF len(1)] this [OF len(2)]
    have small: "unat b div 2 ^ ?k < 2 ^ (p mod 8)" for b :: byte
    proof -
      have "(2 :: nat) ^ (p mod 8) * 2 ^ ?k = 256" unfolding power_add [symmetric] using False by simp
      then show ?thesis using byte_less [of b] by (simp add: less_mult_imp_div_less)
    qed
    have inject: "a * 2 ^ (p mod 8) + x = b * 2 ^ (p mod 8) + y \<longleftrightarrow> a = b \<and> x = y"
      if "x < 2 ^ (p mod 8)" "y < 2 ^ (p mod 8)" for a b x y :: nat
    proof -
      have "(a * 2 ^ (p mod 8) + x) div 2 ^ (p mod 8) = a" "(b * 2 ^ (p mod 8) + y) div 2 ^ (p mod 8) = b"
        using that by simp_all
      then show ?thesis by (metis add_left_cancel)
    qed
    have "bytes_value (take ?f xs) = bytes_value (take ?f ys) \<longleftrightarrow> take ?f xs = take ?f ys"
      by (rule bytes_value_inject) (simp add: len)
    then show ?thesis
      unfolding top inject [OF small small]
      using False mask_agree [OF byte_less byte_less, of ?k "xs ! ?f" "ys ! ?f"] take_agree [OF len f] by simp
  qed
qed

text \<open>
  C35. A range is a prefix of the 128-bit number of an address: for every text that parses as a range, the
  loop over whole bytes and the mask of the last one compare exactly the leading \<open>prefixBits\<close> bits, and
  never look at a byte past the sixteen.
\<close>

theorem cidr_is_a_prefix:
  assumes "parseCidr isIP text = Some r"
  shows "length (rangeBytes r) = 16 \<and> prefixBits r \<le> 128 \<and>
    (matchesCidr isIP address r \<longleftrightarrow>
       (\<exists>bs. ipToBytes isIP address = Some bs \<and>
          bytes_value bs div 2 ^ (128 - prefixBits r) = bytes_value (rangeBytes r) div 2 ^ (128 - prefixBits r)))"
proof -
  note bounds = parseCidr_bounds [OF assms]
  have "matchesCidr isIP address r \<longleftrightarrow>
       (\<exists>bs. ipToBytes isIP address = Some bs \<and>
          bytes_value bs div 2 ^ (128 - prefixBits r) = bytes_value (rangeBytes r) div 2 ^ (128 - prefixBits r))"
  proof (cases "ipToBytes isIP address")
    case (Some bs)
    show ?thesis
      using prefix_agrees [OF ip_length [OF Some], of "rangeBytes r" "prefixBits r"] bounds
      by (simp add: matchesCidr_def Some Let_def list_all_iff Ball_def)
  qed (simp add: matchesCidr_def)
  with bounds show ?thesis by blast
qed

theorem cidr_is_a_prefix_witness:
  "\<exists>r. parseCidr (\<lambda>_. 4) (js ''10.0.0.0/8'') = Some r \<and> prefixBits r = 104 \<and>
     matchesCidr (\<lambda>_. 4) (js ''10.9.8.7'') r"
proof -
  have a: "ipv4ToBytes (js ''10.0.0.0'') = Some [10, 0, 0, 0]" and b: "ipv4ToBytes (js ''10.9.8.7'') = Some [10, 9, 8, 7]"
    by (simp_all add: ipv4ToBytes_def js_def octet_text_def decimal_value_def js_digit_def Let_def)
  have r: "parseCidr (\<lambda>_. 4) (js ''10.0.0.0/8'') =
      Some \<lparr>rangeBytes = replicate 10 0 @ [0xFF, 0xFF, 10, 0, 0, 0], prefixBits = 104\<rparr>"
    using a by (simp add: parseCidr_def ipToBytes_def js_def js_trim_def js_whitespace_def js_digit_def
        decimal_value_def Let_def)
  have "bytes_value [0, 0, 0, 0, 0, 0, 0, 0, 0, 0, 0xFF, 0xFF, 10, 9, 8, 7] div 2 ^ 24 =
      bytes_value [0, 0, 0, 0, 0, 0, 0, 0, 0, 0, 0xFF, 0xFF, 10, 0, 0, 0] div 2 ^ 24"
    by (simp add: bytes_value_def)
  moreover have "replicate 10 (0 :: byte) = [0, 0, 0, 0, 0, 0, 0, 0, 0, 0]" by (simp add: numeral_eq_Suc)
  ultimately show ?thesis
    using cidr_is_a_prefix [OF r, of "js ''10.9.8.7''"] r b by (simp add: ipToBytes_def)
qed

text \<open>
  Every IPv4 address has one text: what the parser reads is exactly the dotted decimal form of four
  bytes, so octal or padded octets, missing ones and larger numbers are all refused, and two texts that
  read as the same address are equal.
\<close>

theorem ipv4_one_text:
  "(ipv4ToBytes s = Some bs \<longleftrightarrow> length bs = 4 \<and> s = dotted bs) \<and>
   (ipv4ToBytes s = ipv4ToBytes t \<longleftrightarrow> s = t \<or> ipv4ToBytes s = None \<and> ipv4ToBytes t = None)"
  using ipv4_text_iff [of s] ipv4_text_iff [of t] by (metis not_None_eq)

end
