(* ===== verification/Endpoint_Guard.thy ===== *)
theory Endpoint_Guard
  imports Ip_Address
begin

text \<open>
  Outbound endpoints (\<open>packages/config/src/endpoint.ts\<close>): the check when an endpoint is saved, the check
  right before a call, and the verdict on an address. \<open>new URL\<close> is an argument that returns the protocol
  and the host name, \<open>None\<close> where the constructor throws; the resolver returns \<open>None\<close> where it rejects.
  A refusal carries the text of the \<open>EndpointNotAllowedError\<close>.
\<close>

section \<open>The verdict on an address\<close>

definition PRIVATE_IPV4_RANGES :: "(nat \<times> nat \<times> nat) list" where
  "PRIVATE_IPV4_RANGES =
     [(169, 254, 254), (172, 16, 31), (192, 168, 168), (100, 64, 127), (192, 0, 0), (198, 18, 19)]"

definition isPrivateIpv4Bytes :: "bytes \<Rightarrow> bool" where
  "isPrivateIpv4Bytes bs =
     (let a = unat (bs ! 0); b = unat (bs ! 1)
      in if a \<in> {0, 10, 127} \<or> a \<ge> 224 then True
         else if a = 192 \<and> b = 88 \<and> unat (bs ! 2) = 99 then True
         else list_ex (\<lambda>(first, low, high). a = first \<and> b \<ge> low \<and> b \<le> high) PRIVATE_IPV4_RANGES)"

definition isPrivateIpv4 :: "js_string \<Rightarrow> bool" where
  "isPrivateIpv4 address =
     (case ipv4ToBytes address of None \<Rightarrow> True | Some bs \<Rightarrow> isPrivateIpv4Bytes bs)"

definition isReservedGlobalIpv6 :: "bytes \<Rightarrow> bool" where
  "isReservedGlobalIpv6 bs =
     (if unat (bs ! 0) = 0x20 \<and> unat (bs ! 1) = 0x01 \<and>
         (unat (bs ! 2) = 0x00 \<and> and (unat (bs ! 3)) 0xFE = 0x00 \<or>
          unat (bs ! 2) = 0x0D \<and> unat (bs ! 3) = 0xB8)
      then True
      else if unat (bs ! 0) = 0x3F \<and> and (unat (bs ! 1)) 0xF0 = 0xF0 then True
      else False)"

definition zerosUpTo :: "bytes \<Rightarrow> nat \<Rightarrow> bool" where
  "zerosUpTo bs n = list_all (\<lambda>b. b = 0) (take n bs)"

definition isPrivateIpv6Bytes :: "bytes \<Rightarrow> bool" where
  "isPrivateIpv6Bytes bs =
     (if zerosUpTo bs 15 \<and> (unat (bs ! 15) = 0 \<or> unat (bs ! 15) = 1) then True
      else if zerosUpTo bs 10 \<and> unat (bs ! 10) = 0xFF \<and> unat (bs ! 11) = 0xFF
      then isPrivateIpv4Bytes (drop 12 bs)
      else if zerosUpTo bs 12 then True
      else if unat (bs ! 0) = 0x20 \<and> unat (bs ! 1) = 0x02 then isPrivateIpv4Bytes (take 4 (drop 2 bs))
      else if and (unat (bs ! 0)) 0xE0 \<noteq> 0x20 then True
      else isReservedGlobalIpv6 bs)"

definition isPrivateIpv6 :: "js_string \<Rightarrow> bool" where
  "isPrivateIpv6 address =
     (case ipv6ToBytes address of None \<Rightarrow> True | Some bs \<Rightarrow> isPrivateIpv6Bytes bs)"

definition isPrivateAddress :: "(js_string \<Rightarrow> nat) \<Rightarrow> js_string \<Rightarrow> bool" where
  "isPrivateAddress isIP address =
     (if isIP address = 4 then isPrivateIpv4 address
      else if isIP address = 6 then isPrivateIpv6 address
      else True)"

section \<open>The two checks\<close>

record url =
  protocol :: js_string
  hostname :: js_string

definition BLOCKED_HOSTNAMES :: "js_string list" where
  "BLOCKED_HOSTNAMES = [js ''localhost'', js ''metadata.google.internal'']"

definition BLOCKED_SUFFIXES :: "js_string list" where
  "BLOCKED_SUFFIXES = [js ''.localhost'', js ''.local'', js ''.internal'', js ''.home.arpa'']"

definition js_ends_with :: "js_string \<Rightarrow> js_string \<Rightarrow> bool" where
  "js_ends_with s suffix \<longleftrightarrow> length suffix \<le> length s \<and> drop (length s - length suffix) s = suffix"

definition strip_last :: "code_unit \<Rightarrow> js_string \<Rightarrow> js_string" where
  "strip_last c s = (if s \<noteq> [] \<and> last s = c then butlast s else s)"

definition hostnameOf :: "url \<Rightarrow> js_string" where
  "hostnameOf u =
     (let lower = js_lower (hostname u);
          opened = (if lower \<noteq> [] \<and> hd lower = 0x5B then tl lower else lower)
      in strip_last 0x2E (strip_last 0x5D opened))"

definition assertEndpointShape ::
    "(js_string \<Rightarrow> nat) \<Rightarrow> (js_string \<Rightarrow> url option) \<Rightarrow> js_string \<Rightarrow> js_string + url" where
  "assertEndpointShape isIP parse endpoint =
     (case parse endpoint of
        None \<Rightarrow> Inl (js ''Endpoint is not a URL'')
      | Some u \<Rightarrow>
          if protocol u \<noteq> js ''https:'' then Inl (js ''Endpoint must be https'')
          else (let host = hostnameOf u
                in if host \<in> set BLOCKED_HOSTNAMES \<or> list_ex (js_ends_with host) BLOCKED_SUFFIXES
                   then Inl (js ''Internal hosts are not allowed: '' @ host)
                   else if isIP host \<noteq> 0 \<and> isPrivateAddress isIP host
                   then Inl (js ''Private or reserved addresses are not allowed: '' @ host)
                   else Inr u))"

definition assertEndpointReachable ::
    "(js_string \<Rightarrow> nat) \<Rightarrow> (js_string \<Rightarrow> url option) \<Rightarrow> (js_string \<Rightarrow> js_string list option) \<Rightarrow> js_string \<Rightarrow>
     js_string + js_string list" where
  "assertEndpointReachable isIP parse resolve endpoint =
     and_then (assertEndpointShape isIP parse endpoint) (\<lambda>u.
       let host = hostnameOf u
       in if isIP host \<noteq> 0 then Inr [host]
          else case resolve host of
            None \<Rightarrow> Inl (js ''Cannot resolve name: '' @ host)
          | Some addresses \<Rightarrow>
              if length addresses = 0 then Inl (js ''Name has no addresses: '' @ host)
              else if length (filter (isPrivateAddress isIP) addresses) > 0
              then Inl (js ''Resolves to a private or reserved address: '' @ host)
              else Inr addresses)"

section \<open>The ranges that are refused\<close>

text \<open>
  The special ranges of IPv4 as prefixes of the 32-bit number: value of the prefix and its length.
\<close>

definition SPECIAL_IPV4 :: "(nat \<times> nat) list" where
  "SPECIAL_IPV4 =
     [(0, 8), (10, 8), (127, 8), (0xA9FE, 16), (0xAC1, 12), (0xC0A8, 16), (0x191, 10), (0xC000, 16),
      (0xC05863, 24), (0x6309, 15), (0xE, 4), (0xF, 4)]"

definition public_ipv4 :: "nat \<Rightarrow> bool" where
  "public_ipv4 v \<longleftrightarrow> list_all (\<lambda>(net, n). v div 2 ^ (32 - n) \<noteq> net) SPECIAL_IPV4"

text \<open>
  A public IPv6 address: an IPv4-mapped one whose inner address is public, or one of \<open>2000::/3\<close>, without
  \<open>2001::/23\<close>, \<open>2001:db8::/32\<close> and \<open>3fff::/20\<close>, the reserved ranges that the comments of \<open>endpoint.ts\<close> name, and
  under \<open>2002::/16\<close> with a public inner address.
\<close>

definition public_ipv6 :: "nat \<Rightarrow> bool" where
  "public_ipv6 v \<longleftrightarrow>
     v div 2 ^ 32 = 0xFFFF \<and> public_ipv4 (v mod 2 ^ 32) \<or>
     v div 2 ^ 125 = 1 \<and> v div 2 ^ 105 \<noteq> 0x100080 \<and> v div 2 ^ 96 \<noteq> 0x20010DB8 \<and> v div 2 ^ 108 \<noteq> 0x3FFF0 \<and>
     (v div 2 ^ 112 = 0x2002 \<longrightarrow> public_ipv4 (v div 2 ^ 80 mod 2 ^ 32))"

text \<open>
  The code does not refuse all of \<open>2001::/23\<close>, only \<open>2001::/31\<close>. The rest of the range is reserved and
  let through.
\<close>

definition reserved_but_allowed :: "nat \<Rightarrow> bool" where
  "reserved_but_allowed v \<longleftrightarrow> v div 2 ^ 105 = 0x100080 \<and> v div 2 ^ 97 \<noteq> 0x10008000"

lemma ipv4_prefixes:
  assumes "a < 256" and "b < 256" and "c < 256" and "d < (256 :: nat)"
  defines "v \<equiv> ((a * 256 + b) * 256 + c) * 256 + d"
  shows "v div 2 ^ 24 = a" and "v div 2 ^ 16 = a * 256 + b" and "v div 2 ^ 8 = (a * 256 + b) * 256 + c"
    and "v div 2 ^ 20 = (a * 256 + b) div 16" and "v div 2 ^ 22 = (a * 256 + b) div 64"
    and "v div 2 ^ 17 = (a * 256 + b) div 2" and "v div 2 ^ 28 = a div 16"
proof -
  have d8: "v div 256 = (a * 256 + b) * 256 + c" using assms(4) by (simp add: v_def)
  have "v div 65536 = v div 256 div 256" by (simp add: div_mult2_eq [symmetric])
  then have d16: "v div 65536 = a * 256 + b" using assms(3) d8 by simp
  have "v div 16777216 = v div 65536 div 256" by (simp add: div_mult2_eq [symmetric])
  then have d24: "v div 16777216 = a" using assms(2) d16 by simp
  show "v div 2 ^ 24 = a" "v div 2 ^ 16 = a * 256 + b" "v div 2 ^ 8 = (a * 256 + b) * 256 + c"
    using d8 d16 d24 by simp_all
  have "v div 1048576 = v div 65536 div 16" "v div 4194304 = v div 65536 div 64"
    "v div 131072 = v div 65536 div 2" "v div 268435456 = v div 16777216 div 16"
    by (simp_all add: div_mult2_eq [symmetric])
  then show "v div 2 ^ 20 = (a * 256 + b) div 16" "v div 2 ^ 22 = (a * 256 + b) div 64"
    "v div 2 ^ 17 = (a * 256 + b) div 2" "v div 2 ^ 28 = a div 16"
    using d16 d24 by simp_all
qed

lemma base_inject: "x < n \<Longrightarrow> y < n \<Longrightarrow> a * n + x = b * n + y \<longleftrightarrow> a = b \<and> x = (y :: nat)"
proof -
  assume "x < n" "y < n"
  then have "(a * n + x) div n = a" "(b * n + y) div n = b" by simp_all
  then show ?thesis by (metis add_left_cancel)
qed

lemma div_is: "0 < q \<Longrightarrow> n div q = k \<longleftrightarrow> k * q \<le> n \<and> n < Suc k * (q :: nat)"
  by (metis div_less_iff_less_mult le_antisym less_Suc_eq_le less_eq_div_iff_mult_less_eq lessI order_refl)

lemma div_of_pair: "(a * 256 + b) div 16 = a * 16 + b div 16" "(a * 256 + b) div 64 = a * 4 + b div 64"
  "(a * 256 + b) div 2 = a * 128 + b div (2 :: nat)"
proof -
  have "(b + (a * m) * k) div k = a * m + b div k" if "0 < k" for m k using that by simp
  from this [of 16 16] this [of 64 4] this [of 2 128]
  show "(a * 256 + b) div 16 = a * 16 + b div 16" "(a * 256 + b) div 64 = a * 4 + b div 64"
    "(a * 256 + b) div 2 = a * 128 + b div 2" by (simp_all add: ac_simps)
qed

lemma ipv4_pairs:
  assumes "b < (256 :: nat)"
  shows "a * 256 + b = 0xA9FE \<longleftrightarrow> a = 169 \<and> b = 254" and "a * 256 + b = 0xC0A8 \<longleftrightarrow> a = 192 \<and> b = 168"
    and "a * 256 + b = 0xC000 \<longleftrightarrow> a = 192 \<and> b = 0"
    and "(a * 256 + b) div 16 = 0xAC1 \<longleftrightarrow> a = 172 \<and> 16 \<le> b \<and> b \<le> 31"
    and "(a * 256 + b) div 64 = 0x191 \<longleftrightarrow> a = 100 \<and> 64 \<le> b \<and> b \<le> 127"
    and "(a * 256 + b) div 2 = 0x6309 \<longleftrightarrow> a = 198 \<and> 18 \<le> b \<and> b \<le> 19"
proof -
  have "b div 16 < 16" "b div 64 < 4" "b div 2 < 128" using assms by auto
  note parts = base_inject [OF this(1), of 1 a 172] base_inject [OF this(2), of 1 a 100] base_inject [OF this(3), of 9 a 198]
  have "b div 16 = 1 \<longleftrightarrow> 16 \<le> b \<and> b \<le> 31" "b div 64 = 1 \<longleftrightarrow> 64 \<le> b \<and> b \<le> 127" "b div 2 = 9 \<longleftrightarrow> 18 \<le> b \<and> b \<le> 19"
    by (auto simp: div_is)
  with parts show "(a * 256 + b) div 16 = 0xAC1 \<longleftrightarrow> a = 172 \<and> 16 \<le> b \<and> b \<le> 31"
    "(a * 256 + b) div 64 = 0x191 \<longleftrightarrow> a = 100 \<and> 64 \<le> b \<and> b \<le> 127"
    "(a * 256 + b) div 2 = 0x6309 \<longleftrightarrow> a = 198 \<and> 18 \<le> b \<and> b \<le> 19"
    unfolding div_of_pair by simp_all
  show "a * 256 + b = 0xA9FE \<longleftrightarrow> a = 169 \<and> b = 254" "a * 256 + b = 0xC0A8 \<longleftrightarrow> a = 192 \<and> b = 168"
    "a * 256 + b = 0xC000 \<longleftrightarrow> a = 192 \<and> b = 0"
    using base_inject [OF assms, of 254 a 169] base_inject [OF assms, of 168 a 192] base_inject [OF assms, of 0 a 192]
    by simp_all
qed

lemma ipv4_triple:
  "b < 256 \<Longrightarrow> c < 256 \<Longrightarrow> (a * 256 + b) * 256 + c = 0xC05863 \<longleftrightarrow> a = 192 \<and> b = 88 \<and> c = (99 :: nat)"
  using base_inject [of c 256 99 "a * 256 + b" "192 * 256 + 88"] base_inject [of b 256 88 a 192] by simp

lemma ipv4_top: "a < 256 \<Longrightarrow> (224 :: nat) \<le> a \<longleftrightarrow> a div 16 = 0xE \<or> a div 16 = 0xF"
  by (auto simp: div_is)

lemma public_ipv4_iff:
  "public_ipv4 v \<longleftrightarrow>
     v div 2 ^ 24 \<noteq> 0 \<and> v div 2 ^ 24 \<noteq> 10 \<and> v div 2 ^ 24 \<noteq> 127 \<and> v div 2 ^ 16 \<noteq> 0xA9FE \<and>
     v div 2 ^ 20 \<noteq> 0xAC1 \<and> v div 2 ^ 16 \<noteq> 0xC0A8 \<and> v div 2 ^ 22 \<noteq> 0x191 \<and> v div 2 ^ 16 \<noteq> 0xC000 \<and>
     v div 2 ^ 8 \<noteq> 0xC05863 \<and> v div 2 ^ 17 \<noteq> 0x6309 \<and> \<not> (v div 2 ^ 28 = 0xE \<or> v div 2 ^ 28 = 0xF)"
  by (simp add: public_ipv4_def SPECIAL_IPV4_def)

lemma eq_bounds: "n \<le> x \<and> x \<le> n \<longleftrightarrow> x = (n :: nat)"
  by auto

lemma or_if: "(if A then True else B) \<longleftrightarrow> A \<or> B"
  by simp

lemma private_ipv4_cases:
  "isPrivateIpv4Bytes bs \<longleftrightarrow>
     unat (bs ! 0) \<in> {0, 10, 127} \<or> 224 \<le> unat (bs ! 0) \<or>
     unat (bs ! 0) = 192 \<and> unat (bs ! 1) = 88 \<and> unat (bs ! 2) = 99 \<or>
     unat (bs ! 0) = 169 \<and> unat (bs ! 1) = 254 \<or>
     unat (bs ! 0) = 172 \<and> 16 \<le> unat (bs ! 1) \<and> unat (bs ! 1) \<le> 31 \<or>
     unat (bs ! 0) = 192 \<and> unat (bs ! 1) = 168 \<or>
     unat (bs ! 0) = 100 \<and> 64 \<le> unat (bs ! 1) \<and> unat (bs ! 1) \<le> 127 \<or>
     unat (bs ! 0) = 192 \<and> unat (bs ! 1) = 0 \<or>
     unat (bs ! 0) = 198 \<and> 18 \<le> unat (bs ! 1) \<and> unat (bs ! 1) \<le> 19"
  unfolding isPrivateIpv4Bytes_def PRIVATE_IPV4_RANGES_def Let_def list_ex_iff or_if
  by (simp add: eq_bounds)

lemma private_ipv4_iff:
  assumes "length bs = 4"
  shows "isPrivateIpv4Bytes bs \<longleftrightarrow> \<not> public_ipv4 (bytes_value bs)"
proof -
  obtain w x y z where bs: "bs = [w, x, y, z]" using assms by (auto simp: numeral_eq_Suc length_Suc_conv)
  note small = byte_less [of w] byte_less [of x] byte_less [of y] byte_less [of z]
  have v: "bytes_value bs = ((unat w * 256 + unat x) * 256 + unat y) * 256 + unat z"
    by (simp add: bs bytes_value_def)
  have at: "bs ! 0 = w" "bs ! 1 = x" "bs ! 2 = y" by (simp_all add: bs)
  show ?thesis
    unfolding private_ipv4_cases at v public_ipv4_iff ipv4_prefixes [OF small] ipv4_pairs [OF small(2)]
      ipv4_triple [OF small(2,3)] ipv4_top [OF small(1)] insert_iff empty_iff
    by argo
qed

section \<open>IPv6\<close>

lemma mask_high:
  assumes "x < 2 ^ (k + m)"
  shows "and x (push_bit k (mask m)) = push_bit k (drop_bit k x :: nat)"
proof (rule bit_eqI)
  fix n
  have "take_bit (k + m) x = x" using assms by (simp add: take_bit_eq_mod)
  then have "bit x n \<Longrightarrow> n < k + m" by (metis bit_take_bit_iff)
  then show "bit (and x (push_bit k (mask m))) n \<longleftrightarrow> bit (push_bit k (drop_bit k x)) n"
    unfolding bit_and_iff bit_push_bit_iff bit_mask_iff bit_drop_bit_eq comp_apply by auto
qed

lemma byte_masks:
  "and (unat (b :: byte)) 0xE0 = 0x20 \<longleftrightarrow> unat b div 32 = 1"
  "and (unat b) 0xFE = 0 \<longleftrightarrow> unat b div 2 = 0"
  "and (unat b) 0xF0 = 0xF0 \<longleftrightarrow> unat b div 16 = 15"
proof -
  have b: "unat b < 2 ^ (5 + 3)" "unat b < 2 ^ (1 + 7)" "unat b < 2 ^ (4 + 4)" using byte_less [of b] by simp_all
  have m: "(0xE0 :: nat) = push_bit 5 (mask 3)" "(0xFE :: nat) = push_bit 1 (mask 7)" "(0xF0 :: nat) = push_bit 4 (mask 4)"
    by (simp_all add: mask_eq_exp_minus_1 push_bit_eq_mult)
  have "and (unat b) 0xE0 = unat b div 32 * 32" "and (unat b) 0xFE = unat b div 2 * 2"
    "and (unat b) 0xF0 = unat b div 16 * 16"
    unfolding m mask_high [OF b(1)] mask_high [OF b(2)] mask_high [OF b(3)]
    by (simp_all add: push_bit_eq_mult drop_bit_eq_div)
  then show "and (unat b) 0xE0 = 0x20 \<longleftrightarrow> unat b div 32 = 1" "and (unat b) 0xFE = 0 \<longleftrightarrow> unat b div 2 = 0"
    "and (unat b) 0xF0 = 0xF0 \<longleftrightarrow> unat b div 16 = 15" by simp_all
qed

lemma bytes_value_top_bits:
  "length xs = 16 \<Longrightarrow> f \<le> 16 \<Longrightarrow> bytes_value xs div 2 ^ (8 * (16 - f) + k) = bytes_value (take f xs) div 2 ^ k"
  using bytes_value_top [of xs f] by (simp add: power_add power_mult div_mult2_eq)

lemma zeros_value: "zerosUpTo bs n \<Longrightarrow> bytes_value bs = bytes_value (drop n bs)"
proof -
  have zero: "list_all (\<lambda>b. b = 0) xs \<Longrightarrow> bytes_value xs = 0" for xs
    by (induction xs) (simp_all add: bytes_value_def)
  assume "zerosUpTo bs n"
  then have "bytes_value (take n bs) = 0" unfolding zerosUpTo_def by (rule zero)
  then show ?thesis using bytes_value_append [of "take n bs" "drop n bs"] by simp
qed

lemma take_values:
  assumes "length bs = 16"
  shows "bytes_value (take 1 bs) = unat (bs ! 0)"
    and "bytes_value (take 2 bs) = unat (bs ! 0) * 256 + unat (bs ! 1)"
    and "bytes_value (take 3 bs) = (unat (bs ! 0) * 256 + unat (bs ! 1)) * 256 + unat (bs ! 2)"
    and "bytes_value (take 4 bs) = ((unat (bs ! 0) * 256 + unat (bs ! 1)) * 256 + unat (bs ! 2)) * 256 + unat (bs ! 3)"
proof -
  obtain a b c d rest where "bs = a # b # c # d # rest"
    using assms by (auto simp: numeral_eq_Suc length_Suc_conv)
  then show "bytes_value (take 1 bs) = unat (bs ! 0)"
    "bytes_value (take 2 bs) = unat (bs ! 0) * 256 + unat (bs ! 1)"
    "bytes_value (take 3 bs) = (unat (bs ! 0) * 256 + unat (bs ! 1)) * 256 + unat (bs ! 2)"
    "bytes_value (take 4 bs) = ((unat (bs ! 0) * 256 + unat (bs ! 1)) * 256 + unat (bs ! 2)) * 256 + unat (bs ! 3)"
    by (simp_all add: bytes_value_def)
qed

lemma mapped_value:
  assumes "length bs = 16" and "zerosUpTo bs 10" and "unat (bs ! 10) = 0xFF" and "unat (bs ! 11) = 0xFF"
  shows "bytes_value bs div 2 ^ 32 = 0xFFFF" and "bytes_value bs mod 2 ^ 32 = bytes_value (drop 12 bs)"
proof -
  have "drop 10 bs = [bs ! 10, bs ! 11] @ drop 12 bs"
    using assms(1) by (simp add: Cons_nth_drop_Suc [symmetric])
  then have "bytes_value bs = bytes_value ([bs ! 10, bs ! 11] @ drop 12 bs)"
    using zeros_value [OF assms(2)] by simp
  also have "\<dots> = 0xFFFF * 2 ^ 32 + bytes_value (drop 12 bs)"
    unfolding bytes_value_append using assms(1,3,4) by (simp add: bytes_value_def)
  finally have v: "bytes_value bs = 0xFFFF * 2 ^ 32 + bytes_value (drop 12 bs)" .
  have "bytes_value (drop 12 bs) < 2 ^ 32" using bytes_value_less [of "drop 12 bs"] assms(1) by simp
  then show "bytes_value bs div 2 ^ 32 = 0xFFFF" "bytes_value bs mod 2 ^ 32 = bytes_value (drop 12 bs)"
    unfolding v by (simp, simp only: mod_mult_self3 mod_less)
qed

lemma inner_value:
  assumes "length bs = 16"
  shows "bytes_value bs div 2 ^ 80 mod 2 ^ 32 = bytes_value (take 4 (drop 2 bs))"
proof -
  have "bytes_value bs div 2 ^ 80 = bytes_value (take 6 bs)"
    using bytes_value_top [of bs 6] assms by (simp add: power_mult [symmetric])
  also have "take 6 bs = take 2 bs @ take 4 (drop 2 bs)" using take_add [of 2 4 bs] by simp
  finally have "bytes_value bs div 2 ^ 80 = bytes_value (take 2 bs) * 2 ^ 32 + bytes_value (take 4 (drop 2 bs))"
    using assms by (simp add: bytes_value_append)
  moreover have "bytes_value (take 4 (drop 2 bs)) < 2 ^ 32"
    using bytes_value_less [of "take 4 (drop 2 bs)"] assms by simp
  ultimately show ?thesis by simp
qed

lemma if_chain:
  "\<not> (if A then True else if B then X else if C then True else if D then Y else if E then True else Z) \<Longrightarrow>
     B \<and> \<not> X \<or> \<not> B \<and> (D \<and> \<not> Y \<or> \<not> D \<and> \<not> E \<and> \<not> Z)"
  by (auto split: if_splits)

lemma not_reserved:
  assumes "\<not> isReservedGlobalIpv6 bs"
  shows "\<not> (unat (bs ! 0) = 0x20 \<and> unat (bs ! 1) = 1 \<and> unat (bs ! 2) = 0 \<and> unat (bs ! 3) div 2 = 0)"
    and "\<not> (unat (bs ! 0) = 0x20 \<and> unat (bs ! 1) = 1 \<and> unat (bs ! 2) = 0x0D \<and> unat (bs ! 3) = 0xB8)"
    and "\<not> (unat (bs ! 0) = 0x3F \<and> unat (bs ! 1) div 16 = 15)"
  using assms unfolding isReservedGlobalIpv6_def byte_masks by metis+

lemma special_values:
  fixes a b c d :: nat
  assumes "b < 256" and "c < 256" and "d < 256"
  shows "((a * 256 + b) * 256 + c) * 256 + d = 0x20010DB8 \<longleftrightarrow> a = 0x20 \<and> b = 1 \<and> c = 0x0D \<and> d = 0xB8"
    and "(((a * 256 + b) * 256 + c) * 256 + d) div 2 = 0x10008000 \<longleftrightarrow> a = 0x20 \<and> b = 1 \<and> c = 0 \<and> d div 2 = 0"
    and "((a * 256 + b) * 256 + c) div 16 = 0x3FFF0 \<longleftrightarrow> a = 0x3F \<and> b = 0xFF \<and> c div 16 = 0"
    and "a * 256 + b = 0x2002 \<longleftrightarrow> a = 0x20 \<and> b = 2"
    and "((a * 256 + b) * 256 + c) div 2 = 0x100080 \<longleftrightarrow> a = 0x20 \<and> b = 1 \<and> c div 2 = 0"
proof -
  have small: "c div 16 < 16" "d div 2 < 128" "c div 2 < 128" using assms by auto
  show "((a * 256 + b) * 256 + c) * 256 + d = 0x20010DB8 \<longleftrightarrow> a = 0x20 \<and> b = 1 \<and> c = 0x0D \<and> d = 0xB8"
    using base_inject [OF assms(3), of 184 "(a * 256 + b) * 256 + c" "0x20010D"]
      base_inject [OF assms(2), of 13 "a * 256 + b" "0x2001"] base_inject [OF assms(1), of 1 a 32] by simp
  show "(((a * 256 + b) * 256 + c) * 256 + d) div 2 = 0x10008000 \<longleftrightarrow> a = 0x20 \<and> b = 1 \<and> c = 0 \<and> d div 2 = 0"
    using base_inject [OF small(2), of 0 "(a * 256 + b) * 256 + c" "0x200100"]
      base_inject [OF assms(2), of 0 "a * 256 + b" "0x2001"] base_inject [OF assms(1), of 1 a 32]
    unfolding div_of_pair by simp
  show "((a * 256 + b) * 256 + c) div 16 = 0x3FFF0 \<longleftrightarrow> a = 0x3F \<and> b = 0xFF \<and> c div 16 = 0"
    using base_inject [OF small(1), of 0 "a * 256 + b" "0x3FFF"] base_inject [OF assms(1), of 255 a 63]
    unfolding div_of_pair by simp
  show "a * 256 + b = 0x2002 \<longleftrightarrow> a = 0x20 \<and> b = 2"
    using base_inject [OF assms(1), of 2 a 32] by simp
  show "((a * 256 + b) * 256 + c) div 2 = 0x100080 \<longleftrightarrow> a = 0x20 \<and> b = 1 \<and> c div 2 = 0"
    using base_inject [OF small(3), of 0 "a * 256 + b" "0x2001"] base_inject [OF assms(1), of 1 a 32]
    unfolding div_of_pair by simp
qed

lemma top_values:
  assumes len: "length bs = 16"
  shows "bytes_value bs div 2 ^ 125 = unat (bs ! 0) div 32"
    and "bytes_value bs div 2 ^ 112 = unat (bs ! 0) * 256 + unat (bs ! 1)"
    and "bytes_value bs div 2 ^ 108 = ((unat (bs ! 0) * 256 + unat (bs ! 1)) * 256 + unat (bs ! 2)) div 16"
    and "bytes_value bs div 2 ^ 105 = ((unat (bs ! 0) * 256 + unat (bs ! 1)) * 256 + unat (bs ! 2)) div 2"
    and "bytes_value bs div 2 ^ 97 =
      (((unat (bs ! 0) * 256 + unat (bs ! 1)) * 256 + unat (bs ! 2)) * 256 + unat (bs ! 3)) div 2"
    and "bytes_value bs div 2 ^ 96 =
      ((unat (bs ! 0) * 256 + unat (bs ! 1)) * 256 + unat (bs ! 2)) * 256 + unat (bs ! 3)"
proof -
  show "bytes_value bs div 2 ^ 125 = unat (bs ! 0) div 32"
    using bytes_value_top_bits [OF len, of 1 5] unfolding take_values [OF len] by simp
  show "bytes_value bs div 2 ^ 112 = unat (bs ! 0) * 256 + unat (bs ! 1)"
    using bytes_value_top_bits [OF len, of 2 0] unfolding take_values [OF len] by simp
  show "bytes_value bs div 2 ^ 108 = ((unat (bs ! 0) * 256 + unat (bs ! 1)) * 256 + unat (bs ! 2)) div 16"
    using bytes_value_top_bits [OF len, of 3 4] unfolding take_values [OF len] by simp
  show "bytes_value bs div 2 ^ 105 = ((unat (bs ! 0) * 256 + unat (bs ! 1)) * 256 + unat (bs ! 2)) div 2"
    using bytes_value_top_bits [OF len, of 3 1] unfolding take_values [OF len] by simp
  show "bytes_value bs div 2 ^ 97 =
      (((unat (bs ! 0) * 256 + unat (bs ! 1)) * 256 + unat (bs ! 2)) * 256 + unat (bs ! 3)) div 2"
    using bytes_value_top_bits [OF len, of 4 1] unfolding take_values [OF len] by simp
  show "bytes_value bs div 2 ^ 96 =
      ((unat (bs ! 0) * 256 + unat (bs ! 1)) * 256 + unat (bs ! 2)) * 256 + unat (bs ! 3)"
    using bytes_value_top_bits [OF len, of 4 0] unfolding take_values [OF len] by simp
qed

lemma public_ipv6_iff:
  assumes len: "length bs = 16"
  shows "public_ipv6 (bytes_value bs) \<longleftrightarrow>
     bytes_value bs div 2 ^ 32 = 0xFFFF \<and> public_ipv4 (bytes_value bs mod 2 ^ 32) \<or>
     unat (bs ! 0) div 32 = 1 \<and>
     \<not> (unat (bs ! 0) = 0x20 \<and> unat (bs ! 1) = 1 \<and> unat (bs ! 2) div 2 = 0) \<and>
     \<not> (unat (bs ! 0) = 0x20 \<and> unat (bs ! 1) = 1 \<and> unat (bs ! 2) = 0x0D \<and> unat (bs ! 3) = 0xB8) \<and>
     \<not> (unat (bs ! 0) = 0x3F \<and> unat (bs ! 1) = 0xFF \<and> unat (bs ! 2) div 16 = 0) \<and>
     (unat (bs ! 0) = 0x20 \<and> unat (bs ! 1) = 2 \<longrightarrow> public_ipv4 (bytes_value (take 4 (drop 2 bs))))"
  unfolding public_ipv6_def inner_value [OF len] top_values [OF len]
    special_values [OF byte_less [of "bs ! 1"] byte_less [of "bs ! 2"] byte_less [of "bs ! 3"]]
  by blast

lemma reserved_but_allowed_iff:
  assumes len: "length bs = 16"
  shows "reserved_but_allowed (bytes_value bs) \<longleftrightarrow>
     unat (bs ! 0) = 0x20 \<and> unat (bs ! 1) = 1 \<and> unat (bs ! 2) div 2 = 0 \<and>
     \<not> (unat (bs ! 2) = 0 \<and> unat (bs ! 3) div 2 = 0)"
  unfolding reserved_but_allowed_def top_values [OF len]
    special_values [OF byte_less [of "bs ! 1"] byte_less [of "bs ! 2"] byte_less [of "bs ! 3"]]
  by blast

lemma reserved_but_allowed_passes:
  assumes len: "length bs = 16" and gap: "reserved_but_allowed (bytes_value bs)"
  shows "\<not> isPrivateIpv6Bytes bs"
proof -
  have bs: "unat (bs ! 0) = 0x20" "unat (bs ! 1) = 1" "unat (bs ! 2) div 2 = 0"
    "\<not> (unat (bs ! 2) = 0 \<and> unat (bs ! 3) div 2 = 0)"
    using gap unfolding reserved_but_allowed_iff [OF len] by blast+
  then have "bs ! 0 \<noteq> 0" by auto
  then have "\<not> zerosUpTo bs n" if "0 < n" for n
    using that len by (cases bs; cases n) (auto simp: zerosUpTo_def)
  moreover have "\<not> isReservedGlobalIpv6 bs"
    using bs unfolding isReservedGlobalIpv6_def byte_masks by auto
  moreover have "and (unat (bs ! 0)) 0xE0 = (0x20 :: nat)" by (simp add: bs(1))
  ultimately show ?thesis using bs(1,2) unfolding isPrivateIpv6Bytes_def by simp
qed

lemma not_private_ipv6:
  assumes len: "length bs = 16" and pass: "\<not> isPrivateIpv6Bytes bs"
  shows "public_ipv6 (bytes_value bs) \<or> reserved_but_allowed (bytes_value bs)"
proof -
  let ?a = "unat (bs ! 0)" and ?b = "unat (bs ! 1)"
  from if_chain [OF pass [unfolded isPrivateIpv6Bytes_def]]
  consider (mapped) "zerosUpTo bs 10 \<and> unat (bs ! 10) = 0xFF \<and> unat (bs ! 11) = 0xFF" "\<not> isPrivateIpv4Bytes (drop 12 bs)"
    | (relay) "?a = 0x20" "?b = 0x02" "\<not> isPrivateIpv4Bytes (take 4 (drop 2 bs))"
    | (unicast) "\<not> (?a = 0x20 \<and> ?b = 0x02)" "and ?a 0xE0 = 0x20" "\<not> isReservedGlobalIpv6 bs"
    by blast
  then show ?thesis
  proof cases
    case mapped
    then have "public_ipv4 (bytes_value (drop 12 bs))"
      using private_ipv4_iff [of "drop 12 bs"] len by simp
    then show ?thesis
      unfolding public_ipv6_def using mapped_value [OF len] mapped(1) by simp
  next
    case relay
    then have "public_ipv4 (bytes_value (take 4 (drop 2 bs)))"
      using private_ipv4_iff [of "take 4 (drop 2 bs)"] len by simp
    then show ?thesis unfolding public_ipv6_iff [OF len] relay(1,2) by simp
  next
    case unicast
    have "?a div 32 = 1" using unicast(2) by (simp only: byte_masks)
    moreover have "\<not> (?a = 0x3F \<and> ?b = 0xFF \<and> unat (bs ! 2) div 16 = 0)"
      using not_reserved(3) [OF unicast(3)] by auto
    ultimately show ?thesis
      unfolding public_ipv6_iff [OF len] reserved_but_allowed_iff [OF len]
      using not_reserved(1,2) [OF unicast(3)] unicast(1) by blast
  qed
qed

section \<open>Only public addresses are called\<close>

definition public_address :: "(js_string \<Rightarrow> nat) \<Rightarrow> js_string \<Rightarrow> bool" where
  "public_address isIP address \<longleftrightarrow>
     (if isIP address = 4
      then (case ipv4ToBytes address of None \<Rightarrow> False | Some bs \<Rightarrow> public_ipv4 (bytes_value bs))
      else isIP address = 6 \<and>
           (case ipv6ToBytes address of None \<Rightarrow> False | Some bs \<Rightarrow> public_ipv6 (bytes_value bs)))"

definition let_through :: "(js_string \<Rightarrow> nat) \<Rightarrow> js_string \<Rightarrow> bool" where
  "let_through isIP address \<longleftrightarrow>
     isIP address = 6 \<and> (case ipv6ToBytes address of None \<Rightarrow> False | Some bs \<Rightarrow> reserved_but_allowed (bytes_value bs))"

lemma not_private_public: "\<not> isPrivateAddress isIP a \<Longrightarrow> public_address isIP a \<or> let_through isIP a"
  using not_private_ipv6 ipv6_length
  by (auto simp: isPrivateAddress_def public_address_def let_through_def isPrivateIpv4_def isPrivateIpv6_def
      private_ipv4_iff [OF ipv4_length] split: if_splits option.splits)

lemma let_through_passes: "let_through isIP a \<Longrightarrow> \<not> isPrivateAddress isIP a"
  using reserved_but_allowed_passes ipv6_length
  by (auto simp: isPrivateAddress_def let_through_def isPrivateIpv6_def split: option.splits)

text \<open>
  C22. When the check before a call passes, the endpoint is an https URL whose host is no internal name, the
  addresses to connect to are not empty, each of them parses, and each, in whatever notation, mapped or
  through a 6to4 relay, lies outside the special ranges that the code names, or else in that part of
  \<open>2001::/23\<close> which it names and does not refuse - with a literal host, that host itself; with a name, exactly
  what the resolver gave. One private address among several refuses the name. The exception is real:
  every address of that part passes as not private. (The ranges for documentation of IPv4,
  \<open>198.51.100.0/24\<close> and \<open>203.0.113.0/24\<close>, are not named by the code and count as public here.)
\<close>

theorem endpoint_reaches_public_only:
  "(assertEndpointReachable isIP parse resolve endpoint = Inr addresses \<longrightarrow>
      addresses \<noteq> [] \<and> (\<forall>a \<in> set addresses. public_address isIP a \<or> let_through isIP a) \<and>
      (\<exists>u. parse endpoint = Some u \<and> protocol u = js ''https:'' \<and> hostnameOf u \<notin> set BLOCKED_HOSTNAMES \<and>
         (\<forall>suffix \<in> set BLOCKED_SUFFIXES. \<not> js_ends_with (hostnameOf u) suffix) \<and>
         (if isIP (hostnameOf u) \<noteq> 0 then addresses = [hostnameOf u]
          else resolve (hostnameOf u) = Some addresses))) \<and>
   (parse endpoint = Some u \<and> isIP (hostnameOf u) = 0 \<and> resolve (hostnameOf u) = Some found \<and>
      (\<exists>a \<in> set found. isPrivateAddress isIP a) \<longrightarrow>
    (\<exists>e. assertEndpointReachable isIP parse resolve endpoint = Inl e)) \<and>
   (let_through isIP a \<longrightarrow> \<not> isPrivateAddress isIP a)"
proof (intro conjI impI)
  assume "assertEndpointReachable isIP parse resolve endpoint = Inr addresses"
  then obtain u where shape: "assertEndpointShape isIP parse endpoint = Inr u"
    and rest: "(if isIP (hostnameOf u) \<noteq> 0 then Inr [hostnameOf u]
          else case resolve (hostnameOf u) of
            None \<Rightarrow> Inl (js ''Cannot resolve name: '' @ hostnameOf u)
          | Some addresses \<Rightarrow>
              if length addresses = 0 then Inl (js ''Name has no addresses: '' @ hostnameOf u)
              else if length (filter (isPrivateAddress isIP) addresses) > 0
              then Inl (js ''Resolves to a private or reserved address: '' @ hostnameOf u)
              else Inr addresses) = Inr addresses"
    by (auto simp: assertEndpointReachable_def and_then_eq_Inr_iff Let_def)
  from shape have u: "parse endpoint = Some u" "protocol u = js ''https:''" "hostnameOf u \<notin> set BLOCKED_HOSTNAMES"
    "\<forall>suffix \<in> set BLOCKED_SUFFIXES. \<not> js_ends_with (hostnameOf u) suffix"
    "isIP (hostnameOf u) \<noteq> 0 \<Longrightarrow> \<not> isPrivateAddress isIP (hostnameOf u)"
    by (auto simp: assertEndpointShape_def Let_def list_ex_iff split: option.splits if_splits)
  from rest have addresses: "if isIP (hostnameOf u) \<noteq> 0 then addresses = [hostnameOf u]
      else resolve (hostnameOf u) = Some addresses \<and> addresses \<noteq> [] \<and> filter (isPrivateAddress isIP) addresses = []"
    by (auto split: if_splits option.splits)
  then have "\<forall>a \<in> set addresses. \<not> isPrivateAddress isIP a" and "addresses \<noteq> []"
    using u(5) by (auto simp: filter_empty_conv split: if_splits)
  then show "addresses \<noteq> []" "\<forall>a \<in> set addresses. public_address isIP a \<or> let_through isIP a"
    using not_private_public by blast+
  show "\<exists>u. parse endpoint = Some u \<and> protocol u = js ''https:'' \<and> hostnameOf u \<notin> set BLOCKED_HOSTNAMES \<and>
         (\<forall>suffix \<in> set BLOCKED_SUFFIXES. \<not> js_ends_with (hostnameOf u) suffix) \<and>
         (if isIP (hostnameOf u) \<noteq> 0 then addresses = [hostnameOf u]
          else resolve (hostnameOf u) = Some addresses)"
    using u(1-4) addresses by (intro exI [of _ u]) (simp split: if_splits)
next
  assume "parse endpoint = Some u \<and> isIP (hostnameOf u) = 0 \<and> resolve (hostnameOf u) = Some found \<and>
      (\<exists>a \<in> set found. isPrivateAddress isIP a)"
  moreover then have "filter (isPrivateAddress isIP) found \<noteq> []" by (auto simp: filter_empty_conv)
  ultimately show "\<exists>e. assertEndpointReachable isIP parse resolve endpoint = Inl e"
    by (auto simp: assertEndpointReachable_def assertEndpointShape_def Let_def)
qed (rule let_through_passes)

theorem endpoint_reaches_public_only_witness:
  "\<exists>addresses. assertEndpointReachable (\<lambda>_. 4) (\<lambda>_. Some \<lparr>protocol = js ''https:'', hostname = js ''8.8.4.4''\<rparr>)
     (\<lambda>_. None) (js ''https://8.8.4.4/'') = Inr addresses \<and> addresses \<noteq> [] \<and>
     (\<forall>a \<in> set addresses. public_address (\<lambda>_. 4) a \<or> let_through (\<lambda>_. 4) a)"
proof -
  let ?u = "\<lparr>protocol = js ''https:'', hostname = js ''8.8.4.4''\<rparr>"
  have host: "hostnameOf ?u = js ''8.8.4.4''"
    by (simp add: hostnameOf_def js_lower_def strip_last_def js_def Let_def)
  have "ipv4ToBytes (js ''8.8.4.4'') = Some [8, 8, 4, 4]"
    by (simp add: ipv4ToBytes_def js_def octet_text_def decimal_value_def js_digit_def Let_def)
  then have public: "\<not> isPrivateAddress (\<lambda>_. 4) (js ''8.8.4.4'')"
    by (simp add: isPrivateAddress_def isPrivateIpv4_def isPrivateIpv4Bytes_def PRIVATE_IPV4_RANGES_def)
  have "\<not> list_ex (js_ends_with (js ''8.8.4.4'')) BLOCKED_SUFFIXES"
    by (simp add: BLOCKED_SUFFIXES_def js_ends_with_def js_def)
  then have "assertEndpointReachable (\<lambda>_. 4) (\<lambda>_. Some ?u) (\<lambda>_. None) (js ''https://8.8.4.4/'') = Inr [js ''8.8.4.4'']"
    by (simp add: assertEndpointReachable_def assertEndpointShape_def host public BLOCKED_HOSTNAMES_def Let_def)
  with endpoint_reaches_public_only show ?thesis by blast
qed

text \<open>
  The ranges inside \<open>2000::/3\<close> that the check covers are not the ones its comments name: of \<open>2001::/23\<close> only
  \<open>2001::/31\<close> is refused, so \<open>2001:2::1\<close>, a benchmarking address, passes; and instead of \<open>3fff::/20\<close> all of
  \<open>3ff0::/12\<close> is refused.
\<close>

lemma reserved_ranges_differ:
  "\<not> isPrivateIpv6Bytes [0x20, 0x01, 0, 0x02, 0, 0, 0, 0, 0, 0, 0, 0, 0, 0, 0, 1]"
  "isPrivateIpv6Bytes [0x3F, 0xF0, 0, 0, 0, 0, 0, 0, 0, 0, 0, 0, 0, 0, 0, 1]"
  by (simp_all add: isPrivateIpv6Bytes_def zerosUpTo_def isReservedGlobalIpv6_def)

end
