(* ===== verification/Anchor_State.thy ===== *)
theory Anchor_State
  imports Machines Chains
begin

text \<open>
  The pure core of the anchor worker (\<open>apps/anchor-worker/src/anchor-state.ts\<close>): the next state of a
  chain transaction from what the node shows, and the check before a send. Block numbers and
  milliseconds are integers, amounts of wei are \<open>bigint\<close>s. The states are those of the domain's
  transition table.
\<close>

section \<open>Following a transaction\<close>

datatype receipt_status = Receipt_success | Receipt_reverted

record root_submission =
  emittedBy :: js_string
  submittedBatch :: js_string
  submittedRoot :: js_string

record receipt =
  receiptStatus :: receipt_status
  receiptBlock :: int
  receiptHash :: js_string
  gasUsed :: int
  effectiveGasPrice :: int
  l1Fee :: int
  rootSubmissions :: "root_submission list"

datatype observation = Obs_pending | Obs_receipt receipt | Obs_unknown

record track_input =
  trackedState :: chain_tx_state
  recordedBlockNumber :: "int option"
  recordedBlockHash :: "js_string option"
  observed :: observation
  headBlockNumber :: int
  confirmationDepth :: int
  finalizedBlockNumber :: "int option"
  elapsedSinceSubmitMs :: int
  dropTimeoutMs :: int

record track_result =
  nextState :: chain_tx_state
  confirmations :: int
  blockNumber :: "int option"
  blockHash :: "js_string option"
  reorged :: bool
  trackReason :: js_string

definition confirmationsOf :: "int \<Rightarrow> int \<Rightarrow> int" where
  "confirmationsOf block head = max 0 (head - block + 1)"

definition keep :: "track_input \<Rightarrow> js_string \<Rightarrow> track_result" where
  "keep i why =
     \<lparr>nextState = trackedState i, confirmations = 0, blockNumber = recordedBlockNumber i,
      blockHash = recordedBlockHash i, reorged = False, trackReason = why\<rparr>"

definition track_receipt :: "track_input \<Rightarrow> receipt \<Rightarrow> track_result" where
  "track_receipt i r =
     (if receiptStatus r = Receipt_reverted
      then \<lparr>nextState = Tx_reverted, confirmations = 0, blockNumber = Some (receiptBlock r),
            blockHash = Some (receiptHash r), reorged = False, trackReason = js ''execution_reverted''\<rparr>
      else
        (let moved = recordedBlockHash i \<noteq> None \<and> recordedBlockHash i \<noteq> Some (receiptHash r);
             n = confirmationsOf (receiptBlock r) (headBlockNumber i);
             deepEnough = n \<ge> confirmationDepth i;
             final = (case finalizedBlockNumber i of None \<Rightarrow> True | Some f \<Rightarrow> receiptBlock r \<le> f);
             confirmed = (deepEnough \<and> final)
         in \<lparr>nextState = (if confirmed then Tx_confirmed else Tx_included), confirmations = n,
             blockNumber = Some (receiptBlock r), blockHash = Some (receiptHash r), reorged = moved,
             trackReason =
               (if moved then js ''reorg_reobserved'' else if confirmed then js ''confirmed''
                else if deepEnough then js ''awaiting_finality'' else js ''included'')\<rparr>))"

definition trackTransaction :: "track_input \<Rightarrow> track_result" where
  "trackTransaction i =
     (if trackedState i \<in> {Tx_reverted, Tx_replaced, Tx_dropped, Tx_failed} then keep i (js ''terminal'')
      else case observed i of
        Obs_receipt r \<Rightarrow> track_receipt i r
      | Obs_unknown \<Rightarrow>
          if trackedState i = Tx_confirmed \<or> trackedState i = Tx_included
          then \<lparr>nextState = Tx_reconciliation_required, confirmations = 0, blockNumber = None, blockHash = None,
                reorged = True, trackReason = js ''observed_block_disappeared''\<rparr>
          else if elapsedSinceSubmitMs i \<ge> dropTimeoutMs i
          then \<lparr>nextState = Tx_dropped, confirmations = 0, blockNumber = None, blockHash = None,
                reorged = False, trackReason = js ''not_found_after_timeout''\<rparr>
          else keep i (js ''not_found_yet'')
      | Obs_pending \<Rightarrow>
          if trackedState i = Tx_confirmed \<or> trackedState i = Tx_included
          then \<lparr>nextState = Tx_submitted, confirmations = 0, blockNumber = None, blockHash = None,
                reorged = True, trackReason = js ''returned_to_mempool''\<rparr>
          else keep i (js ''pending''))"

section \<open>The check before a send\<close>

record submit_input =
  submitChain :: int
  maxFeePerGas :: int
  feeCapWei :: int
  sendAttempts :: int
  maxAttempts :: int
  eoaAllowedChainIds :: "int list"
  safeAddress :: "js_string option"
  dailySpendCapWei :: int
  alreadySpentWei :: int
  inFlightMaxWei :: int
  gasLimit :: int
  l1FeeBoundWei :: int
  retryReservationWei :: "int option"

datatype submit_guard = Via_eoa | Via_safe_proposal | Submit_refused js_string

datatype submit_phase = Preflight | Broadcast

definition eoaSubmissionAllowed :: "int \<Rightarrow> int list \<Rightarrow> bool" where
  "eoaSubmissionAllowed chain allowed \<longleftrightarrow> isEoaAnchorEligibleChainId chain \<and> chain \<in> set allowed"

definition js_integer :: "int \<Rightarrow> js_string" where
  "js_integer v = (if v < 0 then [0x2D] @ js_decimal (nat (- v)) else js_decimal (nat v))"

definition projectedWei :: "submit_input \<Rightarrow> int" where
  "projectedWei i =
     alreadySpentWei i + inFlightMaxWei i +
     gasLimit i * (if maxFeePerGas i < feeCapWei i then maxFeePerGas i else feeCapWei i) + l1FeeBoundWei i"

definition checkSubmitAllowed :: "submit_input \<Rightarrow> submit_phase \<Rightarrow> submit_guard" where
  "checkSubmitAllowed i phase =
     (if \<not> eoaSubmissionAllowed (submitChain i) (eoaAllowedChainIds i)
      then (if safeAddress i \<noteq> None \<and> safeAddress i \<noteq> Some [] then Via_safe_proposal
            else Submit_refused (js ''EOA_SUBMISSION_NOT_ALLOWED_ON_CHAIN_'' @ js_integer (submitChain i)))
      else if projectedWei i > dailySpendCapWei i then Submit_refused (js ''DAILY_SPEND_CAP_REACHED'')
      else if maxFeePerGas i > feeCapWei i then Submit_refused (js ''FEE_ABOVE_CAP'')
      else if sendAttempts i \<ge> maxAttempts i then Submit_refused (js ''MAX_ATTEMPTS_REACHED'')
      else
        (let candidate = gasLimit i * feeCapWei i + l1FeeBoundWei i;
             existing = (case retryReservationWei i of None \<Rightarrow> 0 | Some w \<Rightarrow> w);
             extra = (if existing < candidate then candidate - existing else 0)
         in if phase = Broadcast \<and> l1FeeBoundWei i > 0 \<and>
               alreadySpentWei i + inFlightMaxWei i + candidate + extra > dailySpendCapWei i
            then Submit_refused (js ''DAILY_SPEND_CAP_TOO_LOW_FOR_RETRY'')
            else Via_eoa))"

section \<open>What tracking promises\<close>

lemmas track_defs = trackTransaction_def track_receipt_def keep_def Let_def

text \<open>
  A transaction counts as confirmed exactly when its receipt is a success in a block that is deep enough
  and at or below the finalized head, and it was not given up before. Confirmation is never kept
  without such a receipt: a block that vanishes takes it back.
\<close>

theorem confirmed_needs_depth_and_finality:
  "nextState (trackTransaction i) = Tx_confirmed \<longleftrightarrow>
     trackedState i \<notin> {Tx_reverted, Tx_replaced, Tx_dropped, Tx_failed} \<and>
     (\<exists>r. observed i = Obs_receipt r \<and> receiptStatus r = Receipt_success \<and>
        confirmationsOf (receiptBlock r) (headBlockNumber i) \<ge> confirmationDepth i \<and>
        (case finalizedBlockNumber i of None \<Rightarrow> True | Some f \<Rightarrow> receiptBlock r \<le> f))"
proof (cases "observed i")
  case Obs_pending
  then show ?thesis by (auto simp: track_defs)
next
  case (Obs_receipt r)
  then show ?thesis
    by (cases "receiptStatus r"; cases "finalizedBlockNumber i") (auto simp: track_defs)
next
  case Obs_unknown
  then show ?thesis by (auto simp: track_defs)
qed

text \<open>
  C36. What tracking does with every transaction. One that was given up (reverted, replaced, dropped or failed)
  is left as it is, whatever the node shows. One on its way stays in its state or makes a move of the
  transition table of the domain. A reorganization is reported exactly when a transaction not given up is
  mined, with success, in another block than the recorded one, or was mined and has no receipt any more, and
  then the result never keeps the recorded block. A receipt that reverted makes the transaction reverted
  in the block of the receipt, and that is never reported, another block or not.
\<close>

theorem tracking_follows_the_table:
  "(trackedState i \<in> {Tx_reverted, Tx_replaced, Tx_dropped, Tx_failed} \<longrightarrow>
      nextState (trackTransaction i) = trackedState i \<and> \<not> reorged (trackTransaction i) \<and>
      blockNumber (trackTransaction i) = recordedBlockNumber i \<and>
      blockHash (trackTransaction i) = recordedBlockHash i) \<and>
   (trackedState i \<in> {Tx_submitted, Tx_included, Tx_confirmed} \<longrightarrow>
      nextState (trackTransaction i) = trackedState i \<or>
      canTransition chainTransactionMachine (trackedState i) (nextState (trackTransaction i))) \<and>
   (reorged (trackTransaction i) \<longleftrightarrow>
      trackedState i \<notin> {Tx_reverted, Tx_replaced, Tx_dropped, Tx_failed} \<and>
      (case observed i of
         Obs_receipt r \<Rightarrow> receiptStatus r = Receipt_success \<and>
           recordedBlockHash i \<noteq> None \<and> recordedBlockHash i \<noteq> Some (receiptHash r)
       | _ \<Rightarrow> trackedState i \<in> {Tx_included, Tx_confirmed})) \<and>
   (reorged (trackTransaction i) \<and> recordedBlockHash i \<noteq> None \<longrightarrow>
      blockHash (trackTransaction i) \<noteq> recordedBlockHash i) \<and>
   (\<forall>r. observed i = Obs_receipt r \<and> receiptStatus r = Receipt_reverted \<and>
        trackedState i \<notin> {Tx_reverted, Tx_replaced, Tx_dropped, Tx_failed} \<longrightarrow>
      nextState (trackTransaction i) = Tx_reverted \<and> blockHash (trackTransaction i) = Some (receiptHash r) \<and>
      \<not> reorged (trackTransaction i))"
proof -
  have table: "canTransition chainTransactionMachine Tx_submitted t \<longleftrightarrow>
      t \<in> {Tx_included, Tx_confirmed, Tx_reverted, Tx_replaced, Tx_dropped, Tx_failed, Tx_reconciliation_required}"
    "canTransition chainTransactionMachine Tx_included t \<longleftrightarrow>
      t \<in> {Tx_confirmed, Tx_submitted, Tx_reverted, Tx_reorged, Tx_replaced, Tx_failed, Tx_reconciliation_required}"
    "canTransition chainTransactionMachine Tx_confirmed t \<longleftrightarrow>
      t \<in> {Tx_included, Tx_submitted, Tx_reverted, Tx_reorged, Tx_failed, Tx_reconciliation_required}" for t
    by (simp_all add: canTransition_def targets_def chainTransactionMachine_def)
  show ?thesis
  proof (cases "observed i")
    case Obs_pending
    then show ?thesis by (auto simp: track_defs table)
  next
    case (Obs_receipt r)
    then show ?thesis by (cases "receiptStatus r") (auto simp: track_defs table)
  next
    case Obs_unknown
    then show ?thesis by (auto simp: track_defs table)
  qed
qed

definition sample_tracking :: track_input where
  "sample_tracking =
     \<lparr>trackedState = Tx_confirmed, recordedBlockNumber = Some 10, recordedBlockHash = Some (js ''0xaa''),
      observed = Obs_unknown, headBlockNumber = 30, confirmationDepth = 12, finalizedBlockNumber = None,
      elapsedSinceSubmitMs = 0, dropTimeoutMs = 60000\<rparr>"

theorem tracking_follows_the_table_witness:
  "canTransition chainTransactionMachine Tx_confirmed (nextState (trackTransaction sample_tracking)) \<and>
   reorged (trackTransaction sample_tracking) \<and> blockHash (trackTransaction sample_tracking) \<noteq> Some (js ''0xaa'') \<and>
   nextState (trackTransaction (sample_tracking\<lparr>trackedState := Tx_dropped\<rparr>)) = Tx_dropped"
  using tracking_follows_the_table [of sample_tracking]
    tracking_follows_the_table [of "sample_tracking\<lparr>trackedState := Tx_dropped\<rparr>"]
  by (simp add: sample_tracking_def trackTransaction_def)

section \<open>What a send may cost\<close>

lemma admitted_within_cap:
  assumes "checkSubmitAllowed i phase = Via_eoa"
  shows "alreadySpentWei i + inFlightMaxWei i + gasLimit i * maxFeePerGas i + l1FeeBoundWei i \<le> dailySpendCapWei i"
    and "maxFeePerGas i \<le> feeCapWei i" and "sendAttempts i < maxAttempts i"
    and "isEoaAnchorEligibleChainId (submitChain i)" and "submitChain i \<in> set (eoaAllowedChainIds i)"
  using assms by (auto simp: checkSubmitAllowed_def eoaSubmissionAllowed_def projectedWei_def Let_def split: if_splits)

text \<open>
  C37. The worker signs alone only on a chain that is eligible and opted in, never on the main network, with a
  fee at most the cap, attempts left, and room in the daily budget for everything spent, everything
  in flight and this send at its signed ceiling; everywhere else it proposes to the Safe or stops, and
  running out of budget is reported before a high fee.
\<close>

theorem lone_signature_is_bounded:
  "(checkSubmitAllowed i phase = Via_eoa \<longrightarrow>
      submitChain i \<noteq> BSC_MAINNET_CHAIN_ID \<and> submitChain i \<in> set (eoaAllowedChainIds i) \<and>
      maxFeePerGas i \<le> feeCapWei i \<and> sendAttempts i < maxAttempts i \<and>
      alreadySpentWei i + inFlightMaxWei i + gasLimit i * maxFeePerGas i + l1FeeBoundWei i \<le> dailySpendCapWei i) \<and>
   (checkSubmitAllowed i phase = Submit_refused (js ''FEE_ABOVE_CAP'') \<longrightarrow> projectedWei i \<le> dailySpendCapWei i) \<and>
   (checkSubmitAllowed i phase = Via_safe_proposal \<longleftrightarrow>
      \<not> eoaSubmissionAllowed (submitChain i) (eoaAllowedChainIds i) \<and>
      (\<exists>address. safeAddress i = Some address \<and> address \<noteq> []))"
proof (intro conjI)
  have "checkSubmitAllowed i phase = Via_eoa \<Longrightarrow> submitChain i \<noteq> BSC_MAINNET_CHAIN_ID"
    using admitted_within_cap(4) [of i phase]
    by (auto simp: isEoaAnchorEligibleChainId_def EOA_ANCHOR_ELIGIBLE_CHAIN_IDS_def chain_ids)
  then show "checkSubmitAllowed i phase = Via_eoa \<longrightarrow>
     submitChain i \<noteq> BSC_MAINNET_CHAIN_ID \<and> submitChain i \<in> set (eoaAllowedChainIds i) \<and>
     maxFeePerGas i \<le> feeCapWei i \<and> sendAttempts i < maxAttempts i \<and>
     alreadySpentWei i + inFlightMaxWei i + gasLimit i * maxFeePerGas i + l1FeeBoundWei i \<le> dailySpendCapWei i"
    using admitted_within_cap [of i phase] by blast
  show "checkSubmitAllowed i phase = Submit_refused (js ''FEE_ABOVE_CAP'') \<longrightarrow> projectedWei i \<le> dailySpendCapWei i"
    by (auto simp: checkSubmitAllowed_def js_append [symmetric] Let_def js_def split: if_splits)
  show "checkSubmitAllowed i phase = Via_safe_proposal \<longleftrightarrow>
     \<not> eoaSubmissionAllowed (submitChain i) (eoaAllowedChainIds i) \<and>
     (\<exists>address. safeAddress i = Some address \<and> address \<noteq> [])"
    by (auto simp: checkSubmitAllowed_def Let_def)
qed

definition sample_submission :: submit_input where
  "sample_submission =
     \<lparr>submitChain = 5611, maxFeePerGas = 2, feeCapWei = 3, sendAttempts = 0, maxAttempts = 5,
      eoaAllowedChainIds = [5611], safeAddress = None, dailySpendCapWei = 1000, alreadySpentWei = 100,
      inFlightMaxWei = 50, gasLimit = 100, l1FeeBoundWei = 7, retryReservationWei = None\<rparr>"

theorem lone_signature_is_bounded_witness:
  "checkSubmitAllowed sample_submission Broadcast = Via_eoa \<and>
   100 + 50 + 100 * 2 + 7 \<le> dailySpendCapWei sample_submission \<and> submitChain sample_submission \<noteq> BSC_MAINNET_CHAIN_ID"
proof -
  have "checkSubmitAllowed sample_submission Broadcast = Via_eoa"
    by (simp add: sample_submission_def checkSubmitAllowed_def eoaSubmissionAllowed_def projectedWei_def
        isEoaAnchorEligibleChainId_def EOA_ANCHOR_ELIGIBLE_CHAIN_IDS_def chain_ids)
  with lone_signature_is_bounded [of sample_submission Broadcast] show ?thesis
    by (simp add: sample_submission_def)
qed

end
