(* ===== verification/Anchor_Ledger.thy ===== *)
theory Anchor_Ledger
  imports Anchor_State
begin

text \<open>
  The two ledgers behind the daily budget (\<open>apps/anchor-worker/src/anchor-submitter.ts\<close>): \<open>chain.anchor_sends\<close>
  holds every send from before its broadcast until it is settled, \<open>chain.gas_spend\<close> what mined transactions
  cost. Rows are of one chain, the one of the worker. A row without a gas limit, from before limits were
  fixed, is priced at the block gas limit. Days are numbered. The day of a row is the one on which its
  transaction began.
\<close>

section \<open>The ledgers\<close>

record send_row =
  sendHash :: js_string
  sendTransaction :: js_string
  sendSigner :: "js_string option"
  sendNonce :: "nat option"
  sendGasLimit :: "int option"
  sendMaxFee :: "int option"
  sendL1Bound :: int
  settledReason :: "js_string option"

record spend_row =
  spendHash :: js_string
  spendGas :: int
  spendPrice :: int
  spendL1 :: int
  spendDay :: nat

record ledgers =
  anchor_sends :: "send_row list"
  gas_spend :: "spend_row list"

definition cost :: "spend_row \<Rightarrow> int" where
  "cost g = spendGas g * spendPrice g + spendL1 g"

definition spentTodayWei :: "nat \<Rightarrow> ledgers \<Rightarrow> int" where
  "spentTodayWei today l = sum_list (map cost (filter (\<lambda>g. spendDay g \<ge> today) (gas_spend l)))"

definition open_send :: "ledgers \<Rightarrow> send_row \<Rightarrow> bool" where
  "open_send l s \<longleftrightarrow> settledReason s = None \<and> \<not> list_ex (\<lambda>g. spendHash g = sendHash s) (gas_spend l)"

definition bounded_wei :: "int \<Rightarrow> send_row \<Rightarrow> int" where
  "bounded_wei feeCap s =
     (case sendGasLimit s of
        None \<Rightarrow> 0
      | Some limit \<Rightarrow> limit * (case sendMaxFee s of None \<Rightarrow> feeCap | Some fee \<Rightarrow> fee) + sendL1Bound s)"

record in_flight =
  boundedWei :: int
  unbounded :: nat

definition inFlightSends :: "int \<Rightarrow> ledgers \<Rightarrow> in_flight" where
  "inFlightSends feeCap l =
     (let sends = filter (open_send l) (anchor_sends l)
      in \<lparr>boundedWei = sum_list (map (bounded_wei feeCap) (filter (\<lambda>s. sendGasLimit s \<noteq> None) sends)),
          unbounded = length (filter (\<lambda>s. sendGasLimit s = None) sends)\<rparr>)"

text \<open>What the worker adds to the bounded part: \<open>unbounded\<close> times the block gas limit times the fee cap.\<close>

definition in_flight_wei :: "int \<Rightarrow> int \<Rightarrow> in_flight \<Rightarrow> int" where
  "in_flight_wei feeCap blockGas f =
     (if unbounded f > 0 then boundedWei f + int (unbounded f) * blockGas * feeCap else boundedWei f)"

section \<open>Sending\<close>

record prepared_send =
  preparedHash :: js_string
  preparedFrom :: js_string
  preparedNonce :: nat
  preparedGasLimit :: int
  preparedMaxFee :: int

datatype fee_quote = Eip1559 int int | Legacy int

fun feeCeilingOf :: "fee_quote \<Rightarrow> int" where
  "feeCeilingOf (Eip1559 maxFee priority) = maxFee"
| "feeCeilingOf (Legacy gasPrice) = gasPrice"

text \<open>\<open>ON CONFLICT DO NOTHING\<close>: signing the same input again gives the same hash and one row.\<close>

definition recordSend :: "js_string \<Rightarrow> prepared_send \<Rightarrow> int \<Rightarrow> ledgers \<Rightarrow> ledgers" where
  "recordSend transaction p l1Bound l =
     (if list_ex (\<lambda>s. sendHash s = js_lower (preparedHash p)) (anchor_sends l) then l
      else l\<lparr>anchor_sends := anchor_sends l @
        [\<lparr>sendHash = js_lower (preparedHash p), sendTransaction = transaction,
          sendSigner = Some (js_lower (preparedFrom p)), sendNonce = Some (preparedNonce p), sendGasLimit = Some (preparedGasLimit p),
          sendMaxFee = Some (preparedMaxFee p), sendL1Bound = l1Bound, settledReason = None\<rparr>]\<rparr>)"

text \<open>The largest open reservation of this transaction for the same signer and nonce.\<close>

definition retry_reservation :: "int \<Rightarrow> js_string \<Rightarrow> prepared_send \<Rightarrow> ledgers \<Rightarrow> int" where
  "retry_reservation feeCap transaction p l =
     fold max
       (map (bounded_wei feeCap)
         (filter (\<lambda>s. sendTransaction s = transaction \<and> sendSigner s = Some (js_lower (preparedFrom p)) \<and>
                      sendNonce s = Some (preparedNonce p) \<and> open_send l s \<and> sendGasLimit s \<noteq> None)
           (anchor_sends l))) 0"

record send_config =
  cfgChain :: int
  cfgFeeCap :: int
  cfgMaxAttempts :: int
  cfgEoaChains :: "int list"
  cfgSafe :: "js_string option"
  cfgDailyCap :: int
  cfgGasLimit :: int

definition guard_input :: "send_config \<Rightarrow> int \<Rightarrow> in_flight \<Rightarrow> int \<Rightarrow> fee_quote \<Rightarrow> int \<Rightarrow> int \<Rightarrow> submit_input" where
  "guard_input c spent inFlight blockGas fees attempts l1Bound =
     \<lparr>submitChain = cfgChain c, maxFeePerGas = feeCeilingOf fees, feeCapWei = cfgFeeCap c,
      sendAttempts = attempts, maxAttempts = cfgMaxAttempts c, eoaAllowedChainIds = cfgEoaChains c,
      safeAddress = cfgSafe c, dailySpendCapWei = cfgDailyCap c, alreadySpentWei = spent,
      inFlightMaxWei = in_flight_wei (cfgFeeCap c) blockGas inFlight, gasLimit = cfgGasLimit c,
      l1FeeBoundWei = l1Bound, retryReservationWei = None\<rparr>"

datatype send_outcome = Blocked_send js_string | To_safe | Recorded ledgers

text \<open>
  From the two guards to the row in the ledger: what \<open>submitPending\<close> does under the lock of the chain with
  what it has read of the two ledgers. The two sums are read by two statements, the spend first, and what
  settles a send does not take the lock: they need not be those of one state. The transaction is signed
  with the fees and the gas limit that were checked.
\<close>

definition admit_send ::
    "send_config \<Rightarrow> int \<Rightarrow> in_flight \<Rightarrow> int \<Rightarrow> fee_quote \<Rightarrow> int \<Rightarrow> int \<Rightarrow> js_string \<Rightarrow>
     (fee_quote \<Rightarrow> int \<Rightarrow> prepared_send) \<Rightarrow> ledgers \<Rightarrow> send_outcome" where
  "admit_send c spent inFlight blockGas fees attempts l1Bound transaction prepare l =
     (let gi = guard_input c spent inFlight blockGas fees attempts l1Bound
      in case checkSubmitAllowed gi Preflight of
        Submit_refused why \<Rightarrow> Blocked_send why
      | Via_safe_proposal \<Rightarrow> To_safe
      | Via_eoa \<Rightarrow>
          (let p = prepare fees (cfgGasLimit c);
               retry = (if l1Bound > 0 then retry_reservation (cfgFeeCap c) transaction p l else 0)
           in case checkSubmitAllowed (gi\<lparr>retryReservationWei := Some retry\<rparr>) Broadcast of
                Submit_refused why \<Rightarrow> Blocked_send why
              | _ \<Rightarrow> Recorded (recordSend transaction p l1Bound l)))"

section \<open>Settling\<close>

definition settle_row :: "js_string \<Rightarrow> js_string \<Rightarrow> send_row \<Rightarrow> send_row" where
  "settle_row hash why s =
     (if sendHash s = hash \<and> settledReason s = None then s\<lparr>settledReason := Some why\<rparr> else s)"

definition settle :: "js_string \<Rightarrow> js_string \<Rightarrow> ledgers \<Rightarrow> ledgers" where
  "settle hash why l = l\<lparr>anchor_sends := map (settle_row hash why) (anchor_sends l)\<rparr>"

definition record_spend :: "nat \<Rightarrow> js_string \<Rightarrow> receipt \<Rightarrow> ledgers \<Rightarrow> ledgers" where
  "record_spend day hash r l =
     (if list_ex (\<lambda>g. spendHash g = hash) (gas_spend l) then l
      else l\<lparr>gas_spend := gas_spend l @
        [\<lparr>spendHash = hash, spendGas = gasUsed r, spendPrice = effectiveGasPrice r, spendL1 = l1Fee r,
          spendDay = day\<rparr>]\<rparr>)"

text \<open>
  A receipt, in one transaction: its cost, and the send of that hash, if there is one, is settled. Both the
  settling of sends and \<open>trackPending\<close> do this, the latter for the hash of the transaction it follows,
  which may be one that the worker did not send.
\<close>

definition record_receipt :: "nat \<Rightarrow> js_string \<Rightarrow> receipt \<Rightarrow> ledgers \<Rightarrow> ledgers" where
  "record_receipt day hash r l = settle hash (js ''receipt'') (record_spend day hash r l)"

text \<open>
  One open send: the signer's nonce at a deep block is read first, then the receipt. A receipt records the
  cost and settles; without one the send settles once its nonce is taken; otherwise it stays open.
\<close>

definition settleSend ::
    "nat \<Rightarrow> (js_string \<Rightarrow> nat option) \<Rightarrow> (js_string \<Rightarrow> observation) \<Rightarrow> send_row \<Rightarrow> ledgers \<Rightarrow> ledgers" where
  "settleSend day confirmedNonce observe s l =
     (let takenBelow = (case (sendSigner s, sendNonce s) of
            (Some signer, Some _) \<Rightarrow> confirmedNonce signer | _ \<Rightarrow> None)
      in case observe (sendHash s) of
           Obs_receipt r \<Rightarrow> record_receipt day (sendHash s) r l
         | _ \<Rightarrow>
             (case (takenBelow, sendNonce s) of
                (Some below, Some n) \<Rightarrow>
                  if n < below then settle (sendHash s) (js ''nonce_consumed'') l else l
              | _ \<Rightarrow> l))"

section \<open>What is in flight, and beyond\<close>

definition weight :: "int \<Rightarrow> ledgers \<Rightarrow> send_row \<Rightarrow> int" where
  "weight feeCap l s = (if open_send l s then bounded_wei feeCap s else 0)"

lemma boundedWei_sum: "boundedWei (inFlightSends feeCap l) = sum_list (map (weight feeCap l) (anchor_sends l))"
proof -
  have "sum_list (map (bounded_wei feeCap) (filter (\<lambda>s. sendGasLimit s \<noteq> None) xs)) = sum_list (map (bounded_wei feeCap) xs)" for xs
    by (induction xs) (auto simp: bounded_wei_def)
  then show ?thesis
    by (simp add: inFlightSends_def Let_def sum_list_map_filter' weight_def [abs_def])
qed

text \<open>
  What the receipts since a day cost beyond what was reserved for them. A hash has what its send reserved,
  unless the send was given up for a taken nonce; a hash without a send, such as the execution of a proposal
  to the Safe, has nothing.
\<close>

definition reserved :: "int \<Rightarrow> ledgers \<Rightarrow> js_string \<Rightarrow> int" where
  "reserved feeCap l h =
     sum_list (map (bounded_wei feeCap)
       (filter (\<lambda>s. sendHash s = h \<and> settledReason s \<noteq> Some (js ''nonce_consumed'')) (anchor_sends l)))"

definition beyond :: "int \<Rightarrow> ledgers \<Rightarrow> spend_row \<Rightarrow> int" where
  "beyond feeCap l g = max 0 (cost g - reserved feeCap l (spendHash g))"

definition overrun :: "int \<Rightarrow> nat \<Rightarrow> ledgers \<Rightarrow> int" where
  "overrun feeCap today l = sum_list (map (beyond feeCap l) (filter (\<lambda>g. spendDay g \<ge> today) (gas_spend l)))"

text \<open>
  The worker on one chain. The lock of the chain admits one send at a time: between two admissions nothing has
  been read, then the spend has, then both sums. \<open>missed\<close> is, of the admissions of the day, the most
  that was recorded as spent between the two reads of one.
\<close>

datatype admission = No_admission | Spent_read nat int | Both_read int in_flight

record budget =
  budgetDay :: nat
  budgetLedgers :: ledgers
  admission :: admission
  missed :: int

text \<open>
  Every way the ledgers change, in any order: the reads of an admission, a send that both guards admit,
  recorded as signed, the end of an admission for any other reason, the settling of a send read earlier, a
  receipt for any hash whatever it cost, and the next day. A transaction may have begun on an earlier day
  than the one on which it reads or writes. Fees are not negative, and \<open>prepare\<close> signs what it is given,
  as \<open>PreparedSend\<close> says; and the lock is held for as long as an admission lasts.
\<close>

inductive budget_reach :: "send_config \<Rightarrow> budget \<Rightarrow> bool" for c where
  start: "budget_reach c \<lparr>budgetDay = today, budgetLedgers = \<lparr>anchor_sends = [], gas_spend = []\<rparr>,
    admission = No_admission, missed = 0\<rparr>"
| read_spend: "budget_reach c b \<Longrightarrow> admission b = No_admission \<Longrightarrow> day \<le> budgetDay b \<Longrightarrow>
    budget_reach c (b\<lparr>admission := Spent_read day (spentTodayWei day (budgetLedgers b))\<rparr>)"
| read_in_flight: "budget_reach c b \<Longrightarrow> admission b = Spent_read day spent \<Longrightarrow>
    budget_reach c (b\<lparr>admission := Both_read spent (inFlightSends (cfgFeeCap c) (budgetLedgers b)),
      missed := max (missed b) (spentTodayWei day (budgetLedgers b) - spent)\<rparr>)"
| send: "budget_reach c b \<Longrightarrow> admission b = Both_read spent inFlight \<Longrightarrow> 0 \<le> feeCeilingOf fees \<Longrightarrow> 0 \<le> l1Bound \<Longrightarrow>
    (\<And>f g. preparedGasLimit (prepare f g) = g \<and> preparedMaxFee (prepare f g) = feeCeilingOf f) \<Longrightarrow>
    admit_send c spent inFlight blockGas fees attempts l1Bound transaction prepare (budgetLedgers b) = Recorded l' \<Longrightarrow>
    budget_reach c (b\<lparr>budgetLedgers := l', admission := No_admission\<rparr>)"
| give_up: "budget_reach c b \<Longrightarrow> budget_reach c (b\<lparr>admission := No_admission\<rparr>)"
| settled: "budget_reach c b \<Longrightarrow> s \<in> set (anchor_sends (budgetLedgers b)) \<Longrightarrow> day \<le> budgetDay b \<Longrightarrow>
    (\<And>r. observe (sendHash s) = Obs_receipt r \<Longrightarrow> 0 \<le> gasUsed r * effectiveGasPrice r + l1Fee r) \<Longrightarrow>
    budget_reach c (b\<lparr>budgetLedgers := settleSend day confirmedNonce observe s (budgetLedgers b)\<rparr>)"
| tracked: "budget_reach c b \<Longrightarrow> day \<le> budgetDay b \<Longrightarrow> 0 \<le> gasUsed r * effectiveGasPrice r + l1Fee r \<Longrightarrow>
    budget_reach c (b\<lparr>budgetLedgers := record_receipt day hash r (budgetLedgers b)\<rparr>)"
| tomorrow: "budget_reach c b \<Longrightarrow> budgetDay b < later \<Longrightarrow> budget_reach c (b\<lparr>budgetDay := later, missed := 0\<rparr>)"

section \<open>What each change does to the sums\<close>

definition exposure :: "int \<Rightarrow> nat \<Rightarrow> ledgers \<Rightarrow> int" where
  "exposure feeCap today l =
     spentTodayWei today l + boundedWei (inFlightSends feeCap l) - overrun feeCap today l"

definition ledgers_ok :: "int \<Rightarrow> nat \<Rightarrow> ledgers \<Rightarrow> bool" where
  "ledgers_ok feeCap today l \<longleftrightarrow>
     distinct (map sendHash (anchor_sends l)) \<and> distinct (map spendHash (gas_spend l)) \<and>
     (\<forall>s \<in> set (anchor_sends l). sendGasLimit s \<noteq> None \<and> 0 \<le> bounded_wei feeCap s \<and>
        (settledReason s = None \<or> settledReason s = Some (js ''nonce_consumed'') \<or>
         sendHash s \<in> spendHash ` set (gas_spend l))) \<and>
     (\<forall>g \<in> set (gas_spend l). 0 \<le> cost g \<and> spendDay g \<le> today)"

text \<open>A change that leaves no more in flight and no more than receipts cost beyond their reservations.\<close>

definition lighter :: "int \<Rightarrow> nat \<Rightarrow> ledgers \<Rightarrow> ledgers \<Rightarrow> bool" where
  "lighter feeCap today l l' \<longleftrightarrow>
     ledgers_ok feeCap today l' \<and> boundedWei (inFlightSends feeCap l') \<le> boundedWei (inFlightSends feeCap l) \<and>
     exposure feeCap today l' \<le> exposure feeCap today l"

lemma lighter_refl: "ledgers_ok feeCap today l \<Longrightarrow> lighter feeCap today l l"
  by (simp add: lighter_def)

lemma lighter_trans: "lighter feeCap today l l' \<Longrightarrow> lighter feeCap today l' l'' \<Longrightarrow> lighter feeCap today l l''"
  by (auto simp: lighter_def)

lemma reason_names: "js ''receipt'' \<noteq> js ''nonce_consumed''"
  by (simp add: js_def)

lemma unbounded_none: "ledgers_ok feeCap today l \<Longrightarrow> unbounded (inFlightSends f l) = 0"
  by (auto simp: ledgers_ok_def inFlightSends_def Let_def filter_empty_conv)

lemma open_send_iff: "open_send l s \<longleftrightarrow> settledReason s = None \<and> sendHash s \<notin> spendHash ` set (gas_spend l)"
  by (force simp: open_send_def list_ex_iff)

lemma reserved_sum:
  "reserved feeCap l h = sum_list (map (\<lambda>s. if sendHash s = h \<and> settledReason s \<noteq> Some (js ''nonce_consumed'')
     then bounded_wei feeCap s else 0) (anchor_sends l))"
  by (simp add: reserved_def sum_list_map_filter')

lemma sum_list_without:
  fixes f g :: "'a \<Rightarrow> int"
  assumes "\<And>x. x \<in> set xs \<Longrightarrow> g x = (if P x then 0 else f x)"
  shows "sum_list (map g xs) = sum_list (map f xs) - sum_list (map f (filter P xs))"
  using assms by (induction xs) auto

lemma reserved_nonneg: "ledgers_ok feeCap today l \<Longrightarrow> 0 \<le> reserved feeCap l h"
  unfolding reserved_def ledgers_ok_def by (intro sum_list_nonneg) auto

lemma reserved_open:
  assumes "ledgers_ok feeCap today l" and "h \<notin> spendHash ` set (gas_spend l)"
  shows "sum_list (map (weight feeCap l) (filter (\<lambda>s. sendHash s = h) (anchor_sends l))) = reserved feeCap l h"
proof -
  have "sum_list (map (weight feeCap l) (filter (\<lambda>s. sendHash s = h) xs)) =
      sum_list (map (bounded_wei feeCap) (filter (\<lambda>s. sendHash s = h \<and> settledReason s \<noteq> Some (js ''nonce_consumed'')) xs))"
    if "set xs \<subseteq> set (anchor_sends l)" for xs
    using that assms by (induction xs) (auto simp: weight_def open_send_iff ledgers_ok_def)
  then show ?thesis by (simp add: reserved_def)
qed

lemma record_spend_lighter:
  assumes ok: "ledgers_ok feeCap today l" and day: "day \<le> today"
    and cost: "0 \<le> gasUsed r * effectiveGasPrice r + l1Fee r"
  shows "lighter feeCap today l (record_spend day h r l)"
proof (cases "h \<in> spendHash ` set (gas_spend l)")
  case True
  then have "record_spend day h r l = l" by (auto simp: record_spend_def list_ex_iff)
  then show ?thesis using lighter_refl [OF ok] by simp
next
  case False
  let ?g = "\<lparr>spendHash = h, spendGas = gasUsed r, spendPrice = effectiveGasPrice r, spendL1 = l1Fee r, spendDay = day\<rparr>"
  let ?l = "l\<lparr>gas_spend := gas_spend l @ [?g]\<rparr>"
  have l': "record_spend day h r l = ?l" using False by (auto simp: record_spend_def list_ex_iff)
  have "weight feeCap ?l s = (if sendHash s = h then 0 else weight feeCap l s)" for s
    using False by (auto simp: weight_def open_send_iff)
  from sum_list_without [of "anchor_sends l" "weight feeCap ?l" "\<lambda>s. sendHash s = h" "weight feeCap l"] this
  have B: "boundedWei (inFlightSends feeCap ?l) = boundedWei (inFlightSends feeCap l) - reserved feeCap l h"
    by (simp add: boundedWei_sum reserved_open [OF ok False])
  have same: "reserved feeCap ?l = reserved feeCap l" by (simp add: reserved_def fun_eq_iff)
  have "beyond feeCap ?l = beyond feeCap l" by (simp add: beyond_def same fun_eq_iff)
  then have O: "overrun feeCap today ?l = overrun feeCap today l + (if day \<ge> today then beyond feeCap l ?g else 0)"
    by (simp add: overrun_def)
  have S: "spentTodayWei today ?l = spentTodayWei today l + (if day \<ge> today then cost ?g else 0)"
    by (simp add: spentTodayWei_def)
  have "exposure feeCap today ?l \<le> exposure feeCap today l"
    using reserved_nonneg [OF ok, of h] by (auto simp: exposure_def S O B beyond_def)
  moreover have "ledgers_ok feeCap today ?l"
    using ok False day cost by (auto simp: ledgers_ok_def cost_def)
  ultimately show ?thesis using reserved_nonneg [OF ok, of h] by (simp add: lighter_def l' B)
qed

lemma settle_row_same [simp]:
  "sendHash (settle_row h why s) = sendHash s" "sendGasLimit (settle_row h why s) = sendGasLimit s"
  "bounded_wei f (s\<lparr>settledReason := x\<rparr>) = bounded_wei f s"
  "bounded_wei f (settle_row h why s) = bounded_wei f s"
  by (simp_all add: settle_row_def bounded_wei_def split: option.split)

lemma settle_lighter:
  assumes ok: "ledgers_ok feeCap today l"
    and why: "why = js ''nonce_consumed'' \<or> h \<in> spendHash ` set (gas_spend l)"
  shows "lighter feeCap today l (settle h why l)"
proof -
  let ?l = "settle h why l"
  have sends: "anchor_sends ?l = map (settle_row h why) (anchor_sends l)" and gas: "gas_spend ?l = gas_spend l"
    by (simp_all add: settle_def)
  have pos: "0 \<le> bounded_wei feeCap s" if "s \<in> set (anchor_sends l)" for s using ok that by (simp add: ledgers_ok_def)
  have "sum_list (map (weight feeCap ?l \<circ> settle_row h why) (anchor_sends l)) \<le> sum_list (map (weight feeCap l) (anchor_sends l))"
    using pos by (intro sum_list_mono) (auto simp: weight_def open_send_iff gas settle_row_def)
  then have B: "boundedWei (inFlightSends feeCap ?l) \<le> boundedWei (inFlightSends feeCap l)"
    unfolding boundedWei_sum sends by simp
  have "reserved feeCap ?l k \<le> reserved feeCap l k" for k
    unfolding reserved_sum sends map_map using pos by (intro sum_list_mono) (auto simp: settle_row_def)
  then have "beyond feeCap l g \<le> beyond feeCap ?l g" for g by (auto simp: beyond_def intro: max.coboundedI2)
  then have "overrun feeCap today l \<le> overrun feeCap today ?l"
    unfolding overrun_def gas by (intro sum_list_mono) simp
  moreover have "spentTodayWei today ?l = spentTodayWei today l" by (simp add: spentTodayWei_def gas)
  ultimately have "exposure feeCap today ?l \<le> exposure feeCap today l" using B by (simp add: exposure_def)
  moreover have "ledgers_ok feeCap today ?l"
    using ok why unfolding ledgers_ok_def sends gas
    by (auto simp: comp_def) (auto simp: settle_row_def split: if_splits)
  ultimately show ?thesis using B by (simp add: lighter_def)
qed

lemma record_receipt_lighter:
  assumes "ledgers_ok feeCap today l" and "day \<le> today" and "0 \<le> gasUsed r * effectiveGasPrice r + l1Fee r"
  shows "lighter feeCap today l (record_receipt day h r l)"
proof -
  note spend = record_spend_lighter [OF assms, of h]
  have "h \<in> spendHash ` set (gas_spend (record_spend day h r l))"
    by (auto simp: record_spend_def list_ex_iff)
  then have "lighter feeCap today (record_spend day h r l) (settle h (js ''receipt'') (record_spend day h r l))"
    using spend by (intro settle_lighter) (simp_all add: lighter_def)
  then show ?thesis unfolding record_receipt_def by (rule lighter_trans [OF spend])
qed

lemma settleSend_lighter:
  assumes ok: "ledgers_ok feeCap today l" and day: "day \<le> today"
    and cost: "\<And>r. observe (sendHash s) = Obs_receipt r \<Longrightarrow> 0 \<le> gasUsed r * effectiveGasPrice r + l1Fee r"
  shows "lighter feeCap today l (settleSend day confirmedNonce observe s l)"
proof (cases "observe (sendHash s)")
  case (Obs_receipt r)
  with record_receipt_lighter [OF ok day cost [OF this], of "sendHash s"] show ?thesis
    by (simp add: settleSend_def)
qed (use settle_lighter [OF ok, of "js ''nonce_consumed''" "sendHash s"] lighter_refl [OF ok] in
    \<open>auto simp: settleSend_def Let_def split: option.splits\<close>)

lemma recordSend_ok:
  assumes ok: "ledgers_ok feeCap today l" and pos: "0 \<le> preparedGasLimit p * preparedMaxFee p + l1Bound"
  shows "ledgers_ok feeCap today (recordSend transaction p l1Bound l) \<and>
    boundedWei (inFlightSends feeCap (recordSend transaction p l1Bound l)) \<le>
      boundedWei (inFlightSends feeCap l) + (preparedGasLimit p * preparedMaxFee p + l1Bound) \<and>
    exposure feeCap today (recordSend transaction p l1Bound l) \<le>
      exposure feeCap today l + (preparedGasLimit p * preparedMaxFee p + l1Bound)"
proof (cases "list_ex (\<lambda>s. sendHash s = js_lower (preparedHash p)) (anchor_sends l)")
  case True
  then show ?thesis using ok pos by (simp add: recordSend_def)
next
  case False
  let ?h = "js_lower (preparedHash p)" and ?w = "preparedGasLimit p * preparedMaxFee p + l1Bound"
  let ?s = "\<lparr>sendHash = ?h, sendTransaction = transaction,
          sendSigner = Some (js_lower (preparedFrom p)), sendNonce = Some (preparedNonce p), sendGasLimit = Some (preparedGasLimit p),
          sendMaxFee = Some (preparedMaxFee p), sendL1Bound = l1Bound, settledReason = None\<rparr>"
  let ?l = "l\<lparr>anchor_sends := anchor_sends l @ [?s]\<rparr>"
  have l': "recordSend transaction p l1Bound l = ?l" using False by (simp add: recordSend_def)
  have b: "bounded_wei f ?s = ?w" for f by (simp add: bounded_wei_def)
  have "weight f ?l = weight f l" for f by (simp add: weight_def fun_eq_iff open_send_def)
  then have B: "boundedWei (inFlightSends feeCap ?l) =
      boundedWei (inFlightSends feeCap l) + (if ?h \<in> spendHash ` set (gas_spend l) then 0 else ?w)"
    unfolding boundedWei_sum using b [of feeCap] by (auto simp: weight_def open_send_iff)
  have S: "spentTodayWei today ?l = spentTodayWei today l" by (simp add: spentTodayWei_def)
  have r: "reserved feeCap ?l k = reserved feeCap l k + (if k = ?h then ?w else 0)" for k
    by (simp add: reserved_def b)
  have O: "overrun feeCap today l \<le> overrun feeCap today ?l + (if ?h \<in> spendHash ` set (gas_spend l) then ?w else 0)"
  proof -
    have "sum_list (map (beyond feeCap l) (filter P gs)) \<le> sum_list (map (beyond feeCap ?l) (filter P gs)) +
        (if ?h \<in> spendHash ` set gs then ?w else 0)"
      if "distinct (map spendHash gs)" for P gs
      using that pos by (induction gs) (auto simp: beyond_def r)
    moreover have "distinct (map spendHash (gas_spend l))" using ok by (simp add: ledgers_ok_def)
    ultimately show ?thesis by (simp add: overrun_def)
  qed
  have "ledgers_ok feeCap today ?l"
    using ok False pos b [of feeCap] by (auto simp: ledgers_ok_def list_ex_iff)
  then show ?thesis using B O pos by (auto simp: l' exposure_def S)
qed

section \<open>The budget holds\<close>

fun admission_ok :: "send_config \<Rightarrow> budget \<Rightarrow> admission \<Rightarrow> bool" where
  "admission_ok c b No_admission \<longleftrightarrow> True"
| "admission_ok c b (Spent_read day spent) \<longleftrightarrow> day \<le> budgetDay b \<and> 0 \<le> spent"
| "admission_ok c b (Both_read spent f) \<longleftrightarrow>
     0 \<le> spent \<and> unbounded f = 0 \<and> boundedWei (inFlightSends (cfgFeeCap c) (budgetLedgers b)) \<le> boundedWei f \<and>
     exposure (cfgFeeCap c) (budgetDay b) (budgetLedgers b) \<le> spent + boundedWei f + missed b"

definition budget_inv :: "send_config \<Rightarrow> budget \<Rightarrow> bool" where
  "budget_inv c b \<longleftrightarrow>
     ledgers_ok (cfgFeeCap c) (budgetDay b) (budgetLedgers b) \<and> 0 \<le> missed b \<and>
     boundedWei (inFlightSends (cfgFeeCap c) (budgetLedgers b)) \<le> cfgDailyCap c \<and>
     exposure (cfgFeeCap c) (budgetDay b) (budgetLedgers b) \<le> cfgDailyCap c + missed b \<and>
     admission_ok c b (admission b)"

lemma budget_inv_lighter:
  assumes "budget_inv c b" and "lighter (cfgFeeCap c) (budgetDay b) (budgetLedgers b) l'"
  shows "budget_inv c (b\<lparr>budgetLedgers := l'\<rparr>)"
  using assms by (cases "admission b") (auto simp: budget_inv_def lighter_def)

lemma spent_nonneg:
  assumes "ledgers_ok feeCap today l"
  shows "0 \<le> spentTodayWei day l"
  using assms unfolding spentTodayWei_def ledgers_ok_def by (intro sum_list_nonneg) auto

lemma spent_earlier:
  assumes "ledgers_ok feeCap today l" and "day \<le> later"
  shows "spentTodayWei later l \<le> spentTodayWei day l"
proof -
  have "sum_list (map cost (filter (\<lambda>g. spendDay g \<ge> later) gs)) \<le> sum_list (map cost (filter (\<lambda>g. spendDay g \<ge> day) gs))"
    if "\<forall>g \<in> set gs. 0 \<le> cost g" for gs
    using that assms(2) by (induction gs) auto
  then show ?thesis using assms(1) by (simp add: spentTodayWei_def ledgers_ok_def)
qed

lemma overrun_nonneg: "0 \<le> overrun feeCap today l"
  unfolding overrun_def by (intro sum_list_nonneg) (auto simp: beyond_def)

lemma admit_within:
  assumes "admit_send c spent f blockGas fees attempts l1Bound transaction prepare l = Recorded l'"
  shows "l' = recordSend transaction (prepare fees (cfgGasLimit c)) l1Bound l"
    and "spent + in_flight_wei (cfgFeeCap c) blockGas f + cfgGasLimit c * feeCeilingOf fees + l1Bound \<le> cfgDailyCap c"
proof -
  let ?gi = "guard_input c spent f blockGas fees attempts l1Bound"
  have pre: "checkSubmitAllowed ?gi Preflight = Via_eoa"
    and rec: "l' = recordSend transaction (prepare fees (cfgGasLimit c)) l1Bound l"
    using assms by (auto simp: admit_send_def Let_def split: submit_guard.splits)
  from admitted_within_cap(1) [OF pre] rec
  show "l' = recordSend transaction (prepare fees (cfgGasLimit c)) l1Bound l"
    "spent + in_flight_wei (cfgFeeCap c) blockGas f + cfgGasLimit c * feeCeilingOf fees + l1Bound \<le> cfgDailyCap c"
    by (simp_all add: guard_input_def)
qed

lemma budget_inv_send:
  assumes inv: "budget_inv c b" and read: "admission b = Both_read spent f"
    and signed: "preparedGasLimit (prepare fees (cfgGasLimit c)) = cfgGasLimit c"
      "preparedMaxFee (prepare fees (cfgGasLimit c)) = feeCeilingOf fees"
    and pos: "0 \<le> feeCeilingOf fees" "0 \<le> l1Bound" "0 \<le> cfgGasLimit c"
    and admitted: "admit_send c spent f blockGas fees attempts l1Bound transaction prepare (budgetLedgers b) = Recorded l'"
  shows "budget_inv c (b\<lparr>budgetLedgers := l', admission := No_admission\<rparr>)"
proof -
  let ?w = "cfgGasLimit c * feeCeilingOf fees + l1Bound"
  have w: "0 \<le> ?w" using pos by simp
  have ok: "ledgers_ok (cfgFeeCap c) (budgetDay b) (budgetLedgers b)" using inv by (simp add: budget_inv_def)
  note new = recordSend_ok [OF ok, of "prepare fees (cfgGasLimit c)" l1Bound transaction, unfolded signed, OF w]
  have a: "0 \<le> spent" "unbounded f = 0" "boundedWei (inFlightSends (cfgFeeCap c) (budgetLedgers b)) \<le> boundedWei f"
    "exposure (cfgFeeCap c) (budgetDay b) (budgetLedgers b) \<le> spent + boundedWei f + missed b"
    using inv read by (simp_all add: budget_inv_def)
  have "spent + boundedWei f + ?w \<le> cfgDailyCap c"
    using admit_within(2) [OF admitted] a(2) by (simp add: in_flight_wei_def)
  then show ?thesis
    using new inv a(1,3,4) unfolding admit_within(1) [OF admitted] by (simp add: budget_inv_def)
qed

lemma budget_reach_inv:
  assumes cap: "0 \<le> cfgDailyCap c" and gas: "0 \<le> cfgGasLimit c"
  shows "budget_reach c b \<Longrightarrow> budget_inv c b"
proof (induction rule: budget_reach.induct)
  case (start today)
  then show ?case using cap
    by (simp add: budget_inv_def ledgers_ok_def exposure_def overrun_def spentTodayWei_def inFlightSends_def)
next
  case (read_spend b day)
  have "ledgers_ok (cfgFeeCap c) (budgetDay b) (budgetLedgers b)" using read_spend.IH by (simp add: budget_inv_def)
  from spent_nonneg [OF this] show ?case using read_spend.IH read_spend.hyps(3) by (simp add: budget_inv_def)
next
  case (read_in_flight b day spent)
  have ok: "ledgers_ok (cfgFeeCap c) (budgetDay b) (budgetLedgers b)" using read_in_flight.IH by (simp add: budget_inv_def)
  have "day \<le> budgetDay b" "0 \<le> spent" using read_in_flight.IH read_in_flight.hyps(2) by (simp_all add: budget_inv_def)
  then show ?case
    using read_in_flight.IH spent_earlier [OF ok, of day "budgetDay b"] unbounded_none [OF ok]
      overrun_nonneg [of "cfgFeeCap c" "budgetDay b" "budgetLedgers b"]
    by (auto simp: budget_inv_def exposure_def)
next
  case (send b spent f fees l1Bound prepare blockGas attempts transaction l')
  show ?case
    by (rule budget_inv_send [OF send.IH send.hyps(2) _ _ send.hyps(3,4) gas send.hyps(6)]) (simp_all add: send.hyps(5))
next
  case (give_up b)
  then show ?case by (simp add: budget_inv_def)
next
  case (settled b s day observe confirmedNonce)
  have "ledgers_ok (cfgFeeCap c) (budgetDay b) (budgetLedgers b)" using settled.IH by (simp add: budget_inv_def)
  from settleSend_lighter [OF this settled.hyps(3,4)] show ?case by (rule budget_inv_lighter [OF settled.IH])
next
  case (tracked b day r hash)
  have "ledgers_ok (cfgFeeCap c) (budgetDay b) (budgetLedgers b)" using tracked.IH by (simp add: budget_inv_def)
  from record_receipt_lighter [OF this tracked.hyps(2,3)] show ?case by (rule budget_inv_lighter [OF tracked.IH])
next
  case (tomorrow b later)
  then have inv: "budget_inv c b" by simp
  let ?l = "budgetLedgers b"
  have none: "filter (\<lambda>g. later \<le> spendDay g) (gas_spend ?l) = []"
    using inv tomorrow.hyps(2) by (fastforce simp: filter_empty_conv budget_inv_def ledgers_ok_def)
  have "exposure (cfgFeeCap c) later ?l = boundedWei (inFlightSends (cfgFeeCap c) ?l)"
    by (simp add: exposure_def overrun_def spentTodayWei_def none)
  moreover have "ledgers_ok (cfgFeeCap c) later ?l"
    using inv tomorrow.hyps(2) by (fastforce simp: budget_inv_def ledgers_ok_def)
  ultimately show ?case
    using inv tomorrow.hyps(2) by (cases "admission b") (auto simp: budget_inv_def)
qed

text \<open>
  C15. The daily budget is a budget of admissions. Through every order of reads, admitted sends, settlings,
  receipts and midnights, what is in flight at its signed ceiling never exceeds the cap; and what was spent
  today together with it exceeds the cap by no more than today's receipts cost beyond what was reserved for
  them and one admission missed between its two reads, so not at all while receipts stay within their
  reservations and none comes in between. No send and no cost is in its ledger twice.
\<close>

theorem daily_budget_holds:
  assumes "budget_reach c b" and "0 \<le> cfgDailyCap c" and "0 \<le> cfgGasLimit c"
  shows "in_flight_wei (cfgFeeCap c) blockGas (inFlightSends (cfgFeeCap c) (budgetLedgers b)) \<le> cfgDailyCap c \<and>
    spentTodayWei (budgetDay b) (budgetLedgers b) +
      in_flight_wei (cfgFeeCap c) blockGas (inFlightSends (cfgFeeCap c) (budgetLedgers b)) \<le>
      cfgDailyCap c + overrun (cfgFeeCap c) (budgetDay b) (budgetLedgers b) + missed b \<and>
    distinct (map sendHash (anchor_sends (budgetLedgers b))) \<and> distinct (map spendHash (gas_spend (budgetLedgers b)))"
proof -
  note inv = budget_reach_inv [OF assms(2,3,1)]
  then have ok: "ledgers_ok (cfgFeeCap c) (budgetDay b) (budgetLedgers b)" by (simp add: budget_inv_def)
  show ?thesis
    using inv ok unbounded_none [OF ok, of "cfgFeeCap c"]
    by (simp add: budget_inv_def ledgers_ok_def in_flight_wei_def exposure_def)
qed

text \<open>
  A run that exceeds the cap: a send of 300 wei is admitted under a cap of 500; the next admission reads the
  spend, 0; the receipt of the first comes in; the admission reads what is in flight, 0 as well, and
  admits 300 more. 300 are spent and 300 in flight.
\<close>

definition sample_config :: send_config where
  "sample_config =
     \<lparr>cfgChain = 5611, cfgFeeCap = 3, cfgMaxAttempts = 5, cfgEoaChains = [5611], cfgSafe = None,
      cfgDailyCap = 500, cfgGasLimit = 100\<rparr>"

definition sample_prepare :: "js_string \<Rightarrow> fee_quote \<Rightarrow> int \<Rightarrow> prepared_send" where
  "sample_prepare h f g =
     \<lparr>preparedHash = h, preparedFrom = js ''0xs'', preparedNonce = 0, preparedGasLimit = g,
      preparedMaxFee = feeCeilingOf f\<rparr>"

definition sample_send :: "string \<Rightarrow> js_string option \<Rightarrow> send_row" where
  "sample_send h why =
     \<lparr>sendHash = js h, sendTransaction = js ''t'', sendSigner = Some (js ''0xs''), sendNonce = Some 0,
      sendGasLimit = Some 100, sendMaxFee = Some 3, sendL1Bound = 0, settledReason = why\<rparr>"

definition sample_receipt :: receipt where
  "sample_receipt =
     \<lparr>receiptStatus = Receipt_success, receiptBlock = 1, receiptHash = js ''0xb'', gasUsed = 100, effectiveGasPrice = 3,
      l1Fee = 0, rootSubmissions = []\<rparr>"

definition sample_spend :: spend_row where
  "sample_spend = \<lparr>spendHash = js ''0x1'', spendGas = 100, spendPrice = 3, spendL1 = 0, spendDay = 0\<rparr>"

lemma sample_send_admitted:
  assumes "js_lower (js h) = js h" and "\<not> list_ex (\<lambda>s. sendHash s = js h) (anchor_sends l)"
  shows "admit_send sample_config 0 \<lparr>boundedWei = 0, unbounded = 0\<rparr> 30000000 (Legacy 3) 0 0 (js ''t'') (sample_prepare (js h)) l =
    Recorded (l\<lparr>anchor_sends := anchor_sends l @ [sample_send h None]\<rparr>)"
proof -
  have "js_lower (js ''0xs'') = js ''0xs''" by (simp add: js_lower_def js_def)
  with assms show ?thesis
    by (simp add: admit_send_def guard_input_def sample_config_def checkSubmitAllowed_def eoaSubmissionAllowed_def
        isEoaAnchorEligibleChainId_def EOA_ANCHOR_ELIGIBLE_CHAIN_IDS_def chain_ids projectedWei_def
        in_flight_wei_def recordSend_def sample_prepare_def sample_send_def Let_def)
qed

theorem daily_budget_holds_witness:
  "\<exists>b. budget_reach sample_config b \<and> missed b = 300 \<and> overrun 3 (budgetDay b) (budgetLedgers b) = 0 \<and>
     spentTodayWei (budgetDay b) (budgetLedgers b) + in_flight_wei 3 30000000 (inFlightSends 3 (budgetLedgers b)) = 600 \<and>
     600 \<le> cfgDailyCap sample_config + missed b \<and> in_flight_wei 3 30000000 (inFlightSends 3 (budgetLedgers b)) \<le> 500"
proof -
  let ?none = "\<lparr>boundedWei = 0, unbounded = 0\<rparr>"
  let ?b0 = "\<lparr>budgetDay = 0, budgetLedgers = \<lparr>anchor_sends = [], gas_spend = []\<rparr>, admission = No_admission, missed = 0\<rparr>"
  let ?b1 = "?b0\<lparr>budgetLedgers := \<lparr>anchor_sends = [sample_send ''0x1'' None], gas_spend = []\<rparr>\<rparr>"
  let ?l2 = "\<lparr>anchor_sends = [sample_send ''0x1'' (Some (js ''receipt''))], gas_spend = [sample_spend]\<rparr>"
  let ?b2 = "?b0\<lparr>budgetLedgers := ?l2, admission := Both_read 0 ?none, missed := 300\<rparr>"
  let ?l3 = "\<lparr>anchor_sends = [sample_send ''0x1'' (Some (js ''receipt'')), sample_send ''0x2'' None], gas_spend = [sample_spend]\<rparr>"
  let ?b3 = "?b0\<lparr>budgetLedgers := ?l3, missed := 300\<rparr>"
  note sums = spentTodayWei_def inFlightSends_def cost_def open_send_def sample_send_def sample_spend_def Let_def
  have lower: "js_lower (js ''0x1'') = js ''0x1''" "js_lower (js ''0x2'') = js ''0x2''" and names: "js ''0x1'' \<noteq> js ''0x2''"
    by (simp_all add: js_lower_def js_def)
  have signed: "preparedGasLimit (sample_prepare h f g) = g \<and> preparedMaxFee (sample_prepare h f g) = feeCeilingOf f" for h f g
    by (simp add: sample_prepare_def)
  have r: "budget_reach sample_config (?b0\<lparr>admission := Both_read 0 ?none\<rparr>)"
    using budget_reach.read_in_flight [OF budget_reach.read_spend [OF budget_reach.start [of sample_config 0], of 0]]
    by (simp add: sums)
  have "budget_reach sample_config ?b1"
    using budget_reach.send [OF r _ _ _ signed sample_send_admitted [OF lower(1)]] by simp
  then have "budget_reach sample_config (?b1\<lparr>admission := Spent_read 0 0\<rparr>)"
    using budget_reach.read_spend [of sample_config ?b1 0] by (simp add: sums)
  from budget_reach.tracked [OF this, of 0 sample_receipt "js ''0x1''"]
  have "budget_reach sample_config (?b0\<lparr>budgetLedgers := ?l2, admission := Spent_read 0 0\<rparr>)"
    by (simp add: record_receipt_def record_spend_def settle_def settle_row_def sample_receipt_def sample_send_def sample_spend_def)
  from budget_reach.read_in_flight [OF this]
  have "budget_reach sample_config ?b2" by (simp add: sums)
  from budget_reach.send [OF this _ _ _ signed sample_send_admitted [OF lower(2)]] names
  have b3: "budget_reach sample_config ?b3" by (simp add: sample_send_def)
  have "overrun 3 0 ?l3 = 0"
    using reason_names by (simp add: overrun_def beyond_def reserved_def bounded_wei_def sums)
  moreover have "spentTodayWei 0 ?l3 + in_flight_wei 3 30000000 (inFlightSends 3 ?l3) = 600"
    using names by (simp add: in_flight_wei_def bounded_wei_def sums)
  moreover have "in_flight_wei 3 30000000 (inFlightSends 3 ?l3) \<le> 500 \<and>
      spentTodayWei 0 ?l3 + in_flight_wei 3 30000000 (inFlightSends 3 ?l3) \<le> 500 + overrun 3 0 ?l3 + 300"
    using daily_budget_holds [OF b3, of 30000000] by (simp add: sample_config_def)
  ultimately show ?thesis using b3 by (intro exI [of _ ?b3]) (simp add: sample_config_def)
qed

end
