(* ===== verification/Outbox_Publisher.thy ===== *)
theory Outbox_Publisher
  imports Event_Log
begin

text \<open>
  Publishing the outbox (\<open>apps/jobs-worker/src/outbox-publisher.ts\<close>). The table is a list of rows;
  publishing an event acts on the rest of the world, of type \<open>'w\<close>, and returns or throws the text of an
  error. The handlers may also add rows to the outbox: such a row belongs to the rest of the world until a
  later batch takes it up. One worker is modelled: the row locks that keep several workers apart have no
  counterpart. Times are milliseconds; the clock may differ between the transactions of a batch, so it is
  a function of how many events the batch has handled.
\<close>

section \<open>Rows\<close>

record outbox_entry =
  entryId :: js_string
  entryEvent :: domain_event
  entryOccurred :: int
  entryAttempts :: nat
  entryPublished :: bool
  entryDead :: bool
  entryNext :: "int option"
  entryError :: "js_string option"
  entrySkip :: "js_string list"

type_synonym 'w publish = "outbox_entry \<Rightarrow> 'w \<Rightarrow> (js_string + unit) \<times> 'w"

type_synonym 'w broker = "outbox_entry list \<times> 'w"

definition DEFAULT_OUTBOX_MAX_ATTEMPTS :: nat where
  "DEFAULT_OUTBOX_MAX_ATTEMPTS = 5"

definition MAX_ERROR_LENGTH :: nat where
  "MAX_ERROR_LENGTH = 300"

definition describeError :: "js_string \<Rightarrow> js_string" where
  "describeError text = take MAX_ERROR_LENGTH text"

section \<open>One event\<close>

datatype outcome = Outcome_published | Outcome_failed | Outcome_dead_lettered

text \<open>\<open>Math.round\<close> of milliseconds over a thousand.\<close>

definition delaySeconds :: "nat \<Rightarrow> nat \<Rightarrow> nat" where
  "delaySeconds backoffMs attempt = (backoffMs * 2 ^ (attempt - 1) + 500) div 1000"

definition update_entry :: "js_string \<Rightarrow> (outbox_entry \<Rightarrow> outbox_entry) \<Rightarrow> outbox_entry list \<Rightarrow> outbox_entry list" where
  "update_entry i f rows = map (\<lambda>e. if entryId e = i then f e else e) rows"

definition mark_failed :: "int \<Rightarrow> nat \<Rightarrow> nat \<Rightarrow> bool \<Rightarrow> js_string \<Rightarrow> outbox_entry \<Rightarrow> outbox_entry" where
  "mark_failed now delay attempt exhausted text e =
     e\<lparr>entryAttempts := attempt, entryError := Some (describeError text),
       entryNext := Some (now + 1000 * int delay), entryDead := exhausted\<rparr>"

definition mark_published :: "nat \<Rightarrow> outbox_entry \<Rightarrow> outbox_entry" where
  "mark_published attempt e = e\<lparr>entryPublished := True, entryAttempts := attempt, entryError := None\<rparr>"

definition publishClaimed ::
    "int \<Rightarrow> nat \<Rightarrow> nat \<Rightarrow> 'w publish \<Rightarrow> outbox_entry \<Rightarrow> 'w broker \<Rightarrow> outcome \<times> 'w broker" where
  "publishClaimed now maxAttempts backoffMs publish e b =
     (let attempt = entryAttempts e + 1; (r, w) = publish e (snd b)
      in case r of
        Inl text \<Rightarrow>
          (let exhausted = attempt \<ge> maxAttempts; delay = delaySeconds backoffMs attempt
           in (if exhausted then Outcome_dead_lettered else Outcome_failed,
               update_entry (entryId e) (mark_failed now delay attempt exhausted text) (fst b), w))
      | Inr _ \<Rightarrow> (Outcome_published, update_entry (entryId e) (mark_published attempt) (fst b), w))"

section \<open>A batch\<close>

definition settled :: "outbox_entry \<Rightarrow> bool" where
  "settled e \<longleftrightarrow> entryPublished e \<or> entryDead e"

definition due :: "int \<Rightarrow> js_string list \<Rightarrow> outbox_entry \<Rightarrow> bool" where
  "due now handled e \<longleftrightarrow>
     \<not> entryPublished e \<and> \<not> entryDead e \<and>
     (case entryNext e of None \<Rightarrow> True | Some t \<Rightarrow> t \<le> now) \<and> entryId e \<notin> set handled"

definition next_due :: "int \<Rightarrow> js_string list \<Rightarrow> outbox_entry list \<Rightarrow> outbox_entry option" where
  "next_due now handled rows =
     (case sort_key entryOccurred (sort_key entryId (filter (due now handled) rows)) of
        [] \<Rightarrow> None
      | e # _ \<Rightarrow> Some e)"

record publish_result =
  published :: nat
  failed :: nat
  deadLettered :: nat

record 'w publish_options =
  batchLimit :: nat
  maxTries :: nat
  backoff :: nat
  onDeadLetter :: "'w publish option"

definition count_outcome :: "outcome \<Rightarrow> publish_result \<Rightarrow> publish_result" where
  "count_outcome out res =
     (case out of
        Outcome_published \<Rightarrow> res\<lparr>published := published res + 1\<rparr>
      | Outcome_failed \<Rightarrow> res\<lparr>failed := failed res + 1\<rparr>
      | Outcome_dead_lettered \<Rightarrow> res\<lparr>failed := failed res + 1, deadLettered := deadLettered res + 1\<rparr>)"

text \<open>The hook runs after the commit; when it throws, so does the batch, with what was committed kept.\<close>

definition dead_hook ::
    "'w publish_options \<Rightarrow> outcome \<Rightarrow> outbox_entry \<Rightarrow> 'w broker \<Rightarrow> (js_string + unit) \<times> 'w broker" where
  "dead_hook opts out e b =
     (case (out, onDeadLetter opts) of
        (Outcome_dead_lettered, Some hook) \<Rightarrow> (let (r, w) = hook e (snd b) in (r, fst b, w))
      | _ \<Rightarrow> (Inr (), b))"

function publish_loop ::
    "(nat \<Rightarrow> int) \<Rightarrow> 'w publish \<Rightarrow> 'w publish_options \<Rightarrow> js_string list \<Rightarrow> publish_result \<Rightarrow> 'w broker \<Rightarrow>
     (js_string + publish_result) \<times> js_string list \<times> 'w broker" where
  "publish_loop clock publish opts handled res b =
     (if length handled \<ge> batchLimit opts then (Inr res, handled, b)
      else case next_due (clock (length handled)) handled (fst b) of
        None \<Rightarrow> (Inr res, handled, b)
      | Some e \<Rightarrow>
          (let (out, b1) = publishClaimed (clock (length handled)) (maxTries opts) (backoff opts) publish e b;
               handled' = handled @ [entryId e]; res' = count_outcome out res;
               (h, b2) = dead_hook opts out e b1
           in case h of
                Inl text \<Rightarrow> (Inl text, handled', b2)
              | Inr _ \<Rightarrow> publish_loop clock publish opts handled' res' b2))"
  by pat_completeness auto
termination
  by (relation "measure (\<lambda>(clock, publish, opts, handled, res, b). batchLimit opts - length handled)") auto

declare publish_loop.simps [simp del]

definition publishBatch ::
    "(nat \<Rightarrow> int) \<Rightarrow> 'w publish \<Rightarrow> 'w publish_options \<Rightarrow> 'w broker \<Rightarrow>
     (js_string + publish_result) \<times> js_string list \<times> 'w broker" where
  "publishBatch clock publish opts b =
     publish_loop clock publish opts [] \<lparr>published = 0, failed = 0, deadLettered = 0\<rparr> b"

section \<open>Handlers\<close>

record 'w handler =
  handlerName :: js_string
  handlerVersion :: js_string
  accepts :: "js_string \<Rightarrow> bool"
  handle :: "'w publish"
  settleDead :: "'w publish option"

definition handlerKey :: "'w handler \<Rightarrow> js_string" where
  "handlerKey h = handlerName h @ js ''@'' @ handlerVersion h"

text \<open>The inbox: pairs of event and handler key that finished. A claim that exists already adds nothing.\<close>

type_synonym inbox = "(js_string \<times> js_string) list"

definition alreadyProcessed :: "inbox \<Rightarrow> js_string \<Rightarrow> js_string \<Rightarrow> bool" where
  "alreadyProcessed inbox event key \<longleftrightarrow> (event, key) \<in> set inbox"

definition claimEvent :: "js_string \<Rightarrow> js_string \<Rightarrow> inbox \<Rightarrow> bool \<times> inbox" where
  "claimEvent event key inbox =
     (if (event, key) \<in> set inbox then (False, inbox) else (True, inbox @ [(event, key)]))"

definition relevant :: "'w handler list \<Rightarrow> outbox_entry \<Rightarrow> 'w handler list" where
  "relevant handlers e =
     filter (\<lambda>h. accepts h (eventType (entryEvent e)) \<and> handlerName h \<notin> set (entrySkip e)) handlers"

fun run_handlers ::
    "'w handler list \<Rightarrow> outbox_entry \<Rightarrow> inbox \<times> 'w \<Rightarrow> (js_string + unit) \<times> inbox \<times> 'w" where
  "run_handlers [] e s = (Inr (), s)"
| "run_handlers (h # hs) e (inbox, w) =
     (if alreadyProcessed inbox (entryId e) (handlerKey h) then run_handlers hs e (inbox, w)
      else (case handle h e w of
        (Inl text, w') \<Rightarrow> (Inl (handlerName h @ js '': '' @ describeError text), inbox, w')
      | (Inr _, w') \<Rightarrow> run_handlers hs e (snd (claimEvent (entryId e) (handlerKey h) inbox), w')))"

definition dispatch :: "'w handler list \<Rightarrow> (inbox \<times> 'w) publish" where
  "dispatch handlers e s = run_handlers (relevant handlers e) e s"

fun run_dead :: "'w handler list \<Rightarrow> outbox_entry \<Rightarrow> inbox \<times> 'w \<Rightarrow> (js_string + unit) \<times> inbox \<times> 'w" where
  "run_dead [] e s = (Inr (), s)"
| "run_dead (h # hs) e (inbox, w) =
     (if alreadyProcessed inbox (entryId e) (handlerKey h) then run_dead hs e (inbox, w)
      else case settleDead h of
        None \<Rightarrow> run_dead hs e (inbox, w)
      | Some f \<Rightarrow>
          (case f e w of
             (Inl text, w') \<Rightarrow> (Inl text, inbox, w')
           | (Inr _, w') \<Rightarrow> run_dead hs e (inbox, w')))"

definition dispatch_dead :: "'w handler list \<Rightarrow> (inbox \<times> 'w) publish" where
  "dispatch_dead handlers e s = run_dead (relevant handlers e) e s"

record backlog =
  backlogPending :: nat
  oldestPendingAt :: "int option"
  backlogDead :: nat

definition backlogStats :: "outbox_entry list \<Rightarrow> backlog" where
  "backlogStats rows =
     (let unpublished = filter (\<lambda>e. \<not> entryPublished e) rows;
          pending = filter (\<lambda>e. \<not> entryDead e) unpublished
      in \<lparr>backlogPending = length pending,
          oldestPendingAt = (case map entryOccurred pending of [] \<Rightarrow> None | t # ts \<Rightarrow> Some (foldl min t ts)),
          backlogDead = length (filter entryDead unpublished)\<rparr>)"

end
