(* ===== verification/Outbox_Laws.thy ===== *)
theory Outbox_Laws
  imports Outbox_Publisher
begin

text \<open>
  What publishing promises: a batch handles each event at most once and ends, every event is settled after
  at most the capped number of attempts, and a handler that finished an event is not run for it again.
\<close>

section \<open>What a batch does to the rows\<close>

definition processed :: "nat \<Rightarrow> outbox_entry \<Rightarrow> outbox_entry \<Rightarrow> bool" where
  "processed tries a b \<longleftrightarrow>
     entryId b = entryId a \<and> \<not> settled a \<and> entryAttempts b = entryAttempts a + 1 \<and>
     (settled b \<or> entryAttempts b < tries)"

definition batch_step :: "nat \<Rightarrow> js_string list \<Rightarrow> outbox_entry \<Rightarrow> outbox_entry \<Rightarrow> bool" where
  "batch_step tries handled a b \<longleftrightarrow> (if entryId a \<in> set handled then processed tries a b else b = a)"

lemma batch_step_id: "batch_step tries handled a b \<Longrightarrow> entryId b = entryId a"
  by (auto simp: batch_step_def processed_def split: if_splits)

lemma batch_ids: "list_all2 (batch_step tries handled) rows rows' \<Longrightarrow> map entryId rows' = map entryId rows"
  by (induction rule: list_all2_induct) (auto dest: batch_step_id)

lemma next_due_Some:
  assumes "next_due now handled rows = Some e"
  shows "e \<in> set rows \<and> due now handled e"
proof (cases "sort_key entryOccurred (sort_key entryId (filter (due now handled) rows))")
  case Nil
  then show ?thesis using assms by (simp add: next_due_def)
next
  case (Cons x xs)
  then have "e \<in> set (sort_key entryOccurred (sort_key entryId (filter (due now handled) rows)))"
    using assms by (simp add: next_due_def)
  then show ?thesis by simp
qed

lemma next_due_None: "next_due now handled rows = None \<longleftrightarrow> (\<forall>e \<in> set rows. \<not> due now handled e)"
proof -
  have "sort_key entryOccurred (sort_key entryId (filter (due now handled) rows)) = [] \<longleftrightarrow> filter (due now handled) rows = []"
    by (metis length_0_conv length_sort)
  then show ?thesis by (auto simp: next_due_def filter_empty_conv split: list.splits)
qed

text \<open>What publishing one claimed event does to its row.\<close>

definition outcome_row :: "nat \<Rightarrow> outcome \<Rightarrow> outbox_entry \<Rightarrow> outbox_entry \<Rightarrow> bool" where
  "outcome_row tries out e x \<longleftrightarrow>
     entryId x = entryId e \<and> entryAttempts x = entryAttempts e + 1 \<and>
     (case out of Outcome_published \<Rightarrow> settled x | Outcome_dead_lettered \<Rightarrow> settled x
        | Outcome_failed \<Rightarrow> entryAttempts x < tries)"

lemma publishClaimed_rows:
  assumes "publishClaimed now tries delay publish e b = (out, b1)"
  obtains f where "fst b1 = update_entry (entryId e) f (fst b)" and "outcome_row tries out e (f e)"
proof -
  obtain r w where p: "publish e (snd b) = (r, w)" by fastforce
  show ?thesis
  proof (cases r)
    case (Inl msg)
    with assms p show ?thesis
      by (intro that [of "mark_failed now (delaySeconds delay (entryAttempts e + 1)) (entryAttempts e + 1)
            (entryAttempts e + 1 \<ge> tries) msg"])
        (auto simp: publishClaimed_def outcome_row_def mark_failed_def settled_def Let_def)
  next
    case (Inr u)
    with assms p show ?thesis
      by (intro that [of "mark_published (entryAttempts e + 1)"])
        (auto simp: publishClaimed_def outcome_row_def mark_published_def settled_def)
  qed
qed

lemma outcome_processed:
  assumes "outcome_row tries out e x" and "\<not> settled e"
  shows "processed tries e x"
  using assms unfolding processed_def outcome_row_def by (cases out) simp_all

lemma batch_step_update:
  assumes step: "batch_step tries handled a x" and e: "\<not> settled e" "entryId e \<notin> set handled"
    and same: "entryId x = entryId e \<Longrightarrow> x = e" and f: "outcome_row tries out e (f e)"
  shows "batch_step tries (handled @ [entryId e]) a (if entryId x = entryId e then f x else x)"
proof (cases "entryId x = entryId e")
  case True
  then have x: "x = e" by (rule same)
  then have a: "entryId a = entryId e" using batch_step_id [OF step] by metis
  then have "a = e" using step e(2) x unfolding batch_step_def by metis
  then show ?thesis using outcome_processed [OF f e(1)] True x by (simp only: batch_step_def) simp
next
  case False
  then have "entryId a \<noteq> entryId e" using batch_step_id [OF step] by simp
  then show ?thesis using step False unfolding batch_step_def by simp
qed

lemma batch_step_snoc:
  assumes rel: "list_all2 (batch_step tries handled) rows0 rows" and dist: "distinct (map entryId rows0)"
    and e: "e \<in> set rows" "\<not> settled e" "entryId e \<notin> set handled"
    and f: "outcome_row tries out e (f e)"
  shows "list_all2 (batch_step tries (handled @ [entryId e])) rows0 (update_entry (entryId e) f rows)"
proof -
  have inj: "inj_on entryId (set rows)" using dist batch_ids [OF rel] by (metis distinct_map)
  have "list_all2 (\<lambda>a x. batch_step tries (handled @ [entryId e]) a (if entryId x = entryId e then f x else x)) rows0 rows"
    using rel
  proof (rule list.rel_mono_strong)
    fix a x assume x: "x \<in> set rows" and step: "batch_step tries handled a x"
    show "batch_step tries (handled @ [entryId e]) a (if entryId x = entryId e then f x else x)"
      using inj_onD [OF inj _ x e(1)] by (rule batch_step_update [where f = f and out = out, OF step e(2,3) _ f])
  qed
  then show ?thesis unfolding update_entry_def list_all2_map2 .
qed

definition tally_ok :: "js_string list \<Rightarrow> publish_result \<Rightarrow> bool" where
  "tally_ok handled res \<longleftrightarrow> published res + failed res = length handled \<and> deadLettered res \<le> failed res"

lemma tally_count: "tally_ok handled res \<Longrightarrow> tally_ok (handled @ [i]) (count_outcome out res)"
  by (cases out) (auto simp: tally_ok_def count_outcome_def)

lemma dead_hook_rows: "dead_hook opts out e b = (h, b') \<Longrightarrow> fst b' = fst b"
  by (auto simp: dead_hook_def split: outcome.splits option.splits prod.splits)

lemma publish_loop_inv:
  assumes "publish_loop clock publish opts handled res b = (r, handled', b')"
    and "list_all2 (batch_step (maxTries opts) handled) rows0 (fst b)" and "distinct (map entryId rows0)"
    and "distinct handled" and "set handled \<subseteq> entryId ` set rows0" and "tally_ok handled res"
    and "length handled \<le> batchLimit opts"
  shows "list_all2 (batch_step (maxTries opts) handled') rows0 (fst b') \<and> distinct handled' \<and>
    set handled' \<subseteq> entryId ` set rows0 \<and> length handled' \<le> batchLimit opts \<and>
    (\<forall>total. r = Inr total \<longrightarrow> tally_ok handled' total \<and>
      (length handled' = batchLimit opts \<or>
       (\<forall>e \<in> set (fst b'). \<not> due (clock (length handled')) handled' e)))"
  using assms
proof (induction clock publish opts handled res b arbitrary: r handled' b' rule: publish_loop.induct)
  case (1 clock publish opts handled res b)
  show ?case
  proof (cases "length handled \<ge> batchLimit opts")
    case True
    then show ?thesis using "1.prems" by (auto simp: publish_loop.simps [of clock publish opts handled res b])
  next
    case False
    show ?thesis
    proof (cases "next_due (clock (length handled)) handled (fst b)")
      case None
      then show ?thesis
        using "1.prems" False None [unfolded next_due_None]
        by (auto simp: publish_loop.simps [of clock publish opts handled res b])
    next
      case (Some e)
      obtain out b1 where claimed:
        "publishClaimed (clock (length handled)) (maxTries opts) (backoff opts) publish e b = (out, b1)"
        by (metis prod.exhaust)
      obtain h b2 where hook: "dead_hook opts out e b1 = (h, b2)" by (metis prod.exhaust)
      from next_due_Some [OF Some] have e: "e \<in> set (fst b)" "\<not> settled e" "entryId e \<notin> set handled"
        by (auto simp: due_def settled_def)
      obtain f where f: "fst b1 = update_entry (entryId e) f (fst b)" "outcome_row (maxTries opts) out e (f e)"
        using publishClaimed_rows [OF claimed] .
      let ?handled = "handled @ [entryId e]"
      have rel: "list_all2 (batch_step (maxTries opts) ?handled) rows0 (fst b2)"
        using batch_step_snoc [where f = f and out = out, OF "1.prems"(2,3) e f(2)] f(1) dead_hook_rows [OF hook] by simp
      have "entryId e \<in> entryId ` set rows0"
        using e(1) batch_ids [OF "1.prems"(2)] by (metis imageI list.set_map)
      then have side: "distinct ?handled" "set ?handled \<subseteq> entryId ` set rows0"
        "tally_ok ?handled (count_outcome out res)" "length ?handled \<le> batchLimit opts"
        using "1.prems"(4,5) e(3) False tally_count [OF "1.prems"(6)] by auto
      show ?thesis
      proof (cases h)
        case (Inl msg)
        then have "handled' = ?handled" "b' = b2" "r = Inl msg"
          using "1.prems"(1) False Some claimed hook
          by (auto simp: publish_loop.simps [of clock publish opts handled res b] Let_def)
        then show ?thesis using rel side by simp
      next
        case (Inr u)
        then have next_round: "publish_loop clock publish opts ?handled (count_outcome out res) b2 = (r, handled', b')"
          using "1.prems"(1) False Some claimed hook
          by (simp add: publish_loop.simps [of clock publish opts handled res b] Let_def)
        show ?thesis
          by (rule "1.IH" [OF False Some claimed [symmetric] refl refl refl hook [symmetric] refl Inr next_round
                rel "1.prems"(3) side])
      qed
    qed
  qed
qed


text \<open>
  C17. A batch of the outbox ends, handles at most its limit of events and no event twice. Each event it
  handled was unsettled and got one more attempt, after which it is settled or still below the cap on
  attempts; every other row is as it was. When no hook threw, the totals account for the events handled,
  and a batch below its limit left nothing due.
\<close>

theorem batch_accounts_for_its_events:
  assumes "publishBatch clock publish opts b = (r, handled, b')" and "distinct (map entryId (fst b))"
  shows "list_all2 (batch_step (maxTries opts) handled) (fst b) (fst b') \<and> distinct handled \<and>
    set handled \<subseteq> entryId ` set (fst b) \<and> length handled \<le> batchLimit opts \<and>
    (\<forall>total. r = Inr total \<longrightarrow>
      published total + failed total = length handled \<and> deadLettered total \<le> failed total \<and>
      (length handled = batchLimit opts \<or>
       (\<forall>e \<in> set (fst b'). \<not> due (clock (length handled)) handled e)))"
proof -
  have "list_all2 (batch_step (maxTries opts) []) (fst b) (fst b)"
    by (simp add: batch_step_def list_all2_same)
  from publish_loop_inv [OF assms(1) [unfolded publishBatch_def] this assms(2)]
  show ?thesis by (simp add: tally_ok_def)
qed

section \<open>Every event is settled\<close>

text \<open>One batch after another, each on its own clock; the rows a batch committed are kept if it threw.\<close>

fun run_batches ::
    "(nat \<Rightarrow> nat \<Rightarrow> int) \<Rightarrow> 'w publish \<Rightarrow> 'w publish_options \<Rightarrow> nat \<Rightarrow> 'w broker \<Rightarrow> 'w broker" where
  "run_batches clocks publish opts 0 b = b"
| "run_batches clocks publish opts (Suc n) b =
     snd (snd (publishBatch (clocks n) publish opts (run_batches clocks publish opts n b)))"

definition waiting_is_over :: "(nat \<Rightarrow> int) \<Rightarrow> outbox_entry list \<Rightarrow> bool" where
  "waiting_is_over clock rows \<longleftrightarrow>
     (\<forall>e \<in> set rows. \<forall>k \<le> length rows. case entryNext e of None \<Rightarrow> True | Some t \<Rightarrow> t \<le> clock k)"

definition hook_quiet :: "'w publish_options \<Rightarrow> bool" where
  "hook_quiet opts \<longleftrightarrow> (\<forall>hook. onDeadLetter opts = Some hook \<longrightarrow> (\<forall>e w. fst (hook e w) = Inr ()))"

text \<open>A row after at least \<open>n\<close> batches: settled, or tried at least \<open>n\<close> times and below the cap.\<close>

definition tried :: "nat \<Rightarrow> nat \<Rightarrow> outbox_entry \<Rightarrow> bool" where
  "tried tries n e \<longleftrightarrow> settled e \<or> n \<le> entryAttempts e \<and> entryAttempts e < tries"

lemma hook_quiet_Inr:
  assumes "hook_quiet opts"
  shows "\<exists>b'. dead_hook opts out e b = (Inr (), b')"
proof (cases "onDeadLetter opts")
  case None
  then show ?thesis by (cases out) (simp_all add: dead_hook_def)
next
  case (Some hook)
  then have "fst (hook e (snd b)) = Inr ()" using assms by (simp add: hook_quiet_def)
  with Some show ?thesis by (cases out; cases "hook e (snd b)") (simp_all add: dead_hook_def)
qed

lemma quiet_loop_returns:
  assumes "hook_quiet opts"
  shows "\<exists>total. fst (publish_loop clock publish opts handled res b) = Inr total"
  using assms
proof (induction clock publish opts handled res b rule: publish_loop.induct)
  case (1 clock publish opts handled res b)
  show ?case
  proof (cases "length handled \<ge> batchLimit opts")
    case True
    then show ?thesis by (simp add: publish_loop.simps [of clock publish opts handled res b])
  next
    case False
    show ?thesis
    proof (cases "next_due (clock (length handled)) handled (fst b)")
      case None
      with False show ?thesis by (simp add: publish_loop.simps [of clock publish opts handled res b])
    next
      case (Some e)
      obtain out b1 where claimed:
        "publishClaimed (clock (length handled)) (maxTries opts) (backoff opts) publish e b = (out, b1)"
        by (metis prod.exhaust)
      obtain b2 where hook: "dead_hook opts out e b1 = (Inr (), b2)" using hook_quiet_Inr [OF "1.prems"] by metis
      from "1.IH" [OF False Some claimed [symmetric] refl refl refl hook [symmetric] refl refl "1.prems"]
      show ?thesis
        using False Some claimed hook
        by (simp add: publish_loop.simps [of clock publish opts handled res b] Let_def)
    qed
  qed
qed

lemma all_ids_handled:
  assumes "distinct handled" and "set handled \<subseteq> entryId ` set rows" and "length rows \<le> length handled"
  shows "set handled = entryId ` set rows"
proof (rule card_subset_eq [OF finite_imageI [OF finite_set] assms(2)])
  have "card (entryId ` set rows) \<le> card (set rows)" by (rule card_image_le) simp
  also have "\<dots> \<le> length rows" by (rule card_length)
  also have "\<dots> \<le> card (set handled)" using assms(1,3) by (simp add: distinct_card)
  finally show "card (set handled) = card (entryId ` set rows)"
    using card_mono [OF finite_imageI [OF finite_set] assms(2)] by simp
qed

lemma processed_tried: "processed tries a b \<Longrightarrow> tried tries n a \<Longrightarrow> tried tries (Suc n) b"
  by (auto simp: processed_def tried_def)


lemma full_batch_tries_all:
  assumes "hook_quiet opts" and dist: "distinct (map entryId (fst b))"
    and limit: "length (fst b) \<le> batchLimit opts" and over: "waiting_is_over clock (fst b)"
    and tried: "\<forall>e \<in> set (fst b). tried (maxTries opts) n e"
    and run: "publishBatch clock publish opts b = (r, handled, b')"
  shows "map entryId (fst b') = map entryId (fst b) \<and> (\<forall>e \<in> set (fst b'). tried (maxTries opts) (Suc n) e)"
proof -
  have "list_all2 (batch_step (maxTries opts) []) (fst b) (fst b)"
    by (simp add: batch_step_def list_all2_same)
  note inv = publish_loop_inv [OF run [unfolded publishBatch_def] this dist]
  obtain total where r: "r = Inr total"
    using quiet_loop_returns [OF assms(1)] run unfolding publishBatch_def by (metis fst_conv)
  have rel: "list_all2 (batch_step (maxTries opts) handled) (fst b) (fst b')" and d: "distinct handled"
    and sub: "set handled \<subseteq> entryId ` set (fst b)"
    and stop: "length handled = batchLimit opts \<or> (\<forall>e \<in> set (fst b'). \<not> due (clock (length handled)) handled e)"
    using inv r by (simp_all add: tally_ok_def)
  have short: "length handled \<le> length (fst b)"
  proof -
    have "length handled = card (set handled)" using d by (simp add: distinct_card)
    also have "\<dots> \<le> card (entryId ` set (fst b))" using sub by (simp add: card_mono)
    also have "\<dots> \<le> length (fst b)" by (metis card_length list.set_map length_map)
    finally show ?thesis .
  qed
  have "list_all2 (\<lambda>a x. tried (maxTries opts) (Suc n) x) (fst b) (fst b')"
    using rel
  proof (rule list.rel_mono_strong)
    fix a x assume a: "a \<in> set (fst b)" and x: "x \<in> set (fst b')" and step: "batch_step (maxTries opts) handled a x"
    have ta: "tried (maxTries opts) n a" using tried a by simp
    show "tried (maxTries opts) (Suc n) x"
    proof (cases "entryId a \<in> set handled")
      case True
      then show ?thesis using step processed_tried [OF _ ta] by (simp add: batch_step_def)
    next
      case False
      then have same: "x = a" using step by (simp add: batch_step_def)
      have "length handled \<noteq> batchLimit opts"
        using all_ids_handled [OF d sub] limit a False by auto
      then have "\<not> due (clock (length handled)) handled a" using stop x same by blast
      moreover have "case entryNext a of None \<Rightarrow> True | Some t \<Rightarrow> t \<le> clock (length handled)"
        using over a short by (simp add: waiting_is_over_def)
      ultimately have "settled a" using False by (auto simp: due_def settled_def)
      then show ?thesis using same by (simp add: tried_def)
    qed
  qed
  then have "\<forall>x \<in> set (fst b'). tried (maxTries opts) (Suc n) x"
    by (auto simp: list_all2_conv_all_nth in_set_conv_nth)
  then show ?thesis using batch_ids [OF rel] by simp
qed

text \<open>
  C16. Every event is settled: with a dead-letter hook that does not throw, a limit no smaller than the
  outbox, and each batch run once the waiting times of the rows are over, as many batches as the cap on
  attempts leave every row published or dead, whatever the handlers do.
\<close>

theorem every_event_is_settled:
  assumes "hook_quiet opts" and "distinct (map entryId (fst b))" and "length (fst b) \<le> batchLimit opts"
    and "\<forall>e \<in> set (fst b). settled e \<or> entryAttempts e < maxTries opts"
    and "\<forall>n < maxTries opts. waiting_is_over (clocks n) (fst (run_batches clocks publish opts n b))"
  shows "\<forall>e \<in> set (fst (run_batches clocks publish opts (maxTries opts) b)). settled e"
proof -
  have "n \<le> maxTries opts \<Longrightarrow>
      map entryId (fst (run_batches clocks publish opts n b)) = map entryId (fst b) \<and>
      (\<forall>e \<in> set (fst (run_batches clocks publish opts n b)). tried (maxTries opts) n e)" for n
  proof (induction n)
    case 0
    then show ?case using assms(4) by (auto simp: tried_def)
  next
    case (Suc n)
    let ?b = "run_batches clocks publish opts n b"
    have ids: "map entryId (fst ?b) = map entryId (fst b)"
      and tr: "\<forall>e \<in> set (fst ?b). tried (maxTries opts) n e" using Suc by simp_all
    have len: "length (fst ?b) \<le> batchLimit opts" using assms(3) map_eq_imp_length_eq [OF ids] by simp
    obtain r handled b' where run: "publishBatch (clocks n) publish opts ?b = (r, handled, b')"
      by (metis prod.exhaust)
    have "waiting_is_over (clocks n) (fst ?b)" using assms(5) Suc.prems by simp
    from full_batch_tries_all [OF assms(1) _ len this tr run]
    show ?case using run ids assms(2) by simp
  qed
  from this [of "maxTries opts"] show ?thesis by (auto simp: tried_def)
qed

definition sample_entry :: outbox_entry where
  "sample_entry =
     \<lparr>entryId = js ''e1'',
      entryEvent = \<lparr>eventTenant = js ''t1'', eventType = js ''project.published'', aggregateId = js ''p1'',
        aggregateVersion = 1, eventProject = None, eventPayload = [], eventCorrelation = js ''c1'',
        eventCausation = None\<rparr>,
      entryOccurred = 0, entryAttempts = 0, entryPublished = False, entryDead = False, entryNext = None,
      entryError = None, entrySkip = []\<rparr>"

definition sample_options :: "nat publish_options" where
  "sample_options = \<lparr>batchLimit = 3, maxTries = 2, backoff = 1000, onDeadLetter = None\<rparr>"

definition broken_publish :: "nat publish" where
  "broken_publish e w = (Inl (js ''down''), w + 1)"

lemma sample_batch:
  assumes "entryNext e = None \<or> (\<exists>t. entryNext e = Some t \<and> t \<le> c)" and "\<not> entryPublished e" and "\<not> entryDead e"
  shows "publishBatch (\<lambda>k. c) broken_publish sample_options ([e], w) =
    (let dead = 2 \<le> entryAttempts e + 1 in
     (Inr \<lparr>published = 0, failed = 1, deadLettered = if dead then 1 else 0\<rparr>, [entryId e],
      [mark_failed c (delaySeconds 1000 (entryAttempts e + 1)) (entryAttempts e + 1) dead (js ''down'') e], w + 1))"
  using assms
  by (auto simp: publishBatch_def publish_loop.simps next_due_def due_def publishClaimed_def broken_publish_def
      update_entry_def dead_hook_def count_outcome_def sample_options_def mark_failed_def Let_def)

lemma batch_accounts_for_its_events_witness:
  "fst (publishBatch (\<lambda>k. 0) broken_publish sample_options ([sample_entry], 0)) =
     Inr \<lparr>published = 0, failed = 1, deadLettered = 0\<rparr> \<and>
   list_all2 (batch_step 2 [js ''e1'']) [sample_entry] [mark_failed 0 1 1 False (js ''down'') sample_entry]"
proof -
  have run: "publishBatch (\<lambda>k. 0) broken_publish sample_options ([sample_entry], 0) =
    (Inr \<lparr>published = 0, failed = 1, deadLettered = 0\<rparr>, [js ''e1''],
     [mark_failed 0 1 1 False (js ''down'') sample_entry], 1)"
    by (subst sample_batch) (simp_all add: sample_entry_def delaySeconds_def)
  from batch_accounts_for_its_events [OF run]
  have "list_all2 (batch_step 2 [js ''e1'']) [sample_entry] [mark_failed 0 1 1 False (js ''down'') sample_entry]"
    by (simp add: sample_options_def) (metis (no_types))
  with run show ?thesis by simp
qed

lemma every_event_is_settled_witness:
  "list_all settled (fst (run_batches (\<lambda>n k. 10000 * int n) broken_publish sample_options 2 ([sample_entry], 0)))"
proof -
  let ?run = "\<lambda>n. run_batches (\<lambda>n k. 10000 * int n) broken_publish sample_options n ([sample_entry], 0)"
  have one: "?run 1 = ([mark_failed 0 1 1 False (js ''down'') sample_entry], 1)"
    by (subst One_nat_def, subst run_batches.simps, subst run_batches.simps, subst sample_batch)
      (simp_all add: sample_entry_def delaySeconds_def)
  have "waiting_is_over (\<lambda>k. 10000 * int n) (fst (?run n))" if "n < 2" for n
  proof -
    from that consider "n = 0" | "n = 1" by linarith
    then show ?thesis
      using one by cases (simp_all add: waiting_is_over_def sample_entry_def mark_failed_def)
  qed
  with every_event_is_settled [of sample_options "([sample_entry], 0)" "\<lambda>n k. 10000 * int n" broken_publish]
  have "\<forall>e \<in> set (fst (?run 2)). settled e" by (simp add: sample_options_def sample_entry_def hook_quiet_def)
  then show ?thesis by (simp only: list_all_iff)
qed


section \<open>Handlers run once\<close>

definition finished :: "inbox \<Rightarrow> outbox_entry \<Rightarrow> 'w handler \<Rightarrow> bool" where
  "finished inbox e h \<longleftrightarrow> alreadyProcessed inbox (entryId e) (handlerKey h)"

lemma run_handlers_inbox: "run_handlers hs e (inbox, w) = (r, inbox', w') \<Longrightarrow> set inbox \<subseteq> set inbox'"
proof (induction hs arbitrary: inbox w)
  case (Cons h hs)
  show ?case
  proof (cases "alreadyProcessed inbox (entryId e) (handlerKey h)")
    case True
    with Cons.prems show ?thesis using Cons.IH [of inbox w] by simp
  next
    case False
    obtain q v where run: "handle h e w = (q, v)" by fastforce
    show ?thesis
    proof (cases q)
      case (Inl msg)
      with False Cons.prems run show ?thesis by auto
    next
      case (Inr u)
      with False Cons.prems run
      have "run_handlers hs e (inbox @ [(entryId e, handlerKey h)], v) = (r, inbox', w')"
        by (simp add: claimEvent_def alreadyProcessed_def)
      from Cons.IH [OF this] show ?thesis by simp
    qed
  qed
qed simp

lemma run_finished:
  "\<forall>h \<in> set hs. finished inbox e h \<Longrightarrow> run_handlers (hs @ rest) e (inbox, w) = run_handlers rest e (inbox, w)"
  by (induction hs) (auto simp: finished_def)

lemma run_handlers_stop:
  assumes "run_handlers hs e (inbox, w) = (r, inbox', w')"
  shows "case r of
      Inr _ \<Rightarrow> \<forall>h \<in> set hs. finished inbox' e h
    | Inl msg \<Rightarrow> \<exists>before h rest. hs = before @ h # rest \<and> (\<forall>g \<in> set before. finished inbox' e g) \<and>
        \<not> finished inbox' e h \<and> take (length (handlerName h)) msg = handlerName h"
  using assms
proof (induction hs arbitrary: inbox w)
  case Nil
  then show ?case by auto
next
  case (Cons h hs)
  show ?case
  proof (cases "finished inbox e h")
    case True
    then have rest: "run_handlers hs e (inbox, w) = (r, inbox', w')" using Cons.prems by (simp add: finished_def)
    have kept: "finished inbox' e h"
      using True run_handlers_inbox [OF rest] by (auto simp: finished_def alreadyProcessed_def)
    show ?thesis using Cons.IH [OF rest] kept by (auto split: sum.splits) (metis append_Cons set_ConsD)
  next
    case False
    obtain q w1 where run: "handle h e w = (q, w1)" by fastforce
    show ?thesis
    proof (cases q)
      case (Inl msg)
      then have "r = Inl (handlerName h @ js '': '' @ describeError msg)" and "inbox' = inbox"
        using Cons.prems False run by (auto simp: finished_def)
      then show ?thesis using False by (auto intro!: exI [of _ "[]"])
    next
      case (Inr u)
      then have rest: "run_handlers hs e (inbox @ [(entryId e, handlerKey h)], w1) = (r, inbox', w')"
        using Cons.prems False run by (simp add: finished_def alreadyProcessed_def claimEvent_def)
      have kept: "finished inbox' e h"
        using run_handlers_inbox [OF rest] by (auto simp: finished_def alreadyProcessed_def)
      show ?thesis using Cons.IH [OF rest] kept by (auto split: sum.splits) (metis append_Cons set_ConsD)
    qed
  qed
qed

text \<open>
  C18. Delivery at least once, with the work of a handler done once: after a delivery that succeeded, every
  handler the event concerns is in the inbox, and delivering it again runs none of them and changes
  nothing. After one that failed, the error names the handler that failed, those before it are in the
  inbox, and the next delivery starts with that handler.
\<close>

theorem redelivery_resumes:
  assumes "dispatch handlers e (inbox, w) = (r, inbox', w')"
  shows "case r of
      Inr _ \<Rightarrow> (\<forall>h \<in> set (relevant handlers e). finished inbox' e h) \<and>
        (\<forall>v. dispatch handlers e (inbox', v) = (Inr (), inbox', v))
    | Inl msg \<Rightarrow> \<exists>before h rest. relevant handlers e = before @ h # rest \<and>
        (\<forall>g \<in> set before. finished inbox' e g) \<and> \<not> finished inbox' e h \<and>
        take (length (handlerName h)) msg = handlerName h \<and>
        (\<forall>v. dispatch handlers e (inbox', v) = run_handlers (h # rest) e (inbox', v))"
proof -
  note stop = run_handlers_stop [OF assms [unfolded dispatch_def]]
  show ?thesis
  proof (cases r)
    case (Inl msg)
    with stop obtain before h rest where
      split: "relevant handlers e = before @ h # rest" "\<forall>g \<in> set before. finished inbox' e g"
        "\<not> finished inbox' e h" "take (length (handlerName h)) msg = handlerName h" by auto
    then have "dispatch handlers e (inbox', v) = run_handlers (h # rest) e (inbox', v)" for v
      by (simp only: dispatch_def run_finished)
    with split Inl show ?thesis by auto
  next
    case (Inr u)
    with stop have "\<forall>h \<in> set (relevant handlers e). finished inbox' e h" by simp
    moreover from run_finished [OF this, where rest = "[]"]
    have "dispatch handlers e (inbox', v) = (Inr (), inbox', v)" for v by (simp add: dispatch_def)
    ultimately show ?thesis using Inr by simp
  qed
qed

definition sample_handler :: "char list \<Rightarrow> nat \<Rightarrow> nat handler" where
  "sample_handler name bound =
     \<lparr>handlerName = js name, handlerVersion = js ''1'', accepts = (\<lambda>t. True),
      handle = (\<lambda>e w. if w < bound then (Inr (), w + 1) else (Inl (js ''down''), w)), settleDead = None\<rparr>"

lemma redelivery_resumes_witness:
  "\<exists>before h rest. relevant [sample_handler ''first'' 1, sample_handler ''second'' 1] sample_entry = before @ h # rest \<and>
     (\<forall>g \<in> set before. finished [(js ''e1'', js ''first@1'')] sample_entry g) \<and>
     \<not> finished [(js ''e1'', js ''first@1'')] sample_entry h"
proof -
  have "dispatch [sample_handler ''first'' 1, sample_handler ''second'' 1] sample_entry ([], 0) =
    (Inl (js ''second: down''), [(js ''e1'', js ''first@1'')], 1)"
    by (simp add: dispatch_def relevant_def sample_handler_def sample_entry_def alreadyProcessed_def handlerKey_def
        claimEvent_def describeError_def MAX_ERROR_LENGTH_def js_def)
  from redelivery_resumes [OF this] show ?thesis by auto
qed

end
