(* ===== verification/Outbox_Replay.thy ===== *)
theory Outbox_Replay
  imports Outbox_Laws
begin

text \<open>
  Replaying events of the outbox (\<open>apps/jobs-worker/src/outbox-replay.ts\<close>): the checks of the request, the
  plan of what each handler will do, and the reset of the rows. A limit that is not an integer is \<open>None\<close>.
  The time of the replay and the detail column of its audit row are left out; the random correlation
  is an argument.
\<close>

section \<open>The request\<close>

record replay_selection =
  selectedIds :: "js_string list"
  selectedType :: "js_string option"
  includePublished :: bool
  replayLimit :: "int option"

record replay_options =
  dryRun :: bool
  skipHandlers :: "js_string list"
  replayReason :: js_string

definition validateReplayInput :: "replay_selection \<Rightarrow> replay_options \<Rightarrow> 'w handler list \<Rightarrow> js_string + unit" where
  "validateReplayInput selection options handlers =
     (let unknown = filter (\<lambda>n. n \<notin> set (map handlerName handlers)) (skipHandlers options)
      in if length (selectedIds selection) = 0 \<and> selectedType selection = None
         then Inl (js ''Select events with --event-id or --event-type'')
         else if (case replayLimit selection of None \<Rightarrow> True | Some n \<Rightarrow> n < 1)
         then Inl (js ''--limit must be a positive integer'')
         else if length unknown > 0 then Inl (js ''Unknown handler(s): '' @ js_join (js '', '') unknown)
         else if \<not> dryRun options \<and> length (js_trim (replayReason options)) = 0
         then Inl (js ''--reason is required when not a dry run'')
         else Inr ())"

section \<open>The plan\<close>

datatype event_status = Ev_dead_lettered | Ev_published | Ev_pending

datatype replay_action = Act_run | Act_already_processed | Act_skipped

record plan_item =
  planEvent :: js_string
  planTenant :: js_string
  planType :: js_string
  planStatus :: event_status
  planHandlers :: "(js_string \<times> replay_action) list"

definition selected_rows :: "replay_selection \<Rightarrow> outbox_entry list \<Rightarrow> outbox_entry list" where
  "selected_rows selection rows =
     (let ids = selectedIds selection;
          wanted = filter (\<lambda>e.
            (length ids = 0 \<or> entryId e \<in> set ids) \<and>
            (case selectedType selection of None \<Rightarrow> True | Some t \<Rightarrow> eventType (entryEvent e) = t) \<and>
            (entryDead e \<or> includePublished selection \<and> entryPublished e)) rows
      in take (case replayLimit selection of None \<Rightarrow> 0 | Some n \<Rightarrow> nat n)
           (sort_key entryOccurred (sort_key entryId wanted)))"

definition planned_action :: "js_string list \<Rightarrow> js_string list \<Rightarrow> 'w handler \<Rightarrow> replay_action" where
  "planned_action skip doneKeys h =
     (if handlerName h \<in> set skip then Act_skipped
      else if handlerKey h \<in> set doneKeys then Act_already_processed
      else Act_run)"

definition plan_of :: "'w handler list \<Rightarrow> js_string list \<Rightarrow> inbox \<Rightarrow> outbox_entry \<Rightarrow> plan_item" where
  "plan_of handlers skip inbox e =
     (let doneKeys = map snd (filter (\<lambda>p. fst p = entryId e) inbox);
          type = eventType (entryEvent e)
      in \<lparr>planEvent = entryId e, planTenant = eventTenant (entryEvent e), planType = type,
          planStatus = (if entryDead e then Ev_dead_lettered else if entryPublished e then Ev_published else Ev_pending),
          planHandlers = map (\<lambda>h. (handlerName h, planned_action skip doneKeys h))
            (filter (\<lambda>h. accepts h type) handlers)\<rparr>)"

section \<open>The replay\<close>

record replay_result =
  resultDryRun :: bool
  resultItems :: "plan_item list"
  resultReplayed :: nat

definition replayed_entry :: "js_string list \<Rightarrow> outbox_entry \<Rightarrow> outbox_entry" where
  "replayed_entry skip e =
     e\<lparr>entryPublished := False, entryDead := False, entryAttempts := 0, entryNext := None, entryError := None,
       entrySkip := skip\<rparr>"

definition replay_audit :: "js_string \<Rightarrow> js_string \<Rightarrow> plan_item \<Rightarrow> audit_row" where
  "replay_audit reason correlation item =
     \<lparr>auditTenant = planTenant item, auditProject = None, auditActor = None, auditWallet = None,
      effectiveRole = ROLE_DEPLOY_BOUND, auditCommand = js ''outbox.event.replayed'',
      auditResourceType = js ''outbox_event'', auditResource = Some (planEvent item), auditBefore = None,
      auditAfter = None, auditReason = Some reason, auditCorrelation = correlation\<rparr>"

fun replay_items ::
    "replay_options \<Rightarrow> js_string \<Rightarrow> plan_item list \<Rightarrow> outbox_entry list \<times> audit_row list \<Rightarrow>
     outbox_entry list \<times> audit_row list" where
  "replay_items options correlation [] s = s"
| "replay_items options correlation (item # items) (rows, audit) =
     replay_items options correlation items
       (update_entry (planEvent item) (replayed_entry (skipHandlers options)) rows,
        recordAudit (replay_audit (replayReason options) correlation item) audit)"

definition replayEvents ::
    "'w handler list \<Rightarrow> replay_selection \<Rightarrow> replay_options \<Rightarrow> js_string \<Rightarrow> inbox \<Rightarrow>
     outbox_entry list \<times> audit_row list \<Rightarrow> js_string + replay_result \<times> outbox_entry list \<times> audit_row list" where
  "replayEvents handlers selection options correlation inbox s =
     and_then (validateReplayInput selection options handlers) (\<lambda>_.
       let items = map (plan_of handlers (skipHandlers options) inbox) (selected_rows selection (fst s))
       in if dryRun options \<or> length items = 0
          then Inr (\<lparr>resultDryRun = dryRun options, resultItems = items, resultReplayed = 0\<rparr>, s)
          else Inr (\<lparr>resultDryRun = False, resultItems = items, resultReplayed = length items\<rparr>,
                    replay_items options correlation items s))"

section \<open>The plan is what runs\<close>

lemma replay_items_rows:
  "fst (replay_items options correlation items (rows, audit)) =
     map (\<lambda>e. if entryId e \<in> set (map planEvent items) then replayed_entry (skipHandlers options) e else e) rows"
proof (induction items arbitrary: rows audit)
  case Nil
  then show ?case by simp
next
  case (Cons item items)
  have "entryId (replayed_entry skip e) = entryId e" "replayed_entry skip (replayed_entry skip e) = replayed_entry skip e"
    for skip e by (simp_all add: replayed_entry_def)
  then show ?case by (simp add: Cons.IH update_entry_def)
qed

lemma replay_items_audit:
  "snd (replay_items options correlation items (rows, audit)) =
     audit @ map (replay_audit (replayReason options) correlation) items"
  by (induction items arbitrary: rows audit) (simp_all add: recordAudit_def)

lemma plan_runs:
  "map fst (filter (\<lambda>p. snd p = Act_run) (planHandlers (plan_of handlers skip inbox e))) =
     map handlerName (filter (\<lambda>h. \<not> finished inbox e h) (relevant handlers (replayed_entry skip e)))"
proof -
  have act: "planned_action skip (map snd (filter (\<lambda>p. fst p = entryId e) inbox)) h = Act_run \<longleftrightarrow>
      handlerName h \<notin> set skip \<and> \<not> finished inbox e h" for h :: "'b handler"
    by (force simp: planned_action_def finished_def alreadyProcessed_def)
  show ?thesis
    by (simp add: plan_of_def Let_def relevant_def replayed_entry_def filter_map comp_def act conj_commute conj_left_commute)
qed

text \<open>
  C38. A replay does what its plan says. A dry run changes nothing. An applied one resets exactly the
  events it lists, each of which was dead or, when asked, published; each is due at once with all its attempts,
  has one audit row that names it, and its next delivery runs just the handlers that the plan marks
  to run; every other event is left alone.
\<close>

theorem replay_does_what_it_plans:
  assumes "replayEvents handlers selection options correlation inbox (rows, audit) = Inr (res, rows', audit')"
  shows "resultItems res = map (plan_of handlers (skipHandlers options) inbox) (selected_rows selection rows) \<and>
    (if dryRun options then rows' = rows \<and> audit' = audit
     else list_all2 (\<lambda>e e'.
            if entryId e \<in> set (map planEvent (resultItems res))
            then e' = replayed_entry (skipHandlers options) e \<and> due now [] e' \<and>
              map fst (filter (\<lambda>p. snd p = Act_run) (planHandlers (plan_of handlers (skipHandlers options) inbox e))) =
              map handlerName (filter (\<lambda>h. \<not> finished inbox e' h) (relevant handlers e'))
            else e' = e) rows rows' \<and>
          map auditResource (drop (length audit) audit') = map (Some \<circ> planEvent) (resultItems res))"
proof -
  let ?items = "map (plan_of handlers (skipHandlers options) inbox) (selected_rows selection rows)"
  have valid: "validateReplayInput selection options handlers = Inr ()"
    using assms by (cases "validateReplayInput selection options handlers") (auto simp: replayEvents_def)
  have due: "due now [] (replayed_entry skip e)" for skip e by (simp add: due_def replayed_entry_def)
  have fin: "finished inbox (replayed_entry skip e) h \<longleftrightarrow> finished inbox e h" for skip e and h :: "'b handler"
    by (simp add: finished_def replayed_entry_def)
  have items: "resultItems res = ?items"
    using assms valid by (auto simp: replayEvents_def Let_def split: if_splits)
  show ?thesis
  proof (cases "dryRun options \<or> ?items = []")
    case True
    then have "rows' = rows" "audit' = audit"
      using assms valid by (auto simp: replayEvents_def Let_def)
    with True items show ?thesis by (auto simp: list_all2_same)
  next
    case False
    then have "(rows', audit') = replay_items options correlation ?items (rows, audit)"
      using assms valid by (simp add: replayEvents_def Let_def)
    then have r: "rows' = fst (replay_items options correlation ?items (rows, audit))"
      "audit' = snd (replay_items options correlation ?items (rows, audit))" by (metis fst_conv snd_conv)+
    have "list_all2 (\<lambda>e e'.
            if entryId e \<in> set (map planEvent ?items)
            then e' = replayed_entry (skipHandlers options) e \<and> due now [] e' \<and>
              map fst (filter (\<lambda>p. snd p = Act_run) (planHandlers (plan_of handlers (skipHandlers options) inbox e))) =
              map handlerName (filter (\<lambda>h. \<not> finished inbox e' h) (relevant handlers e'))
            else e' = e) rows rows'"
      unfolding r(1) replay_items_rows list_all2_map2
      by (rule list_all2_refl) (simp only: plan_runs due fin split: if_splits, simp)
    moreover have "map auditResource (drop (length audit) audit') = map (Some \<circ> planEvent) ?items"
      unfolding r(2) replay_items_audit by (simp add: replay_audit_def)
    ultimately show ?thesis using False items by (simp only: if_False simp_thms de_Morgan_disj)
  qed
qed


definition dead_entry :: outbox_entry where
  "dead_entry = sample_entry\<lparr>entryDead := True, entryAttempts := 5\<rparr>"

definition sample_selection :: replay_selection where
  "sample_selection =
     \<lparr>selectedIds = [js ''e1''], selectedType = None, includePublished = False, replayLimit = Some 10\<rparr>"

definition sample_replay :: replay_options where
  "sample_replay = \<lparr>dryRun = False, skipHandlers = [], replayReason = js ''fixed''\<rparr>"

lemma replay_does_what_it_plans_witness:
  "\<exists>res rows audit.
     replayEvents [sample_handler ''first'' 1, sample_handler ''second'' 1] sample_selection sample_replay (js ''c'')
       [(js ''e1'', js ''first@1'')] ([dead_entry], []) = Inr (res, rows, audit) \<and>
     resultReplayed res = 1 \<and> map auditResource audit = [Some (js ''e1'')]"
proof -
  let ?handlers = "[sample_handler ''first'' 1, sample_handler ''second'' 1]" and ?inbox = "[(js ''e1'', js ''first@1'')]"
  have valid: "validateReplayInput sample_selection sample_replay ?handlers = Inr ()"
    by (simp add: validateReplayInput_def sample_selection_def sample_replay_def js_trim_def js_whitespace_def js_def)
  have rows: "selected_rows sample_selection [dead_entry] = [dead_entry]"
    by (simp add: selected_rows_def sample_selection_def dead_entry_def sample_entry_def)
  obtain s where run: "replayEvents ?handlers sample_selection sample_replay (js ''c'') ?inbox ([dead_entry], []) =
      Inr (\<lparr>resultDryRun = False, resultItems = [plan_of ?handlers [] ?inbox dead_entry], resultReplayed = 1\<rparr>, s)"
    using valid rows by (simp add: replayEvents_def sample_replay_def Let_def)
  obtain rows' audit' where s: "s = (rows', audit')" by (metis prod.exhaust)
  have "planEvent (plan_of ?handlers [] ?inbox dead_entry) = js ''e1''"
    by (simp add: plan_of_def Let_def dead_entry_def sample_entry_def)
  with replay_does_what_it_plans [OF run [unfolded s], of 0]
  have "map auditResource audit' = [Some (js ''e1'')]" by (simp add: sample_replay_def)
  with run s show ?thesis by simp
qed

end
