(* ===== verification/Governance_Route.thy ===== *)
theory Governance_Route
  imports Governance Machines Hash Request_Guards Authorize_Laws Event_Log
begin

text \<open>
  Governance proposals as the API runs them: \<open>apps/api/src/routes/governance.ts\<close> and
  \<open>apps/api/src/services/vote-weight.ts\<close>. The tables are lists of rows, a proposal named by its tenant and
  identifier; each mutation is one transaction. What the handlers read from a chain (the head, a
  balance, a total supply) is the argument \<open>governance_chain\<close>, whose reads may fail with a text. Fresh
  identifiers and the clock are arguments, and so is the pattern of a GUID. The column
  \<open>voting_closes_at\<close>, which no handler writes, the detail columns of the audit log and the constraints and
  triggers of the database are left out.
\<close>

section \<open>The tables\<close>

type_synonym proposal_key = "js_string \<times> js_string"

datatype denominator_source = Onchain_total_supply | Manual_denominator

datatype vote_choice = Vote_for | Vote_against | Vote_abstain

record proposal_row =
  proposalKey :: proposal_key
  proposalSpace :: policy_space
  proposalProject :: "js_string option"
  proposalType :: js_string
  proposalTitle :: js_string
  proposalRationale :: js_string
  proposalState :: proposal_state
  proposerSubject :: js_string
  quorumN :: int
  quorumD :: int
  thresholdN :: int
  thresholdD :: int
  votingOpens :: "int option"
  proposalCreated :: int
  proposalVersion :: nat
  snapshotBlock :: "int option"
  snapshotToken :: "js_string option"
  snapshotChain :: "int option"
  denominatorWeight :: "int option"
  denominatorSource :: "denominator_source option"
  conflictDisclosure :: js_string
  executionMode :: js_string

record vote_row =
  voteProposal :: proposal_key
  voter :: js_string
  voteChoice :: vote_choice
  voteWeight :: int
  voteWallet :: "js_string option"

record weight_row =
  weightProposal :: proposal_key
  weightWallet :: js_string
  readWeight :: int
  weightBlock :: int

record tally_view =
  viewFor :: int
  viewAgainst :: int
  viewAbstain :: int
  viewParticipated :: int
  viewQuorumMet :: bool
  viewThresholdMet :: bool
  provisionalOutcome :: tally_outcome
  viewReason :: js_string

record gov_transition =
  gtProposal :: proposal_key
  gtFrom :: proposal_state
  gtTo :: proposal_state
  gtReason :: js_string
  gtActor :: "js_string option"
  gtTally :: tally_view
  gtAt :: int

record execution_row =
  exProposal :: proposal_key
  exId :: js_string
  exFrom :: proposal_state
  exOutcome :: proposal_state
  exRecorder :: js_string
  exExecutor :: js_string
  exAuthority :: js_string
  exAction :: js_string
  exContract :: "js_string option"
  exContractHash :: "js_string option"
  exExternal :: "js_string option"
  exEffective :: "js_string option"
  exEvidence :: js_string
  exEvidenceHash :: js_string
  exLimitations :: "js_string list"
  exAt :: int

record governance_db =
  proposal_rows :: "proposal_row list"
  vote_rows :: "vote_row list"
  weight_rows :: "weight_row list"
  gov_transitions :: "gov_transition list"
  execution_rows :: "execution_row list"
  active_wallets :: "(js_string \<times> js_string) list"
  gov_audit :: "audit_row list"
  gov_outbox :: "domain_event list"

definition find_proposal :: "governance_db \<Rightarrow> proposal_key \<Rightarrow> proposal_row option" where
  "find_proposal db pk = find (\<lambda>r. proposalKey r = pk) (proposal_rows db)"

definition update_proposal :: "proposal_key \<Rightarrow> (proposal_row \<Rightarrow> proposal_row) \<Rightarrow> proposal_row list \<Rightarrow> proposal_row list" where
  "update_proposal pk f = map (\<lambda>r. if proposalKey r = pk then f r else r)"

section \<open>The chain\<close>

record governance_chain =
  headBlockNumber :: "int option"
  readBalance :: "js_string \<Rightarrow> js_string \<Rightarrow> int \<Rightarrow> js_string + int"
  readTotalSupply :: "js_string \<Rightarrow> int \<Rightarrow> js_string + int"
  tokenAddress :: "js_string option"
  chainId :: int
  chainDepth :: int

definition chainForSpace :: "governance_chain option \<Rightarrow> policy_space \<Rightarrow> governance_chain option" where
  "chainForSpace chain space = (case space of Space_protocol \<Rightarrow> chain | Space_project \<Rightarrow> None)"

definition snapshotBlockFor :: "int \<Rightarrow> int \<Rightarrow> int" where
  "snapshotBlockFor headBlock confirmationDepth = max 0 (headBlock - confirmationDepth)"

definition block_text :: "int \<Rightarrow> js_string" where
  "block_text b = js_decimal (nat b)"

section \<open>What a reader sees\<close>

primrec proposal_state_name :: "proposal_state \<Rightarrow> js_string" where
  "proposal_state_name Pr_draft = js ''draft''"
| "proposal_state_name Pr_review = js ''review''"
| "proposal_state_name Pr_announced = js ''announced''"
| "proposal_state_name Pr_voting = js ''voting''"
| "proposal_state_name Pr_succeeded = js ''succeeded''"
| "proposal_state_name Pr_defeated = js ''defeated''"
| "proposal_state_name Pr_no_quorum = js ''no_quorum''"
| "proposal_state_name Pr_timelocked = js ''timelocked''"
| "proposal_state_name Pr_recorded = js ''recorded''"
| "proposal_state_name Pr_execution_pending = js ''execution_pending''"
| "proposal_state_name Pr_executed = js ''executed''"
| "proposal_state_name Pr_failed = js ''failed''"
| "proposal_state_name Pr_disputed = js ''disputed''"
| "proposal_state_name Pr_cancelled = js ''cancelled''"

primrec tally_state :: "tally_outcome \<Rightarrow> proposal_state" where
  "tally_state Tally_succeeded = Pr_succeeded"
| "tally_state Tally_defeated = Pr_defeated"
| "tally_state Tally_no_quorum = Pr_no_quorum"

definition weight_of :: "governance_db \<Rightarrow> proposal_key \<Rightarrow> vote_choice \<Rightarrow> int" where
  "weight_of db pk choice =
     sum_list (map voteWeight (filter (\<lambda>v. voteProposal v = pk \<and> voteChoice v = choice) (vote_rows db)))"

text \<open>The denominator is the one of the row; while it has none, everybody who voted.\<close>

definition tally_of :: "governance_db \<Rightarrow> proposal_row \<Rightarrow> tally_input" where
  "tally_of db row =
     (let f = weight_of db (proposalKey row) Vote_for; g = weight_of db (proposalKey row) Vote_against;
          h = weight_of db (proposalKey row) Vote_abstain
      in \<lparr>forWeight = f, againstWeight = g, abstainWeight = h,
          eligibleWeight = (case denominatorWeight row of None \<Rightarrow> f + g + h | Some w \<Rightarrow> w),
          quorumNumerator = quorumN row, quorumDenominator = quorumD row,
          thresholdNumerator = thresholdN row, thresholdDenominator = thresholdD row\<rparr>)"

definition tally_view_of :: "governance_db \<Rightarrow> proposal_row \<Rightarrow> tally_view" where
  "tally_view_of db row =
     (let t = tally_of db row; res = tallyVotes t
      in \<lparr>viewFor = forWeight t, viewAgainst = againstWeight t, viewAbstain = abstainWeight t,
          viewParticipated = forWeight t + againstWeight t + abstainWeight t, viewQuorumMet = quorumMet res,
          viewThresholdMet = thresholdMet res, provisionalOutcome = outcome res, viewReason = tallyReason res\<rparr>)"

definition executionStateOf :: "proposal_state \<Rightarrow> proposal_state option" where
  "executionStateOf st =
     (if st = Pr_execution_pending \<or> st = Pr_executed \<or> st = Pr_failed \<or> st = Pr_disputed then Some st else None)"

definition GOVERNANCE_LIMITATIONS :: "js_string list" where
  "GOVERNANCE_LIMITATIONS =
     [js ''A vote result does not create legal facts, permits, or contractual effect'',
      js ''Executing a passed proposal is a separate act and does not happen automatically'',
      js ''This result does not change reviewer credentials or review outcomes'']"

definition MANUAL_ELIGIBLE_WEIGHT_LIMITATION :: js_string where
  "MANUAL_ELIGIBLE_WEIGHT_LIMITATION =
     js ''The quorum denominator is a human-specified value and was not confirmed against on-chain total supply''"

datatype weight_source = Onchain_snapshot | Manual_weight

record proposal_view =
  shownRow :: proposal_row
  shownTally :: tally_view
  shownTransitions :: "gov_transition list"
  shownWeightSource :: weight_source
  shownExecutionState :: "proposal_state option"
  shownExecutions :: "execution_row list"
  shownLimitations :: "js_string list"
  shownRequestId :: js_string
  shownAsOf :: js_string

text \<open>\<open>snapshot_block\<close> comes back as text, so block 0 counts as a snapshot here.\<close>

definition toView :: "governance_db \<Rightarrow> proposal_row \<Rightarrow> js_string \<Rightarrow> js_string \<Rightarrow> proposal_view" where
  "toView db row rid at_time =
     \<lparr>shownRow = row, shownTally = tally_view_of db row,
      shownTransitions = sort_key gtAt (filter (\<lambda>t. gtProposal t = proposalKey row) (gov_transitions db)),
      shownWeightSource = (if snapshotBlock row \<noteq> None then Onchain_snapshot else Manual_weight),
      shownExecutionState = executionStateOf (proposalState row),
      shownExecutions =
        sort_key exAt (sort_key exId (filter (\<lambda>x. exProposal x = proposalKey row) (execution_rows db))),
      shownLimitations =
        GOVERNANCE_LIMITATIONS @
        (case snapshotBlock row of None \<Rightarrow> [] | Some b \<Rightarrow> [js ''Weight is the balance at block '' @ block_text b]) @
        (if denominatorSource row = Some Manual_denominator then [MANUAL_ELIGIBLE_WEIGHT_LIMITATION] else []),
      shownRequestId = rid, shownAsOf = at_time\<rparr>"

definition loadProposal :: "governance_db \<Rightarrow> proposal_key \<Rightarrow> js_string \<Rightarrow> js_string \<Rightarrow> app_error + proposal_view" where
  "loadProposal db pk rid at_time =
     (case find_proposal db pk of
        None \<Rightarrow> Inl (notFound (js ''Proposal not found''))
      | Some row \<Rightarrow> Inr (toView db row rid at_time))"


section \<open>Requests\<close>

record governance_request =
  govHead :: incoming
  govDigest :: js_string
  govRequestId :: js_string
  govAsOf :: js_string
  govCorrelation :: js_string

definition spaceOfProject :: "js_string option \<Rightarrow> policy_space" where
  "spaceOfProject project = (if project = None then Space_protocol else Space_project)"

definition proposalResource :: "js_string \<Rightarrow> js_string option \<Rightarrow> resource_context" where
  "proposalResource tenant project =
     (case project of
        None \<Rightarrow> tenantResource tenant (no_resource_overrides\<lparr>overSensitivity := Some (js ''public'')\<rparr>)
      | Some p \<Rightarrow> projectResource tenant p (no_resource_overrides\<lparr>overSensitivity := Some (js ''public'')\<rparr>))"

definition proposalProjectId :: "governance_db \<Rightarrow> proposal_key \<Rightarrow> app_error + js_string option" where
  "proposalProjectId db pk =
     (case find_proposal db pk of
        None \<Rightarrow> Inl (notFound (js ''Proposal not found''))
      | Some row \<Rightarrow> Inr (proposalProject row))"

section \<open>Reading\<close>

definition PROPOSAL_LIST_LIMIT :: nat where
  "PROPOSAL_LIST_LIMIT = 100"

definition capRows :: "'a list \<Rightarrow> nat \<Rightarrow> 'a list \<times> bool" where
  "capRows rows limit = (take limit rows, length rows > limit)"

definition listed_proposals :: "governance_db \<Rightarrow> js_string \<Rightarrow> project_scope \<Rightarrow> proposal_row list" where
  "listed_proposals db tenant visible =
     take (PROPOSAL_LIST_LIMIT + 1)
       (rev (sort_key proposalCreated (sort_key (\<lambda>r. snd (proposalKey r))
         (filter (\<lambda>r. fst (proposalKey r) = tenant \<and>
             (case proposalProject r of None \<Rightarrow> True | Some p \<Rightarrow> scope_includes visible p))
           (proposal_rows db)))))"

definition listProposals :: "governance_request \<Rightarrow> governance_db \<Rightarrow> app_error + proposal_view list \<times> bool" where
  "listProposals q db =
     and_then (requireReadContext (govHead q)) (\<lambda>(s, tenant).
     and_then (assertAuthorized s (js ''governance.read'') (proposalResource tenant None)
                 (sessionFacts s no_actor_overrides)) (\<lambda>_.
       (let (items, truncated) = capRows (listed_proposals db tenant (visibleProjectScope s (js ''governance.read'')))
              PROPOSAL_LIST_LIMIT
        in Inr (map (\<lambda>r. toView db r (govRequestId q) (govAsOf q)) items, truncated))))"

definition getProposal :: "governance_request \<Rightarrow> js_string \<Rightarrow> governance_db \<Rightarrow> app_error + proposal_view" where
  "getProposal q proposal db =
     and_then (requireReadContext (govHead q)) (\<lambda>(s, tenant).
     (case find_proposal db (tenant, proposal) of
        None \<Rightarrow> Inl (notFound (js ''Proposal not found''))
      | Some row \<Rightarrow>
          and_then (assertAuthorized s (js ''governance.read'') (proposalResource tenant (proposalProject row))
                      (sessionFacts s no_actor_overrides)) (\<lambda>_.
          Inr (toView db row (govRequestId q) (govAsOf q)))))"

section \<open>Creating a proposal\<close>

text \<open>The body of the request; a nullable field that is absent or null is \<open>None\<close>, as is a missing default.\<close>

record create_body =
  bodySpace :: js_string
  bodyProject :: "js_string option"
  bodyType :: js_string
  bodyTitle :: js_string
  bodyRationale :: js_string
  bodyQuorumN :: "int option"
  bodyQuorumD :: "int option"
  bodyThresholdN :: "int option"
  bodyThresholdD :: "int option"
  bodyEligible :: "js_string option"
  bodyConflict :: js_string
  bodyMode :: js_string

definition js_safe_positive :: "int option \<Rightarrow> bool" where
  "js_safe_positive n = (case n of None \<Rightarrow> True | Some v \<Rightarrow> 0 < v \<and> v \<le> 9007199254740991)"

text \<open>\<open>/^[1-9]\d*$/\<close>.\<close>

definition positive_numeral :: "js_string \<Rightarrow> bool" where
  "positive_numeral s \<longleftrightarrow> s \<noteq> [] \<and> hd s \<noteq> 48 \<and> list_all js_digit s"

definition parse_create :: "(js_string \<Rightarrow> bool) \<Rightarrow> create_body option \<Rightarrow> (policy_space \<times> create_body) option" where
  "parse_create is_guid body =
     (case body of
        None \<Rightarrow> None
      | Some b \<Rightarrow>
          if bodySpace b \<noteq> js ''protocol'' \<and> bodySpace b \<noteq> js ''project'' then None
          else if (case bodyProject b of None \<Rightarrow> False | Some p \<Rightarrow> \<not> is_guid p) then None
          else if length (bodyType b) < 1 \<or> length (bodyTitle b) < 1 \<or> length (bodyRationale b) < 1 then None
          else if \<not> js_safe_positive (bodyQuorumN b) \<or> \<not> js_safe_positive (bodyQuorumD b) \<or>
                  \<not> js_safe_positive (bodyThresholdN b) \<or> \<not> js_safe_positive (bodyThresholdD b) then None
          else if (case bodyEligible b of None \<Rightarrow> False | Some w \<Rightarrow> \<not> positive_numeral w) then None
          else if length (js_trim (bodyConflict b)) < 1 \<or> bodyMode b \<notin> set EXECUTION_MODES then None
          else Some (if bodySpace b = js ''protocol'' then Space_protocol else Space_project,
                     b\<lparr>bodyConflict := js_trim (bodyConflict b)\<rparr>))"

definition new_proposal :: "int \<Rightarrow> proposal_key \<Rightarrow> js_string \<Rightarrow> policy_space \<Rightarrow> create_body \<Rightarrow> proposal_row" where
  "new_proposal now pk subject space b =
     \<lparr>proposalKey = pk, proposalSpace = space, proposalProject = bodyProject b, proposalType = bodyType b,
      proposalTitle = bodyTitle b, proposalRationale = bodyRationale b, proposalState = Pr_draft,
      proposerSubject = subject, quorumN = given 1 (bodyQuorumN b), quorumD = given 4 (bodyQuorumD b),
      thresholdN = given 1 (bodyThresholdN b), thresholdD = given 2 (bodyThresholdD b), votingOpens = None,
      proposalCreated = now, proposalVersion = 1, snapshotBlock = None, snapshotToken = None, snapshotChain = None,
      denominatorWeight = map_option (\<lambda>w. int (decimal_value w)) (bodyEligible b), denominatorSource = None,
      conflictDisclosure = bodyConflict b, executionMode = bodyMode b\<rparr>"

definition create_work ::
    "int \<Rightarrow> js_string \<Rightarrow> session \<Rightarrow> js_string \<Rightarrow> policy_space \<Rightarrow> create_body \<Rightarrow> js_string \<Rightarrow> governance_request \<Rightarrow>
     governance_db \<Rightarrow> app_error + proposal_view \<times> governance_db" where
  "create_work now fresh s tenant space b erole q db =
     (case sessionSubjectId s of
        None \<Rightarrow> Inl unexpected_error
      | Some subject \<Rightarrow>
          (let db' = db\<lparr>
             proposal_rows := proposal_rows db @ [new_proposal now (tenant, fresh) subject space b],
             gov_audit := recordAudit
               \<lparr>auditTenant = tenant, auditProject = bodyProject b, auditActor = Some subject, auditWallet = None,
                effectiveRole = erole, auditCommand = js ''governance.proposal.created'',
                auditResourceType = js ''governance_proposal'', auditResource = Some fresh, auditBefore = None,
                auditAfter = None, auditReason = None, auditCorrelation = govCorrelation q\<rparr> (gov_audit db)\<rparr>
           in and_then (loadProposal db' (tenant, fresh) (govRequestId q) (govAsOf q)) (\<lambda>view. Inr (view, db'))))"

definition deny_name :: "governance_deny_reason \<Rightarrow> js_string" where
  "deny_name r =
     (case r of
        GOVERNANCE_SPACE_MISMATCH \<Rightarrow> js ''GOVERNANCE_SPACE_MISMATCH''
      | GOVERNANCE_UNKNOWN_PROPOSAL_TYPE \<Rightarrow> js ''GOVERNANCE_UNKNOWN_PROPOSAL_TYPE''
      | GOVERNANCE_PROJECT_SCOPE_MISMATCH \<Rightarrow> js ''GOVERNANCE_PROJECT_SCOPE_MISMATCH'')"

type_synonym governance_idb = "(governance_db, proposal_view) idempotent_db"

definition createProposal ::
    "(js_string \<Rightarrow> bool) \<Rightarrow> int \<Rightarrow> js_string \<Rightarrow> governance_request \<Rightarrow> create_body option \<Rightarrow> governance_idb \<Rightarrow>
     app_error + proposal_view \<times> governance_idb" where
  "createProposal is_guid now fresh q body idb =
     and_then (requireMutationContext (govHead q)) (\<lambda>(s, tenant, key).
     (case parse_create is_guid body of
        None \<Rightarrow> Inl (badRequest (js ''REQUEST_INVALID'') (js ''Request format is invalid''))
      | Some (space, b) \<Rightarrow>
          if space = Space_project \<and> (bodyProject b = None \<or> bodyProject b = Some [])
          then Inl (badRequest (js ''PROPOSAL_PROJECT_REQUIRED'') (js ''projectId is required for project space''))
          else if space = Space_protocol \<and> bodyProject b \<noteq> None \<and> bodyProject b \<noteq> Some []
          then Inl (badRequest (js ''PROPOSAL_PROJECT_FORBIDDEN'') (js ''A protocol proposal has no projectId''))
          else
            and_then (assertAuthorized s (governanceAction space Verb_propose) (proposalResource tenant (bodyProject b))
                        (sessionFacts s no_actor_overrides)) (\<lambda>erole.
            if isForbiddenTarget (bodyType b)
            then Inl (unprocessable (js ''GOVERNANCE_TARGET_FORBIDDEN'') (js ''This target cannot be decided by vote'')
              (Some [(js ''proposalType'', Detail_string (bodyType b))]))
            else (case checkProposalSpace
                (if space = Space_protocol then Protocol_space else Project_space (given [] (bodyProject b)))
                (bodyType b) of
              Space_denied r \<Rightarrow>
                Inl (unprocessable (deny_name r) (js ''This proposal type is not allowed in this space'')
                  (Some [(js ''space'', Detail_string (bodySpace b)),
                         (js ''proposalType'', Detail_string (bodyType b))]))
            | Space_allowed \<Rightarrow>
                withIdempotency tenant key (govDigest q) (create_work now fresh s tenant space b erole q) idb))))"


section \<open>Moving a proposal\<close>

definition REQUESTABLE_PROPOSAL_STATES :: "proposal_state list" where
  "REQUESTABLE_PROPOSAL_STATES =
     [Pr_review, Pr_announced, Pr_voting, Pr_succeeded, Pr_defeated, Pr_no_quorum, Pr_timelocked, Pr_recorded,
      Pr_execution_pending, Pr_executed, Pr_failed, Pr_cancelled]"

definition EXECUTION_OUTCOMES :: "proposal_state list" where
  "EXECUTION_OUTCOMES = [Pr_executed, Pr_failed, Pr_disputed]"

definition CLOSING :: "proposal_state list" where
  "CLOSING = [Pr_succeeded, Pr_defeated, Pr_no_quorum]"

definition parse_move :: "(js_string \<times> js_string) option \<Rightarrow> (proposal_state \<times> js_string) option" where
  "parse_move body =
     (case body of
        None \<Rightarrow> None
      | Some (target, reason) \<Rightarrow>
          if length reason < 1 then None
          else map_option (\<lambda>t. (t, reason)) (find (\<lambda>t. proposal_state_name t = target) REQUESTABLE_PROPOSAL_STATES))"

record voting_snapshot =
  fixedBlock :: "int option"
  fixedWeight :: "int option"
  fixedSource :: "denominator_source option"

definition resolveVotingSnapshot ::
    "governance_chain option \<Rightarrow> proposal_row \<Rightarrow> proposal_state \<Rightarrow> app_error + voting_snapshot" where
  "resolveVotingSnapshot spaceChain current target =
     (if target \<noteq> Pr_voting then Inr \<lparr>fixedBlock = None, fixedWeight = None, fixedSource = None\<rparr>
      else case (case spaceChain of None \<Rightarrow> None
             | Some c \<Rightarrow> (case tokenAddress c of None \<Rightarrow> None | Some t \<Rightarrow> if t = [] then None else Some (c, t))) of
        Some (c, token) \<Rightarrow>
          (case headBlockNumber c of
             None \<Rightarrow> Inl unexpected_error
           | Some head_block \<Rightarrow>
               (let block = snapshotBlockFor head_block (chainDepth c) in
                case readTotalSupply c token block of
                  Inl why \<Rightarrow>
                    Inl (unprocessable (js ''ELIGIBLE_WEIGHT_UNAVAILABLE'')
                      (js ''Cannot open voting: total supply at the snapshot block could not be read'')
                      (Some [(js ''blockNumber'', Detail_string (block_text block)),
                             (js ''reason'', Detail_string (take 200 why))]))
                | Inr totalSupply \<Rightarrow>
                    if totalSupply = 0
                    then Inl (unprocessable (js ''ELIGIBLE_WEIGHT_ZERO'')
                      (js ''Total supply is 0 and cannot serve as the quorum denominator'')
                      (Some [(js ''blockNumber'', Detail_string (block_text block)),
                             (js ''tokenAddress'', Detail_string token)]))
                    else Inr \<lparr>fixedBlock = Some block, fixedWeight = Some totalSupply,
                              fixedSource = Some Onchain_total_supply\<rparr>))
      | None \<Rightarrow>
          (case denominatorWeight current of
             Some w \<Rightarrow> Inr \<lparr>fixedBlock = None, fixedWeight = Some w, fixedSource = Some Manual_denominator\<rparr>
           | None \<Rightarrow>
               Inl (unprocessable (js ''ELIGIBLE_WEIGHT_REQUIRED'') (js ''Cannot open voting: no quorum denominator'')
                 (Some [(js ''space'', Detail_string (space_name (proposalSpace current)))]))))"

definition or_else :: "'a option \<Rightarrow> 'a option \<Rightarrow> 'a option" where
  "or_else x y = (case x of None \<Rightarrow> y | Some v \<Rightarrow> Some v)"

text \<open>Block 0 is not truthy: with it the token and the chain of the snapshot are not recorded.\<close>

definition moved_proposal ::
    "int \<Rightarrow> governance_chain option \<Rightarrow> voting_snapshot \<Rightarrow> proposal_state \<Rightarrow> proposal_row \<Rightarrow> proposal_row" where
  "moved_proposal now spaceChain snap target row =
     (let pinned = fixedBlock snap \<noteq> None \<and> fixedBlock snap \<noteq> Some 0
      in row\<lparr>proposalState := target, proposalVersion := proposalVersion row + 1,
             votingOpens := (if target = Pr_voting then Some now else votingOpens row),
             snapshotBlock := or_else (fixedBlock snap) (snapshotBlock row),
             snapshotToken := (if pinned then Option.bind spaceChain tokenAddress else snapshotToken row),
             snapshotChain := (if pinned then map_option chainId spaceChain else snapshotChain row),
             denominatorWeight := or_else (fixedWeight snap) (denominatorWeight row),
             denominatorSource := or_else (fixedSource snap) (denominatorSource row)\<rparr>)"

definition transition_detail :: "proposal_row \<Rightarrow> proposal_state \<Rightarrow> (js_string \<times> error_detail) list" where
  "transition_detail row target =
     [(js ''fromState'', Detail_string (proposal_state_name (proposalState row))),
      (js ''toState'', Detail_string (proposal_state_name target))]"

definition apply_move ::
    "int \<Rightarrow> session \<Rightarrow> governance_chain option \<Rightarrow> voting_snapshot \<Rightarrow> proposal_row \<Rightarrow> proposal_state \<Rightarrow> js_string \<Rightarrow>
     js_string \<Rightarrow> js_string \<Rightarrow> governance_db \<Rightarrow> governance_db" where
  "apply_move now s spaceChain snap row target reason erole corr db =
     (let pk = proposalKey row in
      db\<lparr>proposal_rows := update_proposal pk (moved_proposal now spaceChain snap target) (proposal_rows db),
         gov_transitions := gov_transitions db @
           [\<lparr>gtProposal = pk, gtFrom = proposalState row, gtTo = target, gtReason = reason,
             gtActor = sessionSubjectId s, gtTally = tally_view_of db row, gtAt = now\<rparr>],
         gov_audit := recordAudit
           \<lparr>auditTenant = fst pk, auditProject = None, auditActor = sessionSubjectId s, auditWallet = None,
            effectiveRole = erole, auditCommand = js ''governance.proposal.transitioned'',
            auditResourceType = js ''governance_proposal'', auditResource = Some (snd pk),
            auditBefore = Some (proposalVersion row), auditAfter = Some (proposalVersion row + 1),
            auditReason = Some reason, auditCorrelation = corr\<rparr> (gov_audit db),
         gov_outbox := enqueueEvent
           \<lparr>eventTenant = fst pk, eventType = js ''governance.proposal.transitioned'', aggregateId = snd pk,
            aggregateVersion = proposalVersion row + 1, eventProject = None,
            eventPayload = transition_detail row target, eventCorrelation = corr, eventCausation = None\<rparr>
           (gov_outbox db)\<rparr>)"

definition move_work ::
    "int \<Rightarrow> governance_chain option \<Rightarrow> session \<Rightarrow> proposal_key \<Rightarrow> js_double \<Rightarrow> js_string \<Rightarrow> proposal_state \<Rightarrow> js_string \<Rightarrow>
     governance_request \<Rightarrow> governance_db \<Rightarrow> app_error + proposal_view \<times> governance_db" where
  "move_work now chain s pk expected erole target reason q db =
     (case find_proposal db pk of
        None \<Rightarrow> Inl (notFound (js ''Proposal not found''))
      | Some current \<Rightarrow>
          and_then (assertVersionMatches expected (proposalVersion current) (js ''governance_proposal'')) (\<lambda>_.
          if \<not> canTransition proposalMachine (proposalState current) target
          then Inl (conflict (js ''INVALID_STATE_TRANSITION'') (js ''State transition not allowed'')
            (Some (transition_detail current target @
              [(js ''allowedTransitions'',
                Detail_strings (map proposal_state_name (targets proposalMachine (proposalState current))))])))
          else
            (let view = tally_view_of db current in
             if target \<in> set CLOSING \<and> tally_state (provisionalOutcome view) \<noteq> target
             then Inl (unprocessable (js ''TALLY_MISMATCH'') (js ''Cannot close with a state that differs from the tally'')
               (Some [(js ''requested'', Detail_string (proposal_state_name target)),
                      (js ''computed'', Detail_string (proposal_state_name (tally_state (provisionalOutcome view)))),
                      (js ''reason'', Detail_string (viewReason view))]))
             else
               (let spaceChain = chainForSpace chain (proposalSpace current) in
                and_then (resolveVotingSnapshot spaceChain current target) (\<lambda>snap.
                (let db' = apply_move now s spaceChain snap current target reason erole (govCorrelation q) db
                 in and_then (loadProposal db' pk (govRequestId q) (govAsOf q)) (\<lambda>v. Inr (v, db'))))))))"

definition moveProposal ::
    "int \<Rightarrow> governance_chain option \<Rightarrow> governance_request \<Rightarrow> js_string \<Rightarrow> (js_string \<times> js_string) option \<Rightarrow>
     governance_idb \<Rightarrow> app_error + proposal_view \<times> governance_idb" where
  "moveProposal now chain q proposal body idb =
     and_then (requireMutationContext (govHead q)) (\<lambda>(s, tenant, key).
     and_then (requireIfMatch (govHead q)) (\<lambda>expected.
     (case parse_move body of
        None \<Rightarrow> Inl (badRequest (js ''REQUEST_INVALID'') (js ''Request format is invalid''))
      | Some (target, reason) \<Rightarrow>
          if target \<in> set EXECUTION_OUTCOMES
          then Inl (conflict (js ''EXECUTION_RECORD_REQUIRED'')
            (js ''This state is reached only by recording the off-chain execution'')
            (Some [(js ''toState'', Detail_string (proposal_state_name target)),
                   (js ''path'', Detail_string (js ''/api/v1/governance/proposals/'' @ proposal @
                     js ''/execution-records''))]))
          else
            and_then (proposalProjectId (world idb) (tenant, proposal)) (\<lambda>project.
            and_then (assertAuthorized s (governanceAction (spaceOfProject project) Verb_administer)
                        (proposalResource tenant project) (sessionFacts s no_actor_overrides)) (\<lambda>erole.
            withIdempotency tenant key (govDigest q)
              (move_work now chain s (tenant, proposal) expected erole target reason q) idb)))))"

section \<open>Voting\<close>

fun vote_space_reason :: "role_binding list \<Rightarrow> governance_space \<Rightarrow> governance_deny_reason \<Rightarrow> governance_deny_reason option" where
  "vote_space_reason [] space r = Some r"
| "vote_space_reason (b # bs) space r =
     (case voterSpaceOf (bindingRole b) (projectId b) of
        None \<Rightarrow> vote_space_reason bs space GOVERNANCE_PROJECT_SCOPE_MISMATCH
      | Some voterSpace \<Rightarrow>
          (case checkVoteEligibility voterSpace space of
             Space_allowed \<Rightarrow> None
           | Space_denied why \<Rightarrow> vote_space_reason bs space why))"

definition voter_bindings :: "role_binding list \<Rightarrow> role_binding list" where
  "voter_bindings = filter (\<lambda>b. bindingRole b = js ''protocol_voter'' \<or> bindingRole b = js ''project_voter'')"

definition assertVoteEligible :: "role_binding list \<Rightarrow> js_string option \<Rightarrow> app_error + unit" where
  "assertVoteEligible bindings project =
     (let space = (case project of None \<Rightarrow> Protocol_space | Some p \<Rightarrow> Project_space p);
          voters = voter_bindings bindings
      in if length voters = 0 then Inr ()
         else case vote_space_reason voters space GOVERNANCE_SPACE_MISMATCH of
           None \<Rightarrow> Inr ()
         | Some r \<Rightarrow>
             Inl (forbidden (deny_name r) (js ''Your voting rights do not cover this proposal'' @ [0x27] @ js ''s space'')
               (Some [(js ''space'', Detail_string (if project = None then js ''protocol'' else js ''project''))])))"

definition governanceWallet :: "governance_db \<Rightarrow> js_string \<Rightarrow> app_error + js_string" where
  "governanceWallet db subject =
     (case map_of (active_wallets db) subject of
        None \<Rightarrow> Inl (unprocessable (js ''GOVERNANCE_WALLET_REQUIRED'')
          (js ''Bind a signing wallet before voting on an on-chain snapshot proposal: its balance is your weight'') None)
      | Some w \<Rightarrow> Inr w)"

definition find_weight :: "governance_db \<Rightarrow> proposal_key \<Rightarrow> js_string \<Rightarrow> weight_row option" where
  "find_weight db pk wallet = find (\<lambda>r. weightProposal r = pk \<and> weightWallet r = wallet) (weight_rows db)"

text \<open>Without a chain the reader always fails, as the route passes it.\<close>

definition balance_reader :: "governance_chain option \<Rightarrow> js_string \<Rightarrow> js_string \<Rightarrow> int \<Rightarrow> js_string + int" where
  "balance_reader spaceChain =
     (case spaceChain of
        None \<Rightarrow> (\<lambda>token wallet block. Inl (js ''Error: Chain client is not configured''))
      | Some c \<Rightarrow> readBalance c)"

definition resolveVoteWeight ::
    "proposal_key \<Rightarrow> js_string option \<Rightarrow> int option \<Rightarrow> js_string option \<Rightarrow> int option \<Rightarrow>
     (js_string \<Rightarrow> js_string \<Rightarrow> int \<Rightarrow> js_string + int) \<Rightarrow> governance_db \<Rightarrow>
     app_error + (int \<times> weight_source) \<times> governance_db" where
  "resolveVoteWeight pk wallet block token manual read db =
     (case (case (block, token) of
              (Some b, Some t) \<Rightarrow> if b = 0 \<or> t = [] then None else Some (b, t)
            | _ \<Rightarrow> None) of
        None \<Rightarrow>
          (case manual of
             None \<Rightarrow> Inl (unprocessable (js ''VOTE_WEIGHT_REQUIRED'')
               (js ''Weight must be specified directly for proposals without an on-chain snapshot'') None)
           | Some w \<Rightarrow> Inr ((w, Manual_weight), db))
      | Some (b, t) \<Rightarrow>
          (case wallet of
             None \<Rightarrow> Inl (unprocessable (js ''GOVERNANCE_WALLET_REQUIRED'')
               (js ''A snapshot proposal reads weight from the voter'' @ [0x27] @ js ''s active signing wallet'') None)
           | Some a \<Rightarrow>
               (case find_weight db pk a of
                  Some r \<Rightarrow> Inr ((readWeight r, Onchain_snapshot), db)
                | None \<Rightarrow>
                    (case read t a b of
                       Inl why \<Rightarrow>
                         Inl (unprocessable (js ''VOTE_WEIGHT_UNAVAILABLE'')
                           (js ''Could not read the balance at the snapshot block'')
                           (Some [(js ''blockNumber'', Detail_string (block_text b)),
                                  (js ''reason'', Detail_string (take 200 why))]))
                     | Inr w \<Rightarrow>
                         Inr ((w, Onchain_snapshot),
                              db\<lparr>weight_rows := weight_rows db @
                                [\<lparr>weightProposal = pk, weightWallet = a, readWeight = w, weightBlock = b\<rparr>]\<rparr>)))))"


definition parse_vote :: "(js_string \<times> js_string option) option \<Rightarrow> (vote_choice \<times> int option) option" where
  "parse_vote body =
     (case body of
        None \<Rightarrow> None
      | Some (choice, weight) \<Rightarrow>
          if (case weight of None \<Rightarrow> False | Some w \<Rightarrow> w = [] \<or> \<not> list_all js_digit w) then None
          else (let manual = map_option (\<lambda>w. int (decimal_value w)) weight in
            if choice = js ''for'' then Some (Vote_for, manual)
            else if choice = js ''against'' then Some (Vote_against, manual)
            else if choice = js ''abstain'' then Some (Vote_abstain, manual)
            else None))"

definition on_snapshot :: "proposal_row \<Rightarrow> bool" where
  "on_snapshot row \<longleftrightarrow> snapshotBlock row \<noteq> None \<and> snapshotToken row \<noteq> None"

definition prior_vote :: "governance_db \<Rightarrow> proposal_key \<Rightarrow> js_string \<Rightarrow> vote_row option" where
  "prior_vote db pk subject = find (\<lambda>v. voteProposal v = pk \<and> voter v = subject) (vote_rows db)"

text \<open>The weight of the vote and the wallet it comes from, with the reading it stored.\<close>

definition resolved_vote ::
    "governance_chain option \<Rightarrow> proposal_row \<Rightarrow> js_string \<Rightarrow> int option \<Rightarrow> governance_db \<Rightarrow>
     app_error + (int \<times> js_string option) \<times> governance_db" where
  "resolved_vote chain row subject manual db =
     (let pk = proposalKey row in
      case (if on_snapshot row then prior_vote db pk subject else None) of
        Some v \<Rightarrow> Inr ((voteWeight v, voteWallet v), db)
      | None \<Rightarrow>
          and_then (if on_snapshot row
                    then and_then (governanceWallet db subject) (\<lambda>w. Inr (Some w)) else Inr None) (\<lambda>wallet.
          and_then (resolveVoteWeight pk wallet (snapshotBlock row) (snapshotToken row) manual
                      (balance_reader (chainForSpace chain (proposalSpace row))) db) (\<lambda>((weight, _), db').
          Inr ((weight, wallet), db'))))"

definition wallet_used :: "governance_db \<Rightarrow> proposal_key \<Rightarrow> js_string \<Rightarrow> bool" where
  "wallet_used db pk wallet = list_ex (\<lambda>v. voteProposal v = pk \<and> voteWallet v = Some wallet) (vote_rows db)"

text \<open>A second vote of the same subject changes the choice, and the weight unless it is pinned.\<close>

definition put_vote ::
    "proposal_row \<Rightarrow> js_string \<Rightarrow> vote_choice \<Rightarrow> int \<Rightarrow> js_string option \<Rightarrow> vote_row list \<Rightarrow> vote_row list" where
  "put_vote row subject choice weight wallet votes =
     (let pk = proposalKey row; mine = (\<lambda>v. voteProposal v = pk \<and> voter v = subject) in
      if list_ex mine votes
      then map (\<lambda>v. if mine v
                    then v\<lparr>voteChoice := choice,
                           voteWeight := (if on_snapshot row then voteWeight v else weight)\<rparr>
                    else v) votes
      else votes @ [\<lparr>voteProposal = pk, voter = subject, voteChoice = choice, voteWeight = weight,
                     voteWallet = wallet\<rparr>])"

text \<open>
  The row of the proposal is read without a lock: \<open>seen\<close> is the state in which this handler read it, which a
  move of another transaction may have left behind by the time the vote is stored in \<open>db\<close>. The prior vote is
  read under a lock and the wallets under a unique index, so both are those of \<open>db\<close>.
\<close>

definition vote_from ::
    "governance_db \<Rightarrow> governance_chain option \<Rightarrow> session \<Rightarrow> proposal_key \<Rightarrow> js_string \<Rightarrow> vote_choice \<Rightarrow> int option \<Rightarrow>
     governance_request \<Rightarrow> governance_db \<Rightarrow> app_error + proposal_view \<times> governance_db" where
  "vote_from seen chain s pk erole choice manual q db =
     (case find_proposal seen pk of
        None \<Rightarrow> Inl (notFound (js ''Proposal not found''))
      | Some row \<Rightarrow>
          if proposalState row \<noteq> Pr_voting
          then Inl (conflict (js ''VOTING_NOT_OPEN'') (js ''Voting is not open'')
            (Some [(js ''state'', Detail_string (proposal_state_name (proposalState row)))]))
          else case sessionSubjectId s of
            None \<Rightarrow> Inl unexpected_error
          | Some subject \<Rightarrow>
              and_then (resolved_vote chain row subject manual db) (\<lambda>((weight, wallet), db1).
              if on_snapshot row \<and> prior_vote db pk subject = None \<and>
                 (case wallet of None \<Rightarrow> False | Some w \<Rightarrow> wallet_used db1 pk w)
              then Inl (conflict (js ''GOVERNANCE_WALLET_ALREADY_VOTED'')
                (js ''This wallet'' @ [0x27] @ js ''s snapshot balance already counted on this proposal'') None)
              else
                (let db' = db1\<lparr>
                   vote_rows := put_vote row subject choice weight wallet (vote_rows db1),
                   gov_audit := recordAudit
                     \<lparr>auditTenant = fst pk, auditProject = None, auditActor = Some subject, auditWallet = None,
                      effectiveRole = erole, auditCommand = js ''governance.vote.cast'',
                      auditResourceType = js ''governance_proposal'', auditResource = Some (snd pk),
                      auditBefore = None, auditAfter = None, auditReason = None,
                      auditCorrelation = govCorrelation q\<rparr> (gov_audit db1)\<rparr>
                 in and_then (loadProposal db' pk (govRequestId q) (govAsOf q)) (\<lambda>v. Inr (v, db')))))"

definition castVoteFrom ::
    "governance_chain option \<Rightarrow> governance_request \<Rightarrow> js_string \<Rightarrow> (js_string \<times> js_string option) option \<Rightarrow>
     governance_db \<Rightarrow> governance_idb \<Rightarrow> app_error + proposal_view \<times> governance_idb" where
  "castVoteFrom chain q proposal body seen idb =
     and_then (requireMutationContext (govHead q)) (\<lambda>(s, tenant, key).
     (case parse_vote body of
        None \<Rightarrow> Inl (badRequest (js ''REQUEST_INVALID'') (js ''Request format is invalid''))
      | Some (choice, manual) \<Rightarrow>
          and_then (proposalProjectId (world idb) (tenant, proposal)) (\<lambda>project.
          and_then (assertVoteEligible (roleBindings s) project) (\<lambda>_.
          and_then (assertAuthorized s (governanceAction (spaceOfProject project) Verb_vote)
                      (proposalResource tenant project) (sessionFacts s no_actor_overrides)) (\<lambda>erole.
          withIdempotency tenant key (govDigest q)
            (vote_from seen chain s (tenant, proposal) erole choice manual q) idb)))))"

text \<open>The handler when nothing comes between its read of the proposal and its vote.\<close>

definition castVote ::
    "governance_chain option \<Rightarrow> governance_request \<Rightarrow> js_string \<Rightarrow> (js_string \<times> js_string option) option \<Rightarrow>
     governance_idb \<Rightarrow> app_error + proposal_view \<times> governance_idb" where
  "castVote chain q proposal body idb = castVoteFrom chain q proposal body (world idb) idb"

section \<open>Recording an execution\<close>

record execution_body =
  ebOutcome :: js_string
  ebExecutor :: js_string
  ebAuthority :: js_string
  ebAction :: js_string
  ebContract :: "js_string option"
  ebContractHash :: "js_string option"
  ebExternal :: "js_string option"
  ebEffective :: "js_string option"
  ebEvidence :: js_string
  ebEvidenceHash :: js_string
  ebLimitations :: "js_string list"

definition nonempty_trimmed :: "js_string \<Rightarrow> bool" where
  "nonempty_trimmed s \<longleftrightarrow> length (js_trim s) \<ge> 1"

definition optional_field :: "(js_string \<Rightarrow> bool) \<Rightarrow> js_string option \<Rightarrow> bool" where
  "optional_field good x = (case x of None \<Rightarrow> True | Some v \<Rightarrow> good v)"

text \<open>\<open>/^\d{4}-\d{2}-\d{2}$/\<close>.\<close>

definition date_shape :: "js_string \<Rightarrow> bool" where
  "date_shape s \<longleftrightarrow>
     length s = 10 \<and> s ! 4 = 0x2D \<and> s ! 7 = 0x2D \<and>
     list_all (\<lambda>i. js_digit (s ! i)) [0, 1, 2, 3, 5, 6, 8, 9]"

text \<open>\<open>/^0x[0-9a-f]{64}$/\<close>.\<close>

definition hex32 :: "js_string \<Rightarrow> bool" where
  "hex32 s \<longleftrightarrow> take 2 s = js ''0x'' \<and> length s = 66 \<and> list_all lower_hex (drop 2 s)"

definition parse_execution ::
    "execution_body option \<Rightarrow> (proposal_state \<times> execution_body) option" where
  "parse_execution body =
     (case body of
        None \<Rightarrow> None
      | Some b \<Rightarrow>
          if list_all nonempty_trimmed [ebExecutor b, ebAuthority b, ebAction b, ebEvidence b] \<and>
             optional_field nonempty_trimmed (ebContract b) \<and> optional_field nonempty_trimmed (ebExternal b) \<and>
             optional_field hex32 (ebContractHash b) \<and> optional_field date_shape (ebEffective b) \<and>
             hex32 (ebEvidenceHash b) \<and> list_all nonempty_trimmed (ebLimitations b) \<and>
             length (ebLimitations b) \<ge> 1
          then map_option (\<lambda>t. (t, b\<lparr>ebExecutor := js_trim (ebExecutor b), ebAuthority := js_trim (ebAuthority b),
                 ebAction := js_trim (ebAction b), ebContract := map_option js_trim (ebContract b),
                 ebExternal := map_option js_trim (ebExternal b), ebEvidence := js_trim (ebEvidence b),
                 ebLimitations := map js_trim (ebLimitations b)\<rparr>))
               (find (\<lambda>t. proposal_state_name t = ebOutcome b) EXECUTION_OUTCOMES)
          else None)"

definition execution_of :: "int \<Rightarrow> js_string \<Rightarrow> proposal_row \<Rightarrow> proposal_state \<Rightarrow> js_string \<Rightarrow> execution_body \<Rightarrow> execution_row" where
  "execution_of now fresh row target subject b =
     \<lparr>exProposal = proposalKey row, exId = fresh, exFrom = proposalState row, exOutcome = target,
      exRecorder = subject, exExecutor = ebExecutor b, exAuthority = ebAuthority b, exAction = ebAction b,
      exContract = ebContract b, exContractHash = ebContractHash b, exExternal = ebExternal b,
      exEffective = ebEffective b, exEvidence = ebEvidence b, exEvidenceHash = ebEvidenceHash b,
      exLimitations = ebLimitations b, exAt = now\<rparr>"

definition apply_execution ::
    "int \<Rightarrow> js_string \<Rightarrow> js_string \<Rightarrow> proposal_row \<Rightarrow> proposal_state \<Rightarrow> execution_body \<Rightarrow> js_string \<Rightarrow> js_string \<Rightarrow>
     governance_db \<Rightarrow> governance_db" where
  "apply_execution now fresh subject row target b erole corr db =
     (let pk = proposalKey row; reason = js ''Execution recorded as '' @ proposal_state_name target in
      db\<lparr>execution_rows := execution_rows db @ [execution_of now fresh row target subject b],
         proposal_rows := update_proposal pk
           (\<lambda>r. r\<lparr>proposalState := target, proposalVersion := proposalVersion r + 1\<rparr>) (proposal_rows db),
         gov_transitions := gov_transitions db @
           [\<lparr>gtProposal = pk, gtFrom = proposalState row, gtTo = target, gtReason = reason, gtActor = Some subject,
             gtTally = tally_view_of db row, gtAt = now\<rparr>],
         gov_audit := recordAudit
           \<lparr>auditTenant = fst pk, auditProject = proposalProject row, auditActor = Some subject, auditWallet = None,
            effectiveRole = erole, auditCommand = js ''governance.execution.recorded'',
            auditResourceType = js ''governance_proposal'', auditResource = Some (snd pk),
            auditBefore = Some (proposalVersion row), auditAfter = Some (proposalVersion row + 1),
            auditReason = Some reason, auditCorrelation = corr\<rparr> (gov_audit db),
         gov_outbox := enqueueEvent
           \<lparr>eventTenant = fst pk, eventType = js ''execution.status.changed'', aggregateId = snd pk,
            aggregateVersion = proposalVersion row + 1, eventProject = None,
            eventPayload = (js ''executionRecordId'', Detail_string fresh) # transition_detail row target,
            eventCorrelation = corr, eventCausation = None\<rparr> (gov_outbox db)\<rparr>)"

definition execution_work ::
    "int \<Rightarrow> js_string \<Rightarrow> session \<Rightarrow> proposal_key \<Rightarrow> js_double \<Rightarrow> js_string \<Rightarrow> proposal_state \<Rightarrow> execution_body \<Rightarrow>
     governance_request \<Rightarrow> governance_db \<Rightarrow> app_error + proposal_view \<times> governance_db" where
  "execution_work now fresh s pk expected erole target b q db =
     (case find_proposal db pk of
        None \<Rightarrow> Inl (notFound (js ''Proposal not found''))
      | Some row \<Rightarrow>
          and_then (assertVersionMatches expected (proposalVersion row) (js ''governance_proposal'')) (\<lambda>_.
          if proposalState row \<notin> {Pr_execution_pending, Pr_disputed} \<or>
             \<not> canTransition proposalMachine (proposalState row) target
          then Inl (conflict (js ''EXECUTION_NOT_PENDING'')
            (js ''Execution can be recorded only while it is pending or disputed'')
            (Some [(js ''state'', Detail_string (proposal_state_name (proposalState row))),
                   (js ''outcome'', Detail_string (proposal_state_name target)),
                   (js ''allowedTransitions'',
                    Detail_strings (map proposal_state_name (targets proposalMachine (proposalState row))))]))
          else case sessionSubjectId s of
            None \<Rightarrow> Inl unexpected_error
          | Some subject \<Rightarrow>
              (let db' = apply_execution now fresh subject row target b erole (govCorrelation q) db
               in and_then (loadProposal db' pk (govRequestId q) (govAsOf q)) (\<lambda>v. Inr (v, db')))))"

definition recordExecution ::
    "int \<Rightarrow> js_string \<Rightarrow> governance_request \<Rightarrow> js_string \<Rightarrow> execution_body option \<Rightarrow>
     governance_idb \<Rightarrow> app_error + proposal_view \<times> governance_idb" where
  "recordExecution now fresh q proposal body idb =
     and_then (requireMutationContext (govHead q)) (\<lambda>(s, tenant, key).
     and_then (requireIfMatch (govHead q)) (\<lambda>expected.
     (case parse_execution body of
        None \<Rightarrow> Inl (badRequest (js ''REQUEST_INVALID'') (js ''Request format is invalid''))
      | Some (target, b) \<Rightarrow>
          and_then (proposalProjectId (world idb) (tenant, proposal)) (\<lambda>project.
          and_then (assertAuthorized s (js ''governance.execution.record'') (proposalResource tenant project)
                      (sessionFacts s no_actor_overrides)) (\<lambda>erole.
          withIdempotency tenant key (govDigest q)
            (execution_work now fresh s (tenant, proposal) expected erole target b q) idb)))))"

end
