(* ===== verification/Tables.thy ===== *)
theory Tables
  imports Registry_Prelude
begin

text \<open>
  Tables as lists of rows named by a key: the row of a key, the update of one row, and what both do to
  each other. A query is a filter over the rows.
\<close>

definition row_by :: "('r \<Rightarrow> 'k) \<Rightarrow> 'r list \<Rightarrow> 'k \<Rightarrow> 'r option" where
  "row_by key rows k = find (\<lambda>r. key r = k) rows"

definition set_row :: "('r \<Rightarrow> 'k) \<Rightarrow> 'k \<Rightarrow> ('r \<Rightarrow> 'r) \<Rightarrow> 'r list \<Rightarrow> 'r list" where
  "set_row key k f = map (\<lambda>r. if key r = k then f r else r)"

definition keeps :: "('r \<Rightarrow> 'k) \<Rightarrow> ('r \<Rightarrow> 'r) \<Rightarrow> bool" where
  "keeps key f \<longleftrightarrow> (\<forall>r. key (f r) = key r)"

lemma row_by_simps [simp]:
  "row_by key [] k = None"
  "row_by key (r # rows) k = (if key r = k then Some r else row_by key rows k)"
  by (simp_all add: row_by_def)

lemma row_by_Some: "row_by key rows k = Some r \<Longrightarrow> r \<in> set rows \<and> key r = k"
  by (induction rows) (auto split: if_splits)

lemma row_by_None: "row_by key rows k = None \<longleftrightarrow> k \<notin> key ` set rows"
  by (induction rows) auto

lemma row_by_append:
  "row_by key (rows @ new) k = (case row_by key rows k of None \<Rightarrow> row_by key new k | Some r \<Rightarrow> Some r)"
  by (induction rows) auto

lemma row_by_unique: "distinct (map key rows) \<Longrightarrow> r \<in> set rows \<Longrightarrow> row_by key rows (key r) = Some r"
  by (induction rows) auto

lemma set_row_keys [simp]: "keeps key f \<Longrightarrow> map key (set_row key k f rows) = map key rows"
  by (induction rows) (auto simp: set_row_def keeps_def)

lemma set_row_image [simp]: "keeps key f \<Longrightarrow> key ` set (set_row key k f rows) = key ` set rows"
  using set_row_keys [of key f k rows] by (metis set_map)

lemma row_by_set_row:
  "keeps key f \<Longrightarrow> row_by key (set_row key k f rows) j =
     (if j = k then map_option f (row_by key rows k) else row_by key rows j)"
  by (induction rows) (auto simp: set_row_def keeps_def)

lemma row_by_map_same:
  assumes "\<And>r. key (f r) = key r"
  shows "row_by key (map f rows) k = map_option f (row_by key rows k)"
  by (induction rows) (auto simp: assms)

lemma set_row_mem:
  "r' \<in> set (set_row key k f rows) \<longleftrightarrow>
     (\<exists>r \<in> set rows. r' = (if key r = k then f r else r))"
  unfolding set_row_def set_map image_iff by simp

lemma set_row_other: "r \<in> set rows \<Longrightarrow> key r \<noteq> k \<Longrightarrow> r \<in> set (set_row key k f rows)"
  by (auto simp: set_row_def)

lemma filter_set_row:
  assumes "\<And>r. P (f r) = P r"
  shows "filter P (set_row key k f rows) = set_row key k f (filter P rows)"
  by (induction rows) (auto simp: set_row_def assms)

end
