(* ===== verification/Table_Evolution.thy ===== *)
theory Table_Evolution
  imports Tables
begin

text \<open>
  Tables whose rows stay and change only in one direction, step by step and over every run of steps.
\<close>

section \<open>Tables that only evolve\<close>

text \<open>Every row of the old table is still there, changed only as the relation allows.\<close>

definition rows_evolve :: "('r \<Rightarrow> 'k) \<Rightarrow> ('r \<Rightarrow> 'r \<Rightarrow> bool) \<Rightarrow> 'r list \<Rightarrow> 'r list \<Rightarrow> bool" where
  "rows_evolve key R old new \<longleftrightarrow>
     (\<forall>k r. row_by key old k = Some r \<longrightarrow> (\<exists>r'. row_by key new k = Some r' \<and> R r r'))"

lemma rows_evolveD:
  "rows_evolve key R old new \<Longrightarrow> row_by key old k = Some r \<Longrightarrow> \<exists>r'. row_by key new k = Some r' \<and> R r r'"
  by (simp add: rows_evolve_def)

lemma rows_evolve_same: "(\<And>r. R r r) \<Longrightarrow> rows_evolve key R rows rows"
  by (auto simp: rows_evolve_def)

lemma rows_evolve_trans:
  assumes "rows_evolve key R a b" and "rows_evolve key R b c"
    and "\<And>x y z. R x y \<Longrightarrow> R y z \<Longrightarrow> R x z"
  shows "rows_evolve key R a c"
  using assms unfolding rows_evolve_def by meson

lemma rows_evolve_append: "(\<And>r. R r r) \<Longrightarrow> rows_evolve key R rows (rows @ new)"
  by (auto simp: rows_evolve_def row_by_append)

lemma rows_evolve_set_row:
  assumes "keeps key f" and "\<And>r. R r r" and "\<And>r. row_by key rows k = Some r \<Longrightarrow> R r (f r)"
  shows "rows_evolve key R rows (set_row key k f rows)"
  using assms by (auto simp: rows_evolve_def row_by_set_row)

lemma rows_evolve_map:
  assumes "keeps key f" and "\<And>r. r \<in> set rows \<Longrightarrow> R r (f r)"
  shows "rows_evolve key R rows (map f rows)"
proof -
  have "\<And>r. key (f r) = key r" using assms(1) by (simp add: keeps_def)
  then show ?thesis
    using assms(2) row_by_Some [of key rows] by (auto simp: rows_evolve_def row_by_map_same)
qed

lemma rows_evolve_keys: "rows_evolve key R old new \<Longrightarrow> key ` set old \<subseteq> key ` set new"
proof
  fix x assume ev: "rows_evolve key R old new" and "x \<in> key ` set old"
  then have "row_by key old x \<noteq> None" by (simp add: row_by_None)
  then obtain r where "row_by key old x = Some r" by auto
  from rows_evolveD [OF ev this] have "row_by key new x \<noteq> None" by auto
  then show "x \<in> key ` set new" by (simp add: row_by_None)
qed

section \<open>Runs of steps\<close>

text \<open>
  A table of a state that steps change: what each step does to its rows, every run of steps does.
\<close>

locale evolving_table =
  fixes step :: "'d \<Rightarrow> 'd \<Rightarrow> bool" and rows :: "'d \<Rightarrow> 'r list" and key :: "'r \<Rightarrow> 'k"
    and evolves :: "'r \<Rightarrow> 'r \<Rightarrow> bool"
  assumes evolves_refl: "evolves r r"
    and evolves_trans: "evolves x y \<Longrightarrow> evolves y z \<Longrightarrow> evolves x z"
    and step_evolves: "step d d' \<Longrightarrow> rows_evolve key evolves (rows d) (rows d')"
begin

lemma run_evolves: "step\<^sup>*\<^sup>* d d' \<Longrightarrow> rows_evolve key evolves (rows d) (rows d')"
proof (induction rule: rtranclp_induct)
  case base
  show ?case by (rule rows_evolve_same) (rule evolves_refl)
next
  case (step d' d'')
  show ?case by (rule rows_evolve_trans [OF step.IH step_evolves [OF step.hyps(2)] evolves_trans])
qed

lemma row_kept:
  "step\<^sup>*\<^sup>* d d' \<Longrightarrow> row_by key (rows d) k = Some r \<Longrightarrow>
     \<exists>r'. row_by key (rows d') k = Some r' \<and> evolves r r'"
  by (rule rows_evolveD [OF run_evolves])

lemma keys_kept: "step\<^sup>*\<^sup>* d d' \<Longrightarrow> key ` set (rows d) \<subseteq> key ` set (rows d')"
  by (rule rows_evolve_keys [OF run_evolves])

end

end
