(* ===== verification/Governance_Steps.thy ===== *)
theory Governance_Steps
  imports Governance_Route Table_Evolution
begin

text \<open>
  The invariant of the governance tables and that each handler keeps it, move by move: the path of a
  proposal, its denominator, its result, its votes and the readings behind them. The handler of a vote reads
  the proposal without a lock, so its step may use the row of any earlier state of the run.
\<close>

section \<open>The rows of one proposal\<close>

definition votes_of :: "governance_db \<Rightarrow> proposal_key \<Rightarrow> vote_row list" where
  "votes_of db pk = filter (\<lambda>v. voteProposal v = pk) (vote_rows db)"

definition moves_of :: "governance_db \<Rightarrow> proposal_key \<Rightarrow> gov_transition list" where
  "moves_of db pk = filter (\<lambda>t. gtProposal t = pk) (gov_transitions db)"

definition executions_of :: "governance_db \<Rightarrow> proposal_key \<Rightarrow> execution_row list" where
  "executions_of db pk = filter (\<lambda>x. exProposal x = pk) (execution_rows db)"

definition readings_of :: "governance_db \<Rightarrow> proposal_key \<Rightarrow> weight_row list" where
  "readings_of db pk = filter (\<lambda>w. weightProposal w = pk) (weight_rows db)"

lemmas of_defs = votes_of_def moves_of_def executions_of_def readings_of_def

definition choice_weight :: "vote_row list \<Rightarrow> vote_choice \<Rightarrow> int" where
  "choice_weight vs choice = sum_list (map voteWeight (filter (\<lambda>v. voteChoice v = choice) vs))"

definition tally_with :: "proposal_row \<Rightarrow> vote_row list \<Rightarrow> tally_input" where
  "tally_with row vs =
     (let f = choice_weight vs Vote_for; g = choice_weight vs Vote_against; h = choice_weight vs Vote_abstain
      in \<lparr>forWeight = f, againstWeight = g, abstainWeight = h,
          eligibleWeight = (case denominatorWeight row of None \<Rightarrow> f + g + h | Some w \<Rightarrow> w),
          quorumNumerator = quorumN row, quorumDenominator = quorumD row,
          thresholdNumerator = thresholdN row, thresholdDenominator = thresholdD row\<rparr>)"

lemma tally_of_votes: "tally_of db row = tally_with row (votes_of db (proposalKey row))"
  by (simp add: tally_of_def tally_with_def weight_of_def choice_weight_def votes_of_def conj_commute)

definition BEFORE_VOTING :: "proposal_state list" where
  "BEFORE_VOTING = [Pr_draft, Pr_review, Pr_announced, Pr_cancelled]"

definition PASSED :: "proposal_state list" where
  "PASSED = [Pr_succeeded, Pr_timelocked, Pr_recorded, Pr_execution_pending, Pr_executed, Pr_failed, Pr_disputed]"

fun path :: "proposal_state \<Rightarrow> gov_transition list \<Rightarrow> proposal_state option" where
  "path st [] = Some st"
| "path st (t # ts) =
     (if gtFrom t = st \<and> canTransition proposalMachine st (gtTo t) then path (gtTo t) ts else None)"

lemma path_snoc:
  "path st ts = Some u \<Longrightarrow> gtFrom t = u \<Longrightarrow> canTransition proposalMachine u (gtTo t) \<Longrightarrow>
     path st (ts @ [t]) = Some (gtTo t)"
  by (induction ts arbitrary: st) (auto split: if_splits)

text \<open>The result that a state stands for, once voting is over.\<close>

definition result_of :: "proposal_state \<Rightarrow> tally_outcome option" where
  "result_of st =
     (if st \<in> set PASSED then Some Tally_succeeded
      else if st = Pr_defeated then Some Tally_defeated
      else if st = Pr_no_quorum then Some Tally_no_quorum else None)"

text \<open>A vote on a snapshot carries the reading that was stored for its wallet.\<close>

definition weighed :: "weight_row list \<Rightarrow> vote_row \<Rightarrow> bool" where
  "weighed ws v \<longleftrightarrow>
     (\<exists>w. voteWallet v = Some w \<and> list_ex (\<lambda>r. weightWallet r = w \<and> readWeight r = voteWeight v) ws)"

definition pinned :: "proposal_row \<Rightarrow> bool" where
  "pinned row \<longleftrightarrow>
     (\<exists>b t. snapshotBlock row = Some b \<and> b \<noteq> 0 \<and> snapshotToken row = Some t \<and> t \<noteq> [])"

text \<open>A move out of voting whose recorded tally has this outcome.\<close>

definition closed_with :: "tally_outcome \<Rightarrow> gov_transition list \<Rightarrow> bool" where
  "closed_with out ts \<longleftrightarrow> (\<exists>t \<in> set ts. gtFrom t = Pr_voting \<and> provisionalOutcome (gtTally t) = out)"

lemma closed_with_snoc:
  "closed_with out (ts @ [t]) \<longleftrightarrow>
     closed_with out ts \<or> gtFrom t = Pr_voting \<and> provisionalOutcome (gtTally t) = out"
  by (auto simp: closed_with_def)

definition sound_proposal ::
    "proposal_row \<Rightarrow> vote_row list \<Rightarrow> gov_transition list \<Rightarrow> execution_row list \<Rightarrow> weight_row list \<Rightarrow> bool" where
  "sound_proposal r vs ts xs ws \<longleftrightarrow>
     path Pr_draft ts = Some (proposalState r) \<and> proposalVersion r = Suc (length ts) \<and>
     (if proposalState r \<in> set BEFORE_VOTING
      then vs = [] \<and> ws = [] \<and> snapshotBlock r = None \<and> snapshotToken r = None \<and> denominatorWeight r \<noteq> Some 0
      else denominatorWeight r \<noteq> None \<and> denominatorWeight r \<noteq> Some 0) \<and>
     (case result_of (proposalState r) of None \<Rightarrow> True | Some out \<Rightarrow> closed_with out ts) \<and>
     (proposalState r \<in> set EXECUTION_OUTCOMES \<longrightarrow> (\<exists>x \<in> set xs. exOutcome x = proposalState r)) \<and>
     distinct (map voter vs) \<and>
     (on_snapshot r \<longrightarrow> pinned r \<and> distinct (map voteWallet vs) \<and> (\<forall>v \<in> set vs. weighed ws v)) \<and>
     (\<forall>w \<in> set ws. Some (weightBlock w) = snapshotBlock r)"

definition sound_in :: "governance_db \<Rightarrow> proposal_row \<Rightarrow> bool" where
  "sound_in db r =
     (let pk = proposalKey r in
      sound_proposal r (votes_of db pk) (moves_of db pk) (executions_of db pk) (readings_of db pk))"

definition governance_inv :: "governance_db \<Rightarrow> bool" where
  "governance_inv db \<longleftrightarrow>
     distinct (map proposalKey (proposal_rows db)) \<and>
     (\<forall>r \<in> set (proposal_rows db). sound_in db r) \<and>
     voteProposal ` set (vote_rows db) \<union> gtProposal ` set (gov_transitions db) \<union>
       exProposal ` set (execution_rows db) \<union> weightProposal ` set (weight_rows db)
       \<subseteq> proposalKey ` set (proposal_rows db)"

section \<open>One row changes\<close>

lemma find_proposal_Some: "find_proposal db pk = Some r \<Longrightarrow> r \<in> set (proposal_rows db) \<and> proposalKey r = pk"
  unfolding find_proposal_def by (auto dest: find_Some_set)

lemma find_proposal_unique:
  assumes "distinct (map proposalKey (proposal_rows db))" and "r \<in> set (proposal_rows db)"
  shows "find_proposal db (proposalKey r) = Some r"
proof (cases "find_proposal db (proposalKey r)")
  case None
  then show ?thesis using assms(2) by (auto simp: find_proposal_def find_eq_None_iff)
next
  case (Some q)
  then have "q \<in> set (proposal_rows db)" "proposalKey q = proposalKey r" using find_proposal_Some by blast+
  then show ?thesis using Some assms by (metis distinct_map inj_onD)
qed

lemma update_keys:
  assumes "\<And>r. proposalKey (f r) = proposalKey r"
  shows "map proposalKey (update_proposal pk f rows) = map proposalKey rows"
  using assms by (simp add: update_proposal_def)

text \<open>
  An operation on one proposal: its row becomes \<open>f r\<close>, only rows of its own are added or changed.
\<close>

lemma inv_update:
  assumes inv: "governance_inv db" and r: "find_proposal db pk = Some r"
    and rows: "proposal_rows db' = update_proposal pk f (proposal_rows db)"
    and key: "\<And>x. proposalKey (f x) = proposalKey x"
    and own: "\<And>k. k \<noteq> pk \<Longrightarrow> votes_of db' k = votes_of db k \<and> moves_of db' k = moves_of db k \<and>
        executions_of db' k = executions_of db k \<and> readings_of db' k = readings_of db k"
    and new: "sound_proposal (f r) (votes_of db' pk) (moves_of db' pk) (executions_of db' pk) (readings_of db' pk)"
  shows "governance_inv db'"
proof -
  have dist: "distinct (map proposalKey (proposal_rows db))" using inv by (simp add: governance_inv_def)
  have keys: "map proposalKey (proposal_rows db') = map proposalKey (proposal_rows db)"
    unfolding rows by (rule update_keys [OF key])
  note rpk = find_proposal_Some [OF r]
  have "sound_in db' x" if "x \<in> set (proposal_rows db')" for x
  proof -
    from that obtain y where y: "y \<in> set (proposal_rows db)" "x = (if proposalKey y = pk then f y else y)"
      unfolding rows update_proposal_def by auto
    show ?thesis
    proof (cases "proposalKey y = pk")
      case True
      then have "y = r" using dist y(1) rpk by (metis distinct_map inj_onD)
      then show ?thesis using y(2) True new key [of r] rpk by (simp add: sound_in_def)
    next
      case False
      then have "x = y" using y(2) by simp
      moreover have "sound_in db y" using inv y(1) by (simp add: governance_inv_def)
      ultimately show ?thesis using own [OF False] by (simp add: sound_in_def Let_def)
    qed
  qed
  moreover have "voteProposal ` set (vote_rows db') \<union> gtProposal ` set (gov_transitions db') \<union>
       exProposal ` set (execution_rows db') \<union> weightProposal ` set (weight_rows db')
       \<subseteq> proposalKey ` set (proposal_rows db')"
  proof -
    have pk_in: "pk \<in> proposalKey ` set (proposal_rows db)" using rpk by auto
    have same: "proposalKey ` set (proposal_rows db') = proposalKey ` set (proposal_rows db)"
      using keys by (metis list.set_map)
    have old: "k \<in> proposalKey ` set (proposal_rows db)"
      if "votes_of db k \<noteq> [] \<or> moves_of db k \<noteq> [] \<or> executions_of db k \<noteq> [] \<or> readings_of db k \<noteq> []" for k
      using that inv unfolding governance_inv_def of_defs filter_empty_conv by blast
    have new_keys: "k \<in> proposalKey ` set (proposal_rows db)"
      if "votes_of db' k \<noteq> [] \<or> moves_of db' k \<noteq> [] \<or> executions_of db' k \<noteq> [] \<or> readings_of db' k \<noteq> []" for k
      using that own [of k] old [of k] pk_in by (cases "k = pk") auto
    show ?thesis
      unfolding same using new_keys unfolding of_defs filter_empty_conv by blast
  qed
  ultimately show ?thesis using dist keys by (simp add: governance_inv_def)
qed


section \<open>Moves\<close>

lemma proposal_table:
  "canTransition proposalMachine a b \<longleftrightarrow>
     b \<in> set (case a of
        Pr_draft \<Rightarrow> [Pr_review, Pr_cancelled] | Pr_review \<Rightarrow> [Pr_announced, Pr_cancelled]
      | Pr_announced \<Rightarrow> [Pr_voting, Pr_cancelled] | Pr_voting \<Rightarrow> [Pr_succeeded, Pr_defeated, Pr_no_quorum]
      | Pr_succeeded \<Rightarrow> [Pr_timelocked] | Pr_timelocked \<Rightarrow> [Pr_recorded] | Pr_recorded \<Rightarrow> [Pr_execution_pending]
      | Pr_execution_pending \<Rightarrow> [Pr_executed, Pr_failed, Pr_disputed] | Pr_disputed \<Rightarrow> [Pr_executed, Pr_failed]
      | _ \<Rightarrow> [])"
  by (cases a) (simp_all add: canTransition_def targets_def proposalMachine_def)

lemma move_cases:
  assumes "canTransition proposalMachine a b" and "b \<notin> set EXECUTION_OUTCOMES"
  shows "a = Pr_announced \<and> b = Pr_voting \<or>
    a \<in> set BEFORE_VOTING \<and> b \<in> set BEFORE_VOTING \<and> b \<noteq> Pr_voting \<and> result_of b = None \<or>
    a = Pr_voting \<and> b \<in> set CLOSING \<or>
    a \<in> set PASSED \<and> b \<in> set PASSED \<and> a \<notin> set BEFORE_VOTING \<and> b \<notin> set BEFORE_VOTING \<and> b \<noteq> Pr_voting"
  using assms unfolding proposal_table
  by (cases a) (auto simp: EXECUTION_OUTCOMES_def BEFORE_VOTING_def CLOSING_def PASSED_def result_of_def)

lemma closing_results:
  "b \<in> set CLOSING \<Longrightarrow> tally_state out = b \<longleftrightarrow> result_of b = Some out"
  "b \<in> set CLOSING \<Longrightarrow> b \<notin> set BEFORE_VOTING \<and> b \<noteq> Pr_voting"
  by (cases out; auto simp: CLOSING_def result_of_def PASSED_def) (auto simp: CLOSING_def BEFORE_VOTING_def)

lemma tally_with_cong:
  "denominatorWeight r' = denominatorWeight r \<Longrightarrow> quorumN r' = quorumN r \<Longrightarrow> quorumD r' = quorumD r \<Longrightarrow>
     thresholdN r' = thresholdN r \<Longrightarrow> thresholdD r' = thresholdD r \<Longrightarrow> tally_with r' vs = tally_with r vs"
  by (simp add: tally_with_def)

lemma no_snapshot:
  "target \<noteq> Pr_voting \<Longrightarrow> resolveVotingSnapshot sc r target = Inr snap \<Longrightarrow>
     fixedBlock snap = None \<and> fixedWeight snap = None \<and> fixedSource snap = None"
  by (auto simp: resolveVotingSnapshot_def)

lemma voting_snapshot_cases:
  assumes "resolveVotingSnapshot sc r Pr_voting = Inr snap"
  shows "(\<exists>c t b w. sc = Some c \<and> tokenAddress c = Some t \<and> t \<noteq> [] \<and> fixedBlock snap = Some b \<and>
      fixedWeight snap = Some w \<and> w \<noteq> 0) \<or>
    fixedBlock snap = None \<and> fixedWeight snap = denominatorWeight r \<and> denominatorWeight r \<noteq> None"
  using assms
  by (auto simp: resolveVotingSnapshot_def Let_def split: option.splits sum.splits if_splits)

lemma sound_keeps:
  assumes s: "sound_proposal r vs ts xs ws"
    and path: "path Pr_draft ts' = Some (proposalState r')" "length ts' = Suc (length ts)"
    and version: "proposalVersion r' = Suc (proposalVersion r)"
    and same: "snapshotBlock r' = snapshotBlock r" "snapshotToken r' = snapshotToken r"
      "denominatorWeight r' = denominatorWeight r"
    and phase: "proposalState r' \<in> set BEFORE_VOTING \<longleftrightarrow> proposalState r \<in> set BEFORE_VOTING"
    and result: "\<And>out. result_of (proposalState r') = Some out \<Longrightarrow> closed_with out ts'"
    and execution: "proposalState r' \<in> set EXECUTION_OUTCOMES \<Longrightarrow> \<exists>x \<in> set xs'. exOutcome x = proposalState r'"
  shows "sound_proposal r' vs ts' xs' ws"
proof -
  have snap: "on_snapshot r' = on_snapshot r" "pinned r' = pinned r"
    by (simp_all add: on_snapshot_def pinned_def same)
  have "case result_of (proposalState r') of None \<Rightarrow> True | Some out \<Rightarrow> closed_with out ts'"
    using result by (cases "result_of (proposalState r')") auto
  then show ?thesis
    using s path version execution unfolding sound_proposal_def snap same phase by (simp split: if_splits)
qed

lemma governance_sound_move:
  assumes s: "sound_proposal r vs ts xs ws"
    and move: "canTransition proposalMachine (proposalState r) target" "target \<notin> set EXECUTION_OUTCOMES"
    and close: "target \<in> set CLOSING \<Longrightarrow> tally_state (provisionalOutcome (gtTally t)) = target"
    and snap: "resolveVotingSnapshot sc r target = Inr snap"
    and t: "gtFrom t = proposalState r" "gtTo t = target"
  shows "sound_proposal (moved_proposal now sc snap target r) vs (ts @ [t]) xs ws"
proof -
  let ?r = "moved_proposal now sc snap target r"
  have st: "proposalState ?r = target" "proposalVersion ?r = Suc (proposalVersion r)"
    by (simp_all add: moved_proposal_def Let_def)
  have "path Pr_draft ts = Some (proposalState r)" using s by (simp add: sound_proposal_def)
  from path_snoc [OF this t(1)] move(1) t(2) have path: "path Pr_draft (ts @ [t]) = Some target" by simp
  show ?thesis
  proof (cases "target = Pr_voting")
    case True
    then have "proposalState r = Pr_announced" using move unfolding proposal_table by (cases "proposalState r") auto
    with s have start: "vs = []" "ws = []" "snapshotBlock r = None" "snapshotToken r = None" "denominatorWeight r \<noteq> Some 0"
      "proposalVersion r = Suc (length ts)"
      by (simp_all add: sound_proposal_def BEFORE_VOTING_def)
    have "denominatorWeight ?r \<noteq> None \<and> denominatorWeight ?r \<noteq> Some 0 \<and> (on_snapshot ?r \<longrightarrow> pinned ?r)"
      using voting_snapshot_cases [OF snap [unfolded True]] start
      by (auto simp: moved_proposal_def Let_def or_else_def on_snapshot_def pinned_def)
    then show ?thesis
      using start path st True
      by (simp add: sound_proposal_def BEFORE_VOTING_def result_of_def PASSED_def EXECUTION_OUTCOMES_def)
  next
    case False
    note none = no_snapshot [OF False snap]
    have same: "snapshotBlock ?r = snapshotBlock r" "snapshotToken ?r = snapshotToken r"
      "denominatorWeight ?r = denominatorWeight r"
      using none by (simp_all add: moved_proposal_def or_else_def Let_def)
    have old: "result_of (proposalState r) = Some out \<Longrightarrow> closed_with out ts" for out
      using s by (simp add: sound_proposal_def)
    show ?thesis
    proof (rule sound_keeps [OF s _ _ st(2) same])
      show "path Pr_draft (ts @ [t]) = Some (proposalState ?r)" using path st by simp
      show "proposalState ?r \<in> set BEFORE_VOTING \<longleftrightarrow> proposalState r \<in> set BEFORE_VOTING"
        using move_cases [OF move] False closing_results(2) st(1) by (auto simp: BEFORE_VOTING_def)
      show "closed_with out (ts @ [t])" if "result_of (proposalState ?r) = Some out" for out
        using move_cases [OF move] False that old close closing_results(1) [of target] t unfolding st closed_with_snoc
        by (auto simp: result_of_def)
    qed (use st move in simp_all)
  qed
qed


section \<open>Executions\<close>

lemma sound_execution:
  assumes s: "sound_proposal r vs ts xs ws"
    and move: "canTransition proposalMachine (proposalState r) target" "target \<in> set EXECUTION_OUTCOMES"
    and t: "gtFrom t = proposalState r" "gtTo t = target" and x: "exOutcome x = target"
  shows "sound_proposal (r\<lparr>proposalState := target, proposalVersion := proposalVersion r + 1\<rparr>) vs (ts @ [t]) (xs @ [x]) ws"
proof (rule sound_keeps [OF s])
  have "path Pr_draft ts = Some (proposalState r)" using s by (simp add: sound_proposal_def)
  from path_snoc [OF this t(1)] move(1) t(2)
  show "path Pr_draft (ts @ [t]) = Some (proposalState (r\<lparr>proposalState := target, proposalVersion := proposalVersion r + 1\<rparr>))"
    by simp
  have passed: "proposalState r \<in> set PASSED" "target \<in> set PASSED" "target \<notin> set BEFORE_VOTING"
    "proposalState r \<notin> set BEFORE_VOTING"
    using move unfolding proposal_table
    by (cases "proposalState r"; auto simp: EXECUTION_OUTCOMES_def PASSED_def BEFORE_VOTING_def)+
  show "(proposalState (r\<lparr>proposalState := target, proposalVersion := proposalVersion r + 1\<rparr>) \<in> set BEFORE_VOTING) =
      (proposalState r \<in> set BEFORE_VOTING)" using passed by simp
  show "closed_with out (ts @ [t])"
    if "result_of (proposalState (r\<lparr>proposalState := target, proposalVersion := proposalVersion r + 1\<rparr>)) = Some out" for out
    using that passed s by (simp add: result_of_def sound_proposal_def closed_with_snoc)
qed (use x in simp_all)

section \<open>Votes\<close>

definition revote :: "proposal_row \<Rightarrow> js_string \<Rightarrow> vote_choice \<Rightarrow> int \<Rightarrow> vote_row \<Rightarrow> vote_row" where
  "revote row subject choice weight v =
     (if voter v = subject
      then v\<lparr>voteChoice := choice, voteWeight := (if on_snapshot row then voteWeight v else weight)\<rparr> else v)"

definition put_own :: "proposal_row \<Rightarrow> js_string \<Rightarrow> vote_choice \<Rightarrow> int \<Rightarrow> js_string option \<Rightarrow> vote_row list \<Rightarrow> vote_row list" where
  "put_own row subject choice weight wallet vs =
     (if subject \<in> voter ` set vs then map (revote row subject choice weight) vs
      else vs @ [\<lparr>voteProposal = proposalKey row, voter = subject, voteChoice = choice, voteWeight = weight,
                  voteWallet = wallet\<rparr>])"

lemma put_vote_own:
  "filter (\<lambda>v. voteProposal v = proposalKey row) (put_vote row subject choice weight wallet votes) =
     put_own row subject choice weight wallet (filter (\<lambda>v. voteProposal v = proposalKey row) votes)"
proof -
  have ex: "list_ex (\<lambda>v. voteProposal v = proposalKey row \<and> voter v = subject) votes \<longleftrightarrow>
      subject \<in> voter ` set (filter (\<lambda>v. voteProposal v = proposalKey row) votes)"
    by (auto simp: list_ex_iff)
  have "filter (\<lambda>v. voteProposal v = proposalKey row)
      (map (\<lambda>v. if voteProposal v = proposalKey row \<and> voter v = subject
         then v\<lparr>voteChoice := choice, voteWeight := (if on_snapshot row then voteWeight v else weight)\<rparr> else v) votes) =
    map (revote row subject choice weight) (filter (\<lambda>v. voteProposal v = proposalKey row) votes)"
    by (induction votes) (auto simp: revote_def)
  then show ?thesis by (simp add: put_vote_def put_own_def ex Let_def)
qed

lemma put_vote_other:
  "k \<noteq> proposalKey row \<Longrightarrow>
     filter (\<lambda>v. voteProposal v = k) (put_vote row subject choice weight wallet votes) =
     filter (\<lambda>v. voteProposal v = k) votes"
proof -
  assume k: "k \<noteq> proposalKey row"
  have "filter (\<lambda>v. voteProposal v = k)
      (map (\<lambda>v. if voteProposal v = proposalKey row \<and> voter v = subject
         then v\<lparr>voteChoice := choice, voteWeight := (if on_snapshot row then voteWeight v else weight)\<rparr> else v) votes) =
    filter (\<lambda>v. voteProposal v = k) votes"
    using k by (induction votes) auto
  then show ?thesis using k by (simp add: put_vote_def Let_def)
qed

lemma revote_keeps:
  "map voter (map (revote row subject choice weight) vs) = map voter vs"
  "map voteWallet (map (revote row subject choice weight) vs) = map voteWallet vs"
  "on_snapshot row \<Longrightarrow> weighed ws (revote row subject choice weight v) = weighed ws v"
  by (simp_all add: revote_def weighed_def)

lemma weighed_more: "weighed ws v \<Longrightarrow> weighed (ws @ new) v"
  by (auto simp: weighed_def)

lemma sound_vote:
  assumes s: "sound_proposal r vs ts xs ws" and voting: "proposalState r \<notin> set BEFORE_VOTING"
    and new: "\<forall>w \<in> set extra. Some (weightBlock w) = snapshotBlock r"
    and fresh: "on_snapshot r \<Longrightarrow> subject \<notin> voter ` set vs \<Longrightarrow>
      wallet \<notin> voteWallet ` set vs \<and>
      weighed (ws @ extra) \<lparr>voteProposal = proposalKey r, voter = subject, voteChoice = choice, voteWeight = weight, voteWallet = wallet\<rparr>"
  shows "sound_proposal r (put_own r subject choice weight wallet vs) ts xs (ws @ extra)"
proof -
  let ?vs = "put_own r subject choice weight wallet vs"
  have "distinct (map voter ?vs)"
    using s unfolding sound_proposal_def put_own_def by (auto simp: revote_keeps simp del: map_map)
  moreover have "distinct (map voteWallet ?vs) \<and> (\<forall>v \<in> set ?vs. weighed (ws @ extra) v)" if "on_snapshot r"
    using s that fresh unfolding sound_proposal_def put_own_def
    by (auto simp: revote_keeps weighed_more simp del: map_map)
  ultimately show ?thesis
    using s voting new
    by (auto simp: sound_proposal_def)
qed


section \<open>What of a proposal stays\<close>

text \<open>
  The rules of the count never change, and once voting has opened its snapshot and its denominator are kept
  and it never opens again.
\<close>

definition held :: "proposal_row \<Rightarrow> proposal_row \<Rightarrow> bool" where
  "held r r' \<longleftrightarrow>
     quorumN r' = quorumN r \<and> quorumD r' = quorumD r \<and> thresholdN r' = thresholdN r \<and> thresholdD r' = thresholdD r \<and>
     (proposalState r \<notin> set BEFORE_VOTING \<longrightarrow>
        proposalState r' \<notin> set BEFORE_VOTING \<and> snapshotBlock r' = snapshotBlock r \<and>
        snapshotToken r' = snapshotToken r \<and> denominatorWeight r' = denominatorWeight r)"

lemma held_refl: "held r r"
  by (simp add: held_def)

lemma held_trans: "held x y \<Longrightarrow> held y z \<Longrightarrow> held x z"
  by (auto simp: held_def)

lemma held_tally: "held r r' \<Longrightarrow> proposalState r \<notin> set BEFORE_VOTING \<Longrightarrow> tally_with r' vs = tally_with r vs"
  by (rule tally_with_cong) (simp_all add: held_def)

lemma held_moved:
  assumes "canTransition proposalMachine (proposalState r) target" and "target \<notin> set EXECUTION_OUTCOMES"
    and "resolveVotingSnapshot sc r target = Inr snap"
  shows "held r (moved_proposal now sc snap target r)"
proof (cases "proposalState r \<in> set BEFORE_VOTING")
  case True
  then show ?thesis by (simp add: held_def moved_proposal_def Let_def)
next
  case False
  then have "target \<noteq> Pr_voting" "target \<notin> set BEFORE_VOTING"
    using move_cases [OF assms(1,2)] closing_results(2) by (auto simp: BEFORE_VOTING_def)
  then show ?thesis
    using no_snapshot [OF _ assms(3)] by (simp add: held_def moved_proposal_def or_else_def Let_def)
qed

lemma found_by: "find_proposal db pk = row_by proposalKey (proposal_rows db) pk"
  by (simp add: find_proposal_def row_by_def)

lemma rows_held_update:
  assumes "find_proposal db pk = Some r" and "held r (f r)" and "\<And>x. proposalKey (f x) = proposalKey x"
  shows "rows_evolve proposalKey held (proposal_rows db) (update_proposal pk f (proposal_rows db))"
proof -
  have "update_proposal pk f = set_row proposalKey pk f" by (simp add: update_proposal_def set_row_def fun_eq_iff)
  then show ?thesis
    using assms rows_evolve_set_row [of proposalKey f held "proposal_rows db" pk] held_refl
    by (simp add: keeps_def found_by)
qed

section \<open>The work of each handler\<close>

lemma move_work_Inr:
  assumes "move_work now chain s pk expected erole target reason q db = Inr (v, db')"
  shows "\<exists>row snap. find_proposal db pk = Some row \<and> expected = Some (proposalVersion row) \<and>
    canTransition proposalMachine (proposalState row) target \<and>
    (target \<in> set CLOSING \<longrightarrow> tally_state (outcome (tallyVotes (tally_of db row))) = target) \<and>
    resolveVotingSnapshot (chainForSpace chain (proposalSpace row)) row target = Inr snap \<and>
    db' = apply_move now s (chainForSpace chain (proposalSpace row)) snap row target reason erole (govCorrelation q) db"
proof -
  obtain row where row: "find_proposal db pk = Some row"
    using assms by (auto simp: move_work_def split: option.splits)
  then show ?thesis
    using assms
    by (auto simp: move_work_def and_then_eq_Inr_iff assertVersionMatches_def Let_def tally_view_of_def split: if_splits)
qed

lemma move_work_inv:
  assumes inv: "governance_inv db" and "target \<notin> set EXECUTION_OUTCOMES"
    and work: "move_work now chain s pk expected erole target reason q db = Inr (v, db')"
  shows "governance_inv db'"
proof -
  from move_work_Inr [OF work] obtain row snap where m: "find_proposal db pk = Some row"
    "canTransition proposalMachine (proposalState row) target"
    "target \<in> set CLOSING \<longrightarrow> tally_state (outcome (tallyVotes (tally_of db row))) = target"
    "resolveVotingSnapshot (chainForSpace chain (proposalSpace row)) row target = Inr snap"
    "db' = apply_move now s (chainForSpace chain (proposalSpace row)) snap row target reason erole (govCorrelation q) db"
    by blast
  note pk = find_proposal_Some [OF m(1)]
  have "sound_in db row" using inv pk by (simp add: governance_inv_def)
  then have sound: "sound_proposal row (votes_of db pk) (moves_of db pk) (executions_of db pk) (readings_of db pk)"
    using pk by (simp add: sound_in_def)
  show ?thesis
  proof (rule inv_update [OF inv m(1)])
    show "proposal_rows db' = update_proposal pk (moved_proposal now (chainForSpace chain (proposalSpace row)) snap target)
        (proposal_rows db)" using m(5) pk by (simp add: apply_move_def Let_def)
    have own: "votes_of db' = votes_of db" "executions_of db' = executions_of db" "readings_of db' = readings_of db"
      by (simp_all add: m(5) apply_move_def Let_def of_defs fun_eq_iff)
    obtain t where t: "gov_transitions db' = gov_transitions db @ [t]" "gtProposal t = pk" "gtFrom t = proposalState row" "gtTo t = target"
      "gtTally t = tally_view_of db row"
      using m(5) pk by (simp add: apply_move_def Let_def)
    have moves: "moves_of db' k = (if k = pk then moves_of db k @ [t] else moves_of db k)" for k
      using t by (simp add: moves_of_def)
    show "k \<noteq> pk \<Longrightarrow> votes_of db' k = votes_of db k \<and> moves_of db' k = moves_of db k \<and>
        executions_of db' k = executions_of db k \<and> readings_of db' k = readings_of db k" for k
      by (simp add: own moves)
    have "target \<in> set CLOSING \<Longrightarrow> tally_state (provisionalOutcome (gtTally t)) = target"
      using m(3) by (simp add: t(5) tally_view_of_def Let_def)
    from governance_sound_move [OF sound m(2) assms(2) this m(4) t(3,4)]
    show "sound_proposal (moved_proposal now (chainForSpace chain (proposalSpace row)) snap target row)
        (votes_of db' pk) (moves_of db' pk) (executions_of db' pk) (readings_of db' pk)"
      by (simp add: own moves)
  qed (simp add: moved_proposal_def Let_def)
qed

lemma execution_work_Inr:
  assumes "execution_work now fresh s pk expected erole target b q db = Inr (v, db')"
  shows "\<exists>row subject. find_proposal db pk = Some row \<and> expected = Some (proposalVersion row) \<and>
    canTransition proposalMachine (proposalState row) target \<and> sessionSubjectId s = Some subject \<and>
    db' = apply_execution now fresh subject row target b erole (govCorrelation q) db"
proof -
  obtain row where row: "find_proposal db pk = Some row"
    using assms by (auto simp: execution_work_def split: option.splits)
  then show ?thesis
    using assms
    by (auto simp: execution_work_def and_then_eq_Inr_iff assertVersionMatches_def Let_def split: if_splits option.splits)
qed

lemma execution_work_inv:
  assumes inv: "governance_inv db" and out: "target \<in> set EXECUTION_OUTCOMES"
    and work: "execution_work now fresh s pk expected erole target b q db = Inr (v, db')"
  shows "governance_inv db'"
proof -
  from execution_work_Inr [OF work] obtain row subject where m: "find_proposal db pk = Some row"
    "canTransition proposalMachine (proposalState row) target"
    "db' = apply_execution now fresh subject row target b erole (govCorrelation q) db"
    by blast
  note pk = find_proposal_Some [OF m(1)]
  have "sound_in db row" using inv pk by (simp add: governance_inv_def)
  then have sound: "sound_proposal row (votes_of db pk) (moves_of db pk) (executions_of db pk) (readings_of db pk)"
    using pk by (simp add: sound_in_def)
  show ?thesis
  proof (rule inv_update [OF inv m(1)])
    show "proposal_rows db' = update_proposal pk (\<lambda>r. r\<lparr>proposalState := target, proposalVersion := proposalVersion r + 1\<rparr>)
        (proposal_rows db)" using m(3) pk by (simp add: apply_execution_def Let_def)
    have own: "votes_of db' = votes_of db" "readings_of db' = readings_of db"
      by (simp_all add: m(3) apply_execution_def Let_def of_defs fun_eq_iff)
    obtain t where t: "gov_transitions db' = gov_transitions db @ [t]" "gtProposal t = pk" "gtFrom t = proposalState row" "gtTo t = target"
      using m(3) pk by (simp add: apply_execution_def Let_def)
    obtain x where x: "execution_rows db' = execution_rows db @ [x]" "exProposal x = pk" "exOutcome x = target"
      using m(3) pk by (simp add: apply_execution_def Let_def execution_of_def)
    have rows: "moves_of db' k = (if k = pk then moves_of db k @ [t] else moves_of db k)"
      "executions_of db' k = (if k = pk then executions_of db k @ [x] else executions_of db k)" for k
      using t x by (simp_all add: moves_of_def executions_of_def)
    show "k \<noteq> pk \<Longrightarrow> votes_of db' k = votes_of db k \<and> moves_of db' k = moves_of db k \<and>
        executions_of db' k = executions_of db k \<and> readings_of db' k = readings_of db k" for k
      by (simp add: own rows)
    from sound_execution [OF sound m(2) out t(3,4) x(3)]
    show "sound_proposal (row\<lparr>proposalState := target, proposalVersion := proposalVersion row + 1\<rparr>)
        (votes_of db' pk) (moves_of db' pk) (executions_of db' pk) (readings_of db' pk)"
      by (simp add: own rows)
  qed simp
qed


lemma resolveVoteWeight_Inr:
  assumes "resolveVoteWeight pk wallet block token manual read db = Inr ((weight, src), db1)"
  shows "\<exists>extra. db1 = db\<lparr>weight_rows := weight_rows db @ extra\<rparr> \<and>
    (\<forall>w \<in> set extra. weightProposal w = pk \<and> Some (weightBlock w) = block) \<and>
    (block \<noteq> None \<and> block \<noteq> Some 0 \<and> token \<noteq> None \<and> token \<noteq> Some [] \<longrightarrow>
       (\<exists>a. wallet = Some a \<and>
          list_ex (\<lambda>r. weightProposal r = pk \<and> weightWallet r = a \<and> readWeight r = weight) (weight_rows db @ extra)))"
proof -
  have old: "find_weight db pk a = Some r \<Longrightarrow>
      list_ex (\<lambda>x. weightProposal x = pk \<and> weightWallet x = a \<and> readWeight x = readWeight r) (weight_rows db)" for a r
    by (auto simp: find_weight_def list_ex_iff dest!: find_Some_set)
  have none: "\<exists>extra. db = db\<lparr>weight_rows := weight_rows db @ extra\<rparr> \<and> extra = []" by simp
  show ?thesis
  proof (cases "block = None \<or> block = Some 0 \<or> token = None \<or> token = Some []")
    case True
    then have "db1 = db"
      using assms by (cases block; cases token) (auto simp: resolveVoteWeight_def split: option.splits)
    then show ?thesis using True by (auto intro!: exI [of _ "[]"])
  next
    case False
    then obtain b t where bt: "block = Some b" "token = Some t" "b \<noteq> 0" "t \<noteq> []" by auto
    then obtain a where a: "wallet = Some a"
      using assms by (cases wallet) (auto simp: resolveVoteWeight_def)
    show ?thesis
    proof (cases "find_weight db pk a")
      case (Some r)
      then have "db1 = db" "weight = readWeight r" using assms bt a by (auto simp: resolveVoteWeight_def)
      then show ?thesis using old [OF Some] a by (auto intro!: exI [of _ "[]"])
    next
      case None
      then have "read t a b = Inr weight \<and> db1 = db\<lparr>weight_rows := weight_rows db @
          [\<lparr>weightProposal = pk, weightWallet = a, readWeight = weight, weightBlock = b\<rparr>]\<rparr>"
        using assms bt a by (auto simp: resolveVoteWeight_def split: sum.splits)
      then show ?thesis using a bt
        by (intro exI [of _ "[\<lparr>weightProposal = pk, weightWallet = a, readWeight = weight, weightBlock = b\<rparr>]"]) simp
    qed
  qed
qed

lemma prior_vote_None: "prior_vote db pk subject = None \<longleftrightarrow> subject \<notin> voter ` set (votes_of db pk)"
  by (auto simp: prior_vote_def find_eq_None_iff votes_of_def)

lemma resolved_vote_Inr:
  assumes "resolved_vote chain row subject manual db = Inr ((weight, wallet), db1)"
  shows "\<exists>extra. db1 = db\<lparr>weight_rows := weight_rows db @ extra\<rparr> \<and>
    (\<forall>w \<in> set extra. weightProposal w = proposalKey row \<and> Some (weightBlock w) = snapshotBlock row) \<and>
    (on_snapshot row \<and> pinned row \<and> prior_vote db (proposalKey row) subject = None \<longrightarrow>
       (\<exists>a. wallet = Some a \<and> list_ex (\<lambda>r. weightProposal r = proposalKey row \<and> weightWallet r = a \<and>
              readWeight r = weight) (weight_rows db @ extra)))"
proof (cases "on_snapshot row \<and> prior_vote db (proposalKey row) subject \<noteq> None")
  case True
  then have "db1 = db" using assms by (auto simp: resolved_vote_def Let_def)
  then show ?thesis using True by (auto intro!: exI [of _ "[]"])
next
  case False
  then obtain src where res: "resolveVoteWeight (proposalKey row) wallet (snapshotBlock row) (snapshotToken row) manual
      (balance_reader (chainForSpace chain (proposalSpace row))) db = Inr ((weight, src), db1)"
    using assms by (auto simp: resolved_vote_def Let_def and_then_eq_Inr_iff split: if_splits option.splits)
  from resolveVoteWeight_Inr [OF this] obtain extra where e: "db1 = db\<lparr>weight_rows := weight_rows db @ extra\<rparr>"
    "\<forall>w \<in> set extra. weightProposal w = proposalKey row \<and> Some (weightBlock w) = snapshotBlock row"
    "snapshotBlock row \<noteq> None \<and> snapshotBlock row \<noteq> Some 0 \<and> snapshotToken row \<noteq> None \<and> snapshotToken row \<noteq> Some [] \<longrightarrow>
       (\<exists>a. wallet = Some a \<and> list_ex (\<lambda>r. weightProposal r = proposalKey row \<and> weightWallet r = a \<and>
              readWeight r = weight) (weight_rows db @ extra))" by blast
  then show ?thesis by (intro exI [of _ extra]) (auto simp: pinned_def)
qed

lemma vote_from_Inr:
  assumes "vote_from seen chain s pk erole choice manual q db = Inr (v, db')"
  shows "\<exists>row subject weight wallet db1. find_proposal seen pk = Some row \<and> proposalState row = Pr_voting \<and>
    sessionSubjectId s = Some subject \<and> resolved_vote chain row subject manual db = Inr ((weight, wallet), db1) \<and>
    \<not> (on_snapshot row \<and> prior_vote db pk subject = None \<and>
       (case wallet of None \<Rightarrow> False | Some w \<Rightarrow> wallet_used db1 pk w)) \<and>
    proposal_rows db' = proposal_rows db1 \<and> weight_rows db' = weight_rows db1 \<and>
    gov_transitions db' = gov_transitions db1 \<and> execution_rows db' = execution_rows db1 \<and>
    vote_rows db' = put_vote row subject choice weight wallet (vote_rows db1)"
proof -
  obtain row where row: "find_proposal seen pk = Some row"
    using assms by (auto simp: vote_from_def split: option.splits)
  then obtain subject where subject: "sessionSubjectId s = Some subject"
    using assms by (cases "sessionSubjectId s") (auto simp: vote_from_def split: if_splits)
  obtain weight wallet db1 where res: "resolved_vote chain row subject manual db = Inr ((weight, wallet), db1)"
    using assms row subject by (auto simp: vote_from_def and_then_eq_Inr_iff split: if_splits)
  have ok: "\<not> (on_snapshot row \<and> prior_vote db pk subject = None \<and>
       (case wallet of None \<Rightarrow> False | Some w \<Rightarrow> wallet_used db1 pk w))"
    using assms row subject res by (auto simp: vote_from_def split: if_splits)
  have "proposalState row = Pr_voting" using assms row by (auto simp: vote_from_def split: if_splits)
  moreover have "proposal_rows db' = proposal_rows db1 \<and> weight_rows db' = weight_rows db1 \<and>
    gov_transitions db' = gov_transitions db1 \<and> execution_rows db' = execution_rows db1 \<and>
    vote_rows db' = put_vote row subject choice weight wallet (vote_rows db1)"
    using assms row subject res ok
    by (auto simp: vote_from_def and_then_eq_Inr_iff Let_def split: if_splits)
  ultimately show ?thesis using row subject res ok by blast
qed


lemma vote_from_inv:
  assumes inv: "governance_inv db" and work: "vote_from seen chain s pk erole choice manual q db = Inr (v, db')"
    and held: "rows_evolve proposalKey held (proposal_rows seen) (proposal_rows db)"
  shows "governance_inv db'"
proof -
  from vote_from_Inr [OF work] obtain row subject weight wallet db1 where m:
    "find_proposal seen pk = Some row" "proposalState row = Pr_voting"
    "resolved_vote chain row subject manual db = Inr ((weight, wallet), db1)"
    "\<not> (on_snapshot row \<and> prior_vote db pk subject = None \<and>
       (case wallet of None \<Rightarrow> False | Some w \<Rightarrow> wallet_used db1 pk w))"
    "proposal_rows db' = proposal_rows db1" "weight_rows db' = weight_rows db1"
    "gov_transitions db' = gov_transitions db1" "execution_rows db' = execution_rows db1"
    "vote_rows db' = put_vote row subject choice weight wallet (vote_rows db1)" by blast
  have key: "proposalKey row = pk" using find_proposal_Some [OF m(1)] by simp
  obtain r where r: "find_proposal db pk = Some r" "held row r"
    using rows_evolveD [OF held m(1) [unfolded found_by]] unfolding found_by by blast
  note pk = find_proposal_Some [OF r(1)]
  have as: "on_snapshot row = on_snapshot r" "snapshotBlock row = snapshotBlock r" "pinned row = pinned r"
    "proposalState r \<notin> set BEFORE_VOTING"
    using r(2) m(2) by (auto simp: held_def on_snapshot_def pinned_def BEFORE_VOTING_def)
  from resolved_vote_Inr [OF m(3)] obtain extra where e: "db1 = db\<lparr>weight_rows := weight_rows db @ extra\<rparr>"
    "\<forall>w \<in> set extra. weightProposal w = pk \<and> Some (weightBlock w) = snapshotBlock row"
    "on_snapshot row \<and> pinned row \<and> prior_vote db pk subject = None \<longrightarrow>
       (\<exists>a. wallet = Some a \<and> list_ex (\<lambda>r. weightProposal r = pk \<and> weightWallet r = a \<and>
              readWeight r = weight) (weight_rows db @ extra))"
    unfolding key by blast
  have "sound_in db r" using inv pk by (simp add: governance_inv_def)
  then have sound: "sound_proposal r (votes_of db pk) (moves_of db pk) (executions_of db pk) (readings_of db pk)"
    using pk by (simp add: sound_in_def)
  have votes: "votes_of db' pk = put_own r subject choice weight wallet (votes_of db pk)"
    using put_vote_own [of row subject choice weight wallet "vote_rows db"] m(9) e(1) key pk
    by (simp add: votes_of_def put_own_def revote_def as(1))
  have reads: "readings_of db' pk = readings_of db pk @ extra"
    using m(6) e(1,2) by (simp add: readings_of_def filter_id_conv)
  have fresh: "wallet \<notin> voteWallet ` set (votes_of db pk) \<and>
      weighed (readings_of db pk @ extra) \<lparr>voteProposal = proposalKey r, voter = subject, voteChoice = choice,
        voteWeight = weight, voteWallet = wallet\<rparr>"
    if snap: "on_snapshot r" and new: "subject \<notin> voter ` set (votes_of db pk)"
  proof -
    have "pinned r" using sound snap by (simp add: sound_proposal_def)
    then obtain a where a: "wallet = Some a" "list_ex (\<lambda>r. weightProposal r = pk \<and> weightWallet r = a \<and>
              readWeight r = weight) (weight_rows db @ extra)"
      using e(3) snap new by (auto simp: prior_vote_None as)
    have "\<not> wallet_used db pk a" using m(4) snap new a(1) e(1) by (simp add: prior_vote_None wallet_used_def as)
    then have "wallet \<notin> voteWallet ` set (votes_of db pk)"
      using a(1) by (auto simp: wallet_used_def list_ex_iff votes_of_def)
    moreover have "list_ex (\<lambda>r. weightWallet r = a \<and> readWeight r = weight) (readings_of db pk @ extra)"
      using a(2) e(2) by (auto simp: list_ex_iff readings_of_def)
    ultimately show ?thesis using a(1) by (simp add: weighed_def)
  qed
  have "\<forall>w \<in> set extra. Some (weightBlock w) = snapshotBlock r" using e(2) as(2) by simp
  from sound_vote [OF sound as(4) this fresh]
  have new: "sound_proposal r (votes_of db' pk) (moves_of db' pk) (executions_of db' pk) (readings_of db' pk)"
    unfolding votes reads using m(7,8) e(1) by (simp add: moves_of_def executions_of_def)
  show ?thesis
  proof (rule inv_update [OF inv r(1), where f = "\<lambda>x. x"])
    show "proposal_rows db' = update_proposal pk (\<lambda>x. x) (proposal_rows db)"
      using m(5) e(1) by (simp add: update_proposal_def)
    show "votes_of db' k = votes_of db k \<and> moves_of db' k = moves_of db k \<and>
        executions_of db' k = executions_of db k \<and> readings_of db' k = readings_of db k" if "k \<noteq> pk" for k
      using that put_vote_other [of k row] m(6-9) e(1,2) key
      by (auto simp: of_defs filter_empty_conv)
  qed (use new in simp_all)
qed

lemma positive_numeral_value: "positive_numeral w \<Longrightarrow> decimal_value w > 0"
proof -
  assume w: "positive_numeral w"
  then obtain c cs where c: "w = c # cs" by (cases w) (auto simp: positive_numeral_def)
  then have "49 \<le> hd w" using w by (auto simp: positive_numeral_def js_digit_def word_le_nat_alt word_unat_eq_iff)
  then show ?thesis using w decimal_positive by (simp add: positive_numeral_def)
qed

lemma parse_create_Some:
  assumes "parse_create guid body = Some (space, b)"
  shows "\<forall>w. bodyEligible b = Some w \<longrightarrow> positive_numeral w"
  using assms by (auto simp: parse_create_def split: option.splits if_splits)

lemma no_rows_of:
  assumes "governance_inv db" and "pk \<notin> proposalKey ` set (proposal_rows db)"
  shows "votes_of db pk = []" and "moves_of db pk = []" and "executions_of db pk = []" and "readings_of db pk = []"
proof -
  have "pk \<notin> voteProposal ` set (vote_rows db)" "pk \<notin> gtProposal ` set (gov_transitions db)"
    "pk \<notin> exProposal ` set (execution_rows db)" "pk \<notin> weightProposal ` set (weight_rows db)"
    using assms unfolding governance_inv_def by auto
  then show "votes_of db pk = []" "moves_of db pk = []" "executions_of db pk = []" "readings_of db pk = []"
    by (auto simp: of_defs filter_empty_conv)
qed

lemma create_work_rows:
  assumes "create_work now i s tenant space b erole q db = Inr (v, db')"
  shows "\<exists>subject. proposal_rows db' = proposal_rows db @ [new_proposal now (tenant, i) subject space b] \<and>
    vote_rows db' = vote_rows db \<and> gov_transitions db' = gov_transitions db \<and>
    execution_rows db' = execution_rows db \<and> weight_rows db' = weight_rows db"
proof (cases "sessionSubjectId s")
  case None
  then show ?thesis using assms by (simp add: create_work_def)
next
  case (Some subject)
  then show ?thesis using assms by (auto simp: create_work_def and_then_eq_Inr_iff Let_def)
qed

lemma new_proposal_sound:
  assumes "parse_create guid body = Some (space, b)"
  shows "sound_proposal (new_proposal now pk subject space b) [] [] [] []"
proof -
  have "denominatorWeight (new_proposal now pk subject space b) \<noteq> Some 0"
    using parse_create_Some [OF assms] positive_numeral_value by (fastforce simp: new_proposal_def)
  then show ?thesis
    by (simp add: sound_proposal_def new_proposal_def BEFORE_VOTING_def result_of_def PASSED_def
        EXECUTION_OUTCOMES_def on_snapshot_def)
qed

lemma create_work_inv:
  assumes inv: "governance_inv db" and fresh: "(tenant, i) \<notin> proposalKey ` set (proposal_rows db)"
    and parse: "parse_create guid body = Some (space, b)"
    and work: "create_work now i s tenant space b erole q db = Inr (v, db')"
  shows "governance_inv db'"
proof -
  from create_work_rows [OF work] obtain subject where
    rows: "proposal_rows db' = proposal_rows db @ [new_proposal now (tenant, i) subject space b]"
    "vote_rows db' = vote_rows db" "gov_transitions db' = gov_transitions db"
    "execution_rows db' = execution_rows db" "weight_rows db' = weight_rows db" by blast
  let ?r = "new_proposal now (tenant, i) subject space b"
  have same: "votes_of db' k = votes_of db k" "moves_of db' k = moves_of db k"
    "executions_of db' k = executions_of db k" "readings_of db' k = readings_of db k" for k
    by (simp_all add: of_defs rows)
  have "sound_in db' ?r"
    using new_proposal_sound [OF parse] no_rows_of [OF inv fresh]
    unfolding sound_in_def Let_def same by (simp add: new_proposal_def)
  moreover have "\<forall>x \<in> set (proposal_rows db). sound_in db' x"
    using inv by (simp add: governance_inv_def sound_in_def same)
  ultimately have sound: "\<forall>x \<in> set (proposal_rows db'). sound_in db' x" by (simp add: rows)
  have key: "proposalKey ?r = (tenant, i)" by (simp add: new_proposal_def)
  then have "distinct (map proposalKey (proposal_rows db'))"
    using inv fresh by (simp add: rows governance_inv_def)
  moreover have "proposalKey ` set (proposal_rows db) \<subseteq> proposalKey ` set (proposal_rows db')"
    by (simp add: rows subset_insertI)
  then have "voteProposal ` set (vote_rows db') \<union> gtProposal ` set (gov_transitions db') \<union>
       exProposal ` set (execution_rows db') \<union> weightProposal ` set (weight_rows db')
       \<subseteq> proposalKey ` set (proposal_rows db')"
    using inv unfolding rows(2-5) governance_inv_def by blast
  ultimately show ?thesis using sound unfolding governance_inv_def by blast
qed

section \<open>Histories\<close>

text \<open>
  What can happen to the tables, as the list of their states, the newest first: the four handlers, each under
  its key and with any answer of the chain, and changes of the active wallets. A move and an execution record
  lock the row of the proposal and are one step. A vote does not: its handler may have read the proposal in any
  earlier state, however many moves have been made since. (A trigger of the database repeats its check when the
  vote is stored, and it too does not see a move that has not been committed: it narrows the window and does not
  close it.) A new identifier is one that no proposal has.
\<close>

inductive governance_run :: "governance_db list \<Rightarrow> bool" where
  empty: "proposal_rows db = [] \<Longrightarrow> vote_rows db = [] \<Longrightarrow> gov_transitions db = [] \<Longrightarrow> execution_rows db = [] \<Longrightarrow>
    weight_rows db = [] \<Longrightarrow> governance_run [db]"
| wallets: "governance_run (db # past) \<Longrightarrow> governance_run (db\<lparr>active_wallets := ws\<rparr> # db # past)"
| create: "governance_run (world idb # past) \<Longrightarrow> i \<notin> snd ` proposalKey ` set (proposal_rows (world idb)) \<Longrightarrow>
    createProposal guid now i q body idb = Inr (v, idb') \<Longrightarrow> governance_run (world idb' # world idb # past)"
| move: "governance_run (world idb # past) \<Longrightarrow> moveProposal now chain q proposal request idb = Inr (v, idb') \<Longrightarrow>
    governance_run (world idb' # world idb # past)"
| vote: "governance_run (world idb # past) \<Longrightarrow> seen \<in> set (world idb # past) \<Longrightarrow>
    castVoteFrom chain q proposal ballot seen idb = Inr (v, idb') \<Longrightarrow>
    governance_run (world idb' # world idb # past)"
| execution: "governance_run (world idb # past) \<Longrightarrow> recordExecution now fresh q proposal rec idb = Inr (v, idb') \<Longrightarrow>
    governance_run (world idb' # world idb # past)"

definition governance_reach :: "governance_db \<Rightarrow> bool" where
  "governance_reach db \<longleftrightarrow> (\<exists>past. governance_run (db # past))"

lemma reach_run: "governance_run (db # past) \<Longrightarrow> governance_reach db"
  by (auto simp: governance_reach_def)

lemma space_eq_Inr_iff:
  "(case c of Space_allowed \<Rightarrow> r | Space_denied why \<Rightarrow> Inl (f why)) = Inr x \<longleftrightarrow> c = Space_allowed \<and> r = Inr x"
  by (cases c) simp_all

lemma createProposal_Inr:
  assumes "createProposal guid now i q body idb = Inr (v, idb')"
  obtains s tenant space b erole where "callerSession (govHead q) = Some s" and "sessionTenantId s = Some tenant"
    and "parse_create guid body = Some (space, b)"
    and "assertAuthorized s (governanceAction space Verb_propose) (proposalResource tenant (bodyProject b))
      (sessionFacts s no_actor_overrides) = Inr erole"
    and "\<not> isForbiddenTarget (bodyType b)"
    and "checkProposalSpace (if space = Space_protocol then Protocol_space else Project_space (given [] (bodyProject b)))
      (bodyType b) = Space_allowed"
    and "world idb' = world idb \<or> create_work now i s tenant space b erole q (world idb) = Inr (v, world idb')"
proof -
  obtain s tenant key where ctx: "requireMutationContext (govHead q) = Inr (s, tenant, key)"
    using assms by (auto simp: createProposal_def and_then_eq_Inr_iff)
  obtain space b where parse: "parse_create guid body = Some (space, b)"
    using assms ctx by (auto simp: createProposal_def split: option.splits)
  from assms [unfolded createProposal_def ctx and_then.simps prod.case parse option.case
      guard_eq_Inr_iff and_then_eq_Inr_iff space_eq_Inr_iff]
  obtain erole where role: "assertAuthorized s (governanceAction space Verb_propose)
      (proposalResource tenant (bodyProject b)) (sessionFacts s no_actor_overrides) = Inr erole"
    and m: "\<not> isForbiddenTarget (bodyType b)"
    and allowed: "checkProposalSpace (if space = Space_protocol then Protocol_space else Project_space (given [] (bodyProject b)))
      (bodyType b) = Space_allowed"
    and idem: "withIdempotency tenant key (govDigest q) (create_work now i s tenant space b erole q) idb = Inr (v, idb')"
    by blast
  have "world idb' = world idb \<or> create_work now i s tenant space b erole q (world idb) = Inr (v, world idb')"
    using with_work [OF idem] by auto
  with that parse role m allowed requireMutationContext_Inr [OF ctx] show ?thesis by blast
qed


lemma moveProposal_Inr:
  assumes "moveProposal now chain q proposal request idb = Inr (v, idb')"
  obtains s tenant project target reason erole expected where
    "callerSession (govHead q) = Some s" and "sessionTenantId s = Some tenant"
    and "parse_move request = Some (target, reason)" and "target \<notin> set EXECUTION_OUTCOMES"
    and "proposalProjectId (world idb) (tenant, proposal) = Inr project"
    and "assertAuthorized s (governanceAction (spaceOfProject project) Verb_administer) (proposalResource tenant project)
      (sessionFacts s no_actor_overrides) = Inr erole"
    and "world idb' = world idb \<or>
      move_work now chain s (tenant, proposal) expected erole target reason q (world idb) = Inr (v, world idb')"
proof -
  obtain s tenant key where ctx: "requireMutationContext (govHead q) = Inr (s, tenant, key)"
    using assms by (auto simp: moveProposal_def and_then_eq_Inr_iff)
  obtain expected where match: "requireIfMatch (govHead q) = Inr expected"
    using assms ctx by (auto simp: moveProposal_def and_then_eq_Inr_iff)
  obtain target reason where parse: "parse_move request = Some (target, reason)"
    using assms ctx match by (auto simp: moveProposal_def split: option.splits)
  from assms [unfolded moveProposal_def ctx match and_then.simps prod.case parse option.case
      guard_eq_Inr_iff and_then_eq_Inr_iff]
  obtain project erole where m: "target \<notin> set EXECUTION_OUTCOMES"
    "proposalProjectId (world idb) (tenant, proposal) = Inr project"
    "assertAuthorized s (governanceAction (spaceOfProject project) Verb_administer) (proposalResource tenant project)
      (sessionFacts s no_actor_overrides) = Inr erole"
    "withIdempotency tenant key (govDigest q) (move_work now chain s (tenant, proposal) expected erole target reason q) idb =
      Inr (v, idb')" by blast
  have "world idb' = world idb \<or>
      move_work now chain s (tenant, proposal) expected erole target reason q (world idb) = Inr (v, world idb')"
    using with_work [OF m(4)] by auto
  with that parse m(1-3) requireMutationContext_Inr [OF ctx] show ?thesis by blast
qed

lemma castVoteFrom_Inr:
  assumes "castVoteFrom chain q proposal ballot seen idb = Inr (v, idb')"
  obtains s tenant project choice manual erole where
    "callerSession (govHead q) = Some s" and "sessionTenantId s = Some tenant"
    and "proposalProjectId (world idb) (tenant, proposal) = Inr project"
    and "assertVoteEligible (roleBindings s) project = Inr ()"
    and "assertAuthorized s (governanceAction (spaceOfProject project) Verb_vote) (proposalResource tenant project)
      (sessionFacts s no_actor_overrides) = Inr erole"
    and "world idb' = world idb \<or>
      vote_from seen chain s (tenant, proposal) erole choice manual q (world idb) = Inr (v, world idb')"
proof -
  obtain s tenant key where ctx: "requireMutationContext (govHead q) = Inr (s, tenant, key)"
    using assms by (auto simp: castVoteFrom_def and_then_eq_Inr_iff)
  obtain choice manual where parse: "parse_vote ballot = Some (choice, manual)"
    using assms ctx by (auto simp: castVoteFrom_def split: option.splits)
  from assms [unfolded castVoteFrom_def ctx and_then.simps prod.case parse option.case and_then_eq_Inr_iff]
  obtain project erole where m: "proposalProjectId (world idb) (tenant, proposal) = Inr project"
    "assertVoteEligible (roleBindings s) project = Inr ()"
    "assertAuthorized s (governanceAction (spaceOfProject project) Verb_vote) (proposalResource tenant project)
      (sessionFacts s no_actor_overrides) = Inr erole"
    "withIdempotency tenant key (govDigest q) (vote_from seen chain s (tenant, proposal) erole choice manual q) idb =
      Inr (v, idb')" by (metis old.unit.exhaust)
  have "world idb' = world idb \<or> vote_from seen chain s (tenant, proposal) erole choice manual q (world idb) = Inr (v, world idb')"
    using with_work [OF m(4)] by auto
  with that m(1-3) requireMutationContext_Inr [OF ctx] show ?thesis by blast
qed

lemma recordExecution_Inr:
  assumes "recordExecution now fresh q proposal rec idb = Inr (v, idb')"
  obtains s tenant project target b erole expected where
    "callerSession (govHead q) = Some s" and "sessionTenantId s = Some tenant"
    and "parse_execution rec = Some (target, b)"
    and "assertAuthorized s (js ''governance.execution.record'') (proposalResource tenant project)
      (sessionFacts s no_actor_overrides) = Inr erole"
    and "world idb' = world idb \<or>
      execution_work now fresh s (tenant, proposal) expected erole target b q (world idb) = Inr (v, world idb')"
proof -
  obtain s tenant key where ctx: "requireMutationContext (govHead q) = Inr (s, tenant, key)"
    using assms by (auto simp: recordExecution_def and_then_eq_Inr_iff)
  obtain expected where match: "requireIfMatch (govHead q) = Inr expected"
    using assms ctx by (auto simp: recordExecution_def and_then_eq_Inr_iff)
  obtain target b where parse: "parse_execution rec = Some (target, b)"
    using assms ctx match by (auto simp: recordExecution_def split: option.splits)
  from assms [unfolded recordExecution_def ctx match and_then.simps prod.case parse option.case and_then_eq_Inr_iff]
  obtain project erole where m: "assertAuthorized s (js ''governance.execution.record'') (proposalResource tenant project)
      (sessionFacts s no_actor_overrides) = Inr erole"
    "withIdempotency tenant key (govDigest q) (execution_work now fresh s (tenant, proposal) expected erole target b q) idb =
      Inr (v, idb')" by blast
  have "world idb' = world idb \<or>
      execution_work now fresh s (tenant, proposal) expected erole target b q (world idb) = Inr (v, world idb')"
    using with_work [OF m(2)] by auto
  with that parse m(1) requireMutationContext_Inr [OF ctx] show ?thesis by blast
qed

lemma parse_execution_outcome: "parse_execution rec = Some (target, b) \<Longrightarrow> target \<in> set EXECUTION_OUTCOMES"
  by (auto simp: parse_execution_def split: option.splits if_splits dest!: find_Some_set)

text \<open>
  What one step does to the tables: the invariant stays, every proposal stays with what \<open>held\<close> keeps, and a
  new transition carries the tally of the state it was made in.
\<close>

definition read_in :: "governance_db \<Rightarrow> gov_transition \<Rightarrow> bool" where
  "read_in db t \<longleftrightarrow>
     (\<exists>r. find_proposal db (gtProposal t) = Some r \<and> proposalState r = gtFrom t \<and> gtTally t = tally_view_of db r)"

definition governance_effect :: "governance_db \<Rightarrow> governance_db \<Rightarrow> bool" where
  "governance_effect db db' \<longleftrightarrow>
     governance_inv db' \<and> rows_evolve proposalKey held (proposal_rows db) (proposal_rows db') \<and>
     (\<forall>t \<in> set (gov_transitions db') - set (gov_transitions db). read_in db t)"

lemma governance_effect_same:
  "governance_inv db' \<Longrightarrow> proposal_rows db' = proposal_rows db \<Longrightarrow> gov_transitions db' = gov_transitions db \<Longrightarrow>
     governance_effect db db'"
  by (simp add: governance_effect_def rows_evolve_same held_refl)

lemma create_work_effect:
  assumes "governance_inv db" and "(tenant, i) \<notin> proposalKey ` set (proposal_rows db)"
    and "parse_create guid body = Some (space, b)" and work: "create_work now i s tenant space b erole q db = Inr (v, db')"
  shows "governance_effect db db'"
  using create_work_inv [OF assms] create_work_rows [OF work] rows_evolve_append [of held, OF held_refl]
  by (auto simp: governance_effect_def)

lemma move_work_effect:
  assumes "governance_inv db" and out: "target \<notin> set EXECUTION_OUTCOMES"
    and work: "move_work now chain s pk expected erole target reason q db = Inr (v, db')"
  shows "governance_effect db db'"
proof -
  from move_work_Inr [OF work] obtain row snap where m: "find_proposal db pk = Some row"
    "canTransition proposalMachine (proposalState row) target"
    "resolveVotingSnapshot (chainForSpace chain (proposalSpace row)) row target = Inr snap"
    "db' = apply_move now s (chainForSpace chain (proposalSpace row)) snap row target reason erole (govCorrelation q) db"
    by blast
  have key: "proposalKey row = pk" using find_proposal_Some [OF m(1)] by simp
  have "rows_evolve proposalKey held (proposal_rows db) (proposal_rows db')"
    using rows_held_update [of db pk row "moved_proposal now (chainForSpace chain (proposalSpace row)) snap target"]
      m(1) held_moved [OF m(2) out m(3)] key
    by (simp add: m(4) apply_move_def moved_proposal_def Let_def)
  then show ?thesis
    using move_work_inv [OF assms] m(1) key
    by (auto simp: governance_effect_def read_in_def m(4) apply_move_def Let_def)
qed

lemma execution_work_effect:
  assumes "governance_inv db" and out: "target \<in> set EXECUTION_OUTCOMES"
    and work: "execution_work now fresh s pk expected erole target b q db = Inr (v, db')"
  shows "governance_effect db db'"
proof -
  from execution_work_Inr [OF work] obtain row subject where m: "find_proposal db pk = Some row"
    "canTransition proposalMachine (proposalState row) target"
    "db' = apply_execution now fresh subject row target b erole (govCorrelation q) db"
    by blast
  have key: "proposalKey row = pk" using find_proposal_Some [OF m(1)] by simp
  have "proposalState row \<notin> set BEFORE_VOTING \<and> target \<notin> set BEFORE_VOTING"
    using m(2) out unfolding proposal_table
    by (cases "proposalState row"; auto simp: EXECUTION_OUTCOMES_def BEFORE_VOTING_def)
  then have "held row (row\<lparr>proposalState := target, proposalVersion := proposalVersion row + 1\<rparr>)"
    by (simp add: held_def)
  with rows_held_update [of db pk row "\<lambda>r. r\<lparr>proposalState := target, proposalVersion := proposalVersion r + 1\<rparr>"] m(1)
  have "rows_evolve proposalKey held (proposal_rows db) (proposal_rows db')"
    using key by (simp add: m(3) apply_execution_def Let_def)
  then show ?thesis
    using execution_work_inv [OF assms] m(1) key
    by (auto simp: governance_effect_def read_in_def m(3) apply_execution_def Let_def)
qed

lemma vote_from_effect:
  assumes "governance_inv db" and work: "vote_from seen chain s pk erole choice manual q db = Inr (v, db')"
    and "rows_evolve proposalKey held (proposal_rows seen) (proposal_rows db)"
  shows "governance_effect db db'"
proof -
  from vote_from_Inr [OF work] obtain row subject weight wallet db1 where
    "resolved_vote chain row subject manual db = Inr ((weight, wallet), db1)"
    "proposal_rows db' = proposal_rows db1" "gov_transitions db' = gov_transitions db1" by blast
  with resolved_vote_Inr have "proposal_rows db' = proposal_rows db" "gov_transitions db' = gov_transitions db"
    by fastforce+
  then show ?thesis by (rule governance_effect_same [OF vote_from_inv [OF assms]])
qed

lemma createProposal_effect:
  assumes "governance_inv (world idb)" and "i \<notin> snd ` proposalKey ` set (proposal_rows (world idb))"
    and "createProposal guid now i q body idb = Inr (v, idb')"
  shows "world idb' = world idb \<or> governance_effect (world idb) (world idb')"
proof -
  have "(tenant, i) \<notin> proposalKey ` set (proposal_rows (world idb))" for tenant using assms(2) by (metis imageI snd_conv)
  note effect = create_work_effect [OF assms(1) this]
  show ?thesis by (rule createProposal_Inr [OF assms(3)]) (use effect in blast)
qed

lemma moveProposal_effect:
  assumes "governance_inv (world idb)" and "moveProposal now chain q proposal request idb = Inr (v, idb')"
  shows "world idb' = world idb \<or> governance_effect (world idb) (world idb')"
  by (rule moveProposal_Inr [OF assms(2)]) (use move_work_effect [OF assms(1)] in blast)

lemma castVoteFrom_effect:
  assumes "governance_inv (world idb)" and "castVoteFrom chain q proposal ballot seen idb = Inr (v, idb')"
    and "rows_evolve proposalKey held (proposal_rows seen) (proposal_rows (world idb))"
  shows "world idb' = world idb \<or> governance_effect (world idb) (world idb')"
  by (rule castVoteFrom_Inr [OF assms(2)]) (use vote_from_effect [OF assms(1) _ assms(3)] in blast)

lemma recordExecution_effect:
  assumes "governance_inv (world idb)" and "recordExecution now fresh q proposal rec idb = Inr (v, idb')"
  shows "world idb' = world idb \<or> governance_effect (world idb) (world idb')"
  by (rule recordExecution_Inr [OF assms(2)])
    (use execution_work_effect [OF assms(1)] parse_execution_outcome in blast)

definition run_inv :: "governance_db \<Rightarrow> governance_db list \<Rightarrow> bool" where
  "run_inv db past \<longleftrightarrow>
     governance_inv db \<and>
     (\<forall>seen \<in> set (db # past). rows_evolve proposalKey held (proposal_rows seen) (proposal_rows db)) \<and>
     (\<forall>t \<in> set (gov_transitions db). \<exists>seen \<in> set past. read_in seen t)"

lemma run_inv_tables: "run_inv db past \<Longrightarrow> governance_inv db"
  by (simp add: run_inv_def)

lemma run_inv_rows:
  "run_inv db past \<Longrightarrow> seen \<in> set (db # past) \<Longrightarrow>
     rows_evolve proposalKey held (proposal_rows seen) (proposal_rows db)"
  unfolding run_inv_def by (elim conjE) (rule bspec)

lemma run_inv_step:
  assumes "run_inv db past" and "governance_effect db db'"
  shows "run_inv db' (db # past)"
proof -
  have "rows_evolve proposalKey held (proposal_rows seen) (proposal_rows db')" if "seen \<in> set (db' # db # past)" for seen
  proof (cases "seen = db'")
    case True
    then show ?thesis by (simp add: rows_evolve_same held_refl)
  next
    case False
    then have "rows_evolve proposalKey held (proposal_rows seen) (proposal_rows db)"
      using that assms(1) by (auto simp: run_inv_def)
    then show ?thesis
      using assms(2) held_trans unfolding governance_effect_def by (blast intro: rows_evolve_trans)
  qed
  moreover have "\<exists>seen \<in> set (db # past). read_in seen t" if "t \<in> set (gov_transitions db')" for t
    using that assms unfolding run_inv_def governance_effect_def by (cases "t \<in> set (gov_transitions db)") auto
  ultimately show ?thesis using assms(2) by (simp add: run_inv_def governance_effect_def)
qed

lemma run_inv_world:
  assumes "run_inv db past" and "db' = db \<or> governance_effect db db'"
  shows "run_inv db' (db # past)"
proof (rule run_inv_step [OF assms(1)])
  from run_inv_tables [OF assms(1)] have "governance_effect db db" by (rule governance_effect_same) (rule refl)+
  with assms(2) show "governance_effect db db'" by blast
qed

lemma governance_run_inv: "governance_run hist \<Longrightarrow> run_inv (hd hist) (tl hist)"
proof (induction rule: governance_run.induct)
  case (empty db)
  then show ?case by (simp add: run_inv_def governance_inv_def rows_evolve_same held_refl)
next
  case (wallets db past ws)
  then have "run_inv db past" by simp
  then have "governance_inv (db\<lparr>active_wallets := ws\<rparr>)"
    by (simp add: run_inv_def governance_inv_def sound_in_def of_defs)
  then have "governance_effect db (db\<lparr>active_wallets := ws\<rparr>)" by (rule governance_effect_same) simp_all
  with \<open>run_inv db past\<close> show ?case by (simp add: run_inv_step)
next
  case (create idb past i guid now q body v idb')
  have inv: "run_inv (world idb) past" using create.IH by (simp only: list.sel)
  have "world idb' = world idb \<or> governance_effect (world idb) (world idb')"
    by (rule createProposal_effect [OF run_inv_tables [OF inv] create.hyps(2,3)])
  then show ?case unfolding list.sel by (rule run_inv_world [OF inv])
next
  case (move idb past now chain q proposal request v idb')
  have inv: "run_inv (world idb) past" using move.IH by (simp only: list.sel)
  have "world idb' = world idb \<or> governance_effect (world idb) (world idb')"
    by (rule moveProposal_effect [OF run_inv_tables [OF inv] move.hyps(2)])
  then show ?case unfolding list.sel by (rule run_inv_world [OF inv])
next
  case (vote idb past seen chain q proposal ballot v idb')
  have inv: "run_inv (world idb) past" using vote.IH by (simp only: list.sel)
  then have held: "rows_evolve proposalKey held (proposal_rows seen) (proposal_rows (world idb))"
    using vote.hyps(2) by (rule run_inv_rows)
  have "world idb' = world idb \<or> governance_effect (world idb) (world idb')"
    by (rule castVoteFrom_effect [OF run_inv_tables [OF inv] vote.hyps(3) held])
  then show ?case unfolding list.sel by (rule run_inv_world [OF inv])
next
  case (execution idb past now fresh q proposal rec v idb')
  have inv: "run_inv (world idb) past" using execution.IH by (simp only: list.sel)
  have "world idb' = world idb \<or> governance_effect (world idb) (world idb')"
    by (rule recordExecution_effect [OF run_inv_tables [OF inv] execution.hyps(2)])
  then show ?case unfolding list.sel by (rule run_inv_world [OF inv])
qed

lemmas run_invD = governance_run_inv [of "db # past" for db past, unfolded list.sel]

lemma run_held:
  assumes "governance_run (db # past)" and "seen \<in> set (db # past)"
    and "find_proposal seen pk = Some r0" and "find_proposal db pk = Some r"
  shows "held r0 r"
proof -
  have "rows_evolve proposalKey held (proposal_rows seen) (proposal_rows db)"
    by (rule run_inv_rows [OF run_invD [OF assms(1)] assms(2)])
  from rows_evolveD [OF this assms(3) [unfolded found_by]] assms(4) show ?thesis unfolding found_by by auto
qed

lemma run_tally:
  "governance_run (db # past) \<Longrightarrow> t \<in> set (gov_transitions db) \<Longrightarrow> \<exists>seen \<in> set past. read_in seen t"
  using run_invD by (simp add: run_inv_def)

text \<open>Steps from a reached state.\<close>

lemma reach_wallets: "governance_reach db \<Longrightarrow> governance_reach (db\<lparr>active_wallets := ws\<rparr>)"
  by (auto simp: governance_reach_def intro: governance_run.wallets)

lemma reach_create:
  "governance_reach (world idb) \<Longrightarrow> i \<notin> snd ` proposalKey ` set (proposal_rows (world idb)) \<Longrightarrow>
     createProposal guid now i q body idb = Inr (v, idb') \<Longrightarrow> governance_reach (world idb')"
  by (auto simp: governance_reach_def intro: governance_run.create)

lemma reach_move:
  "governance_reach (world idb) \<Longrightarrow> moveProposal now chain q proposal request idb = Inr (v, idb') \<Longrightarrow>
     governance_reach (world idb')"
  by (auto simp: governance_reach_def intro: governance_run.move)

lemma reach_vote:
  "governance_reach (world idb) \<Longrightarrow> castVote chain q proposal ballot idb = Inr (v, idb') \<Longrightarrow>
     governance_reach (world idb')"
  unfolding governance_reach_def castVote_def by (blast intro: governance_run.vote list.set_intros(1))

lemma governance_reach_inv: "governance_reach db \<Longrightarrow> governance_inv db"
  using run_invD by (auto simp: governance_reach_def run_inv_def)

end
