(* ===== verification/Governance_Laws.thy ===== *)
theory Governance_Laws
  imports Governance_Steps
begin

text \<open>
  What the governance route guarantees, through every history of creations, moves, votes and execution
  records: that the outcome of a proposal is the one of its votes, that nobody and no wallet counts twice,
  and who may vote.
\<close>

section \<open>What holds of every proposal\<close>

lemma reached_sound:
  assumes "governance_reach db" and "find_proposal db pk = Some r"
  shows "proposalKey r = pk"
    and "sound_proposal r (votes_of db pk) (moves_of db pk) (executions_of db pk) (readings_of db pk)"
proof -
  note pk = find_proposal_Some [OF assms(2)]
  then show "proposalKey r = pk" by simp
  show "sound_proposal r (votes_of db pk) (moves_of db pk) (executions_of db pk) (readings_of db pk)"
    using governance_reach_inv [OF assms(1)] pk by (auto simp: governance_inv_def sound_in_def Let_def)
qed

text \<open>
  C5. The recorded path of a proposal leads from draft along the table to its state, one row per version. A
  proposal stands as passed, defeated or without quorum only by a move out of voting that recorded a tally
  with that outcome: the count of the votes stored in the state in which the move was made, over a denominator
  that was fixed when voting opened, is not zero and has not changed since. Votes change the count afterwards
  only if a handler that read the proposal while it was open stores its vote late; without such a vote the
  proposal still counts to the same outcome. And it counts as executed, failed or disputed only with
  an execution record of that outcome.
\<close>

theorem proposal_outcome_is_its_votes:
  assumes "governance_run (db # past)" and "find_proposal db pk = Some r"
  shows "path Pr_draft (moves_of db pk) = Some (proposalState r) \<and>
    proposalVersion r = Suc (length (moves_of db pk)) \<and>
    (case result_of (proposalState r) of
       None \<Rightarrow> True
     | Some out \<Rightarrow> \<exists>t w seen r0.
         t \<in> set (moves_of db pk) \<and> gtFrom t = Pr_voting \<and> provisionalOutcome (gtTally t) = out \<and>
         seen \<in> set past \<and> find_proposal seen pk = Some r0 \<and> proposalState r0 = Pr_voting \<and>
         gtTally t = tally_view_of seen r0 \<and> outcome (tallyVotes (tally_of seen r0)) = out \<and>
         denominatorWeight r0 = Some w \<and> w \<noteq> 0 \<and> denominatorWeight r = Some w \<and>
         (votes_of db pk = votes_of seen pk \<longrightarrow> outcome (tallyVotes (tally_of db r)) = out)) \<and>
    (proposalState r \<in> set EXECUTION_OUTCOMES \<longrightarrow>
       (\<exists>x \<in> set (executions_of db pk). exOutcome x = proposalState r))"
proof -
  note s = reached_sound [OF reach_run [OF assms(1)] assms(2)]
  have "\<exists>t w seen r0.
         t \<in> set (moves_of db pk) \<and> gtFrom t = Pr_voting \<and> provisionalOutcome (gtTally t) = out \<and>
         seen \<in> set past \<and> find_proposal seen pk = Some r0 \<and> proposalState r0 = Pr_voting \<and>
         gtTally t = tally_view_of seen r0 \<and> outcome (tallyVotes (tally_of seen r0)) = out \<and>
         denominatorWeight r0 = Some w \<and> w \<noteq> 0 \<and> denominatorWeight r = Some w \<and>
         (votes_of db pk = votes_of seen pk \<longrightarrow> outcome (tallyVotes (tally_of db r)) = out)"
    if out: "result_of (proposalState r) = Some out" for out
  proof -
    have "proposalState r \<notin> set BEFORE_VOTING"
      using out by (auto simp: result_of_def PASSED_def BEFORE_VOTING_def split: if_splits)
    with s(2) obtain w where w: "denominatorWeight r = Some w" "w \<noteq> 0" unfolding sound_proposal_def by auto
    from s(2) out obtain t where t: "t \<in> set (moves_of db pk)" "gtFrom t = Pr_voting"
        "provisionalOutcome (gtTally t) = out"
      unfolding sound_proposal_def closed_with_def by auto
    have own: "t \<in> set (gov_transitions db)" "gtProposal t = pk" using t(1) by (simp_all add: moves_of_def)
    from run_tally [OF assms(1) own(1)] own(2) t(2) obtain seen r0 where r0: "seen \<in> set past" "find_proposal seen pk = Some r0"
        "proposalState r0 = Pr_voting" "gtTally t = tally_view_of seen r0"
      by (auto simp: read_in_def)
    have held: "held r0 r" using run_held [OF assms(1) _ r0(2) assms(2)] r0(1) by simp
    then have den: "denominatorWeight r0 = Some w" using r0(3) w(1) by (simp add: held_def BEFORE_VOTING_def)
    have count: "outcome (tallyVotes (tally_of seen r0)) = out"
      using t(3) unfolding r0(4) by (simp add: tally_view_of_def Let_def)
    have "outcome (tallyVotes (tally_of db r)) = out" if "votes_of db pk = votes_of seen pk"
      using count held_tally [OF held, of "votes_of seen pk"] r0(3) that s(1) find_proposal_Some [OF r0(2)]
      unfolding tally_of_votes by (simp add: BEFORE_VOTING_def)
    then show ?thesis using t r0 count den w by blast
  qed
  then show ?thesis using s(2) unfolding sound_proposal_def by (cases "result_of (proposalState r)") simp_all
qed

text \<open>
  C10. Nobody counts twice. A subject has at most one vote on a proposal. Where the weight comes from a
  snapshot, a wallet counts at most once, whoever held it, and every vote carries just the balance that was
  read for its wallet at the block of the snapshot.
\<close>

theorem nobody_counts_twice:
  assumes "governance_reach db" and "find_proposal db pk = Some r"
  shows "distinct (map voter (votes_of db pk)) \<and>
    (on_snapshot r \<longrightarrow>
       distinct (map voteWallet (votes_of db pk)) \<and>
       (\<forall>v \<in> set (votes_of db pk). \<exists>x \<in> set (readings_of db pk).
          voteWallet v = Some (weightWallet x) \<and> readWeight x = voteWeight v \<and>
          Some (weightBlock x) = snapshotBlock r))"
proof -
  note s = reached_sound [OF assms]
  have "weighed (readings_of db pk) v \<Longrightarrow> \<exists>x \<in> set (readings_of db pk).
      voteWallet v = Some (weightWallet x) \<and> readWeight x = voteWeight v" for v
    by (auto simp: weighed_def list_ex_iff)
  then show ?thesis using s(2) unfolding sound_proposal_def by fast
qed

section \<open>Who votes\<close>

lemma governance_policy:
  "policy_of (governanceAction space verb) =
     Some (ActionPolicy (governanceAction space verb) (GOVERNANCE_SPACE_ROLES space verb) None)"
proof -
  have "ActionPolicy (governanceAction space verb) (GOVERNANCE_SPACE_ROLES space verb) None \<in> set ACTION_POLICIES"
    by (cases space; cases verb) (simp_all add: ACTION_POLICIES_def governanceActions_def)
  from policy_of_key [OF this] show ?thesis by simp
qed








section \<open>Block 0\<close>

text \<open>
  A chain no longer than the confirmation depth is read at block 0, and block 0 counts as a snapshot when a
  proposal is shown but not when a vote is weighed: the denominator is the total supply, the votes carry
  the weight their voters state, and the reader is told of an on-chain snapshot.
\<close>

lemma block_zero_is_shown_as_snapshot:
  assumes "fixedBlock snap = Some 0" and "snapshotToken row = None" and "find_proposal db pk = Some row"
  shows "shownWeightSource (toView db (moved_proposal now (Some c) snap Pr_voting row) rid at_time) = Onchain_snapshot \<and>
    resolved_vote chain (moved_proposal now (Some c) snap Pr_voting row) subject (Some w) db = Inr ((w, None), db)"
  using assms
  by (simp add: toView_def moved_proposal_def or_else_def resolved_vote_def on_snapshot_def resolveVoteWeight_def Let_def)


section \<open>A vote on a snapshot\<close>

definition gov_session :: session where
  "gov_session =
     \<lparr>principal = Person, sessionId = js ''s1'', sessionSubjectId = Some (js ''ann''), sessionTenantId = Some (js ''t''),
      sessionAssurance = Identity_bound, firstFactor = Some First_google, secondFactor = Some Second_passkey,
      recoveryLimited = False, aal = Some Aal3, serviceScopes = None,
      roleBindings = map (\<lambda>r. \<lparr>bindingRole = r, organizationId = None, projectId = None, bindingJurisdiction = None,
        elevationId = None\<rparr>) [js ''protocol_proposer'', js ''protocol_voter''],
      narrowedRoles = [], projectIds = [], organizationProjectIds = None, projectJurisdictions = None\<rparr>"

definition gov_request :: "nat \<Rightarrow> governance_request" where
  "gov_request n =
     \<lparr>govHead = \<lparr>callerSession = Some gov_session, idempotencyHeader = Some (js ''0123456789abcdef''),
        ifMatchHeader = Some (etagOf n)\<rparr>,
      govDigest = js ''h'', govRequestId = js ''r'', govAsOf = js ''d'', govCorrelation = js ''c''\<rparr>"

definition on_world :: "governance_db \<Rightarrow> governance_idb" where
  "on_world db = \<lparr>keys = Map.empty, world = db\<rparr>"

lemma gov_context:
  "requireMutationContext (govHead (gov_request n)) = Inr (gov_session, js ''t'', js ''0123456789abcdef'')"
  by (simp add: requireMutationContext_def requireEnrolledSession_def gov_request_def gov_session_def js_def)

lemma gov_match: "n < 2 ^ 53 \<Longrightarrow> requireIfMatch (govHead (gov_request n)) = Inr (Some n)"
  by (rule etag_accepted) (simp_all add: gov_request_def)

lemma gov_authorized:
  "\<exists>r. assertAuthorized gov_session (governanceAction Space_protocol verb) (proposalResource (js ''t'') None)
     (sessionFacts gov_session no_actor_overrides) = Inr r"
  unfolding assertAuthorized_passes governance_policy
  by (cases verb)
    (simp_all add: gov_session_def authorize_def bindingToAuthorizationContext_def withResourceJurisdiction_def
      proposalResource_def tenantResource_def resource_of_def no_resource_overrides_def baseScopeOf_def scope_includes_def
      sessionFacts_def no_actor_overrides_def jurisdictionMatches_def authorizeResourceConditions_def
      minimum_assurance_def ROLE_MINIMUM_ASSURANCE_def satisfiesAssurance_def)

lemma parse_move_name:
  "target \<in> set REQUESTABLE_PROPOSAL_STATES \<Longrightarrow>
     parse_move (Some (proposal_state_name target, js ''go'')) = Some (target, js ''go'')"
  by (cases target) (simp_all add: parse_move_def REQUESTABLE_PROPOSAL_STATES_def)

lemma with_fresh_key:
  "work db = Inr (v, db') \<Longrightarrow> \<exists>idb'. withIdempotency tenant key hash work (on_world db) = Inr (v, idb') \<and> world idb' = db'"
  by (simp add: withIdempotency_def on_world_def completeIdempotency_def)

lemma find_updated:
  assumes "\<And>x. proposalKey (f x) = proposalKey x"
  shows "find (\<lambda>r. proposalKey r = pk) rows = Some row \<Longrightarrow>
    find (\<lambda>r. proposalKey r = pk) (update_proposal pk f rows) = Some (f row)"
  by (induction rows) (auto simp: update_proposal_def assms split: if_splits)

lemma moved_found:
  assumes "find_proposal db pk = Some row"
  shows "find_proposal (apply_move now s sc snap row target reason erole corr db) pk = Some (moved_proposal now sc snap target row)"
proof -
  have "proposalKey row = pk" using find_proposal_Some [OF assms] by simp
  moreover have "proposalKey (moved_proposal now sc snap target x) = proposalKey x" for x
    by (simp add: moved_proposal_def Let_def)
  ultimately show ?thesis
    using assms find_updated [of "moved_proposal now sc snap target" pk]
    by (simp add: find_proposal_def apply_move_def Let_def)
qed

lemma sample_move:
  assumes "governance_run (db # past)" and found: "find_proposal db (js ''t'', js ''p'') = Some row"
    and row: "proposalProject row = None" "proposalVersion row < 2 ^ 53"
    and target: "target \<in> set REQUESTABLE_PROPOSAL_STATES" "target \<notin> set EXECUTION_OUTCOMES"
      "canTransition proposalMachine (proposalState row) target"
    and close: "target \<in> set CLOSING \<longrightarrow> tally_state (outcome (tallyVotes (tally_of db row))) = target"
    and snap: "resolveVotingSnapshot (chainForSpace chain (proposalSpace row)) row target = Inr snap"
  shows "\<exists>erole. governance_run
    (apply_move 1 gov_session (chainForSpace chain (proposalSpace row)) snap row target (js ''go'') erole (js ''c'') db # db # past)"
proof -
  let ?q = "gov_request (proposalVersion row)"
  obtain erole where role: "assertAuthorized gov_session (governanceAction Space_protocol Verb_administer)
      (proposalResource (js ''t'') None) (sessionFacts gov_session no_actor_overrides) = Inr erole"
    using gov_authorized by blast
  let ?db = "apply_move 1 gov_session (chainForSpace chain (proposalSpace row)) snap row target (js ''go'') erole (js ''c'') db"
  have "\<exists>v. move_work 1 chain gov_session (js ''t'', js ''p'') (Some (proposalVersion row)) erole target (js ''go'') ?q db = Inr (v, ?db)"
    using found target(3) close snap moved_found [OF found]
    by (auto simp: move_work_def assertVersionMatches_def Let_def tally_view_of_def loadProposal_def gov_request_def)
  then obtain v idb' where idem: "withIdempotency (js ''t'') (js ''0123456789abcdef'') (govDigest ?q)
      (move_work 1 chain gov_session (js ''t'', js ''p'') (Some (proposalVersion row)) erole target (js ''go'') ?q) (on_world db) =
      Inr (v, idb')" and db': "world idb' = ?db"
    using with_fresh_key by blast
  have "moveProposal 1 chain ?q (js ''p'') (Some (proposal_state_name target, js ''go'')) (on_world db) = Inr (v, idb')"
    using found role idem target(2) row
    by (simp add: moveProposal_def gov_context gov_match parse_move_name [OF target(1)] proposalProjectId_def on_world_def
        spaceOfProject_def)
  with governance_run.move [of "on_world db" past] assms(1) db' show ?thesis
    by (metis idempotent_db.select_convs(2) on_world_def)
qed


definition sample_chain :: governance_chain where
  "sample_chain =
     \<lparr>headBlockNumber = Some 100, readBalance = (\<lambda>token wallet block. Inr 7), readTotalSupply = (\<lambda>token block. Inr 10),
      tokenAddress = Some (js ''0xtoken''), chainId = 56, chainDepth = 12\<rparr>"

definition sample_body :: create_body where
  "sample_body =
     \<lparr>bodySpace = js ''protocol'', bodyProject = None, bodyType = js ''fee_schedule'', bodyTitle = js ''Fees'',
      bodyRationale = js ''Why'', bodyQuorumN = None, bodyQuorumD = None, bodyThresholdN = None, bodyThresholdD = None,
      bodyEligible = None, bodyConflict = js ''none'', bodyMode = js ''record_only''\<rparr>"

definition first_row :: proposal_row where
  "first_row = new_proposal 1 (js ''t'', js ''p'') (js ''ann'') Space_protocol sample_body"

definition no_fix :: voting_snapshot where
  "no_fix = \<lparr>fixedBlock = None, fixedWeight = None, fixedSource = None\<rparr>"

definition fix_88 :: voting_snapshot where
  "fix_88 = \<lparr>fixedBlock = Some 88, fixedWeight = Some 10, fixedSource = Some Onchain_total_supply\<rparr>"

definition step_row :: "voting_snapshot \<Rightarrow> proposal_state \<Rightarrow> proposal_row \<Rightarrow> proposal_row" where
  "step_row snap target = moved_proposal 1 (Some sample_chain) snap target"

lemma step_row_fields [simp]:
  "proposalState (step_row snap target r) = target" "proposalVersion (step_row snap target r) = Suc (proposalVersion r)"
  "proposalSpace (step_row snap target r) = proposalSpace r" "proposalProject (step_row snap target r) = proposalProject r"
  "proposalKey (step_row snap target r) = proposalKey r"
  "snapshotBlock (step_row no_fix target r) = snapshotBlock r" "snapshotToken (step_row no_fix target r) = snapshotToken r"
  "denominatorWeight (step_row no_fix target r) = denominatorWeight r"
  "snapshotBlock (step_row fix_88 target r) = Some 88" "snapshotToken (step_row fix_88 target r) = Some (js ''0xtoken'')"
  "denominatorWeight (step_row fix_88 target r) = Some 10"
  "quorumN (step_row snap target r) = quorumN r" "quorumD (step_row snap target r) = quorumD r"
  "thresholdN (step_row snap target r) = thresholdN r" "thresholdD (step_row snap target r) = thresholdD r"
  by (simp_all add: step_row_def moved_proposal_def Let_def or_else_def no_fix_def fix_88_def sample_chain_def)

lemma first_row_fields [simp]:
  "proposalState first_row = Pr_draft" "proposalVersion first_row = 1" "proposalSpace first_row = Space_protocol"
  "proposalProject first_row = None" "proposalKey first_row = (js ''t'', js ''p'')"
  "quorumN first_row = 1" "quorumD first_row = 4" "thresholdN first_row = 1" "thresholdD first_row = 2"
  by (simp_all add: first_row_def new_proposal_def sample_body_def)

text \<open>What a step of the sample leaves alone.\<close>

definition rest_of :: "governance_db \<Rightarrow> vote_row list \<times> weight_row list \<times> (js_string \<times> js_string) list" where
  "rest_of db = (vote_rows db, weight_rows db, active_wallets db)"

definition at_row :: "governance_db \<Rightarrow> proposal_row \<Rightarrow> vote_row list \<times> weight_row list \<times> (js_string \<times> js_string) list \<Rightarrow> bool" where
  "at_row db row rest \<longleftrightarrow> governance_reach db \<and> find_proposal db (js ''t'', js ''p'') = Some row \<and> rest_of db = rest"

lemma sample_step:
  assumes "at_row db row rest" and "proposalProject row = None" "proposalSpace row = Space_protocol" "proposalVersion row < 2 ^ 53"
    and "target \<in> set REQUESTABLE_PROPOSAL_STATES" "target \<notin> set EXECUTION_OUTCOMES"
      "canTransition proposalMachine (proposalState row) target"
    and "target \<in> set CLOSING \<longrightarrow> tally_state (outcome (tallyVotes (tally_of db row))) = target"
    and "resolveVotingSnapshot (Some sample_chain) row target = Inr snap"
  shows "\<exists>db'. at_row db' (step_row snap target row) rest"
proof -
  have sc: "chainForSpace (Some sample_chain) (proposalSpace row) = Some sample_chain"
    using assms(3) by (simp add: chainForSpace_def)
  obtain past where "governance_run (db # past)" "find_proposal db (js ''t'', js ''p'') = Some row"
    using assms(1) by (auto simp: at_row_def governance_reach_def)
  from sample_move [OF this assms(2,4-8), of "Some sample_chain" snap] assms(9) sc
  obtain erole where "governance_reach
    (apply_move 1 gov_session (Some sample_chain) snap row target (js ''go'') erole (js ''c'') db)"
    by (auto intro: reach_run)
  moreover note moved_found [of db "(js ''t'', js ''p'')" row 1 gov_session "Some sample_chain" snap target "js ''go''" erole "js ''c''"]
  ultimately have "at_row (apply_move 1 gov_session (Some sample_chain) snap row target (js ''go'') erole (js ''c'') db)
      (step_row snap target row) rest"
    using assms(1) by (simp add: at_row_def step_row_def rest_of_def apply_move_def Let_def)
  then show ?thesis by blast
qed

lemma sample_created: "\<exists>db. at_row db first_row ([], [], [(js ''ann'', js ''0xw'')])"
proof -
  let ?db = "\<lparr>proposal_rows = [], vote_rows = [], weight_rows = [], gov_transitions = [], execution_rows = [],
      active_wallets = [(js ''ann'', js ''0xw'')], gov_audit = [], gov_outbox = []\<rparr>"
  have start: "governance_reach ?db" by (rule reach_run [OF governance_run.empty]) simp_all
  obtain erole where role: "assertAuthorized gov_session (governanceAction Space_protocol Verb_propose)
      (proposalResource (js ''t'') None) (sessionFacts gov_session no_actor_overrides) = Inr erole"
    using gov_authorized by blast
  have parse: "parse_create (\<lambda>_. True) (Some sample_body) = Some (Space_protocol, sample_body)"
    by (simp add: parse_create_def sample_body_def js_safe_positive_def EXECUTION_MODES_def js_trim_def js_whitespace_def js_def)
  obtain v db' where work: "create_work 1 (js ''p'') gov_session (js ''t'') Space_protocol sample_body erole (gov_request 1) ?db = Inr (v, db')"
    and db': "proposal_rows db' = [first_row]" "rest_of db' = ([], [], [(js ''ann'', js ''0xw'')])"
    by (simp add: create_work_def gov_session_def Let_def loadProposal_def find_proposal_def new_proposal_def first_row_def rest_of_def)
  obtain idb' where idem: "withIdempotency (js ''t'') (js ''0123456789abcdef'') (govDigest (gov_request 1))
      (create_work 1 (js ''p'') gov_session (js ''t'') Space_protocol sample_body erole (gov_request 1)) (on_world ?db) = Inr (v, idb')"
    "world idb' = db'" using with_fresh_key [of "create_work 1 (js ''p'') gov_session (js ''t'') Space_protocol sample_body erole (gov_request 1)", OF work] by blast
  have "createProposal (\<lambda>_. True) 1 (js ''p'') (gov_request 1) (Some sample_body) (on_world ?db) = Inr (v, idb')"
    using role idem(1)
    by (simp add: createProposal_def gov_context parse)
      (simp add: sample_body_def isForbiddenTarget_def FORBIDDEN_GOVERNANCE_TARGETS_def checkProposalSpace_def isProtocolType_def
        PROTOCOL_PROPOSAL_TYPES_def)
  from reach_create [OF _ _ this] start idem(2) have "governance_reach db'" by (simp add: on_world_def)
  then have "at_row db' first_row ([], [], [(js ''ann'', js ''0xw'')])"
    using db' by (simp add: at_row_def find_proposal_def)
  then show ?thesis by blast
qed


definition voting_row :: proposal_row where
  "voting_row = step_row fix_88 Pr_voting (step_row no_fix Pr_announced (step_row no_fix Pr_review first_row))"

definition cast_vote_row :: vote_row where
  "cast_vote_row =
     \<lparr>voteProposal = (js ''t'', js ''p''), voter = js ''ann'', voteChoice = Vote_for, voteWeight = 7,
      voteWallet = Some (js ''0xw'')\<rparr>"

definition reading_row :: weight_row where
  "reading_row =
     \<lparr>weightProposal = (js ''t'', js ''p''), weightWallet = js ''0xw'', readWeight = 7, weightBlock = 88\<rparr>"

lemma sample_voting: "\<exists>db. at_row db voting_row ([], [], [(js ''ann'', js ''0xw'')])"
proof -
  have plain: "target \<noteq> Pr_voting \<Longrightarrow> resolveVotingSnapshot (Some sample_chain) r target = Inr no_fix" for target r
    by (simp add: resolveVotingSnapshot_def no_fix_def)
  have vote: "resolveVotingSnapshot (Some sample_chain) r Pr_voting = Inr fix_88" for r
    by (simp add: resolveVotingSnapshot_def sample_chain_def fix_88_def snapshotBlockFor_def Let_def)
  note sets = REQUESTABLE_PROPOSAL_STATES_def EXECUTION_OUTCOMES_def CLOSING_def proposal_table
  obtain db0 where "at_row db0 first_row ([], [], [(js ''ann'', js ''0xw'')])" using sample_created by blast
  from sample_step [OF this _ _ _ _ _ _ _ plain, of Pr_review]
  obtain db1 where "at_row db1 (step_row no_fix Pr_review first_row) ([], [], [(js ''ann'', js ''0xw'')])"
    by (auto simp: sets)
  from sample_step [OF this _ _ _ _ _ _ _ plain, of Pr_announced]
  obtain db2 where "at_row db2 (step_row no_fix Pr_announced (step_row no_fix Pr_review first_row)) ([], [], [(js ''ann'', js ''0xw'')])"
    by (auto simp: sets)
  from sample_step [OF this _ _ _ _ _ _ _ vote]
  show ?thesis by (auto simp: sets voting_row_def)
qed

lemma sample_ballot:
  assumes "at_row db voting_row ([], [], [(js ''ann'', js ''0xw'')])"
  shows "\<exists>v idb'. castVote (Some sample_chain) (gov_request 9) (js ''p'') (Some (js ''for'', None)) (on_world db) = Inr (v, idb') \<and>
    at_row (world idb') voting_row ([cast_vote_row], [reading_row], [(js ''ann'', js ''0xw'')])"
proof -
  have db: "governance_reach db" "find_proposal db (js ''t'', js ''p'') = Some voting_row"
    "vote_rows db = []" "weight_rows db = []" "active_wallets db = [(js ''ann'', js ''0xw'')]"
    using assms by (simp_all add: at_row_def rest_of_def)
  have row: "proposalState voting_row = Pr_voting" "proposalProject voting_row = None" "proposalSpace voting_row = Space_protocol"
    "proposalKey voting_row = (js ''t'', js ''p'')" "snapshotBlock voting_row = Some 88"
    "snapshotToken voting_row = Some (js ''0xtoken'')"
    by (simp_all add: voting_row_def)
  obtain erole where role: "assertAuthorized gov_session (governanceAction Space_protocol Verb_vote)
      (proposalResource (js ''t'') None) (sessionFacts gov_session no_actor_overrides) = Inr erole"
    using gov_authorized by blast
  have eligible: "assertVoteEligible (roleBindings gov_session) None = Inr ()"
    by (simp add: assertVoteEligible_def voter_bindings_def gov_session_def voterSpaceOf_def checkVoteEligibility_def)
  have resolved: "resolved_vote (Some sample_chain) voting_row (js ''ann'') None db =
      Inr ((7, Some (js ''0xw'')), db\<lparr>weight_rows := [reading_row]\<rparr>)"
    using db by (simp add: resolved_vote_def row on_snapshot_def prior_vote_def governanceWallet_def resolveVoteWeight_def
        find_weight_def balance_reader_def chainForSpace_def sample_chain_def reading_row_def Let_def)
  have subject: "sessionSubjectId gov_session = Some (js ''ann'')" by (simp add: gov_session_def)
  obtain v db' where work: "vote_from db (Some sample_chain) gov_session (js ''t'', js ''p'') erole Vote_for None (gov_request 9) db =
      Inr (v, db')"
    and db': "proposal_rows db' = proposal_rows db" "rest_of db' = ([cast_vote_row], [reading_row], [(js ''ann'', js ''0xw'')])"
    using db by (simp add: vote_from_def row resolved subject wallet_used_def loadProposal_def find_proposal_def put_vote_def
        cast_vote_row_def rest_of_def Let_def)
  obtain idb' where idem: "withIdempotency (js ''t'') (js ''0123456789abcdef'') (govDigest (gov_request 9))
      (vote_from db (Some sample_chain) gov_session (js ''t'', js ''p'') erole Vote_for None (gov_request 9)) (on_world db) = Inr (v, idb')"
    "world idb' = db'"
    using with_fresh_key [of "vote_from db (Some sample_chain) gov_session (js ''t'', js ''p'') erole Vote_for None (gov_request 9)", OF work]
    by blast
  have cast: "castVote (Some sample_chain) (gov_request 9) (js ''p'') (Some (js ''for'', None)) (on_world db) = Inr (v, idb')"
    using role eligible idem(1) db(2) row(2)
    by (simp add: castVote_def castVoteFrom_def gov_context parse_vote_def proposalProjectId_def spaceOfProject_def on_world_def)
  from reach_vote [OF _ this] db(1) idem(2) have "governance_reach db'" by (simp add: on_world_def)
  then have "at_row db' voting_row ([cast_vote_row], [reading_row], [(js ''ann'', js ''0xw'')])"
    using db(2) db' by (simp add: at_row_def find_proposal_def)
  with cast idem(2) show ?thesis by auto
qed

lemma sample_passed:
  "\<exists>db. at_row db (step_row no_fix Pr_succeeded voting_row) ([cast_vote_row], [reading_row], [(js ''ann'', js ''0xw'')])"
proof -
  obtain db where "at_row db voting_row ([], [], [(js ''ann'', js ''0xw'')])" using sample_voting by blast
  from sample_ballot [OF this] obtain db' where db': "at_row db' voting_row ([cast_vote_row], [reading_row], [(js ''ann'', js ''0xw'')])"
    by blast
  then have "vote_rows db' = [cast_vote_row]" by (simp add: at_row_def rest_of_def)
  then have "outcome (tallyVotes (tally_of db' voting_row)) = Tally_succeeded"
    by (simp add: tally_of_def weight_of_def cast_vote_row_def voting_row_def tallyVotes_def Let_def)
  moreover have "resolveVotingSnapshot (Some sample_chain) voting_row Pr_succeeded = Inr no_fix"
    by (simp add: resolveVotingSnapshot_def no_fix_def)
  ultimately show ?thesis
    using sample_step [OF db', of Pr_succeeded no_fix]
    by (simp add: REQUESTABLE_PROPOSAL_STATES_def EXECUTION_OUTCOMES_def proposal_table voting_row_def)
qed

theorem proposal_outcome_is_its_votes_witness:
  "\<exists>db past r seen. governance_run (db # past) \<and> find_proposal db (js ''t'', js ''p'') = Some r \<and>
     proposalState r = Pr_succeeded \<and> length (moves_of db (js ''t'', js ''p'')) = 4 \<and> seen \<in> set past \<and>
     (\<exists>r0. find_proposal seen (js ''t'', js ''p'') = Some r0 \<and> outcome (tallyVotes (tally_of seen r0)) = Tally_succeeded)"
proof -
  let ?r = "step_row no_fix Pr_succeeded voting_row"
  obtain db where "at_row db ?r ([cast_vote_row], [reading_row], [(js ''ann'', js ''0xw'')])" using sample_passed by blast
  then obtain past where db: "governance_run (db # past)" "find_proposal db (js ''t'', js ''p'') = Some ?r"
    by (auto simp: at_row_def governance_reach_def)
  have r: "proposalState ?r = Pr_succeeded" "proposalVersion voting_row = 4" "result_of Pr_succeeded = Some Tally_succeeded"
    by (simp add: result_of_def PASSED_def voting_row_def)+
  from proposal_outcome_is_its_votes [OF db] obtain seen r0 where "length (moves_of db (js ''t'', js ''p'')) = 4"
    "seen \<in> set past" "find_proposal seen (js ''t'', js ''p'') = Some r0" "outcome (tallyVotes (tally_of seen r0)) = Tally_succeeded"
    by (auto simp: r)
  with db r(1) show ?thesis by blast
qed

text \<open>
  The late vote of the property, in a run: the proposal passes with the vote of one person, whose handler for a
  second ballot had read it while it was open. The second ballot is stored after the close: the proposal
  stays passed and the count of its votes now says defeated.
\<close>

definition against_row :: vote_row where
  "against_row = cast_vote_row\<lparr>voteChoice := Vote_against\<rparr>"

lemma sample_late_ballot:
  assumes seen: "find_proposal seen (js ''t'', js ''p'') = Some voting_row"
    and db: "find_proposal db (js ''t'', js ''p'') = Some row" "proposalProject row = None" "vote_rows db = [cast_vote_row]"
  shows "\<exists>v idb'. castVoteFrom (Some sample_chain) (gov_request 9) (js ''p'') (Some (js ''against'', None)) seen (on_world db) =
      Inr (v, idb') \<and> proposal_rows (world idb') = proposal_rows db \<and> vote_rows (world idb') = [against_row]"
proof -
  let ?work = "\<lambda>erole. vote_from seen (Some sample_chain) gov_session (js ''t'', js ''p'') erole Vote_against None (gov_request 9)"
  obtain erole where role: "assertAuthorized gov_session (governanceAction Space_protocol Verb_vote)
      (proposalResource (js ''t'') None) (sessionFacts gov_session no_actor_overrides) = Inr erole"
    using gov_authorized by blast
  have eligible: "assertVoteEligible (roleBindings gov_session) None = Inr ()"
    by (simp add: assertVoteEligible_def voter_bindings_def gov_session_def voterSpaceOf_def checkVoteEligibility_def)
  have row: "proposalState voting_row = Pr_voting" "proposalKey voting_row = (js ''t'', js ''p'')" "on_snapshot voting_row"
    by (simp_all add: voting_row_def on_snapshot_def)
  have prior: "prior_vote db (js ''t'', js ''p'') (js ''ann'') = Some cast_vote_row"
    using db(3) by (simp add: prior_vote_def cast_vote_row_def)
  have subject: "sessionSubjectId gov_session = Some (js ''ann'')" by (simp add: gov_session_def)
  obtain v db' where work: "?work erole db = Inr (v, db')"
    and db': "proposal_rows db' = proposal_rows db" "vote_rows db' = [against_row]"
    using seen db
    by (simp add: vote_from_def resolved_vote_def row prior subject loadProposal_def find_proposal_def put_vote_def
        cast_vote_row_def against_row_def Let_def)
  obtain idb' where idem: "withIdempotency (js ''t'') (js ''0123456789abcdef'') (govDigest (gov_request 9))
      (?work erole) (on_world db) = Inr (v, idb')" "world idb' = db'"
    using with_fresh_key [of "?work erole", OF work] by blast
  have "castVoteFrom (Some sample_chain) (gov_request 9) (js ''p'') (Some (js ''against'', None)) seen (on_world db) = Inr (v, idb')"
    using role eligible idem(1) db(1,2)
    by (simp add: castVoteFrom_def gov_context parse_vote_def proposalProjectId_def spaceOfProject_def on_world_def)
  with idem(2) db' show ?thesis by auto
qed

lemma late_vote_changes_the_count:
  "\<exists>db past r. governance_run (db # past) \<and> find_proposal db (js ''t'', js ''p'') = Some r \<and>
     proposalState r = Pr_succeeded \<and> outcome (tallyVotes (tally_of db r)) = Tally_defeated"
proof -
  let ?rest = "([cast_vote_row], [reading_row], [(js ''ann'', js ''0xw'')])"
  obtain db0 where "at_row db0 voting_row ([], [], [(js ''ann'', js ''0xw'')])" using sample_voting by blast
  from sample_ballot [OF this] obtain db where db: "at_row db voting_row ?rest" by blast
  then obtain past where run: "governance_run (db # past)" and found: "find_proposal db (js ''t'', js ''p'') = Some voting_row"
    and votes: "vote_rows db = [cast_vote_row]"
    by (auto simp: at_row_def governance_reach_def rest_of_def)
  have "outcome (tallyVotes (tally_of db voting_row)) = Tally_succeeded"
    using votes by (simp add: tally_of_def weight_of_def cast_vote_row_def voting_row_def tallyVotes_def Let_def)
  moreover have "resolveVotingSnapshot (chainForSpace (Some sample_chain) (proposalSpace voting_row)) voting_row Pr_succeeded = Inr no_fix"
    by (simp add: resolveVotingSnapshot_def no_fix_def)
  ultimately obtain erole where moved: "governance_run (apply_move 1 gov_session (chainForSpace (Some sample_chain)
      (proposalSpace voting_row)) no_fix voting_row Pr_succeeded (js ''go'') erole (js ''c'') db # db # past)"
    using sample_move [OF run found, of Pr_succeeded "Some sample_chain" no_fix]
    by (auto simp: REQUESTABLE_PROPOSAL_STATES_def EXECUTION_OUTCOMES_def proposal_table voting_row_def)
  let ?db = "apply_move 1 gov_session (chainForSpace (Some sample_chain) (proposalSpace voting_row)) no_fix voting_row
    Pr_succeeded (js ''go'') erole (js ''c'') db"
  let ?r = "step_row no_fix Pr_succeeded voting_row"
  have sc: "chainForSpace (Some sample_chain) (proposalSpace voting_row) = Some sample_chain"
    by (simp add: chainForSpace_def voting_row_def)
  have r: "find_proposal ?db (js ''t'', js ''p'') = Some ?r" "proposalProject ?r = None" "vote_rows ?db = [cast_vote_row]"
  proof -
    show "find_proposal ?db (js ''t'', js ''p'') = Some ?r"
      using moved_found [OF found] by (simp only: step_row_def sc)
    show "proposalProject ?r = None" by (simp add: voting_row_def)
    show "vote_rows ?db = [cast_vote_row]" using votes by (simp add: apply_move_def Let_def)
  qed
  from sample_late_ballot [OF found r] obtain v idb' where late:
    "castVoteFrom (Some sample_chain) (gov_request 9) (js ''p'') (Some (js ''against'', None)) db (on_world ?db) = Inr (v, idb')"
    "proposal_rows (world idb') = proposal_rows ?db" "vote_rows (world idb') = [against_row]" by blast
  have "governance_run (world idb' # world (on_world ?db) # db # past)"
    by (rule governance_run.vote [OF _ _ late(1)]) (simp_all add: on_world_def moved)
  moreover have "find_proposal (world idb') (js ''t'', js ''p'') = Some ?r"
    using r(1) late(2) by (simp add: find_proposal_def)
  moreover have "outcome (tallyVotes (tally_of (world idb') ?r)) = Tally_defeated"
    using late(3) by (simp add: tally_of_def weight_of_def cast_vote_row_def against_row_def voting_row_def tallyVotes_def Let_def)
  ultimately show ?thesis by (metis step_row_fields(1))
qed

theorem nobody_counts_twice_witness:
  "\<exists>db r. governance_reach db \<and> find_proposal db (js ''t'', js ''p'') = Some r \<and> on_snapshot r \<and>
     votes_of db (js ''t'', js ''p'') = [cast_vote_row] \<and>
     list_all (\<lambda>v. list_ex (\<lambda>x. voteWallet v = Some (weightWallet x) \<and> readWeight x = voteWeight v)
       (readings_of db (js ''t'', js ''p''))) (votes_of db (js ''t'', js ''p''))"
proof -
  let ?r = "step_row no_fix Pr_succeeded voting_row"
  obtain db where at_db: "at_row db ?r ([cast_vote_row], [reading_row], [(js ''ann'', js ''0xw'')])" using sample_passed by blast
  then have db: "governance_reach db" "find_proposal db (js ''t'', js ''p'') = Some ?r" by (simp_all add: at_row_def)
  have snap: "on_snapshot ?r" by (simp add: on_snapshot_def voting_row_def)
  have votes: "votes_of db (js ''t'', js ''p'') = [cast_vote_row]"
    using at_db by (simp add: at_row_def rest_of_def votes_of_def cast_vote_row_def)
  from nobody_counts_twice [OF db] snap
  have "list_all (\<lambda>v. list_ex (\<lambda>x. voteWallet v = Some (weightWallet x) \<and> readWeight x = voteWeight v)
       (readings_of db (js ''t'', js ''p''))) (votes_of db (js ''t'', js ''p''))"
    unfolding list_all_iff list_ex_iff by blast
  with db snap votes show ?thesis by blast
qed


end
