(* ===== verification/Review_Tables.thy ===== *)
theory Review_Tables
  imports Tables Attestation Independence Provenance Event_Log
begin

text \<open>
  The tables behind the review of evidence, as the routes \<open>verification.ts\<close> and
  \<open>verification-corrections.ts\<close> and their services read and write them (\<open>apps/api/src\<close>). One
  \<open>review_db\<close> holds the rows of one tenant: every handler runs with the tenant set, the policies of the
  database show it no other row and every row it writes is of that tenant. Identifiers are texts, times
  are milliseconds, and a column of the other tables that no handler here reads is left out.
\<close>

section \<open>Cases and assignments\<close>

record case_row =
  caseId :: js_string
  caseProject :: js_string
  caseSchema :: js_string
  caseState :: verification_case_state
  caseSnapshot :: js_string
  caseVersion :: nat

record case_step =
  stepCase :: js_string
  stepFrom :: verification_case_state
  stepTo :: verification_case_state
  stepReason :: js_string
  stepActor :: "js_string option"
  stepAt :: int

record independence_basis =
  basisSubmitters :: "js_string list"
  basisAllKnown :: bool
  basisReviewerOrganizations :: "js_string list"
  basisOperatorOrganizations :: "js_string list"
  basisViolations :: "independence_violation list"
  basisGaps :: "independence_gap list"

record assignment_row =
  assignmentId :: js_string
  assignmentCase :: js_string
  assignmentSubject :: js_string
  assignmentCredential :: js_string
  assignmentReviewed :: bool
  assignmentBasis :: independence_basis
  assignmentConflict :: conflict_status
  assignedBy :: "js_string option"
  assignedAt :: int
  assignmentRevokedAt :: "int option"
  assignmentRevokedBy :: "js_string option"
  assignmentRevokeReason :: "js_string option"

section \<open>Attestations\<close>

record credential_snapshot =
  snapshotCredential :: js_string
  statusAtSigning :: credential_current_status
  validAtAttestation :: bool

record attestation_row =
  attId :: js_string
  attCase :: js_string
  attAssignment :: js_string
  attCredential :: js_string
  attSchema :: js_string
  attType :: attestation_type
  attScope :: "js_string list"
  attSnapshot :: js_string
  attFindings :: "(js_string \<times> js_string) list list"
  attCitations :: "(js_string \<times> js_string) list list"
  attLimitations :: js_string
  attCredentialSnapshot :: credential_snapshot
  attMethod :: js_string
  attPolicy :: js_string
  attPayload :: js_string
  attSignature :: js_string
  attSigner :: js_string
  attSignedAt :: int
  attState :: attestation_state
  attSupersedes :: "js_string option"
  attRevokedAt :: "int option"
  attRevokedBy :: "js_string option"
  attRevokeReason :: "js_string option"

record signature_request =
  sreqId :: js_string
  sreqAttestation :: js_string
  sreqNonce :: js_string
  sreqSnapshot :: js_string
  sreqPayload :: js_string
  sreqIssued :: int
  sreqExpires :: int
  sreqConsumed :: "int option"

record dispute_row =
  dispId :: js_string
  dispAttestation :: js_string
  dispReason :: js_string
  dispDetail :: js_string
  dispRaisedBy :: "js_string option"
  dispRaisedAt :: int
  dispResolvedAt :: "int option"
  dispResolution :: "js_string option"

section \<open>What a review rests on\<close>

datatype structured_value = Structured_text js_string | Structured_bool bool

record claim_row =
  claimId :: js_string
  claimProject :: js_string
  claimType :: js_string
  claimValue :: js_string
  claimGrade :: grade
  claimState :: verification_state
  claimTier :: "evidence_tier option"
  claimExcluded :: bool
  claimVersion :: nat
  claimSubmitter :: "js_string option"
  claimReceipt :: "js_string option"
  claimCatalogEntry :: "js_string option"
  claimCatalogVersion :: "nat option"
  claimStructured :: "(js_string \<times> structured_value) list option"
  claimUploads :: "js_string list"

record claim_conflict =
  conflictClaim :: js_string
  conflictResolved :: bool

record receipt_row =
  receiptId :: js_string
  receiptProject :: js_string
  receiptAuthority :: "js_string option"
  firstConfirmedBy :: "js_string option"
  secondConfirmedBy :: "js_string option"

record artifact_row =
  artifactId :: js_string
  artifactProject :: js_string
  artifactReceipt :: "js_string option"
  artifactRevoked :: bool

record upload_row =
  uploadedBy :: "js_string option"
  promotedArtifact :: "js_string option"

record credential_row =
  credId :: js_string
  credSubject :: js_string
  credOrganization :: "js_string option"
  credStatus :: credential_current_status
  credScope :: "js_string list"
  credIssuer :: "js_string option"
  credVersion :: nat
  credRevokedAt :: "int option"

record status_event =
  statusCredential :: js_string
  statusEventId :: js_string
  statusFrom :: credential_current_status
  statusTo :: credential_current_status
  statusReason :: js_string
  statusActor :: "js_string option"
  statusAt :: int

record authority_row =
  authId :: js_string
  authFacts :: authority_facts

record binding_row =
  boundSubject :: js_string
  boundOrganization :: "js_string option"
  boundRevoked :: bool

record project_row =
  projId :: js_string
  projKey :: js_string
  ownerOrganization :: js_string

record schema_row =
  schemaId :: js_string
  schemaKey :: js_string
  schemaVersionText :: js_string
  schemaJurisdiction :: js_string
  schemaRowState :: attestation_schema_state

record policy_row =
  ruleSet :: js_string
  ruleSetVersion :: js_string
  ruleSetState :: policy_state
  ruleSetEffectiveFrom :: int
  ruleSetJurisdiction :: js_string

record wallet_row =
  walletSubject :: js_string
  walletChain :: int
  walletAddress :: js_string
  walletDisabled :: bool

record subject_row =
  subjId :: js_string
  subjSuspended :: bool

section \<open>The tables of a tenant\<close>

record review_db =
  cases :: "case_row list"
  case_claims :: "(js_string \<times> js_string) list"
  case_steps :: "case_step list"
  assignments :: "assignment_row list"
  attestations :: "attestation_row list"
  signature_requests :: "signature_request list"
  disputes :: "dispute_row list"
  lineage :: "(js_string \<times> js_string) list"
  claims :: "claim_row list"
  claim_conflicts :: "claim_conflict list"
  receipts :: "receipt_row list"
  artifacts :: "artifact_row list"
  uploads :: "upload_row list"
  credentials :: "credential_row list"
  status_events :: "status_event list"
  authorities :: "authority_row list"
  bindings :: "binding_row list"
  projects :: "project_row list"
  schemas :: "schema_row list"
  policies :: "policy_row list"
  wallets :: "wallet_row list"
  subjects :: "subject_row list"
  review_audit :: "audit_row list"
  review_outbox :: "domain_event list"

abbreviation case_by :: "review_db \<Rightarrow> js_string \<Rightarrow> case_row option" where
  "case_by db \<equiv> row_by caseId (cases db)"

abbreviation assignment_by :: "review_db \<Rightarrow> js_string \<Rightarrow> assignment_row option" where
  "assignment_by db \<equiv> row_by assignmentId (assignments db)"

abbreviation attestation_by :: "review_db \<Rightarrow> js_string \<Rightarrow> attestation_row option" where
  "attestation_by db \<equiv> row_by attId (attestations db)"

abbreviation claim_by :: "review_db \<Rightarrow> js_string \<Rightarrow> claim_row option" where
  "claim_by db \<equiv> row_by claimId (claims db)"

abbreviation credential_by :: "review_db \<Rightarrow> js_string \<Rightarrow> credential_row option" where
  "credential_by db \<equiv> row_by credId (credentials db)"

abbreviation request_by :: "review_db \<Rightarrow> js_string \<Rightarrow> signature_request option" where
  "request_by db \<equiv> row_by sreqId (signature_requests db)"

abbreviation dispute_by :: "review_db \<Rightarrow> js_string \<Rightarrow> dispute_row option" where
  "dispute_by db \<equiv> row_by dispId (disputes db)"

section \<open>What the database does by itself\<close>

text \<open>\<open>core.bump_case_version\<close> (migration 0013): a case whose state changes gets the next version.\<close>

definition with_case_state :: "verification_case_state \<Rightarrow> case_row \<Rightarrow> case_row" where
  "with_case_state st c =
     c\<lparr>caseState := st, caseVersion := (if caseState c = st then caseVersion c else caseVersion c + 1)\<rparr>"

definition set_case_state :: "js_string \<Rightarrow> verification_case_state \<Rightarrow> review_db \<Rightarrow> review_db" where
  "set_case_state cid st db = db\<lparr>cases := set_row caseId cid (with_case_state st) (cases db)\<rparr>"

text \<open>
  \<open>core.protect_signed_attestation\<close> (migration 0003): once an attestation is no draft, an update that
  touches its body raises an exception.
\<close>

definition same_body :: "attestation_row \<Rightarrow> attestation_row \<Rightarrow> bool" where
  "same_body old new \<longleftrightarrow>
     attSnapshot new = attSnapshot old \<and> attPayload new = attPayload old \<and>
     attLimitations new = attLimitations old \<and> attFindings new = attFindings old \<and>
     attCitations new = attCitations old \<and> attSignature new = attSignature old \<and>
     attSignedAt new = attSignedAt old \<and> attSigner new = attSigner old \<and> attScope new = attScope old \<and>
     attCredentialSnapshot new = attCredentialSnapshot old"

definition protect_signed_attestation :: "attestation_row \<Rightarrow> attestation_row \<Rightarrow> app_error + unit" where
  "protect_signed_attestation old new =
     (if attState old = Va_draft \<or> same_body old new then Inr () else Inl unexpected_error)"

text \<open>\<open>attestations_one_signed_successor\<close> (migration 0063): at most one row that is no draft supersedes a row.\<close>

definition one_signed_successor :: "attestation_row \<Rightarrow> attestation_row list \<Rightarrow> app_error + unit" where
  "one_signed_successor new others =
     (if attSupersedes new \<noteq> None \<and> attState new \<noteq> Va_draft \<and>
         list_ex (\<lambda>a. attId a \<noteq> attId new \<and> attSupersedes a = attSupersedes new \<and> attState a \<noteq> Va_draft) others
      then Inl unexpected_error else Inr ())"

text \<open>
  \<open>core.propagate_credential_to_attestations\<close> (migration 0051): when a credential leaves \<open>valid\<close>, the
  attestations in force under it await a new review. Only \<open>active\<close> ones move.
\<close>

definition credential_to_attestations ::
    "js_string \<Rightarrow> credential_current_status \<Rightarrow> credential_current_status \<Rightarrow> attestation_row list \<Rightarrow> attestation_row list" where
  "credential_to_attestations cid old new atts =
     (if new \<in> {Cred_expired, Cred_suspended, Cred_unknown, Cred_revoked} \<and> new \<noteq> old
      then map (\<lambda>a. if attCredential a = cid \<and> attState a = Va_active then a\<lparr>attState := Va_stale_candidate\<rparr> else a) atts
      else atts)"

section \<open>One tenant at a time\<close>

text \<open>
  \<open>withTenant\<close>: the work sees the tables of the tenant only, and a failure leaves them as they were.
\<close>

definition withTenant ::
    "js_string \<Rightarrow> (review_db \<Rightarrow> app_error + 'r \<times> review_db) \<Rightarrow> (js_string \<Rightarrow> review_db) \<Rightarrow>
     app_error + 'r \<times> (js_string \<Rightarrow> review_db)" where
  "withTenant tenant work w = and_then (work (w tenant)) (\<lambda>(r, db). Inr (r, w(tenant := db)))"

end
