(* ===== verification/Review_Basis.thy ===== *)
theory Review_Basis
  imports Review_Tables Leaf
begin

text \<open>
  What an assignment or an attestation stands on: \<open>services/attestation-basis.ts\<close>,
  \<open>services/assignment.ts\<close>, \<open>services/claim-state.ts\<close> and \<open>services/evidence-snapshot.ts\<close> of
  \<open>apps/api/src\<close>. The hash function, the date of today and fresh identifiers are arguments. The
  provenance history, which triggers write, is left out.
\<close>

section \<open>The facts\<close>

definition opt_list :: "'a option \<Rightarrow> 'a list" where
  "opt_list x = (case x of None \<Rightarrow> [] | Some v \<Rightarrow> [v])"

lemma opt_list_simps [simp]: "opt_list None = []" "opt_list (Some v) = [v]"
  by (simp_all add: opt_list_def)

definition scoped_claims :: "review_db \<Rightarrow> js_string list \<Rightarrow> claim_row list" where
  "scoped_claims db ids = filter (\<lambda>c. claimId c \<in> set ids) (claims db)"

definition claim_source :: "review_db \<Rightarrow> claim_row \<Rightarrow> receipt_row option" where
  "claim_source db c = Option.bind (claimReceipt c) (row_by receiptId (receipts db))"

definition source_authorities :: "review_db \<Rightarrow> js_string list \<Rightarrow> authority_row list" where
  "source_authorities db ids =
     filter (\<lambda>au. list_ex (\<lambda>c. case claim_source db c of None \<Rightarrow> False
                             | Some r \<Rightarrow> receiptAuthority r = Some (authId au)) (scoped_claims db ids))
       (authorities db)"

definition loadCredential :: "review_db \<Rightarrow> js_string \<Rightarrow> credential_row option" where
  "loadCredential db cid = credential_by db cid"

definition basis_input :: "review_db \<Rightarrow> js_string \<Rightarrow> credential_row \<Rightarrow> js_string list \<Rightarrow> authority_basis_input" where
  "basis_input db today cred ids =
     \<lparr>issuer = map_option authFacts (Option.bind (credIssuer cred) (row_by authId (authorities db))),
      sourceAuthorities = map authFacts (source_authorities db ids),
      claimTypes = map claimType (scoped_claims db ids), credentialScope = credScope cred, asOf = today\<rparr>"

definition loadAuthorityBasis :: "review_db \<Rightarrow> js_string \<Rightarrow> credential_row \<Rightarrow> js_string list \<Rightarrow> authority_basis" where
  "loadAuthorityBasis db today cred ids = evaluateAuthorityBasis (basis_input db today cred ids)"

datatype basis_blocker = Acceptance acceptance_blocker | CREDENTIAL_SCOPE_MISMATCH

definition basisBlockers :: "authority_basis \<Rightarrow> credential_current_status \<Rightarrow> bool \<Rightarrow> bool \<Rightarrow> basis_blocker list" where
  "basisBlockers basis status signature assigned =
     map Acceptance (canonicalAcceptanceBlockers
       \<lparr>signatureValid = signature, factAuthorityAccepted = authorityAccepted basis,
        credentialValid = (status = Cred_valid), assignedToThisCase = assigned,
        factClaimWithinScope = claimWithinAuthorityScope basis\<rparr>) @
     (if credentialScopeCoversClaims basis then [] else [CREDENTIAL_SCOPE_MISMATCH])"

text \<open>The names of statuses and of what stands in the way, as the answers spell them.\<close>

primrec credential_status_name :: "credential_current_status \<Rightarrow> js_string" where
  "credential_status_name Cred_valid = js ''valid''"
| "credential_status_name Cred_expired = js ''expired''"
| "credential_status_name Cred_revoked = js ''revoked''"
| "credential_status_name Cred_suspended = js ''suspended''"
| "credential_status_name Cred_unknown = js ''unknown''"

primrec verification_state_name :: "verification_state \<Rightarrow> js_string" where
  "verification_state_name Vs_unreviewed = js ''unreviewed''"
| "verification_state_name Vs_machine_checked = js ''machine_checked''"
| "verification_state_name Vs_analyst_checked = js ''analyst_checked''"
| "verification_state_name Vs_independently_assured = js ''independently_assured''"
| "verification_state_name Vs_rejected = js ''rejected''"

primrec acceptance_blocker_name :: "acceptance_blocker \<Rightarrow> js_string" where
  "acceptance_blocker_name SIGNATURE_INVALID = js ''SIGNATURE_INVALID''"
| "acceptance_blocker_name AUTHORITY_NOT_ACCEPTED = js ''AUTHORITY_NOT_ACCEPTED''"
| "acceptance_blocker_name CREDENTIAL_INVALID = js ''CREDENTIAL_INVALID''"
| "acceptance_blocker_name NOT_ASSIGNED = js ''NOT_ASSIGNED''"
| "acceptance_blocker_name CLAIM_OUTSIDE_AUTHORITY_SCOPE = js ''CLAIM_OUTSIDE_AUTHORITY_SCOPE''"

primrec basis_blocker_name :: "basis_blocker \<Rightarrow> js_string" where
  "basis_blocker_name (Acceptance b) = acceptance_blocker_name b"
| "basis_blocker_name CREDENTIAL_SCOPE_MISMATCH = js ''CREDENTIAL_SCOPE_MISMATCH''"

primrec violation_name :: "independence_violation \<Rightarrow> js_string" where
  "violation_name SELF_ASSIGNMENT = js ''SELF_ASSIGNMENT''"
| "violation_name REVIEWER_SUBMITTED_EVIDENCE = js ''REVIEWER_SUBMITTED_EVIDENCE''"
| "violation_name REVIEWER_SHARES_OPERATOR_ORGANIZATION = js ''REVIEWER_SHARES_OPERATOR_ORGANIZATION''"

definition blockers_detail :: "basis_blocker list \<Rightarrow> js_string \<times> error_detail" where
  "blockers_detail bs = (js ''blockers'', Detail_strings (map basis_blocker_name bs))"

section \<open>Submitters and organizations\<close>

definition claim_submitters :: "review_db \<Rightarrow> claim_row \<Rightarrow> js_string list" where
  "claim_submitters db c =
     opt_list (claimSubmitter c) @
     (case claim_source db c of None \<Rightarrow> []
      | Some r \<Rightarrow> opt_list (firstConfirmedBy r) @ opt_list (secondConfirmedBy r)) @
     concat (map (\<lambda>u. if promotedArtifact u \<noteq> None \<and> claimReceipt c \<noteq> None \<and>
                        list_ex (\<lambda>a. Some (artifactId a) = promotedArtifact u \<and> artifactReceipt a = claimReceipt c)
                          (artifacts db)
                      then opt_list (uploadedBy u) else []) (uploads db))"

definition loadEvidenceSubmitters :: "review_db \<Rightarrow> js_string list \<Rightarrow> js_string list \<times> bool" where
  "loadEvidenceSubmitters db ids =
     (sort (js_uniq (concat (map (claim_submitters db) (scoped_claims db ids)))),
      list_all (\<lambda>c. claimSubmitter c \<noteq> None) (scoped_claims db ids))"

definition loadReviewerOrganizations :: "review_db \<Rightarrow> js_string \<Rightarrow> credential_row \<Rightarrow> js_string list" where
  "loadReviewerOrganizations db reviewer cred =
     sort (js_uniq (concat (map (\<lambda>b. opt_list (boundOrganization b))
                       (filter (\<lambda>b. boundSubject b = reviewer \<and> \<not> boundRevoked b) (bindings db))) @
                    opt_list (credOrganization cred)))"

definition assignment_facts ::
    "review_db \<Rightarrow> js_string \<Rightarrow> js_string list \<Rightarrow> js_string \<Rightarrow> js_string option \<Rightarrow> credential_row \<Rightarrow> independence_facts" where
  "assignment_facts db project ids reviewer assigner cred =
     (let (submitters, known) = loadEvidenceSubmitters db ids
      in \<lparr>reviewerSubjectId = reviewer, assignerSubjectId = assigner, evidenceSubmitterIds = submitters,
          allSubmittersKnown = known, reviewerOrganizationIds = loadReviewerOrganizations db reviewer cred,
          operatorOrganizationIds =
            map ownerOrganization (opt_list (row_by projId (projects db) project))\<rparr>)"

definition reviewAssignmentIndependence ::
    "review_db \<Rightarrow> js_string \<Rightarrow> js_string list \<Rightarrow> js_string \<Rightarrow> js_string option \<Rightarrow> credential_row \<Rightarrow>
     independence_review \<times> independence_basis" where
  "reviewAssignmentIndependence db project ids reviewer assigner cred =
     (let f = assignment_facts db project ids reviewer assigner cred; review = reviewIndependence f
      in (review,
          \<lparr>basisSubmitters = evidenceSubmitterIds f, basisAllKnown = allSubmittersKnown f,
           basisReviewerOrganizations = reviewerOrganizationIds f,
           basisOperatorOrganizations = operatorOrganizationIds f,
           basisViolations = violations review, basisGaps = gaps review\<rparr>))"

section \<open>Appointing a reviewer\<close>

record assign_input =
  inCase :: js_string
  inProject :: js_string
  inClaims :: "js_string list"
  inReviewer :: js_string
  inCredential :: js_string
  inConflict :: conflict_status
  inAssigner :: "js_string option"

record assignment_made =
  madeId :: js_string
  madeReviewed :: bool
  madeGaps :: "independence_gap list"

definition assignReviewer ::
    "int \<Rightarrow> js_string \<Rightarrow> js_string \<Rightarrow> assign_input \<Rightarrow> review_db \<Rightarrow> app_error + assignment_made \<times> review_db" where
  "assignReviewer now today fresh i db =
     (case loadCredential db (inCredential i) of
        None \<Rightarrow> Inl (unprocessable (js ''ASSIGNMENT_CREDENTIAL_NOT_FOUND'') (js ''Credential not found'') None)
      | Some cred \<Rightarrow>
          if credSubject cred \<noteq> inReviewer i
          then Inl (unprocessable (js ''ASSIGNMENT_CREDENTIAL_NOT_HELD'')
            (js ''The credential does not belong to the assigned reviewer'') None)
          else
            (let basis = loadAuthorityBasis db today cred (inClaims i);
                 blockers = basisBlockers basis (credStatus cred) True True in
             if length blockers > 0
             then Inl (unprocessable (js ''ASSIGNMENT_BASIS_REJECTED'')
               (js ''This credential cannot be the basis for reviewing these claims'')
               (Some [blockers_detail blockers,
                      (js ''credentialStatus'', Detail_string (credential_status_name (credStatus cred))),
                      (js ''outsideAuthorityScope'', Detail_strings (outsideAuthorityScope basis)),
                      (js ''outsideCredentialScope'', Detail_strings (outsideCredentialScope basis))]))
             else
               (let (review, stored) = reviewAssignmentIndependence db (inProject i) (inClaims i) (inReviewer i)
                      (inAssigner i) cred in
                if length (violations review) > 0
                then Inl (conflict (js ''ASSIGNMENT_INDEPENDENCE_VIOLATION'')
                  (js ''This reviewer is not independent of the evidence or its operator'')
                  (Some [(js ''violations'', Detail_strings (map violation_name (violations review)))]))
                else Inr (\<lparr>madeId = fresh, madeReviewed = reviewed review, madeGaps = gaps review\<rparr>,
                  db\<lparr>assignments := assignments db @
                    [\<lparr>assignmentId = fresh, assignmentCase = inCase i, assignmentSubject = inReviewer i,
                      assignmentCredential = inCredential i, assignmentReviewed = reviewed review,
                      assignmentBasis = stored, assignmentConflict = inConflict i, assignedBy = inAssigner i,
                      assignedAt = now, assignmentRevokedAt = None, assignmentRevokedBy = None,
                      assignmentRevokeReason = None\<rparr>]\<rparr>))))"

section \<open>Versions in force\<close>

definition NO_EFFECTIVE_POLICY :: js_string where
  "NO_EFFECTIVE_POLICY = js ''none_effective''"

definition versionsInForce :: "int \<Rightarrow> review_db \<Rightarrow> js_string \<Rightarrow> app_error + js_string \<times> js_string" where
  "versionsInForce now db sid =
     (case row_by schemaId (schemas db) sid of
        None \<Rightarrow> Inl unexpected_error
      | Some schema \<Rightarrow>
          (let effective = sort_key ruleSet (sort_key ruleSetVersion
                 (filter (\<lambda>p. ruleSetState p = Cp_effective \<and> ruleSetEffectiveFrom p \<le> now \<and>
                            ruleSetJurisdiction p = schemaJurisdiction schema) (policies db)))
           in Inr (schemaKey schema @ js ''@'' @ schemaVersionText schema,
                   if length effective = 0 then NO_EFFECTIVE_POLICY
                   else js_join (js '','') (map (\<lambda>p. ruleSet p @ js ''@'' @ ruleSetVersion p) effective))))"

section \<open>The assessment of a claim\<close>

definition STANDING_ATTESTATION_STATES :: "attestation_state list" where
  "STANDING_ATTESTATION_STATES = [Va_signed, Va_active]"

definition standingAttestationTypes :: "review_db \<Rightarrow> js_string \<Rightarrow> attestation_type list" where
  "standingAttestationTypes db cid =
     remdups (map attType (filter (\<lambda>a. cid \<in> set (attScope a) \<and> attState a \<in> set STANDING_ATTESTATION_STATES)
       (attestations db)))"

definition open_conflicts :: "review_db \<Rightarrow> js_string \<Rightarrow> int" where
  "open_conflicts db cid =
     int (length (filter (\<lambda>x. conflictClaim x = cid \<and> \<not> conflictResolved x) (claim_conflicts db)))"

definition claim_grade :: "review_db \<Rightarrow> claim_row \<Rightarrow> grade" where
  "claim_grade db c =
     computeClaimGrade
       \<lparr>verificationState = claimState c, evidenceTier = claimTier c,
        attestationTypes = standingAttestationTypes db (claimId c),
        unresolvedConflictCount = open_conflicts db (claimId c), excludedByRule = claimExcluded c\<rparr>"

definition recomputeGrade :: "review_db \<Rightarrow> js_string \<Rightarrow> app_error + grade \<times> review_db" where
  "recomputeGrade db cid =
     (case claim_by db cid of
        None \<Rightarrow> Inl (notFound (js ''Claim not found''))
      | Some c \<Rightarrow>
          (let g = claim_grade db c
           in Inr (g, db\<lparr>claims := set_row claimId cid
                    (\<lambda>r. r\<lparr>claimGrade := g, claimVersion := claimVersion r + 1\<rparr>) (claims db)\<rparr>)))"

record claim_reassessment =
  reassessedClaim :: js_string
  reassessedFrom :: verification_state
  reassessedTo :: verification_state
  reassessedGrade :: grade
  reassessedVersion :: nat

definition reassessClaim :: "review_db \<Rightarrow> js_string \<Rightarrow> app_error + claim_reassessment \<times> review_db" where
  "reassessClaim db cid =
     (case claim_by db cid of
        None \<Rightarrow> Inl (notFound (js ''Claim not found''))
      | Some c \<Rightarrow>
          (let st = deriveVerificationState (claimState c) (standingAttestationTypes db cid);
               db1 = (if st \<noteq> claimState c
                      then db\<lparr>claims := set_row claimId cid (\<lambda>r. r\<lparr>claimState := st\<rparr>) (claims db)\<rparr> else db)
           in and_then (recomputeGrade db1 cid) (\<lambda>(g, db2).
              (case claim_by db2 cid of
                 None \<Rightarrow> Inl unexpected_error
               | Some after \<Rightarrow>
                   Inr (\<lparr>reassessedClaim = cid, reassessedFrom = claimState c, reassessedTo = st,
                         reassessedGrade = g, reassessedVersion = claimVersion after\<rparr>, db2)))))"

fun reassess_claims :: "review_db \<Rightarrow> js_string list \<Rightarrow> app_error + claim_reassessment list \<times> review_db" where
  "reassess_claims db [] = Inr ([], db)"
| "reassess_claims db (cid # ids) =
     and_then (reassessClaim db cid) (\<lambda>(r, db1).
     and_then (reassess_claims db1 ids) (\<lambda>(rs, db2). Inr (r # rs, db2)))"

section \<open>The evidence snapshot\<close>

record structured_fingerprint =
  printEntry :: js_string
  printVersion :: "nat option"
  printValues :: "(js_string \<times> structured_value) list option"
  printUploads :: "js_string list"

record claim_fingerprint =
  printId :: js_string
  printValue :: js_string
  printGrade :: js_string
  printStructured :: "structured_fingerprint option"

primrec grade_name :: "grade \<Rightarrow> js_string" where
  "grade_name Gr_rejected = js ''rejected''"
| "grade_name Gr_unverified = js ''unverified''"
| "grade_name Gr_self_reported = js ''self_reported''"
| "grade_name Gr_partially_verified = js ''partially_verified''"
| "grade_name Gr_verified = js ''verified''"

definition snapshotClaimFingerprint :: "claim_row \<Rightarrow> claim_fingerprint" where
  "snapshotClaimFingerprint c =
     \<lparr>printId = claimId c, printValue = claimValue c, printGrade = grade_name (claimGrade c),
      printStructured = map_option (\<lambda>e.
        \<lparr>printEntry = e, printVersion = claimCatalogVersion c, printValues = claimStructured c,
         printUploads = sort (claimUploads c)\<rparr>) (claimCatalogEntry c)\<rparr>"

record snapshot_input =
  snapClaims :: "js_string list"
  snapArtifacts :: "js_string list"
  snapReceipts :: "js_string list"
  snapPrints :: "claim_fingerprint list"

definition strings_array :: "js_string list \<Rightarrow> js_object" where
  "strings_array xs = JArray (map (\<lambda>x. Some (JString x)) xs)"

definition structured_js :: "structured_value \<Rightarrow> js_value" where
  "structured_js v = (case v of Structured_text s \<Rightarrow> JString s | Structured_bool b \<Rightarrow> JBool b)"

text \<open>
  The objects that the canonical form makes for one claim, at four places of the store from \<open>i\<close>: the
  claim, its structured part, the values and the uploads.
\<close>

definition print_objects :: "nat \<Rightarrow> claim_fingerprint \<Rightarrow> js_object list" where
  "print_objects i p =
     (let own = [(js ''id'', JString (printId p)), (js ''valueText'', JString (printValue p)),
                 (js ''grade'', JString (printGrade p))]
      in case printStructured p of
           None \<Rightarrow> [JRecord own, JExotic, JExotic, JExotic]
         | Some s \<Rightarrow>
             [JRecord (own @ [(js ''structured'', JRef (i + 1))]),
              JRecord [(js ''catalogEntryId'', JString (printEntry s)),
                (js ''catalogVersion'', case printVersion s of None \<Rightarrow> JNull | Some n \<Rightarrow> JString (js_decimal n)),
                (js ''values'', if printValues s = None then JNull else JRef (i + 2)),
                (js ''documentUploadIds'', JRef (i + 3))],
              JRecord (map (\<lambda>(k, v). (k, structured_js v)) (case printValues s of None \<Rightarrow> [] | Some vs \<Rightarrow> vs)),
              strings_array (sort (printUploads s))])"

definition canonicalForm :: "snapshot_input \<Rightarrow> js_object list" where
  "canonicalForm i =
     (let prints = sort_key printId (snapPrints i); places = map (\<lambda>j. 5 + 4 * j) [0..<length prints] in
      [JRecord [(js ''snapshotVersion'',
           JString (if list_ex (\<lambda>p. printStructured p \<noteq> None) (snapPrints i) then js ''2'' else js ''1'')),
         (js ''claimIds'', JRef 1), (js ''artifactIds'', JRef 2), (js ''receiptIds'', JRef 3),
         (js ''claims'', JRef 4)],
       strings_array (sort (snapClaims i)), strings_array (sort (snapArtifacts i)),
       strings_array (sort (snapReceipts i)), JArray (map (\<lambda>j. Some (JRef j)) places)] @
      concat (map2 print_objects places prints))"

definition hashSnapshotInput :: "(bytes \<Rightarrow> bytes) \<Rightarrow> snapshot_input \<Rightarrow> app_error + js_string" where
  "hashSnapshotInput k i =
     (case canonicalBytes (canonicalForm i) (JRef 0) of
        Inl _ \<Rightarrow> Inl unexpected_error
      | Inr bs \<Rightarrow> Inr (keccak256 k bs))"

record evidence_snapshot =
  evidenceHash :: js_string
  evidenceClaims :: "js_string list"
  evidenceArtifacts :: "js_string list"
  evidenceReceipts :: "js_string list"

definition buildEvidenceSnapshot ::
    "(bytes \<Rightarrow> bytes) \<Rightarrow> review_db \<Rightarrow> js_string \<Rightarrow> js_string list \<Rightarrow> app_error + evidence_snapshot" where
  "buildEvidenceSnapshot k db project ids =
     (if length ids = 0
      then Inl (badRequest (js ''EVIDENCE_SNAPSHOT_EMPTY'')
        (js ''A review without evidence cannot be created. Specify at least one claim''))
      else
        (let found = filter (\<lambda>c. claimProject c = project) (scoped_claims db ids) in
         if length found \<noteq> length ids
         then Inl (badRequest (js ''EVIDENCE_SNAPSHOT_CLAIM_MISSING'')
           (js ''Some of the specified claims are not in this project''))
         else
           (let input = \<lparr>snapClaims = map claimId found,
                  snapArtifacts = map artifactId (filter (\<lambda>a. artifactProject a = project \<and> \<not> artifactRevoked a) (artifacts db)),
                  snapReceipts = map receiptId (filter (\<lambda>r. receiptProject r = project) (receipts db)),
                  snapPrints = map snapshotClaimFingerprint found\<rparr>
            in and_then (hashSnapshotInput k input) (\<lambda>h.
                 Inr \<lparr>evidenceHash = h, evidenceClaims = snapClaims input, evidenceArtifacts = snapArtifacts input,
                      evidenceReceipts = snapReceipts input\<rparr>))))"

end
