(* ===== verification/Review_Signing.thy ===== *)
theory Review_Signing
  imports Review_Basis
begin

text \<open>
  What a reviewer signs and who may have signed it: \<open>services/attestation-signing.ts\<close> and the checks
  of a signer in \<open>services/signing-wallets.ts\<close> (\<open>apps/api/src\<close>). The recovery of an address from typed
  data and a signature (viem) is the argument \<open>recover\<close>, which may fail; the list of types of the typed
  data is a constant of another package and left out, as is the text of the wallet binding.
\<close>

section \<open>The message\<close>

record attestation_message =
  msgAttestation :: js_string
  msgSchema :: js_string
  msgSchemaVersion :: nat
  msgSnapshot :: js_string
  msgAssignment :: js_string
  msgCredential :: js_string
  msgPayload :: js_string
  msgIssued :: int
  msgExpires :: int
  msgNonce :: js_string

record typed_domain =
  domainName :: js_string
  domainVersion :: js_string
  domainChain :: int
  domainSalt :: js_string

definition attestationDomain :: "(bytes \<Rightarrow> bytes) \<Rightarrow> int \<Rightarrow> typed_domain" where
  "attestationDomain k chain =
     \<lparr>domainName = js ''MPC Verification Attestation'', domainVersion = js ''1'', domainChain = chain,
      domainSalt = keccak256 k (utf8_encode (js ''mpc-attestation-v1''))\<rparr>"

definition walletBindingDomain :: "(bytes \<Rightarrow> bytes) \<Rightarrow> int \<Rightarrow> typed_domain" where
  "walletBindingDomain k chain =
     \<lparr>domainName = js ''MPC Wallet Binding'', domainVersion = js ''1'', domainChain = chain,
      domainSalt = keccak256 k (utf8_encode (js ''mpc-wallet-binding-v1''))\<rparr>"

definition uuidToBytes32 :: "js_string \<Rightarrow> js_string" where
  "uuidToBytes32 uuid =
     (let hex = filter (\<lambda>c. c \<noteq> 0x2D) uuid in js ''0x'' @ hex @ replicate (64 - length hex) 0x30)"

definition payload_store ::
    "(js_string \<times> js_string) list list \<Rightarrow> (js_string \<times> js_string) list list \<Rightarrow> js_string \<Rightarrow> js_string list \<Rightarrow>
     js_object list" where
  "payload_store findings citations limits scope =
     [JRecord [(js ''findings'', JRef 1), (js ''citations'', JRef 2), (js ''limitations'', JString limits),
        (js ''claimScope'', JRef 3)],
      JArray (map (\<lambda>j. Some (JRef (4 + j))) [0..<length findings]),
      JArray (map (\<lambda>j. Some (JRef (4 + length findings + j))) [0..<length citations]),
      strings_array (sort scope)] @
     map (\<lambda>r. JRecord (map (\<lambda>(key, v). (key, JString v)) r)) (findings @ citations)"

definition hashAttestationPayload ::
    "(bytes \<Rightarrow> bytes) \<Rightarrow> (js_string \<times> js_string) list list \<Rightarrow> (js_string \<times> js_string) list list \<Rightarrow> js_string \<Rightarrow>
     js_string list \<Rightarrow> app_error + js_string" where
  "hashAttestationPayload k findings citations limits scope =
     (case canonicalBytes (payload_store findings citations limits scope) (JRef 0) of
        Inl _ \<Rightarrow> Inl unexpected_error
      | Inr bs \<Rightarrow> Inr (keccak256 k bs))"

type_synonym recovery = "typed_domain \<Rightarrow> attestation_message \<Rightarrow> js_string \<Rightarrow> js_string option"

text \<open>An exception of the recovery is not caught.\<close>

definition recoverAttestationSigner ::
    "(bytes \<Rightarrow> bytes) \<Rightarrow> recovery \<Rightarrow> int \<Rightarrow> attestation_message \<Rightarrow> js_string \<Rightarrow> app_error + js_string" where
  "recoverAttestationSigner k recover chain message signature =
     (case recover (attestationDomain k chain) message signature of
        None \<Rightarrow> Inl unexpected_error
      | Some address \<Rightarrow> Inr (js_lower address))"

primrec attestation_type_name :: "attestation_type \<Rightarrow> js_string" where
  "attestation_type_name professional_signoff = js ''professional_signoff''"
| "attestation_type_name laboratory_accreditation = js ''laboratory_accreditation''"
| "attestation_type_name independent_assurance = js ''independent_assurance''"
| "attestation_type_name legal_notarization = js ''legal_notarization''"
| "attestation_type_name cryptographic_attestation = js ''cryptographic_attestation''"

definition humanReadablePayload :: "js_string \<Rightarrow> js_string \<Rightarrow> nat \<Rightarrow> js_string \<Rightarrow> js_string \<Rightarrow> js_string" where
  "humanReadablePayload project_key type_name claimCount limits snapshot =
     js_join [0x0A]
       [js ''Project: '' @ project_key, js ''Review type: '' @ type_name,
        js ''Claims in scope: '' @ js_decimal claimCount, js ''Evidence snapshot: '' @ snapshot, [],
        js ''Review scope and limitations:'', limits, [],
        js ''This signature covers the review result and does not guarantee factual accuracy, legal effect, or investment suitability.'']"

section \<open>The signer\<close>

definition subjectSigningWallet :: "review_db \<Rightarrow> js_string \<Rightarrow> int \<Rightarrow> js_string option" where
  "subjectSigningWallet db subject chain =
     map_option (\<lambda>w. js_lower (walletAddress w))
       (find (\<lambda>w. walletSubject w = subject \<and> walletChain w = chain \<and> \<not> walletDisabled w) (wallets db))"

definition assertSubjectSigner ::
    "review_db \<Rightarrow> js_string \<Rightarrow> int \<Rightarrow> js_string \<Rightarrow> js_string \<Rightarrow> app_error + js_string" where
  "assertSubjectSigner db subject chain signer message =
     (case row_by subjId (subjects db) subject of
        None \<Rightarrow> Inl (badRequest (js ''SIGNATURE_SIGNER_MISMATCH'') message)
      | Some person \<Rightarrow>
          if subjSuspended person
          then Inl (unprocessable (js ''SUBJECT_SUSPENDED'') (js ''The signing person is suspended'') None)
          else if subjectSigningWallet db subject chain \<noteq> Some (js_lower signer)
          then Inl (badRequest (js ''SIGNATURE_SIGNER_MISMATCH'') message)
          else Inr (js_lower signer))"

lemma assertSubjectSigner_Inr:
  "assertSubjectSigner db subject chain signer message = Inr w \<longleftrightarrow>
     w = js_lower signer \<and> subjectSigningWallet db subject chain = Some w \<and>
     (\<exists>p. row_by subjId (subjects db) subject = Some p \<and> \<not> subjSuspended p)"
  by (auto simp: assertSubjectSigner_def split: option.splits if_splits)

end
