(* ===== verification/Verification_Route.thy ===== *)
theory Verification_Route
  imports Review_Signing Request_Guards Authorize_Laws Idempotency
begin

text \<open>
  Review cases, attestations, their signatures and disputes as the API runs them:
  \<open>apps/api/src/routes/verification.ts\<close>. Each mutation is one transaction on the tables of a tenant.
  The clock, the date of today, fresh identifiers, the pattern of a GUID, the hash function and the
  recovery of a signer are arguments. An identifier that is no GUID is answered as one that is not found.
\<close>

section \<open>Requests and answers\<close>

record review_request =
  revHead :: incoming
  revDigest :: js_string
  revRequestId :: js_string
  revAsOf :: js_string
  revCorrelation :: js_string

datatype review_body =
    Case_created js_string assignment_made js_string js_string js_string "js_string list"
  | Case_moved js_string verification_case_state verification_case_state nat js_string
  | Attestation_disputed js_string attestation_state js_string js_string
  | Dispute_resolved js_string js_string js_string js_string attestation_state nat
  | Attestation_drafted attestation_row
  | Signature_requested signature_request js_string typed_domain attestation_message
  | Attestation_signed js_string js_string js_string credential_applicability js_string js_string "js_string option"
  | Attestation_revoked js_string attestation_state js_string verification_case_state "claim_reassessment list"
  | Assignment_revoked js_string js_string js_string js_string
  | Reviewer_reassigned assignment_made js_string js_string js_string
  | Credential_changed js_string js_string credential_current_status credential_current_status "int option" nat

record review_view =
  answered :: review_body
  answerRequestId :: js_string
  answerAsOf :: js_string

type_synonym review_idb = "(js_string \<Rightarrow> review_db, review_view) idempotent_db"

definition answer_of :: "review_request \<Rightarrow> review_body \<Rightarrow> review_view" where
  "answer_of q b = \<lparr>answered = b, answerRequestId = revRequestId q, answerAsOf = revAsOf q\<rparr>"

definition review_mutation ::
    "js_string \<Rightarrow> js_string \<Rightarrow> review_request \<Rightarrow> (review_db \<Rightarrow> app_error + review_view \<times> review_db) \<Rightarrow> review_idb \<Rightarrow>
     app_error + review_view \<times> review_idb" where
  "review_mutation tenant key q work idb = withIdempotency tenant key (revDigest q) (withTenant tenant work) idb"

definition invalid_request :: app_error where
  "invalid_request = badRequest (js ''REQUEST_INVALID'') (js ''Request format is invalid'')"

definition audit_entry ::
    "js_string \<Rightarrow> js_string option \<Rightarrow> js_string option \<Rightarrow> js_string \<Rightarrow> js_string \<Rightarrow> js_string \<Rightarrow> js_string \<Rightarrow>
     js_string option \<Rightarrow> review_request \<Rightarrow> audit_row" where
  "audit_entry tenant project actor erole command kind resource reason q =
     \<lparr>auditTenant = tenant, auditProject = project, auditActor = actor, auditWallet = None, effectiveRole = erole,
      auditCommand = command, auditResourceType = kind, auditResource = Some resource, auditBefore = None,
      auditAfter = None, auditReason = reason, auditCorrelation = revCorrelation q\<rparr>"

definition event_entry ::
    "js_string \<Rightarrow> js_string \<Rightarrow> js_string \<Rightarrow> nat \<Rightarrow> js_string option \<Rightarrow> (js_string \<times> error_detail) list \<Rightarrow>
     review_request \<Rightarrow> domain_event" where
  "event_entry tenant kind aggregate version project payload q =
     \<lparr>eventTenant = tenant, eventType = kind, aggregateId = aggregate, aggregateVersion = version,
      eventProject = project, eventPayload = payload, eventCorrelation = revCorrelation q, eventCausation = None\<rparr>"

definition log_audit :: "audit_row \<Rightarrow> review_db \<Rightarrow> review_db" where
  "log_audit entry db = db\<lparr>review_audit := recordAudit entry (review_audit db)\<rparr>"

definition log_event :: "domain_event \<Rightarrow> review_db \<Rightarrow> review_db" where
  "log_event event db = db\<lparr>review_outbox := enqueueEvent event (review_outbox db)\<rparr>"

primrec case_state_name :: "verification_case_state \<Rightarrow> js_string" where
  "case_state_name Vc_draft = js ''draft''"
| "case_state_name Vc_assigned = js ''assigned''"
| "case_state_name Vc_in_review = js ''in_review''"
| "case_state_name Vc_changes_requested = js ''changes_requested''"
| "case_state_name Vc_signed = js ''signed''"
| "case_state_name Vc_registered = js ''registered''"
| "case_state_name Vc_declined = js ''declined''"
| "case_state_name Vc_cancelled = js ''cancelled''"
| "case_state_name Vc_superseded = js ''superseded''"
| "case_state_name Vc_revoked = js ''revoked''"

primrec attestation_state_name :: "attestation_state \<Rightarrow> js_string" where
  "attestation_state_name Va_draft = js ''draft''"
| "attestation_state_name Va_signed = js ''signed''"
| "attestation_state_name Va_active = js ''active''"
| "attestation_state_name Va_stale_candidate = js ''stale_candidate''"
| "attestation_state_name Va_superseded = js ''superseded''"
| "attestation_state_name Va_revoked = js ''revoked''"
| "attestation_state_name Va_disputed = js ''disputed''"

definition parse_conflict :: "js_string \<Rightarrow> conflict_status option" where
  "parse_conflict s =
     (if s = js ''none'' then Some Conflict_none
      else if s = js ''disclosed_resolved'' then Some Conflict_disclosed_resolved
      else if s = js ''unresolved'' then Some Conflict_unresolved else None)"

section \<open>Whose project it is\<close>

definition caseProjectId :: "review_db \<Rightarrow> js_string \<Rightarrow> app_error + js_string" where
  "caseProjectId db cid =
     (case case_by db cid of
        None \<Rightarrow> Inl (notFound (js ''Verification case not found''))
      | Some c \<Rightarrow> Inr (caseProject c))"

definition attestation_case :: "review_db \<Rightarrow> js_string \<Rightarrow> (attestation_row \<times> case_row) option" where
  "attestation_case db aid =
     Option.bind (attestation_by db aid) (\<lambda>a. map_option (\<lambda>c. (a, c)) (case_by db (attCase a)))"

definition attestationProjectId :: "review_db \<Rightarrow> js_string \<Rightarrow> app_error + js_string" where
  "attestationProjectId db aid =
     (case attestation_case db aid of
        None \<Rightarrow> Inl (notFound (js ''Attestation not found''))
      | Some (a, c) \<Rightarrow> Inr (caseProject c))"

definition disputeProjectId :: "review_db \<Rightarrow> js_string \<Rightarrow> app_error + js_string" where
  "disputeProjectId db did =
     (case Option.bind (dispute_by db did) (\<lambda>d. attestation_case db (dispAttestation d)) of
        None \<Rightarrow> Inl (notFound (js ''Dispute not found''))
      | Some (a, c) \<Rightarrow> Inr (caseProject c))"

section \<open>Creating a case\<close>

record create_case_body =
  newProject :: js_string
  newSchema :: js_string
  newClaims :: "js_string list"
  newReviewer :: js_string
  newCredential :: js_string
  newConflict :: js_string

definition parse_case ::
    "(js_string \<Rightarrow> bool) \<Rightarrow> create_case_body option \<Rightarrow> (create_case_body \<times> conflict_status) option" where
  "parse_case is_guid body =
     (case body of
        None \<Rightarrow> None
      | Some b \<Rightarrow>
          if list_all is_guid [newProject b, newSchema b, newReviewer b, newCredential b] \<and>
             list_all is_guid (newClaims b) \<and> length (newClaims b) \<ge> 1
          then map_option (\<lambda>x. (b, x)) (parse_conflict (newConflict b)) else None)"

definition create_case_work ::
    "(bytes \<Rightarrow> bytes) \<Rightarrow> int \<Rightarrow> js_string \<Rightarrow> js_string \<Rightarrow> js_string \<Rightarrow> session \<Rightarrow> js_string \<Rightarrow> js_string \<Rightarrow>
     create_case_body \<Rightarrow> conflict_status \<Rightarrow> review_request \<Rightarrow> review_db \<Rightarrow> app_error + review_view \<times> review_db" where
  "create_case_work k now today fresh fresh_assignment s tenant erole b disclosed q db =
     and_then (buildEvidenceSnapshot k db (newProject b) (newClaims b)) (\<lambda>snap.
     (let db1 = db\<lparr>cases := cases db @ [\<lparr>caseId = fresh, caseProject = newProject b, caseSchema = newSchema b,
                     caseState = Vc_assigned, caseSnapshot = evidenceHash snap, caseVersion = 1\<rparr>],
                   case_claims := case_claims db @ map (\<lambda>c. (fresh, c)) (evidenceClaims snap)\<rparr>
      in and_then (assignReviewer now today fresh_assignment
                \<lparr>inCase = fresh, inProject = newProject b, inClaims = evidenceClaims snap, inReviewer = newReviewer b,
                 inCredential = newCredential b, inConflict = disclosed, inAssigner = sessionSubjectId s\<rparr> db1)
           (\<lambda>(made, db2).
             Inr (answer_of q (Case_created fresh made (newProject b) (newSchema b) (evidenceHash snap) (evidenceClaims snap)),
               log_event (event_entry tenant (js ''verification.case.assigned'') fresh 1 (Some (newProject b))
                   [(js ''evidenceSnapshotHash'', Detail_string (evidenceHash snap))] q)
                 (log_audit (audit_entry tenant (Some (newProject b)) (sessionSubjectId s) erole
                     (js ''verification.case.assigned'') (js ''verification_case'') fresh None q) db2)))))"

definition createCase ::
    "(bytes \<Rightarrow> bytes) \<Rightarrow> (js_string \<Rightarrow> bool) \<Rightarrow> int \<Rightarrow> js_string \<Rightarrow> js_string \<Rightarrow> js_string \<Rightarrow> review_request \<Rightarrow>
     create_case_body option \<Rightarrow> review_idb \<Rightarrow> app_error + review_view \<times> review_idb" where
  "createCase k is_guid now today fresh fresh_assignment q body idb =
     and_then (requireMutationContext (revHead q)) (\<lambda>(s, tenant, key).
     (case parse_case is_guid body of
        None \<Rightarrow> Inl invalid_request
      | Some (b, disclosed) \<Rightarrow>
          and_then (assertAuthorized s (js ''claim.curate'')
                      (projectResource tenant (newProject b) no_resource_overrides)
                      (sessionFacts s no_actor_overrides)) (\<lambda>erole.
          review_mutation tenant key q
            (create_case_work k now today fresh fresh_assignment s tenant erole b disclosed q) idb)))"

section \<open>The cases of a project\<close>

record case_view =
  shownCase :: case_row
  shownAssignment :: assignment_row
  shownSteps :: "case_step list"
  shownClaims :: "js_string list"

text \<open>The assignment in force, or the last one: active ones first, then the newest, then by identifier.\<close>

definition latest_assignment :: "review_db \<Rightarrow> js_string \<Rightarrow> assignment_row option" where
  "latest_assignment db cid =
     (case sort_key (\<lambda>a. if assignmentRevokedAt a = None then 0 else (1::nat))
             (sort_key (\<lambda>a. - assignedAt a)
               (sort_key assignmentId (filter (\<lambda>a. assignmentCase a = cid) (assignments db)))) of
        [] \<Rightarrow> None
      | a # _ \<Rightarrow> Some a)"

definition case_view_of :: "review_db \<Rightarrow> case_row \<Rightarrow> case_view option" where
  "case_view_of db c =
     map_option (\<lambda>a. \<lparr>shownCase = c, shownAssignment = a,
         shownSteps = sort_key stepAt (filter (\<lambda>t. stepCase t = caseId c) (case_steps db)),
         shownClaims = sort (map snd (filter (\<lambda>x. fst x = caseId c) (case_claims db)))\<rparr>)
       (latest_assignment db (caseId c))"

definition listCases ::
    "review_request \<Rightarrow> js_string \<Rightarrow> (js_string \<Rightarrow> review_db) \<Rightarrow> app_error + case_view list" where
  "listCases q project w =
     and_then (requireReadContext (revHead q)) (\<lambda>(s, tenant).
     and_then (assertAuthorized s (js ''verification.read'') (projectResource tenant project no_resource_overrides)
                 (sessionFacts s no_actor_overrides)) (\<lambda>_.
       (let db = w tenant in
        Inr (sort_key (\<lambda>v. - assignedAt (shownAssignment v))
          (List.map_filter (case_view_of db) (filter (\<lambda>c. caseProject c = project) (cases db)))))))"

section \<open>Moving a case\<close>

definition REQUESTABLE_CASE_STATES :: "verification_case_state list" where
  "REQUESTABLE_CASE_STATES = [Vc_in_review, Vc_changes_requested, Vc_declined, Vc_cancelled]"

definition parse_case_move :: "(js_string \<times> js_string) option \<Rightarrow> (verification_case_state \<times> js_string) option" where
  "parse_case_move body =
     (case body of
        None \<Rightarrow> None
      | Some (target, reason) \<Rightarrow>
          if length reason < 1 then None
          else map_option (\<lambda>t. (t, reason)) (find (\<lambda>t. case_state_name t = target) REQUESTABLE_CASE_STATES))"

definition step_of ::
    "int \<Rightarrow> js_string \<Rightarrow> verification_case_state \<Rightarrow> verification_case_state \<Rightarrow> js_string \<Rightarrow> js_string option \<Rightarrow> case_step" where
  "step_of now cid source target reason actor =
     \<lparr>stepCase = cid, stepFrom = source, stepTo = target, stepReason = reason, stepActor = actor, stepAt = now\<rparr>"

definition move_recorded ::
    "int \<Rightarrow> js_string \<Rightarrow> verification_case_state \<Rightarrow> verification_case_state \<Rightarrow> js_string \<Rightarrow> js_string option \<Rightarrow>
     review_db \<Rightarrow> review_db" where
  "move_recorded now cid source target reason actor db =
     (let db1 = set_case_state cid target db
      in db1\<lparr>case_steps := case_steps db1 @ [step_of now cid source target reason actor]\<rparr>)"

definition case_detail :: "verification_case_state \<Rightarrow> verification_case_state \<Rightarrow> (js_string \<times> error_detail) list" where
  "case_detail source target =
     [(js ''fromState'', Detail_string (case_state_name source)),
      (js ''toState'', Detail_string (case_state_name target))]"

definition move_case_work ::
    "int \<Rightarrow> session \<Rightarrow> js_string \<Rightarrow> js_double \<Rightarrow> js_string \<Rightarrow> js_string \<Rightarrow> verification_case_state \<Rightarrow> js_string \<Rightarrow>
     review_request \<Rightarrow> review_db \<Rightarrow> app_error + review_view \<times> review_db" where
  "move_case_work now s tenant expected erole cid target reason q db =
     (case case_by db cid of
        None \<Rightarrow> Inl (notFound (js ''Verification case not found''))
      | Some current \<Rightarrow>
          and_then (assertVersionMatches expected (caseVersion current) (js ''verification_case'')) (\<lambda>_.
          if \<not> canTransition verificationCaseMachine (caseState current) target
          then Inl (conflict (js ''INVALID_STATE_TRANSITION'') (js ''State transition not allowed'')
            (Some (case_detail (caseState current) target @
              [(js ''allowedTransitions'',
                Detail_strings (map case_state_name (targets verificationCaseMachine (caseState current))))])))
          else
            Inr (answer_of q (Case_moved cid target (caseState current) (caseVersion current + 1) reason),
              log_event (event_entry tenant (js ''verification.case.transitioned'') cid (caseVersion current + 1)
                  (Some (caseProject current)) (case_detail (caseState current) target) q)
                (log_audit ((audit_entry tenant (Some (caseProject current)) (sessionSubjectId s) erole
                    (js ''verification.case.transitioned'') (js ''verification_case'') cid (Some reason) q)
                    \<lparr>auditBefore := Some (caseVersion current), auditAfter := Some (caseVersion current + 1)\<rparr>)
                  (move_recorded now cid (caseState current) target reason (sessionSubjectId s) db)))))"

definition moveCase ::
    "int \<Rightarrow> review_request \<Rightarrow> js_string \<Rightarrow> (js_string \<times> js_string) option \<Rightarrow> review_idb \<Rightarrow>
     app_error + review_view \<times> review_idb" where
  "moveCase now q cid body idb =
     and_then (requireMutationContext (revHead q)) (\<lambda>(s, tenant, key).
     and_then (requireIfMatch (revHead q)) (\<lambda>expected.
     (case parse_case_move body of
        None \<Rightarrow> Inl invalid_request
      | Some (target, reason) \<Rightarrow>
          and_then (caseProjectId (world idb tenant) cid) (\<lambda>project.
          and_then (assertAuthorized s (js ''claim.curate'') (projectResource tenant project no_resource_overrides)
                      (sessionFacts s no_actor_overrides)) (\<lambda>erole.
          review_mutation tenant key q (move_case_work now s tenant expected erole cid target reason q) idb)))))"

end
