(* ===== verification/Attestation_Route.thy ===== *)
theory Attestation_Route
  imports Verification_Route
begin

text \<open>
  Attestations in \<open>apps/api/src/routes/verification.ts\<close>: disputes and their resolution, drafts, signature
  requests and signatures, and the supersession of the attestation that a signature corrects.
\<close>

section \<open>Disputes\<close>

definition parse_dispute :: "(js_string \<times> js_string) option \<Rightarrow> (js_string \<times> js_string) option" where
  "parse_dispute body =
     (case body of
        None \<Rightarrow> None
      | Some (reason, detail) \<Rightarrow> if length reason < 1 \<or> length detail < 1 then None else Some (reason, detail))"

definition set_attestation_state :: "js_string \<Rightarrow> attestation_state \<Rightarrow> review_db \<Rightarrow> review_db" where
  "set_attestation_state aid st db =
     db\<lparr>attestations := set_row attId aid (\<lambda>a. a\<lparr>attState := st\<rparr>) (attestations db)\<rparr>"

definition dispute_work ::
    "int \<Rightarrow> js_string \<Rightarrow> session \<Rightarrow> js_string \<Rightarrow> js_string \<Rightarrow> js_string \<Rightarrow> js_string \<Rightarrow> js_string \<Rightarrow> review_request \<Rightarrow>
     review_db \<Rightarrow> app_error + review_view \<times> review_db" where
  "dispute_work now fresh s tenant erole aid reason detail q db =
     (case attestation_by db aid of
        None \<Rightarrow> Inl (notFound (js ''Attestation not found''))
      | Some a \<Rightarrow>
          if attState a \<noteq> Va_disputed \<and> \<not> canTransition attestationMachine (attState a) Va_disputed
          then Inl (conflict (js ''INVALID_STATE_TRANSITION'') (js ''Cannot dispute in this state'')
            (Some [(js ''fromState'', Detail_string (attestation_state_name (attState a))),
                   (js ''toState'', Detail_string (js ''disputed'')),
                   (js ''allowedTransitions'',
                    Detail_strings (map attestation_state_name (targets attestationMachine (attState a))))]))
          else
            Inr (answer_of q (Attestation_disputed aid (attState a) (attPayload a) reason),
              log_event (event_entry tenant (js ''verification_attestation.disputed'') aid 1 None
                  [(js ''reasonCode'', Detail_string reason)] q)
                (log_audit (audit_entry tenant None (sessionSubjectId s) erole
                    (js ''verification.attestation.disputed'') (js ''verification_attestation'') aid (Some reason) q)
                  (set_attestation_state aid Va_disputed
                    (db\<lparr>disputes := disputes db @
                       [\<lparr>dispId = fresh, dispAttestation = aid, dispReason = reason, dispDetail = detail,
                         dispRaisedBy = sessionSubjectId s, dispRaisedAt = now, dispResolvedAt = None,
                         dispResolution = None\<rparr>]\<rparr>)))))"

definition disputeAttestation ::
    "int \<Rightarrow> js_string \<Rightarrow> review_request \<Rightarrow> js_string \<Rightarrow> (js_string \<times> js_string) option \<Rightarrow> review_idb \<Rightarrow>
     app_error + review_view \<times> review_idb" where
  "disputeAttestation now fresh q aid body idb =
     and_then (requireMutationContext (revHead q)) (\<lambda>(s, tenant, key).
     (case parse_dispute body of
        None \<Rightarrow> Inl invalid_request
      | Some (reason, detail) \<Rightarrow>
          and_then (attestationProjectId (world idb tenant) aid) (\<lambda>project.
          and_then (assertAuthorized s (js ''attestation.dispute'')
                      (projectResource tenant project no_resource_overrides)
                      (sessionFacts s no_actor_overrides)) (\<lambda>erole.
          review_mutation tenant key q (dispute_work now fresh s tenant erole aid reason detail q) idb))))"

definition listDisputes ::
    "review_request \<Rightarrow> js_string \<Rightarrow> (js_string \<Rightarrow> review_db) \<Rightarrow> app_error + dispute_row list" where
  "listDisputes q aid w =
     and_then (requireReadContext (revHead q)) (\<lambda>(s, tenant).
     and_then (attestationProjectId (w tenant) aid) (\<lambda>project.
     and_then (assertAuthorized s (js ''verification.read'') (projectResource tenant project no_resource_overrides)
                 (sessionFacts s no_actor_overrides)) (\<lambda>_.
       Inr (sort_key (\<lambda>d. - dispRaisedAt d) (filter (\<lambda>d. dispAttestation d = aid) (disputes (w tenant)))))))"

text \<open>\<open>"upheld"\<close> or \<open>"dismissed"\<close>; the stored resolution starts with it.\<close>

definition parse_resolution :: "(js_string \<times> js_string) option \<Rightarrow> (js_string \<times> js_string) option" where
  "parse_resolution body =
     (case body of
        None \<Rightarrow> None
      | Some (res, rationale) \<Rightarrow>
          if (res = js ''upheld'' \<or> res = js ''dismissed'') \<and> length rationale \<ge> 1
          then Some (res, rationale) else None)"

definition open_disputes :: "review_db \<Rightarrow> js_string \<Rightarrow> nat" where
  "open_disputes db aid =
     length (filter (\<lambda>d. dispAttestation d = aid \<and> dispResolvedAt d = None) (disputes db))"

definition resolved_row :: "int \<Rightarrow> js_string \<Rightarrow> js_string \<Rightarrow> dispute_row \<Rightarrow> dispute_row" where
  "resolved_row now res rationale d =
     d\<lparr>dispResolvedAt := Some now, dispResolution := Some (res @ js '': '' @ rationale)\<rparr>"

definition resolve_work ::
    "int \<Rightarrow> session \<Rightarrow> js_string \<Rightarrow> js_string \<Rightarrow> js_string \<Rightarrow> js_string \<Rightarrow> js_string \<Rightarrow> review_request \<Rightarrow>
     review_db \<Rightarrow> app_error + review_view \<times> review_db" where
  "resolve_work now s tenant erole did res rationale q db =
     (case dispute_by db did of
        None \<Rightarrow> Inl (notFound (js ''Dispute not found''))
      | Some d \<Rightarrow>
          (case dispResolvedAt d of
             Some t \<Rightarrow> Inl (conflict (js ''DISPUTE_ALREADY_RESOLVED'') (js ''Dispute is already resolved'')
               (Some [(js ''resolvedAt'', Detail_time t)]))
           | None \<Rightarrow>
               (let db1 = db\<lparr>disputes := set_row dispId did (resolved_row now res rationale) (disputes db)\<rparr>;
                    aid = dispAttestation d; remaining = open_disputes db1 aid;
                    lifted = (res = js ''dismissed'' \<and> remaining = 0);
                    db2 = (if lifted
                           then db1\<lparr>attestations := set_row attId aid
                                  (\<lambda>a. if attState a = Va_disputed then a\<lparr>attState := Va_active\<rparr> else a)
                                  (attestations db1)\<rparr>
                           else db1)
                in Inr (answer_of q (Dispute_resolved did aid res rationale
                          (if lifted then Va_active else Va_disputed) remaining),
                     log_audit (audit_entry tenant None (sessionSubjectId s) erole
                       (js ''verification.dispute.resolved'') (js ''attestation_dispute'') did (Some res) q) db2))))"

definition resolveDispute ::
    "int \<Rightarrow> review_request \<Rightarrow> js_string \<Rightarrow> (js_string \<times> js_string) option \<Rightarrow> review_idb \<Rightarrow>
     app_error + review_view \<times> review_idb" where
  "resolveDispute now q did body idb =
     and_then (requireMutationContext (revHead q)) (\<lambda>(s, tenant, key).
     (case parse_resolution body of
        None \<Rightarrow> Inl invalid_request
      | Some (res, rationale) \<Rightarrow>
          and_then (disputeProjectId (world idb tenant) did) (\<lambda>project.
          and_then (assertAuthorized s (js ''attestation.dispute'')
                      (projectResource tenant project no_resource_overrides)
                      (sessionFacts s no_actor_overrides)) (\<lambda>erole.
          review_mutation tenant key q (resolve_work now s tenant erole did res rationale q) idb))))"

section \<open>Drafting\<close>

record draft_body =
  draftAssignment :: js_string
  draftType :: js_string
  draftScope :: "js_string list"
  draftFindings :: "(js_string \<times> js_string) list list"
  draftCitations :: "(js_string \<times> js_string) list list"
  draftLimitations :: js_string
  draftSupersedes :: "js_string option"

definition parse_attestation_type :: "js_string \<Rightarrow> attestation_type option" where
  "parse_attestation_type s = find (\<lambda>t. attestation_type_name t = s) ATTESTATION_TYPES"

definition parse_draft :: "(js_string \<Rightarrow> bool) \<Rightarrow> draft_body option \<Rightarrow> (draft_body \<times> attestation_type) option" where
  "parse_draft is_guid body =
     (case body of
        None \<Rightarrow> None
      | Some b \<Rightarrow>
          if is_guid (draftAssignment b) \<and> list_all is_guid (draftScope b) \<and> length (draftScope b) \<ge> 1 \<and>
             length (draftLimitations b) \<ge> 1 \<and>
             (case draftSupersedes b of None \<Rightarrow> True | Some x \<Rightarrow> is_guid x)
          then map_option (\<lambda>t. (b, t)) (parse_attestation_type (draftType b)) else None)"

definition DRAFTING_STATES :: "js_string list" where
  "DRAFTING_STATES = [js ''assigned'', js ''in_review'', js ''changes_requested'']"

definition review_resource :: "js_string \<Rightarrow> case_row \<Rightarrow> resource_context" where
  "review_resource tenant c =
     projectResource tenant (caseProject c)
       (no_resource_overrides\<lparr>overState := Some (case_state_name (caseState c)), overStatesAllowing := Some DRAFTING_STATES,
          overRequiresCredential := Some True, overRequiresAssignment := Some True, overSeparation := Some True\<rparr>)"

definition reviewer_facts :: "session \<Rightarrow> assignment_row \<Rightarrow> credential_row \<Rightarrow> actor_facts" where
  "reviewer_facts s asg cred =
     sessionFacts s (no_actor_overrides\<lparr>overCredential := Some (credStatus cred = Cred_valid),
       overAssignment := Some (assignmentRevokedAt asg = None), overConflict := Some (assignmentConflict asg)\<rparr>)"

definition assertSupersedable :: "review_db \<Rightarrow> js_string \<Rightarrow> js_string \<Rightarrow> js_string list \<Rightarrow> app_error + unit" where
  "assertSupersedable db pred project scope =
     (case attestation_case db pred of
        None \<Rightarrow> Inl (notFound (js ''Attestation to supersede not found in this project''))
      | Some (a, c) \<Rightarrow>
          if caseProject c \<noteq> project then Inl (notFound (js ''Attestation to supersede not found in this project''))
          else if \<not> canTransition attestationMachine (attState a) Va_superseded
          then Inl (conflict (js ''INVALID_STATE_TRANSITION'') (js ''This attestation cannot be superseded'')
            (Some [(js ''fromState'', Detail_string (attestation_state_name (attState a))),
                   (js ''toState'', Detail_string (js ''superseded'')),
                   (js ''allowedTransitions'',
                    Detail_strings (map attestation_state_name (targets attestationMachine (attState a))))]))
          else if length (filter (\<lambda>x. x \<notin> set scope) (attScope a)) > 0
          then Inl (unprocessable (js ''SUPERSEDE_SCOPE_NARROWED'')
            (js ''A correction must cover every claim the attestation it replaces covered'')
            (Some [(js ''uncovered'', Detail_strings (filter (\<lambda>x. x \<notin> set scope) (attScope a)))]))
          else Inr ())"

definition UNSIGNED_DRAFT_SIGNER :: js_string where
  "UNSIGNED_DRAFT_SIGNER = js ''0x'' @ replicate 40 0x30"

definition sign_request_of ::
    "review_db \<Rightarrow> session \<Rightarrow> draft_body \<Rightarrow> attestation_type \<Rightarrow> assignment_row \<Rightarrow> credential_row \<Rightarrow> schema_row \<Rightarrow>
     authority_basis \<Rightarrow> attestation_sign_request" where
  "sign_request_of db s b ty asg cred schema basis =
     \<lparr>attestationType = ty, claimScope = draftScope b, reviewLimitations = draftLimitations b,
      conflictStatus = assignmentConflict asg, credentialValidAtSigningTime = (credStatus cred = Cred_valid),
      credentialScopeCovers = credentialScopeCoversClaims basis,
      hasActiveAssignment = (assignmentRevokedAt asg = None), schemaState = schemaRowState schema,
      signerSubmittedEvidence =
        (case sessionSubjectId s of None \<Rightarrow> False
         | Some me \<Rightarrow> me \<in> set (fst (loadEvidenceSubmitters db (draftScope b)))),
      independenceReviewed = assignmentReviewed asg\<rparr>"

definition sign_reason_name :: "attestation_deny_reason \<Rightarrow> js_string" where
  "sign_reason_name r =
     (case r of
        ATTESTATION_LIMITATIONS_REQUIRED \<Rightarrow> js ''ATTESTATION_LIMITATIONS_REQUIRED''
      | ATTESTATION_UNRESOLVED_CONFLICT \<Rightarrow> js ''ATTESTATION_UNRESOLVED_CONFLICT''
      | ATTESTATION_NO_ACTIVE_ASSIGNMENT \<Rightarrow> js ''ATTESTATION_NO_ACTIVE_ASSIGNMENT''
      | ATTESTATION_CREDENTIAL_INVALID \<Rightarrow> js ''ATTESTATION_CREDENTIAL_INVALID''
      | ATTESTATION_SCOPE_MISMATCH \<Rightarrow> js ''ATTESTATION_SCOPE_MISMATCH''
      | ATTESTATION_SCHEMA_NOT_ACTIVE \<Rightarrow> js ''ATTESTATION_SCHEMA_NOT_ACTIVE''
      | ATTESTATION_EMPTY_CLAIM_SCOPE \<Rightarrow> js ''ATTESTATION_EMPTY_CLAIM_SCOPE''
      | ATTESTATION_SELF_ASSURANCE \<Rightarrow> js ''ATTESTATION_SELF_ASSURANCE''
      | ATTESTATION_INDEPENDENCE_NOT_REVIEWED \<Rightarrow> js ''ATTESTATION_INDEPENDENCE_NOT_REVIEWED'')"

definition draft_row ::
    "int \<Rightarrow> js_string \<Rightarrow> case_row \<Rightarrow> assignment_row \<Rightarrow> credential_row \<Rightarrow> draft_body \<Rightarrow> attestation_type \<Rightarrow> js_string \<Rightarrow>
     js_string \<times> js_string \<Rightarrow> attestation_row" where
  "draft_row now fresh c asg cred b ty payload versions =
     \<lparr>attId = fresh, attCase = caseId c, attAssignment = assignmentId asg, attCredential = credId cred,
      attSchema = caseSchema c, attType = ty, attScope = draftScope b, attSnapshot = caseSnapshot c,
      attFindings = draftFindings b, attCitations = draftCitations b, attLimitations = draftLimitations b,
      attCredentialSnapshot = \<lparr>snapshotCredential = credId cred, statusAtSigning = credStatus cred,
        validAtAttestation = (credStatus cred = Cred_valid)\<rparr>,
      attMethod = fst versions, attPolicy = snd versions, attPayload = payload, attSignature = [],
      attSigner = UNSIGNED_DRAFT_SIGNER, attSignedAt = now, attState = Va_draft, attSupersedes = draftSupersedes b,
      attRevokedAt = None, attRevokedBy = None, attRevokeReason = None\<rparr>"

text \<open>The rows joined for a draft: the case, its schema, the assignment of the case and its credential.\<close>

definition draft_context ::
    "review_db \<Rightarrow> js_string \<Rightarrow> js_string \<Rightarrow> (case_row \<times> schema_row \<times> assignment_row \<times> credential_row) option" where
  "draft_context db cid asg_id =
     Option.bind (case_by db cid) (\<lambda>c.
     Option.bind (row_by schemaId (schemas db) (caseSchema c)) (\<lambda>schema.
     Option.bind (assignment_by db asg_id) (\<lambda>asg.
       if assignmentCase asg \<noteq> cid then None
       else map_option (\<lambda>cred. (c, schema, asg, cred)) (credential_by db (assignmentCredential asg)))))"

definition draft_checks ::
    "js_string \<Rightarrow> session \<Rightarrow> js_string \<Rightarrow> draft_body \<Rightarrow> attestation_type \<Rightarrow> case_row \<Rightarrow> schema_row \<Rightarrow> assignment_row \<Rightarrow>
     credential_row \<Rightarrow> review_db \<Rightarrow> app_error + js_string" where
  "draft_checks today s tenant b ty c schema asg cred db =
     (if Some (assignmentSubject asg) \<noteq> sessionSubjectId s
      then Inl (forbidden (js ''ASSIGNMENT_NOT_OWNED'') (js ''This assignment belongs to another reviewer'')
        (Some [(js ''requiredAction'', Detail_string (js ''Draft from a case assigned to you''))]))
      else
        and_then (assertAuthorized s (js ''attestation.sign'') (review_resource tenant c) (reviewer_facts s asg cred)) (\<lambda>erole.
        (let outside = filter (\<lambda>x. (caseId c, x) \<notin> set (case_claims db)) (draftScope b) in
         if length outside > 0
         then Inl (unprocessable (js ''ATTESTATION_SCOPE_OUTSIDE_CASE'')
           (js ''The claim scope includes claims that are not part of this case'')
           (Some [(js ''outsideCase'', Detail_strings outside)]))
         else
           (let basis = loadAuthorityBasis db today cred (draftScope b) in
            case checkAttestationSignable (sign_request_of db s b ty asg cred schema basis) of
              Sign_refused r \<Rightarrow> Inl (unprocessable (sign_reason_name r) (js ''Cannot sign under these conditions'')
                (Some [(js ''outsideCredentialScope'', Detail_strings (outsideCredentialScope basis))]))
            | Sign_allowed \<Rightarrow>
                let blockers = basisBlockers basis (credStatus cred) True (assignmentRevokedAt asg = None) in
                if length blockers > 0
                then Inl (unprocessable (js ''ATTESTATION_BASIS_REJECTED'')
                  (js ''This credential cannot be the basis for attesting these claims'')
                  (Some [blockers_detail blockers,
                         (js ''outsideAuthorityScope'', Detail_strings (outsideAuthorityScope basis))]))
                else
                  and_then (case draftSupersedes b of None \<Rightarrow> Inr ()
                            | Some pred \<Rightarrow> assertSupersedable db pred (caseProject c) (draftScope b)) (\<lambda>_.
                  Inr erole)))))"

definition draft_work ::
    "(bytes \<Rightarrow> bytes) \<Rightarrow> int \<Rightarrow> js_string \<Rightarrow> js_string \<Rightarrow> session \<Rightarrow> js_string \<Rightarrow> js_string \<Rightarrow> draft_body \<Rightarrow>
     attestation_type \<Rightarrow> review_request \<Rightarrow> review_db \<Rightarrow> app_error + review_view \<times> review_db" where
  "draft_work k now today fresh s tenant cid b ty q db =
     (case draft_context db cid (draftAssignment b) of
        None \<Rightarrow> Inl (notFound (js ''Verification case not found''))
      | Some (c, schema, asg, cred) \<Rightarrow>
          and_then (draft_checks today s tenant b ty c schema asg cred db) (\<lambda>erole.
          and_then (versionsInForce now db (caseSchema c)) (\<lambda>versions.
          and_then (hashAttestationPayload k (draftFindings b) (draftCitations b) (draftLimitations b) (draftScope b))
            (\<lambda>payload.
            (let row = draft_row now fresh c asg cred b ty payload versions;
                 db1 = db\<lparr>attestations := attestations db @ [row]\<rparr>;
                 db2 = (if caseState c = Vc_assigned then set_case_state cid Vc_in_review db1 else db1)
             in Inr (answer_of q (Attestation_drafted row),
                  log_audit (audit_entry tenant (Some (caseProject c)) (sessionSubjectId s) erole
                    (js ''verification.attestation.drafted'') (js ''verification_attestation'') fresh None q) db2))))))"

definition draftAttestation ::
    "(bytes \<Rightarrow> bytes) \<Rightarrow> (js_string \<Rightarrow> bool) \<Rightarrow> int \<Rightarrow> js_string \<Rightarrow> js_string \<Rightarrow> review_request \<Rightarrow> js_string \<Rightarrow>
     draft_body option \<Rightarrow> review_idb \<Rightarrow> app_error + review_view \<times> review_idb" where
  "draftAttestation k is_guid now today fresh q cid body idb =
     and_then (requireMutationContext (revHead q)) (\<lambda>(s, tenant, key).
     (case parse_draft is_guid body of
        None \<Rightarrow> Inl invalid_request
      | Some (b, ty) \<Rightarrow> review_mutation tenant key q (draft_work k now today fresh s tenant cid b ty q) idb))"

end
