(* ===== verification/Signature_Route.thy ===== *)
theory Signature_Route
  imports Attestation_Route
begin

text \<open>
  Signature requests and signatures in \<open>apps/api/src/routes/verification.ts\<close>. The milliseconds of the
  clock give the seconds of a request; a request is consumed by the signature that uses it, in the same
  transaction.
\<close>

section \<open>Asking for a signature\<close>

definition SIGNATURE_REQUEST_TTL_MS :: int where
  "SIGNATURE_REQUEST_TTL_MS = 10 * 60 * 1000"

text \<open>The rows joined for a signature: the attestation, its case, its assignment and its credential.\<close>

definition signature_context ::
    "review_db \<Rightarrow> js_string \<Rightarrow> (attestation_row \<times> case_row \<times> assignment_row \<times> credential_row) option" where
  "signature_context db aid =
     Option.bind (attestation_case db aid) (\<lambda>(a, c).
     Option.bind (assignment_by db (attAssignment a)) (\<lambda>asg.
     map_option (\<lambda>cred. (a, c, asg, cred)) (credential_by db (attCredential a))))"

definition already_signed :: app_error where
  "already_signed = conflict (js ''ATTESTATION_ALREADY_SIGNED'') (js ''Attestation is already signed'') None"

definition authorizeSignatureRequest ::
    "session \<Rightarrow> js_string \<Rightarrow> js_string \<Rightarrow> review_db \<Rightarrow> app_error + js_string" where
  "authorizeSignatureRequest s tenant aid db =
     (case signature_context db aid of
        None \<Rightarrow> Inl (notFound (js ''Attestation not found''))
      | Some (a, c, asg, cred) \<Rightarrow>
          if Some (assignmentSubject asg) \<noteq> sessionSubjectId s
          then Inl (forbidden (js ''ASSIGNMENT_NOT_OWNED'') (js ''This assignment belongs to another reviewer'')
            (Some [(js ''requiredAction'', Detail_string (js ''Request a signature on a case assigned to you''))]))
          else if attState a \<noteq> Va_draft then Inl already_signed
          else assertAuthorized s (js ''attestation.sign'') (review_resource tenant c) (reviewer_facts s asg cred))"

definition request_message :: "attestation_row \<Rightarrow> signature_request \<Rightarrow> attestation_message" where
  "request_message a r =
     \<lparr>msgAttestation = uuidToBytes32 (attId a), msgSchema = uuidToBytes32 (attSchema a), msgSchemaVersion = 1,
      msgSnapshot = sreqSnapshot r, msgAssignment = uuidToBytes32 (attAssignment a),
      msgCredential = uuidToBytes32 (attCredential a), msgPayload = sreqPayload r, msgIssued = sreqIssued r,
      msgExpires = sreqExpires r, msgNonce = sreqNonce r\<rparr>"

definition new_request :: "int \<Rightarrow> js_string \<Rightarrow> js_string \<Rightarrow> attestation_row \<Rightarrow> signature_request" where
  "new_request now fresh nonce a =
     \<lparr>sreqId = fresh, sreqAttestation = attId a, sreqNonce = nonce, sreqSnapshot = attSnapshot a,
      sreqPayload = attPayload a, sreqIssued = now div 1000,
      sreqExpires = (now + SIGNATURE_REQUEST_TTL_MS) div 1000, sreqConsumed = None\<rparr>"

definition request_work ::
    "(bytes \<Rightarrow> bytes) \<Rightarrow> int \<Rightarrow> int \<Rightarrow> js_string \<Rightarrow> js_string \<Rightarrow> session \<Rightarrow> js_string \<Rightarrow> js_string \<Rightarrow> js_string \<Rightarrow>
     review_request \<Rightarrow> review_db \<Rightarrow> app_error + review_view \<times> review_db" where
  "request_work k chain now fresh nonce s tenant erole aid q db =
     (case Option.bind (signature_context db aid) (\<lambda>(a, c, asg, cred).
            map_option (\<lambda>p. (a, c, p)) (row_by projId (projects db) (caseProject c))) of
        None \<Rightarrow> Inl (notFound (js ''Attestation not found''))
      | Some (a, c, p) \<Rightarrow>
          if attState a \<noteq> Va_draft then Inl already_signed
          else
            (let r = new_request now fresh nonce a
             in Inr (answer_of q (Signature_requested r
                   (humanReadablePayload (projKey p) (attestation_type_name (attType a)) (length (attScope a))
                      (attLimitations a) (attSnapshot a))
                   (attestationDomain k chain) (request_message a r)),
                 log_audit (audit_entry tenant (Some (caseProject c)) (sessionSubjectId s) erole
                   (js ''verification.signature_request.created'') (js ''verification_attestation'') aid None q)
                   (db\<lparr>signature_requests := signature_requests db @ [r]\<rparr>))))"

definition requestSignature ::
    "(bytes \<Rightarrow> bytes) \<Rightarrow> int \<Rightarrow> int \<Rightarrow> js_string \<Rightarrow> js_string \<Rightarrow> review_request \<Rightarrow> js_string \<Rightarrow> review_idb \<Rightarrow>
     app_error + review_view \<times> review_idb" where
  "requestSignature k chain now fresh nonce q aid idb =
     and_then (requireMutationContext (revHead q)) (\<lambda>(s, tenant, key).
     and_then (authorizeSignatureRequest s tenant aid (world idb tenant)) (\<lambda>erole.
     review_mutation tenant key q (request_work k chain now fresh nonce s tenant erole aid q) idb))"

section \<open>Superseding what a signature corrects\<close>

definition supersedePredecessor ::
    "int \<Rightarrow> js_string \<Rightarrow> js_string \<Rightarrow> js_string option \<Rightarrow> review_db \<Rightarrow> app_error + attestation_row \<times> review_db" where
  "supersedePredecessor now pred successor actor db =
     (case attestation_case db pred of
        None \<Rightarrow> Inl (conflict (js ''INVALID_STATE_TRANSITION'')
          (js ''The attestation this corrects can no longer be superseded'')
          (Some [(js ''fromState'', Detail_null), (js ''toState'', Detail_string (js ''superseded''))]))
      | Some (a, c) \<Rightarrow>
          if \<not> canTransition attestationMachine (attState a) Va_superseded
          then Inl (conflict (js ''INVALID_STATE_TRANSITION'')
            (js ''The attestation this corrects can no longer be superseded'')
            (Some [(js ''fromState'', Detail_string (attestation_state_name (attState a))),
                   (js ''toState'', Detail_string (js ''superseded''))]))
          else
            (let db1 = set_attestation_state pred Va_superseded db;
                 db2 = (if canTransition verificationCaseMachine (caseState c) Vc_superseded
                        then move_recorded now (caseId c) (caseState c) Vc_superseded
                               (js ''Superseded by attestation '' @ successor) actor db1
                        else db1);
                 db3 = (if (successor, pred) \<in> set (lineage db2) then db2
                        else db2\<lparr>lineage := lineage db2 @ [(successor, pred)]\<rparr>)
             in Inr (a, db3)))"

section \<open>Submitting a signature\<close>

text \<open>\<open>/^0x[0-9a-f]+$/\<close>.\<close>

definition hex_signature :: "js_string \<Rightarrow> bool" where
  "hex_signature s \<longleftrightarrow> take 2 s = js ''0x'' \<and> length s > 2 \<and> list_all lower_hex (drop 2 s)"

definition parse_signature ::
    "(js_string \<Rightarrow> bool) \<Rightarrow> (js_string \<times> js_string) option \<Rightarrow> (js_string \<times> js_string) option" where
  "parse_signature is_guid body =
     (case body of
        None \<Rightarrow> None
      | Some (rid, signature) \<Rightarrow>
          if is_guid rid \<and> hex_signature signature then Some (rid, signature) else None)"

definition usable_request :: "int \<Rightarrow> js_string \<Rightarrow> signature_request \<Rightarrow> bool" where
  "usable_request now aid r \<longleftrightarrow>
     sreqAttestation r = aid \<and> sreqConsumed r = None \<and> sreqExpires r * 1000 > now"

definition consume_request :: "int \<Rightarrow> js_string \<Rightarrow> js_string \<Rightarrow> review_db \<Rightarrow> app_error + signature_request \<times> review_db" where
  "consume_request now rid aid db =
     (case request_by db rid of
        Some r \<Rightarrow>
          if usable_request now aid r
          then Inr (r, db\<lparr>signature_requests :=
                 set_row sreqId rid (\<lambda>x. x\<lparr>sreqConsumed := Some now\<rparr>) (signature_requests db)\<rparr>)
          else Inl (conflict (js ''SIGNATURE_REQUEST_UNUSABLE'')
            (js ''This signature request has already been used or has expired'') None)
      | None \<Rightarrow> Inl (conflict (js ''SIGNATURE_REQUEST_UNUSABLE'')
            (js ''This signature request has already been used or has expired'') None))"

definition signed_row ::
    "int \<Rightarrow> js_string \<Rightarrow> js_string \<Rightarrow> js_string \<times> js_string \<Rightarrow> credential_row \<Rightarrow> attestation_row \<Rightarrow> attestation_row" where
  "signed_row now signature signer versions cred a =
     a\<lparr>attSignature := signature, attSigner := signer, attSignedAt := now, attState := Va_signed,
       attMethod := fst versions, attPolicy := snd versions,
       attCredentialSnapshot := \<lparr>snapshotCredential = attCredential a, statusAtSigning = credStatus cred,
         validAtAttestation = (credStatus cred = Cred_valid)\<rparr>\<rparr>"

text \<open>Everything that stops a valid signature: the credential, the assignment and the authority as they are now.\<close>

definition acceptance_basis ::
    "js_string \<Rightarrow> attestation_row \<Rightarrow> assignment_row \<Rightarrow> credential_row \<Rightarrow> review_db \<Rightarrow> app_error + unit" where
  "acceptance_basis today a asg cred db =
     (let basis = loadAuthorityBasis db today cred (attScope a);
          blockers = basisBlockers basis (credStatus cred) True
            (assignmentRevokedAt asg = None \<and> assignmentCase asg = attCase a) in
      if length blockers > 0
      then Inl (unprocessable (js ''ATTESTATION_ACCEPTANCE_BLOCKED'')
        (js ''The signature is valid, but the attestation cannot be accepted'')
        (Some [blockers_detail blockers,
               (js ''credentialStatus'', Detail_string (credential_status_name (credStatus cred))),
               (js ''outsideAuthorityScope'', Detail_strings (outsideAuthorityScope basis)),
               (js ''outsideCredentialScope'', Detail_strings (outsideCredentialScope basis))]))
      else Inr ())"

definition store_signature ::
    "js_string \<Rightarrow> attestation_row \<Rightarrow> attestation_row \<Rightarrow> review_db \<Rightarrow> app_error + review_db" where
  "store_signature aid a row db =
     and_then (protect_signed_attestation a row) (\<lambda>_.
     and_then (one_signed_successor row (attestations db)) (\<lambda>_.
     Inr (db\<lparr>attestations := set_row attId aid (\<lambda>_. row) (attestations db)\<rparr>)))"

definition grade_event ::
    "js_string \<Rightarrow> js_string \<Rightarrow> review_request \<Rightarrow> claim_reassessment \<Rightarrow> domain_event" where
  "grade_event tenant project q r =
     event_entry tenant (js ''provenance.grade.changed'') (reassessedClaim r) (reassessedVersion r) (Some project)
       [(js ''grade'', Detail_string (grade_name (reassessedGrade r))),
        (js ''verificationState'', Detail_string (verification_state_name (reassessedTo r))),
        (js ''reason'', Detail_string (js ''attestation_signed''))] q"

definition superseded_log ::
    "js_string \<Rightarrow> js_string \<Rightarrow> session \<Rightarrow> js_string \<Rightarrow> review_request \<Rightarrow> attestation_row option \<Rightarrow> review_db \<Rightarrow> review_db" where
  "superseded_log tenant project s aid q superseded db =
     (case superseded of
        None \<Rightarrow> db
      | Some p \<Rightarrow>
          log_event (event_entry tenant (js ''verification_attestation.superseded'') (attId p) 1 (Some project)
              [(js ''attestationId'', Detail_string (attId p)), (js ''supersededBy'', Detail_string aid)] q)
            (log_audit (audit_entry tenant (Some project) (sessionSubjectId s) ROLE_ASSIGNMENT_BOUND
                (js ''verification.attestation.superseded'') (js ''verification_attestation'') (attId p) None q) db))"

definition signature_log ::
    "js_string \<Rightarrow> js_string \<Rightarrow> session \<Rightarrow> js_string \<Rightarrow> attestation_row \<Rightarrow> attestation_row option \<Rightarrow>
     claim_reassessment list \<Rightarrow> review_request \<Rightarrow> review_db \<Rightarrow> review_db" where
  "signature_log tenant project s signer a superseded reassessed q db =
     (let aid = attId a;
          db1 = log_audit ((audit_entry tenant (Some project) (sessionSubjectId s) ROLE_ASSIGNMENT_BOUND
                  (js ''verification.case.signed'') (js ''verification_attestation'') aid None q)
                  \<lparr>auditWallet := Some signer\<rparr>) db;
          db2 = log_event (event_entry tenant (js ''verification_attestation.signed'') aid 1 (Some project)
                  [(js ''attestationId'', Detail_string aid),
                   (js ''supersedesId'', case attSupersedes a of None \<Rightarrow> Detail_null | Some p \<Rightarrow> Detail_string p)] q) db1;
          db3 = superseded_log tenant project s aid q superseded db2
      in fold log_event (map (grade_event tenant project q)
           (filter (\<lambda>r. reassessedFrom r \<noteq> reassessedTo r) reassessed)) db3)"

definition supersede_step ::
    "int \<Rightarrow> attestation_row \<Rightarrow> js_string option \<Rightarrow> review_db \<Rightarrow> app_error + attestation_row option \<times> review_db" where
  "supersede_step now a actor db =
     (case attSupersedes a of
        None \<Rightarrow> Inr (None, db)
      | Some pred \<Rightarrow> and_then (supersedePredecessor now pred (attId a) actor db) (\<lambda>(p, db'). Inr (Some p, db')))"

definition sign_work ::
    "(bytes \<Rightarrow> bytes) \<Rightarrow> recovery \<Rightarrow> int \<Rightarrow> int \<Rightarrow> js_string \<Rightarrow> session \<Rightarrow> js_string \<Rightarrow> js_string \<Rightarrow> js_string \<Rightarrow>
     js_string \<Rightarrow> review_request \<Rightarrow> review_db \<Rightarrow> app_error + review_view \<times> review_db" where
  "sign_work k recover chain now today s tenant aid rid signature q db =
     and_then (consume_request now rid aid db) (\<lambda>(r, db1).
     (case signature_context db1 aid of
        None \<Rightarrow> Inl (notFound (js ''Attestation not found''))
      | Some (a, c, asg, cred) \<Rightarrow>
          if caseSnapshot c \<noteq> sreqSnapshot r
          then Inl (conflict (js ''EVIDENCE_SNAPSHOT_CHANGED'')
            (js ''Evidence changed after the signature request. Create a new request.'') None)
          else
            and_then (recoverAttestationSigner k recover chain (request_message a r) signature) (\<lambda>signer.
            and_then (assertSubjectSigner db1 (assignmentSubject asg) chain signer
                        (js ''Signer is not a wallet of the reviewer assigned to this case'')) (\<lambda>_.
            and_then (acceptance_basis today a asg cred db1) (\<lambda>_.
            and_then (versionsInForce now db1 (attSchema a)) (\<lambda>versions.
            and_then (store_signature aid a (signed_row now signature signer versions cred a) db1) (\<lambda>db2.
            and_then (supersede_step now a (sessionSubjectId s) (set_case_state (attCase a) Vc_signed db2))
              (\<lambda>(superseded, db3).
            and_then (reassess_claims db3 (sort (attScope a))) (\<lambda>(reassessed, db4).
            Inr (answer_of q (Attestation_signed aid signer (sreqSnapshot r)
                   (evaluateCredentialApplicability True (credStatus cred)) (fst versions) (snd versions)
                   (attSupersedes a)),
                 signature_log tenant (caseProject c) s signer a superseded reassessed q db4)))))))))) "

definition submitSignature ::
    "(bytes \<Rightarrow> bytes) \<Rightarrow> recovery \<Rightarrow> (js_string \<Rightarrow> bool) \<Rightarrow> int \<Rightarrow> int \<Rightarrow> js_string \<Rightarrow> review_request \<Rightarrow> js_string \<Rightarrow>
     (js_string \<times> js_string) option \<Rightarrow> review_idb \<Rightarrow> app_error + review_view \<times> review_idb" where
  "submitSignature k recover is_guid chain now today q aid body idb =
     and_then (requireMutationContext (revHead q)) (\<lambda>(s, tenant, key).
     (case parse_signature is_guid body of
        None \<Rightarrow> Inl invalid_request
      | Some (rid, signature) \<Rightarrow>
          review_mutation tenant key q (sign_work k recover chain now today s tenant aid rid signature q) idb))"

end
