(* ===== verification/Correction_Route.thy ===== *)
theory Correction_Route
  imports Signature_Route
begin

text \<open>
  Corrections to the review record: \<open>apps/api/src/routes/verification-corrections.ts\<close>. Revoking an
  attestation, removing and replacing a reviewer, and the status of a credential. What triggers of the
  database add to the outbox is left out; the one that moves attestations with their credential is kept.
\<close>

section \<open>Revoking an attestation\<close>

definition parse_reason :: "js_string option \<Rightarrow> js_string option" where
  "parse_reason body = (case body of None \<Rightarrow> None | Some r \<Rightarrow> if length r < 1 then None else Some r)"

definition REASSIGNABLE_CASE_STATES :: "verification_case_state list" where
  "REASSIGNABLE_CASE_STATES = [Vc_assigned, Vc_in_review, Vc_changes_requested]"

definition recordCaseTransition ::
    "int \<Rightarrow> js_string \<Rightarrow> verification_case_state \<Rightarrow> verification_case_state \<Rightarrow> js_string \<Rightarrow> js_string option \<Rightarrow>
     review_db \<Rightarrow> bool \<times> review_db" where
  "recordCaseTransition now cid source target reason actor db =
     (if \<not> canTransition verificationCaseMachine source target then (False, db)
      else (True, move_recorded now cid source target reason actor db))"

definition attestation_owner :: "review_db \<Rightarrow> js_string \<Rightarrow> (js_string \<times> js_string) option" where
  "attestation_owner db aid =
     Option.bind (attestation_case db aid) (\<lambda>(a, c).
       map_option (\<lambda>asg. (caseProject c, assignmentSubject asg)) (assignment_by db (attAssignment a)))"

definition revoked_row :: "int \<Rightarrow> js_string option \<Rightarrow> js_string \<Rightarrow> attestation_row \<Rightarrow> attestation_row" where
  "revoked_row now actor reason a =
     a\<lparr>attState := Va_revoked, attRevokedAt := Some now, attRevokedBy := actor, attRevokeReason := Some reason\<rparr>"

definition revocation_log ::
    "js_string \<Rightarrow> js_string \<Rightarrow> js_string \<Rightarrow> session \<Rightarrow> attestation_row \<Rightarrow> js_string \<Rightarrow> bool \<Rightarrow> review_request \<Rightarrow>
     review_db \<Rightarrow> review_db" where
  "revocation_log tenant project erole s a reason case_revoked q db =
     (let db1 = log_event (event_entry tenant (js ''verification_attestation.revoked'') (attId a) 1 (Some project)
                  [(js ''attestationId'', Detail_string (attId a)), (js ''reason'', Detail_string reason)] q)
                (log_audit (audit_entry tenant (Some project) (sessionSubjectId s) erole
                  (js ''verification.attestation.revoked'') (js ''verification_attestation'') (attId a) (Some reason) q) db)
      in if case_revoked
         then log_event (event_entry tenant (js ''verification.case.revoked'') (attCase a) 1 (Some project)
                [(js ''attestationId'', Detail_string (attId a))] q) db1
         else db1)"

definition revoke_attestation_work ::
    "int \<Rightarrow> session \<Rightarrow> js_string \<Rightarrow> js_string \<Rightarrow> js_string \<Rightarrow> js_string \<Rightarrow> js_string \<Rightarrow> review_request \<Rightarrow>
     review_db \<Rightarrow> app_error + review_view \<times> review_db" where
  "revoke_attestation_work now s tenant project erole aid reason q db =
     (case attestation_case db aid of
        None \<Rightarrow> Inl (notFound (js ''Attestation not found''))
      | Some (a, c) \<Rightarrow>
          if \<not> canTransition attestationMachine (attState a) Va_revoked
          then Inl (conflict (js ''INVALID_STATE_TRANSITION'') (js ''This attestation cannot be revoked'')
            (Some [(js ''fromState'', Detail_string (attestation_state_name (attState a))),
                   (js ''toState'', Detail_string (js ''revoked'')),
                   (js ''allowedTransitions'',
                    Detail_strings (map attestation_state_name (targets attestationMachine (attState a))))]))
          else
            (let db1 = db\<lparr>attestations := set_row attId aid (revoked_row now (sessionSubjectId s) reason) (attestations db)\<rparr>;
                 (case_revoked, db2) = recordCaseTransition now (attCase a) (caseState c) Vc_revoked
                    (js ''Attestation revoked: '' @ reason) (sessionSubjectId s) db1
             in and_then (reassess_claims db2 (sort (attScope a))) (\<lambda>(reassessed, db3).
                  Inr (answer_of q (Attestation_revoked aid (attState a) reason
                         (if case_revoked then Vc_revoked else caseState c) reassessed),
                       revocation_log tenant project erole s a reason case_revoked q db3))))"

definition revokeAttestation ::
    "int \<Rightarrow> review_request \<Rightarrow> js_string \<Rightarrow> js_string option \<Rightarrow> review_idb \<Rightarrow>
     app_error + review_view \<times> review_idb" where
  "revokeAttestation now q aid body idb =
     and_then (requireMutationContext (revHead q)) (\<lambda>(s, tenant, key).
     (case parse_reason body of
        None \<Rightarrow> Inl invalid_request
      | Some reason \<Rightarrow>
          (case attestation_owner (world idb tenant) aid of
             None \<Rightarrow> Inl (notFound (js ''Attestation not found''))
           | Some (project, owner) \<Rightarrow>
               if Some owner \<noteq> sessionSubjectId s
               then Inl (forbidden (js ''ATTESTATION_NOT_OWNED'') (js ''Only the signer can revoke this attestation'')
                 (Some [(js ''requiredAction'', Detail_string (js ''Raise a dispute instead''))]))
               else
                 and_then (assertAuthorized s (js ''attestation.revoke'')
                             (projectResource tenant project no_resource_overrides)
                             (sessionFacts s no_actor_overrides)) (\<lambda>erole.
                 review_mutation tenant key q
                   (revoke_attestation_work now s tenant project erole aid reason q) idb))))"

section \<open>Removing and replacing a reviewer\<close>

definition assignmentContext :: "review_db \<Rightarrow> js_string \<Rightarrow> app_error + js_string" where
  "assignmentContext db asg_id =
     (case Option.bind (assignment_by db asg_id) (\<lambda>asg. case_by db (assignmentCase asg)) of
        None \<Rightarrow> Inl (notFound (js ''Assignment not found''))
      | Some c \<Rightarrow> Inr (caseProject c))"

definition lockAssignment :: "review_db \<Rightarrow> js_string \<Rightarrow> app_error + assignment_row" where
  "lockAssignment db asg_id =
     (case Option.bind (assignment_by db asg_id) (\<lambda>asg. map_option (\<lambda>c. (asg, c)) (case_by db (assignmentCase asg))) of
        None \<Rightarrow> Inl (notFound (js ''Assignment not found''))
      | Some (asg, c) \<Rightarrow>
          if caseState c \<notin> set REASSIGNABLE_CASE_STATES
          then Inl (conflict (js ''CASE_NOT_REASSIGNABLE'')
            (js ''The reviewer of a case that is signed or closed cannot be changed'')
            (Some [(js ''caseState'', Detail_string (case_state_name (caseState c))),
                   (js ''allowedStates'', Detail_strings (map case_state_name REASSIGNABLE_CASE_STATES))]))
          else Inr asg)"

definition revokeAssignmentRow :: "int \<Rightarrow> js_string \<Rightarrow> js_string option \<Rightarrow> js_string \<Rightarrow> review_db \<Rightarrow> review_db" where
  "revokeAssignmentRow now asg_id actor reason db =
     db\<lparr>assignments := set_row assignmentId asg_id
          (\<lambda>x. x\<lparr>assignmentRevokedAt := Some now, assignmentRevokedBy := actor, assignmentRevokeReason := Some reason\<rparr>)
          (assignments db)\<rparr>"

definition revoke_assignment_work ::
    "int \<Rightarrow> session \<Rightarrow> js_string \<Rightarrow> js_string \<Rightarrow> js_string \<Rightarrow> js_string \<Rightarrow> js_string \<Rightarrow> review_request \<Rightarrow>
     review_db \<Rightarrow> app_error + review_view \<times> review_db" where
  "revoke_assignment_work now s tenant project erole asg_id reason q db =
     and_then (lockAssignment db asg_id) (\<lambda>current.
     (case assignmentRevokedAt current of
        Some t \<Rightarrow> Inl (conflict (js ''ASSIGNMENT_ALREADY_REVOKED'') (js ''This assignment is already revoked'')
          (Some [(js ''revokedAt'', Detail_time t)]))
      | None \<Rightarrow>
          Inr (answer_of q (Assignment_revoked asg_id (assignmentCase current) (assignmentSubject current) reason),
            log_event (event_entry tenant (js ''verification.assignment.revoked'') (assignmentCase current) 1 (Some project)
                [(js ''assignmentId'', Detail_string asg_id)] q)
              (log_audit (audit_entry tenant (Some project) (sessionSubjectId s) erole
                  (js ''verification.assignment.revoked'') (js ''assignment'') asg_id (Some reason) q)
                (revokeAssignmentRow now asg_id (sessionSubjectId s) reason db)))))"

definition revokeAssignment ::
    "int \<Rightarrow> review_request \<Rightarrow> js_string \<Rightarrow> js_string option \<Rightarrow> review_idb \<Rightarrow>
     app_error + review_view \<times> review_idb" where
  "revokeAssignment now q asg_id body idb =
     and_then (requireMutationContext (revHead q)) (\<lambda>(s, tenant, key).
     (case parse_reason body of
        None \<Rightarrow> Inl invalid_request
      | Some reason \<Rightarrow>
          and_then (assignmentContext (world idb tenant) asg_id) (\<lambda>project.
          and_then (assertAuthorized s (js ''claim.curate'') (projectResource tenant project no_resource_overrides)
                      (sessionFacts s no_actor_overrides)) (\<lambda>erole.
          review_mutation tenant key q (revoke_assignment_work now s tenant project erole asg_id reason q) idb))))"

record reassign_body =
  nextReviewer :: js_string
  nextCredential :: js_string
  nextConflict :: js_string
  nextReason :: js_string

definition parse_reassign ::
    "(js_string \<Rightarrow> bool) \<Rightarrow> reassign_body option \<Rightarrow> (reassign_body \<times> conflict_status) option" where
  "parse_reassign is_guid body =
     (case body of
        None \<Rightarrow> None
      | Some b \<Rightarrow>
          if is_guid (nextReviewer b) \<and> is_guid (nextCredential b) \<and> length (nextReason b) \<ge> 1
          then map_option (\<lambda>x. (b, x)) (parse_conflict (nextConflict b)) else None)"

definition reassign_work ::
    "int \<Rightarrow> js_string \<Rightarrow> js_string \<Rightarrow> session \<Rightarrow> js_string \<Rightarrow> js_string \<Rightarrow> js_string \<Rightarrow> js_string \<Rightarrow> reassign_body \<Rightarrow>
     conflict_status \<Rightarrow> review_request \<Rightarrow> review_db \<Rightarrow> app_error + review_view \<times> review_db" where
  "reassign_work now today fresh s tenant project erole asg_id b disclosed q db =
     and_then (lockAssignment db asg_id) (\<lambda>current.
     (let cid = assignmentCase current in
      if map_option assignmentId (latest_assignment db cid) \<noteq> Some asg_id
      then Inl (conflict (js ''ASSIGNMENT_SUPERSEDED'')
        (js ''This case has already been reassigned. Reread it and decide again.'')
        (Some [(js ''currentAssignmentId'',
                case latest_assignment db cid of None \<Rightarrow> Detail_null | Some a \<Rightarrow> Detail_string (assignmentId a))]))
      else
        (let db1 = (if assignmentRevokedAt current = None
                    then revokeAssignmentRow now asg_id (sessionSubjectId s) (nextReason b) db else db)
         in and_then (assignReviewer now today fresh
              \<lparr>inCase = cid, inProject = project, inClaims = map snd (filter (\<lambda>x. fst x = cid) (case_claims db1)),
               inReviewer = nextReviewer b, inCredential = nextCredential b, inConflict = disclosed,
               inAssigner = sessionSubjectId s\<rparr> db1) (\<lambda>(made, db2).
            Inr (answer_of q (Reviewer_reassigned made cid (nextReviewer b) asg_id),
              log_event (event_entry tenant (js ''verification.case.assigned'') cid 1 (Some project)
                  [(js ''assignmentId'', Detail_string (madeId made)),
                   (js ''replacedAssignmentId'', Detail_string asg_id)] q)
                (log_audit (audit_entry tenant (Some project) (sessionSubjectId s) erole
                    (js ''verification.assignment.reassigned'') (js ''verification_case'') cid (Some (nextReason b)) q)
                  db2))))))"

definition reassignReviewer ::
    "(js_string \<Rightarrow> bool) \<Rightarrow> int \<Rightarrow> js_string \<Rightarrow> js_string \<Rightarrow> review_request \<Rightarrow> js_string \<Rightarrow> reassign_body option \<Rightarrow>
     review_idb \<Rightarrow> app_error + review_view \<times> review_idb" where
  "reassignReviewer is_guid now today fresh q asg_id body idb =
     and_then (requireMutationContext (revHead q)) (\<lambda>(s, tenant, key).
     (case parse_reassign is_guid body of
        None \<Rightarrow> Inl invalid_request
      | Some (b, disclosed) \<Rightarrow>
          and_then (assignmentContext (world idb tenant) asg_id) (\<lambda>project.
          and_then (assertAuthorized s (js ''claim.curate'') (projectResource tenant project no_resource_overrides)
                      (sessionFacts s no_actor_overrides)) (\<lambda>erole.
          review_mutation tenant key q
            (reassign_work now today fresh s tenant project erole asg_id b disclosed q) idb))))"

section \<open>The status of a credential\<close>

definition parse_status :: "(js_string \<times> js_string) option \<Rightarrow> (credential_current_status \<times> js_string) option" where
  "parse_status body =
     (case body of
        None \<Rightarrow> None
      | Some (status, reason) \<Rightarrow>
          if length reason < 1 then None
          else map_option (\<lambda>t. (t, reason))
            (find (\<lambda>t. credential_status_name t = status) [Cred_valid, Cred_expired, Cred_revoked, Cred_suspended]))"

text \<open>Who suspended the credential last: the newest event, the smallest identifier among several.\<close>

definition last_suspender :: "review_db \<Rightarrow> js_string \<Rightarrow> js_string option option" where
  "last_suspender db cid =
     (case sort_key (\<lambda>e. - statusAt e) (sort_key statusEventId
             (filter (\<lambda>e. statusCredential e = cid \<and> statusTo e = Cred_suspended) (status_events db))) of
        [] \<Rightarrow> None
      | e # _ \<Rightarrow> Some (statusActor e))"

definition changed_credential :: "int \<Rightarrow> credential_current_status \<Rightarrow> credential_row \<Rightarrow> credential_row" where
  "changed_credential now target c =
     c\<lparr>credStatus := target, credRevokedAt := (if target = Cred_revoked then Some now else credRevokedAt c),
       credVersion := credVersion c + 1\<rparr>"

definition apply_status ::
    "int \<Rightarrow> js_string \<Rightarrow> session \<Rightarrow> js_string \<Rightarrow> js_string \<Rightarrow> credential_row \<Rightarrow> credential_current_status \<Rightarrow> js_string \<Rightarrow>
     review_request \<Rightarrow> review_db \<Rightarrow> review_db" where
  "apply_status now fresh s tenant erole cred target reason q db =
     (let cid = credId cred; source = credStatus cred; lifts = (target = Cred_valid \<and> source = Cred_suspended);
          db1 = db\<lparr>credentials := set_row credId cid (changed_credential now target) (credentials db),
                   attestations := credential_to_attestations cid source target (attestations db),
                   status_events := status_events db @
                     [\<lparr>statusCredential = cid, statusEventId = fresh, statusFrom = source, statusTo = target,
                       statusReason = reason, statusActor = sessionSubjectId s, statusAt = now\<rparr>]\<rparr>;
          db2 = log_audit ((audit_entry tenant None (sessionSubjectId s) erole (js ''credential.status.changed'')
                  (js ''credential'') cid (Some reason) q)
                  \<lparr>auditBefore := Some (credVersion cred), auditAfter := Some (credVersion cred + 1)\<rparr>) db1
      in if target = Cred_suspended \<or> lifts
         then log_event (event_entry tenant
                (if lifts then js ''credential.reinstated'' else js ''credential.suspended'') cid (credVersion cred + 1) None
                [(js ''fromStatus'', Detail_string (credential_status_name source)),
                 (js ''toStatus'', Detail_string (credential_status_name target)), (js ''reason'', Detail_string reason)] q) db2
         else db2)"

definition status_work ::
    "int \<Rightarrow> js_string \<Rightarrow> session \<Rightarrow> js_string \<Rightarrow> js_double \<Rightarrow> js_string \<Rightarrow> js_string \<Rightarrow> credential_current_status \<Rightarrow>
     js_string \<Rightarrow> review_request \<Rightarrow> review_db \<Rightarrow> app_error + review_view \<times> review_db" where
  "status_work now fresh s tenant expected erole cid target reason q db =
     (case credential_by db cid of
        None \<Rightarrow> Inl (notFound (js ''Credential not found''))
      | Some cred \<Rightarrow>
          and_then (assertVersionMatches expected (credVersion cred) (js ''credential'')) (\<lambda>_.
          if Some (credSubject cred) = sessionSubjectId s
          then Inl (forbidden (js ''CREDENTIAL_SELF_STATUS_CHANGE'')
            (js ''A credential holder cannot change their own credential'' @ [0x27] @ js ''s status'') None)
          else if \<not> canChangeCredentialStatus (credStatus cred) target
          then Inl (conflict (js ''INVALID_STATE_TRANSITION'') (js ''This credential status change is not allowed'')
            (Some [(js ''fromState'', Detail_string (credential_status_name (credStatus cred))),
                   (js ''toState'', Detail_string (credential_status_name target))]))
          else if credStatus cred = Cred_suspended \<and> target = Cred_valid \<and>
                  last_suspender db cid = Some (sessionSubjectId s)
          then Inl (forbidden (js ''REINSTATEMENT_BY_SUSPENDER'')
            (js ''The person who suspended a credential cannot lift the suspension'') None)
          else
            Inr (answer_of q (Credential_changed cid (credSubject cred) (credStatus cred) target
                   (credRevokedAt (changed_credential now target cred)) (credVersion cred + 1)),
                 apply_status now fresh s tenant erole cred target reason q db)))"

definition changeCredentialStatus ::
    "int \<Rightarrow> js_string \<Rightarrow> review_request \<Rightarrow> js_string \<Rightarrow> (js_string \<times> js_string) option \<Rightarrow> review_idb \<Rightarrow>
     app_error + review_view \<times> review_idb" where
  "changeCredentialStatus now fresh q cid body idb =
     and_then (requireMutationContext (revHead q)) (\<lambda>(s, tenant, key).
     and_then (requireIfMatch (revHead q)) (\<lambda>expected.
     (case parse_status body of
        None \<Rightarrow> Inl invalid_request
      | Some (target, reason) \<Rightarrow>
          and_then (assertAuthorized s (js ''credential.status.change'')
                      (tenantResource tenant no_resource_overrides) (sessionFacts s no_actor_overrides)) (\<lambda>erole.
          if erole = js ''security_operator'' \<and> target \<noteq> Cred_revoked \<and> target \<noteq> Cred_suspended
          then Inl (forbidden (js ''BREAK_GLASS_SCOPE_EXCEEDED'')
            (js ''Emergency authority can revoke or suspend a credential, not restore or expire it'') None)
          else review_mutation tenant key q
            (status_work now fresh s tenant expected erole cid target reason q) idb))))"

end
