(* ===== verification/Review_Frames.thy ===== *)
theory Review_Frames
  imports Correction_Route Table_Evolution
begin

text \<open>
  What the parts of the review handlers leave alone, and what a handler that answers has checked and
  written: one lemma for each, which the invariants and the properties use instead of the definitions.
\<close>

section \<open>The log\<close>

text \<open>Two states that differ in the audit log and the outbox only.\<close>

definition logged :: "review_db \<Rightarrow> review_db \<Rightarrow> bool" where
  "logged db db' \<longleftrightarrow> db' = db\<lparr>review_audit := review_audit db', review_outbox := review_outbox db'\<rparr>"

lemma logged_tables:
  assumes "logged db db'"
  shows
    "cases db' = cases db"
    "case_claims db' = case_claims db"
    "case_steps db' = case_steps db"
    "assignments db' = assignments db"
    "attestations db' = attestations db"
    "signature_requests db' = signature_requests db"
    "disputes db' = disputes db"
    "lineage db' = lineage db"
    "claims db' = claims db"
    "claim_conflicts db' = claim_conflicts db"
    "receipts db' = receipts db"
    "artifacts db' = artifacts db"
    "uploads db' = uploads db"
    "credentials db' = credentials db"
    "status_events db' = status_events db"
    "authorities db' = authorities db"
    "bindings db' = bindings db"
    "projects db' = projects db"
    "schemas db' = schemas db"
    "policies db' = policies db"
    "wallets db' = wallets db"
    "subjects db' = subjects db"
  using assms unfolding logged_def by (cases db; cases db'; simp)+

lemma logged_simps [simp]:
  "logged db db"
  "logged db (log_event e d) = logged db d"
  "logged db (log_audit a d) = logged db d"
  by (cases db; cases d; simp add: logged_def log_event_def log_audit_def)+

lemma logged_fold [simp]: "logged db (fold log_event es d) = logged db d"
  by (induction es arbitrary: d) simp_all

lemma logged_route [simp]:
  "logged db (superseded_log t p s aid q x d) = logged db d"
  "logged db (signature_log t p s w a x rs q d) = logged db d"
  "logged db (revocation_log t p e s a r b q d) = logged db d"
  by (simp_all add: superseded_log_def signature_log_def revocation_log_def Let_def split: option.split)

section \<open>Cases and assignments\<close>

lemma keeps_simps [simp]:
  "keeps caseId (with_case_state st)"
  "keeps attId (\<lambda>a. a\<lparr>attState := s\<rparr>)"
  "keeps attId (\<lambda>a. if attState a = u then a\<lparr>attState := s\<rparr> else a)"
  "keeps attId (revoked_row now actor reason)"
  "keeps sreqId (\<lambda>x. x\<lparr>sreqConsumed := t\<rparr>)"
  "keeps dispId (resolved_row now res rationale)"
  "keeps claimId (\<lambda>r. r\<lparr>claimState := vs\<rparr>)"
  "keeps claimId (\<lambda>r. r\<lparr>claimGrade := g, claimVersion := claimVersion r + 1\<rparr>)"
  "keeps credId (changed_credential now target)"
  by (simp_all add: keeps_def with_case_state_def revoked_row_def resolved_row_def changed_credential_def)

lemma assignReviewer_Inr:
  assumes "assignReviewer now today fresh i db = Inr (made, db')"
  obtains cred row where "credential_by db (inCredential i) = Some cred" and "credSubject cred = inReviewer i"
    and "basisBlockers (loadAuthorityBasis db today cred (inClaims i)) (credStatus cred) True True = []"
    and "violations (reviewIndependence (assignment_facts db (inProject i) (inClaims i) (inReviewer i) (inAssigner i) cred)) = []"
    and "row = \<lparr>assignmentId = fresh, assignmentCase = inCase i, assignmentSubject = inReviewer i,
          assignmentCredential = inCredential i,
          assignmentReviewed = reviewed (reviewIndependence (assignment_facts db (inProject i) (inClaims i) (inReviewer i) (inAssigner i) cred)),
          assignmentBasis = snd (reviewAssignmentIndependence db (inProject i) (inClaims i) (inReviewer i) (inAssigner i) cred),
          assignmentConflict = inConflict i, assignedBy = inAssigner i, assignedAt = now, assignmentRevokedAt = None,
          assignmentRevokedBy = None, assignmentRevokeReason = None\<rparr>"
    and "db' = db\<lparr>assignments := assignments db @ [row]\<rparr>" and "madeId made = fresh"
    and "madeReviewed made = assignmentReviewed row" and "madeGaps made = basisGaps (assignmentBasis row)"
proof (cases "credential_by db (inCredential i)")
  case None
  then show ?thesis using assms by (simp add: assignReviewer_def loadCredential_def)
next
  case (Some cred)
  show ?thesis
    using assms Some
    by (intro that [OF Some])
      (auto simp: assignReviewer_def loadCredential_def reviewAssignmentIndependence_def Let_def split: if_splits)
qed

lemma create_case_work_Inr:
  assumes "create_case_work k now today fresh fa s tenant erole b disclosed q db = Inr (v, db')"
  obtains snap made db1 where "buildEvidenceSnapshot k db (newProject b) (newClaims b) = Inr snap"
    and "assignReviewer now today fa
           \<lparr>inCase = fresh, inProject = newProject b, inClaims = evidenceClaims snap, inReviewer = newReviewer b,
            inCredential = newCredential b, inConflict = disclosed, inAssigner = sessionSubjectId s\<rparr>
           (db\<lparr>cases := cases db @ [\<lparr>caseId = fresh, caseProject = newProject b, caseSchema = newSchema b,
                 caseState = Vc_assigned, caseSnapshot = evidenceHash snap, caseVersion = 1\<rparr>],
               case_claims := case_claims db @ map (\<lambda>c. (fresh, c)) (evidenceClaims snap)\<rparr>) = Inr (made, db1)"
    and "v = answer_of q (Case_created fresh made (newProject b) (newSchema b) (evidenceHash snap) (evidenceClaims snap))"
    and "logged db1 db'"
  using assms by (auto simp: create_case_work_def and_then_eq_Inr_iff Let_def intro!: that)

section \<open>The assessment of claims\<close>

lemma standing_only_attestations:
  "attestations db' = attestations db \<Longrightarrow> standingAttestationTypes db' cid = standingAttestationTypes db cid"
  by (simp add: standingAttestationTypes_def)

lemma claim_grade_tables:
  "attestations db' = attestations db \<Longrightarrow> claim_conflicts db' = claim_conflicts db \<Longrightarrow> claim_grade db' c = claim_grade db c"
  by (simp add: claim_grade_def standingAttestationTypes_def open_conflicts_def)

text \<open>The state that the standing attestations support, and the grade that goes with it.\<close>

definition derived_state :: "review_db \<Rightarrow> claim_row \<Rightarrow> verification_state" where
  "derived_state db c = deriveVerificationState (claimState c) (standingAttestationTypes db (claimId c))"

definition assessed :: "review_db \<Rightarrow> claim_row \<Rightarrow> bool" where
  "assessed db c \<longleftrightarrow> claimState c = derived_state db c"

definition graded :: "review_db \<Rightarrow> claim_row \<Rightarrow> bool" where
  "graded db c \<longleftrightarrow> claimGrade c = claim_grade db c"

lemma derive_idem: "deriveVerificationState (deriveVerificationState st ts) ts = deriveVerificationState st ts"
  by (simp add: deriveVerificationState_def)

lemma derived_tables:
  "attestations db' = attestations db \<Longrightarrow> derived_state db' c = derived_state db c"
  by (simp add: derived_state_def standingAttestationTypes_def)

lemma recomputeGrade_Inr:
  assumes "recomputeGrade db cid = Inr (g, db')"
  obtains c where "claim_by db cid = Some c" and "g = claim_grade db c"
    and "db' = db\<lparr>claims := set_row claimId cid (\<lambda>r. r\<lparr>claimGrade := g, claimVersion := claimVersion r + 1\<rparr>) (claims db)\<rparr>"
  using assms by (auto simp: recomputeGrade_def Let_def split: option.splits)

text \<open>Two states that differ in their claims only.\<close>

definition only_claims :: "review_db \<Rightarrow> review_db \<Rightarrow> bool" where
  "only_claims db db' \<longleftrightarrow> db' = db\<lparr>claims := claims db'\<rparr>"

lemma only_claims_tables:
  assumes "only_claims db db'"
  shows
    "cases db' = cases db"
    "case_claims db' = case_claims db"
    "case_steps db' = case_steps db"
    "assignments db' = assignments db"
    "attestations db' = attestations db"
    "signature_requests db' = signature_requests db"
    "disputes db' = disputes db"
    "lineage db' = lineage db"
    "claim_conflicts db' = claim_conflicts db"
    "receipts db' = receipts db"
    "artifacts db' = artifacts db"
    "uploads db' = uploads db"
    "credentials db' = credentials db"
    "status_events db' = status_events db"
    "authorities db' = authorities db"
    "bindings db' = bindings db"
    "projects db' = projects db"
    "schemas db' = schemas db"
    "policies db' = policies db"
    "wallets db' = wallets db"
    "subjects db' = subjects db"
    "review_audit db' = review_audit db"
    "review_outbox db' = review_outbox db"
  using assms unfolding only_claims_def by (cases db; cases db'; simp)+

lemma only_claims_simps [simp]: "only_claims db db" "only_claims db (db\<lparr>claims := cs\<rparr>)"
  by (simp_all add: only_claims_def)

lemma only_claims_trans: "only_claims a b \<Longrightarrow> only_claims b c \<Longrightarrow> only_claims a c"
  by (cases a; cases b; cases c; simp add: only_claims_def)

text \<open>What one reassessment does: only this claim changes, to the state and the grade it should have.\<close>

definition reassessed_to :: "review_db \<Rightarrow> js_string \<Rightarrow> review_db \<Rightarrow> bool" where
  "reassessed_to db cid db' \<longleftrightarrow>
     only_claims db db' \<and> map claimId (claims db') = map claimId (claims db) \<and>
     (\<forall>j. j \<noteq> cid \<longrightarrow> claim_by db' j = claim_by db j) \<and>
     (\<exists>c c'. claim_by db cid = Some c \<and> claim_by db' cid = Some c' \<and> claimState c' = derived_state db c \<and> graded db c')"

lemma reassessClaim_Inr:
  assumes "reassessClaim db cid = Inr (r, db')"
  shows "reassessed_to db cid db'"
proof -
  obtain c where c: "claim_by db cid = Some c" using assms by (auto simp: reassessClaim_def split: option.splits)
  then have cid: "claimId c = cid" by (auto dest: row_by_Some)
  define st where "st = deriveVerificationState (claimState c) (standingAttestationTypes db cid)"
  have derived: "derived_state db c = st" by (simp add: derived_state_def st_def cid)
  let ?set = "\<lambda>r. r\<lparr>claimState := st\<rparr>"
  define db1 where "db1 = (if st \<noteq> claimState c then db\<lparr>claims := set_row claimId cid ?set (claims db)\<rparr> else db)"
  have k: "keeps claimId ?set" by (simp add: keeps_def)
  have one: "claim_by db1 cid = Some (c\<lparr>claimState := st\<rparr>)" "\<And>j. j \<noteq> cid \<Longrightarrow> claim_by db1 j = claim_by db j"
    "map claimId (claims db1) = map claimId (claims db)" "only_claims db db1"
    using c by (auto simp: db1_def row_by_set_row [OF k] set_row_keys [OF k])
  have "\<exists>g. recomputeGrade db1 cid = Inr (g, db')"
    using assms c by (auto simp: reassessClaim_def and_then_eq_Inr_iff Let_def st_def [symmetric] db1_def [symmetric]
      split: option.splits)
  then obtain g where g: "recomputeGrade db1 cid = Inr (g, db')" by blast
  let ?up = "\<lambda>r. r\<lparr>claimGrade := g, claimVersion := Suc (claimVersion r)\<rparr>"
  have k2: "keeps claimId ?up" by (simp add: keeps_def)
  obtain d where d: "claim_by db1 cid = Some d" "g = claim_grade db1 d"
    "db' = db1\<lparr>claims := set_row claimId cid ?up (claims db1)\<rparr>"
    using recomputeGrade_Inr [OF g] by auto
  have dc: "d = c\<lparr>claimState := st\<rparr>" using d(1) one(1) by simp
  have last: "claim_by db' cid = Some (?up d)" "\<And>j. j \<noteq> cid \<Longrightarrow> claim_by db' j = claim_by db j"
    "map claimId (claims db') = map claimId (claims db)"
    using d(1,3) one(1-3) by (simp_all add: row_by_set_row [OF k2] set_row_keys [OF k2])
  have "only_claims db db'" by (rule only_claims_trans [OF one(4)]) (simp add: d(3))
  moreover have "graded db (?up d)"
    using d(2) only_claims_tables [OF one(4)]
    by (simp add: graded_def claim_grade_def standingAttestationTypes_def open_conflicts_def)
  ultimately show ?thesis using c last dc derived by (auto simp: reassessed_to_def)
qed

lemma reassess_claims_Inr:
  assumes "reassess_claims db ids = Inr (rs, db')"
  shows "only_claims db db' \<and> map claimId (claims db') = map claimId (claims db) \<and>
    (\<forall>j c. claim_by db j = Some c \<longrightarrow> (\<exists>c'. claim_by db' j = Some c' \<and>
       (if j \<in> set ids then claimState c' = derived_state db c \<and> graded db c' else c' = c)))"
  using assms
proof (induction ids arbitrary: db rs)
  case Nil
  then show ?case by simp
next
  case (Cons i ids)
  obtain r db1 rs' where one: "reassessClaim db i = Inr (r, db1)" and rest: "reassess_claims db1 ids = Inr (rs', db')"
    using Cons.prems by (auto simp: and_then_eq_Inr_iff)
  note first = reassessClaim_Inr [OF one, unfolded reassessed_to_def]
  note later = Cons.IH [OF rest]
  from first have oc: "only_claims db db1" by blast
  have same: "derived_state db1 c = derived_state db c" "graded db1 c = graded db c" for c
    using only_claims_tables [OF oc]
    by (simp_all add: derived_tables [of db1 db] graded_def claim_grade_tables [of db1 db])
  have "\<exists>c'. claim_by db' j = Some c' \<and>
       (if j \<in> set (i # ids) then claimState c' = derived_state db c \<and> graded db c' else c' = c)"
    if j: "claim_by db j = Some c" for j c
  proof (cases "j = i")
    case True
    with first j obtain c1 where c1: "claim_by db1 j = Some c1" "claimState c1 = derived_state db c" "graded db c1"
      by auto
    have "claimId c = j" "claimId c1 = j" using j c1(1) by (auto dest: row_by_Some)
    then have "derived_state db c1 = derived_state db c"
      using c1(2) by (simp add: derived_state_def derive_idem)
    moreover obtain c' where "claim_by db' j = Some c'"
      "if j \<in> set ids then claimState c' = derived_state db1 c1 \<and> graded db1 c' else c' = c1"
      using later c1(1) by blast
    ultimately show ?thesis using c1(2,3) True same by (cases "j \<in> set ids") auto
  next
    case False
    with first j have "claim_by db1 j = Some c" by simp
    then obtain c' where "claim_by db' j = Some c'"
      "if j \<in> set ids then claimState c' = derived_state db1 c \<and> graded db1 c' else c' = c"
      using later by blast
    then show ?thesis using False same by (cases "j \<in> set ids") auto
  qed
  moreover have "only_claims db db'" using oc later only_claims_trans by blast
  ultimately show ?case using first later by auto
qed

section \<open>What a handler that answers has done\<close>

lemma move_case_work_Inr:
  assumes "move_case_work now s tenant expected erole cid target reason q db = Inr (v, db')"
  obtains c where "case_by db cid = Some c" and "canTransition verificationCaseMachine (caseState c) target"
    and "logged (move_recorded now cid (caseState c) target reason (sessionSubjectId s) db) db'"
proof (cases "case_by db cid")
  case None
  then show ?thesis using assms by (simp add: move_case_work_def)
next
  case (Some c)
  then show ?thesis
    using assms by (auto simp: move_case_work_def and_then_eq_Inr_iff split: if_splits intro!: that)
qed

lemma dispute_work_Inr:
  assumes "dispute_work now fresh s tenant erole aid reason detail q db = Inr (v, db')"
  obtains a where "attestation_by db aid = Some a"
    and "attState a = Va_disputed \<or> canTransition attestationMachine (attState a) Va_disputed"
    and "logged (set_attestation_state aid Va_disputed
           (db\<lparr>disputes := disputes db @
              [\<lparr>dispId = fresh, dispAttestation = aid, dispReason = reason, dispDetail = detail,
                dispRaisedBy = sessionSubjectId s, dispRaisedAt = now, dispResolvedAt = None,
                dispResolution = None\<rparr>]\<rparr>)) db'"
proof (cases "attestation_by db aid")
  case None
  then show ?thesis using assms by (simp add: dispute_work_def)
next
  case (Some a)
  then show ?thesis using assms by (auto simp: dispute_work_def split: if_splits intro!: that)
qed

lemma resolve_work_Inr:
  assumes "resolve_work now s tenant erole did res rationale q db = Inr (v, db')"
  obtains d db1 where "dispute_by db did = Some d" and "dispResolvedAt d = None"
    and "db1 = db\<lparr>disputes := set_row dispId did (resolved_row now res rationale) (disputes db)\<rparr>"
    and "logged (if res = js ''dismissed'' \<and> open_disputes db1 (dispAttestation d) = 0
           then db1\<lparr>attestations := set_row attId (dispAttestation d)
                  (\<lambda>a. if attState a = Va_disputed then a\<lparr>attState := Va_active\<rparr> else a) (attestations db1)\<rparr>
           else db1) db'"
proof (cases "dispute_by db did")
  case None
  then show ?thesis using assms by (simp add: resolve_work_def)
next
  case (Some d)
  moreover from this assms have "dispResolvedAt d = None" by (auto simp: resolve_work_def split: option.splits)
  ultimately show ?thesis using assms by (auto simp: resolve_work_def Let_def split: if_splits intro!: that)
qed

lemma draft_context_Some:
  "draft_context db cid aid = Some (c, schema, asg, cred) \<longleftrightarrow>
     case_by db cid = Some c \<and> row_by schemaId (schemas db) (caseSchema c) = Some schema \<and>
     assignment_by db aid = Some asg \<and> assignmentCase asg = cid \<and>
     credential_by db (assignmentCredential asg) = Some cred"
  by (auto simp: draft_context_def bind_eq_Some_conv split: if_splits)

lemma draft_work_Inr:
  assumes "draft_work k now today fresh s tenant cid b ty q db = Inr (v, db')"
  obtains c schema asg cred erole versions payload row where
    "draft_context db cid (draftAssignment b) = Some (c, schema, asg, cred)"
    and "draft_checks today s tenant b ty c schema asg cred db = Inr erole"
    and "versionsInForce now db (caseSchema c) = Inr versions"
    and "hashAttestationPayload k (draftFindings b) (draftCitations b) (draftLimitations b) (draftScope b) = Inr payload"
    and "row = draft_row now fresh c asg cred b ty payload versions"
    and "logged (if caseState c = Vc_assigned
           then set_case_state cid Vc_in_review (db\<lparr>attestations := attestations db @ [row]\<rparr>)
           else db\<lparr>attestations := attestations db @ [row]\<rparr>) db'"
proof (cases "draft_context db cid (draftAssignment b)")
  case None
  then show ?thesis using assms by (simp add: draft_work_def)
next
  case (Some x)
  obtain c schema asg cred where x: "x = (c, schema, asg, cred)" by (cases x)
  from assms [unfolded draft_work_def Some x option.case prod.case and_then_eq_Inr_iff]
  obtain erole versions payload where
    m: "draft_checks today s tenant b ty c schema asg cred db = Inr erole"
      "versionsInForce now db (caseSchema c) = Inr versions"
      "hashAttestationPayload k (draftFindings b) (draftCitations b) (draftLimitations b) (draftScope b) = Inr payload"
    and r: "(let row = draft_row now fresh c asg cred b ty payload versions;
                 db1 = db\<lparr>attestations := attestations db @ [row]\<rparr>;
                 db2 = (if caseState c = Vc_assigned then set_case_state cid Vc_in_review db1 else db1)
             in Inr (answer_of q (Attestation_drafted row),
                  log_audit (audit_entry tenant (Some (caseProject c)) (sessionSubjectId s) erole
                    (js ''verification.attestation.drafted'') (js ''verification_attestation'') fresh None q) db2)) = (Inr (v, db') :: app_error + review_view \<times> review_db)"
    by (elim exE conjE) (rule that)
  show ?thesis
    by (rule that [OF Some [unfolded x] m refl]) (use r in \<open>auto simp: Let_def\<close>)
qed

lemma draft_checks_Inr:
  assumes "draft_checks today s tenant b ty c schema asg cred db = Inr erole"
  shows "sessionSubjectId s = Some (assignmentSubject asg)"
    and "assertAuthorized s (js ''attestation.sign'') (review_resource tenant c) (reviewer_facts s asg cred) = Inr erole"
    and "\<forall>x \<in> set (draftScope b). (caseId c, x) \<in> set (case_claims db)"
    and "checkAttestationSignable (sign_request_of db s b ty asg cred schema
           (loadAuthorityBasis db today cred (draftScope b))) = Sign_allowed"
    and "basisBlockers (loadAuthorityBasis db today cred (draftScope b)) (credStatus cred) True
           (assignmentRevokedAt asg = None) = []"
    and "case draftSupersedes b of None \<Rightarrow> True
         | Some pred \<Rightarrow> assertSupersedable db pred (caseProject c) (draftScope b) = Inr ()"
proof -
  have own: "Some (assignmentSubject asg) = sessionSubjectId s"
    using assms by (simp add: draft_checks_def split: if_splits)
  let ?basis = "loadAuthorityBasis db today cred (draftScope b)"
  from assms own obtain role where role:
      "assertAuthorized s (js ''attestation.sign'') (review_resource tenant c) (reviewer_facts s asg cred) = Inr role"
    by (auto simp: draft_checks_def and_then_eq_Inr_iff)
  with assms own have outside: "filter (\<lambda>x. (caseId c, x) \<notin> set (case_claims db)) (draftScope b) = []"
    by (auto simp: draft_checks_def Let_def split: if_splits)
  have signable: "checkAttestationSignable (sign_request_of db s b ty asg cred schema ?basis) = Sign_allowed"
    using assms own role outside
    by (cases "checkAttestationSignable (sign_request_of db s b ty asg cred schema ?basis)")
      (simp_all add: draft_checks_def)
  have blockers: "basisBlockers ?basis (credStatus cred) True (assignmentRevokedAt asg = None) = []"
    using assms own role outside signable by (auto simp: draft_checks_def Let_def split: if_splits)
  have rest: "(case draftSupersedes b of None \<Rightarrow> Inr ()
        | Some pred \<Rightarrow> assertSupersedable db pred (caseProject c) (draftScope b)) = Inr ()" "role = erole"
    using assms own role outside signable blockers by (auto simp: draft_checks_def Let_def and_then_eq_Inr_iff)
  show "sessionSubjectId s = Some (assignmentSubject asg)" using own by simp
  show "assertAuthorized s (js ''attestation.sign'') (review_resource tenant c) (reviewer_facts s asg cred) = Inr erole"
    using role rest(2) by simp
  show "\<forall>x \<in> set (draftScope b). (caseId c, x) \<in> set (case_claims db)" using outside by (simp add: filter_empty_conv)
  show "checkAttestationSignable (sign_request_of db s b ty asg cred schema ?basis) = Sign_allowed" by (rule signable)
  show "basisBlockers ?basis (credStatus cred) True (assignmentRevokedAt asg = None) = []" by (rule blockers)
  show "case draftSupersedes b of None \<Rightarrow> True
         | Some pred \<Rightarrow> assertSupersedable db pred (caseProject c) (draftScope b) = Inr ()"
    using rest(1) by (cases "draftSupersedes b") simp_all
qed

lemma attestation_case_Some:
  "attestation_case db aid = Some (a, c) \<longleftrightarrow> attestation_by db aid = Some a \<and> case_by db (attCase a) = Some c"
  by (auto simp: attestation_case_def bind_eq_Some_conv)

lemma signature_context_Some:
  "signature_context db aid = Some (a, c, asg, cred) \<longleftrightarrow>
     attestation_by db aid = Some a \<and> case_by db (attCase a) = Some c \<and>
     assignment_by db (attAssignment a) = Some asg \<and> credential_by db (attCredential a) = Some cred"
  by (auto simp: signature_context_def bind_eq_Some_conv attestation_case_Some)

lemma request_work_Inr:
  assumes "request_work k chain now fresh nonce s tenant erole aid q db = Inr (v, db')"
  obtains a c asg cred where "signature_context db aid = Some (a, c, asg, cred)" and "attState a = Va_draft"
    and "logged (db\<lparr>signature_requests := signature_requests db @ [new_request now fresh nonce a]\<rparr>) db'"
proof (cases "signature_context db aid")
  case None
  then show ?thesis using assms by (simp add: request_work_def)
next
  case (Some x)
  obtain a c asg cred where x: "x = (a, c, asg, cred)" by (cases x)
  then obtain p where "row_by projId (projects db) (caseProject c) = Some p"
    using assms Some by (auto simp: request_work_def split: option.splits)
  then show ?thesis
    using assms Some x
    by (intro that [of a c asg cred]) (auto simp: request_work_def Let_def split: if_splits)
qed

lemma consume_request_Inr:
  "consume_request now rid aid db = Inr (r, db') \<longleftrightarrow>
     request_by db rid = Some r \<and> usable_request now aid r \<and>
     db' = db\<lparr>signature_requests := set_row sreqId rid (\<lambda>x. x\<lparr>sreqConsumed := Some now\<rparr>) (signature_requests db)\<rparr>"
  by (auto simp: consume_request_def split: option.splits if_splits)

lemma store_signature_Inr:
  "store_signature aid a row db = Inr db' \<longleftrightarrow>
     protect_signed_attestation a row = Inr () \<and> one_signed_successor row (attestations db) = Inr () \<and>
     db' = db\<lparr>attestations := set_row attId aid (\<lambda>_. row) (attestations db)\<rparr>"
  by (auto simp: store_signature_def and_then_eq_Inr_iff)

text \<open>The predecessor is superseded, and its case too if its table allows it.\<close>

definition superseded_in :: "int \<Rightarrow> attestation_row \<Rightarrow> case_row \<Rightarrow> js_string \<Rightarrow> js_string option \<Rightarrow> review_db \<Rightarrow> review_db" where
  "superseded_in now p c successor actor db =
     (let db1 = set_attestation_state (attId p) Va_superseded db
      in if canTransition verificationCaseMachine (caseState c) Vc_superseded
         then move_recorded now (caseId c) (caseState c) Vc_superseded
                (js ''Superseded by attestation '' @ successor) actor db1
         else db1)"

lemma supersede_step_Inr:
  assumes "supersede_step now a actor db = Inr (x, db')"
  shows "(attSupersedes a = None \<and> db' = db) \<or>
    (\<exists>p c. attSupersedes a = Some (attId p) \<and> attestation_by db (attId p) = Some p \<and>
       case_by db (attCase p) = Some c \<and> canTransition attestationMachine (attState p) Va_superseded \<and>
       db' = (superseded_in now p c (attId a) actor db)\<lparr>lineage := lineage db'\<rparr>)"
proof (cases "attSupersedes a")
  case None
  then show ?thesis using assms by (simp add: supersede_step_def)
next
  case (Some pred)
  then obtain p where sup: "supersedePredecessor now pred (attId a) actor db = Inr (p, db')"
    using assms by (auto simp: supersede_step_def and_then_eq_Inr_iff)
  then obtain p' c where pc: "attestation_case db pred = Some (p', c)"
    by (auto simp: supersedePredecessor_def split: option.splits)
  then have "attId p' = pred" "caseId c = attCase p'" by (auto simp: attestation_case_Some dest: row_by_Some)
  then show ?thesis
    using sup pc Some
    by (intro disjI2 exI [of _ p'] exI [of _ c])
      (auto simp: supersedePredecessor_def attestation_case_Some superseded_in_def Let_def split: if_splits)
qed

lemma signer_of_consumed:
  "assertSubjectSigner (db\<lparr>signature_requests := rs\<rparr>) sid chain signer m = assertSubjectSigner db sid chain signer m"
  by (simp add: assertSubjectSigner_def subjectSigningWallet_def Let_def cong: if_cong option.case_cong)

lemma acceptance_of_consumed:
  "acceptance_basis today a asg cred (db\<lparr>signature_requests := rs\<rparr>) = acceptance_basis today a asg cred db"
  by (simp add: acceptance_basis_def loadAuthorityBasis_def basis_input_def source_authorities_def scoped_claims_def
      claim_source_def Let_def cong: if_cong option.case_cong)

lemma versions_of_consumed:
  "versionsInForce now (db\<lparr>signature_requests := rs\<rparr>) sid = versionsInForce now db sid"
  by (simp add: versionsInForce_def Let_def cong: if_cong option.case_cong)

lemma sign_work_Inr:
  assumes "sign_work k recover chain now today s tenant aid rid signature q db = Inr (v, db')"
  obtains r a c asg cred addr signer versions db1 db2 db3 db4 x rs where
    "request_by db rid = Some r" and "usable_request now aid r"
    and "db1 = db\<lparr>signature_requests := set_row sreqId rid (\<lambda>x. x\<lparr>sreqConsumed := Some now\<rparr>) (signature_requests db)\<rparr>"
    and "signature_context db aid = Some (a, c, asg, cred)" and "caseSnapshot c = sreqSnapshot r"
    and "recover (attestationDomain k chain) (request_message a r) signature = Some addr" and "signer = js_lower addr"
    and "assertSubjectSigner db (assignmentSubject asg) chain signer
           (js ''Signer is not a wallet of the reviewer assigned to this case'') = Inr (js_lower signer)"
    and "acceptance_basis today a asg cred db = Inr ()" and "versionsInForce now db (attSchema a) = Inr versions"
    and "protect_signed_attestation a (signed_row now signature signer versions cred a) = Inr ()"
    and "one_signed_successor (signed_row now signature signer versions cred a) (attestations db) = Inr ()"
    and "db2 = set_case_state (attCase a) Vc_signed
           (db1\<lparr>attestations := set_row attId aid (\<lambda>_. signed_row now signature signer versions cred a) (attestations db)\<rparr>)"
    and "supersede_step now a (sessionSubjectId s) db2 = Inr (x, db3)"
    and "reassess_claims db3 (sort (attScope a)) = Inr (rs, db4)" and "logged db4 db'"
    and "v = answer_of q (Attestation_signed aid signer (sreqSnapshot r)
           (evaluateCredentialApplicability True (credStatus cred)) (fst versions) (snd versions) (attSupersedes a))"
proof -
  obtain r db1 where consumed: "consume_request now rid aid db = Inr (r, db1)"
    using assms by (auto simp: sign_work_def and_then_eq_Inr_iff)
  note r = this [unfolded consume_request_Inr]
  have ctx: "signature_context db1 aid = signature_context db aid"
    using r by (simp add: signature_context_def attestation_case_def)
  obtain a c asg cred where cx: "signature_context db aid = Some (a, c, asg, cred)"
    using assms consumed ctx by (cases "signature_context db aid") (auto simp: sign_work_def)
  from assms [unfolded sign_work_def consumed and_then.simps prod.case ctx cx option.case guard_eq_Inr_iff
      and_then_eq_Inr_iff]
  obtain signer u versions dbs xx rr where snap: "\<not> caseSnapshot c \<noteq> sreqSnapshot r"
    and rec: "recoverAttestationSigner k recover chain (request_message a r) signature = Inr signer"
    and own: "assertSubjectSigner db1 (assignmentSubject asg) chain signer
        (js ''Signer is not a wallet of the reviewer assigned to this case'') = Inr u"
    and acc: "\<exists>u. acceptance_basis today a asg cred db1 = Inr u"
    and ver: "versionsInForce now db1 (attSchema a) = Inr versions"
    and store: "store_signature aid a (signed_row now signature signer versions cred a) db1 = Inr dbs"
    and sup: "supersede_step now a (sessionSubjectId s) (set_case_state (attCase a) Vc_signed dbs) = Inr xx"
    and ass: "(case xx of (superseded, db3) \<Rightarrow>
       and_then (reassess_claims db3 (sort (attScope a))) (\<lambda>(reassessed, db4).
            Inr (answer_of q (Attestation_signed aid signer (sreqSnapshot r)
                   (evaluateCredentialApplicability True (credStatus cred)) (fst versions) (snd versions)
                   (attSupersedes a)),
                 signature_log tenant (caseProject c) s signer a superseded reassessed q db4))) =
       (Inr (v, db') :: app_error + review_view \<times> review_db)"
    by (elim exE conjE) (rule that, blast+)
  obtain x db3 where xx: "xx = (x, db3)" by (cases xx)
  from ass obtain rs db4 where rs: "reassess_claims db3 (sort (attScope a)) = Inr (rs, db4)"
    "logged db4 db'" and v: "v = answer_of q (Attestation_signed aid signer (sreqSnapshot r)
                   (evaluateCredentialApplicability True (credStatus cred)) (fst versions) (snd versions)
                   (attSupersedes a))"
    by (auto simp: xx and_then_eq_Inr_iff)
  obtain addr where addr: "recover (attestationDomain k chain) (request_message a r) signature = Some addr"
      "signer = js_lower addr"
    using rec by (auto simp: recoverAttestationSigner_def split: option.splits)
  have db1: "db1 = db\<lparr>signature_requests := set_row sreqId rid (\<lambda>x. x\<lparr>sreqConsumed := Some now\<rparr>) (signature_requests db)\<rparr>"
    using r by auto
  note same = signer_of_consumed acceptance_of_consumed versions_of_consumed
  show ?thesis
  proof (rule that)
    show "request_by db rid = Some r" "usable_request now aid r"
      "db1 = db\<lparr>signature_requests := set_row sreqId rid (\<lambda>x. x\<lparr>sreqConsumed := Some now\<rparr>) (signature_requests db)\<rparr>"
      using r by auto
    show "signature_context db aid = Some (a, c, asg, cred)" by (rule cx)
    show "caseSnapshot c = sreqSnapshot r" using snap by simp
    show "recover (attestationDomain k chain) (request_message a r) signature = Some addr" "signer = js_lower addr"
      by (rule addr)+
    show "assertSubjectSigner db (assignmentSubject asg) chain signer
           (js ''Signer is not a wallet of the reviewer assigned to this case'') = Inr (js_lower signer)"
      using own by (simp add: db1 same assertSubjectSigner_Inr)
    show "acceptance_basis today a asg cred db = Inr ()" using acc by (simp add: db1 same)
    show "versionsInForce now db (attSchema a) = Inr versions" using ver by (simp add: db1 same)
    show "protect_signed_attestation a (signed_row now signature signer versions cred a) = Inr ()"
      "one_signed_successor (signed_row now signature signer versions cred a) (attestations db) = Inr ()"
      using store by (auto simp: db1 store_signature_Inr)
    show "set_case_state (attCase a) Vc_signed dbs = set_case_state (attCase a) Vc_signed
           (db1\<lparr>attestations := set_row attId aid (\<lambda>_. signed_row now signature signer versions cred a) (attestations db)\<rparr>)"
      using store by (simp add: db1 store_signature_Inr)
    show "supersede_step now a (sessionSubjectId s) (set_case_state (attCase a) Vc_signed dbs) = Inr (x, db3)"
      using sup xx by simp
    show "reassess_claims db3 (sort (attScope a)) = Inr (rs, db4)" "logged db4 db'" by (rule rs)+
    show "v = answer_of q (Attestation_signed aid signer (sreqSnapshot r)
           (evaluateCredentialApplicability True (credStatus cred)) (fst versions) (snd versions) (attSupersedes a))"
      by (rule v)
  qed
qed

end
