(* ===== verification/Review_Steps.thy ===== *)
theory Review_Steps
  imports Review_Frames
begin

text \<open>
  The review as a system of steps: the works of the handlers on the tables of one tenant and what the rest
  of the program may do to them in between. Each step moves attestations, requests and assignments in one
  direction only; this file shows that, the invariants build on it.
\<close>

section \<open>What the corrections have done\<close>

lemma revoke_attestation_work_Inr:
  assumes "revoke_attestation_work now s tenant project erole aid reason q db = Inr (v, db')"
  obtains a c moved db1 db2 rs where "attestation_by db aid = Some a" and "case_by db (attCase a) = Some c"
    and "canTransition attestationMachine (attState a) Va_revoked"
    and "recordCaseTransition now (attCase a) (caseState c) Vc_revoked (js ''Attestation revoked: '' @ reason)
           (sessionSubjectId s)
           (db\<lparr>attestations := set_row attId aid (revoked_row now (sessionSubjectId s) reason) (attestations db)\<rparr>) = (moved, db1)"
    and "reassess_claims db1 (sort (attScope a)) = Inr (rs, db2)" and "logged db2 db'"
proof (cases "attestation_case db aid")
  case None
  then show ?thesis using assms by (simp add: revoke_attestation_work_def)
next
  case (Some x)
  obtain a c where x: "x = (a, c)" by (cases x)
  obtain moved db1 where m: "recordCaseTransition now (attCase a) (caseState c) Vc_revoked (js ''Attestation revoked: '' @ reason)
           (sessionSubjectId s)
           (db\<lparr>attestations := set_row attId aid (revoked_row now (sessionSubjectId s) reason) (attestations db)\<rparr>) = (moved, db1)"
    by (metis surj_pair)
  show ?thesis
    using assms Some m unfolding x
    by (auto simp: revoke_attestation_work_def attestation_case_Some and_then_eq_Inr_iff Let_def split: if_splits intro!: that)
qed

lemma lockAssignment_Inr:
  "lockAssignment db asg_id = Inr asg \<longleftrightarrow>
     assignment_by db asg_id = Some asg \<and>
     (\<exists>c. case_by db (assignmentCase asg) = Some c \<and> caseState c \<in> set REASSIGNABLE_CASE_STATES)"
  by (auto simp: lockAssignment_def bind_eq_Some_conv split: option.splits if_splits)

lemma revoke_assignment_work_Inr:
  assumes "revoke_assignment_work now s tenant project erole asg_id reason q db = Inr (v, db')"
  obtains asg where "lockAssignment db asg_id = Inr asg" and "assignmentRevokedAt asg = None"
    and "logged (revokeAssignmentRow now asg_id (sessionSubjectId s) reason db) db'"
  using assms by (auto simp: revoke_assignment_work_def and_then_eq_Inr_iff split: option.splits intro!: that)

lemma reassign_work_Inr:
  assumes "reassign_work now today fresh s tenant project erole asg_id b disclosed q db = Inr (v, db')"
  obtains asg latest made db1 db2 where "lockAssignment db asg_id = Inr asg"
    and "latest_assignment db (assignmentCase asg) = Some latest" and "assignmentId latest = asg_id"
    and "db1 = (if assignmentRevokedAt asg = None then revokeAssignmentRow now asg_id (sessionSubjectId s) (nextReason b) db else db)"
    and "assignReviewer now today fresh
           \<lparr>inCase = assignmentCase asg, inProject = project,
            inClaims = map snd (filter (\<lambda>x. fst x = assignmentCase asg) (case_claims db1)),
            inReviewer = nextReviewer b, inCredential = nextCredential b, inConflict = disclosed,
            inAssigner = sessionSubjectId s\<rparr> db1 = Inr (made, db2)"
    and "logged db2 db'"
proof -
  from assms obtain asg where lock: "lockAssignment db asg_id = Inr asg"
    by (auto simp: reassign_work_def and_then_eq_Inr_iff)
  with assms obtain latest where l: "latest_assignment db (assignmentCase asg) = Some latest" "assignmentId latest = asg_id"
    by (auto simp: reassign_work_def Let_def split: if_splits)
  let ?db1 = "if assignmentRevokedAt asg = None
      then revokeAssignmentRow now asg_id (sessionSubjectId s) (nextReason b) db else db"
  obtain made db2 where made: "assignReviewer now today fresh
           \<lparr>inCase = assignmentCase asg, inProject = project,
            inClaims = map snd (filter (\<lambda>x. fst x = assignmentCase asg) (case_claims ?db1)),
            inReviewer = nextReviewer b, inCredential = nextCredential b, inConflict = disclosed,
            inAssigner = sessionSubjectId s\<rparr> ?db1 = Inr (made, db2)" and log: "logged db2 db'"
    using assms unfolding reassign_work_def lock and_then.simps Let_def l option.map option.inject simp_thms if_False
    by (auto simp: and_then_eq_Inr_iff l(2))
  show ?thesis by (rule that [OF lock l refl made log])
qed

lemma status_work_Inr:
  assumes "status_work now fresh s tenant expected erole cid target reason q db = Inr (v, db')"
  obtains cred where "credential_by db cid = Some cred" and "canChangeCredentialStatus (credStatus cred) target"
    and "Some (credSubject cred) \<noteq> sessionSubjectId s"
    and "\<not> (credStatus cred = Cred_suspended \<and> target = Cred_valid \<and> last_suspender db cid = Some (sessionSubjectId s))"
    and "db' = apply_status now fresh s tenant erole cred target reason q db"
proof (cases "credential_by db cid")
  case None
  then show ?thesis using assms by (simp add: status_work_def)
next
  case (Some cred)
  then show ?thesis
    using assms by (intro that [of cred]) (auto simp: status_work_def and_then_eq_Inr_iff split: if_splits)
qed

lemma apply_status_tables:
  "cases (apply_status now fresh s t e cred target reason q db) = cases db"
  "case_claims (apply_status now fresh s t e cred target reason q db) = case_claims db"
  "assignments (apply_status now fresh s t e cred target reason q db) = assignments db"
  "signature_requests (apply_status now fresh s t e cred target reason q db) = signature_requests db"
  "disputes (apply_status now fresh s t e cred target reason q db) = disputes db"
  "claims (apply_status now fresh s t e cred target reason q db) = claims db"
  "attestations (apply_status now fresh s t e cred target reason q db) =
     credential_to_attestations (credId cred) (credStatus cred) target (attestations db)"
  by (simp_all add: apply_status_def Let_def log_event_def log_audit_def)

section \<open>How rows may change\<close>

text \<open>The content a reviewer judges by and signs.\<close>

definition same_content :: "attestation_row \<Rightarrow> attestation_row \<Rightarrow> bool" where
  "same_content old new \<longleftrightarrow>
     attId new = attId old \<and> attCase new = attCase old \<and> attAssignment new = attAssignment old \<and>
     attCredential new = attCredential old \<and> attSchema new = attSchema old \<and> attType new = attType old \<and>
     attScope new = attScope old \<and> attSnapshot new = attSnapshot old \<and> attFindings new = attFindings old \<and>
     attCitations new = attCitations old \<and> attLimitations new = attLimitations old \<and>
     attPayload new = attPayload old \<and> attSupersedes new = attSupersedes old"

text \<open>Everything but the state and the record of a revocation.\<close>

definition sealed :: "attestation_row \<Rightarrow> attestation_row \<Rightarrow> bool" where
  "sealed old new \<longleftrightarrow>
     new = old\<lparr>attState := attState new, attRevokedAt := attRevokedAt new, attRevokedBy := attRevokedBy new,
               attRevokeReason := attRevokeReason new\<rparr>"

definition att_evolves :: "attestation_row \<Rightarrow> attestation_row \<Rightarrow> bool" where
  "att_evolves old new \<longleftrightarrow>
     same_content old new \<and> reach attestationMachine (attState old) (attState new) \<and>
     (attState old \<noteq> Va_draft \<longrightarrow> sealed old new)"

definition req_evolves :: "signature_request \<Rightarrow> signature_request \<Rightarrow> bool" where
  "req_evolves old new \<longleftrightarrow>
     new = old\<lparr>sreqConsumed := sreqConsumed new\<rparr> \<and> (sreqConsumed old \<noteq> None \<longrightarrow> new = old)"

definition case_evolves :: "case_row \<Rightarrow> case_row \<Rightarrow> bool" where
  "case_evolves old new \<longleftrightarrow> new = old\<lparr>caseState := caseState new, caseVersion := caseVersion new\<rparr>"

definition asg_evolves :: "assignment_row \<Rightarrow> assignment_row \<Rightarrow> bool" where
  "asg_evolves old new \<longleftrightarrow>
     new = old\<lparr>assignmentRevokedAt := assignmentRevokedAt new, assignmentRevokedBy := assignmentRevokedBy new,
               assignmentRevokeReason := assignmentRevokeReason new\<rparr> \<and>
     (assignmentRevokedAt old \<noteq> None \<longrightarrow> assignmentRevokedAt new \<noteq> None)"

lemma sealed_content: "sealed old new \<Longrightarrow> same_content old new"
  by (cases old; cases new) (simp add: sealed_def same_content_def)

lemma sealed_body: "sealed old new \<Longrightarrow> same_body old new"
  by (cases old; cases new) (simp add: sealed_def same_body_def)

lemma same_content_trans: "same_content a b \<Longrightarrow> same_content b c \<Longrightarrow> same_content a c"
  by (simp add: same_content_def)

lemma sealed_trans: "sealed a b \<Longrightarrow> sealed b c \<Longrightarrow> sealed a c"
  by (cases a; cases b; cases c) (simp add: sealed_def)

text \<open>Nothing leads back to a draft.\<close>

lemma leaves_draft:
  assumes "reach attestationMachine s t" and "s \<noteq> Va_draft"
  shows "t \<noteq> Va_draft"
proof -
  let ?later = "[Va_signed, Va_active, Va_stale_candidate, Va_superseded, Va_revoked, Va_disputed]"
  have "s \<in> set ?later" using assms(2) by (cases s) simp_all
  moreover have "closed_under attestationMachine ?later"
    by (simp add: closed_under_def targets_def machine_defs)
  ultimately have "t \<in> set ?later" by (rule reach_closed [OF assms(1)])
  then show ?thesis by auto
qed

lemma att_evolves_refl [simp, intro]: "att_evolves a a"
  by (cases a) (simp add: att_evolves_def same_content_def sealed_def reach.stay)

lemma att_evolves_trans: "att_evolves a b \<Longrightarrow> att_evolves b c \<Longrightarrow> att_evolves a c"
  unfolding att_evolves_def
  using same_content_trans sealed_trans reach_trans leaves_draft by metis

lemma req_evolves_refl [simp, intro]: "req_evolves r r"
  by (simp add: req_evolves_def)

lemma req_evolves_trans: "req_evolves a b \<Longrightarrow> req_evolves b c \<Longrightarrow> req_evolves a c"
  by (cases a; cases b; cases c) (auto simp: req_evolves_def)

lemma case_evolves_refl [simp, intro]: "case_evolves c c"
  by (simp add: case_evolves_def)

lemma case_evolves_trans: "case_evolves a b \<Longrightarrow> case_evolves b c \<Longrightarrow> case_evolves a c"
  by (cases a; cases b; cases c) (simp add: case_evolves_def)

lemma asg_evolves_refl [simp, intro]: "asg_evolves a a"
  by (simp add: asg_evolves_def)

lemma asg_evolves_trans: "asg_evolves a b \<Longrightarrow> asg_evolves b c \<Longrightarrow> asg_evolves a c"
  by (cases a; cases b; cases c) (auto simp: asg_evolves_def)

lemma att_moved: "canTransition attestationMachine (attState a) t \<Longrightarrow> att_evolves a (a\<lparr>attState := t\<rparr>)"
  by (cases a) (simp add: att_evolves_def same_content_def sealed_def reach_step)

lemma att_revoked: "canTransition attestationMachine (attState a) Va_revoked \<Longrightarrow> att_evolves a (revoked_row now actor reason a)"
  by (cases a) (simp add: att_evolves_def same_content_def sealed_def revoked_row_def reach_step)

section \<open>What the parts of a signature write\<close>

lemma move_recorded_tables [simp]:
  "cases (move_recorded now cid u st reason actor db) = set_row caseId cid (with_case_state st) (cases db)"
  "case_claims (move_recorded now cid u st reason actor db) = case_claims db"
  "assignments (move_recorded now cid u st reason actor db) = assignments db"
  "attestations (move_recorded now cid u st reason actor db) = attestations db"
  "signature_requests (move_recorded now cid u st reason actor db) = signature_requests db"
  "disputes (move_recorded now cid u st reason actor db) = disputes db"
  "claims (move_recorded now cid u st reason actor db) = claims db"
  "claim_conflicts (move_recorded now cid u st reason actor db) = claim_conflicts db"
  by (simp_all add: move_recorded_def set_case_state_def)

lemma set_case_state_tables [simp]:
  "cases (set_case_state cid st db) = set_row caseId cid (with_case_state st) (cases db)"
  "case_claims (set_case_state cid st db) = case_claims db"
  "assignments (set_case_state cid st db) = assignments db"
  "attestations (set_case_state cid st db) = attestations db"
  "signature_requests (set_case_state cid st db) = signature_requests db"
  "disputes (set_case_state cid st db) = disputes db"
  "claims (set_case_state cid st db) = claims db"
  "claim_conflicts (set_case_state cid st db) = claim_conflicts db"
  by (simp_all add: set_case_state_def)

lemma set_attestation_state_tables [simp]:
  "cases (set_attestation_state aid st db) = cases db"
  "case_claims (set_attestation_state aid st db) = case_claims db"
  "assignments (set_attestation_state aid st db) = assignments db"
  "attestations (set_attestation_state aid st db) = set_row attId aid (\<lambda>a. a\<lparr>attState := st\<rparr>) (attestations db)"
  "signature_requests (set_attestation_state aid st db) = signature_requests db"
  "disputes (set_attestation_state aid st db) = disputes db"
  "claims (set_attestation_state aid st db) = claims db"
  by (simp_all add: set_attestation_state_def)

text \<open>The cases are the same, or some have another state.\<close>

definition cases_moved :: "case_row list \<Rightarrow> case_row list \<Rightarrow> bool" where
  "cases_moved old new \<longleftrightarrow> map caseId new = map caseId old \<and> rows_evolve caseId case_evolves old new"

lemma with_case_state_evolves: "case_evolves c (with_case_state st c)"
  by (cases c) (simp add: case_evolves_def with_case_state_def)

lemma cases_moved_refl [simp, intro]: "cases_moved cs cs"
  by (simp add: cases_moved_def rows_evolve_same)

lemma cases_moved_set_row [simp, intro]: "cases_moved cs (set_row caseId cid (with_case_state st) cs)"
  by (auto simp: cases_moved_def intro!: rows_evolve_set_row with_case_state_evolves)

lemma cases_moved_trans: "cases_moved a b \<Longrightarrow> cases_moved b c \<Longrightarrow> cases_moved a c"
  unfolding cases_moved_def using rows_evolve_trans case_evolves_trans by (metis (no_types, lifting))

lemma set_row_const:
  "key row = k \<Longrightarrow> set_row key k (\<lambda>_. row) rows = set_row key k (\<lambda>r. if key r = k then row else r) rows"
  by (simp add: set_row_def)

lemma keeps_const [simp]: "key row = k \<Longrightarrow> keeps key (\<lambda>r. if key r = k then row else r)"
  by (simp add: keeps_def)

text \<open>Attestations after a signature: the signed row is in place and what it supersedes is superseded.\<close>

definition with_signed :: "attestation_row \<Rightarrow> attestation_row list \<Rightarrow> attestation_row list" where
  "with_signed row rows =
     (let stored = set_row attId (attId row) (\<lambda>_. row) rows
      in case attSupersedes row of
           None \<Rightarrow> stored
         | Some p \<Rightarrow> set_row attId p (\<lambda>a. a\<lparr>attState := Va_superseded\<rparr>) stored)"

lemma supersede_step_tables:
  assumes "supersede_step now a actor db = Inr (x, db')"
  shows "cases_moved (cases db) (cases db')" and "case_claims db' = case_claims db"
    and "assignments db' = assignments db" and "signature_requests db' = signature_requests db"
    and "disputes db' = disputes db" and "claims db' = claims db" and "claim_conflicts db' = claim_conflicts db"
    and "attestations db' = (case attSupersedes a of None \<Rightarrow> attestations db
           | Some p \<Rightarrow> set_row attId p (\<lambda>a. a\<lparr>attState := Va_superseded\<rparr>) (attestations db))"
proof -
  from supersede_step_Inr [OF assms]
  have "cases_moved (cases db) (cases db') \<and> case_claims db' = case_claims db \<and>
    assignments db' = assignments db \<and> signature_requests db' = signature_requests db \<and>
    disputes db' = disputes db \<and> claims db' = claims db \<and> claim_conflicts db' = claim_conflicts db \<and>
    attestations db' = (case attSupersedes a of None \<Rightarrow> attestations db
           | Some p \<Rightarrow> set_row attId p (\<lambda>a. a\<lparr>attState := Va_superseded\<rparr>) (attestations db))"
  proof (elim disjE exE conjE)
    assume "attSupersedes a = None" "db' = db"
    then show ?thesis by simp
  next
    fix p c assume p: "attSupersedes a = Some (attId p)"
      and db': "db' = (superseded_in now p c (attId a) actor db)\<lparr>lineage := lineage db'\<rparr>"
    define l where "l = lineage db'"
    have "db' = (superseded_in now p c (attId a) actor db)\<lparr>lineage := l\<rparr>" using db' by (simp only: l_def)
    then show ?thesis using p
      by (simp add: superseded_in_def Let_def set_attestation_state_def move_recorded_def set_case_state_def)
  qed
  then show "cases_moved (cases db) (cases db')" "case_claims db' = case_claims db"
    "assignments db' = assignments db" "signature_requests db' = signature_requests db"
    "disputes db' = disputes db" "claims db' = claims db" "claim_conflicts db' = claim_conflicts db"
    "attestations db' = (case attSupersedes a of None \<Rightarrow> attestations db
           | Some p \<Rightarrow> set_row attId p (\<lambda>a. a\<lparr>attState := Va_superseded\<rparr>) (attestations db))"
    by blast+
qed

text \<open>What a signature has checked and what it leaves in the tables.\<close>

lemma sign_effect:
  assumes "sign_work k recover chain now today s tenant aid rid signature q db = Inr (v, db')"
  obtains r a c asg cred addr versions row where
    "request_by db rid = Some r" and "usable_request now aid r"
    and "signature_context db aid = Some (a, c, asg, cred)" and "caseSnapshot c = sreqSnapshot r"
    and "recover (attestationDomain k chain) (request_message a r) signature = Some addr"
    and "assertSubjectSigner db (assignmentSubject asg) chain (js_lower addr)
           (js ''Signer is not a wallet of the reviewer assigned to this case'') = Inr (js_lower (js_lower addr))"
    and "acceptance_basis today a asg cred db = Inr ()" and "versionsInForce now db (attSchema a) = Inr versions"
    and "row = signed_row now signature (js_lower addr) versions cred a"
    and "protect_signed_attestation a row = Inr ()"
    and "\<forall>p. attSupersedes a = Some p \<longrightarrow> (\<exists>x. attestation_by db p = Some x \<and> (p = aid \<or> canTransition attestationMachine (attState x) Va_superseded))"
    and "attestations db' = with_signed row (attestations db)"
    and "signature_requests db' = set_row sreqId rid (\<lambda>x. x\<lparr>sreqConsumed := Some now\<rparr>) (signature_requests db)"
    and "cases_moved (cases db) (cases db')" and "case_claims db' = case_claims db"
    and "assignments db' = assignments db" and "disputes db' = disputes db"
    and "\<exists>rs db3 db4. reassess_claims db3 (sort (attScope a)) = Inr (rs, db4) \<and> attestations db3 = attestations db' \<and>
           claims db3 = claims db \<and> claims db' = claims db4"
proof -
  obtain r a c asg cred addr signer versions db1 db2 db3 db4 x rs where
    w: "request_by db rid = Some r" "usable_request now aid r"
    "db1 = db\<lparr>signature_requests := set_row sreqId rid (\<lambda>x. x\<lparr>sreqConsumed := Some now\<rparr>) (signature_requests db)\<rparr>"
    "signature_context db aid = Some (a, c, asg, cred)" "caseSnapshot c = sreqSnapshot r"
    "recover (attestationDomain k chain) (request_message a r) signature = Some addr" "signer = js_lower addr"
    "assertSubjectSigner db (assignmentSubject asg) chain signer
       (js ''Signer is not a wallet of the reviewer assigned to this case'') = Inr (js_lower signer)"
    "acceptance_basis today a asg cred db = Inr ()" "versionsInForce now db (attSchema a) = Inr versions"
    "protect_signed_attestation a (signed_row now signature signer versions cred a) = Inr ()"
    "one_signed_successor (signed_row now signature signer versions cred a) (attestations db) = Inr ()"
    "db2 = set_case_state (attCase a) Vc_signed
       (db1\<lparr>attestations := set_row attId aid (\<lambda>_. signed_row now signature signer versions cred a) (attestations db)\<rparr>)"
    "supersede_step now a (sessionSubjectId s) db2 = Inr (x, db3)"
    "reassess_claims db3 (sort (attScope a)) = Inr (rs, db4)" "logged db4 db'"
    by (rule sign_work_Inr [OF assms])
  define row where "row = signed_row now signature signer versions cred a"
  note sup = supersede_step_tables [OF w(14)]
  have oc: "only_claims db3 db4" using reassess_claims_Inr [OF w(15)] by simp
  note same = only_claims_tables [OF oc] logged_tables [OF w(16)]
  have aid: "attId a = aid" using w(4) by (auto simp: signature_context_Some dest: row_by_Some)
  have row: "attId row = aid" "attSupersedes row = attSupersedes a" by (simp_all add: row_def signed_row_def aid)
  show ?thesis
  proof (rule that)
    show "row = signed_row now signature (js_lower addr) versions cred a" by (simp add: row_def w(7))
    show "request_by db rid = Some r" "usable_request now aid r" "signature_context db aid = Some (a, c, asg, cred)"
      "caseSnapshot c = sreqSnapshot r" "recover (attestationDomain k chain) (request_message a r) signature = Some addr"
      "acceptance_basis today a asg cred db = Inr ()" "versionsInForce now db (attSchema a) = Inr versions"
      by (rule w)+
    show "assertSubjectSigner db (assignmentSubject asg) chain (js_lower addr)
           (js ''Signer is not a wallet of the reviewer assigned to this case'') = Inr (js_lower (js_lower addr))"
      using w(8) by (simp add: w(7))
    show "protect_signed_attestation a row = Inr ()" using w(11) by (simp add: row_def)
    show "attestations db' = with_signed row (attestations db)"
      using sup(8) by (simp add: same w(13) with_signed_def row Let_def row_def [symmetric] split: option.split)
    show "signature_requests db' = set_row sreqId rid (\<lambda>x. x\<lparr>sreqConsumed := Some now\<rparr>) (signature_requests db)"
      by (simp add: same sup w(13) w(3))
    show "cases_moved (cases db) (cases db')"
      using sup(1) by (auto simp: same w(13) w(3) intro: cases_moved_trans)
    show "case_claims db' = case_claims db" "assignments db' = assignments db" "disputes db' = disputes db"
      by (simp_all add: same sup w(13) w(3))
    show "\<exists>rs db3 db4. reassess_claims db3 (sort (attScope a)) = Inr (rs, db4) \<and> attestations db3 = attestations db' \<and>
           claims db3 = claims db \<and> claims db' = claims db4"
      using w(15) by (intro exI [of _ rs] exI [of _ db3] exI [of _ db4]) (simp add: same sup(6) w(13) w(3))
    have stored: "attestations db2 = set_row attId aid (\<lambda>r. if attId r = aid then row else r) (attestations db)"
      using row(1) by (simp add: w(13) row_def [symmetric] set_row_const)
    show "\<forall>p. attSupersedes a = Some p \<longrightarrow>
      (\<exists>x. attestation_by db p = Some x \<and> (p = aid \<or> canTransition attestationMachine (attState x) Va_superseded))"
    proof (intro allI impI)
      fix p assume p: "attSupersedes a = Some p"
      then obtain y where "attestation_by db2 p = Some y" "canTransition attestationMachine (attState y) Va_superseded"
        using supersede_step_Inr [OF w(14)] by (auto dest: row_by_Some)
      then show "\<exists>x. attestation_by db p = Some x \<and> (p = aid \<or> canTransition attestationMachine (attState x) Va_superseded)"
        using row(1) stored by (auto simp: row_by_set_row split: if_splits)
    qed
  qed
qed

section \<open>Steps\<close>

text \<open>
  What the rest of the program may do to the tables of a tenant: it writes neither cases, assignments,
  requests nor disputes; triggers send active attestations to a new review; new claims are unreviewed and
  no claim changes its assessment. All other tables may change freely.
\<close>

definition aged :: "attestation_row list \<Rightarrow> attestation_row list \<Rightarrow> bool" where
  "aged old new \<longleftrightarrow>
     (\<exists>P. new = map (\<lambda>a. if P a \<and> attState a = Va_active then a\<lparr>attState := Va_stale_candidate\<rparr> else a) old)"

definition elsewhere :: "review_db \<Rightarrow> review_db \<Rightarrow> bool" where
  "elsewhere db db' \<longleftrightarrow>
     cases db' = cases db \<and> case_claims db' = case_claims db \<and> assignments db' = assignments db \<and>
     signature_requests db' = signature_requests db \<and> disputes db' = disputes db \<and>
     aged (attestations db) (attestations db') \<and>
     (\<forall>i c. claim_by db i = Some c \<longrightarrow> (\<exists>c'. claim_by db' i = Some c' \<and> claimState c' = claimState c)) \<and>
     (\<forall>i c. claim_by db i = None \<and> claim_by db' i = Some c \<longrightarrow> claimState c = Vs_unreviewed)"

text \<open>
  One step on the tables of a tenant. Identifiers are fresh, and a signature comes later than those before
  it: its transaction has its own time. The flag says whether disputes are raised in the history.
\<close>

inductive review_work ::
    "(bytes \<Rightarrow> bytes) \<Rightarrow> recovery \<Rightarrow> int \<Rightarrow> bool \<Rightarrow> review_db \<Rightarrow> review_db \<Rightarrow> bool" for k recover chain contested where
  opened: "create_case_work k now today fresh fa s tenant erole b disclosed q db = Inr (v, db') \<Longrightarrow>
    fresh \<notin> caseId ` set (cases db) \<Longrightarrow> fa \<notin> assignmentId ` set (assignments db) \<Longrightarrow>
    review_work k recover chain contested db db'"
| moved: "move_case_work now s tenant expected erole cid target reason q db = Inr (v, db') \<Longrightarrow>
    review_work k recover chain contested db db'"
| disputed: "dispute_work now fresh s tenant erole aid reason detail q db = Inr (v, db') \<Longrightarrow> contested \<Longrightarrow>
    review_work k recover chain contested db db'"
| resolved: "resolve_work now s tenant erole did res rationale q db = Inr (v, db') \<Longrightarrow>
    review_work k recover chain contested db db'"
| drafted: "draft_work k now today fresh s tenant cid b ty q db = Inr (v, db') \<Longrightarrow>
    fresh \<notin> attId ` set (attestations db) \<Longrightarrow> review_work k recover chain contested db db'"
| requested: "request_work k chain now fresh nonce s tenant erole aid q db = Inr (v, db') \<Longrightarrow>
    fresh \<notin> sreqId ` set (signature_requests db) \<Longrightarrow> review_work k recover chain contested db db'"
| signed: "sign_work k recover chain now today s tenant aid rid signature q db = Inr (v, db') \<Longrightarrow>
    (\<And>a. a \<in> set (attestations db) \<Longrightarrow> attState a \<noteq> Va_draft \<Longrightarrow> attSignedAt a < now) \<Longrightarrow>
    review_work k recover chain contested db db'"
| revoked: "revoke_attestation_work now s tenant project erole aid reason q db = Inr (v, db') \<Longrightarrow>
    review_work k recover chain contested db db'"
| removed: "revoke_assignment_work now s tenant project erole asg_id reason q db = Inr (v, db') \<Longrightarrow>
    review_work k recover chain contested db db'"
| replaced: "reassign_work now today fresh s tenant project erole asg_id b disclosed q db = Inr (v, db') \<Longrightarrow>
    fresh \<notin> assignmentId ` set (assignments db) \<Longrightarrow> review_work k recover chain contested db db'"
| status: "status_work now fresh s tenant expected erole cid target reason q db = Inr (v, db') \<Longrightarrow>
    review_work k recover chain contested db db'"
| outside: "elsewhere db db' \<Longrightarrow> review_work k recover chain contested db db'"

section \<open>Attestations evolve\<close>

lemma aged_evolves:
  assumes "aged old new"
  shows "rows_evolve attId att_evolves old new"
proof -
  obtain P where new: "new = map (\<lambda>a. if P a \<and> attState a = Va_active then a\<lparr>attState := Va_stale_candidate\<rparr> else a) old"
    using assms by (auto simp: aged_def)
  have "canTransition attestationMachine Va_active Va_stale_candidate"
    by (simp add: canTransition_def targets_def machine_defs)
  then show ?thesis unfolding new
    by (intro rows_evolve_map) (simp_all add: keeps_def att_moved)
qed

lemma credential_ages: "aged atts (credential_to_attestations cid u t atts)"
proof (cases "t \<in> {Cred_expired, Cred_suspended, Cred_unknown, Cred_revoked} \<and> t \<noteq> u")
  case True
  then show ?thesis unfolding credential_to_attestations_def aged_def if_P [OF True]
    by (intro exI [of _ "\<lambda>a. attCredential a = cid"] refl)
next
  case False
  then show ?thesis unfolding credential_to_attestations_def aged_def if_not_P [OF False]
    by (intro exI [of _ "\<lambda>_. False"]) simp
qed

lemma att_set_state:
  assumes "\<And>a. row_by attId rows aid = Some a \<Longrightarrow> attState a = t \<or> canTransition attestationMachine (attState a) t"
  shows "rows_evolve attId att_evolves rows (set_row attId aid (\<lambda>a. a\<lparr>attState := t\<rparr>) rows)"
proof (rule rows_evolve_set_row)
  fix a assume "row_by attId rows aid = Some a"
  from assms [OF this] show "att_evolves a (a\<lparr>attState := t\<rparr>)"
    using att_moved [of a t] att_evolves_refl [of a] by (cases "attState a = t") auto
qed simp_all

lemma signed_evolves:
  assumes "attState a = Va_draft"
  shows "att_evolves a (signed_row now signature signer versions cred a)"
  using assms
  by (simp add: att_evolves_def same_content_def signed_row_def reach_step canTransition_def targets_def machine_defs)

lemma signed_superseded: "canTransition attestationMachine Va_signed Va_superseded"
  by (simp add: canTransition_def targets_def machine_defs)

lemma with_signed_evolves:
  assumes "row_by attId rows (attId row) = Some a" and "att_evolves a row" and "attState row = Va_signed"
    and "\<And>p. attSupersedes row = Some p \<Longrightarrow>
       \<exists>x. row_by attId rows p = Some x \<and> (p = attId row \<or> canTransition attestationMachine (attState x) Va_superseded)"
  shows "rows_evolve attId att_evolves rows (with_signed row rows)"
proof -
  let ?stored = "set_row attId (attId row) (\<lambda>_. row) rows"
  have stored: "?stored = set_row attId (attId row) (\<lambda>r. if attId r = attId row then row else r) rows"
    by (rule set_row_const) simp
  have one: "rows_evolve attId att_evolves rows ?stored"
    unfolding stored using assms(1,2) by (intro rows_evolve_set_row) simp_all
  show ?thesis
  proof (cases "attSupersedes row")
    case None
    then show ?thesis using one by (simp add: with_signed_def)
  next
    case (Some p)
    then obtain x where x: "row_by attId rows p = Some x"
      "p = attId row \<or> canTransition attestationMachine (attState x) Va_superseded" using assms(4) by blast
    have "rows_evolve attId att_evolves ?stored (set_row attId p (\<lambda>a. a\<lparr>attState := Va_superseded\<rparr>) ?stored)"
    proof (rule att_set_state)
      fix y assume "row_by attId ?stored p = Some y"
      then have "y = (if p = attId row then row else x)"
        using x(1) row_by_Some [of attId rows p x] unfolding stored by (auto simp: row_by_set_row split: if_splits)
      then show "attState y = Va_superseded \<or> canTransition attestationMachine (attState y) Va_superseded"
        using x(2) assms(3) signed_superseded by (cases "p = attId row") simp_all
    qed
    from rows_evolve_trans [OF one this att_evolves_trans] show ?thesis
      by (simp add: with_signed_def Some)
  qed
qed

text \<open>Under the clock of a signature the row signed was a draft, and so nothing signed is signed again.\<close>

lemma signed_was_draft:
  assumes "protect_signed_attestation a (signed_row now signature signer versions cred a) = Inr ()"
    and "attState a \<noteq> Va_draft \<Longrightarrow> attSignedAt a < now"
  shows "attState a = Va_draft"
  using assms by (auto simp: protect_signed_attestation_def same_body_def signed_row_def split: if_splits)

lemma signed_step:
  assumes "sign_work k recover chain now today s tenant aid rid signature q db = Inr (v, db')"
    and "\<And>a. a \<in> set (attestations db) \<Longrightarrow> attState a \<noteq> Va_draft \<Longrightarrow> attSignedAt a < now"
  obtains r a c asg cred addr versions row where
    "request_by db rid = Some r" and "usable_request now aid r"
    and "signature_context db aid = Some (a, c, asg, cred)" and "caseSnapshot c = sreqSnapshot r"
    and "attState a = Va_draft"
    and "\<forall>p. attSupersedes a = Some p \<longrightarrow> (\<exists>x. attestation_by db p = Some x \<and> (p = aid \<or> canTransition attestationMachine (attState x) Va_superseded))"
    and "recover (attestationDomain k chain) (request_message a r) signature = Some addr"
    and "acceptance_basis today a asg cred db = Inr ()"
    and "row = signed_row now signature (js_lower addr) versions cred a" and "attId row = aid"
    and "attestations db' = with_signed row (attestations db)"
    and "rows_evolve attId att_evolves (attestations db) (attestations db')"
    and "signature_requests db' = set_row sreqId rid (\<lambda>x. x\<lparr>sreqConsumed := Some now\<rparr>) (signature_requests db)"
    and "cases_moved (cases db) (cases db')" and "case_claims db' = case_claims db"
    and "assignments db' = assignments db" and "disputes db' = disputes db"
    and "\<exists>rs db3 db4. reassess_claims db3 (sort (attScope a)) = Inr (rs, db4) \<and> attestations db3 = attestations db' \<and>
           claims db3 = claims db \<and> claims db' = claims db4"
proof -
  obtain r a c asg cred addr versions row where w:
    "request_by db rid = Some r" "usable_request now aid r"
    "signature_context db aid = Some (a, c, asg, cred)" "caseSnapshot c = sreqSnapshot r"
    "recover (attestationDomain k chain) (request_message a r) signature = Some addr"
    "assertSubjectSigner db (assignmentSubject asg) chain (js_lower addr)
      (js ''Signer is not a wallet of the reviewer assigned to this case'') = Inr (js_lower (js_lower addr))"
    "acceptance_basis today a asg cred db = Inr ()" "versionsInForce now db (attSchema a) = Inr versions"
    "row = signed_row now signature (js_lower addr) versions cred a"
    "protect_signed_attestation a row = Inr ()"
    "\<forall>p. attSupersedes a = Some p \<longrightarrow> (\<exists>x. attestation_by db p = Some x \<and> (p = aid \<or> canTransition attestationMachine (attState x) Va_superseded))"
    "attestations db' = with_signed row (attestations db)"
    "signature_requests db' = set_row sreqId rid (\<lambda>x. x\<lparr>sreqConsumed := Some now\<rparr>) (signature_requests db)"
    "cases_moved (cases db) (cases db')" "case_claims db' = case_claims db"
    "assignments db' = assignments db" "disputes db' = disputes db"
    "\<exists>rs db3 db4. reassess_claims db3 (sort (attScope a)) = Inr (rs, db4) \<and> attestations db3 = attestations db' \<and>
           claims db3 = claims db \<and> claims db' = claims db4"
    by (rule sign_effect [OF assms(1)])
  have a: "attestation_by db aid = Some a" using w(3) by (simp add: signature_context_Some)
  then have mem: "a \<in> set (attestations db)" "attId a = aid" by (auto dest: row_by_Some)
  have draft: "attState a = Va_draft"
    using signed_was_draft [OF w(10) [unfolded w(9)]] assms(2) [OF mem(1)] by blast
  have row: "attId row = aid" "attState row = Va_signed" "attSupersedes row = attSupersedes a"
    using mem(2) by (simp_all add: w(9) signed_row_def)
  have "rows_evolve attId att_evolves (attestations db) (attestations db')"
    unfolding w(12)
  proof (rule with_signed_evolves)
    show "attestation_by db (attId row) = Some a" using a row(1) by simp
    show "att_evolves a row" unfolding w(9) by (rule signed_evolves [OF draft])
  qed (use w(11) row in auto)
  with that w draft row(1) show ?thesis by blast
qed

section \<open>What a step does to the tables of a review\<close>

text \<open>The tables that a review is about; two states with the same core differ elsewhere only.\<close>

definition core ::
    "review_db \<Rightarrow> case_row list \<times> (js_string \<times> js_string) list \<times> assignment_row list \<times> attestation_row list \<times>
     signature_request list \<times> dispute_row list \<times> claim_row list" where
  "core db = (cases db, case_claims db, assignments db, attestations db, signature_requests db, disputes db, claims db)"

lemma core_logged: "logged db db' \<Longrightarrow> core db' = core db"
  by (simp add: core_def logged_tables)

definition independent_row :: "assignment_row \<Rightarrow> bool" where
  "independent_row row \<longleftrightarrow>
     assignedBy row \<noteq> Some (assignmentSubject row) \<and>
     assignmentSubject row \<notin> set (basisSubmitters (assignmentBasis row)) \<and>
     set (basisReviewerOrganizations (assignmentBasis row)) \<inter> set (basisOperatorOrganizations (assignmentBasis row)) = {}"

text \<open>What a draft is made of: its case, its assignment, its scope and its payload.\<close>

definition well_drafted :: "(bytes \<Rightarrow> bytes) \<Rightarrow> review_db \<Rightarrow> attestation_row \<Rightarrow> bool" where
  "well_drafted k db a \<longleftrightarrow>
     (\<exists>c asg. case_by db (attCase a) = Some c \<and> assignment_by db (attAssignment a) = Some asg \<and>
        assignmentCase asg = attCase a \<and> assignmentCredential asg = attCredential a \<and>
        attSnapshot a = caseSnapshot c \<and> attSchema a = caseSchema c \<and>
        (\<forall>x \<in> set (attScope a). (attCase a, x) \<in> set (case_claims db))) \<and>
     hashAttestationPayload k (attFindings a) (attCitations a) (attLimitations a) (attScope a) = Inr (attPayload a)"

text \<open>What a draft declares it corrects: another attestation, whose scope it covers.\<close>

definition covers_superseded :: "review_db \<Rightarrow> attestation_row \<Rightarrow> bool" where
  "covers_superseded db a \<longleftrightarrow>
     (\<forall>p. attSupersedes a = Some p \<longrightarrow>
        (\<exists>x. attestation_by db p = Some x \<and> attState x \<noteq> Va_draft \<and> set (attScope x) \<subseteq> set (attScope a)))"

definition revoke_row :: "int \<Rightarrow> js_string option \<Rightarrow> js_string \<Rightarrow> assignment_row \<Rightarrow> assignment_row" where
  "revoke_row now actor reason a =
     a\<lparr>assignmentRevokedAt := Some now, assignmentRevokedBy := actor, assignmentRevokeReason := Some reason\<rparr>"

definition reassessed_claims :: "review_db \<Rightarrow> js_string list \<Rightarrow> review_db \<Rightarrow> bool" where
  "reassessed_claims db scope db' \<longleftrightarrow>
     (\<exists>rs db1 db2. reassess_claims db1 (sort scope) = Inr (rs, db2) \<and> attestations db1 = attestations db' \<and>
        claims db1 = claims db \<and> claims db' = claims db2)"

inductive review_effect ::
    "(bytes \<Rightarrow> bytes) \<Rightarrow> recovery \<Rightarrow> int \<Rightarrow> bool \<Rightarrow> review_db \<Rightarrow> review_db \<Rightarrow> bool" for k recover chain contested where
  opened: "caseId c \<notin> caseId ` set (cases db) \<Longrightarrow> assignmentId row \<notin> assignmentId ` set (assignments db) \<Longrightarrow>
    assignmentCase row = caseId c \<Longrightarrow> independent_row row \<Longrightarrow>
    (\<And>i. i \<in> set ids \<Longrightarrow> claim_by db i \<noteq> None) \<Longrightarrow>
    core db' = core (db\<lparr>cases := cases db @ [c], case_claims := case_claims db @ map (\<lambda>i. (caseId c, i)) ids,
                       assignments := assignments db @ [row]\<rparr>) \<Longrightarrow>
    review_effect k recover chain contested db db'"
| moved: "cases_moved (cases db) cs \<Longrightarrow> core db' = core (db\<lparr>cases := cs\<rparr>) \<Longrightarrow>
    review_effect k recover chain contested db db'"
| disputed: "contested \<Longrightarrow> attestation_by db aid = Some a \<Longrightarrow>
    attState a = Va_disputed \<or> canTransition attestationMachine (attState a) Va_disputed \<Longrightarrow>
    core db' = core (set_attestation_state aid Va_disputed (db\<lparr>disputes := disputes db @ [d]\<rparr>)) \<Longrightarrow>
    dispAttestation d = aid \<Longrightarrow> review_effect k recover chain contested db db'"
| resolved: "dispute_by db did = Some d \<Longrightarrow> ds = set_row dispId did (resolved_row now res rationale) (disputes db) \<Longrightarrow>
    atts = attestations db \<or>
    atts = set_row attId (dispAttestation d)
      (\<lambda>a. if attState a = Va_disputed then a\<lparr>attState := Va_active\<rparr> else a) (attestations db) \<Longrightarrow>
    core db' = core (db\<lparr>disputes := ds, attestations := atts\<rparr>) \<Longrightarrow> review_effect k recover chain contested db db'"
| drafted: "attId a \<notin> attId ` set (attestations db) \<Longrightarrow> attState a = Va_draft \<Longrightarrow> well_drafted k db a \<Longrightarrow>
    covers_superseded db a \<Longrightarrow> cases_moved (cases db) cs \<Longrightarrow>
    core db' = core (db\<lparr>attestations := attestations db @ [a], cases := cs\<rparr>) \<Longrightarrow>
    review_effect k recover chain contested db db'"
| requested: "sreqId r \<notin> sreqId ` set (signature_requests db) \<Longrightarrow> attestation_by db (sreqAttestation r) = Some a \<Longrightarrow>
    sreqSnapshot r = attSnapshot a \<Longrightarrow> sreqPayload r = attPayload a \<Longrightarrow> sreqConsumed r = None \<Longrightarrow>
    core db' = core (db\<lparr>signature_requests := signature_requests db @ [r]\<rparr>) \<Longrightarrow>
    review_effect k recover chain contested db db'"
| signed: "request_by db rid = Some r \<Longrightarrow> usable_request now (attId a) r \<Longrightarrow>
    attestation_by db (attId a) = Some a \<Longrightarrow> attState a = Va_draft \<Longrightarrow>
    (\<And>p x. attSupersedes a = Some p \<Longrightarrow> attestation_by db p = Some x \<Longrightarrow>
       p = attId a \<or> canTransition attestationMachine (attState x) Va_superseded) \<Longrightarrow>
    recover (attestationDomain k chain) (request_message a r) signature = Some addr \<Longrightarrow>
    credStatus cred = Cred_valid \<Longrightarrow>
    row = signed_row now signature (js_lower addr) versions cred a \<Longrightarrow>
    rows_evolve attId att_evolves (attestations db) (with_signed row (attestations db)) \<Longrightarrow>
    cases_moved (cases db) cs \<Longrightarrow> reassessed_claims db (attScope a) db' \<Longrightarrow>
    core db' = core (db\<lparr>attestations := with_signed row (attestations db), cases := cs, claims := claims db',
      signature_requests := set_row sreqId rid (\<lambda>x. x\<lparr>sreqConsumed := Some now\<rparr>) (signature_requests db)\<rparr>) \<Longrightarrow>
    review_effect k recover chain contested db db'"
| revoked: "attestation_by db aid = Some a \<Longrightarrow> canTransition attestationMachine (attState a) Va_revoked \<Longrightarrow>
    cases_moved (cases db) cs \<Longrightarrow> reassessed_claims db (attScope a) db' \<Longrightarrow>
    core db' = core (db\<lparr>attestations := set_row attId aid (revoked_row now actor reason) (attestations db), cases := cs,
      claims := claims db'\<rparr>) \<Longrightarrow> review_effect k recover chain contested db db'"
| removed: "core db' = core (db\<lparr>assignments := set_row assignmentId i (revoke_row now actor reason) (assignments db)\<rparr>) \<Longrightarrow>
    review_effect k recover chain contested db db'"
| replaced: "assignment_by db i = Some asg \<Longrightarrow> latest_assignment db (assignmentCase asg) = Some latest \<Longrightarrow>
    assignmentId latest = i \<Longrightarrow>
    as = (if assignmentRevokedAt asg = None then set_row assignmentId i (revoke_row now actor reason) (assignments db)
          else assignments db) \<Longrightarrow>
    assignmentId row \<notin> assignmentId ` set (assignments db) \<Longrightarrow> assignmentCase row = assignmentCase asg \<Longrightarrow>
    independent_row row \<Longrightarrow> core db' = core (db\<lparr>assignments := as @ [row]\<rparr>) \<Longrightarrow>
    review_effect k recover chain contested db db'"
| outside: "elsewhere db db' \<Longrightarrow> review_effect k recover chain contested db db'"

lemma snapshot_claims:
  assumes "buildEvidenceSnapshot k db project ids = Inr snap" and "i \<in> set (evidenceClaims snap)"
  shows "claim_by db i \<noteq> None"
  using assms
  by (auto simp: buildEvidenceSnapshot_def Let_def and_then_eq_Inr_iff scoped_claims_def row_by_None split: if_splits)

lemma assigned_independent:
  assumes "assignReviewer now today fresh i db = Inr (made, db')"
  obtains row where "assignmentId row = fresh" and "assignmentCase row = inCase i" and "independent_row row"
    and "db' = db\<lparr>assignments := assignments db @ [row]\<rparr>"
  using assms
proof (rule assignReviewer_Inr)
  fix cred row
  let ?f = "assignment_facts db (inProject i) (inClaims i) (inReviewer i) (inAssigner i) cred"
  assume v: "violations (reviewIndependence ?f) = []"
    and row: "row = \<lparr>assignmentId = fresh, assignmentCase = inCase i, assignmentSubject = inReviewer i,
          assignmentCredential = inCredential i, assignmentReviewed = reviewed (reviewIndependence ?f),
          assignmentBasis = snd (reviewAssignmentIndependence db (inProject i) (inClaims i) (inReviewer i) (inAssigner i) cred),
          assignmentConflict = inConflict i, assignedBy = inAssigner i, assignedAt = now, assignmentRevokedAt = None,
          assignmentRevokedBy = None, assignmentRevokeReason = None\<rparr>"
    and db': "db' = db\<lparr>assignments := assignments db @ [row]\<rparr>"
  have f: "reviewerSubjectId ?f = inReviewer i" "assignerSubjectId ?f = inAssigner i"
    by (simp_all add: assignment_facts_def split: prod.split)
  have "independent_row row"
    using violations_iff [of ?f] unfolding v f
    by (simp add: independent_row_def row reviewAssignmentIndependence_def Let_def)
  then show thesis using that [of row] db' row by simp
qed

lemma supersedable_covers:
  assumes "assertSupersedable db pred project scope = Inr ()"
  shows "\<exists>x. attestation_by db pred = Some x \<and> attState x \<noteq> Va_draft \<and> set (attScope x) \<subseteq> set scope"
proof -
  have "\<not> canTransition attestationMachine Va_draft Va_superseded"
    by (simp add: canTransition_def targets_def machine_defs)
  then show ?thesis
    using assms
    by (auto simp: assertSupersedable_def attestation_case_Some filter_empty_conv split: option.splits if_splits)
qed

lemma accepted_credential: "acceptance_basis today a asg cred db = Inr () \<Longrightarrow> credStatus cred = Cred_valid"
  by (auto simp: acceptance_basis_def basisBlockers_def blockers_Nil_iff Let_def split: if_splits)

lemma opened_effect:
  assumes "create_case_work k now today fresh fa s tenant erole b disclosed q db = Inr (v, db')"
    and "fresh \<notin> caseId ` set (cases db)" and "fa \<notin> assignmentId ` set (assignments db)"
  shows "review_effect k recover chain contested db db'"
  using assms(1)
proof (rule create_case_work_Inr)
  fix snap :: evidence_snapshot and made db1
  let ?c = "\<lparr>caseId = fresh, caseProject = newProject b, caseSchema = newSchema b,
                 caseState = Vc_assigned, caseSnapshot = evidenceHash snap, caseVersion = 1\<rparr>"
  let ?db = "db\<lparr>cases := cases db @ [?c], case_claims := case_claims db @ map (\<lambda>c. (fresh, c)) (evidenceClaims snap)\<rparr>"
  assume snap: "buildEvidenceSnapshot k db (newProject b) (newClaims b) = Inr snap"
    and asg: "assignReviewer now today fa
           \<lparr>inCase = fresh, inProject = newProject b, inClaims = evidenceClaims snap, inReviewer = newReviewer b,
            inCredential = newCredential b, inConflict = disclosed, inAssigner = sessionSubjectId s\<rparr> ?db = Inr (made, db1)"
    and log: "logged db1 db'"
  obtain row where row: "assignmentId row = fa" "assignmentCase row = fresh" "independent_row row"
    and db1: "db1 = ?db\<lparr>assignments := assignments ?db @ [row]\<rparr>"
    by (rule assigned_independent [OF asg]) simp
  show ?thesis
    by (rule review_effect.opened [of ?c db row "evidenceClaims snap"])
      (use assms(2,3) row snapshot_claims [OF snap] core_logged [OF log] in \<open>simp_all add: db1 core_def\<close>)
qed

lemma drafted_effect:
  assumes "draft_work k now today fresh s tenant cid b ty q db = Inr (v, db')"
    and "fresh \<notin> attId ` set (attestations db)"
  shows "review_effect k recover chain contested db db'"
  using assms(1)
proof (rule draft_work_Inr)
  fix c schema asg cred erole versions payload row
  assume ctx: "draft_context db cid (draftAssignment b) = Some (c, schema, asg, cred)"
    and checks: "draft_checks today s tenant b ty c schema asg cred db = Inr erole"
    and payload: "hashAttestationPayload k (draftFindings b) (draftCitations b) (draftLimitations b) (draftScope b) = Inr payload"
    and row: "row = draft_row now fresh c asg cred b ty payload versions"
    and log: "logged (if caseState c = Vc_assigned
           then set_case_state cid Vc_in_review (db\<lparr>attestations := attestations db @ [row]\<rparr>)
           else db\<lparr>attestations := attestations db @ [row]\<rparr>) db'"
  note cx = ctx [unfolded draft_context_Some]
  note ok = draft_checks_Inr [OF checks]
  have ids: "caseId c = cid" "assignmentId asg = draftAssignment b" "credId cred = assignmentCredential asg"
    using cx by (auto dest: row_by_Some)
  define cs where "cs = (if caseState c = Vc_assigned then set_row caseId cid (with_case_state Vc_in_review) (cases db) else cases db)"
  show ?thesis
  proof (rule review_effect.drafted)
    show "attId row \<notin> attId ` set (attestations db)" "attState row = Va_draft"
      using assms(2) by (simp_all add: row draft_row_def)
    show "well_drafted k db row"
      using cx ids ok(3) payload by (simp add: well_drafted_def row draft_row_def)
    show "covers_superseded db row"
      using ok(6) supersedable_covers
      by (simp add: covers_superseded_def row draft_row_def split: option.splits)
    show "cases_moved (cases db) cs" by (simp add: cs_def)
    show "core db' = core (db\<lparr>attestations := attestations db @ [row], cases := cs\<rparr>)"
      using core_logged [OF log] by (simp add: cs_def core_def)
  qed
qed

lemma signed_effect:
  assumes "sign_work k recover chain now today s tenant aid rid signature q db = Inr (v, db')"
    and "\<And>a. a \<in> set (attestations db) \<Longrightarrow> attState a \<noteq> Va_draft \<Longrightarrow> attSignedAt a < now"
  shows "review_effect k recover chain contested db db'"
  using assms
proof (rule signed_step)
  fix r a c asg cred addr versions row
  assume r: "request_by db rid = Some r" "usable_request now aid r" and ctx: "signature_context db aid = Some (a, c, asg, cred)"
    and draft: "attState a = Va_draft"
    and sup: "\<forall>p. attSupersedes a = Some p \<longrightarrow> (\<exists>x. attestation_by db p = Some x \<and> (p = aid \<or> canTransition attestationMachine (attState x) Va_superseded))"
    and rec: "recover (attestationDomain k chain) (request_message a r) signature = Some addr"
    and acc: "acceptance_basis today a asg cred db = Inr ()"
    and row: "row = signed_row now signature (js_lower addr) versions cred a"
    and atts: "attestations db' = with_signed row (attestations db)"
    and ev: "rows_evolve attId att_evolves (attestations db) (attestations db')"
    and same: "signature_requests db' = set_row sreqId rid (\<lambda>x. x\<lparr>sreqConsumed := Some now\<rparr>) (signature_requests db)"
      "case_claims db' = case_claims db" "assignments db' = assignments db" "disputes db' = disputes db"
    and cs: "cases_moved (cases db) (cases db')"
    and re: "\<exists>rs db3 db4. reassess_claims db3 (sort (attScope a)) = Inr (rs, db4) \<and> attestations db3 = attestations db' \<and>
           claims db3 = claims db \<and> claims db' = claims db4"
  have a: "attestation_by db aid = Some a" using ctx by (simp add: signature_context_Some)
  then have aid: "attId a = aid" by (auto dest: row_by_Some)
  show ?thesis
    by (rule review_effect.signed [where rid = rid and r = r and now = now and a = a and signature = signature and addr = addr and cred = cred and
        row = row and versions = versions and cs = "cases db'"])
      (use r a aid draft sup rec accepted_credential [OF acc] row ev [unfolded atts] cs re same atts in
        \<open>simp_all add: reassessed_claims_def core_def\<close>)
qed

lemma work_effect:
  assumes "review_work k recover chain contested db db'"
  shows "review_effect k recover chain contested db db'"
  using assms
proof cases
  case (opened now today fresh fa s tenant erole b disclosed q v)
  then show ?thesis by (rule opened_effect)
next
  case (moved now s tenant expected erole cid target reason q v)
  then show ?thesis
    by (elim move_case_work_Inr) (rule review_effect.moved [OF cases_moved_set_row], simp add: core_def logged_tables)
next
  case (disputed now fresh s tenant erole aid reason detail q v)
  from disputed(1) show ?thesis
    by (rule dispute_work_Inr) (rule review_effect.disputed [OF disputed(2)], assumption, assumption, erule core_logged, simp)
next
  case (resolved now s tenant erole did res rationale q v)
  then show ?thesis
  proof (rule resolve_work_Inr)
    fix d db1
    assume d: "dispute_by db did = Some d"
      and db1: "db1 = db\<lparr>disputes := set_row dispId did (resolved_row now res rationale) (disputes db)\<rparr>"
      and log: "logged (if res = js ''dismissed'' \<and> open_disputes db1 (dispAttestation d) = 0
           then db1\<lparr>attestations := set_row attId (dispAttestation d)
                  (\<lambda>a. if attState a = Va_disputed then a\<lparr>attState := Va_active\<rparr> else a) (attestations db1)\<rparr>
           else db1) db'"
    show ?thesis
      by (rule review_effect.resolved [OF d refl, where now = now and res = res and rationale = rationale and atts = "attestations db'"])
        (use core_logged [OF log] in \<open>auto simp: core_def db1 split: if_splits\<close>)
  qed
next
  case (drafted now today fresh s tenant cid b ty q v)
  then show ?thesis by (rule drafted_effect)
next
  case (requested now fresh nonce s tenant erole aid q v)
  from requested(1) show ?thesis
  proof (rule request_work_Inr)
    fix a c asg cred
    assume ctx: "signature_context db aid = Some (a, c, asg, cred)"
      and log: "logged (db\<lparr>signature_requests := signature_requests db @ [new_request now fresh nonce a]\<rparr>) db'"
    have "attestation_by db (attId a) = Some a" using ctx by (auto simp: signature_context_Some dest: row_by_Some)
    then show ?thesis
      by (intro review_effect.requested [where r = "new_request now fresh nonce a" and a = a])
        (use requested(2) core_logged [OF log] in \<open>simp_all add: new_request_def\<close>)
  qed
next
  case (signed now today s tenant aid rid signature q v)
  then show ?thesis by (rule signed_effect)
next
  case (revoked now s tenant project erole aid reason q v)
  then show ?thesis
  proof (rule revoke_attestation_work_Inr)
    fix a c m db1 db2 rs
    assume a: "attestation_by db aid = Some a" "canTransition attestationMachine (attState a) Va_revoked"
      and rec: "recordCaseTransition now (attCase a) (caseState c) Vc_revoked (js ''Attestation revoked: '' @ reason)
           (sessionSubjectId s)
           (db\<lparr>attestations := set_row attId aid (revoked_row now (sessionSubjectId s) reason) (attestations db)\<rparr>) = (m, db1)"
      and ass: "reassess_claims db1 (sort (attScope a)) = Inr (rs, db2)" and log: "logged db2 db'"
    have oc: "only_claims db1 db2" using reassess_claims_Inr [OF ass] by simp
    note same = logged_tables [OF log] only_claims_tables [OF oc]
    have db1: "cases_moved (cases db) (cases db1)"
      "attestations db1 = set_row attId aid (revoked_row now (sessionSubjectId s) reason) (attestations db)"
      "claims db1 = claims db" "case_claims db1 = case_claims db" "assignments db1 = assignments db"
      "signature_requests db1 = signature_requests db" "disputes db1 = disputes db"
      using rec by (auto simp: recordCaseTransition_def split: if_splits)
    show ?thesis
      by (rule review_effect.revoked [OF a db1(1), where now = now and actor = "sessionSubjectId s" and reason = reason])
        (use ass db1 in \<open>auto simp: reassessed_claims_def core_def same\<close>)
  qed
next
  case (removed now s tenant project erole asg_id reason q v)
  then show ?thesis
    by (elim revoke_assignment_work_Inr)
      (rule review_effect.removed [where i = asg_id and now = now and actor = "sessionSubjectId s" and reason = reason],
        simp add: core_def logged_tables revokeAssignmentRow_def revoke_row_def [abs_def])
next
  case (replaced now today fresh s tenant project erole asg_id b disclosed q v)
  from replaced(1) show ?thesis
  proof (rule reassign_work_Inr)
    fix asg latest made db1 db2
    assume lock: "lockAssignment db asg_id = Inr asg" "latest_assignment db (assignmentCase asg) = Some latest"
        "assignmentId latest = asg_id"
      and db1: "db1 = (if assignmentRevokedAt asg = None then revokeAssignmentRow now asg_id (sessionSubjectId s) (nextReason b) db else db)"
      and asg: "assignReviewer now today fresh
           \<lparr>inCase = assignmentCase asg, inProject = project,
            inClaims = map snd (filter (\<lambda>x. fst x = assignmentCase asg) (case_claims db1)),
            inReviewer = nextReviewer b, inCredential = nextCredential b, inConflict = disclosed,
            inAssigner = sessionSubjectId s\<rparr> db1 = Inr (made, db2)"
      and log: "logged db2 db'"
    obtain row where row: "assignmentId row = fresh" "assignmentCase row = assignmentCase asg" "independent_row row"
      and db2: "db2 = db1\<lparr>assignments := assignments db1 @ [row]\<rparr>"
      by (rule assigned_independent [OF asg]) simp
    show ?thesis
      by (rule review_effect.replaced [where i = asg_id and asg = asg and latest = latest and now = now and
          actor = "sessionSubjectId s" and reason = "nextReason b" and row = row])
        (use lock row replaced(2) core_logged [OF log] in
          \<open>auto simp: lockAssignment_Inr db1 db2 core_def revokeAssignmentRow_def revoke_row_def [abs_def]\<close>)
  qed
next
  case (status now fresh s tenant expected erole cid target reason q v)
  then show ?thesis
    by (elim status_work_Inr)
      (rule review_effect.outside, auto simp: elsewhere_def apply_status_tables credential_ages)
next
  case outside
  then show ?thesis by (rule review_effect.outside)
qed

end
