(* ===== verification/Review_Invariants.thy ===== *)
theory Review_Invariants
  imports Review_Steps
begin

text \<open>
  What holds of the tables of a review after any steps: attestations are those of their case and were
  signed by a signature that verifies, requests speak for the attestation they were made for, every
  appointment was independent and a case has one reviewer at a time.
\<close>

section \<open>The tables after a step\<close>

lemma core_eq:
  "core db' = core db \<longleftrightarrow>
     cases db' = cases db \<and> case_claims db' = case_claims db \<and> assignments db' = assignments db \<and>
     attestations db' = attestations db \<and> signature_requests db' = signature_requests db \<and>
     disputes db' = disputes db \<and> claims db' = claims db"
  by (auto simp: core_def)

lemma revoke_row_evolves: "asg_evolves a (revoke_row now actor reason a)"
  by (cases a) (simp add: asg_evolves_def revoke_row_def)

lemma keeps_revoke_row [simp]: "keeps assignmentId (revoke_row now actor reason)"
  by (simp add: keeps_def revoke_row_def)

lemma effect_assignments:
  assumes "review_effect k recover chain contested db db'"
  shows "rows_evolve assignmentId asg_evolves (assignments db) (assignments db')"
  using assms
proof cases
  case (replaced i asg latest as now actor reason row)
  have one: "rows_evolve assignmentId asg_evolves (assignments db) as"
    by (auto simp: replaced(4) rows_evolve_same revoke_row_evolves intro!: rows_evolve_set_row)
  have "rows_evolve assignmentId asg_evolves as (as @ [row])" by (simp add: rows_evolve_append)
  from rows_evolve_trans [OF one this asg_evolves_trans] show ?thesis using replaced(8) by (simp add: core_eq)
qed (auto simp: core_eq elsewhere_def revoke_row_evolves rows_evolve_same rows_evolve_append intro!: rows_evolve_set_row)

lemma effect_requests:
  assumes "review_effect k recover chain contested db db'"
  shows "rows_evolve sreqId req_evolves (signature_requests db) (signature_requests db')"
  using assms
proof cases
  case (signed rid r now a signature addr cred row versions cs)
  have "req_evolves r (r\<lparr>sreqConsumed := Some now\<rparr>)"
    using signed(2) by (cases r) (simp add: req_evolves_def usable_request_def)
  then show ?thesis
    using signed(1) signed(12) by (auto simp: core_eq intro!: rows_evolve_set_row)
qed (auto simp: core_eq elsewhere_def rows_evolve_same rows_evolve_append)

lemma effect_cases:
  assumes "review_effect k recover chain contested db db'"
  shows "rows_evolve caseId case_evolves (cases db) (cases db')" and "set (case_claims db) \<subseteq> set (case_claims db')"
  using assms
  by (cases; auto simp: core_eq elsewhere_def cases_moved_def rows_evolve_same rows_evolve_append)+

section \<open>What happens to an attestation\<close>

text \<open>The attestation was signed in this step, with a request that the step consumed.\<close>

definition signed_between ::
    "(bytes \<Rightarrow> bytes) \<Rightarrow> recovery \<Rightarrow> int \<Rightarrow> review_db \<Rightarrow> review_db \<Rightarrow> attestation_row \<Rightarrow> attestation_row \<Rightarrow> bool" where
  "signed_between k recover chain db db' a a' \<longleftrightarrow>
     (\<exists>rid r now signature addr cred versions.
        request_by db rid = Some r \<and> usable_request now (attId a) r \<and>
        request_by db' rid = Some (r\<lparr>sreqConsumed := Some now\<rparr>) \<and>
        recover (attestationDomain k chain) (request_message a r) signature = Some addr \<and>
        credStatus cred = Cred_valid \<and> sealed (signed_row now signature (js_lower addr) versions cred a) a')"

lemma with_signed_lookup:
  "row_by attId (with_signed row rows) i =
     map_option (\<lambda>x. let y = (if i = attId row then row else x)
                     in if attSupersedes row = Some i then y\<lparr>attState := Va_superseded\<rparr> else y) (row_by attId rows i)"
proof -
  have "set_row attId (attId row) (\<lambda>_. row) rows =
      set_row attId (attId row) (\<lambda>r. if attId r = attId row then row else r) rows"
    by (rule set_row_const) simp
  moreover have "row_by attId rows i = Some x \<Longrightarrow> attId x = i" for i x by (auto dest: row_by_Some)
  ultimately show ?thesis
    by (cases "row_by attId rows i") (auto simp: with_signed_def row_by_set_row Let_def split: option.split)
qed

lemma sealed_superseded: "sealed a (a\<lparr>attState := st\<rparr>)"
  by (cases a) (simp add: sealed_def)

lemma sealed_refl [simp]: "sealed a a"
  by (simp add: sealed_def)

text \<open>A row of the table after a step: new and a draft, or an old row, and a draft changes only by a signature.\<close>

definition att_step ::
    "(bytes \<Rightarrow> bytes) \<Rightarrow> recovery \<Rightarrow> int \<Rightarrow> review_db \<Rightarrow> review_db \<Rightarrow> js_string \<Rightarrow> attestation_row \<Rightarrow> bool" where
  "att_step k recover chain db db' aid a' \<longleftrightarrow>
     (\<exists>a. attestation_by db aid = Some a \<and> att_evolves a a' \<and>
        (attState a = Va_draft \<longrightarrow> a' = a \<or> signed_between k recover chain db db' a a')) \<or>
     (attestation_by db aid = None \<and> attState a' = Va_draft \<and> well_drafted k db a' \<and> covers_superseded db a')"

lemma att_step_same: "attestation_by db aid = Some a \<Longrightarrow> att_step k recover chain db db' aid a"
  by (simp add: att_step_def)

lemma att_step_moved:
  assumes "attestation_by db aid = Some a" and "att_evolves a a'" and "attState a \<noteq> Va_draft"
  shows "att_step k recover chain db db' aid a'"
  using assms by (auto simp: att_step_def)

lemma draft_moves_to_signed: "canTransition attestationMachine Va_draft t \<longleftrightarrow> t = Va_signed"
  by (auto simp: canTransition_def targets_def machine_defs)

lemma att_step_set_state:
  assumes "attestation_by db i = Some x" and "a' = (if i = aid then x\<lparr>attState := t\<rparr> else x)"
    and "i = aid \<Longrightarrow> attState x = t \<or> canTransition attestationMachine (attState x) t" and "t \<noteq> Va_signed" "t \<noteq> Va_draft"
  shows "att_step k recover chain db db' i a'"
proof (cases "i = aid \<and> attState x \<noteq> t")
  case True
  then have can: "canTransition attestationMachine (attState x) t" using assms(3) by blast
  then have "attState x \<noteq> Va_draft" using assms(4) by (auto simp: draft_moves_to_signed)
  with can show ?thesis using assms(1,2) True by (auto intro: att_step_moved att_moved)
next
  case False
  then have "a' = x" using assms(2) by auto
  then show ?thesis using assms(1) by (simp add: att_step_same)
qed

lemma effect_attestation:
  assumes "review_effect k recover chain contested db db'" and "attestation_by db' i = Some a'"
  shows "att_step k recover chain db db' i a'"
  using assms(1)
proof cases
  case (disputed aid a d)
  then have "attestation_by db' i = (if i = aid then map_option (\<lambda>a. a\<lparr>attState := Va_disputed\<rparr>) (attestation_by db i)
      else attestation_by db i)"
    by (auto simp: core_eq row_by_set_row)
  then obtain x where "attestation_by db i = Some x" "a' = (if i = aid then x\<lparr>attState := Va_disputed\<rparr> else x)"
    using assms(2) by (cases "attestation_by db i"; cases "i = aid") auto
  then show ?thesis using disputed(2,3) by (auto intro: att_step_set_state)
next
  case (resolved did d ds now res rationale atts)
  have act: "canTransition attestationMachine Va_disputed Va_active"
    by (simp add: canTransition_def targets_def machine_defs)
  let ?f = "\<lambda>a. if attState a = Va_disputed then a\<lparr>attState := Va_active\<rparr> else a"
  have db': "attestations db' = atts" using resolved(4) by (simp add: core_eq)
  have "attestation_by db' i = attestation_by db i \<or> attestation_by db' i = map_option ?f (attestation_by db i)"
    using resolved(3) unfolding db' by (auto simp: row_by_set_row)
  then obtain x where x: "attestation_by db i = Some x" "a' = x \<or> a' = ?f x"
    using assms(2) by (cases "attestation_by db i") auto
  show ?thesis
  proof (cases "attState x = Va_disputed")
    case True
    then have "att_evolves x (x\<lparr>attState := Va_active\<rparr>)" using act by (simp add: att_moved)
    then show ?thesis using x True by (auto intro: att_step_same att_step_moved)
  qed (use x in \<open>auto intro: att_step_same\<close>)
next
  case (drafted a cs)
  have "attestation_by db (attId a) = None" using drafted(1) by (simp add: row_by_None)
  then show ?thesis
    using drafted assms(2) by (auto simp: core_eq row_by_append att_step_def split: option.splits if_splits)
next
  case (signed rid r now a signature addr cred row versions cs)
  have req: "request_by db' rid = Some (r\<lparr>sreqConsumed := Some now\<rparr>)"
    using signed(1,12) by (simp add: core_eq row_by_set_row)
  have row: "attId row = attId a" "attSupersedes row = attSupersedes a" by (simp_all add: signed(8) signed_row_def)
  have db': "attestations db' = with_signed row (attestations db)" using signed(12) by (simp add: core_eq)
  from assms(2) obtain x where x: "attestation_by db i = Some x"
    and a': "a' = (let y = (if i = attId row then row else x)
                   in if attSupersedes row = Some i then y\<lparr>attState := Va_superseded\<rparr> else y)"
    by (auto simp: db' with_signed_lookup)
  have ev: "att_evolves x a'" using rows_evolveD [OF signed(9) x] assms(2) db' by auto
  show ?thesis
  proof (cases "i = attId a")
    case True
    then have "x = a" using x signed(3) by simp
    moreover have "sealed row a'" using True row by (auto simp: a' Let_def sealed_superseded)
    ultimately have "signed_between k recover chain db db' x a'"
      unfolding signed_between_def using signed req by blast
    then show ?thesis using x ev by (auto simp: att_step_def)
  next
    case False
    then have "a' = x \<or> a' = x\<lparr>attState := Va_superseded\<rparr>" using row by (auto simp: a' Let_def)
    then show ?thesis
    proof
      assume a'': "a' = x\<lparr>attState := Va_superseded\<rparr>"
      show ?thesis
      proof (cases "attState x = Va_draft")
        case True
        have "attSupersedes a = Some i \<Longrightarrow> attState x \<noteq> Va_draft"
          using signed(5) [of i x] x False by (auto simp: draft_moves_to_signed)
        then have "a' = x" using True False row by (auto simp: a' Let_def)
        then show ?thesis using x by (simp add: att_step_same)
      qed (use x ev in \<open>auto intro: att_step_moved\<close>)
    qed (use x in \<open>auto intro: att_step_same\<close>)
  qed
next
  case (revoked aid a cs now actor reason)
  have "attestation_by db' i = (if i = aid then map_option (revoked_row now actor reason) (attestation_by db i)
      else attestation_by db i)"
    using revoked(5) by (simp add: core_eq row_by_set_row)
  then obtain x where x: "attestation_by db i = Some x" "a' = (if i = aid then revoked_row now actor reason x else x)"
    using assms(2) by (cases "attestation_by db i"; cases "i = aid") auto
  have "attState a \<noteq> Va_draft" using revoked(2) by (auto simp: draft_moves_to_signed)
  then show ?thesis
    using x revoked(1,2) by (cases "i = aid") (auto intro: att_step_same att_step_moved att_revoked)
next
  case outside
  then obtain P where new: "attestations db' =
      map (\<lambda>a. if P a \<and> attState a = Va_active then a\<lparr>attState := Va_stale_candidate\<rparr> else a) (attestations db)"
    by (auto simp: elsewhere_def aged_def)
  have "attestation_by db' i = map_option (\<lambda>a. if P a \<and> attState a = Va_active then a\<lparr>attState := Va_stale_candidate\<rparr> else a)
      (attestation_by db i)"
    unfolding new by (rule row_by_map_same) simp
  then obtain x where x: "attestation_by db i = Some x"
    "a' = (if P x \<and> attState x = Va_active then x\<lparr>attState := Va_stale_candidate\<rparr> else x)"
    using assms(2) by (cases "attestation_by db i") auto
  have "canTransition attestationMachine Va_active Va_stale_candidate"
    by (simp add: canTransition_def targets_def machine_defs)
  then show ?thesis using x att_moved [of x Va_stale_candidate] by (auto intro: att_step_same att_step_moved split: if_splits)
next
  case (opened c row ids)
  then have "attestations db' = attestations db" by (simp add: core_eq)
  then show ?thesis using assms(2) by (simp add: att_step_same)
next
  case (moved cs)
  then have "attestations db' = attestations db" by (simp add: core_eq)
  then show ?thesis using assms(2) by (simp add: att_step_same)
next
  case (requested r a)
  then have "attestations db' = attestations db" by (simp add: core_eq)
  then show ?thesis using assms(2) by (simp add: att_step_same)
next
  case (removed j now actor reason)
  then have "attestations db' = attestations db" by (simp add: core_eq)
  then show ?thesis using assms(2) by (simp add: att_step_same)
next
  case (replaced j asg latest as now actor reason row)
  then have "attestations db' = attestations db" by (simp add: core_eq)
  then show ?thesis using assms(2) by (simp add: att_step_same)
qed

text \<open>Every attestation is still there after a step, evolved.\<close>

lemma effect_attestation_kept:
  assumes "review_effect k recover chain contested db db'" and "attestation_by db i = Some a"
  shows "\<exists>a'. attestation_by db' i = Some a'"
  using assms(1)
proof cases
  case (disputed aid x d)
  then show ?thesis using assms(2) by (simp add: core_eq row_by_set_row)
next
  case (resolved did d ds now res rationale atts)
  then have "attestations db' = atts" by (simp add: core_eq)
  then show ?thesis using resolved(3) assms(2) by (auto simp: row_by_set_row)
next
  case (drafted x cs)
  then show ?thesis using assms(2) by (simp add: core_eq row_by_append)
next
  case (signed rid r now x signature addr cred row versions cs)
  then have "attestations db' = with_signed row (attestations db)" by (simp add: core_eq)
  then show ?thesis using assms(2) by (simp add: with_signed_lookup)
next
  case (revoked aid x cs now actor reason)
  then show ?thesis using assms(2) by (simp add: core_eq row_by_set_row)
next
  case outside
  then obtain P where new: "attestations db' =
      map (\<lambda>a. if P a \<and> attState a = Va_active then a\<lparr>attState := Va_stale_candidate\<rparr> else a) (attestations db)"
    by (auto simp: elsewhere_def aged_def)
  show ?thesis unfolding new using assms(2) by (subst row_by_map_same) simp_all
qed (use assms(2) in \<open>simp_all add: core_eq\<close>)

lemma effect_attestations:
  assumes "review_effect k recover chain contested db db'"
  shows "rows_evolve attId att_evolves (attestations db) (attestations db')"
  unfolding rows_evolve_def
proof (intro allI impI)
  fix i a assume a: "attestation_by db i = Some a"
  obtain a' where a': "attestation_by db' i = Some a'" using effect_attestation_kept [OF assms a] by blast
  then show "\<exists>a'. attestation_by db' i = Some a' \<and> att_evolves a a'"
    using effect_attestation [OF assms a'] a by (auto simp: att_step_def)
qed

interpretation atts: evolving_table "review_effect k recover chain contested" attestations attId att_evolves
  for k recover chain contested
  by unfold_locales (simp, erule (1) att_evolves_trans, erule effect_attestations)

interpretation reqs: evolving_table "review_effect k recover chain contested" signature_requests sreqId req_evolves
  for k recover chain contested
  by unfold_locales (simp, erule (1) req_evolves_trans, erule effect_requests)

interpretation asgs: evolving_table "review_effect k recover chain contested" assignments assignmentId asg_evolves
  for k recover chain contested
  by unfold_locales (simp, erule (1) asg_evolves_trans, erule effect_assignments)

interpretation css: evolving_table "review_effect k recover chain contested" cases caseId case_evolves
  for k recover chain contested
  by unfold_locales (simp, erule (1) case_evolves_trans, erule effect_cases)

section \<open>The invariant\<close>

text \<open>
  A signature stands behind the attestation: a request made for it, with its snapshot and its payload, was
  consumed when it was signed and had not expired, the signature recovers to the recorded signer from the
  message built of that request, and the credential was valid.
\<close>

definition vouched :: "(bytes \<Rightarrow> bytes) \<Rightarrow> recovery \<Rightarrow> int \<Rightarrow> review_db \<Rightarrow> attestation_row \<Rightarrow> bool" where
  "vouched k recover chain db a \<longleftrightarrow>
     (\<exists>rid r addr. request_by db rid = Some r \<and> sreqAttestation r = attId a \<and> sreqConsumed r = Some (attSignedAt a) \<and>
        attSignedAt a < sreqExpires r * 1000 \<and> sreqSnapshot r = attSnapshot a \<and> sreqPayload r = attPayload a \<and>
        recover (attestationDomain k chain) (request_message a r) (attSignature a) = Some addr \<and>
        attSigner a = js_lower addr \<and> statusAtSigning (attCredentialSnapshot a) = Cred_valid)"

definition request_speaks :: "review_db \<Rightarrow> signature_request \<Rightarrow> bool" where
  "request_speaks db r \<longleftrightarrow>
     (\<exists>a. attestation_by db (sreqAttestation r) = Some a \<and> sreqSnapshot r = attSnapshot a \<and> sreqPayload r = attPayload a)"

definition active_in :: "js_string \<Rightarrow> assignment_row list \<Rightarrow> assignment_row list" where
  "active_in cid as = filter (\<lambda>a. assignmentCase a = cid \<and> assignmentRevokedAt a = None) as"

definition assignments_sound :: "review_db \<Rightarrow> bool" where
  "assignments_sound db \<longleftrightarrow>
     distinct (map assignmentId (assignments db)) \<and> list_all independent_row (assignments db) \<and>
     (\<forall>row \<in> set (assignments db). case_by db (assignmentCase row) \<noteq> None) \<and>
     (\<forall>cid. length (active_in cid (assignments db)) \<le> 1)"

definition attestations_sound :: "(bytes \<Rightarrow> bytes) \<Rightarrow> recovery \<Rightarrow> int \<Rightarrow> review_db \<Rightarrow> bool" where
  "attestations_sound k recover chain db \<longleftrightarrow>
     (\<forall>i a. attestation_by db i = Some a \<longrightarrow>
        well_drafted k db a \<and> (attState a \<noteq> Va_draft \<longrightarrow> vouched k recover chain db a)) \<and>
     (\<forall>i r. request_by db i = Some r \<longrightarrow> request_speaks db r)"

section \<open>Attestations stay sound\<close>

lemma well_drafted_step:
  assumes "review_effect k recover chain contested db db'" and "well_drafted k db a" and "same_content a a'"
  shows "well_drafted k db' a'"
proof -
  obtain c asg where wd: "case_by db (attCase a) = Some c" "assignment_by db (attAssignment a) = Some asg"
    "assignmentCase asg = attCase a" "assignmentCredential asg = attCredential a" "attSnapshot a = caseSnapshot c"
    "attSchema a = caseSchema c" "\<forall>x \<in> set (attScope a). (attCase a, x) \<in> set (case_claims db)"
    "hashAttestationPayload k (attFindings a) (attCitations a) (attLimitations a) (attScope a) = Inr (attPayload a)"
    using assms(2) by (auto simp: well_drafted_def)
  obtain c' where c: "case_by db' (attCase a) = Some c'" "case_evolves c c'"
    using rows_evolveD [OF effect_cases(1) [OF assms(1)] wd(1)] by blast
  obtain asg' where asg: "assignment_by db' (attAssignment a) = Some asg'" "asg_evolves asg asg'"
    using rows_evolveD [OF effect_assignments [OF assms(1)] wd(2)] by blast
  have "caseSnapshot c' = caseSnapshot c" "caseSchema c' = caseSchema c"
    using c(2) by (cases c; cases c'; simp add: case_evolves_def)+
  moreover have "assignmentCase asg' = assignmentCase asg" "assignmentCredential asg' = assignmentCredential asg"
    using asg(2) by (cases asg; cases asg'; simp add: asg_evolves_def)+
  ultimately show ?thesis
    using wd c(1) asg(1) effect_cases(2) [OF assms(1)] assms(3)
    unfolding well_drafted_def same_content_def by auto
qed

lemma request_message_content: "same_content a a' \<Longrightarrow> request_message a' r = request_message a r"
  by (simp add: request_message_def same_content_def)

lemma request_message_consumed: "request_message a (r\<lparr>sreqConsumed := t\<rparr>) = request_message a r"
  by (simp add: request_message_def)

lemma vouched_step:
  assumes "review_effect k recover chain contested db db'" and "vouched k recover chain db a" and "sealed a a'"
  shows "vouched k recover chain db' a'"
proof -
  obtain rid r addr where v: "request_by db rid = Some r" "sreqAttestation r = attId a" "sreqConsumed r = Some (attSignedAt a)"
    "attSignedAt a < sreqExpires r * 1000" "sreqSnapshot r = attSnapshot a" "sreqPayload r = attPayload a"
    "recover (attestationDomain k chain) (request_message a r) (attSignature a) = Some addr"
    "attSigner a = js_lower addr" "statusAtSigning (attCredentialSnapshot a) = Cred_valid"
    using assms(2) by (auto simp: vouched_def)
  obtain r' where "request_by db' rid = Some r'" "req_evolves r r'"
    using rows_evolveD [OF effect_requests [OF assms(1)] v(1)] by blast
  then have "request_by db' rid = Some r" using v(3) by (simp add: req_evolves_def)
  moreover note request_message_content [OF sealed_content [OF assms(3)], of r]
  moreover have "attId a' = attId a" "attSignedAt a' = attSignedAt a" "attSnapshot a' = attSnapshot a" "attPayload a' = attPayload a"
    "attSignature a' = attSignature a" "attSigner a' = attSigner a" "attCredentialSnapshot a' = attCredentialSnapshot a"
    using sealed_content [OF assms(3)] sealed_body [OF assms(3)] by (simp_all add: same_content_def same_body_def)
  ultimately show ?thesis unfolding vouched_def using v by (intro exI [of _ rid] exI [of _ r] exI [of _ addr]) simp
qed

lemma signed_vouched:
  assumes "signed_between k recover chain db db' a a'" and "attestation_by db i = Some a"
    and "\<And>i r. request_by db i = Some r \<Longrightarrow> request_speaks db r"
  shows "vouched k recover chain db' a'"
proof -
  obtain rid r now signature addr cred versions where s: "request_by db rid = Some r" "usable_request now (attId a) r"
      "request_by db' rid = Some (r\<lparr>sreqConsumed := Some now\<rparr>)"
      "recover (attestationDomain k chain) (request_message a r) signature = Some addr" "credStatus cred = Cred_valid"
      "sealed (signed_row now signature (js_lower addr) versions cred a) a'"
    using assms(1) by (auto simp: signed_between_def)
  let ?row = "signed_row now signature (js_lower addr) versions cred a"
  have content: "same_content a a'"
    using same_content_trans [OF _ sealed_content [OF s(6)]] by (simp add: same_content_def signed_row_def)
  have fields: "attId a' = attId a" "attSignedAt a' = now" "attSignature a' = signature" "attSigner a' = js_lower addr"
    "attSnapshot a' = attSnapshot a" "attPayload a' = attPayload a" "statusAtSigning (attCredentialSnapshot a') = Cred_valid"
    using content sealed_body [OF s(6)] s(5) by (simp_all add: same_content_def same_body_def signed_row_def)
  have "attId a = i" using assms(2) by (auto dest: row_by_Some)
  then have speaks: "sreqSnapshot r = attSnapshot a" "sreqPayload r = attPayload a"
    using assms(3) [OF s(1)] s(2) assms(2) by (auto simp: request_speaks_def usable_request_def)
  show ?thesis unfolding vouched_def
    using s(2,3,4) speaks fields
    by (intro exI [of _ rid] exI [of _ "r\<lparr>sreqConsumed := Some now\<rparr>"] exI [of _ addr])
      (simp add: request_message_consumed request_message_content [OF content] usable_request_def)
qed

lemma requests_speak_step:
  assumes "review_effect k recover chain contested db db'" and inv: "attestations_sound k recover chain db"
    and r': "request_by db' i = Some r'"
  shows "request_speaks db' r'"
proof -
  have "\<exists>a. attestation_by db (sreqAttestation r') = Some a \<and> sreqSnapshot r' = attSnapshot a \<and> sreqPayload r' = attPayload a"
  proof (cases "request_by db i")
    case (Some r)
    then obtain r2 where "request_by db' i = Some r2" "req_evolves r r2"
      using rows_evolveD [OF effect_requests [OF assms(1)]] by blast
    then have "req_evolves r r'" using r' by simp
    then have "sreqAttestation r' = sreqAttestation r" "sreqSnapshot r' = sreqSnapshot r" "sreqPayload r' = sreqPayload r"
      by (cases r; cases r'; simp add: req_evolves_def)+
    then show ?thesis using inv Some by (auto simp: attestations_sound_def request_speaks_def)
  next
    case None
    from assms(1) show ?thesis
    proof cases
      case (requested r a)
      then show ?thesis using None r' by (auto simp: core_eq row_by_append split: if_splits)
    next
      case (signed rid r now a signature addr cred row versions cs)
      then show ?thesis using None r' by (auto simp: core_eq row_by_set_row split: if_splits)
    qed (use None r' in \<open>simp_all add: core_eq elsewhere_def\<close>)
  qed
  then obtain a where a: "attestation_by db (sreqAttestation r') = Some a" "sreqSnapshot r' = attSnapshot a" "sreqPayload r' = attPayload a"
    by blast
  obtain a' where "attestation_by db' (sreqAttestation r') = Some a'" "same_content a a'"
    using rows_evolveD [OF effect_attestations [OF assms(1)] a(1)] by (auto simp: att_evolves_def)
  then show ?thesis using a by (simp add: request_speaks_def same_content_def)
qed

lemma attestations_sound_step:
  assumes "review_effect k recover chain contested db db'" and inv: "attestations_sound k recover chain db"
  shows "attestations_sound k recover chain db'"
proof -
  have speaks: "request_by db i = Some r \<Longrightarrow> request_speaks db r" for i r
    using inv by (simp add: attestations_sound_def)
  have "well_drafted k db' a' \<and> (attState a' \<noteq> Va_draft \<longrightarrow> vouched k recover chain db' a')"
    if a': "attestation_by db' i = Some a'" for i a'
  proof -
    from effect_attestation [OF assms(1) a'] consider
        (old) a where "attestation_by db i = Some a" "att_evolves a a'"
          "attState a = Va_draft \<longrightarrow> a' = a \<or> signed_between k recover chain db db' a a'"
      | (new) "attState a' = Va_draft" "well_drafted k db a'"
      unfolding att_step_def by blast
    then show ?thesis
    proof cases
      case (old a)
      then have sound: "well_drafted k db a" "attState a \<noteq> Va_draft \<longrightarrow> vouched k recover chain db a"
        using inv by (auto simp: attestations_sound_def)
      have "well_drafted k db' a'"
        using well_drafted_step [OF assms(1) sound(1)] old(2) by (simp add: att_evolves_def)
      moreover have "vouched k recover chain db' a'" if "attState a' \<noteq> Va_draft"
      proof (cases "attState a = Va_draft")
        case True
        then have "signed_between k recover chain db db' a a'" using old(3) that by auto
        then show ?thesis using signed_vouched old(1) speaks by blast
      next
        case False
        then show ?thesis using vouched_step [OF assms(1)] sound(2) old(2) by (simp add: att_evolves_def)
      qed
      ultimately show ?thesis by blast
    next
      case new
      then show ?thesis using well_drafted_step [OF assms(1) new(2)] by (simp add: same_content_def)
    qed
  qed
  then show ?thesis using requests_speak_step [OF assms] by (auto simp: attestations_sound_def)
qed

section \<open>Assignments stay sound\<close>

lemma active_in_append: "active_in cid (as @ [row]) = active_in cid as @ (if assignmentCase row = cid \<and> assignmentRevokedAt row = None then [row] else [])"
  by (simp add: active_in_def)

lemma active_in_revoked:
  "length (active_in cid (set_row assignmentId i (revoke_row now actor reason) as)) \<le> length (active_in cid as)"
  by (induction as) (auto simp: active_in_def set_row_def revoke_row_def)

lemma independent_revoked: "list_all independent_row as \<Longrightarrow> list_all independent_row (set_row assignmentId i (revoke_row now actor reason) as)"
  by (induction as) (auto simp: set_row_def independent_row_def revoke_row_def)

lemma revoked_cases:
  "row \<in> set (set_row assignmentId i (revoke_row now actor reason) as) \<Longrightarrow> \<exists>r \<in> set as. assignmentCase row = assignmentCase r"
  by (auto simp: set_row_mem revoke_row_def)

text \<open>The latest assignment of a case is an active one if the case has any.\<close>

lemma latest_is_active:
  assumes "latest_assignment db cid = Some latest" and "assignmentRevokedAt latest \<noteq> None"
  shows "active_in cid (assignments db) = []"
proof (rule ccontr)
  let ?key = "\<lambda>a. if assignmentRevokedAt a = None then 0 else (1::nat)"
  let ?ordered = "sort_key (\<lambda>a. - assignedAt a) (sort_key assignmentId (filter (\<lambda>a. assignmentCase a = cid) (assignments db)))"
  assume "active_in cid (assignments db) \<noteq> []"
  then obtain a where a: "a \<in> set (assignments db)" "assignmentCase a = cid" "assignmentRevokedAt a = None"
    by (auto simp: active_in_def filter_empty_conv)
  obtain as where as: "sort_key ?key ?ordered = latest # as"
    using assms(1) by (auto simp: latest_assignment_def split: list.splits)
  have "sorted (map ?key (latest # as))" unfolding as [symmetric] by (rule sorted_sort_key)
  moreover have "a \<in> set (latest # as)" unfolding as [symmetric] using a by simp
  ultimately have "a = latest \<or> ?key latest \<le> ?key a"
    by (simp only: list.map sorted_simps(2) set_map set_simps insert_iff) blast
  then show False using a(3) assms(2) by auto
qed

lemma latest_assignment_mem:
  assumes "latest_assignment db cid = Some latest"
  shows "latest \<in> set (assignments db)"
proof -
  let ?ordered = "sort_key (\<lambda>a. if assignmentRevokedAt a = None then 0 else (1::nat))
       (sort_key (\<lambda>a. - assignedAt a)
         (sort_key assignmentId (filter (\<lambda>a. assignmentCase a = cid) (assignments db))))"
  obtain as where "?ordered = latest # as"
    using assms by (auto simp: latest_assignment_def split: list.splits)
  then have "latest \<in> set ?ordered" by (simp del: set_sort)
  then show ?thesis by simp
qed

lemma active_only: "length xs \<le> 1 \<Longrightarrow> x \<in> set xs \<Longrightarrow> xs = [x]"
  by (cases xs) auto

lemma replaced_none_active:
  assumes "length (active_in (assignmentCase asg) (assignments db)) \<le> 1"
    and "distinct (map assignmentId (assignments db))" and "assignment_by db i = Some asg"
    and "latest_assignment db (assignmentCase asg) = Some latest" and "assignmentId latest = i"
    and "as = (if assignmentRevokedAt asg = None then set_row assignmentId i (revoke_row now actor reason) (assignments db)
               else assignments db)"
  shows "active_in (assignmentCase asg) as = []"
proof (cases "assignmentRevokedAt asg = None")
  case True
  have asg: "asg \<in> set (assignments db)" "assignmentId asg = i" using assms(3) by (auto dest: row_by_Some)
  then have only: "active_in (assignmentCase asg) (assignments db) = [asg]"
    using True assms(1) by (intro active_only) (simp_all add: active_in_def)
  show ?thesis
  proof (rule ccontr)
    assume "active_in (assignmentCase asg) as \<noteq> []"
    then obtain x where x: "x \<in> set as" "assignmentCase x = assignmentCase asg" "assignmentRevokedAt x = None"
      by (auto simp: active_in_def filter_empty_conv)
    then obtain r where r: "r \<in> set (assignments db)" "x = (if assignmentId r = i then revoke_row now actor reason r else r)"
      using True assms(6) by (auto simp: set_row_mem)
    then have "x = r" "assignmentId r \<noteq> i" using x(3) by (auto simp: revoke_row_def split: if_splits)
    moreover from this have "r \<in> set (active_in (assignmentCase asg) (assignments db))"
      using r(1) x by (simp add: active_in_def)
    ultimately show False using only asg(2) by simp
  qed
next
  case False
  have "latest \<in> set (assignments db)" by (rule latest_assignment_mem [OF assms(4)])
  then have "latest = asg" using row_by_unique [OF assms(2)] assms(3,5) by force
  then show ?thesis using latest_is_active [OF assms(4)] False assms(6) by auto
qed

lemma assignments_sound_step:
  assumes "review_effect k recover chain contested db db'" and inv: "assignments_sound db"
  shows "assignments_sound db'"
proof -
  have old: "distinct (map assignmentId (assignments db))" "list_all independent_row (assignments db)"
    "\<And>row. row \<in> set (assignments db) \<Longrightarrow> case_by db (assignmentCase row) \<noteq> None"
    "\<And>cid. length (active_in cid (assignments db)) \<le> 1"
    using inv by (auto simp: assignments_sound_def)
  have kept: "case_by db cid \<noteq> None \<Longrightarrow> case_by db' cid \<noteq> None" for cid
    using effect_cases(1) [OF assms(1)] rows_evolveD by fastforce
  have same: "assignments_sound db'" if "assignments db' = assignments db"
    unfolding assignments_sound_def that using old kept by blast
  from assms(1) show ?thesis
  proof cases
    case (opened c row ids)
    then have db': "assignments db' = assignments db @ [row]" "cases db' = cases db @ [c]" by (simp_all add: core_eq)
    have "active_in (caseId c) (assignments db) = []"
      using old(3) opened(1) unfolding active_in_def filter_empty_conv row_by_None by metis
    then have "length (active_in cid (assignments db @ [row])) \<le> 1" for cid
      using old(4) [of cid] opened(3) by (cases "cid = caseId c") (simp_all add: active_in_append)
    moreover have "case_by db' (assignmentCase row) \<noteq> None"
      by (simp add: db' opened(3) row_by_append split: option.split)
    ultimately show ?thesis
      unfolding assignments_sound_def using old kept opened(2,4) by (auto simp: db'(1))
  next
    case (removed i now actor reason)
    then have db': "assignments db' = set_row assignmentId i (revoke_row now actor reason) (assignments db)"
      by (simp add: core_eq)
    have "length (active_in cid (assignments db')) \<le> 1" for cid
      using active_in_revoked [of cid i now actor reason "assignments db"] old(4) [of cid] by (simp add: db')
    moreover have "row \<in> set (assignments db') \<Longrightarrow> case_by db' (assignmentCase row) \<noteq> None" for row
      using revoked_cases [of row i now actor reason "assignments db"] old(3) kept by (auto simp: db')
    ultimately show ?thesis
      unfolding assignments_sound_def using old(1,2) independent_revoked by (auto simp: db')
  next
    case (replaced i asg latest as now actor reason row)
    then have db': "assignments db' = as @ [row]" by (simp add: core_eq)
    have none: "active_in (assignmentCase asg) as = []"
      by (rule replaced_none_active [OF old(4) old(1) replaced(1,2,3,4)])
    have le: "length (active_in cid as) \<le> 1" for cid
      using active_in_revoked [of cid i now actor reason "assignments db"] old(4) [of cid] by (simp add: replaced(4))
    have "length (active_in cid (as @ [row])) \<le> 1" for cid
      using none le [of cid] replaced(6) by (cases "cid = assignmentCase asg") (simp_all add: active_in_append)
    moreover have "map assignmentId as = map assignmentId (assignments db)" by (simp add: replaced(4))
    moreover from this have "assignmentId row \<notin> set (map assignmentId as)" using replaced(5) by simp
    moreover have "list_all independent_row as" using old(2) independent_revoked by (simp add: replaced(4))
    moreover have "\<exists>r \<in> set (assignments db). assignmentCase x = assignmentCase r" if "x \<in> set (as @ [row])" for x
      using that replaced(4,6) row_by_Some [OF replaced(1)] revoked_cases [of x i now actor reason "assignments db"]
      by (auto split: if_splits)
    then have "x \<in> set (as @ [row]) \<Longrightarrow> case_by db' (assignmentCase x) \<noteq> None" for x
      using old(3) kept by metis
    ultimately show ?thesis unfolding assignments_sound_def db' using old(1) replaced(7) by auto
  qed (rule same, simp add: core_eq elsewhere_def)+
qed

end
