(* ===== verification/Review_Claims.thy ===== *)
theory Review_Claims
  imports Review_Invariants
begin

text \<open>
  While nobody disputes an attestation, the state of every claim is the one that the attestations standing
  over it support: the invariant and its proof for each step.
\<close>

section \<open>Claims follow the attestations that stand, while nobody disputes\<close>

definition never_active :: "attestation_row \<Rightarrow> bool" where
  "never_active a \<longleftrightarrow> attState a \<in> {Va_draft, Va_signed, Va_superseded, Va_revoked}"

definition claims_sound :: "review_db \<Rightarrow> bool" where
  "claims_sound db \<longleftrightarrow>
     distinct (map attId (attestations db)) \<and> list_all never_active (attestations db) \<and>
     (\<forall>x \<in> set (case_claims db). claim_by db (snd x) \<noteq> None) \<and>
     (\<forall>a \<in> set (attestations db). \<forall>i \<in> set (attScope a). claim_by db i \<noteq> None) \<and>
     (\<forall>a \<in> set (attestations db). covers_superseded db a) \<and>
     (\<forall>i c. claim_by db i = Some c \<longrightarrow> assessed db c)"

lemma assessed_cong:
  "standingAttestationTypes db' (claimId c) = standingAttestationTypes db (claimId c) \<Longrightarrow> assessed db' c = assessed db c"
  by (simp add: assessed_def derived_state_def)

lemma map_filter_map:
  "\<forall>a \<in> set rows. P (g a) = P a \<and> (P a \<longrightarrow> f (g a) = f a) \<Longrightarrow> map f (filter P (map g rows)) = map f (filter P rows)"
  by (induction rows) simp_all

lemma standing_map:
  assumes "attestations db' = map g (attestations db)"
    and "\<And>a. a \<in> set (attestations db) \<Longrightarrow> g a = a \<or> i \<notin> set (attScope a) \<and> i \<notin> set (attScope (g a))"
  shows "standingAttestationTypes db' i = standingAttestationTypes db i"
  unfolding standingAttestationTypes_def assms(1)
proof (rule arg_cong [where f = remdups], rule map_filter_map, rule ballI)
  fix a assume "a \<in> set (attestations db)"
  from assms(2) [OF this]
  show "(i \<in> set (attScope (g a)) \<and> attState (g a) \<in> set STANDING_ATTESTATION_STATES) =
      (i \<in> set (attScope a) \<and> attState a \<in> set STANDING_ATTESTATION_STATES) \<and>
      (i \<in> set (attScope a) \<and> attState a \<in> set STANDING_ATTESTATION_STATES \<longrightarrow> attType (g a) = attType a)"
    by (elim disjE conjE) simp_all
qed

lemma standing_unmentioned:
  "(\<And>a. a \<in> set (attestations db) \<Longrightarrow> i \<notin> set (attScope a)) \<Longrightarrow> standingAttestationTypes db i = []"
  by (simp add: standingAttestationTypes_def)

text \<open>Claims after a reassessment of a scope: those in it are assessed, the others as before.\<close>

lemma reassessed_assessed:
  assumes "reassessed_claims db scope db'"
    and same: "\<And>i. i \<notin> set scope \<Longrightarrow> standingAttestationTypes db' i = standingAttestationTypes db i"
    and old: "\<And>i c. claim_by db i = Some c \<Longrightarrow> assessed db c"
  shows "\<And>i. claim_by db' i = None \<longleftrightarrow> claim_by db i = None" and "\<And>i c. claim_by db' i = Some c \<Longrightarrow> assessed db' c"
proof -
  obtain rs db1 db2 where r: "reassess_claims db1 (sort scope) = Inr (rs, db2)" "attestations db1 = attestations db'"
    "claims db1 = claims db" "claims db' = claims db2"
    using assms(1) by (auto simp: reassessed_claims_def)
  note re = reassess_claims_Inr [OF r(1)]
  have ids: "map claimId (claims db') = map claimId (claims db)" using re r(3,4) by simp
  then have "claimId ` set (claims db') = claimId ` set (claims db)" by (metis set_map)
  then show none: "\<And>i. claim_by db' i = None \<longleftrightarrow> claim_by db i = None" by (simp add: row_by_None)
  fix i c' assume c': "claim_by db' i = Some c'"
  then have "claim_by db i \<noteq> None" using none [of i] by simp
  then obtain c where c: "claim_by db i = Some c" by blast
  then have after: "if i \<in> set scope then claimState c' = derived_state db1 c \<and> graded db1 c' else c' = c"
    using re c' r(3,4) by force
  have claim: "claimId c = i" "claimId c' = i" using c c' by (auto dest: row_by_Some)
  have d: "derived_state db1 x = derived_state db' x" for x by (rule derived_tables) (simp add: r(2))
  show "assessed db' c'"
  proof (cases "i \<in> set scope")
    case True
    then have "claimState c' = derived_state db' c" using after d by simp
    then show ?thesis using claim by (simp add: assessed_def derived_state_def derive_idem)
  next
    case False
    then have "c' = c" using after by simp
    then show ?thesis using old [OF c] same [OF False] claim by (simp add: assessed_cong [of db' c db])
  qed
qed

lemma claims_sound_map:
  assumes inv: "claims_sound db" and atts: "attestations db' = map g (attestations db)" and ids: "\<And>a. attId (g a) = attId a"
    and g: "\<And>a. a \<in> set (attestations db) \<Longrightarrow> attScope (g a) = attScope a \<and> attSupersedes (g a) = attSupersedes a \<and>
        never_active (g a) \<and> (attState a \<noteq> Va_draft \<longrightarrow> attState (g a) \<noteq> Va_draft)"
    and cc: "case_claims db' = case_claims db" and kept: "\<And>i. claim_by db' i = None \<longleftrightarrow> claim_by db i = None"
    and new: "\<And>i c. claim_by db' i = Some c \<Longrightarrow> assessed db' c"
  shows "claims_sound db'"
proof -
  have look: "attestation_by db' i = map_option g (attestation_by db i)" for i
    unfolding atts by (rule row_by_map_same) (rule ids)
  have covers: "covers_superseded db' (g a)" if a: "a \<in> set (attestations db)" for a
    unfolding covers_superseded_def
  proof (intro allI impI)
    fix p assume "attSupersedes (g a) = Some p"
    then have "attSupersedes a = Some p" using g [OF a] by simp
    then obtain x where x: "attestation_by db p = Some x" "attState x \<noteq> Va_draft" "set (attScope x) \<subseteq> set (attScope a)"
      using inv a unfolding claims_sound_def covers_superseded_def by blast
    then have "x \<in> set (attestations db)" by (auto dest: row_by_Some)
    then show "\<exists>x. attestation_by db' p = Some x \<and> attState x \<noteq> Va_draft \<and> set (attScope x) \<subseteq> set (attScope (g a))"
      using x g [of x] g [OF a] by (intro exI [of _ "g x"]) (simp add: look)
  qed
  have "map attId (attestations db') = map attId (attestations db)" by (simp add: atts ids)
  then have "distinct (map attId (attestations db'))" using inv by (simp add: claims_sound_def)
  moreover have "list_all never_active (attestations db')" using g by (simp add: atts list_all_iff)
  moreover have "\<forall>a \<in> set (attestations db'). \<forall>i \<in> set (attScope a). claim_by db' i \<noteq> None"
    using inv g unfolding claims_sound_def atts kept by auto
  moreover have "\<forall>x \<in> set (case_claims db'). claim_by db' (snd x) \<noteq> None"
    using inv unfolding claims_sound_def cc kept by blast
  moreover have "\<forall>a \<in> set (attestations db'). covers_superseded db' a" using covers by (auto simp: atts)
  ultimately show ?thesis unfolding claims_sound_def using new by blast
qed

lemma claims_sound_same:
  assumes inv: "claims_sound db" and "attestations db' = attestations db" and "claims db' = claims db"
    and "\<And>x. x \<in> set (case_claims db') \<Longrightarrow> claim_by db (snd x) \<noteq> None"
  shows "claims_sound db'"
proof -
  have "standingAttestationTypes db' i = standingAttestationTypes db i" for i
    by (rule standing_only_attestations) (rule assms(2))
  then have "assessed db' c = assessed db c" for c by (rule assessed_cong)
  moreover have "covers_superseded db' a = covers_superseded db a" for a
    by (simp add: covers_superseded_def assms(2))
  ultimately show ?thesis
    using inv assms(4) unfolding claims_sound_def assms(2,3) by auto
qed

text \<open>What becomes of each row when one is signed.\<close>

definition after_signature :: "attestation_row \<Rightarrow> attestation_row \<Rightarrow> attestation_row" where
  "after_signature row r =
     (let y = (if attId r = attId row then row else r)
      in if attSupersedes row = Some (attId r) then y\<lparr>attState := Va_superseded\<rparr> else y)"

lemma with_signed_map: "with_signed row rows = map (after_signature row) rows"
  by (cases "attSupersedes row") (auto simp: with_signed_def after_signature_def set_row_def Let_def)

lemma after_signature_id [simp]: "attId (after_signature row r) = attId r"
  by (simp add: after_signature_def Let_def)

lemma draft_not_standing:
  "attState a = Va_draft \<Longrightarrow> attestations db' = attestations db @ [a] \<Longrightarrow>
     standingAttestationTypes db' i = standingAttestationTypes db i"
  by (simp add: standingAttestationTypes_def STANDING_ATTESTATION_STATES_def)

lemma unreviewed_assessed:
  "claimState c = Vs_unreviewed \<Longrightarrow> standingAttestationTypes db (claimId c) = [] \<Longrightarrow> assessed db c"
  by (simp add: assessed_def derived_state_def deriveVerificationState_def)

lemma map_identity: "list_all P rows \<Longrightarrow> (\<And>a. P a \<Longrightarrow> f a = a) \<Longrightarrow> map f rows = rows"
  by (induction rows) simp_all

lemma claims_sound_signed:
  assumes inv: "claims_sound db" and a: "attestation_by db (attId a) = Some a"
    and row: "row = signed_row now signature signer versions cred a"
    and atts: "attestations db' = with_signed row (attestations db)" and cc: "case_claims db' = case_claims db"
    and re: "reassessed_claims db (attScope a) db'"
  shows "claims_sound db'"
proof -
  have f: "attId row = attId a" "attScope row = attScope a" "attSupersedes row = attSupersedes a" "attState row = Va_signed"
    by (simp_all add: row signed_row_def)
  have distinct: "distinct (map attId (attestations db))" using inv by (simp add: claims_sound_def)
  have mem: "a \<in> set (attestations db)" using a by (auto dest: row_by_Some)
  have own: "r = a" if "r \<in> set (attestations db)" "attId r = attId a" for r
    using row_by_unique [OF distinct that(1)] that(2) a by simp
  have atts': "attestations db' = map (after_signature row) (attestations db)" by (simp add: atts with_signed_map)
  have g: "attScope (after_signature row r) = attScope r \<and> attSupersedes (after_signature row r) = attSupersedes r \<and>
      never_active (after_signature row r) \<and> (attState r \<noteq> Va_draft \<longrightarrow> attState (after_signature row r) \<noteq> Va_draft)"
    if r: "r \<in> set (attestations db)" for r
  proof -
    have "never_active r" using inv r by (simp add: claims_sound_def list_all_iff)
    then show ?thesis using own [OF r] f by (auto simp: after_signature_def Let_def never_active_def)
  qed
  have same: "standingAttestationTypes db' i = standingAttestationTypes db i" if i: "i \<notin> set (attScope a)" for i
  proof (rule standing_map [OF atts'])
    fix r assume r: "r \<in> set (attestations db)"
    show "after_signature row r = r \<or> i \<notin> set (attScope r) \<and> i \<notin> set (attScope (after_signature row r))"
    proof (cases "attId r = attId a")
      case True
      then show ?thesis using own [OF r True] i g [OF r] by simp
    next
      case False
      show ?thesis
      proof (cases "attSupersedes a = Some (attId r)")
        case True
        have "covers_superseded db a" using inv mem by (simp add: claims_sound_def)
        then obtain x where "attestation_by db (attId r) = Some x" "set (attScope x) \<subseteq> set (attScope a)"
          using True by (auto simp: covers_superseded_def)
        then have "set (attScope r) \<subseteq> set (attScope a)" using row_by_unique [OF distinct r] by simp
        then show ?thesis using i g [OF r] by auto
      next
        case supersedes: False
        then show ?thesis using False f by (simp add: after_signature_def)
      qed
    qed
  qed
  note assessment = reassessed_assessed [OF re same]
  show ?thesis
  proof (rule claims_sound_map [OF inv atts' after_signature_id g cc])
    show "\<And>i. claim_by db' i = None \<longleftrightarrow> claim_by db i = None" "\<And>i c. claim_by db' i = Some c \<Longrightarrow> assessed db' c"
      using assessment inv by (auto simp: claims_sound_def)
  qed
qed

lemma claims_sound_revoked:
  assumes inv: "claims_sound db" and a: "attestation_by db aid = Some a"
    and atts: "attestations db' = set_row attId aid (revoked_row now actor reason) (attestations db)"
    and cc: "case_claims db' = case_claims db" and re: "reassessed_claims db (attScope a) db'"
  shows "claims_sound db'"
proof -
  let ?g = "\<lambda>r. if attId r = aid then revoked_row now actor reason r else r"
  have distinct: "distinct (map attId (attestations db))" using inv by (simp add: claims_sound_def)
  have own: "r = a" if "r \<in> set (attestations db)" "attId r = aid" for r
    using row_by_unique [OF distinct that(1)] that(2) a by simp
  have atts': "attestations db' = map ?g (attestations db)" by (simp add: atts set_row_def)
  have g: "attScope (?g r) = attScope r \<and> attSupersedes (?g r) = attSupersedes r \<and>
      never_active (?g r) \<and> (attState r \<noteq> Va_draft \<longrightarrow> attState (?g r) \<noteq> Va_draft)"
    if r: "r \<in> set (attestations db)" for r
  proof -
    have "never_active r" using inv r by (simp add: claims_sound_def list_all_iff)
    then show ?thesis by (simp add: revoked_row_def never_active_def)
  qed
  have same: "standingAttestationTypes db' i = standingAttestationTypes db i" if i: "i \<notin> set (attScope a)" for i
    by (rule standing_map [OF atts']) (use own i in \<open>auto simp: revoked_row_def\<close>)
  note assessment = reassessed_assessed [OF re same]
  show ?thesis
  proof (rule claims_sound_map [OF inv atts' _ g cc])
    show "\<And>r. attId (?g r) = attId r" by (simp add: revoked_row_def)
    show "\<And>i. claim_by db' i = None \<longleftrightarrow> claim_by db i = None" "\<And>i c. claim_by db' i = Some c \<Longrightarrow> assessed db' c"
      using assessment inv by (auto simp: claims_sound_def)
  qed
qed

lemma claims_sound_drafted:
  assumes inv: "claims_sound db" and fresh: "attId a \<notin> attId ` set (attestations db)" and draft: "attState a = Va_draft"
    and wd: "well_drafted k db a" and cov: "covers_superseded db a"
    and atts: "attestations db' = attestations db @ [a]" and same: "claims db' = claims db" "case_claims db' = case_claims db"
  shows "claims_sound db'"
proof -
  have look: "attestation_by db p = Some x \<Longrightarrow> attestation_by db' p = Some x" for p x
    by (simp add: atts row_by_append)
  have "covers_superseded db' b" if "covers_superseded db b" for b
    using that look unfolding covers_superseded_def by blast
  moreover have "assessed db' c = assessed db c" for c
    by (rule assessed_cong, rule draft_not_standing [OF draft atts])
  moreover have "\<forall>i \<in> set (attScope a). claim_by db i \<noteq> None"
    using wd inv unfolding well_drafted_def claims_sound_def by fastforce
  ultimately show ?thesis
    using inv fresh draft cov unfolding claims_sound_def atts same by (auto simp: never_active_def)
qed

lemma claims_sound_elsewhere:
  assumes inv: "claims_sound db" and out: "elsewhere db db'"
  shows "claims_sound db'"
proof -
  obtain P where new: "attestations db' =
      map (\<lambda>a. if P a \<and> attState a = Va_active then a\<lparr>attState := Va_stale_candidate\<rparr> else a) (attestations db)"
    using out by (auto simp: elsewhere_def aged_def)
  have "list_all never_active (attestations db)" using inv by (simp add: claims_sound_def)
  then have atts: "attestations db' = attestations db"
    unfolding new by (rule map_identity) (auto simp: never_active_def)
  have old: "\<exists>c'. claim_by db' i = Some c' \<and> claimState c' = claimState c" if "claim_by db i = Some c" for i c
    using out that by (simp add: elsewhere_def)
  have kept: "claim_by db i \<noteq> None \<Longrightarrow> claim_by db' i \<noteq> None" for i using old by fastforce
  have st: "standingAttestationTypes db' i = standingAttestationTypes db i" for i
    by (rule standing_only_attestations) (rule atts)
  have "assessed db' c'" if c': "claim_by db' i = Some c'" for i c'
  proof (cases "claim_by db i")
    case None
    then have "claimState c' = Vs_unreviewed" using out c' by (simp add: elsewhere_def)
    moreover have "i \<notin> set (attScope a)" if "a \<in> set (attestations db)" for a
      using inv that None unfolding claims_sound_def by fastforce
    then have "standingAttestationTypes db' i = []" unfolding st by (rule standing_unmentioned)
    ultimately show ?thesis using unreviewed_assessed row_by_Some [OF c'] by simp
  next
    case (Some c)
    then have state: "claimState c' = claimState c" using old [OF Some] c' by simp
    have "assessed db c" using inv Some by (simp add: claims_sound_def)
    moreover have "claimId c' = claimId c" using row_by_Some [OF c'] row_by_Some [OF Some] by simp
    ultimately show ?thesis using state by (simp add: assessed_def derived_state_def st)
  qed
  moreover have "covers_superseded db' a = covers_superseded db a" for a
    by (simp add: covers_superseded_def atts)
  moreover have "case_claims db' = case_claims db" using out by (simp add: elsewhere_def)
  ultimately show ?thesis using inv kept unfolding claims_sound_def atts by auto
qed

lemma claims_sound_step:
  assumes "review_effect k recover chain False db db'" and inv: "claims_sound db"
  shows "claims_sound db'"
  using assms(1)
proof cases
  case (opened c row ids)
  have old: "\<forall>x \<in> set (case_claims db). claim_by db (snd x) \<noteq> None" using inv by (simp add: claims_sound_def)
  show ?thesis
    by (rule claims_sound_same [OF inv]) (use opened(5,6) old in \<open>auto simp: core_eq\<close>)
next
  case (resolved did d ds now res rationale atts)
  have never: "list_all never_active (attestations db)" using inv by (simp add: claims_sound_def)
  have "set_row attId i (\<lambda>a. if attState a = Va_disputed then a\<lparr>attState := Va_active\<rparr> else a) (attestations db) =
      attestations db" for i
    unfolding set_row_def by (rule map_identity [OF never]) (auto simp: never_active_def)
  then have "atts = attestations db" using resolved(3) by auto
  then show ?thesis
    using inv resolved(4) by (intro claims_sound_same [OF inv]) (auto simp: core_eq claims_sound_def)
next
  case (drafted a cs)
  show ?thesis
    by (rule claims_sound_drafted [OF inv drafted(1-4)]) (use drafted(6) in \<open>simp_all add: core_eq\<close>)
next
  case (signed rid r now a signature addr cred row versions cs)
  show ?thesis
    by (rule claims_sound_signed [OF inv signed(3) signed(8) _ _ signed(11)]) (use signed(12) in \<open>simp_all add: core_eq\<close>)
next
  case (revoked aid a cs now actor reason)
  show ?thesis
    by (rule claims_sound_revoked [OF inv revoked(1) _ _ revoked(4)]) (use revoked(5) in \<open>simp_all add: core_eq\<close>)
next
  case outside
  then show ?thesis by (rule claims_sound_elsewhere [OF inv])
qed (rule claims_sound_same [OF inv]; use inv in \<open>auto simp: core_eq claims_sound_def\<close>)+

end
