(* ===== verification/Review_Calls.thy ===== *)
theory Review_Calls
  imports Review_Claims
begin

text \<open>
  Histories of requests: the handlers of the review routes on the tables of all tenants, with whatever the
  rest of the program does in between, and the invariants through every history.
\<close>

section \<open>A request works on one tenant or changes nothing\<close>

definition works_on ::
    "(review_db \<Rightarrow> app_error + review_view \<times> review_db) \<Rightarrow> js_string \<Rightarrow> review_view \<Rightarrow> review_idb \<Rightarrow> review_idb \<Rightarrow> bool" where
  "works_on work tenant v idb idb' \<longleftrightarrow>
     world idb' = world idb \<or>
     (\<exists>db'. work (world idb tenant) = Inr (v, db') \<and> world idb' = (world idb)(tenant := db'))"

lemma review_mutation_Inr:
  "review_mutation tenant key q work idb = Inr (v, idb') \<Longrightarrow> works_on work tenant v idb idb'"
  unfolding review_mutation_def works_on_def
  by (drule with_work) (auto simp: withTenant_def and_then_eq_Inr_iff)

lemma createCase_works:
  assumes "createCase k is_guid now today fresh fa q body idb = Inr (v, idb')"
  obtains s tenant erole b disclosed where
    "works_on (create_case_work k now today fresh fa s tenant erole b disclosed q) tenant v idb idb'"
  using assms
  by (auto simp: createCase_def and_then_eq_Inr_iff split: option.splits dest!: review_mutation_Inr intro: that)

lemma moveCase_works:
  assumes "moveCase now q cid body idb = Inr (v, idb')"
  obtains s tenant expected erole target reason where
    "works_on (move_case_work now s tenant expected erole cid target reason q) tenant v idb idb'"
  using assms
  by (auto simp: moveCase_def and_then_eq_Inr_iff split: option.splits dest!: review_mutation_Inr intro: that)

lemma disputeAttestation_works:
  assumes "disputeAttestation now fresh q aid body idb = Inr (v, idb')"
  obtains s tenant erole reason detail where
    "works_on (dispute_work now fresh s tenant erole aid reason detail q) tenant v idb idb'"
  using assms
  by (auto simp: disputeAttestation_def and_then_eq_Inr_iff split: option.splits dest!: review_mutation_Inr intro: that)

lemma resolveDispute_works:
  assumes "resolveDispute now q did body idb = Inr (v, idb')"
  obtains s tenant erole res rationale where
    "works_on (resolve_work now s tenant erole did res rationale q) tenant v idb idb'"
  using assms
  by (auto simp: resolveDispute_def and_then_eq_Inr_iff split: option.splits dest!: review_mutation_Inr intro: that)

lemma draftAttestation_works:
  assumes "draftAttestation k is_guid now today fresh q cid body idb = Inr (v, idb')"
  obtains s tenant b ty where "works_on (draft_work k now today fresh s tenant cid b ty q) tenant v idb idb'"
  using assms
  by (auto simp: draftAttestation_def and_then_eq_Inr_iff split: option.splits dest!: review_mutation_Inr intro: that)

lemma requestSignature_works:
  assumes "requestSignature k chain now fresh nonce q aid idb = Inr (v, idb')"
  obtains s tenant erole where "works_on (request_work k chain now fresh nonce s tenant erole aid q) tenant v idb idb'"
  using assms
  by (auto simp: requestSignature_def and_then_eq_Inr_iff dest!: review_mutation_Inr intro: that)

lemma submitSignature_works:
  assumes "submitSignature k recover is_guid chain now today q aid body idb = Inr (v, idb')"
  obtains s tenant rid signature where "callerSession (revHead q) = Some s" and "sessionTenantId s = Some tenant"
    and "parse_signature is_guid body = Some (rid, signature)"
    and "works_on (sign_work k recover chain now today s tenant aid rid signature q) tenant v idb idb'"
proof -
  obtain s tenant key where ctx: "requireMutationContext (revHead q) = Inr (s, tenant, key)"
    using assms by (auto simp: submitSignature_def and_then_eq_Inr_iff)
  then obtain rid signature where "parse_signature is_guid body = Some (rid, signature)"
    using assms by (auto simp: submitSignature_def split: option.splits)
  with ctx assms show ?thesis
    using requireMutationContext_Inr [OF ctx]
    by (intro that [of s tenant rid signature]) (auto simp: submitSignature_def dest!: review_mutation_Inr)
qed

lemma revokeAttestation_works:
  assumes "revokeAttestation now q aid body idb = Inr (v, idb')"
  obtains s tenant project erole reason where
    "works_on (revoke_attestation_work now s tenant project erole aid reason q) tenant v idb idb'"
proof -
  obtain s tenant key where ctx: "requireMutationContext (revHead q) = Inr (s, tenant, key)"
    using assms by (auto simp: revokeAttestation_def and_then_eq_Inr_iff)
  then obtain reason where reason: "parse_reason body = Some reason"
    using assms by (auto simp: revokeAttestation_def split: option.splits)
  then obtain project owner where "attestation_owner (world idb tenant) aid = Some (project, owner)"
    using assms ctx by (auto simp: revokeAttestation_def split: option.splits)
  then show ?thesis
    using assms ctx reason
    by (auto simp: revokeAttestation_def and_then_eq_Inr_iff split: if_splits dest!: review_mutation_Inr intro: that)
qed

lemma revokeAssignment_works:
  assumes "revokeAssignment now q asg_id body idb = Inr (v, idb')"
  obtains s tenant project erole reason where
    "works_on (revoke_assignment_work now s tenant project erole asg_id reason q) tenant v idb idb'"
  using assms
  by (auto simp: revokeAssignment_def and_then_eq_Inr_iff split: option.splits dest!: review_mutation_Inr intro: that)

lemma reassignReviewer_works:
  assumes "reassignReviewer is_guid now today fresh q asg_id body idb = Inr (v, idb')"
  obtains s tenant project erole b disclosed where
    "works_on (reassign_work now today fresh s tenant project erole asg_id b disclosed q) tenant v idb idb'"
  using assms
  by (auto simp: reassignReviewer_def and_then_eq_Inr_iff split: option.splits dest!: review_mutation_Inr intro: that)

lemma changeCredentialStatus_works:
  assumes "changeCredentialStatus now fresh q cid body idb = Inr (v, idb')"
  obtains s tenant expected erole target reason where
    "works_on (status_work now fresh s tenant expected erole cid target reason q) tenant v idb idb'"
  using assms
  by (auto simp: changeCredentialStatus_def and_then_eq_Inr_iff split: option.splits if_splits dest!: review_mutation_Inr intro: that)

section \<open>Histories\<close>

text \<open>
  One request, or what the rest of the program does. New identifiers are new in the tables of every tenant,
  and a signature comes later than every signature before it.
\<close>

inductive review_call ::
    "(bytes \<Rightarrow> bytes) \<Rightarrow> recovery \<Rightarrow> (js_string \<Rightarrow> bool) \<Rightarrow> int \<Rightarrow> bool \<Rightarrow> review_idb \<Rightarrow> review_idb \<Rightarrow> bool"
  for k recover is_guid chain contested where
  create: "createCase k is_guid now today fresh fa q body idb = Inr (v, idb') \<Longrightarrow>
    (\<And>t. fresh \<notin> caseId ` set (cases (world idb t))) \<Longrightarrow>
    (\<And>t. fa \<notin> assignmentId ` set (assignments (world idb t))) \<Longrightarrow>
    review_call k recover is_guid chain contested idb idb'"
| move: "moveCase now q cid mv idb = Inr (v, idb') \<Longrightarrow> review_call k recover is_guid chain contested idb idb'"
| dispute: "disputeAttestation now fresh q aid dp idb = Inr (v, idb') \<Longrightarrow> contested \<Longrightarrow>
    review_call k recover is_guid chain contested idb idb'"
| resolve: "resolveDispute now q did rs idb = Inr (v, idb') \<Longrightarrow> review_call k recover is_guid chain contested idb idb'"
| draft: "draftAttestation k is_guid now today fresh q cid db idb = Inr (v, idb') \<Longrightarrow>
    (\<And>t. fresh \<notin> attId ` set (attestations (world idb t))) \<Longrightarrow>
    review_call k recover is_guid chain contested idb idb'"
| request: "requestSignature k chain now fresh nonce q aid idb = Inr (v, idb') \<Longrightarrow>
    (\<And>t. fresh \<notin> sreqId ` set (signature_requests (world idb t))) \<Longrightarrow>
    review_call k recover is_guid chain contested idb idb'"
| sign: "submitSignature k recover is_guid chain now today q aid sg idb = Inr (v, idb') \<Longrightarrow>
    (\<And>t a. a \<in> set (attestations (world idb t)) \<Longrightarrow> attState a \<noteq> Va_draft \<Longrightarrow> attSignedAt a < now) \<Longrightarrow>
    review_call k recover is_guid chain contested idb idb'"
| revoke: "revokeAttestation now q aid why idb = Inr (v, idb') \<Longrightarrow> review_call k recover is_guid chain contested idb idb'"
| remove: "revokeAssignment now q asg_id why idb = Inr (v, idb') \<Longrightarrow> review_call k recover is_guid chain contested idb idb'"
| replace: "reassignReviewer is_guid now today fresh q asg_id ra idb = Inr (v, idb') \<Longrightarrow>
    (\<And>t. fresh \<notin> assignmentId ` set (assignments (world idb t))) \<Longrightarrow>
    review_call k recover is_guid chain contested idb idb'"
| credential: "changeCredentialStatus now fresh q cid st idb = Inr (v, idb') \<Longrightarrow>
    review_call k recover is_guid chain contested idb idb'"
| outside: "(\<And>t. elsewhere (world idb t) (world idb' t)) \<Longrightarrow> review_call k recover is_guid chain contested idb idb'"

lemma works_on_step:
  assumes "works_on work tenant v idb idb'"
    and "\<And>db'. work (world idb tenant) = Inr (v, db') \<Longrightarrow> review_effect k recover chain contested (world idb tenant) db'"
  shows "world idb' t = world idb t \<or> review_effect k recover chain contested (world idb t) (world idb' t)"
  using assms unfolding works_on_def by (cases "t = tenant") auto

lemma call_effect:
  assumes "review_call k recover is_guid chain contested idb idb'"
  shows "world idb' t = world idb t \<or> review_effect k recover chain contested (world idb t) (world idb' t)"
  using assms
proof cases
  case (create now today fresh fa q body v)
  from create(1) show ?thesis
    by (rule createCase_works) (erule works_on_step, rule work_effect, erule review_work.opened; simp add: create)
next
  case (move now q cid mv v)
  then show ?thesis
    by (rule moveCase_works) (erule works_on_step, rule work_effect, erule review_work.moved)
next
  case (dispute now fresh q aid dp v)
  from dispute(1) show ?thesis
    by (rule disputeAttestation_works) (erule works_on_step, rule work_effect, erule review_work.disputed, simp add: dispute)
next
  case (resolve now q did rs v)
  then show ?thesis
    by (rule resolveDispute_works) (erule works_on_step, rule work_effect, erule review_work.resolved)
next
  case (draft now today fresh q cid db v)
  from draft(1) show ?thesis
    by (rule draftAttestation_works) (erule works_on_step, rule work_effect, erule review_work.drafted, simp add: draft)
next
  case (request now fresh nonce q aid v)
  from request(1) show ?thesis
    by (rule requestSignature_works) (erule works_on_step, rule work_effect, erule review_work.requested, simp add: request)
next
  case (sign now today q aid sg v)
  from sign(1) show ?thesis
    by (rule submitSignature_works) (erule works_on_step, rule work_effect, erule review_work.signed, rule sign(2))
next
  case (revoke now q aid why v)
  then show ?thesis
    by (rule revokeAttestation_works) (erule works_on_step, rule work_effect, erule review_work.revoked)
next
  case (remove now q asg_id why v)
  then show ?thesis
    by (rule revokeAssignment_works) (erule works_on_step, rule work_effect, erule review_work.removed)
next
  case (replace now today fresh q asg_id ra v)
  from replace(1) show ?thesis
    by (rule reassignReviewer_works) (erule works_on_step, rule work_effect, erule review_work.replaced, simp add: replace)
next
  case (credential now fresh q cid st v)
  then show ?thesis
    by (rule changeCredentialStatus_works) (erule works_on_step, rule work_effect, erule review_work.status)
next
  case outside
  then show ?thesis by (simp add: review_effect.outside)
qed

text \<open>Everything that follows from a request on, and everything since the tables were empty.\<close>

inductive review_run ::
    "(bytes \<Rightarrow> bytes) \<Rightarrow> recovery \<Rightarrow> (js_string \<Rightarrow> bool) \<Rightarrow> int \<Rightarrow> bool \<Rightarrow> review_idb \<Rightarrow> review_idb \<Rightarrow> bool"
  for k recover is_guid chain contested where
  stay: "review_run k recover is_guid chain contested idb idb"
| step: "review_run k recover is_guid chain contested idb idb' \<Longrightarrow>
    review_call k recover is_guid chain contested idb' idb'' \<Longrightarrow> review_run k recover is_guid chain contested idb idb''"

definition no_reviews :: "review_db \<Rightarrow> bool" where
  "no_reviews db \<longleftrightarrow>
     cases db = [] \<and> case_claims db = [] \<and> assignments db = [] \<and> attestations db = [] \<and>
     signature_requests db = [] \<and> disputes db = [] \<and> list_all (\<lambda>c. claimState c = Vs_unreviewed) (claims db)"

definition review_reach ::
    "(bytes \<Rightarrow> bytes) \<Rightarrow> recovery \<Rightarrow> (js_string \<Rightarrow> bool) \<Rightarrow> int \<Rightarrow> bool \<Rightarrow> review_idb \<Rightarrow> bool" where
  "review_reach k recover is_guid chain contested idb \<longleftrightarrow>
     (\<exists>start. (\<forall>t. no_reviews (world start t)) \<and> review_run k recover is_guid chain contested start idb)"

lemma run_effects:
  assumes "review_run k recover is_guid chain contested idb idb'"
  shows "(review_effect k recover chain contested)\<^sup>*\<^sup>* (world idb t) (world idb' t)"
  using assms
proof (induction rule: review_run.induct)
  case (step idb idb' idb'')
  then show ?case using call_effect [OF step.hyps(2), of t] by (metis rtranclp.rtrancl_into_rtrancl)
qed simp

lemma run_keeps:
  assumes "review_run k recover is_guid chain contested idb idb'" and "P (world idb t)"
    and "\<And>db db'. review_effect k recover chain contested db db' \<Longrightarrow> P db \<Longrightarrow> P db'"
  shows "P (world idb' t)"
  using run_effects [OF assms(1), of t] assms(2) by (induction rule: rtranclp_induct) (auto intro: assms(3))

lemma reach_sound:
  assumes "review_reach k recover is_guid chain contested idb"
  shows "attestations_sound k recover chain (world idb t)" and "assignments_sound (world idb t)"
    and "contested = False \<Longrightarrow> claims_sound (world idb t)"
proof -
  obtain start where start: "no_reviews (world start t)" and run: "review_run k recover is_guid chain contested start idb"
    using assms by (auto simp: review_reach_def)
  have one: "attestations_sound k recover chain (world start t)" and two: "assignments_sound (world start t)"
    using start by (simp_all add: no_reviews_def attestations_sound_def assignments_sound_def active_in_def)
  show "attestations_sound k recover chain (world idb t)"
    by (rule run_keeps [OF run, where P = "attestations_sound k recover chain", OF one]) (rule attestations_sound_step)
  show "assignments_sound (world idb t)"
    by (rule run_keeps [OF run, where P = assignments_sound, OF two]) (rule assignments_sound_step)
  show "claims_sound (world idb t)" if calm: "contested = False"
  proof (rule run_keeps [OF run [unfolded calm]])
    have "assessed (world start t) c" if "claim_by (world start t) i = Some c" for i c
      using start row_by_Some [OF that]
      by (intro unreviewed_assessed standing_unmentioned) (auto simp: no_reviews_def list_all_iff)
    then show "claims_sound (world start t)" using start by (simp add: no_reviews_def claims_sound_def)
  qed (rule claims_sound_step)
qed

end
