(* ===== verification/Review_Sample.thy ===== *)
theory Review_Sample
  imports Review_Calls
begin

text \<open>
  One review from the case to the signature, run through the handlers: a steward opens a case on one
  claim, the reviewer drafts, asks for a signature and signs. The laws are applied to it.
\<close>

section \<open>People and tables\<close>

definition sample_hash :: "bytes \<Rightarrow> bytes" where
  "sample_hash bs = []"

definition sample_recovery :: recovery where
  "sample_recovery domain msg sig = (if sig = js ''0xab'' then Some (js ''0xAnn'') else None)"

definition any_guid :: "js_string \<Rightarrow> bool" where
  "any_guid s \<longleftrightarrow> True"

definition person :: "js_string \<Rightarrow> js_string \<Rightarrow> session" where
  "person subject held =
     \<lparr>principal = Person, sessionId = js ''s1'', sessionSubjectId = Some subject, sessionTenantId = Some (js ''t''),
      sessionAssurance = High_assurance, firstFactor = Some First_google, secondFactor = Some Second_passkey,
      recoveryLimited = False, aal = Some Aal3, serviceScopes = None,
      roleBindings = [\<lparr>bindingRole = held, organizationId = None, projectId = Some (js ''p''), bindingJurisdiction = None,
        elevationId = None\<rparr>],
      narrowedRoles = [], projectIds = [], organizationProjectIds = None, projectJurisdictions = None\<rparr>"

definition steward :: session where
  "steward = person (js ''ann'') (js ''data_steward'')"

definition reviewer :: session where
  "reviewer = person (js ''rev'') (js ''reviewer_cp_qp'')"

definition sent :: "session \<Rightarrow> js_string \<Rightarrow> review_request" where
  "sent s key =
     \<lparr>revHead = \<lparr>callerSession = Some s, idempotencyHeader = Some (js ''0123456789abcdef'' @ key), ifMatchHeader = None\<rparr>,
      revDigest = key, revRequestId = js ''r'', revAsOf = js ''d'', revCorrelation = js ''c''\<rparr>"

definition start_db :: review_db where
  "start_db =
     \<lparr>cases = [], case_claims = [], case_steps = [], assignments = [], attestations = [], signature_requests = [],
      disputes = [], lineage = [],
      claims = [\<lparr>claimId = js ''cl'', claimProject = js ''p'', claimType = js ''capacity'', claimValue = js ''5'',
        claimGrade = Gr_unverified, claimState = Vs_unreviewed, claimTier = None, claimExcluded = False,
        claimVersion = 1, claimSubmitter = Some (js ''sub''), claimReceipt = None, claimCatalogEntry = None,
        claimCatalogVersion = None, claimStructured = None, claimUploads = []\<rparr>],
      claim_conflicts = [], receipts = [], artifacts = [], uploads = [],
      credentials = [\<lparr>credId = js ''cr'', credSubject = js ''rev'', credOrganization = Some (js ''lab''),
        credStatus = Cred_valid, credScope = [js ''capacity''], credIssuer = Some (js ''au''), credVersion = 1,
        credRevokedAt = None\<rparr>],
      status_events = [],
      authorities = [\<lparr>authId = js ''au'', authFacts = \<lparr>authorityState = Au_accepted, validFrom = js ''2025-01-01'',
        validUntil = None, recognizedScope = [js ''capacity'']\<rparr>\<rparr>],
      bindings = [\<lparr>boundSubject = js ''rev'', boundOrganization = Some (js ''lab''), boundRevoked = False\<rparr>],
      projects = [\<lparr>projId = js ''p'', projKey = js ''P'', ownerOrganization = js ''op''\<rparr>],
      schemas = [\<lparr>schemaId = js ''sc'', schemaKey = js ''cp'', schemaVersionText = js ''1'', schemaJurisdiction = js ''CA'',
        schemaRowState = As_active\<rparr>],
      policies = [],
      wallets = [\<lparr>walletSubject = js ''rev'', walletChain = 1, walletAddress = js ''0xAnn'', walletDisabled = False\<rparr>],
      subjects = [\<lparr>subjId = js ''rev'', subjSuspended = False\<rparr>], review_audit = [], review_outbox = []\<rparr>"

definition sample_start :: review_idb where
  "sample_start = \<lparr>keys = (\<lambda>_. None), world = (\<lambda>_. start_db)\<rparr>"

section \<open>The requests\<close>

definition sample_case :: create_case_body where
  "sample_case =
     \<lparr>newProject = js ''p'', newSchema = js ''sc'', newClaims = [js ''cl''], newReviewer = js ''rev'',
      newCredential = js ''cr'', newConflict = js ''none''\<rparr>"

definition sample_draft :: draft_body where
  "sample_draft =
     \<lparr>draftAssignment = js ''as'', draftType = js ''independent_assurance'', draftScope = [js ''cl''],
      draftFindings = [], draftCitations = [], draftLimitations = js ''Desk review'', draftSupersedes = None\<rparr>"

definition sample_today :: js_string where
  "sample_today = js ''2026-01-01''"


section \<open>One step after the other\<close>

lemma sent_context:
  "requireMutationContext (revHead (sent (person subject held) key)) =
     Inr (person subject held, js ''t'', js ''0123456789abcdef'' @ key)"
  by (simp add: requireMutationContext_def requireEnrolledSession_def sent_def person_def js_def)

text \<open>A person whose only role is one of those of an action has that role there.\<close>

lemma single_role:
  assumes "policy_of action = Some p"
    and "authorize p (bindingToAuthorizationContext (person subject held)
           \<lparr>bindingRole = held, organizationId = None, projectId = Some (js ''p''), bindingJurisdiction = None, elevationId = None\<rparr> facts)
           (withResourceJurisdiction (person subject held) resource) = Allow"
  shows "assertAuthorized (person subject held) action resource facts = Inr held"
proof -
  have "\<exists>r. assertAuthorized (person subject held) action resource facts = Inr r"
    unfolding assertAuthorized_passes using assms by (simp add: person_def)
  then obtain r where r: "assertAuthorized (person subject held) action resource facts = Inr r" by blast
  from effective_role_held [OF r] show ?thesis using r by (auto simp: person_def)
qed

lemmas reach_defs = person_def authorize_def bindingToAuthorizationContext_def withResourceJurisdiction_def
  projectResource_def tenantResource_def resource_of_def no_resource_overrides_def baseScopeOf_def scope_includes_def
  sessionFacts_def no_actor_overrides_def jurisdictionMatches_def authorizeResourceConditions_def
  minimum_assurance_def ROLE_MINIMUM_ASSURANCE_def satisfiesAssurance_def

lemma steward_curates:
  "assertAuthorized steward (js ''claim.curate'') (projectResource (js ''t'') (js ''p'') no_resource_overrides)
     (sessionFacts steward no_actor_overrides) = Inr (js ''data_steward'')"
proof -
  have "ActionPolicy (js ''claim.curate'') [js ''data_steward''] None \<in> set ACTION_POLICIES"
    by (simp add: ACTION_POLICIES_def evidence_policies_def)
  note policy = policy_of_key [OF this, unfolded action_policy.sel]
  show ?thesis
    unfolding steward_def by (rule single_role [OF policy]) (simp add: reach_defs)
qed

lemma reviewer_signs:
  assumes "case_state_name (caseState c) \<in> set DRAFTING_STATES" and "caseProject c = js ''p''" and "credStatus cred = Cred_valid"
    and "assignmentRevokedAt asg = None" and "assignmentConflict asg = Conflict_none"
  shows "assertAuthorized reviewer (js ''attestation.sign'') (review_resource (js ''t'') c) (reviewer_facts reviewer asg cred) =
    Inr (js ''reviewer_cp_qp'')"
proof -
  obtain why where "ActionPolicy (js ''attestation.sign'') [js ''reviewer_cp_qp'', js ''reviewer_lab'',
        js ''reviewer_legal'', js ''reviewer_assurance''] why \<in> set ACTION_POLICIES"
    by (auto simp: ACTION_POLICIES_def evidence_policies_def)
  note policy = policy_of_key [OF this, unfolded action_policy.sel]
  show ?thesis
    unfolding reviewer_def
    by (rule single_role [OF policy]) (use assms in \<open>simp add: reach_defs review_resource_def reviewer_facts_def\<close>)
qed


text \<open>Where the sample stands: the tables of its tenant, the keys that were used.\<close>

definition sample_at :: "review_db \<Rightarrow> js_string list \<Rightarrow> review_idb \<Rightarrow> bool" where
  "sample_at db used idb \<longleftrightarrow>
     review_reach sample_hash sample_recovery any_guid 1 False idb \<and>
     world idb = (\<lambda>_. start_db)(js ''t'' := db) \<and>
     (\<forall>key. key \<notin> set used \<longrightarrow> keys idb (js ''t'', js ''0123456789abcdef'' @ key) = None)"

lemma sample_tables: "sample_at db used idb \<Longrightarrow> world idb t = (if t = js ''t'' then db else start_db)"
  by (simp add: sample_at_def)

lemma sample_mutation:
  assumes "sample_at db used idb" and "key \<notin> set used" and "work db = Inr (v, db')"
  shows "\<exists>idb'. review_mutation (js ''t'') (js ''0123456789abcdef'' @ key) q work idb = Inr (v, idb') \<and>
    (review_call sample_hash sample_recovery any_guid 1 False idb idb' \<longrightarrow> sample_at db' (key # used) idb')"
proof -
  let ?key = "(js ''t'', js ''0123456789abcdef'' @ key)"
  let ?idb' = "idb\<lparr>keys := (keys idb)(?key \<mapsto> (revDigest q, Some v)), world := (world idb)(js ''t'' := db')\<rparr>"
  have "review_mutation (js ''t'') (js ''0123456789abcdef'' @ key) q work idb = Inr (v, ?idb')"
    using assms by (simp add: review_mutation_def withIdempotency_def withTenant_def completeIdempotency_def sample_at_def)
  moreover have "sample_at db' (key # used) ?idb'"
    if "review_call sample_hash sample_recovery any_guid 1 False idb ?idb'"
  proof -
    have "review_reach sample_hash sample_recovery any_guid 1 False ?idb'"
      using assms(1) that unfolding sample_at_def review_reach_def by (blast intro: review_run.step)
    then show ?thesis using assms(1) by (simp add: sample_at_def)
  qed
  ultimately show ?thesis by blast
qed

lemma sample_begins: "sample_at start_db [] \<lparr>keys = (\<lambda>_. None), world = (\<lambda>_. start_db)\<rparr>"
proof -
  have "no_reviews start_db" by (simp add: no_reviews_def start_db_def)
  then show ?thesis
    unfolding sample_at_def review_reach_def
    by (intro conjI exI [of _ "\<lparr>keys = (\<lambda>_. None), world = (\<lambda>_. start_db)\<rparr>"] review_run.stay) (simp_all add: fun_eq_iff)
qed

primrec accepted :: "app_error + 'a \<Rightarrow> bool" where
  "accepted (Inl e) = False"
| "accepted (Inr v) = True"

text \<open>The case.\<close>

definition sample_case_row :: case_row where
  "sample_case_row =
     \<lparr>caseId = js ''cs'', caseProject = js ''p'', caseSchema = js ''sc'', caseState = Vc_assigned,
      caseSnapshot = js ''0x'', caseVersion = 1\<rparr>"

definition sample_assignment :: assignment_row where
  "sample_assignment =
     \<lparr>assignmentId = js ''as'', assignmentCase = js ''cs'', assignmentSubject = js ''rev'', assignmentCredential = js ''cr'',
      assignmentReviewed = True,
      assignmentBasis = \<lparr>basisSubmitters = [js ''sub''], basisAllKnown = True, basisReviewerOrganizations = [js ''lab''],
        basisOperatorOrganizations = [js ''op''], basisViolations = [], basisGaps = []\<rparr>,
      assignmentConflict = Conflict_none, assignedBy = Some (js ''ann''), assignedAt = 1000,
      assignmentRevokedAt = None, assignmentRevokedBy = None, assignmentRevokeReason = None\<rparr>"

definition case_db :: review_db where
  "case_db = start_db\<lparr>cases := [sample_case_row], case_claims := [(js ''cs'', js ''cl'')]\<rparr>"

definition opened_db :: review_db where
  "opened_db =
     log_event (event_entry (js ''t'') (js ''verification.case.assigned'') (js ''cs'') 1 (Some (js ''p''))
         [(js ''evidenceSnapshotHash'', Detail_string (js ''0x''))] (sent steward (js ''1'')))
       (log_audit (audit_entry (js ''t'') (Some (js ''p'')) (Some (js ''ann'')) (js ''data_steward'')
           (js ''verification.case.assigned'') (js ''verification_case'') (js ''cs'') None (sent steward (js ''1'')))
         (case_db\<lparr>assignments := [sample_assignment]\<rparr>))"

lemma sample_snapshot:
  "buildEvidenceSnapshot sample_hash start_db (js ''p'') [js ''cl''] =
     Inr \<lparr>evidenceHash = js ''0x'', evidenceClaims = [js ''cl''], evidenceArtifacts = [], evidenceReceipts = []\<rparr>"
  by code_simp

lemma sample_appointment:
  "assignReviewer 1000 sample_today (js ''as'')
     \<lparr>inCase = js ''cs'', inProject = js ''p'', inClaims = [js ''cl''], inReviewer = js ''rev'', inCredential = js ''cr'',
      inConflict = Conflict_none, inAssigner = Some (js ''ann'')\<rparr> case_db =
   Inr (\<lparr>madeId = js ''as'', madeReviewed = True, madeGaps = []\<rparr>, case_db\<lparr>assignments := [sample_assignment]\<rparr>)"
  by code_simp

lemma sample_case_work:
  "\<exists>v. create_case_work sample_hash 1000 sample_today (js ''cs'') (js ''as'') steward (js ''t'') (js ''data_steward'')
     sample_case Conflict_none (sent steward (js ''1'')) start_db = Inr (v, opened_db)"
proof -
  have body: "newProject sample_case = js ''p''" "newSchema sample_case = js ''sc''" "newClaims sample_case = [js ''cl'']"
    "newReviewer sample_case = js ''rev''" "newCredential sample_case = js ''cr''"
    by (simp_all add: sample_case_def)
  have "cases start_db = []" "case_claims start_db = []" by (simp_all add: start_db_def)
  then have db: "start_db\<lparr>cases := cases start_db @ [\<lparr>caseId = js ''cs'', caseProject = js ''p'', caseSchema = js ''sc'',
      caseState = Vc_assigned, caseSnapshot = js ''0x'', caseVersion = 1\<rparr>],
      case_claims := case_claims start_db @ [(js ''cs'', js ''cl'')]\<rparr> = case_db"
    by (simp add: case_db_def sample_case_row_def)
  have actor: "sessionSubjectId steward = Some (js ''ann'')" by (simp add: steward_def person_def)
  show ?thesis
    using db sample_appointment
    by (simp add: create_case_work_def body actor sample_snapshot Let_def opened_db_def)
qed

lemma sample_opens: "\<exists>idb. sample_at opened_db [js ''1''] idb"
proof -
  let ?work = "create_case_work sample_hash 1000 sample_today (js ''cs'') (js ''as'') steward (js ''t'')
     (js ''data_steward'') sample_case Conflict_none (sent steward (js ''1''))"
  let ?start = "\<lparr>keys = (\<lambda>_. None), world = (\<lambda>_. start_db)\<rparr> :: review_idb"
  obtain v where v: "?work start_db = Inr (v, opened_db)" using sample_case_work by blast
  obtain idb where idb: "review_mutation (js ''t'') (js ''0123456789abcdef'' @ js ''1'') (sent steward (js ''1'')) ?work ?start = Inr (v, idb)"
    "review_call sample_hash sample_recovery any_guid 1 False ?start idb \<Longrightarrow> sample_at opened_db [js ''1''] idb"
    using sample_mutation [where work = ?work and key = "js ''1''", OF sample_begins _ v] by auto
  have "parse_case any_guid (Some sample_case) = Some (sample_case, Conflict_none)" by code_simp
  moreover have "newProject sample_case = js ''p''" by (simp add: sample_case_def)
  ultimately have "createCase sample_hash any_guid 1000 sample_today (js ''cs'') (js ''as'') (sent steward (js ''1'')) (Some sample_case) ?start = Inr (v, idb)"
    using sent_context [of "js ''ann''" "js ''data_steward''" "js ''1''", folded steward_def] idb(1) steward_curates
    by (simp add: createCase_def)
  from review_call.create [OF this] idb(2) show ?thesis by (auto simp: start_db_def)
qed

text \<open>The draft.\<close>

definition sample_row :: attestation_row where
  "sample_row =
     \<lparr>attId = js ''at'', attCase = js ''cs'', attAssignment = js ''as'', attCredential = js ''cr'', attSchema = js ''sc'',
      attType = independent_assurance, attScope = [js ''cl''], attSnapshot = js ''0x'', attFindings = [], attCitations = [],
      attLimitations = js ''Desk review'',
      attCredentialSnapshot = \<lparr>snapshotCredential = js ''cr'', statusAtSigning = Cred_valid, validAtAttestation = True\<rparr>,
      attMethod = js ''cp@1'', attPolicy = js ''none_effective'', attPayload = js ''0x'', attSignature = [],
      attSigner = UNSIGNED_DRAFT_SIGNER, attSignedAt = 2000, attState = Va_draft, attSupersedes = None,
      attRevokedAt = None, attRevokedBy = None, attRevokeReason = None\<rparr>"

definition drafted_db :: review_db where
  "drafted_db =
     log_audit (audit_entry (js ''t'') (Some (js ''p'')) (Some (js ''rev'')) (js ''reviewer_cp_qp'')
         (js ''verification.attestation.drafted'') (js ''verification_attestation'') (js ''at'') None (sent reviewer (js ''2'')))
       (set_case_state (js ''cs'') Vc_in_review (opened_db\<lparr>attestations := [sample_row]\<rparr>))"

definition sample_schema :: schema_row where
  "sample_schema = hd (schemas start_db)"

definition sample_credential :: credential_row where
  "sample_credential = hd (credentials start_db)"

lemma draft_facts:
  "draft_context (case_db\<lparr>assignments := [sample_assignment]\<rparr>) (js ''cs'') (js ''as'') =
     Some (sample_case_row, sample_schema, sample_assignment, sample_credential)"
  "filter (\<lambda>x. (js ''cs'', x) \<notin> set (case_claims case_db)) [js ''cl''] = []"
  "checkAttestationSignable (sign_request_of case_db reviewer sample_draft independent_assurance sample_assignment
     sample_credential sample_schema (loadAuthorityBasis case_db sample_today sample_credential [js ''cl''])) = Sign_allowed"
  "basisBlockers (loadAuthorityBasis case_db sample_today sample_credential [js ''cl'']) Cred_valid True True = []"
  "versionsInForce 2000 case_db (js ''sc'') = Inr (js ''cp@1'', js ''none_effective'')"
  "hashAttestationPayload sample_hash [] [] (js ''Desk review'') [js ''cl''] = Inr (js ''0x'')"
  by code_simp+

text \<open>What the checks read of the tables is the same after the assignment and the records of the route.\<close>

lemma opened_reads:
  "draft_context opened_db = draft_context (case_db\<lparr>assignments := [sample_assignment]\<rparr>)"
  "sign_request_of opened_db = sign_request_of case_db" "loadAuthorityBasis opened_db = loadAuthorityBasis case_db"
  "versionsInForce now opened_db = versionsInForce now case_db" "case_claims opened_db = case_claims case_db"
  "attestations opened_db = []"
proof -
  obtain au ob where opened: "opened_db = case_db\<lparr>assignments := [sample_assignment], review_audit := au, review_outbox := ob\<rparr>"
    by (simp add: opened_db_def log_event_def log_audit_def)
  have submitters: "loadEvidenceSubmitters opened_db ids = loadEvidenceSubmitters case_db ids" for ids
    by (simp add: opened loadEvidenceSubmitters_def scoped_claims_def claim_submitters_def [abs_def] claim_source_def)
  show "draft_context opened_db = draft_context (case_db\<lparr>assignments := [sample_assignment]\<rparr>)"
    "loadAuthorityBasis opened_db = loadAuthorityBasis case_db" "case_claims opened_db = case_claims case_db"
    by (simp_all add: fun_eq_iff opened draft_context_def loadAuthorityBasis_def basis_input_def source_authorities_def
        scoped_claims_def claim_source_def cong: if_cong)
  show "sign_request_of opened_db = sign_request_of case_db" by (simp add: fun_eq_iff sign_request_of_def submitters split: option.split)
  show "versionsInForce now opened_db = versionsInForce now case_db"
    by (simp add: fun_eq_iff opened versionsInForce_def Let_def split: option.split)
  show "attestations opened_db = []" by (simp add: opened case_db_def start_db_def)
qed

lemma sample_draft_work:
  "\<exists>v. draft_work sample_hash 2000 sample_today (js ''at'') reviewer (js ''t'') (js ''cs'') sample_draft independent_assurance
     (sent reviewer (js ''2'')) opened_db = Inr (v, drafted_db)"
proof -
  have f: "caseId sample_case_row = js ''cs''" "caseProject sample_case_row = js ''p''"
     "caseState sample_case_row = Vc_assigned" "caseSchema sample_case_row = js ''sc''"
     "credStatus sample_credential = Cred_valid" "assignmentRevokedAt sample_assignment = None"
     "assignmentConflict sample_assignment = Conflict_none" "assignmentSubject sample_assignment = js ''rev''"
     "sessionSubjectId reviewer = Some (js ''rev'')" "draftAssignment sample_draft = js ''as''"
     "draftSupersedes sample_draft = None" "draftFindings sample_draft = []" "draftCitations sample_draft = []"
     "draftLimitations sample_draft = js ''Desk review''" "draftScope sample_draft = [js ''cl'']"
    by (simp_all add: sample_case_row_def sample_credential_def start_db_def sample_assignment_def reviewer_def person_def
        sample_draft_def)
  have may: "assertAuthorized reviewer (js ''attestation.sign'') (review_resource (js ''t'') sample_case_row)
      (reviewer_facts reviewer sample_assignment sample_credential) = Inr (js ''reviewer_cp_qp'')"
    by (rule reviewer_signs) (simp_all add: f DRAFTING_STATES_def)
  have checks: "draft_checks sample_today reviewer (js ''t'') sample_draft independent_assurance sample_case_row sample_schema
      sample_assignment sample_credential opened_db = Inr (js ''reviewer_cp_qp'')"
    using draft_facts(2) by (simp add: draft_checks_def may f opened_reads draft_facts(3,4) Let_def)
  have row: "draft_row 2000 (js ''at'') sample_case_row sample_assignment sample_credential sample_draft independent_assurance
      (js ''0x'') (js ''cp@1'', js ''none_effective'') = sample_row"
    by (simp add: draft_row_def sample_row_def sample_case_row_def sample_assignment_def sample_credential_def start_db_def sample_draft_def)
  show ?thesis
    by (simp add: draft_work_def f opened_reads draft_facts(1,5,6) checks row drafted_db_def Let_def)
qed

lemma sample_drafts: "\<exists>idb. sample_at drafted_db [js ''2'', js ''1''] idb"
proof -
  let ?work = "draft_work sample_hash 2000 sample_today (js ''at'') reviewer (js ''t'') (js ''cs'') sample_draft
      independent_assurance (sent reviewer (js ''2''))"
  obtain idb0 where start: "sample_at opened_db [js ''1''] idb0" using sample_opens by blast
  obtain v where v: "?work opened_db = Inr (v, drafted_db)" using sample_draft_work by blast
  obtain idb where idb: "review_mutation (js ''t'') (js ''0123456789abcdef'' @ js ''2'') (sent reviewer (js ''2'')) ?work idb0 = Inr (v, idb)"
    "review_call sample_hash sample_recovery any_guid 1 False idb0 idb \<Longrightarrow> sample_at drafted_db [js ''2'', js ''1''] idb"
    using sample_mutation [where work = ?work and key = "js ''2''", OF start _ v] by auto
  have "parse_draft any_guid (Some sample_draft) = Some (sample_draft, independent_assurance)" by code_simp
  then have "draftAttestation sample_hash any_guid 2000 sample_today (js ''at'') (sent reviewer (js ''2'')) (js ''cs'') (Some sample_draft) idb0 = Inr (v, idb)"
    using sent_context [of "js ''rev''" "js ''reviewer_cp_qp''" "js ''2''", folded reviewer_def] idb(1)
    by (simp add: draftAttestation_def)
  from review_call.draft [OF this] idb(2) show ?thesis
    using sample_tables [OF start] opened_reads(6) by (auto simp: start_db_def)
qed

text \<open>The request for a signature, and the signature.\<close>

definition sample_request :: signature_request where
  "sample_request = new_request 3000 (js ''rq'') (js ''0x00'') sample_row"

definition asked_db :: review_db where
  "asked_db =
     log_audit (audit_entry (js ''t'') (Some (js ''p'')) (Some (js ''rev'')) (js ''reviewer_cp_qp'')
         (js ''verification.signature_request.created'') (js ''verification_attestation'') (js ''at'') None (sent reviewer (js ''3'')))
       (drafted_db\<lparr>signature_requests := [sample_request]\<rparr>)"

text \<open>The tables that a signature reads.\<close>

definition sample_reviewed :: case_row where
  "sample_reviewed = with_case_state Vc_in_review sample_case_row"

lemma drafted_tables:
  "attestations drafted_db = [sample_row]" "cases drafted_db = [sample_reviewed]" "assignments drafted_db = [sample_assignment]"
  "signature_requests drafted_db = []" "credentials drafted_db = [sample_credential]" "projects drafted_db = projects start_db"
  by (simp_all add: drafted_db_def log_audit_def log_event_def set_case_state_def opened_db_def case_db_def start_db_def
      sample_credential_def sample_reviewed_def sample_case_row_def set_row_def)

lemma sample_keys [simp]:
  "attId sample_row = js ''at''" "attCase sample_row = js ''cs''" "attAssignment sample_row = js ''as''"
  "attCredential sample_row = js ''cr''" "attState sample_row = Va_draft" "caseId sample_reviewed = js ''cs''"
  "caseProject sample_reviewed = js ''p''" "caseState sample_reviewed = Vc_in_review" "assignmentId sample_assignment = js ''as''"
  "assignmentSubject sample_assignment = js ''rev''" "credId sample_credential = js ''cr''"
  "sessionSubjectId reviewer = Some (js ''rev'')"
  by (simp_all add: sample_row_def sample_reviewed_def with_case_state_def sample_case_row_def sample_assignment_def
      sample_credential_def start_db_def reviewer_def person_def)

lemma row_by_one [simp]: "row_by key [r] i = (if key r = i then Some r else None)"
  by (simp add: row_by_def)

lemma drafted_setting:
  "signature_context drafted_db (js ''at'') = Some (sample_row, sample_reviewed, sample_assignment, sample_credential)"
  by (simp add: signature_context_def attestation_case_def drafted_tables)

lemma sample_asks: "\<exists>idb. sample_at asked_db [js ''3'', js ''2'', js ''1''] idb"
proof -
  let ?work = "request_work sample_hash 1 3000 (js ''rq'') (js ''0x00'') reviewer (js ''t'') (js ''reviewer_cp_qp'') (js ''at'')
      (sent reviewer (js ''3''))"
  obtain idb0 where start: "sample_at drafted_db [js ''2'', js ''1''] idb0" using sample_drafts by blast
  have project: "\<exists>p. row_by projId (projects drafted_db) (js ''p'') = Some p"
    by (simp add: drafted_tables start_db_def)
  then obtain v where v: "?work drafted_db = Inr (v, asked_db)"
    by (auto simp: request_work_def drafted_setting drafted_tables asked_db_def sample_request_def Let_def)
  obtain idb where idb: "review_mutation (js ''t'') (js ''0123456789abcdef'' @ js ''3'') (sent reviewer (js ''3'')) ?work idb0 = Inr (v, idb)"
    "review_call sample_hash sample_recovery any_guid 1 False idb0 idb \<Longrightarrow> sample_at asked_db [js ''3'', js ''2'', js ''1''] idb"
    using sample_mutation [where work = ?work and key = "js ''3''", OF start _ v] by auto
  have "assertAuthorized reviewer (js ''attestation.sign'') (review_resource (js ''t'') sample_reviewed)
      (reviewer_facts reviewer sample_assignment sample_credential) = Inr (js ''reviewer_cp_qp'')"
    by (rule reviewer_signs)
      (simp_all add: DRAFTING_STATES_def sample_credential_def start_db_def sample_assignment_def)
  then have "authorizeSignatureRequest reviewer (js ''t'') (js ''at'') drafted_db = Inr (js ''reviewer_cp_qp'')"
    by (simp add: authorizeSignatureRequest_def drafted_setting)
  then have "requestSignature sample_hash 1 3000 (js ''rq'') (js ''0x00'') (sent reviewer (js ''3'')) (js ''at'') idb0 = Inr (v, idb)"
    using sent_context [of "js ''rev''" "js ''reviewer_cp_qp''" "js ''3''", folded reviewer_def] idb(1) sample_tables [OF start]
    by (simp add: requestSignature_def)
  from review_call.request [OF this] idb(2) show ?thesis
    using sample_tables [OF start] drafted_tables(4) by (auto simp: start_db_def)
qed

definition after_work :: "app_error + review_view \<times> review_db \<Rightarrow> review_db" where
  "after_work x = (case x of Inl e \<Rightarrow> start_db | Inr (v, db) \<Rightarrow> db)"

lemma accepted_work: "accepted x \<Longrightarrow> \<exists>v. x = Inr (v, after_work x)"
  by (cases x) (auto simp: after_work_def)

definition sign_sample :: "review_db \<Rightarrow> app_error + review_view \<times> review_db" where
  "sign_sample =
     sign_work sample_hash sample_recovery 1 4000 sample_today reviewer (js ''t'') (js ''at'') (js ''rq'') (js ''0xab'')
       (sent reviewer (js ''4''))"

definition signed_db :: review_db where
  "signed_db = after_work (sign_sample asked_db)"

lemma sample_accepted: "accepted (sign_sample asked_db)"
  by code_simp

lemma sample_sign_work: "\<exists>v. sign_sample asked_db = Inr (v, signed_db)"
  unfolding signed_db_def by (rule accepted_work [OF sample_accepted])

lemma asked_tables:
  "attestations asked_db = [sample_row]" "signature_requests asked_db = [sample_request]"
  "signature_context asked_db (js ''at'') = Some (sample_row, sample_reviewed, sample_assignment, sample_credential)"
  "claims asked_db = claims start_db"
  by (simp_all add: asked_db_def log_audit_def signature_context_def attestation_case_def drafted_tables)
    (simp add: drafted_db_def opened_db_def case_db_def log_audit_def log_event_def set_case_state_def)

lemma signed_facts:
  "\<exists>a c. attestations signed_db = [a] \<and> attId a = js ''at'' \<and> attState a = Va_signed \<and> attScope a = [js ''cl''] \<and>
     attType a = independent_assurance \<and> claim_by signed_db (js ''cl'') = Some c \<and> claimState c = Vs_independently_assured"
proof -
  obtain v where v: "sign_sample asked_db = Inr (v, signed_db)" using sample_sign_work by blast
  obtain signature signer versions cred rs db3 db4 where
    row: "attestations signed_db = with_signed (signed_row 4000 signature signer versions cred sample_row) (attestations asked_db)"
    and re: "reassess_claims db3 (sort (attScope sample_row)) = Inr (rs, db4)" "attestations db3 = attestations signed_db"
      "claims db3 = claims asked_db" "claims signed_db = claims db4"
    by (rule sign_effect [OF v [unfolded sign_sample_def]]) (auto simp: asked_tables)
  have atts: "attestations signed_db = [signed_row 4000 signature signer versions cred sample_row]"
    by (simp add: row asked_tables with_signed_def signed_row_def set_row_def) (simp add: sample_row_def)
  let ?c = "hd (claims start_db)"
  have old: "claim_by db3 (js ''cl'') = Some ?c" "claimState ?c = Vs_unreviewed" "claimId ?c = js ''cl''"
    by (simp_all add: re(3) asked_tables start_db_def)
  have scope: "attScope sample_row = [js ''cl'']" by (simp add: sample_row_def)
  from reassess_claims_Inr [OF re(1)] old(1) scope
  obtain c where c: "claim_by db4 (js ''cl'') = Some c" "claimState c = derived_state db3 ?c" by fastforce
  have "standingAttestationTypes db3 (js ''cl'') = [independent_assurance]"
    by (simp add: standingAttestationTypes_def re(2) atts signed_row_def STANDING_ATTESTATION_STATES_def) (simp add: sample_row_def)
  then have "claimState c = Vs_independently_assured"
    by (simp add: c(2) derived_state_def old deriveVerificationState_def)
  then show ?thesis
    using c(1) scope by (simp add: atts re(4) signed_row_def) (simp add: sample_row_def)
qed

lemma sample_signs:
  "\<exists>idb idb' v. sample_at asked_db [js ''3'', js ''2'', js ''1''] idb \<and>
     submitSignature sample_hash sample_recovery any_guid 1 4000 sample_today (sent reviewer (js ''4'')) (js ''at'')
       (Some (js ''rq'', js ''0xab'')) idb = Inr (v, idb') \<and>
     sample_at signed_db [js ''4'', js ''3'', js ''2'', js ''1''] idb'"
proof -
  obtain idb0 where start: "sample_at asked_db [js ''3'', js ''2'', js ''1''] idb0" using sample_asks by blast
  obtain v where v: "sign_sample asked_db = Inr (v, signed_db)" using sample_sign_work by blast
  obtain idb where idb: "review_mutation (js ''t'') (js ''0123456789abcdef'' @ js ''4'') (sent reviewer (js ''4'')) sign_sample idb0 = Inr (v, idb)"
    "review_call sample_hash sample_recovery any_guid 1 False idb0 idb \<Longrightarrow> sample_at signed_db [js ''4'', js ''3'', js ''2'', js ''1''] idb"
    using sample_mutation [where work = sign_sample and key = "js ''4''", OF start _ v] by auto
  have "parse_signature any_guid (Some (js ''rq'', js ''0xab'')) = Some (js ''rq'', js ''0xab'')" by code_simp
  then have call: "submitSignature sample_hash sample_recovery any_guid 1 4000 sample_today (sent reviewer (js ''4'')) (js ''at'')
       (Some (js ''rq'', js ''0xab'')) idb0 = Inr (v, idb)"
    using sent_context [of "js ''rev''" "js ''reviewer_cp_qp''" "js ''4''", folded reviewer_def] idb(1)
    by (simp add: submitSignature_def sign_sample_def)
  have "attSignedAt a < 4000" if "a \<in> set (attestations (world idb0 t))" "attState a \<noteq> Va_draft" for t a
    using that sample_tables [OF start] by (auto simp: asked_tables start_db_def split: if_splits)
  with call have "review_call sample_hash sample_recovery any_guid 1 False idb0 idb" by (rule review_call.sign)
  with call show ?thesis using start idb(2) by blast
qed

end
