(* ===== verification/Review_Laws.thy ===== *)
theory Review_Laws
  imports Review_Sample
begin

text \<open>
  What the review promises: what a signature was checked against, what stands behind every attestation that
  left its draft, that it is final, that a request is used once, that a case has one independent reviewer, and
  that a claim is never better assessed than a signature establishes.
\<close>

section \<open>Signatures\<close>

text \<open>
  C1. What is signed verifies. After any history of requests, every attestation that is no longer a draft is the
  draft of a case and an assignment of that case: it has their evidence snapshot and credential, covers claims of
  the case only and carries the hash of its own content. A request made for exactly this attestation, snapshot and
  payload was consumed at the time of the signature, before it expired, the stored signature recovers to the
  stored signer from the message of that request, and the credential was valid.
\<close>

theorem signed_attestation_verifies:
  assumes "review_reach k recover is_guid chain contested idb"
    and "attestation_by (world idb t) aid = Some a" and "attState a \<noteq> Va_draft"
  shows "hashAttestationPayload k (attFindings a) (attCitations a) (attLimitations a) (attScope a) = Inr (attPayload a) \<and>
    (\<exists>c asg rid r addr.
       case_by (world idb t) (attCase a) = Some c \<and> attSnapshot a = caseSnapshot c \<and>
       set (map (Pair (attCase a)) (attScope a)) \<subseteq> set (case_claims (world idb t)) \<and>
       assignment_by (world idb t) (attAssignment a) = Some asg \<and> assignmentCase asg = attCase a \<and>
       assignmentCredential asg = attCredential a \<and>
       request_by (world idb t) rid = Some r \<and> sreqAttestation r = aid \<and> sreqConsumed r = Some (attSignedAt a) \<and>
       attSignedAt a < sreqExpires r * 1000 \<and> sreqSnapshot r = attSnapshot a \<and> sreqPayload r = attPayload a \<and>
       recover (attestationDomain k chain) (request_message a r) (attSignature a) = Some addr \<and>
       attSigner a = js_lower addr \<and> statusAtSigning (attCredentialSnapshot a) = Cred_valid)"
proof -
  have id: "attId a = aid" using assms(2) by (auto dest: row_by_Some)
  have "well_drafted k (world idb t) a" "vouched k recover chain (world idb t) a"
    using reach_sound(1) [OF assms(1), of t] assms(2,3) by (auto simp: attestations_sound_def)
  then show ?thesis unfolding well_drafted_def vouched_def id by fastforce
qed

theorem signed_attestation_verifies_witness:
  "\<exists>idb a. review_reach sample_hash sample_recovery any_guid 1 False idb \<and>
     attestation_by (world idb (js ''t'')) (js ''at'') = Some a \<and> attState a = Va_signed \<and>
     hashAttestationPayload sample_hash (attFindings a) (attCitations a) (attLimitations a) (attScope a) = Inr (attPayload a)"
proof -
  obtain idb where idb: "sample_at signed_db [js ''4'', js ''3'', js ''2'', js ''1''] idb" using sample_signs by blast
  then have reach: "review_reach sample_hash sample_recovery any_guid 1 False idb" by (simp add: sample_at_def)
  obtain a where a: "attestation_by (world idb (js ''t'')) (js ''at'') = Some a" "attState a = Va_signed"
    using signed_facts sample_tables [OF idb] by auto
  with signed_attestation_verifies [OF reach a(1)]
  have "hashAttestationPayload sample_hash (attFindings a) (attCitations a) (attLimitations a) (attScope a) = Inr (attPayload a)"
    by simp
  with reach a show ?thesis by blast
qed

text \<open>
  C9. What is signed is final. Whatever requests follow, an attestation that left its draft keeps its content, its
  signature, its signer, its time and its credential: only its state moves, along the machine of attestations and
  never back to a draft, and the record of a revocation is added.
\<close>

theorem signed_attestation_is_final:
  assumes "review_run k recover is_guid chain contested idb idb'"
    and "attestation_by (world idb t) aid = Some a" and "attState a \<noteq> Va_draft"
  shows "\<exists>a'. attestation_by (world idb' t) aid = Some a' \<and> attState a' \<noteq> Va_draft \<and>
    reach attestationMachine (attState a) (attState a') \<and>
    a' = a\<lparr>attState := attState a', attRevokedAt := attRevokedAt a', attRevokedBy := attRevokedBy a',
           attRevokeReason := attRevokeReason a'\<rparr>"
proof -
  from atts.row_kept [OF run_effects [OF assms(1)] assms(2)]
  obtain a' where a': "attestation_by (world idb' t) aid = Some a'" "att_evolves a a'" by blast
  moreover have "attState a' \<noteq> Va_draft" using a'(2) assms(3) leaves_draft by (auto simp: att_evolves_def)
  ultimately show ?thesis using assms(3) by (auto simp: att_evolves_def sealed_def)
qed

theorem signed_attestation_is_final_witness:
  "\<exists>idb a. review_reach sample_hash sample_recovery any_guid 1 False idb \<and>
     attestation_by (world idb (js ''t'')) (js ''at'') = Some a \<and> attState a \<noteq> Va_draft \<and>
     reach attestationMachine Va_signed (attState a)"
proof -
  obtain idb where idb: "sample_at signed_db [js ''4'', js ''3'', js ''2'', js ''1''] idb" using sample_signs by blast
  then have reach: "review_reach sample_hash sample_recovery any_guid 1 False idb" by (simp add: sample_at_def)
  obtain a where a: "attestation_by (world idb (js ''t'')) (js ''at'') = Some a" "attState a = Va_signed"
    using signed_facts sample_tables [OF idb] by auto
  have "review_run sample_hash sample_recovery any_guid 1 False idb idb" by (rule review_run.stay)
  from signed_attestation_is_final [OF this a(1)] a reach show ?thesis by auto
qed

lemma submit_fresh:
  assumes "submitSignature k recover is_guid chain now today q aid body idb = Inr (v, idb')"
    and "requireMutationContext (revHead q) = Inr (s, tenant, key)" and "keys idb (tenant, key) = None"
    and "body = Some (rid, signature)"
  shows "\<exists>db'. sign_work k recover chain now today s tenant aid rid signature q (world idb tenant) = Inr (v, db') \<and>
    world idb' = (world idb)(tenant := db')"
proof -
  have "parse_signature is_guid body \<noteq> None"
    using assms(1,2) by (auto simp: submitSignature_def split: option.splits)
  then have "parse_signature is_guid body = Some (rid, signature)"
    using assms(4) by (auto simp: parse_signature_def split: if_splits)
  then have "review_mutation tenant key q (sign_work k recover chain now today s tenant aid rid signature q) idb = Inr (v, idb')"
    using assms(1,2) by (simp add: submitSignature_def)
  then show ?thesis
    using assms(3)
    by (auto simp: review_mutation_def withIdempotency_def withTenant_def and_then_eq_Inr_iff completeIdempotency_def)
qed

text \<open>
  C6. A request is used once. When a signature was accepted for a request, every later signature for that
  request is refused, by whomever and for whatever attestation of the tenant it is sent, however good it is
  and whatever happened in between, unless it repeats the mutation under its own key.
\<close>

theorem signature_request_used_once:
  assumes "submitSignature k recover is_guid chain now today q aid (Some (rid, signature)) idb = Inr (v, idb')"
    and "requireMutationContext (revHead q) = Inr (s, tenant, key)" and "keys idb (tenant, key) = None"
    and "review_run k recover is_guid chain contested idb' idb''"
    and "requireMutationContext (revHead q2) = Inr (s2, tenant, key2)" and "keys idb'' (tenant, key2) = None"
    and "parse_signature is_guid (Some (rid, signature2)) \<noteq> None"
  shows "submitSignature k recover is_guid chain now2 today2 q2 aid2 (Some (rid, signature2)) idb'' =
    Inl (conflict (js ''SIGNATURE_REQUEST_UNUSABLE'')
      (js ''This signature request has already been used or has expired'') None)"
proof -
  obtain db' where work: "sign_work k recover chain now today s tenant aid rid signature q (world idb tenant) = Inr (v, db')"
    and db': "world idb' tenant = db'"
    using submit_fresh [OF assms(1-3) refl] by auto
  obtain r where "request_by db' rid = Some r" "sreqConsumed r \<noteq> None"
    by (rule sign_effect [OF work]) (auto simp: row_by_set_row)
  with reqs.row_kept [OF run_effects [OF assms(4)], of tenant rid r] db'
  obtain r' where r': "request_by (world idb'' tenant) rid = Some r'" "req_evolves r r'" "sreqConsumed r \<noteq> None" by blast
  then obtain used where "sreqConsumed r' = Some used" by (auto simp: req_evolves_def)
  moreover have "parse_signature is_guid (Some (rid, signature2)) = Some (rid, signature2)"
    using assms(7) by (auto simp: parse_signature_def split: if_splits)
  ultimately show ?thesis
    using assms(5,6) r'(1)
    by (simp add: submitSignature_def review_mutation_def withIdempotency_def withTenant_def sign_work_def consume_request_def
        usable_request_def)
qed

theorem signature_request_used_once_witness:
  "\<exists>idb idb' v. submitSignature sample_hash sample_recovery any_guid 1 4000 sample_today (sent reviewer (js ''4''))
       (js ''at'') (Some (js ''rq'', js ''0xab'')) idb = Inr (v, idb') \<and>
     submitSignature sample_hash sample_recovery any_guid 1 4001 sample_today (sent reviewer (js ''5''))
       (js ''at'') (Some (js ''rq'', js ''0xab'')) idb' = Inl (conflict (js ''SIGNATURE_REQUEST_UNUSABLE'')
         (js ''This signature request has already been used or has expired'') None)"
proof -
  obtain idb idb' v where run: "sample_at asked_db [js ''3'', js ''2'', js ''1''] idb"
    "submitSignature sample_hash sample_recovery any_guid 1 4000 sample_today (sent reviewer (js ''4'')) (js ''at'')
       (Some (js ''rq'', js ''0xab'')) idb = Inr (v, idb')"
    "sample_at signed_db [js ''4'', js ''3'', js ''2'', js ''1''] idb'" using sample_signs by blast
  note from_reviewer = sent_context [of "js ''rev''" "js ''reviewer_cp_qp''", folded reviewer_def]
  have "keys idb (js ''t'', js ''0123456789abcdef'' @ js ''4'') = None" using run(1) by (simp add: sample_at_def)
  moreover have "keys idb' (js ''t'', js ''0123456789abcdef'' @ js ''5'') = None" using run(3) by (simp add: sample_at_def)
  moreover have "parse_signature any_guid (Some (js ''rq'', js ''0xab'')) \<noteq> None" by code_simp
  ultimately have "submitSignature sample_hash sample_recovery any_guid 1 4001 sample_today (sent reviewer (js ''5''))
       (js ''at'') (Some (js ''rq'', js ''0xab'')) idb' = Inl (conflict (js ''SIGNATURE_REQUEST_UNUSABLE'')
         (js ''This signature request has already been used or has expired'') None)"
    by (intro signature_request_used_once [OF run(2) from_reviewer _ review_run.stay from_reviewer])
  with run(2) show ?thesis by blast
qed

lemma accepted_basis:
  assumes "acceptance_basis today a asg cred db = Inr ()"
  shows "credStatus cred = Cred_valid \<and> assignmentRevokedAt asg = None \<and> assignmentCase asg = attCase a \<and>
    set (map claimType (scoped_claims db (attScope a))) \<subseteq> set (credScope cred) \<and>
    list_all (\<lambda>au. isAuthorityInForce (authFacts au) today) (source_authorities db (attScope a)) \<and>
    (\<exists>issuing. Option.bind (credIssuer cred) (row_by authId (authorities db)) = Some issuing \<and>
       isAuthorityInForce (authFacts issuing) today \<and>
       set (map claimType (scoped_claims db (attScope a))) \<subseteq> set (recognizedScope (authFacts issuing)))"
proof -
  let ?b = "basis_input db today cred (attScope a)"
  have "basisBlockers (evaluateAuthorityBasis ?b) (credStatus cred) True
      (assignmentRevokedAt asg = None \<and> assignmentCase asg = attCase a) = []"
    using assms by (simp add: acceptance_basis_def loadAuthorityBasis_def Let_def split: if_splits)
  then have "credStatus cred = Cred_valid \<and> assignmentRevokedAt asg = None \<and> assignmentCase asg = attCase a"
    and "authorityAccepted (evaluateAuthorityBasis ?b)" and "claimWithinAuthorityScope (evaluateAuthorityBasis ?b)"
    and "credentialScopeCoversClaims (evaluateAuthorityBasis ?b)"
    by (auto simp: basisBlockers_def blockers_Nil_iff split: if_splits)
  then show ?thesis
    unfolding basis_accepted_iff basis_scope_iff basis_credential_iff
    by (auto simp: basis_input_def list_all_iff)
qed

text \<open>
  C8. What an accepted signature has been checked against. The request was made for the attestation, not used and
  not expired, the case still had the snapshot of the request, the signature recovers to the wallet in use of the
  appointed reviewer, who is not suspended, the assignment was in force, the credential valid and in scope, its
  issuer recorded and in force for every claim type and every source authority in force. The signature, its signer
  and its time are stored and the request is used up.
\<close>

theorem accepted_signature:
  assumes "submitSignature k recover is_guid chain now today q aid (Some (rid, signature)) idb = Inr (v, idb')"
    and "requireMutationContext (revHead q) = Inr (s, tenant, key)" and "keys idb (tenant, key) = None"
    and "db = world idb tenant"
  shows "\<exists>r a c asg cred addr someone issuing a'.
    request_by db rid = Some r \<and> sreqAttestation r = aid \<and> sreqConsumed r = None \<and> now < sreqExpires r * 1000 \<and>
    attestation_by db aid = Some a \<and> case_by db (attCase a) = Some c \<and> caseSnapshot c = sreqSnapshot r \<and>
    assignment_by db (attAssignment a) = Some asg \<and> assignmentCase asg = attCase a \<and> assignmentRevokedAt asg = None \<and>
    recover (attestationDomain k chain) (request_message a r) signature = Some addr \<and>
    row_by subjId (subjects db) (assignmentSubject asg) = Some someone \<and> \<not> subjSuspended someone \<and>
    subjectSigningWallet db (assignmentSubject asg) chain = Some (js_lower (js_lower addr)) \<and>
    credential_by db (attCredential a) = Some cred \<and> credStatus cred = Cred_valid \<and>
    set (map claimType (scoped_claims db (attScope a))) \<subseteq> set (credScope cred) \<and>
    Option.bind (credIssuer cred) (row_by authId (authorities db)) = Some issuing \<and>
    isAuthorityInForce (authFacts issuing) today \<and>
    set (map claimType (scoped_claims db (attScope a))) \<subseteq> set (recognizedScope (authFacts issuing)) \<and>
    list_all (\<lambda>au. isAuthorityInForce (authFacts au) today) (source_authorities db (attScope a)) \<and>
    attestation_by (world idb' tenant) aid = Some a' \<and> attSignature a' = signature \<and> attSigner a' = js_lower addr \<and>
    attSignedAt a' = now \<and> request_by (world idb' tenant) rid = Some (r\<lparr>sreqConsumed := Some now\<rparr>)"
proof -
  obtain db' where work: "sign_work k recover chain now today s tenant aid rid signature q db = Inr (v, db')"
    and db': "world idb' tenant = db'"
    using submit_fresh [OF assms(1-3) refl] assms(4) by auto
  obtain r a c asg cred addr versions row where w:
    "request_by db rid = Some r" "usable_request now aid r" "signature_context db aid = Some (a, c, asg, cred)"
    "caseSnapshot c = sreqSnapshot r" "recover (attestationDomain k chain) (request_message a r) signature = Some addr"
    "assertSubjectSigner db (assignmentSubject asg) chain (js_lower addr)
           (js ''Signer is not a wallet of the reviewer assigned to this case'') = Inr (js_lower (js_lower addr))"
    "acceptance_basis today a asg cred db = Inr ()" "row = signed_row now signature (js_lower addr) versions cred a"
    "attestations db' = with_signed row (attestations db)"
    "signature_requests db' = set_row sreqId rid (\<lambda>x. x\<lparr>sreqConsumed := Some now\<rparr>) (signature_requests db)"
    by (rule sign_effect [OF work])
  note at = w(3) [unfolded signature_context_Some]
  have "attId row = aid" using at by (auto simp: w(8) signed_row_def dest: row_by_Some)
  then obtain a' where "attestation_by db' aid = Some a'" "sealed row a'"
    using at by (simp add: w(9) with_signed_lookup Let_def sealed_superseded)
  then have "attestation_by db' aid = Some a' \<and> attSignature a' = signature \<and> attSigner a' = js_lower addr \<and> attSignedAt a' = now"
    using sealed_body by (fastforce simp: same_body_def w(8) signed_row_def)
  moreover have "request_by db' rid = Some (r\<lparr>sreqConsumed := Some now\<rparr>)"
    using w(1) by (simp add: w(10) row_by_set_row)
  ultimately show ?thesis
    using w(1,2,4,5) at accepted_basis [OF w(7)] w(6) unfolding db' assertSubjectSigner_Inr usable_request_def by blast
qed

theorem accepted_signature_witness:
  "\<exists>idb idb' v (asg :: assignment_row). submitSignature sample_hash sample_recovery any_guid 1 4000 sample_today (sent reviewer (js ''4''))
       (js ''at'') (Some (js ''rq'', js ''0xab'')) idb = Inr (v, idb') \<and>
     subjectSigningWallet (world idb (js ''t'')) (assignmentSubject asg) 1 = Some (js_lower (js_lower (js ''0xAnn'')))"
proof -
  obtain idb idb' v where run: "sample_at asked_db [js ''3'', js ''2'', js ''1''] idb"
    "submitSignature sample_hash sample_recovery any_guid 1 4000 sample_today (sent reviewer (js ''4'')) (js ''at'')
       (Some (js ''rq'', js ''0xab'')) idb = Inr (v, idb')" using sample_signs by blast
  note from_reviewer = sent_context [of "js ''rev''" "js ''reviewer_cp_qp''", folded reviewer_def]
  have "keys idb (js ''t'', js ''0123456789abcdef'' @ js ''4'') = None" using run(1) by (simp add: sample_at_def)
  from accepted_signature [OF run(2) from_reviewer this refl]
  obtain asg :: assignment_row and addr a r where "sample_recovery (attestationDomain sample_hash 1) (request_message a r) (js ''0xab'') = Some addr"
    "subjectSigningWallet (world idb (js ''t'')) (assignmentSubject asg) 1 = Some (js_lower (js_lower addr))"
    by (elim exE conjE) blast
  then have "subjectSigningWallet (world idb (js ''t'')) (assignmentSubject asg) 1 = Some (js_lower (js_lower (js ''0xAnn'')))"
    by (simp add: sample_recovery_def)
  with run(2) show ?thesis by blast
qed

section \<open>Reviewers and claims\<close>

text \<open>
  C7. A case has one reviewer at a time, an independent one. After any history of requests no two appointments to a
  case are in force together, and nobody was ever appointed by themselves, to evidence they submitted as far as the
  submitters were known, or while an organization of theirs operated the project.
\<close>

theorem one_independent_reviewer:
  assumes "review_reach k recover is_guid chain contested idb"
  shows "length (filter (\<lambda>a. assignmentCase a = cid \<and> assignmentRevokedAt a = None) (assignments (world idb t))) \<le> 1 \<and>
    list_all (\<lambda>a. assignedBy a \<noteq> Some (assignmentSubject a) \<and>
        assignmentSubject a \<notin> set (basisSubmitters (assignmentBasis a)) \<and>
        set (basisReviewerOrganizations (assignmentBasis a)) \<inter> set (basisOperatorOrganizations (assignmentBasis a)) = {})
      (assignments (world idb t))"
  using reach_sound(2) [OF assms, of t]
  by (simp add: assignments_sound_def active_in_def independent_row_def [abs_def])

theorem one_independent_reviewer_witness:
  "\<exists>idb. review_reach sample_hash sample_recovery any_guid 1 False idb \<and>
     assignments (world idb (js ''t'')) = [sample_assignment] \<and>
     length (filter (\<lambda>a. assignmentCase a = js ''cs'' \<and> assignmentRevokedAt a = None) (assignments (world idb (js ''t'')))) \<le> 1"
proof -
  obtain idb where idb: "sample_at drafted_db [js ''2'', js ''1''] idb" using sample_drafts by blast
  then have reach: "review_reach sample_hash sample_recovery any_guid 1 False idb" by (simp add: sample_at_def)
  have "assignments (world idb (js ''t'')) = [sample_assignment]" using sample_tables [OF idb] drafted_tables(3) by simp
  with reach one_independent_reviewer [OF reach, of "js ''cs''" "js ''t''"] show ?thesis by blast
qed

lemma best_established_mem:
  "best_established best ts = best \<or> (\<exists>t \<in> set ts. best_established best ts = STATE_ESTABLISHED_BY t)"
proof (induction ts arbitrary: best)
  case (Cons t ts)
  have "best_established best (t # ts) \<in> {best_established best ts, best_established (STATE_ESTABLISHED_BY t) ts}"
    by (simp add: Let_def)
  then show ?case using Cons.IH [of best] Cons.IH [of "STATE_ESTABLISHED_BY t"] by auto
qed simp

text \<open>
  C2. No claim is better assessed than a signature establishes. In a history without disputes, a claim whose state is
  neither unreviewed nor rejected is covered by an attestation that stands, was signed with a request for it that was
  consumed, and is of a type that establishes just this state.
\<close>

theorem reviewed_claim_rests_on_signature:
  assumes "review_reach k recover is_guid chain False idb"
    and "claim_by (world idb t) i = Some c" and "claimState c \<notin> {Vs_unreviewed, Vs_rejected}"
  shows "\<exists>a rid r addr. attestation_by (world idb t) (attId a) = Some a \<and> attState a = Va_signed \<and> i \<in> set (attScope a) \<and>
    STATE_ESTABLISHED_BY (attType a) = claimState c \<and>
    request_by (world idb t) rid = Some r \<and> sreqAttestation r = attId a \<and> sreqConsumed r = Some (attSignedAt a) \<and>
    recover (attestationDomain k chain) (request_message a r) (attSignature a) = Some addr \<and> attSigner a = js_lower addr"
proof -
  let ?db = "world idb t"
  have sound: "claims_sound ?db" by (rule reach_sound(3) [OF assms(1) refl])
  have id: "claimId c = i" using assms(2) by (auto dest: row_by_Some)
  have "assessed ?db c" using sound assms(2) by (auto simp: claims_sound_def)
  then have "claimState c = best_established Vs_unreviewed (standingAttestationTypes ?db i)"
    using assms(3) id by (simp add: assessed_def derived_state_def deriveVerificationState_def)
  then obtain ty where "ty \<in> set (standingAttestationTypes ?db i)" "claimState c = STATE_ESTABLISHED_BY ty"
    using best_established_mem [of Vs_unreviewed "standingAttestationTypes ?db i"] assms(3) by auto
  then obtain a where a: "a \<in> set (attestations ?db)" "i \<in> set (attScope a)" "attState a \<in> {Va_signed, Va_active}"
    "STATE_ESTABLISHED_BY (attType a) = claimState c"
    by (auto simp: standingAttestationTypes_def STANDING_ATTESTATION_STATES_def)
  moreover have "never_active a" using sound a(1) by (simp add: claims_sound_def list_all_iff)
  ultimately have signed: "attState a = Va_signed" by (auto simp: never_active_def)
  have row: "attestation_by ?db (attId a) = Some a"
    using sound a(1) by (intro row_by_unique) (simp_all add: claims_sound_def)
  have "vouched k recover chain ?db a"
    using reach_sound(1) [OF assms(1), of t] row signed by (simp add: attestations_sound_def)
  then show ?thesis using row signed a by (auto simp: vouched_def)
qed

theorem reviewed_claim_rests_on_signature_witness:
  "\<exists>idb c (a :: attestation_row). review_reach sample_hash sample_recovery any_guid 1 False idb \<and>
     claim_by (world idb (js ''t'')) (js ''cl'') = Some c \<and> claimState c = Vs_independently_assured \<and>
     attState a = Va_signed \<and> js ''cl'' \<in> set (attScope a) \<and> STATE_ESTABLISHED_BY (attType a) = Vs_independently_assured"
proof -
  obtain idb where idb: "sample_at signed_db [js ''4'', js ''3'', js ''2'', js ''1''] idb" using sample_signs by blast
  then have reach: "review_reach sample_hash sample_recovery any_guid 1 False idb" by (simp add: sample_at_def)
  obtain c where c: "claim_by (world idb (js ''t'')) (js ''cl'') = Some c" "claimState c = Vs_independently_assured"
    using signed_facts sample_tables [OF idb] by auto
  with reviewed_claim_rests_on_signature [OF reach c(1)]
  have "\<exists>a :: attestation_row. attState a = Va_signed \<and> js ''cl'' \<in> set (attScope a) \<and> STATE_ESTABLISHED_BY (attType a) = Vs_independently_assured"
    by auto
  with reach c show ?thesis by blast
qed

section \<open>Disputes\<close>

text \<open>
  An attestation whose dispute was upheld comes back: when a later dispute of it is dismissed, and no other is
  open, it is active again.
\<close>

definition upheld_dispute :: dispute_row where
  "upheld_dispute =
     \<lparr>dispId = js ''d1'', dispAttestation = js ''at'', dispReason = js ''wrong'', dispDetail = js ''x'', dispRaisedBy = None,
      dispRaisedAt = 1, dispResolvedAt = Some 2, dispResolution = Some (js ''upheld: wrong'')\<rparr>"

definition later_dispute :: dispute_row where
  "later_dispute =
     \<lparr>dispId = js ''d2'', dispAttestation = js ''at'', dispReason = js ''late'', dispDetail = js ''y'', dispRaisedBy = None,
      dispRaisedAt = 3, dispResolvedAt = None, dispResolution = None\<rparr>"

lemma upheld_dispute_is_lifted:
  "\<exists>v db'. resolve_work 4 steward (js ''t'') (js ''data_steward'') (js ''d2'') (js ''dismissed'') (js ''fine'') (sent steward (js ''9''))
       (start_db\<lparr>attestations := [sample_row\<lparr>attState := Va_disputed\<rparr>], disputes := [upheld_dispute, later_dispute]\<rparr>) = Inr (v, db') \<and>
     map attState (attestations db') = [Va_active]"
  by (simp add: resolve_work_def upheld_dispute_def later_dispute_def row_by_def set_row_def open_disputes_def resolved_row_def
      log_audit_def Let_def)

end
