(* ===== verification/Evidence_Ledger.thy ===== *)
theory Evidence_Ledger
  imports Policy_Laws Attestation Leaf
begin

text \<open>
  The evidence ledger of a project (\<open>packages/db/src/evidence-ledger.ts\<close>): the status of each item of the
  catalog, the facts a stage rule is evaluated on, the coverage of a stage, the ledger computed from the rows
  that its queries return, the public projection and the table of snapshots. The rows are the input; a validity
  that a query computes is a function of the columns. The commitment to the whole input is the argument
  \<open>commit\<close>, and a policy definition that the schema does not read as a rule set is \<open>None\<close>.
\<close>

section \<open>Rows and items\<close>

datatype ledger_item_status =
  Li_missing | Li_unreviewed | Li_reviewed | Li_needs_re_review | Li_conflicting | Li_rejected | Li_not_applicable

record ledger_claim =
  ledgerClaim :: js_string
  ledgerType :: js_string
  catalogEntry :: js_string
  ledgerVersion :: nat
  ledgerGrade :: grade
  asOfTime :: "int option"
  ledgerStale :: bool
  hasEvidence :: bool
  conflictIds :: "js_string list"
  conflictTypes :: "js_string list"
  ledgerExcluded :: bool

record ledger_attestation =
  ledgerAttestation :: js_string
  ledgerScope :: "js_string list"
  ledgerAttestationType :: attestation_type
  ledgerState :: attestation_state
  ledgerLimitations :: js_string
  ledgerValid :: bool
  ledgerReviewer :: "js_string option"
  ledgerCredentialType :: "js_string option"
  ledgerSignedAt :: js_string

record ledger_review =
  reviewerHandle :: js_string
  credentialType :: js_string
  reviewType :: attestation_type
  reviewSignedAt :: js_string
  limitationsText :: js_string

record item_judgement =
  itemStatus :: ledger_item_status
  itemReasons :: "js_string list"
  itemAttestations :: "js_string list"
  itemLimitations :: "js_string list"

record ledger_item = item_judgement +
  itemType :: js_string
  itemVersion :: nat
  itemName :: js_string
  itemGrade :: "grade option"
  itemScope :: "js_string list"
  itemReviews :: "ledger_review list"
  itemClaims :: "js_string list"

record ledger_stage =
  stageGate :: js_string
  stagePolicy :: js_string
  stageRuleVersion :: js_string
  stageStatus :: readiness_status
  stageMissing :: "js_string list"
  reviewedItems :: js_string
  requiredItems :: js_string

definition LEDGER_LIMITATIONS :: "js_string list" where
  "LEDGER_LIMITATIONS =
     [js ''Computed evidence coverage is not a legal, investment, or operating approval.'',
      js ''Manual project confirmations and publication permissions remain separate.'']"

definition STAGE_GATE_ORDER :: "js_string list" where
  "STAGE_GATE_ORDER =
     [js ''stage.exploration'', js ''stage.resource_defined'', js ''stage.feasibility'', js ''stage.permitted'',
      js ''stage.production'']"

section \<open>The status of an item\<close>

definition covers_some :: "ledger_claim list \<Rightarrow> ledger_attestation \<Rightarrow> bool" where
  "covers_some cs a \<longleftrightarrow> list_ex (\<lambda>i. list_ex (\<lambda>c. ledgerClaim c = i) cs) (ledgerScope a)"

definition deriveLedgerItemStatus :: "ledger_claim list \<Rightarrow> ledger_attestation list \<Rightarrow> bool \<Rightarrow> item_judgement" where
  "deriveLedgerItemStatus cs atts explicitlyNotApplicable =
     (let relevant = filter (covers_some cs) atts; valid = filter ledgerValid relevant;
          judged = (\<lambda>st reason. \<lparr>itemStatus = st, itemReasons = [reason],
            itemAttestations = sort (map ledgerAttestation (filter (\<lambda>a. ledgerState a \<noteq> Va_superseded) relevant)),
            itemLimitations = map ledgerLimitations valid\<rparr>) in
      if list_ex (\<lambda>c. length (conflictIds c) > 0) cs \<or> list_ex (\<lambda>a. ledgerState a = Va_disputed) relevant
      then judged Li_conflicting (js ''UNRESOLVED_CONFLICT'')
      else if list_ex ledgerStale cs \<or> list_ex (\<lambda>a. \<not> ledgerValid a \<and> ledgerState a \<noteq> Va_superseded) relevant
      then judged Li_needs_re_review (js ''EVIDENCE_OR_REVIEW_NO_LONGER_CURRENT'')
      else if list_ex (\<lambda>c. ledgerGrade c = Gr_rejected \<or> ledgerExcluded c) cs
      then judged Li_rejected (js ''REJECTED_OR_EXCLUDED_EVIDENCE'')
      else if explicitlyNotApplicable then judged Li_not_applicable (js ''RECORDED_NOT_APPLICABLE'')
      else if length cs = 0 then judged Li_missing (js ''NO_CATALOG_CLAIM'')
      else if list_all (\<lambda>c. hasEvidence c \<and> list_ex (\<lambda>a. ledgerClaim c \<in> set (ledgerScope a)) valid) cs
      then judged Li_reviewed (js ''CURRENT_SCOPED_REVIEW'')
      else judged Li_unreviewed (js ''CURRENT_SCOPED_REVIEW_REQUIRED''))"

section \<open>Coverage\<close>

definition required_types :: "requirement list \<Rightarrow> requirement_result list \<Rightarrow> js_string list" where
  "required_types rs results =
     (let applicableIds = map resultId (filter applicable results)
      in js_uniq (concat (map requiredClaimTypes (filter (\<lambda>r. requirementId r \<in> set applicableIds) rs))))"

text \<open>What one type adds to the count: nothing, a required item, or a required item that is reviewed.\<close>

definition type_items :: "'a ledger_item_scheme list \<Rightarrow> js_string \<Rightarrow> 'a ledger_item_scheme list" where
  "type_items items ty =
     (let candidates = filter (\<lambda>i. itemType i = ty) items; pinned = filter (\<lambda>i. length (itemClaims i) > 0) candidates
      in filter (\<lambda>i. itemStatus i \<noteq> Li_not_applicable) (if length pinned > 0 then pinned else candidates))"

definition type_counts :: "'a ledger_item_scheme list \<Rightarrow> js_string \<Rightarrow> bool" where
  "type_counts items ty \<longleftrightarrow>
     \<not> (length (filter (\<lambda>i. itemType i = ty) items) > 0 \<and> length (type_items items ty) = 0)"

definition type_reviewed :: "'a ledger_item_scheme list \<Rightarrow> js_string \<Rightarrow> bool" where
  "type_reviewed items ty \<longleftrightarrow>
     length (type_items items ty) > 0 \<and> list_all (\<lambda>i. itemStatus i = Li_reviewed) (type_items items ty)"

fun count_types :: "'a ledger_item_scheme list \<Rightarrow> js_string list \<Rightarrow> nat \<times> nat \<Rightarrow> nat \<times> nat" where
  "count_types items [] counts = counts"
| "count_types items (ty # tys) (seen, required) =
     (if \<not> type_counts items ty then count_types items tys (seen, required)
      else count_types items tys (if type_reviewed items ty then seen + 1 else seen, required + 1))"

definition stageEvidenceCoverage ::
    "requirement list \<Rightarrow> requirement_result list \<Rightarrow> 'a ledger_item_scheme list \<Rightarrow> js_string \<times> js_string" where
  "stageEvidenceCoverage rs results items =
     (let (seen, required) = count_types items (required_types rs results) (0, 0)
      in (js_decimal seen, js_decimal required))"

section \<open>The facts of a requirement\<close>

definition DAY_MS :: int where
  "DAY_MS = 86400000"

text \<open>\<open>String(n)\<close> of an integer.\<close>

definition js_integer :: "int \<Rightarrow> js_string" where
  "js_integer n = (if n < 0 then 0x2D # js_decimal (nat (- n)) else js_decimal (nat n))"

definition future_dated :: "int \<Rightarrow> ledger_claim \<Rightarrow> bool" where
  "future_dated now c \<longleftrightarrow> (case asOfTime c of None \<Rightarrow> False | Some t \<Rightarrow> t div DAY_MS > now div DAY_MS)"

definition included_claims :: "ledger_claim list \<Rightarrow> 'a ledger_item_scheme list \<Rightarrow> ledger_claim list" where
  "included_claims cs items =
     filter (\<lambda>c. \<not> list_ex (\<lambda>i. itemStatus i = Li_not_applicable \<and> itemType i = ledgerType c \<and>
        itemVersion i = ledgerVersion c) items) cs"

definition spoiled :: "int \<Rightarrow> ledger_attestation list \<Rightarrow> ledger_attestation list \<Rightarrow> ledger_claim \<Rightarrow> bool" where
  "spoiled now atts covered c \<longleftrightarrow>
     ledgerStale c \<or> ledgerExcluded c \<or> ledgerGrade c = Gr_rejected \<or> future_dated now c \<or> \<not> hasEvidence c \<or>
     \<not> list_ex (\<lambda>a. ledgerClaim c \<in> set (ledgerScope a)) covered \<or>
     list_ex (\<lambda>a. ledgerClaim c \<in> set (ledgerScope a) \<and> \<not> ledgerValid a \<and> ledgerState a \<noteq> Va_superseded) atts"

definition ledgerRequirementEvidence ::
    "js_string list \<Rightarrow> ledger_claim list \<Rightarrow> ledger_attestation list \<Rightarrow> 'a ledger_item_scheme list \<Rightarrow> int \<Rightarrow> facts \<Rightarrow>
     requirement_facts" where
  "ledgerRequirementEvidence types cs atts items now context' =
     (let incl = included_claims cs items; relevant = filter (\<lambda>c. ledgerType c \<in> set types) incl;
          covered = filter (\<lambda>a. ledgerValid a \<and> covers_some relevant a) atts in
      \<lparr>presentClaimTypes = js_uniq (map ledgerType (filter (\<lambda>c. hasEvidence c \<and> \<not> ledgerExcluded c) incl)),
       presentGrade = (if length relevant > 0 then Some (weakestGrade (map ledgerGrade relevant)) else None),
       presentAttestations = js_uniq (map ledgerAttestationType covered),
       evidenceAgeDays =
         (if length relevant = 0 \<or> list_ex (\<lambda>c. asOfTime c = None \<or> future_dated now c) relevant then None
          else Some (js_integer (Max (set (map (\<lambda>c. now div DAY_MS - the (asOfTime c) div DAY_MS) relevant))))),
       unresolvedConflictTypes = sort (js_uniq (concat (map conflictTypes relevant))),
       staleEvidence = js_uniq (map ledgerType (filter (spoiled now atts covered) relevant)),
       context_facts = context'\<rparr>)"

section \<open>The ledger of a project\<close>

record attestation_columns =
  colId :: js_string
  colScope :: "js_string list"
  colType :: attestation_type
  colState :: attestation_state
  colLimitations :: js_string
  colSignature :: js_string
  colSignedAt :: int
  colValidUntil :: "int option"
  colReviewer :: js_string
  colCredentialType :: js_string
  colCredentialStatus :: credential_current_status
  colCredentialRevoked :: "int option"
  colCredentialExpires :: "int option"
  colSchemaState :: attestation_schema_state

record catalog_row =
  catalogId :: js_string
  catalogType :: js_string
  catalogVersion :: nat
  displayName :: js_string

record stage_policy =
  policyId :: js_string
  policyGate :: js_string
  policyDefinition :: "rule_set option"

record profile_row =
  profileState :: js_string
  environmentalBasis :: "js_string option"

record ledger_input =
  ledgerTenant :: js_string
  ledgerProject :: js_string
  referenceStatus :: js_string
  ledgerCatalog :: "catalog_row list"
  ledgerClaims :: "ledger_claim list"
  ledgerColumns :: "attestation_columns list"
  manualFacts :: "(js_string \<times> js_string) list"
  stagePolicies :: "stage_policy list"
  stageProfile :: "profile_row option"

record evidence_ledger =
  snapshotProject :: js_string
  snapshotTime :: js_string
  snapshotHash :: js_string
  ledgerItems :: "ledger_item list"
  ledgerStages :: "ledger_stage list"
  currentStage :: "js_string option"
  ledgerNotes :: "js_string list"

datatype ledger_error = Not_canonical canonical_error | Not_evaluable engine_error

text \<open>The column \<open>valid\<close> of the query of attestations, and the rows it returns.\<close>

definition attestation_current :: "int \<Rightarrow> attestation_columns \<Rightarrow> bool" where
  "attestation_current now a \<longleftrightarrow>
     colState a \<in> {Va_signed, Va_active} \<and> colSignature a \<noteq> [] \<and> colSignedAt a \<le> now \<and>
     (case colValidUntil a of None \<Rightarrow> True | Some t \<Rightarrow> t > now) \<and>
     colCredentialStatus a = Cred_valid \<and> colCredentialRevoked a = None \<and>
     (case colCredentialExpires a of None \<Rightarrow> True | Some t \<Rightarrow> t > now) \<and>
     colSchemaState a \<in> {As_active, As_approved}"

definition attestation_rows :: "(int \<Rightarrow> js_string) \<Rightarrow> int \<Rightarrow> ledger_input \<Rightarrow> ledger_attestation list" where
  "attestation_rows stamp now input =
     map (\<lambda>a. \<lparr>ledgerAttestation = colId a, ledgerScope = colScope a, ledgerAttestationType = colType a,
            ledgerState = colState a, ledgerLimitations = colLimitations a, ledgerValid = attestation_current now a,
            ledgerReviewer = Some (colReviewer a), ledgerCredentialType = Some (colCredentialType a),
            ledgerSignedAt = stamp (colSignedAt a)\<rparr>)
       (sort_key colId (filter (\<lambda>a. colState a \<noteq> Va_draft \<and>
          list_ex (\<lambda>c. ledgerClaim c \<in> set (colScope a)) (ledgerClaims input)) (ledgerColumns input)))"

definition review_of :: "(bytes \<Rightarrow> bytes) \<Rightarrow> js_string \<Rightarrow> ledger_attestation \<Rightarrow> ledger_error + ledger_review" where
  "review_of k tenant a =
     (case canonicalBytes [JRecord [(js ''tenantId'', JString tenant),
             (js ''subjectId'', JString (case ledgerReviewer a of None \<Rightarrow> [] | Some r \<Rightarrow> r))]] (JRef 0) of
        Inl e \<Rightarrow> Inl (Not_canonical e)
      | Inr bs \<Rightarrow>
          Inr \<lparr>reviewerHandle = keccak256 k bs,
               credentialType = (case ledgerCredentialType a of None \<Rightarrow> js ''unknown'' | Some t \<Rightarrow> t),
               reviewType = ledgerAttestationType a, reviewSignedAt = ledgerSignedAt a,
               limitationsText = ledgerLimitations a\<rparr>)"

definition ledger_item_of ::
    "(bytes \<Rightarrow> bytes) \<Rightarrow> ledger_input \<Rightarrow> ledger_attestation list \<Rightarrow> catalog_row \<Rightarrow> ledger_error + ledger_item" where
  "ledger_item_of k input atts entry =
     (let relevant = filter (\<lambda>c. catalogEntry c = catalogId entry) (ledgerClaims input);
          result = deriveLedgerItemStatus relevant atts
            (list_ex (\<lambda>(key, st). key = catalogType entry \<and> st = js ''not_applicable'') (manualFacts input)) in
      and_then (traverse (review_of k (ledgerTenant input)) (filter (\<lambda>a. ledgerValid a \<and> covers_some relevant a) atts))
        (\<lambda>reviews.
           Inr (item_judgement.extend result
             \<lparr>itemType = catalogType entry, itemVersion = catalogVersion entry, itemName = displayName entry,
              itemGrade = (if length relevant > 0 then Some (weakestGrade (map ledgerGrade relevant)) else None),
              itemScope = sort (js_uniq (map ledgerType
                (filter (\<lambda>c. list_ex (\<lambda>a. ledgerValid a \<and> ledgerClaim c \<in> set (ledgerScope a)) atts) relevant))),
              itemReviews = reviews, itemClaims = sort (map ledgerClaim relevant)\<rparr>)))"

text \<open>The facts of the context, the same for every requirement. An absent value is undefined.\<close>

definition stage_context :: "ledger_input \<Rightarrow> facts" where
  "stage_context input path =
     (if path = js ''referenceStatus'' \<or> path = js ''projectReferenceStatus'' then Some (Scalar (referenceStatus input))
      else if path = js ''jurisdictionProfileState'' then map_option (\<lambda>p. Scalar (profileState p)) (stageProfile input)
      else if path = js ''environmentalRequirementBasis''
      then map_option Scalar (Option.bind (stageProfile input) environmentalBasis)
      else if path = js ''openFindingCount''
      then Some (Scalar (js_decimal (sum_list (map (\<lambda>c. length (conflictIds c)) (ledgerClaims input)))))
      else None)"

text \<open>The rule set that counts for a gate, if there is one: the first policy of the gate, when it parses as one for it.\<close>

definition stage_rule :: "ledger_input \<Rightarrow> js_string \<Rightarrow> (stage_policy \<times> rule_set) option" where
  "stage_rule input gate =
     Option.bind (find (\<lambda>p. policyGate p = gate) (stagePolicies input)) (\<lambda>p.
     Option.bind (policyDefinition p) (\<lambda>rs.
       if ruleSet_valid rs \<and> ruleGateId rs = gate then Some (p, rs) else None))"

definition stage_facts ::
    "ledger_input \<Rightarrow> ledger_attestation list \<Rightarrow> 'a ledger_item_scheme list \<Rightarrow> int \<Rightarrow> rule_set \<Rightarrow> js_string \<Rightarrow>
     requirement_facts option" where
  "stage_facts input atts items now rs i =
     map_option (\<lambda>r. ledgerRequirementEvidence (requiredClaimTypes r) (ledgerClaims input) atts items now (stage_context input))
       (find (\<lambda>r. requirementId r = i) (rev (requirements rs)))"

definition stage_of ::
    "ledger_input \<Rightarrow> ledger_attestation list \<Rightarrow> ledger_item list \<Rightarrow> int \<Rightarrow> js_string \<Rightarrow> js_string \<Rightarrow> js_string \<Rightarrow>
     stage_policy \<times> rule_set \<Rightarrow> ledger_error + (ledger_stage \<times> (js_string \<times> js_string) list)" where
  "stage_of input atts items now asof hash gate pr =
     (case pr of (p, rs) \<Rightarrow>
      (case evaluateAssessment rs \<lparr>subjectId = ledgerProject input, gateId = gate, inputSnapshotHash = hash,
              evaluatedAsOf = asof, requirementFacts = stage_facts input atts items now rs\<rparr> of
         Inl e \<Rightarrow> Inl (Not_evaluable e)
       | Inr a \<Rightarrow>
           (let (seen, required) = stageEvidenceCoverage (requirements rs) (requirementResults a) items
            in Inr (\<lparr>stageGate = gate, stagePolicy = policyId p, stageRuleVersion = version rs,
                 stageStatus = (if list_ex applicable (requirementResults a) then assessmentStatus a else Rs_not_evaluable),
                 stageMissing = sort (js_uniq (concat (map missing (requirementResults a)))),
                 reviewedItems = seen, requiredItems = required\<rparr>,
               map (\<lambda>r. (policyId p, resultId r)) (filter applicable (requirementResults a))))))"

definition reached :: "ledger_stage list \<Rightarrow> js_string option" where
  "reached stages =
     (let oks = filter (\<lambda>s. stageStatus s = Rs_ok) stages
      in if oks = [] then None else Some (stageGate (last oks)))"

text \<open>
  \<open>commit\<close> hashes the input, without and then with the requirements that applied; \<open>stamp\<close> writes a time.
\<close>

definition computeEvidenceLedger ::
    "(bytes \<Rightarrow> bytes) \<Rightarrow> (ledger_input \<Rightarrow> (js_string \<times> js_string) list option \<Rightarrow> js_string) \<Rightarrow> (int \<Rightarrow> js_string) \<Rightarrow>
     int \<Rightarrow> ledger_input \<Rightarrow> ledger_error + evidence_ledger" where
  "computeEvidenceLedger k commit stamp now input =
     (let atts = attestation_rows stamp now input in
      and_then (traverse (ledger_item_of k input atts) (ledgerCatalog input)) (\<lambda>items.
      and_then (traverse (\<lambda>(gate, pr). stage_of input atts items now (stamp now) (commit input None) gate pr)
          (List.map_filter (\<lambda>gate. map_option (Pair gate) (stage_rule input gate)) STAGE_GATE_ORDER)) (\<lambda>stages.
      Inr \<lparr>snapshotProject = ledgerProject input, snapshotTime = stamp now,
           snapshotHash = commit input (Some (concat (map snd stages))), ledgerItems = items,
           ledgerStages = map fst stages, currentStage = reached (map fst stages),
           ledgerNotes = LEDGER_LIMITATIONS @
             (if length stages = 0 then [js ''No effective stage rules are available; stage is unknown.''] else [])\<rparr>)))"

section \<open>Snapshots\<close>

text \<open>What the public sees of an item and of a stage: no claims, no attestations, no policy.\<close>

definition public_item :: "ledger_item \<Rightarrow> ledger_item" where
  "public_item i = i\<lparr>itemClaims := [], itemAttestations := []\<rparr>"

definition public_stage :: "ledger_stage \<Rightarrow> ledger_stage" where
  "public_stage s = s\<lparr>stagePolicy := []\<rparr>"

record public_ledger =
  publicSnapshot :: js_string
  publicTime :: js_string
  publicHash :: js_string
  publicItems :: "ledger_item list"
  publicStages :: "ledger_stage list"
  publicStage :: "js_string option"
  publicNotes :: "js_string list"

definition publicLedgerProjection :: "js_string \<Rightarrow> evidence_ledger \<Rightarrow> public_ledger" where
  "publicLedgerProjection i s =
     \<lparr>publicSnapshot = i, publicTime = snapshotTime s, publicHash = snapshotHash s,
      publicItems = map public_item (ledgerItems s), publicStages = map public_stage (ledgerStages s),
      publicStage = currentStage s, publicNotes = ledgerNotes s\<rparr>"

type_synonym ledger_table = "((js_string \<times> js_string \<times> js_string) \<times> evidence_ledger) list"

definition persistEvidenceLedger :: "js_string \<Rightarrow> js_string \<Rightarrow> evidence_ledger \<Rightarrow> ledger_table \<Rightarrow> ledger_table" where
  "persistEvidenceLedger fresh tenant s rows = rows @ [((tenant, snapshotProject s, fresh), s)]"

definition loadEvidenceLedgerSnapshot ::
    "js_string \<Rightarrow> js_string \<Rightarrow> js_string \<Rightarrow> ledger_table \<Rightarrow> evidence_ledger option" where
  "loadEvidenceLedgerSnapshot tenant project i rows = map_of rows (tenant, project, i)"

end
