(* ===== verification/Ledger_Laws.thy ===== *)
theory Ledger_Laws
  imports Evidence_Ledger
begin

text \<open>
  What the evidence ledger promises: when an item counts as reviewed, what the coverage of a stage counts, and
  that the stage a project is shown to have reached rests on evidence that is reviewed now.
\<close>

section \<open>Items\<close>

lemma covers_some_iff: "covers_some cs a \<longleftrightarrow> (\<exists>c \<in> set cs. ledgerClaim c \<in> set (ledgerScope a))"
  by (auto simp: covers_some_def list_ex_iff)

lemma status_reviewed:
  "itemStatus (deriveLedgerItemStatus cs atts na) = Li_reviewed \<longleftrightarrow>
     \<not> list_ex (\<lambda>c. length (conflictIds c) > 0) cs \<and>
     \<not> list_ex (\<lambda>a. ledgerState a = Va_disputed) (filter (covers_some cs) atts) \<and> \<not> list_ex ledgerStale cs \<and>
     \<not> list_ex (\<lambda>a. \<not> ledgerValid a \<and> ledgerState a \<noteq> Va_superseded) (filter (covers_some cs) atts) \<and>
     \<not> list_ex (\<lambda>c. ledgerGrade c = Gr_rejected \<or> ledgerExcluded c) cs \<and> \<not> na \<and> cs \<noteq> [] \<and>
     list_all (\<lambda>c. hasEvidence c \<and>
       list_ex (\<lambda>a. ledgerClaim c \<in> set (ledgerScope a)) (filter ledgerValid (filter (covers_some cs) atts))) cs"
  unfolding deriveLedgerItemStatus_def Let_def by simp

text \<open>
  C39. An item is reviewed exactly when it has claims, each with evidence and a scope of a valid attestation that
  holds it, and nothing speaks against them: no conflict, no dispute, no stale, rejected or excluded claim, no
  attestation over any of them that is neither valid nor superseded, and no record that the item does not apply.
\<close>

theorem item_reviewed_iff:
  "itemStatus (deriveLedgerItemStatus cs atts na) = Li_reviewed \<longleftrightarrow>
     cs \<noteq> [] \<and> \<not> na \<and>
     (\<forall>c \<in> set cs. hasEvidence c \<and> (\<exists>a \<in> set atts. ledgerValid a \<and> ledgerClaim c \<in> set (ledgerScope a)) \<and>
        conflictIds c = [] \<and> \<not> ledgerStale c \<and> ledgerGrade c \<noteq> Gr_rejected \<and> \<not> ledgerExcluded c \<and>
        (\<forall>a \<in> set atts. ledgerClaim c \<in> set (ledgerScope a) \<longrightarrow>
           ledgerState a \<noteq> Va_disputed \<and> (ledgerValid a \<or> ledgerState a = Va_superseded)))"
  unfolding status_reviewed
  by (auto simp: list_ex_iff list_all_iff covers_some_iff) blast

section \<open>Coverage\<close>

lemma count_types_lengths:
  "count_types items tys (seen, required) =
     (seen + length (filter (\<lambda>ty. type_counts items ty \<and> type_reviewed items ty) tys),
      required + length (filter (type_counts items) tys))"
  by (induction tys arbitrary: seen required) auto

lemma js_decimal_inj: "js_decimal m = js_decimal n \<Longrightarrow> m = n"
  by (metis decimal_value_js_decimal)

lemma filter_conj_length: "length (filter (\<lambda>x. P x \<and> Q x) xs) = length (filter P xs) \<longleftrightarrow> (\<forall>x \<in> set xs. P x \<longrightarrow> Q x)"
proof (induction xs)
  case (Cons x xs)
  have "length (filter (\<lambda>x. P x \<and> Q x) xs) \<le> length (filter P xs)"
    by (induction xs) auto
  then show ?case using Cons.IH by auto
qed simp

lemma full_coverage:
  "stageEvidenceCoverage rs results items = (seen, needed) \<Longrightarrow>
     seen = needed \<longleftrightarrow> (\<forall>ty \<in> set (required_types rs results). type_counts items ty \<longrightarrow> type_reviewed items ty)"
  unfolding stageEvidenceCoverage_def count_types_lengths filter_conj_length [symmetric]
  by (auto dest: js_decimal_inj)

section \<open>The facts of a stage\<close>

lemma stage_facts_own:
  assumes "ruleSet_valid rs" and "r \<in> set (requirements rs)"
  shows "stage_facts input atts items now rs (requirementId r) =
    Some (ledgerRequirementEvidence (requiredClaimTypes r) (ledgerClaims input) atts items now (stage_context input))"
proof -
  have "find (\<lambda>x. requirementId x = requirementId r) (rev (requirements rs)) = Some r"
  proof (cases "find (\<lambda>x. requirementId x = requirementId r) (rev (requirements rs))")
    case None
    then show ?thesis using assms(2) by (auto simp: find_None_iff)
  next
    case (Some x)
    from find_Some_set [OF this] have "x \<in> set (requirements rs)" "requirementId x = requirementId r" by simp_all
    then show ?thesis using Some valid_distinct [OF assms(1)] assms(2) by (metis distinct_map inj_onD)
  qed
  then show ?thesis by (simp add: stage_facts_def)
qed

text \<open>A requirement whose condition holds yields a result that applies.\<close>

lemma evaluate_review_applies: "evaluate_review r f = Inr result \<Longrightarrow> applicable result"
  unfolding evaluate_review_def evaluateFreshness_def Let_def
  by (auto simp: and_then_eq_Inr_iff result_of_def split: if_splits option.splits)

lemma evaluate_evidence_applies: "evaluate_evidence r f = Inr result \<Longrightarrow> applicable result"
  unfolding evaluate_evidence_def Let_def
  by (auto simp: result_of_def dest: evaluate_review_applies split: if_splits)

lemma evaluateRequirement_applies:
  assumes "evaluateRequirement r (Some f) = Inr result" and "evaluatePredicate (appliesWhen r) (context_facts f) = Inr True"
  shows "applicable result"
proof -
  have "eval_pred (appliesWhen r) (context_facts f) = Inr True" using assms(2) by (simp add: eval_pred_Inr_iff)
  then show ?thesis using assms(1)
    unfolding evaluateRequirement_def notEvaluableFor_def Let_def
    by (auto simp: and_then_eq_Inr_iff result_of_def dest: evaluate_evidence_applies split: if_splits)
qed

lemma aggregate_ok: "aggregateReadiness ss = Rs_ok \<Longrightarrow> s \<in> set ss \<Longrightarrow> s = Rs_ok"
  using readiness.agg_lower [of s ss] by (cases s) auto

section \<open>What a stage rests on\<close>

text \<open>The facts that the evidence of a requirement supports.\<close>

lemma supported_by_evidence:
  assumes "f = ledgerRequirementEvidence types cs atts items now context'"
    and "set types \<subseteq> set (presentClaimTypes f)" and "set (staleEvidence f) \<inter> set types = {}"
  shows "\<forall>ty \<in> set types. \<exists>c \<in> set (included_claims cs items). ledgerType c = ty"
    and "\<And>c. c \<in> set (included_claims cs items) \<Longrightarrow> ledgerType c \<in> set types \<Longrightarrow>
      hasEvidence c \<and> \<not> ledgerStale c \<and> \<not> ledgerExcluded c \<and> ledgerGrade c \<noteq> Gr_rejected \<and> \<not> future_dated now c \<and>
      (\<exists>a \<in> set atts. ledgerValid a \<and> ledgerClaim c \<in> set (ledgerScope a)) \<and>
      (\<forall>a \<in> set atts. ledgerClaim c \<in> set (ledgerScope a) \<longrightarrow> ledgerValid a \<or> ledgerState a = Va_superseded)"
proof -
  let ?incl = "included_claims cs items"
  let ?rel = "filter (\<lambda>c. ledgerType c \<in> set types) ?incl"
  let ?covered = "filter (\<lambda>a. ledgerValid a \<and> covers_some ?rel a) atts"
  have present: "presentClaimTypes f = js_uniq (map ledgerType (filter (\<lambda>c. hasEvidence c \<and> \<not> ledgerExcluded c) ?incl))"
    and stale: "staleEvidence f = js_uniq (map ledgerType (filter (spoiled now atts ?covered) ?rel))"
    by (simp_all add: assms(1) ledgerRequirementEvidence_def Let_def)
  show "\<forall>ty \<in> set types. \<exists>c \<in> set ?incl. ledgerType c = ty"
    using assms(2) by (auto simp: present)
  fix c assume c: "c \<in> set ?incl" "ledgerType c \<in> set types"
  have "\<not> spoiled now atts ?covered c"
  proof
    assume "spoiled now atts ?covered c"
    then have "ledgerType c \<in> set (staleEvidence f)" using c by (auto simp: stale)
    then show False using c(2) assms(3) by blast
  qed
  then show "hasEvidence c \<and> \<not> ledgerStale c \<and> \<not> ledgerExcluded c \<and> ledgerGrade c \<noteq> Gr_rejected \<and> \<not> future_dated now c \<and>
      (\<exists>a \<in> set atts. ledgerValid a \<and> ledgerClaim c \<in> set (ledgerScope a)) \<and>
      (\<forall>a \<in> set atts. ledgerClaim c \<in> set (ledgerScope a) \<longrightarrow> ledgerValid a \<or> ledgerState a = Va_superseded)"
    by (auto simp: spoiled_def list_ex_iff)
qed

lemma js_BigInt_integer: "js_BigInt (js_integer n) = Some n"
  using js_decimal_digits by (auto simp: js_integer_def js_BigInt_decimal js_BigInt_negative decimal_value_js_decimal)

lemma relevant_grade_and_age:
  assumes "f = ledgerRequirementEvidence types cs atts items now context'"
    and c: "c \<in> set (included_claims cs items)" "ledgerType c \<in> set types"
  shows "presentGrade f = Some g \<Longrightarrow> g \<le> ledgerGrade c"
    and "set (unresolvedConflictTypes f) \<inter> bad = {} \<Longrightarrow> set (conflictTypes c) \<inter> bad = {}"
    and "evidenceAgeDays f = Some age \<Longrightarrow> \<exists>t n. asOfTime c = Some t \<and> js_BigInt age = Some n \<and> now div DAY_MS - t div DAY_MS \<le> n"
proof -
  let ?rel = "filter (\<lambda>c. ledgerType c \<in> set types) (included_claims cs items)"
  have mem: "c \<in> set ?rel" using c by simp
  then have nonempty: "?rel \<noteq> []" by (cases ?rel) auto
  show "g \<le> ledgerGrade c" if "presentGrade f = Some g"
  proof -
    have "g = weakestGrade (map ledgerGrade ?rel)"
      using that nonempty by (simp add: assms(1) ledgerRequirementEvidence_def Let_def)
    then show ?thesis using mem nonempty by (simp add: weakestGrade_Min)
  qed
  show "set (conflictTypes c) \<inter> bad = {}" if "set (unresolvedConflictTypes f) \<inter> bad = {}"
    using that mem by (auto simp: assms(1) ledgerRequirementEvidence_def Let_def)
  show "\<exists>t n. asOfTime c = Some t \<and> js_BigInt age = Some n \<and> now div DAY_MS - t div DAY_MS \<le> n"
    if "evidenceAgeDays f = Some age"
  proof -
    let ?days = "map (\<lambda>c. now div DAY_MS - the (asOfTime c) div DAY_MS) ?rel"
    have "\<not> list_ex (\<lambda>c. asOfTime c = None \<or> future_dated now c) ?rel" and age: "age = js_integer (Max (set ?days))"
      using that by (simp_all add: assms(1) ledgerRequirementEvidence_def Let_def split: if_splits)
    then obtain t where t: "asOfTime c = Some t" using mem by (auto simp: list_ex_iff)
    have "now div DAY_MS - t div DAY_MS \<in> set ?days" using mem t by force
    then have "now div DAY_MS - t div DAY_MS \<le> Max (set ?days)" by (intro Max_ge) simp_all
    then show ?thesis using t age js_BigInt_integer by blast
  qed
qed

text \<open>A claim whose evidence stands now: no defect, covered by a current attestation and by no other that is in force.\<close>

definition reviewed_now :: "ledger_input \<Rightarrow> int \<Rightarrow> ledger_claim \<Rightarrow> bool" where
  "reviewed_now input now c \<longleftrightarrow>
     hasEvidence c \<and> \<not> ledgerStale c \<and> \<not> ledgerExcluded c \<and> ledgerGrade c \<noteq> Gr_rejected \<and> \<not> future_dated now c \<and>
     (\<exists>row \<in> set (ledgerColumns input). attestation_current now row \<and> ledgerClaim c \<in> set (colScope row)) \<and>
     (\<forall>row \<in> set (ledgerColumns input). ledgerClaim c \<in> set (colScope row) \<and> colState row \<notin> {Va_draft, Va_superseded} \<longrightarrow>
        attestation_current now row)"

lemma current_not_draft: "attestation_current now row \<Longrightarrow> colState row \<noteq> Va_draft"
  by (auto simp: attestation_current_def)

lemma row_listed:
  assumes "c \<in> set (ledgerClaims input)" and "row \<in> set (ledgerColumns input)"
    and "ledgerClaim c \<in> set (colScope row)" and "colState row \<noteq> Va_draft"
  shows "\<exists>a \<in> set (attestation_rows stamp now input). ledgerScope a = colScope row \<and> ledgerState a = colState row \<and>
    (ledgerValid a \<longleftrightarrow> attestation_current now row)"
  using assms by (force simp: attestation_rows_def list_ex_iff)

lemma listed_row:
  assumes "a \<in> set (attestation_rows stamp now input)"
  obtains row where "row \<in> set (ledgerColumns input)" and "ledgerScope a = colScope row"
    and "ledgerAttestationType a = colType row" and "ledgerValid a \<longleftrightarrow> attestation_current now row"
  using assms by (auto simp: attestation_rows_def)

lemma included_subset: "c \<in> set (included_claims cs items) \<Longrightarrow> c \<in> set cs"
  by (simp add: included_claims_def)

lemma stage_evidence:
  assumes f: "f = ledgerRequirementEvidence (requiredClaimTypes r) (ledgerClaims input) (attestation_rows stamp now input) items now (stage_context input)"
    and e: "evaluateRequirement r (Some f) = Inr result" and p: "passed result"
  shows "\<forall>ty \<in> set (requiredClaimTypes r). \<exists>c \<in> set (included_claims (ledgerClaims input) items). ledgerType c = ty"
    and "\<And>c. c \<in> set (included_claims (ledgerClaims input) items) \<Longrightarrow> ledgerType c \<in> set (requiredClaimTypes r) \<Longrightarrow>
      reviewed_now input now c \<and> minimumGrade r \<le> ledgerGrade c \<and> set (conflictTypes c) \<inter> set (blockingConflictTypes r) = {} \<and>
      (\<forall>d. freshnessThresholdDays r = Some d \<longrightarrow>
        (\<exists>t n. asOfTime c = Some t \<and> js_BigInt d = Some n \<and> now div DAY_MS - t div DAY_MS \<le> n))"
    and "\<forall>ty \<in> set (requiredAttestations r). \<exists>row \<in> set (ledgerColumns input). colType row = ty \<and> attestation_current now row \<and>
      (\<exists>c \<in> set (included_claims (ledgerClaims input) items). ledgerType c \<in> set (requiredClaimTypes r) \<and>
         ledgerClaim c \<in> set (colScope row))"
proof -
  let ?incl = "included_claims (ledgerClaims input) items"
  have "\<exists>result. evaluateRequirement r (Some f) = Inr result \<and> passed result" using e p by blast
  then have c: "set (requiredClaimTypes r) \<subseteq> set (presentClaimTypes f)" "set (staleEvidence f) \<inter> set (requiredClaimTypes r) = {}"
    "hasMinimumGrade f r" "set (requiredAttestations r) \<subseteq> set (presentAttestations f)" "fresh_enough r f"
    "set (unresolvedConflictTypes f) \<inter> set (blockingConflictTypes r) = {}"
    unfolding evaluateRequirement_passed evaluate_evidence_passed evaluate_review_passed by simp_all
  show "\<forall>ty \<in> set (requiredClaimTypes r). \<exists>c \<in> set ?incl. ledgerType c = ty"
    by (rule supported_by_evidence(1) [OF f c(1,2)])
  show "reviewed_now input now x \<and> minimumGrade r \<le> ledgerGrade x \<and> set (conflictTypes x) \<inter> set (blockingConflictTypes r) = {} \<and>
      (\<forall>d. freshnessThresholdDays r = Some d \<longrightarrow>
        (\<exists>t n. asOfTime x = Some t \<and> js_BigInt d = Some n \<and> now div DAY_MS - t div DAY_MS \<le> n))"
    if x: "x \<in> set ?incl" "ledgerType x \<in> set (requiredClaimTypes r)" for x
  proof (intro conjI allI impI)
    note ok = supported_by_evidence(2) [OF f c(1,2) x]
    have one: "\<exists>row \<in> set (ledgerColumns input). attestation_current now row \<and> ledgerClaim x \<in> set (colScope row)"
      using ok by (metis listed_row)
    have every: "attestation_current now row"
      if "row \<in> set (ledgerColumns input)" "ledgerClaim x \<in> set (colScope row)" "colState row \<notin> {Va_draft, Va_superseded}" for row
      using row_listed [OF included_subset [OF x(1)] that(1,2), of stamp now] ok that(2,3) by auto
    show "reviewed_now input now x" using ok one every by (simp add: reviewed_now_def)
    show "minimumGrade r \<le> ledgerGrade x"
      using c(3) relevant_grade_and_age(1) [OF f x]
      by (auto simp: hasMinimumGrade_def gradeAtLeast_le split: option.splits intro: order_trans)
    show "set (conflictTypes x) \<inter> set (blockingConflictTypes r) = {}"
      by (rule relevant_grade_and_age(2) [OF f x c(6)])
    fix d assume "freshnessThresholdDays r = Some d"
    then obtain age m n where "evidenceAgeDays f = Some age" "js_BigInt age = Some m" "js_BigInt d = Some n" "m \<le> n"
      using c(5) by (auto simp: fresh_enough_def split: option.splits)
    with relevant_grade_and_age(3) [OF f x, of age]
    show "\<exists>t n. asOfTime x = Some t \<and> js_BigInt d = Some n \<and> now div DAY_MS - t div DAY_MS \<le> n" by force
  qed
  show "\<forall>ty \<in> set (requiredAttestations r). \<exists>row \<in> set (ledgerColumns input). colType row = ty \<and> attestation_current now row \<and>
      (\<exists>c \<in> set ?incl. ledgerType c \<in> set (requiredClaimTypes r) \<and> ledgerClaim c \<in> set (colScope row))"
  proof
    fix ty assume "ty \<in> set (requiredAttestations r)"
    then have "ty \<in> set (presentAttestations f)" using c(4) by blast
    then obtain a where a: "a \<in> set (attestation_rows stamp now input)" "ledgerAttestationType a = ty" "ledgerValid a"
      "\<exists>c \<in> set ?incl. ledgerType c \<in> set (requiredClaimTypes r) \<and> ledgerClaim c \<in> set (ledgerScope a)"
      by (auto simp: f ledgerRequirementEvidence_def covers_some_iff Let_def)
    from listed_row [OF a(1)] a(2-4) show "\<exists>row \<in> set (ledgerColumns input). colType row = ty \<and> attestation_current now row \<and>
      (\<exists>c \<in> set ?incl. ledgerType c \<in> set (requiredClaimTypes r) \<and> ledgerClaim c \<in> set (colScope row))"
      by metis
  qed
qed

lemma reached_Some:
  assumes "reached stages = Some gate"
  obtains s where "s \<in> set stages" and "stageGate s = gate" and "stageStatus s = Rs_ok"
proof -
  have ne: "filter (\<lambda>s. stageStatus s = Rs_ok) stages \<noteq> []" using assms by (auto simp: reached_def Let_def)
  then have "last (filter (\<lambda>s. stageStatus s = Rs_ok) stages) \<in> set (filter (\<lambda>s. stageStatus s = Rs_ok) stages)"
    by (rule last_in_set)
  then show ?thesis using assms ne by (intro that) (auto simp: reached_def Let_def)
qed

lemma stage_rule_Some:
  "stage_rule input gate = Some (p, rs) \<Longrightarrow> ruleSet_valid rs \<and> ruleGateId rs = gate \<and> p \<in> set (stagePolicies input) \<and> policyGate p = gate"
  by (auto simp: stage_rule_def bind_eq_Some_conv dest: find_Some_set split: if_splits)

lemma stage_ok_passed:
  assumes "stage_of input atts items now asof hash gate (p, rs) = Inr (stage, apps)" and "stageStatus stage = Rs_ok"
  obtains a :: assessment where "list_all2 (\<lambda>r result. evaluateRequirement r (stage_facts input atts items now rs (requirementId r)) = Inr result)
      (requirements rs) (requirementResults a)"
    and "\<exists>result \<in> set (requirementResults a). applicable result"
    and "\<forall>result \<in> set (requirementResults a). applicable result \<longrightarrow> passed result"
proof -
  let ?in = "\<lparr>subjectId = ledgerProject input, gateId = gate, inputSnapshotHash = hash,
      evaluatedAsOf = asof, requirementFacts = stage_facts input atts items now rs\<rparr>"
  obtain a where a: "evaluateAssessment rs ?in = Inr a" "list_ex applicable (requirementResults a)" "assessmentStatus a = Rs_ok"
    using assms by (auto simp: stage_of_def Let_def split: sum.splits prod.splits if_splits)
  note facts = evaluateAssessment_results [OF a(1)]
  have "passed result" if "result \<in> set (requirementResults a)" "applicable result" for result
    using aggregate_ok [of "applicable_statuses (requirementResults a)" "status result"] facts a(3) that
    by (auto simp: applicable_statuses_def passed_def)
  then show ?thesis
    using that [of a] results_of_each [OF conjunct1 [OF facts]] a(2) by (auto simp: list_ex_iff)
qed

lemma ledger_stage_of:
  assumes "computeEvidenceLedger k commit stamp now input = Inr l" and "currentStage l = Some gate"
  obtains p rs stage apps where "stage_rule input gate = Some (p, rs)" and "stageStatus stage = Rs_ok"
    and "stage_of input (attestation_rows stamp now input) (ledgerItems l) now (stamp now) (commit input None) gate (p, rs) = Inr (stage, apps)"
proof -
  let ?atts = "attestation_rows stamp now input"
  let ?gates = "List.map_filter (\<lambda>gate. map_option (Pair gate) (stage_rule input gate)) STAGE_GATE_ORDER"
  obtain stages where stages: "list_all2 (\<lambda>g y. stage_of input ?atts (ledgerItems l) now (stamp now) (commit input None) (fst g) (snd g) = Inr y)
      ?gates stages" and l: "currentStage l = reached (map fst stages)"
    using assms(1) by (auto simp: computeEvidenceLedger_def Let_def and_then_eq_Inr_iff traverse_eq_Inr_iff case_prod_beta)
  have "reached (map fst stages) = Some gate" using l assms(2) by simp
  then obtain s where s: "s \<in> set (map fst stages)" "stageGate s = gate" "stageStatus s = Rs_ok" by (rule reached_Some)
  then obtain apps where "(s, apps) \<in> set stages" by auto
  from list_all2_target [OF stages this] obtain g p rs where g: "(g, p, rs) \<in> set ?gates"
    "stage_of input ?atts (ledgerItems l) now (stamp now) (commit input None) g (p, rs) = Inr (s, apps)" by auto
  then have "stageGate s = g" by (auto simp: stage_of_def Let_def split: sum.splits prod.splits)
  moreover have "stage_rule input g = Some (p, rs)" using g(1) by (auto simp: List.map_filter_def)
  ultimately show ?thesis using that [of p rs s apps] s g(2) by simp
qed

text \<open>
  C4. The stage shown as reached rests on evidence that is reviewed now. The registered rule set of that stage is
  valid and some requirement of it applies; for each requirement that applies every required type of claim is
  present, every claim of these types that counts is without defect, covered by a current attestation and by no other
  in force that is not current, at least of the minimum grade, without a blocking conflict and, with a threshold, no
  older than it, and every required type of attestation is there.
\<close>

theorem reached_stage_is_reviewed:
  assumes "computeEvidenceLedger k commit stamp now input = Inr l" and "currentStage l = Some gate"
    and "counted = included_claims (ledgerClaims input) (ledgerItems l)"
  shows "\<exists>p rs. stage_rule input gate = Some (p, rs) \<and> ruleSet_valid rs \<and>
    (\<exists>r \<in> set (requirements rs). evaluatePredicate (appliesWhen r) (stage_context input) = Inr True) \<and>
    (\<forall>r \<in> set (requirements rs). evaluatePredicate (appliesWhen r) (stage_context input) = Inr True \<longrightarrow>
       (\<forall>ty \<in> set (requiredClaimTypes r). \<exists>c \<in> set counted. ledgerType c = ty) \<and>
       (\<forall>c \<in> set counted. ledgerType c \<in> set (requiredClaimTypes r) \<longrightarrow>
          reviewed_now input now c \<and> minimumGrade r \<le> ledgerGrade c \<and>
          set (conflictTypes c) \<inter> set (blockingConflictTypes r) = {} \<and>
          (\<forall>d. freshnessThresholdDays r = Some d \<longrightarrow>
             (\<exists>t n. asOfTime c = Some t \<and> js_BigInt d = Some n \<and> now div DAY_MS - t div DAY_MS \<le> n))) \<and>
       (\<forall>ty \<in> set (requiredAttestations r). \<exists>row \<in> set (ledgerColumns input).
          colType row = ty \<and> attestation_current now row \<and>
          (\<exists>c \<in> set counted. ledgerType c \<in> set (requiredClaimTypes r) \<and> ledgerClaim c \<in> set (colScope row))))"
proof -
  obtain p rs stage apps where rule: "stage_rule input gate = Some (p, rs)" and ok: "stageStatus stage = Rs_ok"
    and stage: "stage_of input (attestation_rows stamp now input) (ledgerItems l) now (stamp now) (commit input None) gate (p, rs) =
      Inr (stage, apps)" by (rule ledger_stage_of [OF assms(1,2)])
  obtain a :: assessment where each: "list_all2 (\<lambda>r result. evaluateRequirement r
      (stage_facts input (attestation_rows stamp now input) (ledgerItems l) now rs (requirementId r)) = Inr result)
      (requirements rs) (requirementResults a)" and some: "\<exists>result \<in> set (requirementResults a). applicable result"
    and passes: "\<forall>result \<in> set (requirementResults a). applicable result \<longrightarrow> passed result"
    by (rule stage_ok_passed [OF stage ok])
  have valid: "ruleSet_valid rs" using stage_rule_Some [OF rule] by simp
  let ?f = "\<lambda>r. ledgerRequirementEvidence (requiredClaimTypes r) (ledgerClaims input) (attestation_rows stamp now input)
      (ledgerItems l) now (stage_context input)"
  have context': "context_facts (?f r) = stage_context input" for r by (simp add: ledgerRequirementEvidence_def Let_def)
  note own = stage_facts_own [OF valid, where input = input and atts = "attestation_rows stamp now input" and
    items = "ledgerItems l" and now = now]
  have one: "\<exists>r \<in> set (requirements rs). evaluatePredicate (appliesWhen r) (stage_context input) = Inr True"
  proof -
    from some passes obtain result where r': "result \<in> set (requirementResults a)" "passed result" by blast
    from list_all2_target [OF each r'(1)] obtain r where r: "r \<in> set (requirements rs)" "evaluateRequirement r (Some (?f r)) = Inr result"
      using own by auto
    then have "evaluatePredicate (appliesWhen r) (context_facts (?f r)) = Inr True"
      using r'(2) evaluateRequirement_passed [of r "Some (?f r)"] by auto
    then show ?thesis using r(1) by (auto simp: context')
  qed
  have all: "\<exists>result. evaluateRequirement r (Some (?f r)) = Inr result \<and> passed result"
    if r: "r \<in> set (requirements rs)" "evaluatePredicate (appliesWhen r) (stage_context input) = Inr True" for r
  proof -
    from list_all2_source [OF each r(1)] obtain result where "result \<in> set (requirementResults a)"
      "evaluateRequirement r (Some (?f r)) = Inr result" using own [OF r(1)]
      by (auto dest: set_zip_rightD)
    moreover from evaluateRequirement_applies [OF this(2)] have "applicable result" using r(2) by (simp add: context')
    ultimately show ?thesis using passes by blast
  qed
  show ?thesis
  proof (intro exI [of _ p] exI [of _ rs] conjI rule valid one ballI impI allI)
    fix r assume r: "r \<in> set (requirements rs)" "evaluatePredicate (appliesWhen r) (stage_context input) = Inr True"
    obtain result where e: "evaluateRequirement r (Some (?f r)) = Inr result" "passed result" using all [OF r] by blast
    note shown = stage_evidence [OF refl e]
    { fix ty assume "ty \<in> set (requiredClaimTypes r)"
      then show "\<exists>c \<in> set counted. ledgerType c = ty" using shown(1) by (simp add: assms(3)) }
    { fix ty assume "ty \<in> set (requiredAttestations r)"
      then show "\<exists>row \<in> set (ledgerColumns input). colType row = ty \<and> attestation_current now row \<and>
          (\<exists>c \<in> set counted. ledgerType c \<in> set (requiredClaimTypes r) \<and> ledgerClaim c \<in> set (colScope row))"
        using shown(3) by (simp add: assms(3)) }
    fix c assume c: "c \<in> set counted" "ledgerType c \<in> set (requiredClaimTypes r)"
    note holds = shown(2) [OF c(1) [unfolded assms(3)] c(2)]
    then show "reviewed_now input now c" "minimumGrade r \<le> ledgerGrade c"
      "set (conflictTypes c) \<inter> set (blockingConflictTypes r) = {}" by blast+
    fix d assume "freshnessThresholdDays r = Some d"
    then show "\<exists>t n. asOfTime c = Some t \<and> js_BigInt d = Some n \<and> now div DAY_MS - t div DAY_MS \<le> n" using holds by blast
  qed
qed

text \<open>One claim, one attestation over it and one rule for the first stage.\<close>

definition capacity_rule :: rule_set where
  "capacity_rule =
     \<lparr>ruleSetId = js ''r'', version = js ''1.0.0'', effectiveFrom = js ''2026-01-01T00:00:00Z'', supersededBy = None,
      jurisdictionProfile = js ''MNG'', ruleGateId = js ''stage.exploration'', retroactive = False,
      requirements = [\<lparr>requirementId = js ''r1'', requirementLabel = js ''C'', appliesWhen = Always,
        requiredClaimTypes = [js ''cap''], minimumGrade = Gr_verified, freshnessThresholdDays = Some (js ''30''),
        requiredAttestations = [independent_assurance], blockingConflictTypes = [], notEvaluableWhen = Never,
        watchWhen = None\<rparr>]\<rparr>"

definition capacity_input :: ledger_input where
  "capacity_input =
     \<lparr>ledgerTenant = js ''t'', ledgerProject = js ''p'', referenceStatus = js ''x'',
      ledgerCatalog = [\<lparr>catalogId = js ''e'', catalogType = js ''cap'', catalogVersion = 1, displayName = js ''C''\<rparr>],
      ledgerClaims = [\<lparr>ledgerClaim = js ''c'', ledgerType = js ''cap'', catalogEntry = js ''e'', ledgerVersion = 1,
        ledgerGrade = Gr_verified, asOfTime = Some 0, ledgerStale = False, hasEvidence = True, conflictIds = [],
        conflictTypes = [], ledgerExcluded = False\<rparr>],
      ledgerColumns = [\<lparr>colId = js ''a'', colScope = [js ''c''], colType = independent_assurance, colState = Va_signed,
        colLimitations = js ''l'', colSignature = js ''0x1'', colSignedAt = 0, colValidUntil = None, colReviewer = js ''u'',
        colCredentialType = js ''q'', colCredentialStatus = Cred_valid, colCredentialRevoked = None,
        colCredentialExpires = None, colSchemaState = As_active\<rparr>],
      manualFacts = [], stagePolicies = [\<lparr>policyId = js ''s'', policyGate = js ''stage.exploration'',
        policyDefinition = Some capacity_rule\<rparr>],
      stageProfile = None\<rparr>"

theorem item_reviewed_iff_witness:
  "itemStatus (deriveLedgerItemStatus (ledgerClaims capacity_input)
     (attestation_rows (\<lambda>_. []) (2 * DAY_MS) capacity_input) False) = Li_reviewed"
  unfolding item_reviewed_iff by code_simp

definition capacity_ledger :: "ledger_error + evidence_ledger" where
  "capacity_ledger = computeEvidenceLedger (\<lambda>_. []) (\<lambda>_ _. []) (\<lambda>_. []) (2 * DAY_MS) capacity_input"

lemma capacity_reached:
  "(case capacity_ledger of Inl e \<Rightarrow> False | Inr l \<Rightarrow> currentStage l = Some (js ''stage.exploration''))"
  by code_simp

theorem reached_stage_is_reviewed_witness:
  "\<exists>l p rs. computeEvidenceLedger (\<lambda>_. []) (\<lambda>_ _. []) (\<lambda>_. []) (2 * DAY_MS) capacity_input = Inr l \<and>
     currentStage l = Some (js ''stage.exploration'') \<and>
     stage_rule capacity_input (js ''stage.exploration'') = Some (p, rs) \<and>
     (\<exists>r \<in> set (requirements rs). evaluatePredicate (appliesWhen r) (stage_context capacity_input) = Inr True)"
proof -
  obtain l where l: "capacity_ledger = Inr l" "currentStage l = Some (js ''stage.exploration'')"
    using capacity_reached by (auto split: sum.splits)
  with reached_stage_is_reviewed [OF l(1) [unfolded capacity_ledger_def] l(2) refl] show ?thesis
    unfolding capacity_ledger_def by blast
qed

end
