(* ===== verification/Spec2Isabelle.thy ===== *)
theory Spec2Isabelle
  imports Machines Provenance Readiness Channels Adapter Attestation Independence Governance Disclosure Chains Document_Requirements Lifecycle_Guards Explain
    Leaf Merkle_Laws Session Authorize_Laws Route_Laws Gate_Laws Idempotency Request_Guards Lifecycle_Laws
    Endpoint_Guard Anchor_Ledger Outbox_Replay Governance_Laws Review_Laws Ledger_Laws
begin

text \<open>
  A verification library for the registry: a platform on which operators of projects submit evidence, appointed
  reviewers sign attestations over claims, rules decide readiness, and registered facts are anchored on a chain.
  The program is a monorepo of TypeScript packages (\<open>packages/\<close>), an API server, workers and a web
  application (\<open>apps/\<close>). This library models the rules of the packages and the routes and workers that
  enforce them, translated from the TypeScript sources, and proves what makes each correct.

  \<^bold>\<open>Shared ground.\<close> \<open>Registry_Prelude\<close>: JavaScript strings as lists of 16-bit code units
  (\<open>js_string\<close>, compared as JavaScript compares them), the array functions the sources use, and
  \<open>and_then\<close> on sums: a thrown error is \<open>Inl\<close>, a value \<open>Inr\<close>. \<open>Js_Numbers\<close>: the reading of
  integers from strings. \<open>State_Machine\<close> (\<open>packages/domain/src/state-machine.ts\<close>): transition tables, reachability, and
  the locale \<open>valid_table\<close> of the laws every table keeps, interpreted for each table of \<open>Machines\<close>
  (\<open>machines.ts\<close>). \<open>Tables\<close> and \<open>Table_Evolution\<close>: tables as lists of rows named by a key, and the
  locale \<open>evolving_table\<close>: what each step does to the rows every run of steps does. \<open>Ranked_Aggregate\<close>: the
  locale \<open>worst_of\<close> of worst-value aggregation, interpreted for grades and readiness statuses.

  \<^bold>\<open>The domain\<close> (\<open>packages/domain/src\<close>, one theory per file): \<open>Provenance\<close> (grades, the axes of a
  claim), \<open>Readiness\<close> (statuses, the gate decision), \<open>Source_Result\<close>, \<open>Channels\<close>, \<open>Adapter\<close>,
  \<open>Attestation\<close> (signing, acceptance, authorities and credentials), \<open>Independence\<close>, \<open>Governance\<close>
  (spaces, tally), \<open>Disclosure\<close> (publication, blackout, storage tiers), \<open>Chains\<close>,
  \<open>Document_Requirements\<close>, \<open>Offering_Gate\<close>, \<open>Lifecycle_Guards\<close>. Each holds the functions of the
  file and the lemmas that say when each answer is given; orders are instances of \<open>linorder\<close>.

  \<^bold>\<open>Policies\<close> (\<open>packages/policy/src\<close>): \<open>Rule_Schema\<close>, \<open>Predicate_AST\<close> (a predicate either throws
  or has a truth value), \<open>Policy_Engine\<close> (requirements and assessments), \<open>Explain\<close>; \<open>Policy_Laws\<close>
  shows what a predicate depends on, when a requirement passes and what blocks a go.

  \<^bold>\<open>Anchoring\<close> (\<open>packages/canonical/src\<close>): \<open>Hash\<close>, \<open>Jcs\<close> (canonical serialization of values in a
  store, where sharing and cycles are references), \<open>Leaf\<close>, \<open>Merkle\<close>; \<open>Jcs_Laws\<close>, \<open>Canonical_Value\<close>
  and \<open>Canonical_Laws\<close> show that the bytes determine the value, \<open>Merkle_Laws\<close> that every leaf has a proof
  and, unless the hash collides on an input that was hashed, nothing else has. The worker
  (\<open>apps/anchor-worker/src\<close>): \<open>Anchor_State\<close> (tracking, the worker's own signature) and
  \<open>Anchor_Ledger\<close> (the daily budget as one of admissions, over every order of reads, sends, receipts and
  midnights: the two sums of an admission are read apart, and a receipt may cost more than was reserved).

  \<^bold>\<open>Access.\<close> \<open>Authentication\<close>, \<open>Action_Policies\<close>, \<open>Authorization\<close> (\<open>packages/api-contract/src\<close>),
  \<open>Routes\<close> (the route contract), \<open>Session\<close>, \<open>Authorize\<close>, \<open>Request_Gate\<close>
  (\<open>apps/api/src/plugins\<close>, \<open>server.ts\<close>): who is calling, which roles are in effect, and the decision;
  \<open>Authorize_Laws\<close>, \<open>Route_Laws\<close> and \<open>Gate_Laws\<close> show what a session can reach.
  \<open>Ip_Address\<close> and \<open>Endpoint_Guard\<close> (\<open>packages/config/src\<close>): the outbound addresses that are refused.

  \<^bold>\<open>Mutations.\<close> A route reads its preconditions (\<open>Request_Guards\<close>, \<open>routes/shared.ts\<close>), asks for
  authorization, and does its work inside \<open>withIdempotency\<close> (\<open>Idempotency\<close>,
  \<open>plugins/idempotency.ts\<close>) in one transaction, leaving an audit record and an event (\<open>Event_Log\<close>);
  a failure leaves the tables as they were. A handler is a function from the tables to an error or an answer and
  new tables, named as in the source, its work apart from its checks (\<open>move_work\<close> inside \<open>moveProposal\<close>).
  \<open>Project_Lifecycle\<close> with \<open>Restriction_Guard\<close> (\<open>routes/lifecycle.ts\<close>, \<open>restrictions.ts\<close>),
  \<open>Governance_Route\<close> (\<open>routes/governance.ts\<close>, \<open>services/vote-weight.ts\<close>), and the review of evidence:
  \<open>Review_Tables\<close>, \<open>Review_Basis\<close>, \<open>Review_Signing\<close> (\<open>services/attestation-basis.ts\<close>,
  \<open>assignment.ts\<close>, \<open>claim-state.ts\<close>, \<open>evidence-snapshot.ts\<close>, \<open>attestation-signing.ts\<close>,
  \<open>signing-wallets.ts\<close>), \<open>Verification_Route\<close>, \<open>Attestation_Route\<close>, \<open>Signature_Route\<close>
  (\<open>routes/verification.ts\<close>) and \<open>Correction_Route\<close> (\<open>routes/verification-corrections.ts\<close>).

  Histories are inductive: a step is a request of any client that was answered; one that fails changes nothing. \<open>Lifecycle_Laws\<close> and
  \<open>Governance_Laws\<close> (on \<open>Governance_Steps\<close>, where a history keeps its past states) show invariants of every reachable
  state. For the review,
  \<open>Review_Frames\<close> says what each part of a handler checks and leaves alone, \<open>Review_Steps\<close> abstracts every
  handler to an effect on the tables (\<open>work_effect\<close>: each work refines an effect), \<open>Review_Invariants\<close> and
  \<open>Review_Claims\<close> prove the invariants for effects, \<open>Review_Calls\<close> lifts them to requests of all tenants,
  \<open>Review_Laws\<close> states what follows and \<open>Review_Sample\<close> runs one review through the handlers for the
  witnesses. What the rest of the program does to these tables meanwhile is the relation \<open>elsewhere\<close>.

  \<^bold>\<open>The outbox\<close> (\<open>apps/jobs-worker/src\<close>): \<open>Outbox_Publisher\<close> and \<open>Outbox_Replay\<close>, with their
  laws in \<open>Outbox_Laws\<close>: a batch ends, each event is settled, no handler that finished runs again.

  \<^bold>\<open>The evidence ledger\<close> (\<open>packages/db/src/evidence-ledger.ts\<close>): \<open>Evidence_Ledger\<close> computes, from the
  rows its queries return, the status of each item of the catalog, the facts of each stage rule and the stage
  reached; \<open>Ledger_Laws\<close> shows when an item counts as reviewed and what the stage rests on, through the laws of
  the policy engine.

  \<^bold>\<open>Parameters.\<close> What is not in the repository is an argument: the hash \<open>keccak_256\<close> (any function on
  bytes; soundness of proofs asks that it does not collide on the inputs at hand), the recovery of a signer from
  typed data, which may fail, the tests for an IP address and a GUID, the URL parser and the resolver, readings of the
  chain, the handlers of events, the clock and fresh identifiers. Their hypotheses say what the code relies on: new
  identifiers are new, and the clock of a signature is later than those of the signatures before it.

  \<^bold>\<open>Bounds.\<close> Recursion is structural or has a measure: serialization descends with the depth of the store and
  cuts a cycle as the code does, a Merkle level halves, a batch counts down its limit. No theorem is conditional on
  fuel. Times are milliseconds and wei are integers, as JavaScript's bigints; versions stay below \<open>2 ^ 53\<close> where the
  code reads them as numbers; addresses are words of 32 and 128 bits.

  \<^bold>\<open>Not modelled.\<close> Routes that only query and shape rows, sign-in protocols that libraries run, streams of
  uploads, mail, scanning, configuration and start-up, the runner of migrations, the web application and the
  Solidity contracts. Of the modelled routes: columns no handler reads, the free-form details of audit rows,
  request metrics and logs. Concurrency of two transactions is modelled for idempotency reservations, for the
  ledgers of the worker, and for votes, whose handler reads the proposal without a lock and may store its vote
  after a close (\<open>castVoteFrom\<close> takes the state it read). Elsewhere a handler is one step of a history: it locks the
  row it is about (a project, a proposal that moves, a case, an attestation, a claim), and what it reads of other
  rows without a lock is read as of that step.
\<close>

section \<open>Anchored leaves\<close>

text \<open>The inputs the hash is applied to for a list of leaves: the canonical bytes and the inner hash.\<close>

definition leaf_inputs :: "(bytes \<Rightarrow> bytes) \<Rightarrow> registry_leaf list \<Rightarrow> bytes list" where
  "leaf_inputs k leaves =
     concat (map (\<lambda>l. case leaf_bytes l of Inr bs \<Rightarrow> [bs, k bs] | Inl _ \<Rightarrow> []) leaves)"

lemma leaf_inputs_mem:
  "leaf \<in> set leaves \<Longrightarrow> leaf_bytes leaf = Inr bs \<Longrightarrow> bs \<in> set (leaf_inputs k leaves) \<and> k bs \<in> set (leaf_inputs k leaves)"
  by (force simp: leaf_inputs_def)

lemma hashLeaf_preimage:
  assumes "hash32 k" and "hashLeaf k leaf = Inr h" and "leaf \<in> set leaves"
  shows "\<exists>m \<in> set (leaf_inputs k leaves). length m = 32 \<and> h = keccak256 k m"
  using assms leaf_inputs_mem [OF assms(3)] by (auto simp: hashLeaf_Inr hash32_def)

text \<open>
  C19. Inclusion in an anchored batch, end to end: if the hashes of the leaves of a batch build a tree,
  and a proof of 32-byte values verifies for the hash of a leaf against its root, then that leaf, with
  all its members, is one of the batch, provided the hash does not collide on the inputs hashed.
\<close>

theorem anchored_leaf_included:
  assumes "hash32 k" and "traverse (hashLeaf k) leaves = Inr hashes"
    and "buildMerkleTree k hashes = Inr t" and "hashLeaf k leaf = Inr h"
    and "verifyMerkleProof k h nodes (root t) = Inr True" and "\<forall>n \<in> set nodes. isBytes32 n"
    and "inj_on k (set (leaf_inputs k (leaf # leaves)) \<union> set (tree_inputs (layers t)) \<union> set (proof_inputs k h nodes))"
  shows "leaf \<in> set leaves"
proof -
  have each: "list_all2 (\<lambda>l x. hashLeaf k l = Inr x) leaves hashes"
    using assms(2) by (simp add: traverse_eq_Inr_iff)
  have pre: "\<forall>x \<in> insert h (set hashes). \<exists>m \<in> set (leaf_inputs k (leaf # leaves)). length m = 32 \<and> x = keccak256 k m"
  proof
    fix x assume "x \<in> insert h (set hashes)"
    then obtain l where "l \<in> set (leaf # leaves)" "hashLeaf k l = Inr x"
      using assms(4) list_all2_target [OF each, of x] by auto
    then show "\<exists>m \<in> set (leaf_inputs k (leaf # leaves)). length m = 32 \<and> x = keccak256 k m"
      using hashLeaf_preimage [OF assms(1)] by blast
  qed
  have "isBytes32 h" using assms(1,4) by (auto simp: hashLeaf_Inr keccak256_def)
  then have "h \<in> set hashes"
    by (rule merkle_sound [OF assms(1,3,5) _ assms(6) pre assms(7)])
  then obtain l where l: "l \<in> set leaves" "hashLeaf k l = Inr h"
    using list_all2_target [OF each] by blast
  obtain bs where bs: "leaf_bytes l = Inr bs" "h = keccak256 k (k bs)" using l(2) by (auto simp: hashLeaf_Inr)
  obtain cs where cs: "leaf_bytes leaf = Inr cs" "h = keccak256 k (k cs)" using assms(4) by (auto simp: hashLeaf_Inr)
  have mem: "bs \<in> set (leaf_inputs k (leaf # leaves))" "k bs \<in> set (leaf_inputs k (leaf # leaves))"
    "cs \<in> set (leaf_inputs k (leaf # leaves))" "k cs \<in> set (leaf_inputs k (leaf # leaves))"
    using leaf_inputs_mem [of _ "leaf # leaves"] l(1) bs(1) cs(1) by auto
  have "k (k bs) = k (k cs)" using bs(2) cs(2) by (simp add: keccak256_def)
  then have "k bs = k cs" by (rule inj_onD [OF assms(7)]) (use mem in blast)+
  then have "bs = cs" by (rule inj_onD [OF assms(7)]) (use mem in blast)+
  then have "l = leaf" using leaf_bytes_inject bs(1) cs(1) by blast
  with l(1) show ?thesis by simp
qed

text \<open>One leaf, anchored alone, with a function that does not collide on its two inputs.\<close>

definition sample_leaf :: registry_leaf where
  "sample_leaf =
     \<lparr>registryType = js ''project'', entryVersionId = js ''v'', leafSubjectId = js ''s'', leafVersion = js ''1'',
      leafStatus = js ''published'', serializationVersion = js ''1'', policyVersion = js ''p'',
      schemaVersion = js ''s'', contentHash = bytesToHex (replicate 32 7)\<rparr>"

definition sample_keccak :: "bytes \<Rightarrow> bytes" where
  "sample_keccak m = (if m = replicate 32 1 then replicate 32 2 else replicate 32 1)"

lemma sample_keccak_32: "hash32 sample_keccak"
  by (simp add: hash32_def sample_keccak_def)

lemma sample_leaf_valid: "assertValidLeaf sample_leaf = Inr ()"
  by (simp add: assertValidLeaf_iff sample_leaf_def REGISTRY_TYPES_def LEAF_STATUSES_def isBytes32_iff
      plain_integer_def) (simp add: js_def)

lemma sample_leaf_strings:
  "key \<in> set (map fst (leaf_fields sample_leaf)) \<Longrightarrow>
     \<exists>s. member (leaf_fields sample_leaf) key = JString s \<and> list_all (\<lambda>c. c < 0x80) s"
  by (auto simp: member_def leaf_fields_def sample_leaf_def bytesToHex_def hex_byte_def HEX_CHARS_def js_def list_all_iff)

lemma sample_leaf_keys:
  "\<forall>key \<in> set (sort (map fst (leaf_fields sample_leaf))). well_formed key"
  unfolding set_sort by (auto simp: leaf_fields_def intro!: well_formed_ascii) (simp_all add: js_def)

lemma utf8_brace: "utf8_encode (0x7B # s) \<noteq> replicate 32 1"
proof -
  have "hd (utf8_encode (0x7B # s)) = 0x7B"
    by (cases s) (simp_all add: utf8_encode_def utf8_point_def high_surrogate_def low_surrogate_def)
  moreover have "hd (replicate 32 (1 :: byte)) = 1" by simp
  ultimately show ?thesis by force
qed

lemma sample_leaf_bytes:
  obtains bs where "leaf_bytes sample_leaf = Inr bs" "bs \<noteq> replicate 32 1"
proof -
  let ?heap = "[JRecord (leaf_fields sample_leaf)]" and ?keys = "sort (map fst (leaf_fields sample_leaf))"
  have "\<exists>t. denotes ?heap {0} (member (leaf_fields sample_leaf) key) t" if key: "key \<in> set ?keys" for key
  proof -
    obtain s where s: "member (leaf_fields sample_leaf) key = JString s" "list_all (\<lambda>c. c < 0x80) s"
      using sample_leaf_strings [OF key [unfolded set_sort]] by blast
    have "denotes ?heap {0} (JString s) (CString s)"
      using s(2) by (intro denotes.string well_formed_ascii)
    with s(1) show ?thesis by (auto intro: exI [of _ "CString s"])
  qed
  then have "\<forall>key \<in> set ?keys. \<exists>t. denotes ?heap (insert 0 {}) (member (leaf_fields sample_leaf) key) t"
    by (rule ballI)
  from list_all2_choice [OF this] obtain ts
    where ts: "list_all2 (\<lambda>key t. denotes ?heap (insert 0 {}) (member (leaf_fields sample_leaf) key) t) ?keys ts"
    by (rule exE)
  have d: "denotes ?heap {} (JRef 0) (CObject (zip ?keys ts))"
    by (rule denotes.object [OF _ _ sample_leaf_keys refl ts]) (simp_all only: deref_def, simp_all)
  have free: "hole_free ?heap" by (simp add: hole_free_def)
  have "canonicalize ?heap (JRef 0) = Inr (render (CObject (zip ?keys ts)))"
    unfolding canonicalize_iff [OF free] by (rule exI, rule conjI, rule d, rule refl)
  then have "leaf_bytes sample_leaf = Inr (utf8_encode (render (CObject (zip ?keys ts))))"
    by (simp only: leaf_bytes_def canonicalBytes_def and_then.simps)
  moreover have "utf8_encode (render (CObject (zip ?keys ts))) \<noteq> replicate 32 1"
    unfolding render_object js_chars append.simps by (rule utf8_brace)
  ultimately show thesis using that by blast
qed

theorem anchored_leaf_included_witness:
  "\<exists>h t. hashLeaf sample_keccak sample_leaf = Inr h \<and> buildMerkleTree sample_keccak [h] = Inr t \<and>
     verifyMerkleProof sample_keccak h [] (root t) = Inr True \<and> sample_leaf \<in> set [sample_leaf]"
proof -
  obtain bs where bs: "leaf_bytes sample_leaf = Inr bs" "bs \<noteq> replicate 32 1" by (rule sample_leaf_bytes)
  let ?h = "keccak256 sample_keccak (sample_keccak bs)"
  have h: "hashLeaf sample_keccak sample_leaf = Inr ?h"
    using bs by (simp add: hashLeaf_Inr sample_leaf_valid)
  then have hs: "traverse (hashLeaf sample_keccak) [sample_leaf] = Inr [?h]" by simp
  let ?t = "\<lparr>root = ?h, layers = [[?h]], leafCount = 1\<rparr>"
  have t: "buildMerkleTree sample_keccak [?h] = Inr ?t"
    using sample_keccak_32 by (simp add: build_Inr_iff build_layers.simps keccak256_def)
  have v: "verifyMerkleProof sample_keccak ?h [] (root ?t) = Inr True"
    by (simp add: verifyMerkleProof_def)
  have n: "\<forall>n \<in> set []. isBytes32 n" by simp
  have inj: "inj_on sample_keccak (set (leaf_inputs sample_keccak (sample_leaf # [sample_leaf])) \<union>
      set (tree_inputs (layers ?t)) \<union> set (proof_inputs sample_keccak ?h []))"
    using bs by (auto simp: leaf_inputs_def tree_inputs_def inj_on_def sample_keccak_def replicate_eq_replicate)
  show ?thesis
    using h t v anchored_leaf_included [OF sample_keccak_32 hs t h v n inj] by blast
qed

end
